(* ===== verification/Cam_Prelude.thy ===== *)
theory Cam_Prelude
  imports Main "HOL-Library.Word"
begin

section \<open>Shared vocabulary of the camera kernel development\<close>

text \<open>
  This theory holds what every component of the development shares: the errno values the
  drivers return, the machine integer types, the kernel primitives that the sources use the
  way a C program uses its standard library (\<open>find_first_zero_bit\<close> on a bitmap, the
  in-place removal loops over linked lists, \<open>atomic_dec_and_test\<close>), and the generic lemmas on
  lists, finite sets and words that the component proofs rely on.

  A C function that returns an \<open>int\<close> status returns an \<^typ>\<open>int\<close> here, 0 for success and
  a negative errno for a failure, exactly as in the source.
\<close>

subsection \<open>Types and errno values\<close>

type_synonym u8 = "8 word"
type_synonym u32 = "32 word"
type_synonym u64 = "64 word"
type_synonym bitmap = "int \<Rightarrow> bool"

abbreviation EPERM :: int where "EPERM \<equiv> 1"
abbreviation ENOENT :: int where "ENOENT \<equiv> 2"
abbreviation ENOMEM :: int where "ENOMEM \<equiv> 12"
abbreviation EFAULT :: int where "EFAULT \<equiv> 14"
abbreviation EEXIST :: int where "EEXIST \<equiv> 17"
abbreviation ENODEV :: int where "ENODEV \<equiv> 19"
abbreviation EINVAL :: int where "EINVAL \<equiv> 22"
abbreviation ENOMSG :: int where "ENOMSG \<equiv> 42"
abbreviation ENOSR :: int where "ENOSR \<equiv> 63"
abbreviation EADV :: int where "EADV \<equiv> 68"
abbreviation EBADFD :: int where "EBADFD \<equiv> 77"
abbreviation ETIMEDOUT :: int where "ETIMEDOUT \<equiv> 110"
abbreviation EALREADY :: int where "EALREADY \<equiv> 114"
abbreviation ECANCELED :: int where "ECANCELED \<equiv> 125"
abbreviation ENOIOCTLCMD :: int where "ENOIOCTLCMD \<equiv> 515"

named_theorems cam_simps \<open>equations that unfold the operations of a component\<close>
named_theorems cam_inv \<open>facts that an operation preserves the invariant of its component\<close>
named_theorems cam_frame \<open>facts that an operation leaves a part of the state alone\<close>

subsection \<open>Bitmaps\<close>

text \<open>
  \<open>find_first_zero_bit(bm, n)\<close> returns the least index below \<open>n\<close> whose bit is clear and
  \<open>n\<close> when there is none.
\<close>

fun zero_bit_from :: "nat \<Rightarrow> bitmap \<Rightarrow> int \<Rightarrow> int" where
  "zero_bit_from 0 bm i = i"
| "zero_bit_from (Suc k) bm i = (if bm i then zero_bit_from k bm (i + 1) else i)"

definition find_first_zero_bit :: "bitmap \<Rightarrow> int \<Rightarrow> int" where
  "find_first_zero_bit bm n = zero_bit_from (nat n) bm 0"

definition set_bit_at :: "int \<Rightarrow> bitmap \<Rightarrow> bitmap" where
  "set_bit_at i bm = bm(i := True)"

definition clear_bit_at :: "int \<Rightarrow> bitmap \<Rightarrow> bitmap" where
  "clear_bit_at i bm = bm(i := False)"

lemma set_bit_at_apply [simp]: "set_bit_at i bm j = (j = i \<or> bm j)"
  by (simp add: set_bit_at_def)

lemma clear_bit_at_apply [simp]: "clear_bit_at i bm j = (j \<noteq> i \<and> bm j)"
  by (simp add: clear_bit_at_def)

lemma zero_bit_from_step:
  "0 < k \<Longrightarrow> zero_bit_from k bm i = (if bm i then zero_bit_from (k - 1) bm (i + 1) else i)"
  by (cases k) auto

lemma zero_bit_from_bounds: "i \<le> zero_bit_from k bm i \<and> zero_bit_from k bm i \<le> i + int k"
proof (induction k arbitrary: i)
  case (Suc k)
  show ?case using Suc.IH [of "i + 1"] by simp
qed simp

lemma zero_bit_from_before: "i \<le> j \<Longrightarrow> j < zero_bit_from k bm i \<Longrightarrow> bm j"
proof (induction k arbitrary: i)
  case (Suc k)
  show ?case
  proof (cases "j = i")
    case True
    with Suc.prems show ?thesis by (auto split: if_splits)
  next
    case False
    with Suc.prems show ?thesis by (intro Suc.IH [of "i + 1"]) (auto split: if_splits)
  qed
qed simp

lemma zero_bit_from_free: "zero_bit_from k bm i < i + int k \<Longrightarrow> \<not> bm (zero_bit_from k bm i)"
  by (induction k arbitrary: i) (auto split: if_splits)

lemma find_first_zero_bit_ge [simp]: "0 \<le> find_first_zero_bit bm n"
  using zero_bit_from_bounds [of 0 "nat n" bm] by (simp add: find_first_zero_bit_def)

lemma find_first_zero_bit_le: "0 \<le> n \<Longrightarrow> find_first_zero_bit bm n \<le> n"
  using zero_bit_from_bounds [of 0 "nat n" bm] by (simp add: find_first_zero_bit_def)

lemma find_first_zero_bit_free:
  "find_first_zero_bit bm n < n \<Longrightarrow> \<not> bm (find_first_zero_bit bm n)"
  using zero_bit_from_free [of "nat n" bm 0] find_first_zero_bit_ge [of bm n]
  by (simp add: find_first_zero_bit_def)

lemma find_first_zero_bit_least:
  "0 \<le> j \<Longrightarrow> j < find_first_zero_bit bm n \<Longrightarrow> bm j"
  by (simp add: find_first_zero_bit_def zero_bit_from_before)

lemma find_first_zero_bit_full:
  assumes "0 \<le> n"
  shows "n \<le> find_first_zero_bit bm n \<longleftrightarrow> (\<forall>j. 0 \<le> j \<and> j < n \<longrightarrow> bm j)" (is "?l = ?r")
proof
  assume ?l
  then show ?r
    using find_first_zero_bit_least [of _ bm n] by (meson less_le_trans)
next
  assume ?r
  then show ?l
    using find_first_zero_bit_free [of bm n] find_first_zero_bit_ge [of bm n]
    by (meson not_le)
qed

lemma find_first_zero_bit_unique:
  assumes "0 \<le> i" "i < n" "\<not> bm i" "\<And>j. 0 \<le> j \<Longrightarrow> j < i \<Longrightarrow> bm j"
  shows "find_first_zero_bit bm n = i"
proof (rule ccontr)
  assume "find_first_zero_bit bm n \<noteq> i"
  then consider "find_first_zero_bit bm n < i" | "i < find_first_zero_bit bm n" by linarith
  then show False
  proof cases
    case 1
    then show False
      using assms find_first_zero_bit_free [of bm n] find_first_zero_bit_ge [of bm n] by force
  next
    case 2
    then show False using assms find_first_zero_bit_least [of i bm n] by blast
  qed
qed

subsection \<open>Atomic counters\<close>

text \<open>\<open>atomic_t\<close> is a 32-bit counter that wraps; \<open>atomic_dec_and_test\<close> decrements it and says
  whether it reached zero.\<close>

definition atomic_dec_and_test :: "u32 \<Rightarrow> bool \<times> u32" where
  "atomic_dec_and_test v = (v - 1 = 0, v - 1)"

lemma atomic_dec_and_test_iff [simp]: "fst (atomic_dec_and_test v) \<longleftrightarrow> v = 1"
  by (simp add: atomic_dec_and_test_def)

lemma snd_atomic_dec_and_test [simp]: "snd (atomic_dec_and_test v) = v - 1"
  by (simp add: atomic_dec_and_test_def)

subsection \<open>Words and finite sets\<close>

lemma unat_dec: "v \<noteq> 0 \<Longrightarrow> unat (v - 1) = unat (v :: u32) - 1"
  by (simp add: unat_minus_one)

lemma unat_inc: "unat (v :: u32) < 2 ^ 32 - 1 \<Longrightarrow> unat (v + 1) = unat v + 1"
  by (simp add: unat_word_ariths)

lemma unat_pos: "(v :: u32) \<noteq> 0 \<longleftrightarrow> 0 < unat v"
  by (simp add: unat_gt_0)

lemma remove1_last_in: "x \<notin> set xs \<Longrightarrow> remove1 x (xs @ [x]) = xs"
  by (simp add: remove1_append)

end
