(* ===== verification/Cam_Interfaces.thy ===== *)
theory Cam_Interfaces
  imports Cam_Prelude
begin

section \<open>Interfaces shared by the components\<close>

text \<open>
  The contracts that several components of the camera drivers offer to their clients, stated once
  as locales with the facts that follow from them. Each component theory interprets them on its own
  operations.

  \<^item> \<open>slot_table\<close>: a table of numbered slots with an operation that takes a free slot and one that gives
    a slot back; \<open>full_slot_table\<close> adds that taking fails only when no slot is free. The sync table,
    the dma fence table, the handle table and the buffer table are slot tables.
  \<^item> \<open>one_shot\<close>: an object that is signalled at most once: the first signal settles it, the later
    ones are refused. Sync objects and dma fences are one-shot objects.
\<close>

subsection \<open>Slot tables\<close>

locale slot_table =
  fixes inv :: "'s \<Rightarrow> bool"
    and used :: "'s \<Rightarrow> int \<Rightarrow> bool"
    and lo :: int and hi :: int
    and take_slot :: "'a \<Rightarrow> 's \<Rightarrow> int option \<times> 's"
    and give_slot :: "int \<Rightarrow> 's \<Rightarrow> 's"
  assumes used_range: "inv s \<Longrightarrow> used s i \<Longrightarrow> lo \<le> i \<and> i < hi"
    and take_inv: "inv s \<Longrightarrow> inv (snd (take_slot a s))"
    and take_Some: "inv s \<Longrightarrow> take_slot a s = (Some i, s') \<Longrightarrow>
           lo \<le> i \<and> i < hi \<and> \<not> used s i \<and> used s' = (used s)(i := True)"
    and take_None: "inv s \<Longrightarrow> take_slot a s = (None, s') \<Longrightarrow> used s' = used s"
    and give_inv: "inv s \<Longrightarrow> inv (give_slot i s)"
    and give_used: "inv s \<Longrightarrow> used (give_slot i s) = (used s)(i := False)"
begin

fun take_many :: "'a list \<Rightarrow> 's \<Rightarrow> int option list \<times> 's" where
  "take_many [] s = ([], s)"
| "take_many (a # as) s =
     (let (r, s1) = take_slot a s; (rs, s2) = take_many as s1 in (r # rs, s2))"

definition slots :: "'s \<Rightarrow> int set" where
  "slots s = {i. used s i}"

lemma slots_finite: "inv s \<Longrightarrow> finite (slots s) \<and> slots s \<subseteq> {lo..<hi}"
proof
  assume "inv s"
  then show "slots s \<subseteq> {lo..<hi}" using used_range by (auto simp: slots_def)
  then show "finite (slots s)" by (rule finite_subset) simp
qed

lemma slots_card: "inv s \<Longrightarrow> int (card (slots s)) \<le> max 0 (hi - lo)"
  using slots_finite [of s] card_mono [of "{lo..<hi}" "slots s"] by simp

lemma take_slots: "inv s \<Longrightarrow> take_slot a s = (Some i, s') \<Longrightarrow> i \<notin> slots s \<and> slots s' = insert i (slots s)"
  using take_Some [of s a i s'] by (auto simp: slots_def)

lemma take_give: "inv s \<Longrightarrow> take_slot a s = (Some i, s') \<Longrightarrow> used (give_slot i s') = used s"
  using take_Some [of s a i s'] take_inv [of s a] give_used [of s' i] by (auto simp: fun_eq_iff)

text \<open>Slots taken one after the other are pairwise different and were all free at the start.\<close>

lemma take_many_fresh:
  assumes "inv s" "take_many as s = (rs, s')"
  shows "inv s' \<and> distinct (map the (filter (\<lambda>r. r \<noteq> None) rs)) \<and>
         set (map the (filter (\<lambda>r. r \<noteq> None) rs)) \<inter> slots s = {} \<and>
         slots s' = slots s \<union> set (map the (filter (\<lambda>r. r \<noteq> None) rs)) \<and> length rs = length as"
  using assms
proof (induction as arbitrary: s rs)
  case (Cons a as)
  obtain r s1 where tk: "take_slot a s = (r, s1)" by fastforce
  obtain rs1 where many: "take_many as s1 = (rs1, s')" and rs: "rs = r # rs1"
    using Cons.prems(2) tk by (auto split: prod.splits)
  have i1: "inv s1" using take_inv [OF Cons.prems(1), of a] tk by simp
  note IH = Cons.IH [OF i1 many]
  show ?case
  proof (cases r)
    case None
    then have "slots s1 = slots s" using take_None [OF Cons.prems(1)] tk by (simp add: slots_def)
    with IH None show ?thesis by (simp add: rs)
  next
    case (Some i)
    from take_slots [OF Cons.prems(1) tk [unfolded Some]] IH show ?thesis by (auto simp: rs Some)
  qed
qed simp

end

locale full_slot_table = slot_table +
  assumes take_full: "inv s \<Longrightarrow> fst (take_slot a s) = None \<Longrightarrow> lo \<le> i \<Longrightarrow> i < hi \<Longrightarrow> used s i"
begin

lemma take_fails_iff:
  assumes "inv s"
  shows "fst (take_slot a s) = None \<longleftrightarrow> (\<forall>i. lo \<le> i \<and> i < hi \<longrightarrow> used s i)"
proof
  assume "\<forall>i. lo \<le> i \<and> i < hi \<longrightarrow> used s i"
  then show "fst (take_slot a s) = None"
    using take_Some [OF assms, of a] by (cases "take_slot a s"; cases "fst (take_slot a s)") auto
qed (use take_full [OF assms] in blast)

text \<open>The capacity: as many requests as there are free slots succeed, and then no more.\<close>

lemma take_many_capacity:
  assumes "inv s" "take_many as s = (rs, s')" "int (length as) \<le> hi - lo - int (card (slots s))"
  shows "None \<notin> set rs \<and> card (slots s') = card (slots s) + length as"
  using assms
proof (induction as arbitrary: s rs)
  case (Cons a as)
  obtain r s1 where tk: "take_slot a s = (r, s1)" by fastforce
  obtain rs1 where many: "take_many as s1 = (rs1, s')" and rs: "rs = r # rs1"
    using Cons.prems(2) tk by (auto split: prod.splits)
  have i1: "inv s1" using take_inv [OF Cons.prems(1), of a] tk by simp
  have "r \<noteq> None"
  proof
    assume "r = None"
    then have "{lo..<hi} \<subseteq> slots s"
      using take_full [OF Cons.prems(1), of a] tk by (auto simp: slots_def)
    then have "card {lo..<hi} \<le> card (slots s)"
      using slots_finite [OF Cons.prems(1)] by (simp add: card_mono)
    with Cons.prems(3) show False by simp
  qed
  then obtain i where r: "r = Some i" by auto
  from take_slots [OF Cons.prems(1) tk [unfolded r]]
  have c: "card (slots s1) = card (slots s) + 1" using slots_finite [OF Cons.prems(1)] by simp
  have le: "int (length as) \<le> hi - lo - int (card (slots s1))" using Cons.prems(3) by (simp add: c)
  from Cons.IH [OF i1 many le] c show ?case by (simp add: rs r)
qed simp

lemma take_exhausted:
  assumes "inv s" "int (card (slots s)) = hi - lo"
  shows "fst (take_slot a s) = None"
proof -
  have "lo \<le> hi" using assms(2) by linarith
  then have "card (slots s) = card {lo..<hi}" using assms(2) by simp
  then have "slots s = {lo..<hi}"
    using slots_finite [OF assms(1)] by (intro card_subset_eq) auto
  then show ?thesis using take_fails_iff [OF assms(1)] by (auto simp: slots_def)
qed

end

subsection \<open>One-shot objects\<close>

locale one_shot =
  fixes inv :: "'s \<Rightarrow> bool"
    and pending :: "'s \<Rightarrow> bool"
    and verdict :: "'s \<Rightarrow> 'w"
    and outcome :: "'v \<Rightarrow> 'w"
    and valid :: "'v \<Rightarrow> bool"
    and signal :: "'v \<Rightarrow> 's \<Rightarrow> 's"
  assumes signal_inv: "inv s \<Longrightarrow> inv (signal v s)"
    and signal_first: "inv s \<Longrightarrow> pending s \<Longrightarrow> valid v \<Longrightarrow> \<not> pending (signal v s) \<and> verdict (signal v s) = outcome v"
    and signal_invalid: "inv s \<Longrightarrow> pending s \<Longrightarrow> \<not> valid v \<Longrightarrow> signal v s = s"
    and signal_again: "inv s \<Longrightarrow> \<not> pending s \<Longrightarrow> signal v s = s"
begin

lemma signals_again: "inv s \<Longrightarrow> \<not> pending s \<Longrightarrow> fold signal vs s = s"
  by (induction vs) (simp_all add: signal_again)

text \<open>Of a sequence of signals the first valid one decides.\<close>

lemma first_signal_wins:
  assumes "inv s" "pending s"
  shows "case filter valid vs of
           [] \<Rightarrow> fold signal vs s = s
         | v # _ \<Rightarrow> \<not> pending (fold signal vs s) \<and> verdict (fold signal vs s) = outcome v \<and> fold signal vs s = signal v s"
  using assms
proof (induction vs)
  case (Cons v vs)
  show ?case
  proof (cases "valid v")
    case True
    with Cons.prems signal_first [of s v] signals_again [OF signal_inv [OF Cons.prems(1), of v], of vs]
    show ?thesis by simp
  next
    case False
    with Cons signal_invalid [of s v] show ?thesis by (auto split: list.splits)
  qed
qed simp

end

end
