(* ===== verification/Cam_Dma_Fence.thy ===== *)
theory Cam_Dma_Fence
  imports Cam_Interfaces
begin

section \<open>The camera DMA fence table\<close>

text \<open>
  Model of \<open>camera-kernel/drivers/cam_sync/cam_sync_dma_fence.c\<close>: the table of at most
  \<open>CAM_DMA_FENCE_MAX_FENCES\<close> rows that ties a file descriptor to a Linux dma fence and to the
  camera sync object that has to be signalled with it.

  The dma-fence and sync-file core of the Linux kernel is not part of the sources. It is the
  parameter \<open>A\<close> of type \<open>'x dma_fence_core\<close>, a record of the operations the driver calls over
  an opaque core state \<open>'x\<close>. A fence is named by a natural number (its address); a callback
  that the driver registers on a fence is named by the index of the row whose \<open>fence_cb\<close> it is.
  \<open>core_signal\<close> returns, besides its status, the rows whose callbacks the core runs; running
  them is the driver's code (\<open>dma_fence_signal_cb\<close>). That code calls back into the sync
  driver, which never reads or writes the fence table, so an operation here returns the list
  of such calls, in order, and the sync driver's model performs them at that point.

  The row spinlocks and the device mutex only serialise the operations: an operation is one
  atomic step here. Where the source dereferences the fence pointer of a live row, the model
  has a branch for NULL that changes nothing in the core; the invariant \<open>dma_wf\<close> shows that no
  run reaches it.
\<close>

subsection \<open>The Linux fence core, a parameter\<close>

type_synonym fence = nat

record 'x dma_fence_core =
  core_get :: "fence \<Rightarrow> 'x \<Rightarrow> 'x"
  core_put :: "fence \<Rightarrow> 'x \<Rightarrow> 'x"
  core_is_signaled :: "fence \<Rightarrow> 'x \<Rightarrow> bool"
  core_set_error :: "fence \<Rightarrow> int \<Rightarrow> 'x \<Rightarrow> 'x"
  core_signal :: "fence \<Rightarrow> 'x \<Rightarrow> int \<times> int list \<times> 'x"
  core_get_status_locked :: "fence \<Rightarrow> 'x \<Rightarrow> int"
  core_add_callback :: "fence \<Rightarrow> int \<Rightarrow> 'x \<Rightarrow> int \<times> 'x"
  core_remove_callback :: "fence \<Rightarrow> int \<Rightarrow> 'x \<Rightarrow> 'x"
  core_alloc_lock :: "'x \<Rightarrow> bool \<times> 'x"
  core_free_lock :: "'x \<Rightarrow> 'x"
  core_alloc_fence :: "'x \<Rightarrow> fence option \<times> 'x"
  core_fence_init :: "fence \<Rightarrow> u64 \<Rightarrow> 'x \<Rightarrow> 'x"
  core_get_unused_fd :: "'x \<Rightarrow> int \<times> 'x"
  core_put_unused_fd :: "int \<Rightarrow> 'x \<Rightarrow> 'x"
  core_sync_file_create :: "fence \<Rightarrow> 'x \<Rightarrow> nat option \<times> 'x"
  core_fd_install :: "int \<Rightarrow> nat \<Rightarrow> 'x \<Rightarrow> 'x"
  core_sync_file_get_fence :: "int \<Rightarrow> 'x \<Rightarrow> fence option \<times> 'x"
  core_driver_name :: "fence \<Rightarrow> 'x \<Rightarrow> string"

subsection \<open>Rows and device\<close>

abbreviation CAM_DMA_FENCE_MAX_FENCES :: int where "CAM_DMA_FENCE_MAX_FENCES \<equiv> 128"
abbreviation CAM_DMA_FENCE_NAME_LEN :: nat where "CAM_DMA_FENCE_NAME_LEN \<equiv> 128"

datatype cam_dma_fence_state =
    CAM_DMA_FENCE_STATE_INVALID
  | CAM_DMA_FENCE_STATE_ACTIVE
  | CAM_DMA_FENCE_STATE_SIGNALED

text \<open>A function pointer of type \<open>cam_sync_callback_for_dma_fence\<close> is a number, NULL is
  \<^const>\<open>None\<close>.\<close>

type_synonym cb_fn = nat

record cam_dma_fence_row =
  dfr_name :: string
  dfr_fence :: "fence option"
  dfr_fd :: int
  dfr_state :: cam_dma_fence_state
  dfr_sync_obj :: int
  dfr_sync_cb :: "cb_fn option"
  dfr_cb_registered_for_sync :: bool
  dfr_ext_dma_fence :: bool
  dfr_sync_signal_dma :: bool

record 'x cam_dma_fence_device =
  dfd_rows :: "int \<Rightarrow> cam_dma_fence_row"
  dfd_bitmap :: bitmap
  dfd_seq_no :: u64
  dfd_core :: 'x

text \<open>\<open>struct cam_dma_fence_signal\<close>, the payload of a signal request, and the call of a
  row's \<open>sync_cb\<close> with its \<open>struct cam_dma_fence_signal_sync_obj\<close>.\<close>

record cam_dma_fence_signal =
  sig_dma_fence_fd :: int
  sig_status :: int

record sync_cb_call =
  call_fn :: cb_fn
  call_sync_obj :: int
  call_fd :: int
  call_status :: int

text \<open>The union of \<open>struct cam_dma_fence_release_params\<close>, tagged by \<open>use_row_idx\<close>.\<close>

datatype cam_dma_fence_release_params = Release_row_idx int | Release_fd int

definition zero_dma_row :: cam_dma_fence_row where
  "zero_dma_row = \<lparr>dfr_name = '''', dfr_fence = None, dfr_fd = 0,
     dfr_state = CAM_DMA_FENCE_STATE_INVALID, dfr_sync_obj = 0, dfr_sync_cb = None,
     dfr_cb_registered_for_sync = False, dfr_ext_dma_fence = False,
     dfr_sync_signal_dma = False\<rparr>"

definition upd_dma_row ::
  "int \<Rightarrow> (cam_dma_fence_row \<Rightarrow> cam_dma_fence_row) \<Rightarrow> 'x cam_dma_fence_device
   \<Rightarrow> 'x cam_dma_fence_device" where
  "upd_dma_row i f d = d\<lparr>dfd_rows := (dfd_rows d)(i := f (dfd_rows d i))\<rparr>"

definition upd_core :: "('x \<Rightarrow> 'x) \<Rightarrow> 'x cam_dma_fence_device \<Rightarrow> 'x cam_dma_fence_device" where
  "upd_core f d = d\<lparr>dfd_core := f (dfd_core d)\<rparr>"

subsection \<open>Operations\<close>

definition dma_fence_find_free_idx ::
  "'x cam_dma_fence_device \<Rightarrow> int \<times> int \<times> 'x cam_dma_fence_device" where
  "dma_fence_find_free_idx d =
     (let idx = find_first_zero_bit (dfd_bitmap d) CAM_DMA_FENCE_MAX_FENCES
      in if idx < CAM_DMA_FENCE_MAX_FENCES
         then (0, idx, d\<lparr>dfd_bitmap := set_bit_at idx (dfd_bitmap d)\<rparr>)
         else (- ENOMEM, idx, d))"

fun find_fence_loop :: "nat \<Rightarrow> int \<Rightarrow> int \<Rightarrow> (int \<Rightarrow> cam_dma_fence_row) \<Rightarrow> (int \<times> fence option) option" where
  "find_fence_loop 0 i fd rows = None"
| "find_fence_loop (Suc k) i fd rows =
     (if dfr_state (rows i) \<noteq> CAM_DMA_FENCE_STATE_INVALID \<and> dfr_fd (rows i) = fd
      then Some (i, dfr_fence (rows i))
      else find_fence_loop k (i + 1) fd rows)"

text \<open>Returns the row index and the fence of the first live row with that fd; a row whose
  fence pointer is NULL yields no fence (the callers test \<open>IS_ERR_OR_NULL\<close>).\<close>

definition dma_fence_find_fence_in_table ::
  "int \<Rightarrow> 'x cam_dma_fence_device \<Rightarrow> (int \<times> fence) option" where
  "dma_fence_find_fence_in_table fd d =
     (case find_fence_loop (nat CAM_DMA_FENCE_MAX_FENCES) 0 fd (dfd_rows d) of
        Some (i, Some f) \<Rightarrow> Some (i, f)
      | _ \<Rightarrow> None)"

definition dma_fence_init_row ::
  "string \<Rightarrow> fence \<Rightarrow> int \<Rightarrow> int \<Rightarrow> bool \<Rightarrow> 'x cam_dma_fence_device \<Rightarrow> 'x cam_dma_fence_device" where
  "dma_fence_init_row name fence fd idx ext d =
     upd_dma_row idx (\<lambda>_. zero_dma_row\<lparr>dfr_fence := Some fence, dfr_fd := fd,
       dfr_state := CAM_DMA_FENCE_STATE_ACTIVE, dfr_ext_dma_fence := ext,
       dfr_name := take (CAM_DMA_FENCE_NAME_LEN - 1) name\<rparr>) d"

definition dma_fence_signal_cb ::
  "'x dma_fence_core \<Rightarrow> fence \<Rightarrow> int \<Rightarrow> 'x cam_dma_fence_device
   \<Rightarrow> sync_cb_call list \<times> 'x cam_dma_fence_device" where
  "dma_fence_signal_cb A fence idx d =
     (let row = dfd_rows d idx in
      if dfr_state row = CAM_DMA_FENCE_STATE_INVALID then ([], d)
      else if dfr_sync_signal_dma row then ([], d)
      else (case dfr_sync_cb row of
          Some cb \<Rightarrow>
            if dfr_cb_registered_for_sync row then
              ([\<lparr>call_fn = cb, call_sync_obj = dfr_sync_obj row, call_fd = dfr_fd row,
                 call_status = core_get_status_locked A fence (dfd_core d)\<rparr>],
               upd_dma_row idx (\<lambda>r. r\<lparr>dfr_state := CAM_DMA_FENCE_STATE_SIGNALED\<rparr>) d)
            else ([], d)
        | None \<Rightarrow> ([], d)))"

fun run_fence_cbs ::
  "'x dma_fence_core \<Rightarrow> fence \<Rightarrow> int list \<Rightarrow> 'x cam_dma_fence_device
   \<Rightarrow> sync_cb_call list \<times> 'x cam_dma_fence_device" where
  "run_fence_cbs A fence [] d = ([], d)"
| "run_fence_cbs A fence (i # is) d =
     (let (cs, d1) = dma_fence_signal_cb A fence i d; (cs', d2) = run_fence_cbs A fence is d1
      in (cs @ cs', d2))"

definition dma_fence_signal_fence ::
  "'x dma_fence_core \<Rightarrow> fence \<Rightarrow> int \<Rightarrow> 'x cam_dma_fence_device
   \<Rightarrow> int \<times> sync_cb_call list \<times> 'x cam_dma_fence_device" where
  "dma_fence_signal_fence A fence status d =
     (if core_is_signaled A fence (dfd_core d) then (0, [], d)
      else
        let d1 = (if status \<noteq> 0 then upd_core (core_set_error A fence status) d else d);
            (rc, cbs, x) = core_signal A fence (dfd_core d1);
            (cs, d2) = run_fence_cbs A fence cbs (d1\<lparr>dfd_core := x\<rparr>)
        in (rc, cs, d2))"

definition cam_dma_fence_get_put_ref ::
  "'x dma_fence_core \<Rightarrow> bool \<Rightarrow> int \<Rightarrow> 'x cam_dma_fence_device \<Rightarrow> int \<times> 'x cam_dma_fence_device" where
  "cam_dma_fence_get_put_ref A get_or_put idx d =
     (if idx < 0 \<or> CAM_DMA_FENCE_MAX_FENCES \<le> idx then (- EINVAL, d)
      else let row = dfd_rows d idx in
        if dfr_state row = CAM_DMA_FENCE_STATE_INVALID then (- EINVAL, d)
        else (case dfr_fence row of
            None \<Rightarrow> (0, d)
          | Some f \<Rightarrow>
              (0, upd_core (if get_or_put then core_get A f else core_put A f) d)))"

definition cam_dma_fence_get_fence_from_sync_file ::
  "'x dma_fence_core \<Rightarrow> int \<Rightarrow> 'x cam_dma_fence_device
   \<Rightarrow> (int \<times> fence) option \<times> 'x cam_dma_fence_device" where
  "cam_dma_fence_get_fence_from_sync_file A fd d =
     (let (fo, x) = core_sync_file_get_fence A fd (dfd_core d); d1 = d\<lparr>dfd_core := x\<rparr> in
      case fo of
        None \<Rightarrow> (None, d1)
      | Some f \<Rightarrow>
          (let (rc, idx, d2) = dma_fence_find_free_idx d1 in
           if rc \<noteq> 0 then (None, upd_core (core_put A f) d2)
           else (Some (idx, f),
                 dma_fence_init_row (core_driver_name A f (dfd_core d2)) f fd idx True d2)))"

definition cam_dma_fence_get_fence_from_fd ::
  "'x dma_fence_core \<Rightarrow> int \<Rightarrow> 'x cam_dma_fence_device
   \<Rightarrow> (int \<times> fence) option \<times> 'x cam_dma_fence_device" where
  "cam_dma_fence_get_fence_from_fd A fd d =
     (case dma_fence_find_fence_in_table fd d of
        None \<Rightarrow> cam_dma_fence_get_fence_from_sync_file A fd d
      | Some (idx, f) \<Rightarrow> (Some (idx, f), upd_core (core_get A f) d))"

definition cam_dma_fence_register_cb ::
  "'x dma_fence_core \<Rightarrow> int option \<Rightarrow> int option \<Rightarrow> cb_fn option \<Rightarrow> 'x cam_dma_fence_device
   \<Rightarrow> int \<times> 'x cam_dma_fence_device" where
  "cam_dma_fence_register_cb A sync_obj dma_fence_idx sync_cb d =
     (case (sync_obj, dma_fence_idx, sync_cb) of
        (Some so, Some idx, Some cb) \<Rightarrow>
          (if idx < 0 \<or> CAM_DMA_FENCE_MAX_FENCES \<le> idx then (- EINVAL, d)
           else let row = dfd_rows d idx in
             if dfr_state row \<noteq> CAM_DMA_FENCE_STATE_ACTIVE then (- EINVAL, d)
             else if dfr_cb_registered_for_sync row then (0, d)
             else (case dfr_fence row of
                 None \<Rightarrow> (- EINVAL, d)
               | Some f \<Rightarrow>
                   (let (rc, x) = core_add_callback A f idx (dfd_core d);
                        d1 = d\<lparr>dfd_core := x\<rparr>
                    in if rc \<noteq> 0 then (rc, d1)
                       else (0, upd_dma_row idx (\<lambda>r. r\<lparr>dfr_cb_registered_for_sync := True,
                                  dfr_sync_obj := so, dfr_sync_cb := Some cb\<rparr>) d1))))
      | _ \<Rightarrow> (- EINVAL, d))"

definition cam_dma_fence_internal_signal ::
  "'x dma_fence_core \<Rightarrow> int \<Rightarrow> cam_dma_fence_signal \<Rightarrow> 'x cam_dma_fence_device
   \<Rightarrow> int \<times> sync_cb_call list \<times> 'x cam_dma_fence_device" where
  "cam_dma_fence_internal_signal A idx sig d =
     (if idx < 0 \<or> CAM_DMA_FENCE_MAX_FENCES \<le> idx then (- EINVAL, [], d)
      else
        let d1 = upd_dma_row idx (\<lambda>r. r\<lparr>dfr_sync_signal_dma := True\<rparr>) d;
            row = dfd_rows d1 idx
        in case dfr_fence row of
             None \<Rightarrow> (- EINVAL, [], d1)
           | Some f \<Rightarrow>
               if dfr_state row = CAM_DMA_FENCE_STATE_SIGNALED then (0, [], d1)
               else
                 let (rc, cs, d2) = dma_fence_signal_fence A f (sig_status sig) d1
                 in (rc, cs,
                     upd_dma_row idx (\<lambda>r. r\<lparr>dfr_state := CAM_DMA_FENCE_STATE_SIGNALED\<rparr>) d2))"

definition cam_dma_fence_signal_fd ::
  "'x dma_fence_core \<Rightarrow> cam_dma_fence_signal \<Rightarrow> 'x cam_dma_fence_device
   \<Rightarrow> int \<times> sync_cb_call list \<times> 'x cam_dma_fence_device" where
  "cam_dma_fence_signal_fd A sig d =
     (case dma_fence_find_fence_in_table (sig_dma_fence_fd sig) d of
        None \<Rightarrow> (- EINVAL, [], d)
      | Some (idx, f) \<Rightarrow>
          let row = dfd_rows d idx in
          if dfr_state row = CAM_DMA_FENCE_STATE_INVALID then (- EINVAL, [], d)
          else if dfr_state row = CAM_DMA_FENCE_STATE_SIGNALED then (0, [], d)
          else
            let (rc, cs, d1) = dma_fence_signal_fence A f (sig_status sig) d
            in (rc, cs,
                upd_dma_row idx (\<lambda>r. r\<lparr>dfr_state := CAM_DMA_FENCE_STATE_SIGNALED\<rparr>) d1))"

text \<open>\<open>__cam_dma_fence_get_fd\<close>: a negative fd on every failure; the row index it took is
  given back.\<close>

definition dma_fence_get_fd ::
  "'x dma_fence_core \<Rightarrow> string \<Rightarrow> 'x cam_dma_fence_device
   \<Rightarrow> int \<times> int \<times> 'x cam_dma_fence_device" where
  "dma_fence_get_fd A name d =
     (let (rc, idx, d1) = dma_fence_find_free_idx d;
          free_idx = (\<lambda>e. e\<lparr>dfd_bitmap := clear_bit_at idx (dfd_bitmap e)\<rparr>)
      in if rc \<noteq> 0 then (-1, idx, d1)
      else let (ok, x1) = core_alloc_lock A (dfd_core d1); d2 = d1\<lparr>dfd_core := x1\<rparr> in
      if \<not> ok then (-1, idx, free_idx d2)
      else let (fo, x2) = core_alloc_fence A (dfd_core d2); d3 = d2\<lparr>dfd_core := x2\<rparr> in
      case fo of
        None \<Rightarrow> (-1, idx, free_idx (upd_core (core_free_lock A) d3))
      | Some f \<Rightarrow>
        let d4 = upd_core (core_fence_init A f (dfd_seq_no d3 + 1))
                   (d3\<lparr>dfd_seq_no := dfd_seq_no d3 + 1\<rparr>);
            (fd, x5) = core_get_unused_fd A (dfd_core d4); d5 = d4\<lparr>dfd_core := x5\<rparr>
        in if fd < 0 then (fd, idx, free_idx (upd_core (core_put A f) d5))
        else let (sfo, x6) = core_sync_file_create A f (dfd_core d5); d6 = d5\<lparr>dfd_core := x6\<rparr> in
        case sfo of
          None \<Rightarrow> (-1, idx, free_idx (upd_core (core_put A f) (upd_core (core_put_unused_fd A fd) d6)))
        | Some sf \<Rightarrow>
            (fd, idx, dma_fence_init_row name f fd idx False (upd_core (core_fd_install A fd sf) d6)))"

text \<open>\<open>cam_dma_fence_create_fd\<close> with its two output pointers non-NULL, as all its callers pass
  them: on success the new fd and row index.\<close>

definition cam_dma_fence_create_fd ::
  "'x dma_fence_core \<Rightarrow> string \<Rightarrow> 'x cam_dma_fence_device
   \<Rightarrow> int \<times> (int \<times> int) option \<times> 'x cam_dma_fence_device" where
  "cam_dma_fence_create_fd A name d =
     (let (fd, idx, d1) = dma_fence_get_fd A name d
      in if fd < 0 then (- EBADFD, None, d1) else (0, Some (fd, idx), d1))"

definition dma_fence_deinit_row :: "int \<Rightarrow> 'x cam_dma_fence_device \<Rightarrow> 'x cam_dma_fence_device" where
  "dma_fence_deinit_row idx d =
     (upd_dma_row idx (\<lambda>_. zero_dma_row) d)\<lparr>dfd_bitmap := clear_bit_at idx (dfd_bitmap d)\<rparr>"

definition dma_fence_release ::
  "'x dma_fence_core \<Rightarrow> int \<Rightarrow> 'x cam_dma_fence_device
   \<Rightarrow> int \<times> sync_cb_call list \<times> 'x cam_dma_fence_device" where
  "dma_fence_release A idx d =
     (let row = dfd_rows d idx in
      if dfr_state row = CAM_DMA_FENCE_STATE_INVALID then (- EINVAL, [], d)
      else case dfr_fence row of
          None \<Rightarrow> (0, [], dma_fence_deinit_row idx d)
        | Some f \<Rightarrow>
            let (cs, d1) =
                  (if dfr_state row = CAM_DMA_FENCE_STATE_ACTIVE
                   then (let (_, cs, d1) = dma_fence_signal_fence A f (- ECANCELED) d in (cs, d1))
                   else ([], d))
            in (0, cs, dma_fence_deinit_row idx (upd_core (core_put A f) d1)))"

definition dma_fence_release_fd ::
  "'x dma_fence_core \<Rightarrow> int \<Rightarrow> 'x cam_dma_fence_device
   \<Rightarrow> int \<times> sync_cb_call list \<times> 'x cam_dma_fence_device" where
  "dma_fence_release_fd A fd d =
     (case dma_fence_find_fence_in_table fd d of
        None \<Rightarrow> (- EINVAL, [], d)
      | Some (idx, _) \<Rightarrow> dma_fence_release A idx d)"

definition dma_fence_release_row ::
  "'x dma_fence_core \<Rightarrow> int \<Rightarrow> 'x cam_dma_fence_device
   \<Rightarrow> int \<times> sync_cb_call list \<times> 'x cam_dma_fence_device" where
  "dma_fence_release_row A idx d =
     (if idx < 0 \<or> CAM_DMA_FENCE_MAX_FENCES \<le> idx then (- EINVAL, [], d)
      else dma_fence_release A idx d)"

fun cam_dma_fence_release ::
  "'x dma_fence_core \<Rightarrow> cam_dma_fence_release_params \<Rightarrow> 'x cam_dma_fence_device
   \<Rightarrow> int \<times> sync_cb_call list \<times> 'x cam_dma_fence_device" where
  "cam_dma_fence_release A (Release_row_idx i) d = dma_fence_release_row A i d"
| "cam_dma_fence_release A (Release_fd fd) d = dma_fence_release_fd A fd d"

definition dma_fence_close_row ::
  "'x dma_fence_core \<Rightarrow> int \<Rightarrow> 'x cam_dma_fence_device
   \<Rightarrow> sync_cb_call list \<times> 'x cam_dma_fence_device" where
  "dma_fence_close_row A i d =
     (let row = dfd_rows d i in
      if dfr_state row = CAM_DMA_FENCE_STATE_INVALID then ([], d)
      else case dfr_fence row of
          None \<Rightarrow> ([], dma_fence_deinit_row i d)
        | Some f \<Rightarrow>
            let d1 = (if dfr_cb_registered_for_sync row
                      then upd_core (core_remove_callback A f i) d else d);
                (cs, d2) =
                  (if dfr_ext_dma_fence row then ([], d1)
                   else
                     let (cs, d') =
                           (if dfr_state row \<noteq> CAM_DMA_FENCE_STATE_SIGNALED
                            then (let (_, cs, d') = dma_fence_signal_fence A f (- EADV) d1
                                  in (cs, d'))
                            else ([], d1))
                     in (cs, upd_core (core_put A f) d'))
            in (cs, dma_fence_deinit_row i d2))"

fun dma_fence_close_loop ::
  "'x dma_fence_core \<Rightarrow> nat \<Rightarrow> int \<Rightarrow> 'x cam_dma_fence_device
   \<Rightarrow> sync_cb_call list \<times> 'x cam_dma_fence_device" where
  "dma_fence_close_loop A 0 i d = ([], d)"
| "dma_fence_close_loop A (Suc k) i d =
     (let (cs, d1) = dma_fence_close_row A i d; (cs', d2) = dma_fence_close_loop A k (i + 1) d1
      in (cs @ cs', d2))"

definition cam_dma_fence_close ::
  "'x dma_fence_core \<Rightarrow> 'x cam_dma_fence_device \<Rightarrow> sync_cb_call list \<times> 'x cam_dma_fence_device" where
  "cam_dma_fence_close A d = dma_fence_close_loop A (nat CAM_DMA_FENCE_MAX_FENCES) 0 d"

definition cam_dma_fence_open :: "'x cam_dma_fence_device \<Rightarrow> 'x cam_dma_fence_device" where
  "cam_dma_fence_open d = d\<lparr>dfd_seq_no := 0\<rparr>"

text \<open>\<open>cam_dma_fence_driver_init\<close>: NULL (\<^const>\<open>None\<close>) when the allocation of the device fails.\<close>

definition cam_dma_fence_driver_init ::
  "bool \<Rightarrow> u64 \<Rightarrow> 'x \<Rightarrow> int \<times> 'x cam_dma_fence_device option" where
  "cam_dma_fence_driver_init alloc_ok seq x =
     (if \<not> alloc_ok then (- ENOMEM, None)
      else (0, Some \<lparr>dfd_rows = (\<lambda>_. zero_dma_row), dfd_bitmap = (\<lambda>_. False),
                     dfd_seq_no = seq, dfd_core = x\<rparr>))"

subsection \<open>The table invariant\<close>

text \<open>A row is live exactly when its bit is set, only rows inside the table are live, and
  exactly the live rows have a fence.\<close>

definition dma_wf :: "'x cam_dma_fence_device \<Rightarrow> bool" where
  "dma_wf d \<longleftrightarrow>
     (\<forall>i. dfr_state (dfd_rows d i) \<noteq> CAM_DMA_FENCE_STATE_INVALID \<longrightarrow>
          0 \<le> i \<and> i < CAM_DMA_FENCE_MAX_FENCES) \<and>
     (\<forall>i. dfr_fence (dfd_rows d i) = None \<longleftrightarrow>
          dfr_state (dfd_rows d i) = CAM_DMA_FENCE_STATE_INVALID) \<and>
     (\<forall>i. 0 \<le> i \<and> i < CAM_DMA_FENCE_MAX_FENCES \<longrightarrow>
          dfd_bitmap d i = (dfr_state (dfd_rows d i) \<noteq> CAM_DMA_FENCE_STATE_INVALID))"

text \<open>What a signal may do to the table: some live rows become signalled, nothing else.\<close>

definition row_signal :: "cam_dma_fence_row \<Rightarrow> cam_dma_fence_row \<Rightarrow> bool" where
  "row_signal r r' \<longleftrightarrow> r' = r \<or>
     dfr_state r \<noteq> CAM_DMA_FENCE_STATE_INVALID \<and>
     r' = r\<lparr>dfr_state := CAM_DMA_FENCE_STATE_SIGNALED\<rparr>"

definition signal_frame :: "'x cam_dma_fence_device \<Rightarrow> 'x cam_dma_fence_device \<Rightarrow> bool" where
  "signal_frame d d' \<longleftrightarrow>
     dfd_bitmap d' = dfd_bitmap d \<and> dfd_seq_no d' = dfd_seq_no d \<and>
     (\<forall>i. row_signal (dfd_rows d i) (dfd_rows d' i))"

lemma upd_dma_row_simps [simp]:
  "dfd_rows (upd_dma_row i f d) = (dfd_rows d)(i := f (dfd_rows d i))"
  "dfd_bitmap (upd_dma_row i f d) = dfd_bitmap d"
  "dfd_seq_no (upd_dma_row i f d) = dfd_seq_no d"
  "dfd_core (upd_dma_row i f d) = dfd_core d"
  by (simp_all add: upd_dma_row_def)

lemma upd_core_simps [simp]:
  "dfd_rows (upd_core g d) = dfd_rows d"
  "dfd_bitmap (upd_core g d) = dfd_bitmap d"
  "dfd_seq_no (upd_core g d) = dfd_seq_no d"
  "dfd_core (upd_core g d) = g (dfd_core d)"
  by (simp_all add: upd_core_def)

lemma zero_dma_row_simps [simp]:
  "dfr_state zero_dma_row = CAM_DMA_FENCE_STATE_INVALID"
  "dfr_fence zero_dma_row = None"
  "dfr_cb_registered_for_sync zero_dma_row = False"
  "dfr_sync_signal_dma zero_dma_row = False"
  by (simp_all add: zero_dma_row_def)

lemma dma_wfD:
  assumes "dma_wf d"
  shows "dfr_state (dfd_rows d i) \<noteq> CAM_DMA_FENCE_STATE_INVALID \<Longrightarrow>
           0 \<le> i \<and> i < CAM_DMA_FENCE_MAX_FENCES \<and> (\<exists>f. dfr_fence (dfd_rows d i) = Some f)"
    and "dfr_state (dfd_rows d i) = CAM_DMA_FENCE_STATE_INVALID \<Longrightarrow> dfr_fence (dfd_rows d i) = None"
    and "0 \<le> i \<Longrightarrow> i < CAM_DMA_FENCE_MAX_FENCES \<Longrightarrow>
           dfd_bitmap d i = (dfr_state (dfd_rows d i) \<noteq> CAM_DMA_FENCE_STATE_INVALID)"
  using assms by (auto simp: dma_wf_def)

text \<open>The invariant only reads the rows and the bitmap.\<close>

lemma dma_wf_cong:
  "dfd_rows d' = dfd_rows d \<Longrightarrow> dfd_bitmap d' = dfd_bitmap d \<Longrightarrow> dma_wf d' = dma_wf d"
  by (simp add: dma_wf_def)

lemma dma_wf_core [simp]: "dma_wf (upd_core g d) = dma_wf d"
  "dma_wf (d\<lparr>dfd_core := x\<rparr>) = dma_wf d" "dma_wf (d\<lparr>dfd_seq_no := n\<rparr>) = dma_wf d"
  by (simp_all add: dma_wf_def)

lemma row_signal_refl [simp]: "row_signal r r"
  by (simp add: row_signal_def)

lemma row_signal_trans: "row_signal r q \<Longrightarrow> row_signal q p \<Longrightarrow> row_signal r p"
  by (auto simp: row_signal_def)

lemma row_signal_keeps:
  assumes "row_signal r r'"
  shows "dfr_fence r' = dfr_fence r" and "dfr_fd r' = dfr_fd r"
    and "dfr_sync_signal_dma r' = dfr_sync_signal_dma r"
    and "dfr_state r' = CAM_DMA_FENCE_STATE_INVALID \<longleftrightarrow> dfr_state r = CAM_DMA_FENCE_STATE_INVALID"
    and "dfr_state r = CAM_DMA_FENCE_STATE_SIGNALED \<Longrightarrow> dfr_state r' = CAM_DMA_FENCE_STATE_SIGNALED"
  using assms by (auto simp: row_signal_def)

lemma signal_frame_refl [simp]: "signal_frame d d"
  by (simp add: signal_frame_def)

lemma signal_frame_core [simp]:
  "signal_frame d (upd_core g e) = signal_frame d e"
  "signal_frame (upd_core g d) e = signal_frame d e"
  "signal_frame d (e\<lparr>dfd_core := x\<rparr>) = signal_frame d e"
  by (simp_all add: signal_frame_def)

lemma signal_frame_row: "signal_frame d d' \<Longrightarrow> row_signal (dfd_rows d i) (dfd_rows d' i)"
  by (simp add: signal_frame_def)

lemma signal_frame_trans: "signal_frame d e \<Longrightarrow> signal_frame e h \<Longrightarrow> signal_frame d h"
  using row_signal_trans by (fastforce simp: signal_frame_def)

lemmas signal_frame_keeps = row_signal_keeps [OF signal_frame_row]

lemma signal_frame_wf: "signal_frame d d' \<Longrightarrow> dma_wf d \<Longrightarrow> dma_wf d'"
  unfolding dma_wf_def by (auto simp: signal_frame_keeps) (auto simp: signal_frame_def)

lemma signal_frame_set_signaled:
  "dfr_state (dfd_rows d i) \<noteq> CAM_DMA_FENCE_STATE_INVALID \<Longrightarrow>
   signal_frame d (upd_dma_row i (\<lambda>r. r\<lparr>dfr_state := CAM_DMA_FENCE_STATE_SIGNALED\<rparr>) d)"
  by (simp add: signal_frame_def row_signal_def)

lemma signal_cb_frame: "dma_fence_signal_cb A f i d = (cs, d') \<Longrightarrow> signal_frame d d'"
  by (auto simp: dma_fence_signal_cb_def Let_def signal_frame_set_signaled
      split: if_splits option.splits)

lemma run_fence_cbs_frame: "run_fence_cbs A f is d = (cs, d') \<Longrightarrow> signal_frame d d'"
proof (induction "is" arbitrary: d cs)
  case (Cons i "is")
  then obtain cs1 d1 cs2 where "dma_fence_signal_cb A f i d = (cs1, d1)"
    and "run_fence_cbs A f is d1 = (cs2, d')"
    by (auto simp: Let_def split: prod.splits)
  with Cons.IH show ?case by (blast intro: signal_frame_trans signal_cb_frame)
qed simp

lemma signal_fence_frame:
  assumes "dma_fence_signal_fence A f st d = (rc, cs, d')"
  shows "signal_frame d d'"
proof (cases "core_is_signaled A f (dfd_core d)")
  case True
  with assms show ?thesis by (simp add: dma_fence_signal_fence_def)
next
  case False
  define d1 where "d1 = (if st \<noteq> 0 then upd_core (core_set_error A f st) d else d)"
  from False assms obtain cbs x where "run_fence_cbs A f cbs (d1\<lparr>dfd_core := x\<rparr>) = (cs, d')"
    by (auto simp: dma_fence_signal_fence_def d1_def Let_def split: prod.splits)
  moreover have "signal_frame d (d1\<lparr>dfd_core := x\<rparr>)" by (simp add: d1_def signal_frame_def)
  ultimately show ?thesis by (blast intro: signal_frame_trans run_fence_cbs_frame)
qed

subsection \<open>Every operation keeps the invariant\<close>

text \<open>Between taking a free index and filling its row, the table is well formed but for the
  reserved bit.\<close>

definition dma_reserved :: "int \<Rightarrow> 'x cam_dma_fence_device \<Rightarrow> bool" where
  "dma_reserved idx d \<longleftrightarrow> 0 \<le> idx \<and> idx < CAM_DMA_FENCE_MAX_FENCES \<and> dfd_bitmap d idx \<and>
     dma_wf (d\<lparr>dfd_bitmap := clear_bit_at idx (dfd_bitmap d)\<rparr>)"

lemma dma_reserved_core [simp]:
  "dma_reserved idx (upd_core g d) = dma_reserved idx d"
  "dma_reserved idx (d\<lparr>dfd_core := x\<rparr>) = dma_reserved idx d"
  "dma_reserved idx (d\<lparr>dfd_seq_no := n\<rparr>) = dma_reserved idx d"
  by (simp_all add: dma_reserved_def dma_wf_def)

lemma find_free_idx_ok:
  assumes "dma_fence_find_free_idx d = (0, idx, d')" and "dma_wf d"
  shows "dma_reserved idx d'"
proof -
  from assms(1) have idx: "idx = find_first_zero_bit (dfd_bitmap d) CAM_DMA_FENCE_MAX_FENCES"
    and lt: "idx < CAM_DMA_FENCE_MAX_FENCES"
    and d': "d' = d\<lparr>dfd_bitmap := set_bit_at idx (dfd_bitmap d)\<rparr>"
    by (auto simp: dma_fence_find_free_idx_def Let_def split: if_splits)
  then have "\<not> dfd_bitmap d idx" "0 \<le> idx"
    using find_first_zero_bit_free [of "dfd_bitmap d" CAM_DMA_FENCE_MAX_FENCES] by simp_all
  then have "clear_bit_at idx (set_bit_at idx (dfd_bitmap d)) = dfd_bitmap d"
    by (auto simp: fun_eq_iff)
  with assms(2) lt d' \<open>0 \<le> idx\<close> show ?thesis by (simp add: dma_reserved_def dma_wf_def)
qed

lemma find_free_idx_fail:
  "dma_fence_find_free_idx d = (rc, idx, d') \<Longrightarrow> rc \<noteq> 0 \<Longrightarrow> rc = - ENOMEM \<and> d' = d"
  by (auto simp: dma_fence_find_free_idx_def Let_def split: if_splits)

lemma dma_reserved_free:
  "dma_reserved idx d \<Longrightarrow> dma_wf (d\<lparr>dfd_bitmap := clear_bit_at idx (dfd_bitmap d)\<rparr>)"
  by (simp add: dma_reserved_def)

lemma dma_reserved_init_row:
  "dma_reserved idx d \<Longrightarrow> dma_wf (dma_fence_init_row name f fd idx ext d)"
  unfolding dma_reserved_def dma_wf_def dma_fence_init_row_def by (auto split: if_splits)

lemma deinit_row_wf: "dma_wf d \<Longrightarrow> dma_wf (dma_fence_deinit_row i d)"
  unfolding dma_wf_def dma_fence_deinit_row_def by auto

lemma signal_fence_wf [cam_inv]:
  "dma_fence_signal_fence A f st d = (rc, cs, d') \<Longrightarrow> dma_wf d \<Longrightarrow> dma_wf d'"
  by (blast intro: signal_fence_frame signal_frame_wf)

lemma upd_dma_row_wf:
  assumes "dma_wf d" and "dfr_state (f (dfd_rows d i)) = CAM_DMA_FENCE_STATE_INVALID \<longleftrightarrow>
      dfr_state (dfd_rows d i) = CAM_DMA_FENCE_STATE_INVALID"
    and "dfr_fence (f (dfd_rows d i)) = dfr_fence (dfd_rows d i)"
  shows "dma_wf (upd_dma_row i f d)"
  using assms unfolding dma_wf_def by auto

lemma get_put_ref_wf [cam_inv]:
  "cam_dma_fence_get_put_ref A g i d = (rc, d') \<Longrightarrow> dma_wf d \<Longrightarrow> dma_wf d'"
  by (auto simp: cam_dma_fence_get_put_ref_def Let_def split: if_splits option.splits)

lemma get_fence_from_fd_wf [cam_inv]:
  assumes "cam_dma_fence_get_fence_from_fd A fd d = (r, d')" and "dma_wf d"
  shows "dma_wf d'"
  using assms
  by (auto simp: cam_dma_fence_get_fence_from_fd_def cam_dma_fence_get_fence_from_sync_file_def
      Let_def split: option.splits prod.splits if_splits
      dest: find_free_idx_fail intro!: dma_reserved_init_row find_free_idx_ok)

lemma register_cb_wf [cam_inv]:
  "cam_dma_fence_register_cb A so idx cb d = (rc, d') \<Longrightarrow> dma_wf d \<Longrightarrow> dma_wf d'"
  by (auto simp: cam_dma_fence_register_cb_def Let_def intro!: upd_dma_row_wf
      split: option.splits prod.splits if_splits)

lemma set_signaled_wf:
  "dma_wf d \<Longrightarrow> dfr_state (dfd_rows d i) \<noteq> CAM_DMA_FENCE_STATE_INVALID \<Longrightarrow>
   dma_wf (upd_dma_row i (\<lambda>r. r\<lparr>dfr_state := CAM_DMA_FENCE_STATE_SIGNALED\<rparr>) d)"
  by (rule upd_dma_row_wf) auto

lemma find_fence_loop_Some:
  "find_fence_loop k i fd rows = Some (j, f) \<Longrightarrow>
   i \<le> j \<and> j < i + int k \<and> dfr_state (rows j) \<noteq> CAM_DMA_FENCE_STATE_INVALID \<and>
   dfr_fd (rows j) = fd \<and> dfr_fence (rows j) = f"
  by (induction k arbitrary: i) (fastforce split: if_splits)+

lemma find_fence_loop_None:
  "find_fence_loop k i fd rows = None \<Longrightarrow> i \<le> j \<Longrightarrow> j < i + int k \<Longrightarrow>
   dfr_state (rows j) = CAM_DMA_FENCE_STATE_INVALID \<or> dfr_fd (rows j) \<noteq> fd"
proof (induction k arbitrary: i)
  case (Suc k)
  then show ?case using Suc.IH [of "i + 1"] by (cases "j = i") (auto split: if_splits)
qed simp

lemma find_fence_in_table_Some:
  "dma_fence_find_fence_in_table fd d = Some (i, f) \<Longrightarrow>
   0 \<le> i \<and> i < CAM_DMA_FENCE_MAX_FENCES \<and>
   dfr_state (dfd_rows d i) \<noteq> CAM_DMA_FENCE_STATE_INVALID \<and>
   dfr_fd (dfd_rows d i) = fd \<and> dfr_fence (dfd_rows d i) = Some f"
  by (auto simp: dma_fence_find_fence_in_table_def split: option.splits
      dest: find_fence_loop_Some)

lemma internal_signal_wf [cam_inv]:
  assumes "cam_dma_fence_internal_signal A i sig d = (rc, cs, d')" and wf: "dma_wf d"
  shows "dma_wf d'"
proof -
  define d1 where "d1 = upd_dma_row i (\<lambda>r. r\<lparr>dfr_sync_signal_dma := True\<rparr>) d"
  have d1: "dma_wf d1" using wf by (auto simp: d1_def intro: upd_dma_row_wf)
  show ?thesis
  proof (cases "i < 0 \<or> CAM_DMA_FENCE_MAX_FENCES \<le> i \<or> d' = d1")
    case True
    with assms d1 show ?thesis
      by (auto simp: cam_dma_fence_internal_signal_def)
  next
    case False
    with assms(1) obtain f d2 where f: "dfr_fence (dfd_rows d1 i) = Some f"
      and sig: "dma_fence_signal_fence A f (sig_status sig) d1 = (rc, cs, d2)"
      and d': "d' = upd_dma_row i (\<lambda>r. r\<lparr>dfr_state := CAM_DMA_FENCE_STATE_SIGNALED\<rparr>) d2"
      by (auto simp: cam_dma_fence_internal_signal_def Let_def d1_def [symmetric]
          split: option.splits if_splits prod.splits)
    then have "dfr_state (dfd_rows d2 i) \<noteq> CAM_DMA_FENCE_STATE_INVALID"
      using dma_wfD(2) [OF d1] signal_frame_keeps(4) [OF signal_fence_frame] by force
    with d' signal_fence_wf [OF sig d1] show ?thesis by (simp add: set_signaled_wf)
  qed
qed

lemma signal_fd_wf [cam_inv]:
  assumes "cam_dma_fence_signal_fd A sig d = (rc, cs, d')" and wf: "dma_wf d"
  shows "dma_wf d'"
proof (cases "d' = d")
  case False
  with assms(1) obtain i f d2 where
    row: "dfr_state (dfd_rows d i) \<noteq> CAM_DMA_FENCE_STATE_INVALID"
    and sig: "dma_fence_signal_fence A f (sig_status sig) d = (rc, cs, d2)"
    and d': "d' = upd_dma_row i (\<lambda>r. r\<lparr>dfr_state := CAM_DMA_FENCE_STATE_SIGNALED\<rparr>) d2"
    by (auto simp: cam_dma_fence_signal_fd_def Let_def
        split: option.splits if_splits prod.splits)
  then have "dfr_state (dfd_rows d2 i) \<noteq> CAM_DMA_FENCE_STATE_INVALID"
    using signal_frame_keeps(4) [OF signal_fence_frame] by force
  with d' signal_fence_wf [OF sig wf] show ?thesis by (simp add: set_signaled_wf)
qed (use wf in simp)

lemma get_fd_wf:
  assumes "dma_fence_get_fd A name d = (fd, idx, d')" and "dma_wf d"
  shows "dma_wf d'"
proof (cases "fst (dma_fence_find_free_idx d) = 0")
  case False
  with assms show ?thesis
    by (auto simp: dma_fence_get_fd_def Let_def split: prod.splits dest: find_free_idx_fail)
next
  case True
  then obtain j d1 where j: "dma_fence_find_free_idx d = (0, j, d1)"
    by (metis prod.collapse)
  with assms have "dma_reserved j d1" by (auto intro: find_free_idx_ok)
  with assms(1) j show ?thesis
    by (auto simp: dma_fence_get_fd_def Let_def split: prod.splits if_splits option.splits
        intro!: dma_reserved_init_row dma_reserved_free [THEN dma_wf_cong [THEN iffD1, rotated -1]])
qed

lemma create_fd_wf [cam_inv]:
  "cam_dma_fence_create_fd A name d = (rc, r, d') \<Longrightarrow> dma_wf d \<Longrightarrow> dma_wf d'"
  by (auto simp: cam_dma_fence_create_fd_def Let_def split: prod.splits if_splits dest: get_fd_wf)

lemma release_idx_wf:
  assumes "dma_fence_release A i d = (rc, cs, d')" and "dma_wf d"
  shows "dma_wf d'"
  using assms
  by (auto simp: dma_fence_release_def Let_def intro!: deinit_row_wf
      split: prod.splits if_splits option.splits dest: signal_fence_wf)

lemma release_wf [cam_inv]:
  "cam_dma_fence_release A ps d = (rc, cs, d') \<Longrightarrow> dma_wf d \<Longrightarrow> dma_wf d'"
  by (cases ps) (auto simp: dma_fence_release_row_def dma_fence_release_fd_def
      split: if_splits option.splits dest: release_idx_wf)

lemma close_row_wf:
  assumes "dma_fence_close_row A i d = (cs, d')" and "dma_wf d"
  shows "dma_wf d'"
  using assms
  by (auto simp: dma_fence_close_row_def Let_def intro!: deinit_row_wf
      split: prod.splits if_splits option.splits dest: signal_fence_wf)

lemma close_loop_wf: "dma_fence_close_loop A k i d = (cs, d') \<Longrightarrow> dma_wf d \<Longrightarrow> dma_wf d'"
proof (induction k arbitrary: i d cs)
  case (Suc k)
  then obtain cs1 d1 cs2 where "dma_fence_close_row A i d = (cs1, d1)"
    and "dma_fence_close_loop A k (i + 1) d1 = (cs2, d')"
    by (auto simp: Let_def split: prod.splits)
  with Suc show ?case by (blast intro: close_row_wf)
qed simp

lemma close_wf [cam_inv]: "cam_dma_fence_close A d = (cs, d') \<Longrightarrow> dma_wf d \<Longrightarrow> dma_wf d'"
  by (auto simp: cam_dma_fence_close_def dest: close_loop_wf)

lemma open_wf [cam_inv]: "dma_wf d \<Longrightarrow> dma_wf (cam_dma_fence_open d)"
  by (simp add: cam_dma_fence_open_def)

lemma driver_init_wf: "cam_dma_fence_driver_init ok n x = (rc, Some d) \<Longrightarrow> dma_wf d"
  by (auto simp: cam_dma_fence_driver_init_def dma_wf_def split: if_splits)

subsection \<open>Closing the table\<close>

text \<open>Closing one row frees it and signals at most other live rows.\<close>

lemma deinit_frameI:
  "signal_frame d e \<Longrightarrow>
   \<exists>e'. signal_frame d e' \<and> dma_fence_deinit_row i e = dma_fence_deinit_row i e'"
  by blast

lemma close_row_cases:
  assumes "dma_fence_close_row A i d = (cs, d')"
  shows "d' = d \<and> dfr_state (dfd_rows d i) = CAM_DMA_FENCE_STATE_INVALID \<or>
         (\<exists>e. signal_frame d e \<and> d' = dma_fence_deinit_row i e)"
  using assms
  by (auto simp: dma_fence_close_row_def Let_def split: prod.splits if_splits option.splits
      intro!: deinit_frameI dest!: signal_fence_frame)

lemma close_row_effect:
  assumes "dma_fence_close_row A i d = (cs, d')"
  shows "dfr_state (dfd_rows d' i) = CAM_DMA_FENCE_STATE_INVALID"
    and "dfr_state (dfd_rows d j) = CAM_DMA_FENCE_STATE_INVALID \<Longrightarrow>
         dfr_state (dfd_rows d' j) = CAM_DMA_FENCE_STATE_INVALID"
  using close_row_cases [OF assms]
  by (auto simp: dma_fence_deinit_row_def signal_frame_keeps)

lemma close_loop_effect:
  assumes "dma_fence_close_loop A k i d = (cs, d')"
  shows "i \<le> j \<and> j < i + int k \<or> dfr_state (dfd_rows d j) = CAM_DMA_FENCE_STATE_INVALID \<Longrightarrow>
         dfr_state (dfd_rows d' j) = CAM_DMA_FENCE_STATE_INVALID"
  using assms
proof (induction k arbitrary: i d cs)
  case (Suc k)
  then obtain cs1 d1 cs2 where row: "dma_fence_close_row A i d = (cs1, d1)"
    and loop: "dma_fence_close_loop A k (i + 1) d1 = (cs2, d')"
    by (auto simp: Let_def split: prod.splits)
  from Suc.prems(1) close_row_effect [OF row]
  have "i + 1 \<le> j \<and> j < i + 1 + int k \<or>
        dfr_state (dfd_rows d1 j) = CAM_DMA_FENCE_STATE_INVALID"
    by (cases "j = i") auto
  with loop show ?case by (blast intro: Suc.IH)
qed auto

subsection \<open>Properties of the table\<close>

text \<open>The operations of the fence table as steps; every parameter of an operation is free.\<close>

inductive dma_step :: "'x dma_fence_core \<Rightarrow> 'x cam_dma_fence_device \<Rightarrow> 'x cam_dma_fence_device \<Rightarrow> bool"
  for A where
  create: "cam_dma_fence_create_fd A name d = (rc, r, d') \<Longrightarrow> dma_step A d d'"
| release: "cam_dma_fence_release A ps d = (rc, cs, d') \<Longrightarrow> dma_step A d d'"
| get_fence: "cam_dma_fence_get_fence_from_fd A fd d = (fo, d') \<Longrightarrow> dma_step A d d'"
| get_put: "cam_dma_fence_get_put_ref A g i d = (rc, d') \<Longrightarrow> dma_step A d d'"
| register_cb: "cam_dma_fence_register_cb A so i cb d = (rc, d') \<Longrightarrow> dma_step A d d'"
| signal_fd: "cam_dma_fence_signal_fd A sig d = (rc, cs, d') \<Longrightarrow> dma_step A d d'"
| internal_signal: "cam_dma_fence_internal_signal A i sig d = (rc, cs, d') \<Longrightarrow> dma_step A d d'"
| opened: "dma_step A d (cam_dma_fence_open d)"
| closed: "cam_dma_fence_close A d = (cs, d') \<Longrightarrow> dma_step A d d'"

inductive dma_reachable :: "'x dma_fence_core \<Rightarrow> 'x cam_dma_fence_device \<Rightarrow> bool" for A where
  init: "cam_dma_fence_driver_init True n x = (0, Some d) \<Longrightarrow> dma_reachable A d"
| step: "dma_reachable A d \<Longrightarrow> dma_step A d d' \<Longrightarrow> dma_reachable A d'"

lemma dma_step_wf: "dma_step A d d' \<Longrightarrow> dma_wf d \<Longrightarrow> dma_wf d'"
  by (induction rule: dma_step.induct) (blast intro: cam_inv)+

text \<open>A concrete fence core, to evaluate the model on: fences and file descriptors are
  numbered in order, a fence is signalled once and runs its callbacks in registration order.\<close>

record simple_core_state =
  sc_next :: nat
  sc_fd :: int
  sc_signaled :: "fence \<Rightarrow> bool"
  sc_error :: "fence \<Rightarrow> int"
  sc_cbs :: "fence \<Rightarrow> int list"

definition simple_state :: simple_core_state where
  "simple_state = \<lparr>sc_next = 0, sc_fd = 5, sc_signaled = (\<lambda>_. False), sc_error = (\<lambda>_. 0),
     sc_cbs = (\<lambda>_. [])\<rparr>"

definition simple_signal :: "fence \<Rightarrow> simple_core_state \<Rightarrow> int \<times> int list \<times> simple_core_state" where
  "simple_signal f x =
     (if sc_signaled x f then (- EINVAL, [], x)
      else (0, sc_cbs x f, x\<lparr>sc_signaled := (sc_signaled x)(f := True),
                             sc_cbs := (sc_cbs x)(f := [])\<rparr>))"

definition simple_core :: "simple_core_state dma_fence_core" where
  "simple_core = \<lparr>core_get = (\<lambda>_ x. x), core_put = (\<lambda>_ x. x),
     core_is_signaled = (\<lambda>f x. sc_signaled x f),
     core_set_error = (\<lambda>f e x. x\<lparr>sc_error := (sc_error x)(f := e)\<rparr>),
     core_signal = simple_signal,
     core_get_status_locked = (\<lambda>f x. if sc_signaled x f
        then (if sc_error x f \<noteq> 0 then sc_error x f else 1) else 0),
     core_add_callback = (\<lambda>f i x. if sc_signaled x f then (- ENOENT, x)
        else (0, x\<lparr>sc_cbs := (sc_cbs x)(f := sc_cbs x f @ [i])\<rparr>)),
     core_remove_callback = (\<lambda>f i x. x\<lparr>sc_cbs := (sc_cbs x)(f := filter ((\<noteq>) i) (sc_cbs x f))\<rparr>),
     core_alloc_lock = (\<lambda>x. (True, x)), core_free_lock = (\<lambda>x. x),
     core_alloc_fence = (\<lambda>x. (Some (sc_next x), x\<lparr>sc_next := Suc (sc_next x)\<rparr>)),
     core_fence_init = (\<lambda>_ _ x. x),
     core_get_unused_fd = (\<lambda>x. (sc_fd x, x\<lparr>sc_fd := sc_fd x + 1\<rparr>)),
     core_put_unused_fd = (\<lambda>_ x. x),
     core_sync_file_create = (\<lambda>f x. (Some f, x)), core_fd_install = (\<lambda>_ _ x. x),
     core_sync_file_get_fence = (\<lambda>_ x. (None, x)), core_driver_name = (\<lambda>_ _. ''simple'')\<rparr>"

definition demo_dma :: "simple_core_state cam_dma_fence_device" where
  "demo_dma = the (snd (cam_dma_fence_driver_init True 0 simple_state))"

text \<open>A table with one live row: index 0, fd 5, fence 0.\<close>

definition demo_dma1 :: "simple_core_state cam_dma_fence_device" where
  "demo_dma1 = snd (snd (cam_dma_fence_create_fd simple_core ''f'' demo_dma))"

lemma demo_dma_simps [simp]:
  "dfd_rows demo_dma = (\<lambda>_. zero_dma_row)" "dfd_bitmap demo_dma = (\<lambda>_. False)"
  "dfd_core demo_dma = simple_state" "dfd_seq_no demo_dma = 0"
  by (simp_all add: demo_dma_def cam_dma_fence_driver_init_def)

lemma demo_dma_reachable: "dma_reachable simple_core demo_dma"
  by (rule dma_reachable.init [of 0 simple_state])
    (simp add: demo_dma_def cam_dma_fence_driver_init_def)

lemma demo_first_zero: "find_first_zero_bit (\<lambda>_. False) n = 0" if "0 < n"
  using that by (intro find_first_zero_bit_unique) auto

lemma demo_create:
  "cam_dma_fence_create_fd simple_core ''f'' demo_dma = (0, Some (5, 0), demo_dma1)"
  unfolding demo_dma1_def
  by (simp add: cam_dma_fence_create_fd_def dma_fence_get_fd_def dma_fence_find_free_idx_def
      demo_first_zero Let_def simple_core_def simple_state_def)

lemma demo_dma1_row: "dfd_rows demo_dma1 = (\<lambda>_. zero_dma_row)(0 := zero_dma_row\<lparr>dfr_fence := Some 0,
    dfr_fd := 5, dfr_state := CAM_DMA_FENCE_STATE_ACTIVE, dfr_name := ''f''\<rparr>)"
  "dfd_bitmap demo_dma1 = set_bit_at 0 (\<lambda>_. False)"
  "dfd_core demo_dma1 = simple_state\<lparr>sc_next := 1, sc_fd := 6\<rparr>"
  unfolding demo_dma1_def
  by (simp_all add: cam_dma_fence_create_fd_def dma_fence_get_fd_def dma_fence_find_free_idx_def
      demo_first_zero Let_def simple_core_def simple_state_def dma_fence_init_row_def
      zero_dma_row_def)

lemma demo_dma_wf [simp]: "dma_wf demo_dma" "dma_wf demo_dma1"
  by (auto simp: dma_wf_def demo_dma1_row)

lemma find_fence_loop_cong:
  assumes "\<And>j. (dfr_state (rows' j) = CAM_DMA_FENCE_STATE_INVALID) =
               (dfr_state (rows j) = CAM_DMA_FENCE_STATE_INVALID) \<and>
             dfr_fd (rows' j) = dfr_fd (rows j) \<and> dfr_fence (rows' j) = dfr_fence (rows j)"
  shows "find_fence_loop k i fd rows' = find_fence_loop k i fd rows"
  by (induction k arbitrary: i) (simp_all add: assms)

lemma find_fence_in_table_frame:
  "signal_frame d d' \<Longrightarrow> dma_fence_find_fence_in_table fd d' = dma_fence_find_fence_in_table fd d"
  by (simp add: dma_fence_find_fence_in_table_def signal_frame_keeps
      find_fence_loop_cong [of "dfd_rows d'" "dfd_rows d"])

lemma signal_fd_effect:
  assumes "dma_fence_find_fence_in_table (sig_dma_fence_fd sig) d = Some (i, f)"
    and "cam_dma_fence_signal_fd A sig d = (rc, cs, d')"
  shows "signal_frame d d'" and "dfr_state (dfd_rows d' i) = CAM_DMA_FENCE_STATE_SIGNALED"
proof -
  note i = find_fence_in_table_Some [OF assms(1)]
  show fr: "signal_frame d d'"
    using assms i
    by (auto simp: cam_dma_fence_signal_fd_def Let_def signal_frame_keeps split: if_splits prod.splits
        intro!: signal_frame_trans [OF signal_fence_frame signal_frame_set_signaled]
        dest: signal_fence_frame [THEN signal_frame_keeps(4)])
  show "dfr_state (dfd_rows d' i) = CAM_DMA_FENCE_STATE_SIGNALED"
    using assms i by (auto simp: cam_dma_fence_signal_fd_def Let_def split: if_splits prod.splits)
qed

lemma find_free_idx_rows:
  "dma_fence_find_free_idx d = (rc, i, d1) \<Longrightarrow> dfd_rows d1 = dfd_rows d \<and>
   i = find_first_zero_bit (dfd_bitmap d) CAM_DMA_FENCE_MAX_FENCES"
  by (auto simp: dma_fence_find_free_idx_def Let_def split: if_splits)

lemma get_fd_ok:
  assumes "dma_fence_get_fd A name d = (fd, i, d')" and "0 \<le> fd"
  shows "\<exists>d1 f. dma_fence_find_free_idx d = (0, i, d1) \<and>
    dfd_rows d' = (dfd_rows d)(i := zero_dma_row\<lparr>dfr_fence := Some f, dfr_fd := fd,
       dfr_state := CAM_DMA_FENCE_STATE_ACTIVE, dfr_ext_dma_fence := False,
       dfr_name := take (CAM_DMA_FENCE_NAME_LEN - 1) name\<rparr>)"
proof -
  obtain rc j d1 where ff: "dma_fence_find_free_idx d = (rc, j, d1)" by (metis prod_cases3)
  with find_free_idx_rows [OF ff] assms show ?thesis
    by (auto simp: dma_fence_get_fd_def dma_fence_init_row_def Let_def
        split: prod.splits if_splits option.splits)
qed

lemma run_fence_cbs_silent:
  "set is \<subseteq> {i} \<Longrightarrow> dfr_sync_signal_dma (dfd_rows d i) \<Longrightarrow> run_fence_cbs A f is d = ([], d)"
  by (induction "is") (auto simp: dma_fence_signal_cb_def Let_def)

subsection \<open>The table as a slot table, its rows as one-shot objects\<close>

definition dma_used :: "'x cam_dma_fence_device \<Rightarrow> int \<Rightarrow> bool" where
  "dma_used d i \<longleftrightarrow> dfr_state (dfd_rows d i) \<noteq> CAM_DMA_FENCE_STATE_INVALID"

definition take_fence ::
  "'x dma_fence_core \<Rightarrow> string \<Rightarrow> 'x cam_dma_fence_device \<Rightarrow> int option \<times> 'x cam_dma_fence_device" where
  "take_fence A name d = (let (rc, r, d') = cam_dma_fence_create_fd A name d in (map_option snd r, d'))"

definition give_fence :: "'x dma_fence_core \<Rightarrow> int \<Rightarrow> 'x cam_dma_fence_device \<Rightarrow> 'x cam_dma_fence_device" where
  "give_fence A i d = snd (snd (cam_dma_fence_release A (Release_row_idx i) d))"

lemma get_fd_fail_rows:
  assumes "dma_fence_get_fd A name d = (fd, i, d')" and "fd < 0"
  shows "dfd_rows d' = dfd_rows d"
proof -
  obtain rc j d1 where ff: "dma_fence_find_free_idx d = (rc, j, d1)" by (metis prod_cases3)
  with find_free_idx_rows [OF ff] assms show ?thesis
    by (auto simp: dma_fence_get_fd_def dma_fence_init_row_def Let_def
        split: prod.splits if_splits option.splits)
qed

lemma release_used:
  assumes "dma_wf d"
  shows "dma_used (give_fence A i d) = (dma_used d)(i := False)"
proof (cases "0 \<le> i \<and> i < CAM_DMA_FENCE_MAX_FENCES \<and> dma_used d i")
  case False
  then have "\<not> dma_used d i" using dma_wfD(1) [OF assms, of i] by (auto simp: dma_used_def)
  moreover from this have "give_fence A i d = d"
    by (simp add: give_fence_def dma_fence_release_row_def dma_fence_release_def dma_used_def)
  ultimately show ?thesis by (simp add: fun_eq_iff)
next
  case True
  obtain rc cs d' where rel: "dma_fence_release A i d = (rc, cs, d')" by (metis prod_cases3)
  have eq: "give_fence A i d = d'" using True rel by (simp add: give_fence_def dma_fence_release_row_def)
  obtain f where f: "dfr_fence (dfd_rows d i) = Some f"
    using True assms by (cases "dfr_fence (dfd_rows d i)") (auto simp: dma_used_def dma_wf_def)
  obtain rc1 cs1 d1 where sg: "dma_fence_signal_fence A f (- ECANCELED) d = (rc1, cs1, d1)" by (metis prod_cases3)
  define e where "e = (if dfr_state (dfd_rows d i) = CAM_DMA_FENCE_STATE_ACTIVE then d1 else d)"
  have fr: "signal_frame d e" using signal_fence_frame [OF sg] by (simp add: e_def)
  have rows: "dfd_rows d' = (dfd_rows e)(i := zero_dma_row)"
    using rel True f sg
    by (auto simp: dma_fence_release_def dma_used_def e_def dma_fence_deinit_row_def split: if_splits)
  have "dma_used e j = dma_used d j" for j
    using signal_frame_row [OF fr, of j] by (auto simp: dma_used_def row_signal_def)
  moreover have "dma_used d' j = (j \<noteq> i \<and> dma_used e j)" for j by (simp add: dma_used_def rows)
  ultimately show ?thesis unfolding eq by (simp add: fun_eq_iff)
qed

interpretation fences: slot_table dma_wf dma_used 0 CAM_DMA_FENCE_MAX_FENCES "take_fence A" "give_fence A"
  for A :: "'x dma_fence_core"
proof
  fix d :: "'x cam_dma_fence_device" and i name d'
  assume wf: "dma_wf d"
  obtain rc r d1 where cr: "cam_dma_fence_create_fd A name d = (rc, r, d1)" by (metis prod_cases3)
  show "dma_used d i \<Longrightarrow> 0 \<le> i \<and> i < CAM_DMA_FENCE_MAX_FENCES"
    using dma_wfD(1) [OF wf] by (simp add: dma_used_def)
  show "dma_wf (snd (take_fence A name d))" using create_fd_wf [OF cr wf] by (simp add: take_fence_def cr)
  show "dma_wf (give_fence A i d)"
    using release_wf [of A "Release_row_idx i" d] wf by (metis give_fence_def prod.collapse)
  show "dma_used (give_fence A i d) = (dma_used d)(i := False)" by (rule release_used [OF wf])
  show "dma_used d' = dma_used d" if tk: "take_fence A name d = (None, d')"
  proof -
    obtain fd j where gf: "dma_fence_get_fd A name d = (fd, j, d')" "fd < 0"
      using tk by (auto simp: take_fence_def cam_dma_fence_create_fd_def split: prod.splits if_splits)
    show ?thesis using get_fd_fail_rows [OF gf] by (simp add: dma_used_def fun_eq_iff)
  qed
  show "0 \<le> i \<and> i < CAM_DMA_FENCE_MAX_FENCES \<and> \<not> dma_used d i \<and> dma_used d' = (dma_used d)(i := True)"
    if tk: "take_fence A name d = (Some i, d')"
  proof -
    obtain fd where gf: "dma_fence_get_fd A name d = (fd, i, d')" "0 \<le> fd"
      using tk by (auto simp: take_fence_def cam_dma_fence_create_fd_def split: prod.splits if_splits)
    from get_fd_ok [OF gf] obtain d1 f where f: "dma_fence_find_free_idx d = (0, i, d1)"
      and rows: "dfd_rows d' = (dfd_rows d)(i := zero_dma_row\<lparr>dfr_fence := Some f, dfr_fd := fd,
          dfr_state := CAM_DMA_FENCE_STATE_ACTIVE, dfr_ext_dma_fence := False,
          dfr_name := take (CAM_DMA_FENCE_NAME_LEN - 1) name\<rparr>)" by auto
    have "0 \<le> i \<and> i < CAM_DMA_FENCE_MAX_FENCES \<and> \<not> dfd_bitmap d i"
      using f find_first_zero_bit_free [of "dfd_bitmap d" CAM_DMA_FENCE_MAX_FENCES]
      by (auto simp: dma_fence_find_free_idx_def Let_def split: if_splits)
    with dma_wfD(3) [OF wf, of i] rows show ?thesis by (auto simp: dma_used_def fun_eq_iff)
  qed
qed

definition signal_row :: "'x dma_fence_core \<Rightarrow> int \<Rightarrow> int \<Rightarrow> 'x cam_dma_fence_device \<Rightarrow> 'x cam_dma_fence_device" where
  "signal_row A fd st d = snd (snd (cam_dma_fence_signal_fd A \<lparr>sig_dma_fence_fd = fd, sig_status = st\<rparr> d))"

lemma signal_row_frame:
  assumes "dma_fence_find_fence_in_table fd d = Some (i, f)"
  shows "signal_frame d (signal_row A fd st d)"
    and "dfr_state (dfd_rows (signal_row A fd st d) i) = CAM_DMA_FENCE_STATE_SIGNALED"
proof -
  obtain rc cs d' where run: "cam_dma_fence_signal_fd A \<lparr>sig_dma_fence_fd = fd, sig_status = st\<rparr> d = (rc, cs, d')"
    by (metis prod_cases3)
  show "signal_frame d (signal_row A fd st d)"
    "dfr_state (dfd_rows (signal_row A fd st d) i) = CAM_DMA_FENCE_STATE_SIGNALED"
    using signal_fd_effect [OF _ run] assms by (simp_all add: signal_row_def run)
qed

interpretation fence: one_shot
  "\<lambda>d. dma_fence_find_fence_in_table fd d = Some (i, f)"
  "\<lambda>d. dfr_state (dfd_rows d i) = CAM_DMA_FENCE_STATE_ACTIVE"
  "\<lambda>d. dfr_state (dfd_rows d i)" "\<lambda>_. CAM_DMA_FENCE_STATE_SIGNALED" "\<lambda>_. True" "signal_row A fd"
  for A :: "'x dma_fence_core" and fd i f
proof
  fix d :: "'x cam_dma_fence_device" and v
  assume found: "dma_fence_find_fence_in_table fd d = Some (i, f)"
  note eff = signal_row_frame [OF found, of A v]
  show "dma_fence_find_fence_in_table fd (signal_row A fd v d) = Some (i, f)"
    using find_fence_in_table_frame [OF eff(1), of fd] found by simp
  show "dfr_state (dfd_rows (signal_row A fd v d) i) \<noteq> CAM_DMA_FENCE_STATE_ACTIVE \<and>
      dfr_state (dfd_rows (signal_row A fd v d) i) = CAM_DMA_FENCE_STATE_SIGNALED"
    using eff(2) by simp
  show "signal_row A fd v d = d" if "dfr_state (dfd_rows d i) \<noteq> CAM_DMA_FENCE_STATE_ACTIVE"
    using that found find_fence_in_table_Some [OF found]
    by (cases "dfr_state (dfd_rows d i)") (auto simp: signal_row_def cam_dma_fence_signal_fd_def)
qed simp

text \<open>C29: in every state that the fence driver can reach, from its initialisation by any sequence of its
  operations and for any behaviour of the Linux fence core, a row of the fence table is live
  exactly when its bit is set, lies inside the table, and holds a fence pointer exactly when it
  is live: so no operation dereferences a NULL fence and no index is handed out twice.\<close>

theorem dma_table_invariant:
  assumes "dma_reachable A d"
  shows "dma_wf d"
  using assms
proof (induction rule: dma_reachable.induct)
  case (init n x d)
  then show ?case by (rule driver_init_wf)
next
  case (step d d')
  then show ?case by (blast intro: dma_step_wf)
qed

theorem dma_table_invariant_witness:
  "dma_reachable simple_core demo_dma1 \<and> dma_wf demo_dma1"
proof -
  have r: "dma_reachable simple_core demo_dma1"
    by (rule dma_reachable.step [OF demo_dma_reachable]) (rule dma_step.create [OF demo_create])
  show ?thesis using r dma_table_invariant [OF r] by simp
qed

text \<open>a dma fence is signalled at most once through its fd: after a signal request on an fd of the
  table, whatever its status, the row is SIGNALED, and every later signal request on that fd
  returns 0, calls nothing in the fence core and notifies no sync object.\<close>

theorem dma_signal_at_most_once:
  assumes "dma_fence_find_fence_in_table fd d = Some (i, f)"
    and "cam_dma_fence_signal_fd A \<lparr>sig_dma_fence_fd = fd, sig_status = st\<rparr> d = (rc, cs, d')"
  shows "dfr_state (dfd_rows d' i) = CAM_DMA_FENCE_STATE_SIGNALED \<and>
         cam_dma_fence_signal_fd A \<lparr>sig_dma_fence_fd = fd, sig_status = st'\<rparr> d' = (0, [], d')"
proof -
  note eff = signal_fd_effect [of "\<lparr>sig_dma_fence_fd = fd, sig_status = st\<rparr>" d i f A rc cs d']
  have "dma_fence_find_fence_in_table fd d' = Some (i, f)"
    using eff(1) assms by (simp add: find_fence_in_table_frame)
  with eff(2) assms show ?thesis by (simp add: cam_dma_fence_signal_fd_def)
qed

theorem dma_signal_at_most_once_witness:
  "dma_fence_find_fence_in_table 5 demo_dma1 = Some (0, 0) \<and>
   (let d' = snd (snd (cam_dma_fence_signal_fd simple_core
               \<lparr>sig_dma_fence_fd = 5, sig_status = 0\<rparr> demo_dma1))
    in dfr_state (dfd_rows d' 0) = CAM_DMA_FENCE_STATE_SIGNALED \<and>
       cam_dma_fence_signal_fd simple_core \<lparr>sig_dma_fence_fd = 5, sig_status = -1\<rparr> d' = (0, [], d'))"
proof -
  have find: "dma_fence_find_fence_in_table 5 demo_dma1 = Some (0, 0)"
    by (simp add: dma_fence_find_fence_in_table_def demo_dma1_row numeral_eq_Suc)
  show ?thesis
    using find dma_signal_at_most_once [OF find, of simple_core 0 _ _ _ "-1"]
    by (simp add: Let_def) (metis prod.collapse)
qed

lemma close_effect:
  assumes "dma_wf d" and "cam_dma_fence_close A d = (cs, d')"
  shows "dfr_state (dfd_rows d' i) = CAM_DMA_FENCE_STATE_INVALID"
proof -
  from assms have wf: "dma_wf d'" by (blast intro: close_wf)
  show ?thesis
  proof (cases "0 \<le> i \<and> i < CAM_DMA_FENCE_MAX_FENCES")
    case True
    then show ?thesis
      by (intro close_loop_effect [OF assms(2) [unfolded cam_dma_fence_close_def]]) simp
  next
    case False
    with dma_wfD(1) [OF wf, of i] show ?thesis by blast
  qed
qed

text \<open>a fence that was just created is found under its fd: creation returns the least free row index,
  and if no live row carries the new fd (the fd was unused), the lookup by fd, which importing,
  signalling and releasing use, returns exactly the new row, active and not external.\<close>

theorem dma_create_lookup:
  assumes "dma_wf d" and "cam_dma_fence_create_fd A name d = (rc, Some (fd, i), d')"
    and "\<And>j. dfr_state (dfd_rows d j) \<noteq> CAM_DMA_FENCE_STATE_INVALID \<Longrightarrow> dfr_fd (dfd_rows d j) \<noteq> fd"
  shows "rc = 0 \<and> i = find_first_zero_bit (dfd_bitmap d) CAM_DMA_FENCE_MAX_FENCES \<and>
         (\<exists>f. dma_fence_find_fence_in_table fd d' = Some (i, f)) \<and>
         dfr_state (dfd_rows d' i) = CAM_DMA_FENCE_STATE_ACTIVE \<and> \<not> dfr_ext_dma_fence (dfd_rows d' i)"
proof -
  from assms(2) obtain d1 f where free: "dma_fence_find_free_idx d = (0, i, d1)"
    and rows: "dfd_rows d' = (dfd_rows d)(i := zero_dma_row\<lparr>dfr_fence := Some f, dfr_fd := fd,
       dfr_state := CAM_DMA_FENCE_STATE_ACTIVE, dfr_ext_dma_fence := False,
       dfr_name := take (CAM_DMA_FENCE_NAME_LEN - 1) name\<rparr>)"
    and "rc = 0"
    by (auto simp: cam_dma_fence_create_fd_def Let_def split: prod.splits if_splits dest!: get_fd_ok)
  from find_free_idx_ok [OF free assms(1)] have i: "0 \<le> i" "i < CAM_DMA_FENCE_MAX_FENCES"
    by (auto simp: dma_reserved_def)
  have "\<exists>f. dma_fence_find_fence_in_table fd d' = Some (i, f)"
  proof (cases "find_fence_loop (nat CAM_DMA_FENCE_MAX_FENCES) 0 fd (dfd_rows d')")
    case None
    with i rows show ?thesis by (auto dest!: find_fence_loop_None [where j = i])
  next
    case (Some r)
    obtain j fo where r: "r = (j, fo)" by (cases r)
    with find_fence_loop_Some [OF Some [unfolded r]] assms(3) [of j] rows
    have "j = i" "fo = Some f" by (auto split: if_splits)
    with Some r show ?thesis by (simp add: dma_fence_find_fence_in_table_def)
  qed
  with find_free_idx_rows [OF free] rows \<open>rc = 0\<close> show ?thesis by simp
qed

theorem dma_create_lookup_witness:
  "dma_wf demo_dma \<and> cam_dma_fence_create_fd simple_core ''f'' demo_dma = (0, Some (5, 0), demo_dma1) \<and>
   (\<exists>f. dma_fence_find_fence_in_table 5 demo_dma1 = Some (0, f))"
proof -
  have "\<And>j. dfr_state (dfd_rows demo_dma j) \<noteq> CAM_DMA_FENCE_STATE_INVALID \<Longrightarrow>
            dfr_fd (dfd_rows demo_dma j) \<noteq> 5" by simp
  from dma_create_lookup [OF demo_dma_wf(1) demo_create this] demo_create
  show ?thesis by simp
qed

end
