(* ===== verification/Cam_Sync_Util.thy ===== *)
theory Cam_Sync_Util
  imports Cam_Dma_Fence
begin

section \<open>The sync object table and its utilities\<close>

text \<open>
  Model of the data of \<open>camera-kernel/drivers/cam_sync/cam_sync_private.h\<close> and of the operations of
  \<open>cam_sync_util.c\<close>. A sync object is a row of a table of \<open>CAM_SYNC_MAX_OBJS\<close> rows, named by its
  index; row 0 is never used. A row is individual or a group (a merged object); the linked lists
  of parents and children are lists of row indices, the kernel callbacks and user payloads
  registered on a row are lists of records, the \<open>struct completion\<close> is the flag \<open>signaled\<close> that
  \<open>complete_all\<close> sets.

  Besides the table, the device holds what the driver hands to the rest of the kernel: the work
  items queued on \<open>work_queue\<close>, the V4L2 events queued for user space, and the callbacks that were
  invoked (\<open>cb_trace\<close>), each in order. The client callbacks themselves are other drivers' code
  and are only recorded. The table index is an \<^typ>\<open>int\<close>, as the C code has it.

  Each row lock is held for the whole access to the row, so an operation is one atomic step;
  \<open>kzalloc\<close> with its possible failure is a boolean argument (or a function from the number of the
  allocation to a boolean where an operation allocates several times). The string of an object
  only serves the log messages; it is kept, the messages are not.
\<close>

subsection \<open>Constants and data\<close>

abbreviation CAM_SYNC_MAX_OBJS :: int where "CAM_SYNC_MAX_OBJS \<equiv> 2048"
abbreviation SYNC_DEBUG_NAME_LEN :: nat where "SYNC_DEBUG_NAME_LEN \<equiv> 63"
abbreviation CAM_SYNC_STATE_INVALID :: int where "CAM_SYNC_STATE_INVALID \<equiv> 0"
abbreviation CAM_SYNC_STATE_ACTIVE :: int where "CAM_SYNC_STATE_ACTIVE \<equiv> 1"
abbreviation CAM_SYNC_STATE_SIGNALED_SUCCESS :: int where "CAM_SYNC_STATE_SIGNALED_SUCCESS \<equiv> 2"
abbreviation CAM_SYNC_STATE_SIGNALED_ERROR :: int where "CAM_SYNC_STATE_SIGNALED_ERROR \<equiv> 3"
abbreviation CAM_SYNC_STATE_SIGNALED_CANCEL :: int where "CAM_SYNC_STATE_SIGNALED_CANCEL \<equiv> 4"
abbreviation CAM_SYNC_V4L_EVENT :: int where "CAM_SYNC_V4L_EVENT \<equiv> 0x08000000"
abbreviation CAM_SYNC_V4L_EVENT_V2 :: int where "CAM_SYNC_V4L_EVENT_V2 \<equiv> 0x08000001"
abbreviation CAM_SYNC_V4L_EVENT_ID_CB_TRIG :: int where "CAM_SYNC_V4L_EVENT_ID_CB_TRIG \<equiv> 0"
abbreviation CAM_GENERIC_FENCE_TYPE_DMA_FENCE :: nat where "CAM_GENERIC_FENCE_TYPE_DMA_FENCE \<equiv> 2"

datatype sync_type = SYNC_TYPE_INDV | SYNC_TYPE_GROUP

datatype sync_list_clean_type = SYNC_LIST_CLEAN_ONE | SYNC_LIST_CLEAN_ALL

type_synonym payload = "u64 \<times> u64"

record sync_callback_info =
  cbi_func :: nat
  cbi_data :: nat
  cbi_status :: int
  cbi_sync_obj :: int

record sync_dma_fence_info =
  dfi_fd :: int
  dfi_row_idx :: int
  dfi_sync_created_with_dma :: bool

record sync_table_row =
  row_name :: string
  row_type :: sync_type
  row_sync_id :: int
  parents_list :: "int list"
  children_list :: "int list"
  row_state :: int
  remaining :: u32
  signaled :: bool
  callback_list :: "sync_callback_info list"
  user_payload_list :: "payload list"
  ref_cnt :: u32
  ext_fence_mask :: u64
  row_dma_fence_info :: sync_dma_fence_info

datatype cam_sync_ev_header =
    Ev_header int int
  | Ev_header_v2 int int int int

record v4l2_event =
  ev_id :: int
  ev_type :: int
  ev_header :: cam_sync_ev_header
  ev_payload :: payload

record 'x sync_device =
  sync_table :: "int \<Rightarrow> sync_table_row"
  sync_bitmap :: bitmap
  open_cnt :: int
  work_queue :: "sync_callback_info list"
  cam_sync_eventq :: bool
  sync_version :: int
  vdev_events :: "v4l2_event list"
  cb_trace :: "sync_callback_info list"
  trigger_cb_without_switch :: bool
  dma_dev :: "'x cam_dma_fence_device"

record cam_sync_check_for_dma_release =
  chk_dma_fence_row_idx :: int
  chk_dma_fence_fd :: int
  chk_sync_created_with_dma :: bool

text \<open>\<open>memset(row, 0, sizeof(*row))\<close> followed by the list head initialisations.\<close>

definition zero_row :: sync_table_row where
  "zero_row = \<lparr>row_name = '''', row_type = SYNC_TYPE_INDV, row_sync_id = 0, parents_list = [],
     children_list = [], row_state = CAM_SYNC_STATE_INVALID, remaining = 0, signaled = False,
     callback_list = [], user_payload_list = [], ref_cnt = 0, ext_fence_mask = 0,
     row_dma_fence_info = \<lparr>dfi_fd = 0, dfi_row_idx = 0, dfi_sync_created_with_dma = False\<rparr>\<rparr>"

definition upd_row ::
  "int \<Rightarrow> (sync_table_row \<Rightarrow> sync_table_row) \<Rightarrow> 'x sync_device \<Rightarrow> 'x sync_device" where
  "upd_row i f s = s\<lparr>sync_table := (sync_table s)(i := f (sync_table s i))\<rparr>"

definition upd_dma :: "'x cam_dma_fence_device \<Rightarrow> 'x sync_device \<Rightarrow> 'x sync_device" where
  "upd_dma d s = s\<lparr>dma_dev := d\<rparr>"

subsection \<open>Allocation and initialisation of rows\<close>

definition cam_sync_util_find_and_set_empty_row ::
  "'x sync_device \<Rightarrow> int \<times> int \<times> 'x sync_device" where
  "cam_sync_util_find_and_set_empty_row s =
     (let idx = find_first_zero_bit (sync_bitmap s) CAM_SYNC_MAX_OBJS
      in if idx < CAM_SYNC_MAX_OBJS
         then (0, idx, s\<lparr>sync_bitmap := set_bit_at idx (sync_bitmap s)\<rparr>)
         else (-1, idx, s))"

definition cam_sync_init_row ::
  "int \<Rightarrow> string \<Rightarrow> sync_type \<Rightarrow> 'x sync_device \<Rightarrow> int \<times> 'x sync_device" where
  "cam_sync_init_row idx name ty s =
     (if idx \<le> 0 \<or> CAM_SYNC_MAX_OBJS \<le> idx then (- EINVAL, s)
      else (0, upd_row idx (\<lambda>_. zero_row\<lparr>row_name := take (SYNC_DEBUG_NAME_LEN - 1) name,
                 row_type := ty, row_sync_id := idx,
                 row_state := CAM_SYNC_STATE_ACTIVE\<rparr>) s))"

subsection \<open>Cleaning the lists of parents and children\<close>

fun clean_ids :: "sync_list_clean_type \<Rightarrow> int \<Rightarrow> int list \<Rightarrow> int list" where
  "clean_ids ty sync_obj [] = []"
| "clean_ids ty sync_obj (x # xs) =
     (if ty = SYNC_LIST_CLEAN_ONE \<and> x \<noteq> sync_obj then x # clean_ids ty sync_obj xs
      else if ty = SYNC_LIST_CLEAN_ONE \<and> x = sync_obj then xs
      else clean_ids ty sync_obj xs)"

definition cam_sync_util_cleanup_children_list ::
  "sync_list_clean_type \<Rightarrow> int \<Rightarrow> sync_table_row \<Rightarrow> sync_table_row" where
  "cam_sync_util_cleanup_children_list ty sync_obj row =
     row\<lparr>children_list := clean_ids ty sync_obj (children_list row)\<rparr>"

definition cam_sync_util_cleanup_parents_list ::
  "sync_list_clean_type \<Rightarrow> int \<Rightarrow> sync_table_row \<Rightarrow> sync_table_row" where
  "cam_sync_util_cleanup_parents_list ty sync_obj row =
     row\<lparr>parents_list := clean_ids ty sync_obj (parents_list row)\<rparr>"

subsection \<open>Group objects\<close>

text \<open>
  The loop of \<open>cam_sync_init_group_object\<close>. \<open>done\<close> holds the children already visited, the last
  one first; it is what the cleanup loop walks through when a later child is refused. \<open>n\<close>
  counts the allocations made so far, \<open>alloc k\<close> says whether the \<open>k\<close>-th succeeds.
\<close>

fun group_loop ::
  "(nat \<Rightarrow> bool) \<Rightarrow> nat \<Rightarrow> int \<Rightarrow> int list \<Rightarrow> int list \<Rightarrow> 'x sync_device
   \<Rightarrow> int \<times> int list \<times> 'x sync_device" where
  "group_loop alloc n idx done [] s = (0, done, s)"
| "group_loop alloc n idx done (c # cs) s =
     (let child = sync_table s c in
      if row_type child = SYNC_TYPE_GROUP \<or> row_state child = CAM_SYNC_STATE_INVALID
      then (- EINVAL, done, s)
      else if row_state child = CAM_SYNC_STATE_SIGNALED_ERROR \<or>
              row_state child = CAM_SYNC_STATE_SIGNALED_CANCEL
      then group_loop alloc n idx (c # done) cs (upd_row idx (\<lambda>r. r\<lparr>row_state := row_state child\<rparr>) s)
      else if row_state child \<noteq> CAM_SYNC_STATE_ACTIVE
      then group_loop alloc n idx (c # done) cs s
      else
        let s1 = upd_row idx (\<lambda>r. r\<lparr>remaining := remaining r + 1\<rparr>) s in
        if \<not> alloc n then (- ENOMEM, done, s1)
        else
          let s2 = upd_row idx (\<lambda>r. r\<lparr>children_list := children_list r @ [c]\<rparr>) s1 in
          if \<not> alloc (n + 1) then (- ENOMEM, done, s2)
          else group_loop alloc (n + 2) idx (c # done) cs
                 (upd_row c (\<lambda>r. r\<lparr>parents_list := parents_list r @ [idx]\<rparr>) s2))"

fun clean_children_parents :: "int \<Rightarrow> int list \<Rightarrow> 'x sync_device \<Rightarrow> 'x sync_device" where
  "clean_children_parents idx [] s = s"
| "clean_children_parents idx (c # cs) s =
     clean_children_parents idx cs
       (upd_row c (cam_sync_util_cleanup_parents_list SYNC_LIST_CLEAN_ONE idx) s)"

definition cam_sync_init_group_object ::
  "(nat \<Rightarrow> bool) \<Rightarrow> int \<Rightarrow> int list \<Rightarrow> 'x sync_device \<Rightarrow> int \<times> 'x sync_device" where
  "cam_sync_init_group_object alloc idx sync_objs s =
     (let (_, s0) = cam_sync_init_row idx ''merged_fence'' SYNC_TYPE_GROUP s;
          (rc, done, s1) = group_loop alloc 0 idx [] sync_objs s0
      in if rc \<noteq> 0 then
           (rc, upd_row idx (cam_sync_util_cleanup_children_list SYNC_LIST_CLEAN_ALL 0)
                  (clean_children_parents idx done
                    (upd_row idx (\<lambda>r. r\<lparr>row_state := CAM_SYNC_STATE_INVALID\<rparr>) s1)))
         else
           let row = sync_table s1 idx in
           if remaining row = 0 then
             (0, upd_row idx (\<lambda>r. r\<lparr>row_state :=
                   (if row_state row \<noteq> CAM_SYNC_STATE_SIGNALED_ERROR \<and>
                       row_state row \<noteq> CAM_SYNC_STATE_SIGNALED_CANCEL
                    then CAM_SYNC_STATE_SIGNALED_SUCCESS else row_state r),
                   signaled := True\<rparr>) s1)
           else (0, s1))"

subsection \<open>Destroying a row\<close>

fun unlink_from_children :: "int \<Rightarrow> int list \<Rightarrow> 'x sync_device \<Rightarrow> 'x sync_device" where
  "unlink_from_children idx [] s = s"
| "unlink_from_children idx (c # cs) s =
     (if row_state (sync_table s c) = CAM_SYNC_STATE_INVALID then unlink_from_children idx cs s
      else unlink_from_children idx cs
             (upd_row c (cam_sync_util_cleanup_parents_list SYNC_LIST_CLEAN_ONE idx) s))"

fun unlink_from_parents :: "int \<Rightarrow> int list \<Rightarrow> 'x sync_device \<Rightarrow> 'x sync_device" where
  "unlink_from_parents idx [] s = s"
| "unlink_from_parents idx (p # ps) s =
     (if row_state (sync_table s p) = CAM_SYNC_STATE_INVALID then unlink_from_parents idx ps s
      else unlink_from_parents idx ps
             (upd_row p (cam_sync_util_cleanup_children_list SYNC_LIST_CLEAN_ONE idx) s))"

definition cam_sync_deinit_object ::
  "'x dma_fence_core \<Rightarrow> int \<Rightarrow> cam_sync_check_for_dma_release option \<Rightarrow> 'x sync_device
   \<Rightarrow> int \<times> cam_sync_check_for_dma_release option \<times> 'x sync_device" where
  "cam_sync_deinit_object A idx chk s =
     (if idx \<le> 0 \<or> CAM_SYNC_MAX_OBJS \<le> idx then (- EINVAL, chk, s)
      else if row_state (sync_table s idx) = CAM_SYNC_STATE_INVALID then (- EINVAL, chk, s)
      else
        let row = sync_table s idx;
            temp_child_list = filter ((<) 0) (children_list row);
            temp_parent_list = filter ((<) 0) (parents_list row);
            s1 = upd_row idx (\<lambda>r. r\<lparr>row_state := CAM_SYNC_STATE_INVALID,
                   children_list := filter (\<lambda>i. i \<le> 0) (children_list r),
                   parents_list := filter (\<lambda>i. i \<le> 0) (parents_list r)\<rparr>) s;
            s2 = unlink_from_children idx temp_child_list s1;
            s3 = unlink_from_parents idx temp_parent_list s2;
            s4 = upd_row idx (\<lambda>r. r\<lparr>user_payload_list := [], callback_list := []\<rparr>) s3;
            row4 = sync_table s4 idx;
            info = row_dma_fence_info row4;
            (chk', s5) =
              (if bit (ext_fence_mask row4) CAM_GENERIC_FENCE_TYPE_DMA_FENCE then
                 (let (_, d) = cam_dma_fence_get_put_ref A False (dfi_row_idx info) (dma_dev s4)
                  in ((case chk of None \<Rightarrow> None
                       | Some c \<Rightarrow>
                           Some (if dfi_fd info = chk_dma_fence_fd c
                                 then c\<lparr>chk_sync_created_with_dma := dfi_sync_created_with_dma info,
                                        chk_dma_fence_row_idx := dfi_row_idx info\<rparr>
                                 else c)),
                      upd_dma d s4))
               else (chk, s4))
        in (0, chk',
            (upd_row idx (\<lambda>_. zero_row) s5)\<lparr>sync_bitmap := clear_bit_at idx (sync_bitmap s5)\<rparr>))"

subsection \<open>Dispatching a signal\<close>

definition cam_sync_util_cb_dispatch :: "sync_callback_info \<Rightarrow> 'x sync_device \<Rightarrow> 'x sync_device" where
  "cam_sync_util_cb_dispatch cb s = s\<lparr>cb_trace := cb_trace s @ [cb]\<rparr>"

definition cam_sync_util_send_v4l2_event ::
  "int \<Rightarrow> int \<Rightarrow> int \<Rightarrow> payload \<Rightarrow> int \<Rightarrow> 'x sync_device \<Rightarrow> 'x sync_device" where
  "cam_sync_util_send_v4l2_event evid sync_obj status payload event_cause s =
     (let event =
        (if sync_version s = CAM_SYNC_V4L_EVENT_V2
         then \<lparr>ev_id = evid, ev_type = CAM_SYNC_V4L_EVENT_V2,
               ev_header = Ev_header_v2 sync_obj status (sync_version s) event_cause,
               ev_payload = payload\<rparr>
         else \<lparr>ev_id = evid, ev_type = CAM_SYNC_V4L_EVENT,
               ev_header = Ev_header sync_obj status, ev_payload = payload\<rparr>)
      in s\<lparr>vdev_events := vdev_events s @ [event]\<rparr>)"

text \<open>The payload loop: it stops at the first payload when no file handle is there to receive the
  events and leaves the rest registered.\<close>

fun dispatch_payloads :: "int \<Rightarrow> int \<Rightarrow> int \<Rightarrow> payload list \<Rightarrow> 'x sync_device \<Rightarrow> 'x sync_device" where
  "dispatch_payloads sync_obj status cause [] s = s"
| "dispatch_payloads sync_obj status cause (p # ps) s =
     (if \<not> cam_sync_eventq s then s
      else dispatch_payloads sync_obj status cause ps
             (upd_row sync_obj (\<lambda>r. r\<lparr>user_payload_list := tl (user_payload_list r)\<rparr>)
               (cam_sync_util_send_v4l2_event CAM_SYNC_V4L_EVENT_ID_CB_TRIG sync_obj status p cause s)))"

definition cam_sync_util_dispatch_signaled_cb ::
  "int \<Rightarrow> int \<Rightarrow> int \<Rightarrow> 'x sync_device \<Rightarrow> 'x sync_device" where
  "cam_sync_util_dispatch_signaled_cb sync_obj status event_cause s =
     (let row = sync_table s sync_obj in
      if row_state row = CAM_SYNC_STATE_INVALID then s
      else
        let s1 = upd_row sync_obj (\<lambda>r. r\<lparr>callback_list := []\<rparr>)
                   (s\<lparr>work_queue := work_queue s @
                       map (\<lambda>cb. cb\<lparr>cbi_status := status\<rparr>) (callback_list row)\<rparr>);
            s2 = dispatch_payloads sync_obj status event_cause (user_payload_list row) s1
        in upd_row sync_obj (\<lambda>r. r\<lparr>signaled := True\<rparr>) s2)"

definition cam_sync_util_update_parent_state ::
  "int \<Rightarrow> sync_table_row \<Rightarrow> int \<times> sync_table_row" where
  "cam_sync_util_update_parent_state new_state row =
     (if row_state row = CAM_SYNC_STATE_ACTIVE \<or> row_state row = CAM_SYNC_STATE_SIGNALED_SUCCESS
      then (0, row\<lparr>row_state := new_state\<rparr>)
      else if row_state row = CAM_SYNC_STATE_SIGNALED_ERROR \<or>
              row_state row = CAM_SYNC_STATE_SIGNALED_CANCEL
      then (0, row)
      else (- EINVAL, row))"

end
