(* ===== verification/Cam_Sync.thy ===== *)
theory Cam_Sync
  imports Cam_Sync_Util
begin

section \<open>The sync object API\<close>

text \<open>
  Model of the kernel-facing operations of \<open>camera-kernel/drivers/cam_sync/cam_sync.c\<close>: creating,
  merging, signalling, waiting for and destroying sync objects, registering kernel callbacks, and
  the path by which a dma fence signals its sync object. An operation takes the device and returns
  its status with the new device; an output parameter is part of the result.

  \<open>cam_sync_signal\<close> first signals the associated dma fence; the fence core may run camera callbacks
  of other rows, and the calls it makes (\<open>cam_sync_dma_fence_cb\<close>) are performed at that point by
  \<open>apply_sync_cbs\<close>.
\<close>

subsection \<open>Creation\<close>

record cam_dma_fence_create_sync_obj_payload =
  dsc_dma_fence_row_idx :: int
  dsc_fd :: int
  dsc_sync_created_with_dma :: bool

definition cam_sync_create_util ::
  "'x dma_fence_core \<Rightarrow> string \<Rightarrow> cam_dma_fence_create_sync_obj_payload option \<Rightarrow> 'x sync_device
   \<Rightarrow> int \<times> int option \<times> 'x sync_device" where
  "cam_sync_create_util A name dma_sync_create_info s =
     (let idx = find_first_zero_bit (sync_bitmap s) CAM_SYNC_MAX_OBJS in
      if CAM_SYNC_MAX_OBJS \<le> idx then (- ENOMEM, None, s)
      else
        let s1 = s\<lparr>sync_bitmap := set_bit_at idx (sync_bitmap s)\<rparr>;
            (rc, s2) = cam_sync_init_row idx name SYNC_TYPE_INDV s1
        in if rc \<noteq> 0
           then (- EINVAL, None, s2\<lparr>sync_bitmap := clear_bit_at idx (sync_bitmap s2)\<rparr>)
           else case dma_sync_create_info of
               None \<Rightarrow> (rc, Some idx, s2)
             | Some info \<Rightarrow>
                 let s3 = upd_row idx (\<lambda>r. r\<lparr>
                       row_dma_fence_info := \<lparr>dfi_fd = dsc_fd info,
                         dfi_row_idx = dsc_dma_fence_row_idx info,
                         dfi_sync_created_with_dma = dsc_sync_created_with_dma info\<rparr>,
                       ext_fence_mask :=
                         Bit_Operations.set_bit CAM_GENERIC_FENCE_TYPE_DMA_FENCE (ext_fence_mask r)\<rparr>) s2
                 in if dsc_sync_created_with_dma info then
                      (let (rc', d) = cam_dma_fence_get_put_ref A True
                                        (dsc_dma_fence_row_idx info) (dma_dev s3)
                       in (rc', Some idx, upd_dma d s3))
                    else (rc, Some idx, s3))"

definition cam_sync_create ::
  "'x dma_fence_core \<Rightarrow> string \<Rightarrow> 'x sync_device \<Rightarrow> int \<times> int option \<times> 'x sync_device" where
  "cam_sync_create A name s = cam_sync_create_util A name None s"

subsection \<open>Kernel callbacks\<close>

definition sync_signaled_state :: "int \<Rightarrow> bool" where
  "sync_signaled_state st \<longleftrightarrow>
     st = CAM_SYNC_STATE_SIGNALED_SUCCESS \<or> st = CAM_SYNC_STATE_SIGNALED_ERROR \<or>
     st = CAM_SYNC_STATE_SIGNALED_CANCEL"

definition cam_sync_register_callback ::
  "bool \<Rightarrow> nat option \<Rightarrow> nat \<Rightarrow> int \<Rightarrow> 'x sync_device \<Rightarrow> int \<times> 'x sync_device" where
  "cam_sync_register_callback alloc_ok cb_func userdata sync_obj s =
     (case cb_func of
        None \<Rightarrow> (- EINVAL, s)
      | Some f \<Rightarrow>
        if CAM_SYNC_MAX_OBJS \<le> sync_obj \<or> sync_obj \<le> 0 then (- EINVAL, s)
        else
          let row = sync_table s sync_obj in
          if row_state row = CAM_SYNC_STATE_INVALID then (- EINVAL, s)
          else if \<not> alloc_ok then (- ENOMEM, s)
          else if sync_signaled_state (row_state row) \<and> remaining row = 0 then
            (let cb = \<lparr>cbi_func = f, cbi_data = userdata, cbi_status = row_state row,
                       cbi_sync_obj = sync_obj\<rparr>
             in if trigger_cb_without_switch s
                then (0, s\<lparr>cb_trace := cb_trace s @ [cb]\<rparr>)
                else (0, s\<lparr>work_queue := work_queue s @ [cb]\<rparr>))
          else
            (0, upd_row sync_obj (\<lambda>r. r\<lparr>callback_list := callback_list r @
                  [\<lparr>cbi_func = f, cbi_data = userdata, cbi_status = 0, cbi_sync_obj = sync_obj\<rparr>]\<rparr>) s))"

definition cam_sync_deregister_callback ::
  "nat \<Rightarrow> nat \<Rightarrow> int \<Rightarrow> 'x sync_device \<Rightarrow> int \<times> 'x sync_device" where
  "cam_sync_deregister_callback cb_func userdata sync_obj s =
     (if CAM_SYNC_MAX_OBJS \<le> sync_obj \<or> sync_obj \<le> 0 then (- EINVAL, s)
      else
        let row = sync_table s sync_obj;
            match = (\<lambda>cb. cbi_func cb = cb_func \<and> cbi_data cb = userdata)
        in if row_state row = CAM_SYNC_STATE_INVALID then (- EINVAL, s)
           else (if \<exists>cb \<in> set (callback_list row). match cb then 0 else - ENOENT,
                 upd_row sync_obj (\<lambda>r. r\<lparr>callback_list :=
                   filter (\<lambda>cb. \<not> match cb) (callback_list r)\<rparr>) s))"

subsection \<open>Signalling\<close>

fun cam_sync_signal_parent_util ::
  "int \<Rightarrow> int \<Rightarrow> int list \<Rightarrow> 'x sync_device \<Rightarrow> 'x sync_device" where
  "cam_sync_signal_parent_util status event_cause [] s = s"
| "cam_sync_signal_parent_util status event_cause (p # ps) s =
     (let s1 = upd_row p (\<lambda>r. r\<lparr>remaining := remaining r - 1\<rparr>) s;
          (rc, prow) = cam_sync_util_update_parent_state status (sync_table s1 p);
          s2 = upd_row p (\<lambda>_. prow) s1
      in if rc \<noteq> 0 then cam_sync_signal_parent_util status event_cause ps s2
         else cam_sync_signal_parent_util status event_cause ps
                (if remaining prow = 0
                 then cam_sync_util_dispatch_signaled_cb p (row_state prow) event_cause s2
                 else s2))"

definition cam_sync_signal_validate_util :: "int \<Rightarrow> int \<Rightarrow> 'x sync_device \<Rightarrow> int" where
  "cam_sync_signal_validate_util sync_obj status s =
     (let row = sync_table s sync_obj in
      if row_state row = CAM_SYNC_STATE_INVALID then - EINVAL
      else if row_type row = SYNC_TYPE_GROUP then - EINVAL
      else if row_state row \<noteq> CAM_SYNC_STATE_ACTIVE then - EALREADY
      else if status \<noteq> CAM_SYNC_STATE_SIGNALED_SUCCESS \<and>
              status \<noteq> CAM_SYNC_STATE_SIGNALED_ERROR \<and>
              status \<noteq> CAM_SYNC_STATE_SIGNALED_CANCEL then - EINVAL
      else 0)"

text \<open>The tail that \<open>cam_sync_signal\<close> and \<open>cam_sync_dma_fence_cb\<close> share: dispatch the callbacks of the
  object, take its list of parents and signal them.\<close>

definition dispatch_and_signal_parents ::
  "int \<Rightarrow> int \<Rightarrow> int \<Rightarrow> 'x sync_device \<Rightarrow> 'x sync_device" where
  "dispatch_and_signal_parents sync_obj status event_cause s =
     (let s1 = cam_sync_util_dispatch_signaled_cb sync_obj status event_cause s;
          parents = parents_list (sync_table s1 sync_obj);
          s2 = upd_row sync_obj (\<lambda>r. r\<lparr>parents_list := []\<rparr>) s1
      in if parents = [] then s2
         else cam_sync_signal_parent_util status event_cause parents s2)"

definition cam_sync_dma_fence_cb ::
  "int \<Rightarrow> int \<Rightarrow> int \<Rightarrow> 'x sync_device \<Rightarrow> int \<times> 'x sync_device" where
  "cam_sync_dma_fence_cb sync_obj fd fence_status s =
     (if \<not> (0 < sync_obj \<and> sync_obj < CAM_SYNC_MAX_OBJS) then (- EINVAL, s)
      else
        let row = sync_table s sync_obj in
        if \<not> bit (ext_fence_mask row) CAM_GENERIC_FENCE_TYPE_DMA_FENCE then (- EINVAL, s)
        else if dfi_fd (row_dma_fence_info row) \<noteq> fd then (- EINVAL, s)
        else
          let status = (if fence_status < 0
                        then (if fence_status = - ECANCELED then CAM_SYNC_STATE_SIGNALED_CANCEL
                              else CAM_SYNC_STATE_SIGNALED_ERROR)
                        else CAM_SYNC_STATE_SIGNALED_SUCCESS);
              rc = cam_sync_signal_validate_util sync_obj status s
          in if rc \<noteq> 0 then (rc, s)
             else
               let (zero, cnt) = atomic_dec_and_test (ref_cnt row);
                   s1 = upd_row sync_obj (\<lambda>r. r\<lparr>ref_cnt := cnt\<rparr>) s
               in if \<not> zero then (0, s1)
                  else (0, dispatch_and_signal_parents sync_obj status 0
                             (upd_row sync_obj (\<lambda>r. r\<lparr>row_state := status\<rparr>) s1)))"

text \<open>The only function that is ever registered as a row's \<open>sync_cb\<close>.\<close>

definition cam_sync_dma_fence_cb_fn :: cb_fn where
  "cam_sync_dma_fence_cb_fn = 1"

fun apply_sync_cbs :: "sync_cb_call list \<Rightarrow> 'x sync_device \<Rightarrow> 'x sync_device" where
  "apply_sync_cbs [] s = s"
| "apply_sync_cbs (c # cs) s =
     apply_sync_cbs cs
       (if call_fn c = cam_sync_dma_fence_cb_fn
        then snd (cam_sync_dma_fence_cb (call_sync_obj c) (call_fd c) (call_status c) s) else s)"

definition cam_sync_signal_dma_fence_util ::
  "'x dma_fence_core \<Rightarrow> sync_table_row \<Rightarrow> int \<Rightarrow> 'x sync_device \<Rightarrow> int \<times> 'x sync_device" where
  "cam_sync_signal_dma_fence_util A row status s =
     (let sig = (\<lambda>st. \<lparr>sig_dma_fence_fd = dfi_fd (row_dma_fence_info row), sig_status = st\<rparr>);
          run = (\<lambda>st. let (rc, cs, d) = cam_dma_fence_internal_signal A
                            (dfi_row_idx (row_dma_fence_info row)) (sig st) (dma_dev s)
                      in (rc, apply_sync_cbs cs (upd_dma d s)))
      in if status = CAM_SYNC_STATE_SIGNALED_SUCCESS then run 0
         else if status = CAM_SYNC_STATE_SIGNALED_ERROR then run (- EADV)
         else if status = CAM_SYNC_STATE_SIGNALED_CANCEL then run (- ECANCELED)
         else (- EINVAL, s))"

definition cam_sync_signal ::
  "'x dma_fence_core \<Rightarrow> int \<Rightarrow> int \<Rightarrow> int \<Rightarrow> 'x sync_device \<Rightarrow> int \<times> 'x sync_device" where
  "cam_sync_signal A sync_obj status event_cause s =
     (if CAM_SYNC_MAX_OBJS \<le> sync_obj \<or> sync_obj \<le> 0 then (- EINVAL, s)
      else
        let rc = cam_sync_signal_validate_util sync_obj status s in
        if rc \<noteq> 0 then (rc, s)
        else
          let (zero, cnt) = atomic_dec_and_test (ref_cnt (sync_table s sync_obj));
              s1 = upd_row sync_obj (\<lambda>r. r\<lparr>ref_cnt := cnt\<rparr>) s
          in if \<not> zero then (0, s1)
             else
               let s2 = upd_row sync_obj (\<lambda>r. r\<lparr>row_state := status\<rparr>) s1;
                   row = sync_table s2 sync_obj;
                   s3 = (if bit (ext_fence_mask row) CAM_GENERIC_FENCE_TYPE_DMA_FENCE
                         then snd (cam_sync_signal_dma_fence_util A row status s2) else s2)
               in (0, dispatch_and_signal_parents sync_obj status event_cause s3))"

subsection \<open>Validity, references, destruction\<close>

definition cam_sync_check_valid :: "int \<Rightarrow> 'x sync_device \<Rightarrow> int" where
  "cam_sync_check_valid sync_obj s =
     (if CAM_SYNC_MAX_OBJS \<le> sync_obj \<or> sync_obj \<le> 0 then - EINVAL
      else if \<not> sync_bitmap s sync_obj then - EINVAL
      else if row_state (sync_table s sync_obj) = CAM_SYNC_STATE_INVALID then - EINVAL
      else 0)"

definition cam_sync_get_obj_ref :: "int \<Rightarrow> 'x sync_device \<Rightarrow> int \<times> 'x sync_device" where
  "cam_sync_get_obj_ref sync_obj s =
     (if CAM_SYNC_MAX_OBJS \<le> sync_obj \<or> sync_obj \<le> 0 then (- EINVAL, s)
      else if row_state (sync_table s sync_obj) \<noteq> CAM_SYNC_STATE_ACTIVE then (- EINVAL, s)
      else (0, upd_row sync_obj (\<lambda>r. r\<lparr>ref_cnt := ref_cnt r + 1\<rparr>) s))"

definition cam_sync_put_obj_ref :: "int \<Rightarrow> 'x sync_device \<Rightarrow> int \<times> 'x sync_device" where
  "cam_sync_put_obj_ref sync_obj s =
     (if CAM_SYNC_MAX_OBJS \<le> sync_obj \<or> sync_obj \<le> 0 then (- EINVAL, s)
      else (0, upd_row sync_obj (\<lambda>r. r\<lparr>ref_cnt := ref_cnt r - 1\<rparr>) s))"

definition cam_sync_destroy ::
  "'x dma_fence_core \<Rightarrow> int \<Rightarrow> 'x sync_device \<Rightarrow> int \<times> 'x sync_device" where
  "cam_sync_destroy A sync_obj s =
     (let (rc, _, s') = cam_sync_deinit_object A sync_obj None s in (rc, s'))"

subsection \<open>Merging\<close>

text \<open>
  \<open>cam_common_util_remove_duplicate_arr\<close> (\<open>cam_utils/cam_common_util.c\<close>) compacts the array in place:
  the first \<open>wr_idx\<close> entries are the distinct values met so far. The inner loop looks for
  \<open>arr[i]\<close> among them, in order.
\<close>

fun dup_search :: "int list \<Rightarrow> int \<Rightarrow> nat \<Rightarrow> nat \<Rightarrow> nat" where
  "dup_search arr v j 0 = j"
| "dup_search arr v j (Suc k) = (if v = arr ! j then j else dup_search arr v (j + 1) k)"

fun dup_loop :: "nat \<Rightarrow> nat \<Rightarrow> nat \<Rightarrow> int list \<Rightarrow> nat \<times> int list" where
  "dup_loop 0 i wr_idx arr = (wr_idx, arr)"
| "dup_loop (Suc k) i wr_idx arr =
     (if dup_search arr (arr ! i) 0 wr_idx = wr_idx
      then dup_loop k (i + 1) (wr_idx + 1) (arr[wr_idx := arr ! i])
      else dup_loop k (i + 1) wr_idx arr)"

definition cam_common_util_remove_duplicate_arr :: "int list \<Rightarrow> nat \<times> int list" where
  "cam_common_util_remove_duplicate_arr arr = dup_loop (length arr - 1) 1 1 arr"

fun check_all_valid :: "int list \<Rightarrow> 'x sync_device \<Rightarrow> int" where
  "check_all_valid [] s = 0"
| "check_all_valid (o' # os) s =
     (let rc = cam_sync_check_valid o' s in if rc \<noteq> 0 then rc else check_all_valid os s)"

text \<open>\<open>sync_obj\<close> is the array of \<open>num_objs\<close> entries; \<open>None\<close> stands for a NULL pointer.\<close>

definition cam_sync_merge ::
  "(nat \<Rightarrow> bool) \<Rightarrow> int list option \<Rightarrow> 'x sync_device \<Rightarrow> int \<times> int option \<times> 'x sync_device" where
  "cam_sync_merge alloc sync_obj s =
     (case sync_obj of
        None \<Rightarrow> (- EINVAL, None, s)
      | Some objs \<Rightarrow>
        if length objs \<le> 1 then (- EINVAL, None, s)
        else
          let (n, objs') = cam_common_util_remove_duplicate_arr objs in
          if n \<noteq> length objs then (- EINVAL, None, s)
          else
            let rc = check_all_valid objs' s in
            if rc \<noteq> 0 then (rc, None, s)
            else
              let idx = find_first_zero_bit (sync_bitmap s) CAM_SYNC_MAX_OBJS in
              if CAM_SYNC_MAX_OBJS \<le> idx then (- ENOMEM, None, s)
              else
                let s1 = s\<lparr>sync_bitmap := set_bit_at idx (sync_bitmap s)\<rparr>;
                    (rc', s2) = cam_sync_init_group_object alloc idx objs' s1
                in if rc' < 0
                   then (- EINVAL, None, s2\<lparr>sync_bitmap := clear_bit_at idx (sync_bitmap s2)\<rparr>)
                   else (0, Some idx, s2))"

subsection \<open>Waiting\<close>

text \<open>
  \<open>wait_for_completion_timeout\<close> is the kernel's: the argument \<open>wait\<close> gives, for the number of jiffies
  to wait, the jiffies left when the completion is done and 0 on a timeout. So is
  \<open>msecs_to_jiffies\<close>, whose parameter is an \<open>unsigned int\<close>: the 64-bit timeout is truncated on the
  call. The row is read once before the wait (device \<open>s\<close>) and once after it (device \<open>s'\<close>). The
  module parameter \<open>timeout_multiplier\<close> is raised to 1 when it is 0.
\<close>

definition cam_common_wait_for_completion_timeout :: "u32 \<Rightarrow> (u64 \<Rightarrow> u64) \<Rightarrow> u64 \<Rightarrow> u64" where
  "cam_common_wait_for_completion_timeout timeout_multiplier wait timeout_jiffies =
     (let mult = (if timeout_multiplier < 1 then 1 else timeout_multiplier)
      in wait (timeout_jiffies * ucast mult))"

definition cam_sync_wait ::
  "u32 \<Rightarrow> (u32 \<Rightarrow> u64) \<Rightarrow> (u64 \<Rightarrow> u64) \<Rightarrow> int \<Rightarrow> u64 \<Rightarrow> 'x sync_device \<Rightarrow> 'x sync_device \<Rightarrow> int" where
  "cam_sync_wait timeout_multiplier msecs_to_jiffies wait sync_obj timeout_ms s s' =
     (if CAM_SYNC_MAX_OBJS \<le> sync_obj \<or> sync_obj \<le> 0 then - EINVAL
      else if row_state (sync_table s sync_obj) = CAM_SYNC_STATE_INVALID then - EINVAL
      else if cam_common_wait_for_completion_timeout timeout_multiplier wait
                (msecs_to_jiffies (ucast timeout_ms)) = 0
      then - ETIMEDOUT
      else if row_state (sync_table s' sync_obj) = CAM_SYNC_STATE_SIGNALED_SUCCESS then 0
      else - EINVAL)"

end
