(* ===== verification/Cam_Sync_Inv.thy ===== *)
theory Cam_Sync_Inv
  imports Cam_Sync
begin

section \<open>The invariant of the sync table\<close>

text \<open>
  The structure every operation of the sync driver keeps. \<open>kids T p\<close> are the objects that still have
  to report to the group \<open>p\<close>: those that list \<open>p\<close> as a parent.

  \<^item> \<open>row_ok\<close>: what a row satisfies by itself (states are the five of the header, a free row has
    empty lists, only groups have children and a count, only individual objects have parents);
  \<^item> \<open>tbl_wf\<close>: the links: a parent is a live group that lists the child, and the count of a group is
    never less than the number of its children that still have to report;
  \<^item> \<open>bits_ok\<close>: the bitmap marks exactly the live rows, and row 0;
  \<^item> \<open>settled X\<close>: outside \<open>X\<close>, the completion of a row is done exactly when the row is signalled
    (an individual object) or has no child left to report (a group).
\<close>

definition live :: "sync_table_row \<Rightarrow> bool" where
  "live r \<longleftrightarrow> row_state r \<noteq> CAM_SYNC_STATE_INVALID"

definition kids :: "(int \<Rightarrow> sync_table_row) \<Rightarrow> int \<Rightarrow> int set" where
  "kids T p = {c. p \<in> set (parents_list (T c))}"

definition row_ok :: "int \<Rightarrow> sync_table_row \<Rightarrow> bool" where
  "row_ok i r \<longleftrightarrow>
     (row_state r = CAM_SYNC_STATE_INVALID \<or> row_state r = CAM_SYNC_STATE_ACTIVE \<or>
      sync_signaled_state (row_state r)) \<and>
     (live r \<longrightarrow> 0 < i \<and> i < CAM_SYNC_MAX_OBJS \<and> row_sync_id r = i) \<and>
     (\<not> live r \<longrightarrow> parents_list r = [] \<and> children_list r = [] \<and> callback_list r = [] \<and>
        user_payload_list r = []) \<and>
     distinct (parents_list r) \<and> distinct (children_list r) \<and> (\<forall>c \<in> set (children_list r). 0 < c) \<and>
     (live r \<and> row_type r = SYNC_TYPE_INDV \<longrightarrow> children_list r = [] \<and> remaining r = 0) \<and>
     (live r \<and> row_type r = SYNC_TYPE_GROUP \<longrightarrow> parents_list r = [])"

definition tbl_wf :: "(int \<Rightarrow> sync_table_row) \<Rightarrow> bool" where
  "tbl_wf T \<longleftrightarrow>
     (\<forall>i. row_ok i (T i)) \<and>
     (\<forall>p c. c \<in> kids T p \<longrightarrow> live (T p) \<and> row_type (T p) = SYNC_TYPE_GROUP \<and>
        c \<in> set (children_list (T p))) \<and>
     (\<forall>p. card (kids T p) \<le> unat (remaining (T p)))"

definition bits_ok :: "(int \<Rightarrow> sync_table_row) \<Rightarrow> bitmap \<Rightarrow> bool" where
  "bits_ok T B \<longleftrightarrow> B 0 \<and> (\<forall>i. 0 < i \<and> i < CAM_SYNC_MAX_OBJS \<longrightarrow> B i = live (T i))"

definition row_settled :: "sync_table_row \<Rightarrow> bool" where
  "row_settled r \<longleftrightarrow>
     (live r \<and> row_type r = SYNC_TYPE_INDV \<longrightarrow>
        signaled r = (row_state r \<noteq> CAM_SYNC_STATE_ACTIVE) \<and> (signaled r \<longrightarrow> parents_list r = [])) \<and>
     (live r \<and> row_type r = SYNC_TYPE_GROUP \<longrightarrow>
        signaled r = (remaining r = 0) \<and> (signaled r \<longrightarrow> row_state r \<noteq> CAM_SYNC_STATE_ACTIVE))"

definition settled :: "int set \<Rightarrow> (int \<Rightarrow> sync_table_row) \<Rightarrow> bool" where
  "settled X T \<longleftrightarrow> (\<forall>i. i \<notin> X \<longrightarrow> row_settled (T i))"

definition sync_inv :: "'x sync_device \<Rightarrow> bool" where
  "sync_inv s \<longleftrightarrow> tbl_wf (sync_table s) \<and> bits_ok (sync_table s) (sync_bitmap s) \<and>
     settled {} (sync_table s) \<and> dma_wf (dma_dev s)"

subsection \<open>Elementary facts\<close>

lemma upd_row_simps [simp]:
  "sync_table (upd_row i f s) = (sync_table s)(i := f (sync_table s i))"
  "sync_bitmap (upd_row i f s) = sync_bitmap s"
  "open_cnt (upd_row i f s) = open_cnt s"
  "work_queue (upd_row i f s) = work_queue s"
  "cam_sync_eventq (upd_row i f s) = cam_sync_eventq s"
  "sync_version (upd_row i f s) = sync_version s"
  "vdev_events (upd_row i f s) = vdev_events s"
  "cb_trace (upd_row i f s) = cb_trace s"
  "trigger_cb_without_switch (upd_row i f s) = trigger_cb_without_switch s"
  "dma_dev (upd_row i f s) = dma_dev s"
  by (simp_all add: upd_row_def)

lemma upd_dma_simps [simp]:
  "sync_table (upd_dma d s) = sync_table s"
  "sync_bitmap (upd_dma d s) = sync_bitmap s"
  "open_cnt (upd_dma d s) = open_cnt s"
  "work_queue (upd_dma d s) = work_queue s"
  "cam_sync_eventq (upd_dma d s) = cam_sync_eventq s"
  "vdev_events (upd_dma d s) = vdev_events s"
  "cb_trace (upd_dma d s) = cb_trace s"
  "dma_dev (upd_dma d s) = d"
  by (simp_all add: upd_dma_def)

lemma zero_row_simps [simp]:
  "row_state zero_row = CAM_SYNC_STATE_INVALID" "parents_list zero_row = []"
  "children_list zero_row = []" "callback_list zero_row = []" "user_payload_list zero_row = []"
  "remaining zero_row = 0" "ref_cnt zero_row = 0" "signaled zero_row = False"
  "row_type zero_row = SYNC_TYPE_INDV" "ext_fence_mask zero_row = 0"
  by (simp_all add: zero_row_def)

lemma clean_ids_one [simp]: "clean_ids SYNC_LIST_CLEAN_ONE x xs = remove1 x xs"
  by (induction xs) auto

lemma clean_ids_all [simp]: "clean_ids SYNC_LIST_CLEAN_ALL x xs = []"
  by (induction xs) auto

lemma row_okD:
  assumes "row_ok i r"
  shows "live r \<Longrightarrow> 0 < i" "live r \<Longrightarrow> i < CAM_SYNC_MAX_OBJS" "live r \<Longrightarrow> row_sync_id r = i"
    "\<not> live r \<Longrightarrow> parents_list r = []" "\<not> live r \<Longrightarrow> children_list r = []"
    "\<not> live r \<Longrightarrow> callback_list r = []" "\<not> live r \<Longrightarrow> user_payload_list r = []"
    "distinct (parents_list r)" "distinct (children_list r)"
    "c \<in> set (children_list r) \<Longrightarrow> 0 < c"
    "live r \<Longrightarrow> row_type r = SYNC_TYPE_INDV \<Longrightarrow> children_list r = []"
    "live r \<Longrightarrow> row_type r = SYNC_TYPE_INDV \<Longrightarrow> remaining r = 0"
    "live r \<Longrightarrow> row_type r = SYNC_TYPE_GROUP \<Longrightarrow> parents_list r = []"
  using assms by (auto simp: row_ok_def)

lemma tbl_wfD:
  assumes "tbl_wf T"
  shows "row_ok i (T i)"
    and "c \<in> kids T p \<Longrightarrow> live (T p) \<and> row_type (T p) = SYNC_TYPE_GROUP \<and> c \<in> set (children_list (T p))"
    and "card (kids T p) \<le> unat (remaining (T p))"
  using assms by (auto simp: tbl_wf_def)

lemma tbl_wfI:
  assumes "\<And>i. row_ok i (T i)"
    and "\<And>p c. c \<in> kids T p \<Longrightarrow> live (T p) \<and> row_type (T p) = SYNC_TYPE_GROUP \<and>
                 c \<in> set (children_list (T p))"
    and "\<And>p. card (kids T p) \<le> unat (remaining (T p))"
  shows "tbl_wf T"
  using assms by (auto simp: tbl_wf_def)

text \<open>Only live individual rows report to a group, and there are finitely many.\<close>

lemma kids_live:
  assumes "tbl_wf T" "c \<in> kids T p"
  shows "live (T c)" "row_type (T c) = SYNC_TYPE_INDV" "c \<noteq> p"
proof -
  from assms have ok: "row_ok c (T c)" and par: "p \<in> set (parents_list (T c))"
    by (auto simp: tbl_wfD kids_def)
  then show "live (T c)" by (auto dest: row_okD(4))
  with ok par show "row_type (T c) = SYNC_TYPE_INDV"
    by (cases "row_type (T c)") (auto dest: row_okD(13))
  with tbl_wfD(2) [OF assms] show "c \<noteq> p" by auto
qed

lemma finite_kids:
  assumes "tbl_wf T"
  shows "finite (kids T p)"
proof (rule finite_subset)
  show "kids T p \<subseteq> {0..CAM_SYNC_MAX_OBJS}"
  proof
    fix c
    assume "c \<in> kids T p"
    with row_okD(1,2) [OF tbl_wfD(1) [OF assms]] kids_live(1) [OF assms]
    have "0 < c" "c < CAM_SYNC_MAX_OBJS" by blast+
    then show "c \<in> {0..CAM_SYNC_MAX_OBJS}" by simp
  qed
qed simp

lemma kids_dead: "tbl_wf T \<Longrightarrow> \<not> live (T p) \<Longrightarrow> kids T p = {}"
  using tbl_wfD(2) by blast

subsection \<open>Updates that keep the structure\<close>

text \<open>The row keeps its links and its type and stays live.\<close>

lemma tbl_wf_upd:
  assumes wf: "tbl_wf T" and ok: "row_ok i r" and same: "parents_list r = parents_list (T i)"
    and "set (children_list (T i)) \<subseteq> set (children_list r)" and "row_type r = row_type (T i)"
    and "live (T i) \<Longrightarrow> live r" and cnt: "card (kids T i) \<le> unat (remaining r)"
  shows "tbl_wf (T(i := r))"
proof -
  have k: "kids (T(i := r)) p = kids T p" for p using same by (auto simp: kids_def)
  show ?thesis
  proof (rule tbl_wfI)
    show "row_ok j ((T(i := r)) j)" for j using wf ok by (simp add: tbl_wfD)
    show "card (kids (T(i := r)) p) \<le> unat (remaining ((T(i := r)) p))" for p
      using cnt tbl_wfD(3) [OF wf, of p] by (simp add: k)
    fix p c
    assume "c \<in> kids (T(i := r)) p"
    with tbl_wfD(2) [OF wf, of c p] assms
    show "live ((T(i := r)) p) \<and> row_type ((T(i := r)) p) = SYNC_TYPE_GROUP \<and>
          c \<in> set (children_list ((T(i := r)) p))"
      by (auto simp: k)
  qed
qed

text \<open>The list of parents of a row shrinks.\<close>

lemma tbl_wf_drop_parents:
  assumes wf: "tbl_wf T" and sub: "set ps \<subseteq> set (parents_list (T c))" and "distinct ps"
  shows "tbl_wf (T(c := (T c)\<lparr>parents_list := ps\<rparr>))"
proof -
  let ?T = "T(c := (T c)\<lparr>parents_list := ps\<rparr>)"
  have k: "kids ?T p \<subseteq> kids T p" for p using sub by (auto simp: kids_def)
  show ?thesis
  proof (rule tbl_wfI)
    show "row_ok j (?T j)" for j
      using tbl_wfD(1) [OF wf, of j] sub \<open>distinct ps\<close> by (auto simp: row_ok_def live_def)
    show "card (kids ?T p) \<le> unat (remaining (?T p))" for p
      using card_mono [OF finite_kids [OF wf] k, of p] tbl_wfD(3) [OF wf, of p]
      by (cases "p = c") auto
    fix p d
    assume "d \<in> kids ?T p"
    with k tbl_wfD(2) [OF wf, of d p]
    show "live (?T p) \<and> row_type (?T p) = SYNC_TYPE_GROUP \<and> d \<in> set (children_list (?T p))"
      by (auto simp: live_def)
  qed
qed

text \<open>A free row is filled with a row that has no links yet.\<close>

lemma tbl_wf_fresh:
  assumes wf: "tbl_wf T" and "\<not> live (T i)" and "row_ok i r" and "parents_list r = []"
  shows "tbl_wf (T(i := r))"
proof -
  have "parents_list (T i) = []" using assms by (auto dest: tbl_wfD(1) row_okD(4))
  then have k: "kids (T(i := r)) p = kids T p" for p using assms(4) by (auto simp: kids_def)
  show ?thesis
  proof (rule tbl_wfI)
    show "row_ok j ((T(i := r)) j)" for j using wf assms(3) by (simp add: tbl_wfD)
    show "card (kids (T(i := r)) p) \<le> unat (remaining ((T(i := r)) p))" for p
      using tbl_wfD(3) [OF wf, of p] kids_dead [OF wf assms(2)] by (simp add: k)
    fix p c
    assume "c \<in> kids (T(i := r)) p"
    with tbl_wfD(2) [OF wf, of c p] assms(2)
    show "live ((T(i := r)) p) \<and> row_type ((T(i := r)) p) = SYNC_TYPE_GROUP \<and>
          c \<in> set (children_list ((T(i := r)) p))"
      by (auto simp: k)
  qed
qed

lemma bits_ok_upd: "bits_ok T B \<Longrightarrow> live r = live (T i) \<Longrightarrow> bits_ok (T(i := r)) B"
  by (auto simp: bits_ok_def)

lemma settled_upd: "settled X T \<Longrightarrow> i \<in> X \<or> row_settled r \<Longrightarrow> settled X (T(i := r))"
  by (auto simp: settled_def)

lemma settled_mono: "settled X T \<Longrightarrow> X \<subseteq> Y \<Longrightarrow> settled Y T"
  by (auto simp: settled_def)

lemma settledD: "settled X T \<Longrightarrow> i \<notin> X \<Longrightarrow> row_settled (T i)"
  by (simp add: settled_def)

lemma settled_fill: "settled (insert i X) T \<Longrightarrow> row_settled (T i) \<Longrightarrow> settled X T"
  by (auto simp: settled_def)

subsection \<open>Dispatching\<close>

text \<open>What one event carries, and the exact effect of a dispatch on the device.\<close>

definition sync_event :: "int \<Rightarrow> int \<Rightarrow> int \<Rightarrow> int \<Rightarrow> payload \<Rightarrow> v4l2_event" where
  "sync_event version sync_obj status cause p =
     (if version = CAM_SYNC_V4L_EVENT_V2
      then \<lparr>ev_id = CAM_SYNC_V4L_EVENT_ID_CB_TRIG, ev_type = CAM_SYNC_V4L_EVENT_V2,
            ev_header = Ev_header_v2 sync_obj status version cause, ev_payload = p\<rparr>
      else \<lparr>ev_id = CAM_SYNC_V4L_EVENT_ID_CB_TRIG, ev_type = CAM_SYNC_V4L_EVENT,
            ev_header = Ev_header sync_obj status, ev_payload = p\<rparr>)"

lemma send_event_eq:
  "cam_sync_util_send_v4l2_event CAM_SYNC_V4L_EVENT_ID_CB_TRIG so st p cause s =
   s\<lparr>vdev_events := vdev_events s @ [sync_event (sync_version s) so st cause p]\<rparr>"
  by (simp add: cam_sync_util_send_v4l2_event_def sync_event_def Let_def)

lemma dispatch_payloads_eq:
  "user_payload_list (sync_table s so) = ps \<Longrightarrow>
   dispatch_payloads so st cause ps s =
     (if cam_sync_eventq s
      then upd_row so (\<lambda>r. r\<lparr>user_payload_list := []\<rparr>)
             (s\<lparr>vdev_events := vdev_events s @ map (sync_event (sync_version s) so st cause) ps\<rparr>)
      else s)"
proof (induction ps arbitrary: s)
  case Nil
  have "(sync_table s)(so := (sync_table s so)\<lparr>user_payload_list := []\<rparr>) = sync_table s"
    using Nil by (auto simp: fun_eq_iff)
  then show ?case by (simp add: upd_row_def)
next
  case (Cons p ps)
  then show ?case by (simp add: send_event_eq upd_row_def)
qed

lemma dispatch_eq:
  "cam_sync_util_dispatch_signaled_cb so st cause s =
     (let row = sync_table s so in
      if row_state row = CAM_SYNC_STATE_INVALID then s
      else upd_row so (\<lambda>r. if cam_sync_eventq s
                         then r\<lparr>callback_list := [], user_payload_list := [], signaled := True\<rparr>
                         else r\<lparr>callback_list := [], signaled := True\<rparr>)
             (s\<lparr>work_queue := work_queue s @ map (\<lambda>cb. cb\<lparr>cbi_status := st\<rparr>) (callback_list row),
                vdev_events := vdev_events s @ (if cam_sync_eventq s
                  then map (sync_event (sync_version s) so st cause) (user_payload_list row) else [])\<rparr>))"
  by (simp add: cam_sync_util_dispatch_signaled_cb_def Let_def dispatch_payloads_eq upd_row_def)

definition dispatched :: "bool \<Rightarrow> sync_table_row \<Rightarrow> sync_table_row" where
  "dispatched evq r =
     (if \<not> live r then r
      else if evq then r\<lparr>callback_list := [], user_payload_list := [], signaled := True\<rparr>
      else r\<lparr>callback_list := [], signaled := True\<rparr>)"

lemma dispatch_simps [simp]:
  "sync_table (cam_sync_util_dispatch_signaled_cb so st cause s) =
     (sync_table s)(so := dispatched (cam_sync_eventq s) (sync_table s so))"
  "sync_bitmap (cam_sync_util_dispatch_signaled_cb so st cause s) = sync_bitmap s"
  "dma_dev (cam_sync_util_dispatch_signaled_cb so st cause s) = dma_dev s"
  "cam_sync_eventq (cam_sync_util_dispatch_signaled_cb so st cause s) = cam_sync_eventq s"
  "open_cnt (cam_sync_util_dispatch_signaled_cb so st cause s) = open_cnt s"
  "cb_trace (cam_sync_util_dispatch_signaled_cb so st cause s) = cb_trace s"
  "trigger_cb_without_switch (cam_sync_util_dispatch_signaled_cb so st cause s) =
     trigger_cb_without_switch s"
  by (auto simp: dispatch_eq Let_def dispatched_def live_def fun_upd_idem)

lemma dispatched_simps [simp]:
  "row_state (dispatched b r) = row_state r" "row_type (dispatched b r) = row_type r"
  "parents_list (dispatched b r) = parents_list r" "children_list (dispatched b r) = children_list r"
  "remaining (dispatched b r) = remaining r" "row_sync_id (dispatched b r) = row_sync_id r"
  "live (dispatched b r) = live r" "ref_cnt (dispatched b r) = ref_cnt r"
  "ext_fence_mask (dispatched b r) = ext_fence_mask r"
  "row_dma_fence_info (dispatched b r) = row_dma_fence_info r"
  "signaled (dispatched b r) = (live r \<or> signaled r)"
  by (simp_all add: dispatched_def live_def)

lemma row_ok_dispatched: "row_ok i r \<Longrightarrow> row_ok i (dispatched b r)"
  unfolding row_ok_def dispatched_simps by (auto simp: dispatched_def)

subsection \<open>Signalling the parents\<close>

text \<open>The table and the bits are in order, and outside \<open>X\<close> every row is settled.\<close>

definition good :: "int set \<Rightarrow> 'x sync_device \<Rightarrow> bool" where
  "good X s \<longleftrightarrow> tbl_wf (sync_table s) \<and> bits_ok (sync_table s) (sync_bitmap s) \<and>
     settled X (sync_table s)"

lemma sync_inv_good: "sync_inv s \<longleftrightarrow> good {} s \<and> dma_wf (dma_dev s)"
  by (auto simp: sync_inv_def good_def)

lemma good_mono: "good X s \<Longrightarrow> X \<subseteq> Y \<Longrightarrow> good Y s"
  by (auto simp: good_def intro: settled_mono)

lemma good_upd_dma [simp]: "good X (upd_dma d s) = good X s"
  by (simp add: good_def)

text \<open>One parent: what the loop body does to its row.\<close>

definition parent_step :: "bool \<Rightarrow> int \<Rightarrow> sync_table_row \<Rightarrow> sync_table_row" where
  "parent_step evq st r =
     (let (rc, r1) = cam_sync_util_update_parent_state st (r\<lparr>remaining := remaining r - 1\<rparr>)
      in if rc = 0 \<and> remaining r1 = 0 then dispatched evq r1 else r1)"

definition parent_fold :: "bool \<Rightarrow> int \<Rightarrow> int list \<Rightarrow> (int \<Rightarrow> sync_table_row) \<Rightarrow> int \<Rightarrow> sync_table_row" where
  "parent_fold evq st ps T = fold (\<lambda>p T. T(p := parent_step evq st (T p))) ps T"

lemma parent_fold_simps [simp]:
  "parent_fold evq st [] T = T"
  "parent_fold evq st (p # ps) T = parent_fold evq st ps (T(p := parent_step evq st (T p)))"
  by (simp_all add: parent_fold_def)

lemma signal_parent_util_eq:
  shows "sync_table (cam_sync_signal_parent_util st cause ps s) =
           parent_fold (cam_sync_eventq s) st ps (sync_table s)"
    and "sync_bitmap (cam_sync_signal_parent_util st cause ps s) = sync_bitmap s"
    and "dma_dev (cam_sync_signal_parent_util st cause ps s) = dma_dev s"
    and "cam_sync_eventq (cam_sync_signal_parent_util st cause ps s) = cam_sync_eventq s"
    and "open_cnt (cam_sync_signal_parent_util st cause ps s) = open_cnt s"
    and "cb_trace (cam_sync_signal_parent_util st cause ps s) = cb_trace s"
  by (induction ps arbitrary: s)
    (simp_all add: Let_def parent_step_def split: prod.splits)

lemma parent_fold_apply:
  "distinct ps \<Longrightarrow> parent_fold evq st ps T i = (if i \<in> set ps then parent_step evq st (T i) else T i)"
  by (induction ps arbitrary: T) auto

lemma parent_step_simps [simp]:
  "remaining (parent_step evq st r) = remaining r - 1"
  "parents_list (parent_step evq st r) = parents_list r"
  "children_list (parent_step evq st r) = children_list r"
  "row_type (parent_step evq st r) = row_type r"
  "row_sync_id (parent_step evq st r) = row_sync_id r"
  by (auto simp: parent_step_def cam_sync_util_update_parent_state_def)

text \<open>The state of a group after one of its children was signalled with \<open>st\<close>: a failure sticks.\<close>

definition absorb :: "int \<Rightarrow> int \<Rightarrow> int" where
  "absorb st old = (if old = CAM_SYNC_STATE_ACTIVE \<or> old = CAM_SYNC_STATE_SIGNALED_SUCCESS then st else old)"

lemma parent_step_state: "row_state (parent_step evq st r) = absorb st (row_state r)"
  by (auto simp: parent_step_def cam_sync_util_update_parent_state_def absorb_def)

lemma absorb_signaled:
  "sync_signaled_state st \<Longrightarrow> old = CAM_SYNC_STATE_ACTIVE \<or> sync_signaled_state old \<Longrightarrow>
   sync_signaled_state (absorb st old)"
  by (auto simp: absorb_def sync_signaled_state_def)

lemma signaled_state_live: "sync_signaled_state (row_state r) \<Longrightarrow> live r \<and> row_state r \<noteq> CAM_SYNC_STATE_ACTIVE"
  by (auto simp: sync_signaled_state_def live_def)

lemma row_ok_state:
  "row_ok i r \<Longrightarrow> live r \<Longrightarrow> row_state r = CAM_SYNC_STATE_ACTIVE \<or> sync_signaled_state (row_state r)"
  by (auto simp: row_ok_def live_def)

lemma parent_step_signaled:
  assumes "row_ok i r" "live r" "sync_signaled_state st"
  shows "signaled (parent_step evq st r) = (signaled r \<or> remaining r - 1 = 0)"
  using row_ok_state [OF assms(1,2)] assms(3)
  by (auto simp: parent_step_def cam_sync_util_update_parent_state_def sync_signaled_state_def live_def)

lemma row_ok_parent_step:
  assumes "row_ok i r" "live r" "row_type r = SYNC_TYPE_GROUP" "sync_signaled_state st"
  shows "row_ok i (parent_step evq st r)"
proof -
  have "sync_signaled_state (row_state (parent_step evq st r))"
    using row_ok_state [OF assms(1,2)] assms(4) by (simp add: parent_step_state absorb_signaled)
  with assms show ?thesis
    by (auto simp: row_ok_def dest: signaled_state_live)
qed

lemma settled_parent_step:
  assumes "row_ok i r" "live r" "row_type r = SYNC_TYPE_GROUP" "sync_signaled_state st"
    and "row_settled r" "remaining r \<noteq> 0"
  shows "row_settled (parent_step evq st r)"
proof -
  have "sync_signaled_state (row_state (parent_step evq st r))"
    using row_ok_state [OF assms(1,2)] assms(4) by (simp add: parent_step_state absorb_signaled)
  with assms show ?thesis
    by (auto simp: row_settled_def parent_step_signaled dest: signaled_state_live)
qed

text \<open>The loop over the parents: each parent still counts the child that reports now.\<close>

lemma parent_fold_good:
  assumes "tbl_wf T" "settled X T" "bits_ok T B" "sync_signaled_state st" "distinct ps"
    and "\<And>p. p \<in> set ps \<Longrightarrow> live (T p) \<and> row_type (T p) = SYNC_TYPE_GROUP \<and>
               card (kids T p) < unat (remaining (T p))"
  shows "tbl_wf (parent_fold evq st ps T) \<and> settled X (parent_fold evq st ps T) \<and>
         bits_ok (parent_fold evq st ps T) B"
  using assms
proof (induction ps arbitrary: T)
  case (Cons p ps)
  let ?r = "parent_step evq st (T p)"
  let ?T = "T(p := ?r)"
  from Cons.prems(6) [of p] have p: "live (T p)" "row_type (T p) = SYNC_TYPE_GROUP"
    "card (kids T p) < unat (remaining (T p))" by auto
  note ok = tbl_wfD(1) [OF Cons.prems(1), of p]
  from p have rem: "remaining (T p) \<noteq> 0" by auto
  have ok': "row_ok p ?r" using ok p Cons.prems(4) by (simp add: row_ok_parent_step)
  have lv: "live ?r" using row_ok_state [OF ok p(1)] Cons.prems(4)
    by (simp add: parent_step_state absorb_signaled signaled_state_live)
  have wf: "tbl_wf ?T"
    by (rule tbl_wf_upd [OF Cons.prems(1) ok']) (use p rem lv in \<open>auto simp: unat_dec\<close>)
  have st: "settled X ?T"
    using Cons.prems(2) settled_parent_step [OF ok p(1,2) Cons.prems(4) _ rem]
    by (intro settled_upd) (auto dest: settledD)
  have bt: "bits_ok ?T B" using Cons.prems(3) lv p by (intro bits_ok_upd) auto
  have k: "kids ?T q = kids T q" for q by (auto simp: kids_def)
  have "tbl_wf (parent_fold evq st ps ?T) \<and> settled X (parent_fold evq st ps ?T) \<and>
        bits_ok (parent_fold evq st ps ?T) B"
    by (rule Cons.IH [OF wf st bt Cons.prems(4)]) (use Cons.prems(5,6) in \<open>auto simp: k k [unfolded fun_upd_def]\<close>)
  then show ?case by simp
qed simp

subsection \<open>Signalling an object\<close>

definition is_indv :: "sync_table_row \<Rightarrow> bool" where
  "is_indv r \<longleftrightarrow> live r \<and> row_type r = SYNC_TYPE_INDV"

definition is_group :: "sync_table_row \<Rightarrow> bool" where
  "is_group r \<longleftrightarrow> live r \<and> row_type r = SYNC_TYPE_GROUP"

lemma parents_group:
  "tbl_wf T \<Longrightarrow> p \<in> set (parents_list (T c)) \<Longrightarrow> is_group (T p) \<and> p \<noteq> c \<and> is_indv (T c)"
  using tbl_wfD(2) [of T c p] kids_live [of T c p] by (auto simp: is_group_def is_indv_def kids_def)

text \<open>The table after an object with row \<open>T c\<close> was dispatched and its parents were signalled.\<close>

definition signal_table ::
  "bool \<Rightarrow> int \<Rightarrow> int \<Rightarrow> (int \<Rightarrow> sync_table_row) \<Rightarrow> int \<Rightarrow> sync_table_row" where
  "signal_table evq c st T i =
     (if i = c then (dispatched evq (T c))\<lparr>parents_list := []\<rparr>
      else if i \<in> set (parents_list (T c)) then parent_step evq st (T i) else T i)"

lemma dispatch_and_signal_parents_simps [simp]:
  "sync_bitmap (dispatch_and_signal_parents c st cause s) = sync_bitmap s"
  "dma_dev (dispatch_and_signal_parents c st cause s) = dma_dev s"
  "cam_sync_eventq (dispatch_and_signal_parents c st cause s) = cam_sync_eventq s"
  "open_cnt (dispatch_and_signal_parents c st cause s) = open_cnt s"
  "cb_trace (dispatch_and_signal_parents c st cause s) = cb_trace s"
  by (simp_all add: dispatch_and_signal_parents_def Let_def signal_parent_util_eq)

lemma dispatch_and_signal_parents_fold:
  "sync_table (dispatch_and_signal_parents c st cause s) =
     parent_fold (cam_sync_eventq s) st (parents_list (sync_table s c))
       ((sync_table s)(c := (dispatched (cam_sync_eventq s) (sync_table s c))\<lparr>parents_list := []\<rparr>))"
  by (simp add: dispatch_and_signal_parents_def Let_def signal_parent_util_eq)

lemma dispatch_and_signal_parents_table:
  assumes "tbl_wf (sync_table s)"
  shows "sync_table (dispatch_and_signal_parents c st cause s) =
           signal_table (cam_sync_eventq s) c st (sync_table s)"
proof
  fix i
  have "distinct (parents_list (sync_table s c))" "c \<notin> set (parents_list (sync_table s c))"
    using row_okD(8) [OF tbl_wfD(1) [OF assms]] parents_group [OF assms] by blast+
  then show "sync_table (dispatch_and_signal_parents c st cause s) i =
        signal_table (cam_sync_eventq s) c st (sync_table s) i"
    by (auto simp: dispatch_and_signal_parents_fold parent_fold_apply signal_table_def)
qed

lemma dispatch_and_signal_parents_good:
  assumes g: "good (insert c X) s" and c: "is_indv (sync_table s c)"
    and st: "sync_signaled_state st" and cst: "sync_signaled_state (row_state (sync_table s c))"
  shows "good X (dispatch_and_signal_parents c st cause s)"
proof -
  let ?T = "sync_table s" and ?evq = "cam_sync_eventq s"
  let ?r = "dispatched ?evq (?T c)"
  let ?T1 = "?T(c := ?r)"
  let ?T2 = "?T(c := ?r\<lparr>parents_list := []\<rparr>)"
  from g have wf: "tbl_wf ?T" and bt: "bits_ok ?T (sync_bitmap s)" and se: "settled (insert c X) ?T"
    by (auto simp: good_def)
  have "tbl_wf ?T1"
    by (rule tbl_wf_upd [OF wf row_ok_dispatched [OF tbl_wfD(1) [OF wf]]])
      (simp_all add: tbl_wfD(3) [OF wf])
  from tbl_wf_drop_parents [OF this, of "[]" c] have wf2: "tbl_wf ?T2" by simp
  have bt2: "bits_ok ?T2 (sync_bitmap s)" using bt by (auto simp: bits_ok_def live_def)
  have "settled (insert c X) ?T2" using se by (rule settled_upd) simp
  moreover have "row_settled (?T2 c)"
    using c signaled_state_live [OF cst] by (simp add: row_settled_def is_indv_def live_def)
  ultimately have se2: "settled X ?T2" by (rule settled_fill)
  have par: "live (?T2 p) \<and> row_type (?T2 p) = SYNC_TYPE_GROUP \<and> card (kids ?T2 p) < unat (remaining (?T2 p))"
    if "p \<in> set (parents_list (?T c))" for p
  proof -
    from that parents_group [OF wf] have p: "is_group (?T p)" "p \<noteq> c" by auto
    have "kids ?T2 p = kids ?T p - {c}" by (auto simp: kids_def)
    moreover have "c \<in> kids ?T p" using that by (simp add: kids_def)
    ultimately have "card (kids ?T2 p) < card (kids ?T p)"
      using card_Diff1_less [OF finite_kids [OF wf]] by metis
    with p tbl_wfD(3) [OF wf, of p] show ?thesis by (auto simp: is_group_def)
  qed
  have "distinct (parents_list (?T c))" by (rule row_okD(8) [OF tbl_wfD(1) [OF wf]])
  from parent_fold_good [of ?T2, OF wf2 se2 bt2 st this par] show ?thesis
    unfolding good_def dispatch_and_signal_parents_fold dispatch_and_signal_parents_simps
    by (simp only: simp_thms)
qed

lemma good_set_state:
  assumes g: "good X s" and c: "is_indv (sync_table s c)" and st: "sync_signaled_state st"
  shows "good (insert c X) (upd_row c (\<lambda>r. r\<lparr>row_state := st\<rparr>) s)"
proof -
  have ok: "row_ok c ((sync_table s c)\<lparr>row_state := st\<rparr>)"
    using tbl_wfD(1) [of "sync_table s" c] g c st
    by (auto simp: good_def row_ok_def is_indv_def live_def sync_signaled_state_def)
  have "tbl_wf ((sync_table s)(c := (sync_table s c)\<lparr>row_state := st\<rparr>))"
    using g st by (intro tbl_wf_upd [OF _ ok])
      (auto simp: good_def live_def sync_signaled_state_def tbl_wfD(3))
  moreover have "settled (insert c X) ((sync_table s)(c := (sync_table s c)\<lparr>row_state := st\<rparr>))"
    using g by (intro settled_upd [OF settled_mono [of X]]) (auto simp: good_def)
  ultimately show ?thesis
    using g c st by (auto simp: good_def is_indv_def live_def sync_signaled_state_def
        intro!: bits_ok_upd)
qed

text \<open>An update that touches neither the links nor the counters nor the state of a live row.\<close>

definition quiet :: "(sync_table_row \<Rightarrow> sync_table_row) \<Rightarrow> sync_table_row \<Rightarrow> bool" where
  "quiet f r \<longleftrightarrow> row_state (f r) = row_state r \<and> row_type (f r) = row_type r \<and>
     row_sync_id (f r) = row_sync_id r \<and> parents_list (f r) = parents_list r \<and>
     children_list (f r) = children_list r \<and> remaining (f r) = remaining r \<and>
     signaled (f r) = signaled r \<and>
     (\<not> live r \<longrightarrow> callback_list (f r) = callback_list r \<and> user_payload_list (f r) = user_payload_list r)"

lemma good_quiet:
  assumes "good X s" "quiet f (sync_table s i)"
  shows "good X (upd_row i f s)"
proof -
  have l: "live (f (sync_table s i)) = live (sync_table s i)"
    using assms(2) by (simp add: quiet_def live_def)
  have "row_ok i (f (sync_table s i))"
    using assms tbl_wfD(1) [of "sync_table s" i] unfolding row_ok_def l
    by (auto simp: good_def quiet_def)
  then have "tbl_wf ((sync_table s)(i := f (sync_table s i)))"
    using assms l by (intro tbl_wf_upd) (auto simp: good_def quiet_def tbl_wfD(3))
  moreover have "row_settled (f (sync_table s i)) = row_settled (sync_table s i)"
    using assms(2) unfolding row_settled_def l by (simp add: quiet_def)
  ultimately show ?thesis
    using assms l by (auto simp: good_def intro!: bits_ok_upd settled_upd dest: settledD)
qed

lemma validate_zero:
  "cam_sync_signal_validate_util so st s = 0 \<longleftrightarrow>
   is_indv (sync_table s so) \<and> row_state (sync_table s so) = CAM_SYNC_STATE_ACTIVE \<and>
   sync_signaled_state st"
  by (cases "row_type (sync_table s so)")
    (auto simp: cam_sync_signal_validate_util_def Let_def is_indv_def live_def sync_signaled_state_def)

lemma quiet_ref_cnt [simp]: "quiet (\<lambda>r. r\<lparr>ref_cnt := g r\<rparr>) r"
  by (simp add: quiet_def)

lemma good_ref_cnt: "good X s \<Longrightarrow> good X (upd_row i (\<lambda>r. r\<lparr>ref_cnt := g r\<rparr>) s)"
  by (simp add: good_quiet)

text \<open>Setting the state of an active object and dispatching: the common body of the two ways to
  signal an object.\<close>

lemma signal_body_good:
  assumes "good X s" and "is_indv (sync_table s c)" and "sync_signaled_state st"
  shows "good X (dispatch_and_signal_parents c st cause (upd_row c (\<lambda>r. r\<lparr>row_state := st\<rparr>) s))"
  using assms good_set_state [OF assms]
  by (intro dispatch_and_signal_parents_good) (auto simp: is_indv_def live_def sync_signaled_state_def)

lemma dma_fence_cb_cases:
  "snd (cam_sync_dma_fence_cb so fd fs s) = s \<or>
   row_state (sync_table s so) = CAM_SYNC_STATE_ACTIVE \<and> is_indv (sync_table s so) \<and>
   (\<exists>st cnt. sync_signaled_state st \<and>
      (snd (cam_sync_dma_fence_cb so fd fs s) = upd_row so (\<lambda>r. r\<lparr>ref_cnt := cnt\<rparr>) s \<or>
       snd (cam_sync_dma_fence_cb so fd fs s) =
         dispatch_and_signal_parents so st 0 (upd_row so (\<lambda>r. r\<lparr>row_state := st\<rparr>)
           (upd_row so (\<lambda>r. r\<lparr>ref_cnt := cnt\<rparr>) s))))"
proof (cases "snd (cam_sync_dma_fence_cb so fd fs s) = s")
  case False
  define st where "st = (if fs < 0 then if fs = - ECANCELED then CAM_SYNC_STATE_SIGNALED_CANCEL
      else CAM_SYNC_STATE_SIGNALED_ERROR else CAM_SYNC_STATE_SIGNALED_SUCCESS)"
  from False have v: "cam_sync_signal_validate_util so st s = 0"
    by (auto simp: cam_sync_dma_fence_cb_def Let_def st_def split: if_splits prod.splits)
  with False show ?thesis
    unfolding validate_zero
    by (auto simp: cam_sync_dma_fence_cb_def Let_def st_def [symmetric] v atomic_dec_and_test_def
        split: if_splits)
qed simp

lemma dma_fence_cb_simps [simp]:
  "sync_bitmap (snd (cam_sync_dma_fence_cb so fd fs s)) = sync_bitmap s"
  "dma_dev (snd (cam_sync_dma_fence_cb so fd fs s)) = dma_dev s"
  "cam_sync_eventq (snd (cam_sync_dma_fence_cb so fd fs s)) = cam_sync_eventq s"
  "open_cnt (snd (cam_sync_dma_fence_cb so fd fs s)) = open_cnt s"
  "cb_trace (snd (cam_sync_dma_fence_cb so fd fs s)) = cb_trace s"
  using dma_fence_cb_cases [of so fd fs s] by auto

lemma dma_fence_cb_good: "good X s \<Longrightarrow> good X (snd (cam_sync_dma_fence_cb so fd fs s))"
  using dma_fence_cb_cases [of so fd fs s]
  by (elim disjE conjE exE)
    (simp_all add: good_ref_cnt signal_body_good is_indv_def live_def)

text \<open>A fence callback leaves an object alone that is individual and no longer active.\<close>

lemma dma_fence_cb_row:
  assumes "good X s" "is_indv (sync_table s c)" "row_state (sync_table s c) \<noteq> CAM_SYNC_STATE_ACTIVE"
  shows "sync_table (snd (cam_sync_dma_fence_cb so fd fs s)) c = sync_table s c"
proof -
  have *: "sync_table (dispatch_and_signal_parents so st 0 (upd_row so (\<lambda>r. r\<lparr>row_state := st\<rparr>)
           (upd_row so (\<lambda>r. r\<lparr>ref_cnt := cnt\<rparr>) s))) c = sync_table s c"
    if "so \<noteq> c" "is_indv (sync_table s so)" "sync_signaled_state st" for st cnt
  proof -
    let ?s = "upd_row so (\<lambda>r. r\<lparr>row_state := st\<rparr>) (upd_row so (\<lambda>r. r\<lparr>ref_cnt := cnt\<rparr>) s)"
    have "good (insert so X) ?s"
      using assms(1) that by (intro good_set_state good_ref_cnt) (auto simp: is_indv_def live_def)
    then have wf: "tbl_wf (sync_table ?s)" by (simp add: good_def)
    have "c \<notin> set (parents_list (sync_table ?s so))"
      using parents_group [OF wf, of c so] assms(2) that(1) by (auto simp: is_group_def is_indv_def)
    with that(1) show ?thesis
      by (simp add: dispatch_and_signal_parents_table [OF wf] signal_table_def)
  qed
  show ?thesis using dma_fence_cb_cases [of so fd fs s] assms(3) *
    by (cases "so = c") auto
qed

lemma apply_sync_cbs_simps [simp]:
  "sync_bitmap (apply_sync_cbs cs s) = sync_bitmap s"
  "dma_dev (apply_sync_cbs cs s) = dma_dev s"
  "cam_sync_eventq (apply_sync_cbs cs s) = cam_sync_eventq s"
  "open_cnt (apply_sync_cbs cs s) = open_cnt s"
  "cb_trace (apply_sync_cbs cs s) = cb_trace s"
  by (induction cs arbitrary: s) simp_all

lemma apply_sync_cbs_good: "good X s \<Longrightarrow> good X (apply_sync_cbs cs s)"
  by (induction cs arbitrary: s) (simp_all add: dma_fence_cb_good)

lemma apply_sync_cbs_row:
  "good X s \<Longrightarrow> is_indv (sync_table s c) \<Longrightarrow> row_state (sync_table s c) \<noteq> CAM_SYNC_STATE_ACTIVE \<Longrightarrow>
   sync_table (apply_sync_cbs cs s) c = sync_table s c"
proof (induction cs arbitrary: s)
  case (Cons a cs)
  then show ?case by (auto simp: dma_fence_cb_good dma_fence_cb_row)
qed simp

lemma signal_dma_fence_util_good:
  assumes "good X s" "dma_wf (dma_dev s)"
  shows "good X (snd (cam_sync_signal_dma_fence_util A row st s))"
    and "dma_wf (dma_dev (snd (cam_sync_signal_dma_fence_util A row st s)))"
  using assms
  by (auto simp: cam_sync_signal_dma_fence_util_def Let_def apply_sync_cbs_good
      split: prod.splits dest: internal_signal_wf)

lemma signal_dma_fence_util_row:
  assumes "good X s" "is_indv (sync_table s c)" "row_state (sync_table s c) \<noteq> CAM_SYNC_STATE_ACTIVE"
  shows "sync_table (snd (cam_sync_signal_dma_fence_util A row st s)) c = sync_table s c"
  using assms
  by (auto simp: cam_sync_signal_dma_fence_util_def Let_def split: prod.splits
      intro!: apply_sync_cbs_row [of X, THEN trans])

lemma signal_dma_fence_util_simps [simp]:
  "sync_bitmap (snd (cam_sync_signal_dma_fence_util A row st s)) = sync_bitmap s"
  "cam_sync_eventq (snd (cam_sync_signal_dma_fence_util A row st s)) = cam_sync_eventq s"
  "open_cnt (snd (cam_sync_signal_dma_fence_util A row st s)) = open_cnt s"
  "cb_trace (snd (cam_sync_signal_dma_fence_util A row st s)) = cb_trace s"
  by (auto simp: cam_sync_signal_dma_fence_util_def Let_def split: prod.splits)

text \<open>The states a successful signal goes through: \<open>signal_mid\<close> is the device at the point where the
  object has its new state and the dma fence has been signalled.\<close>

definition signal_mid ::
  "'x dma_fence_core \<Rightarrow> int \<Rightarrow> int \<Rightarrow> 'x sync_device \<Rightarrow> 'x sync_device" where
  "signal_mid A so st s =
     (let s2 = upd_row so (\<lambda>r. r\<lparr>row_state := st\<rparr>)
                 (upd_row so (\<lambda>r. r\<lparr>ref_cnt := ref_cnt r - 1\<rparr>) s);
          row = sync_table s2 so
      in if bit (ext_fence_mask row) CAM_GENERIC_FENCE_TYPE_DMA_FENCE
         then snd (cam_sync_signal_dma_fence_util A row st s2) else s2)"

lemma signal_cases:
  "cam_sync_signal A so st cause s =
     (if CAM_SYNC_MAX_OBJS \<le> so \<or> so \<le> 0 then (- EINVAL, s)
      else if cam_sync_signal_validate_util so st s \<noteq> 0
      then (cam_sync_signal_validate_util so st s, s)
      else if ref_cnt (sync_table s so) \<noteq> 1
      then (0, upd_row so (\<lambda>r. r\<lparr>ref_cnt := ref_cnt r - 1\<rparr>) s)
      else (0, dispatch_and_signal_parents so st cause (signal_mid A so st s)))"
  by (simp add: cam_sync_signal_def signal_mid_def Let_def atomic_dec_and_test_def upd_row_def)

lemma signal_mid_good:
  assumes "good {} s" "dma_wf (dma_dev s)" "is_indv (sync_table s so)" "sync_signaled_state st"
  shows "good {so} (signal_mid A so st s)" "dma_wf (dma_dev (signal_mid A so st s))"
    "sync_table (signal_mid A so st s) so =
       (sync_table s so)\<lparr>ref_cnt := ref_cnt (sync_table s so) - 1, row_state := st\<rparr>"
    "cam_sync_eventq (signal_mid A so st s) = cam_sync_eventq s"
proof -
  define s2 where "s2 = upd_row so (\<lambda>r. r\<lparr>row_state := st\<rparr>)
                 (upd_row so (\<lambda>r. r\<lparr>ref_cnt := ref_cnt r - 1\<rparr>) s)"
  have g: "good {so} s2" unfolding s2_def
    using assms by (intro good_set_state good_ref_cnt) (auto simp: is_indv_def live_def)
  have i: "is_indv (sync_table s2 so)" "row_state (sync_table s2 so) \<noteq> CAM_SYNC_STATE_ACTIVE"
    "dma_wf (dma_dev s2)"
    using assms by (auto simp: s2_def is_indv_def live_def sync_signaled_state_def)
  show "good {so} (signal_mid A so st s)" "dma_wf (dma_dev (signal_mid A so st s))"
    using signal_dma_fence_util_good [OF g i(3)] g i(3)
    by (simp_all add: signal_mid_def Let_def s2_def [symmetric])
  show "sync_table (signal_mid A so st s) so =
       (sync_table s so)\<lparr>ref_cnt := ref_cnt (sync_table s so) - 1, row_state := st\<rparr>"
    using signal_dma_fence_util_row [OF g i(1,2)]
    by (simp add: signal_mid_def Let_def s2_def [symmetric]) (simp add: s2_def)
  show "cam_sync_eventq (signal_mid A so st s) = cam_sync_eventq s"
    by (simp add: signal_mid_def Let_def)
qed

lemma signal_inv [cam_inv]:
  assumes "sync_inv s"
  shows "sync_inv (snd (cam_sync_signal A so st cause s))"
proof (cases "cam_sync_signal_validate_util so st s = 0 \<and> ref_cnt (sync_table s so) = 1")
  case False
  with assms show ?thesis by (auto simp: signal_cases sync_inv_good good_ref_cnt)
next
  case True
  then have i: "is_indv (sync_table s so)" and st: "sync_signaled_state st"
    by (auto simp: validate_zero)
  from assms have g: "good {} s" "dma_wf (dma_dev s)" by (auto simp: sync_inv_good)
  note mid = signal_mid_good [OF g i st, of A]
  have "good {} (dispatch_and_signal_parents so st cause (signal_mid A so st s))"
    using mid i st
    by (intro dispatch_and_signal_parents_good) (auto simp: is_indv_def live_def sync_signaled_state_def)
  with assms mid True show ?thesis by (auto simp: signal_cases sync_inv_good)
qed

subsection \<open>References, callbacks, creation\<close>

lemma sync_inv_quiet: "sync_inv s \<Longrightarrow> quiet f (sync_table s i) \<Longrightarrow> sync_inv (upd_row i f s)"
  by (simp add: sync_inv_good good_quiet)

lemma sync_inv_queues [simp]:
  "sync_inv (s\<lparr>work_queue := w\<rparr>) = sync_inv s" "sync_inv (s\<lparr>cb_trace := t\<rparr>) = sync_inv s"
  "sync_inv (s\<lparr>vdev_events := e\<rparr>) = sync_inv s" "sync_inv (s\<lparr>open_cnt := n\<rparr>) = sync_inv s"
  "sync_inv (s\<lparr>cam_sync_eventq := b\<rparr>) = sync_inv s" "sync_inv (s\<lparr>sync_version := v\<rparr>) = sync_inv s"
  "sync_inv (s\<lparr>trigger_cb_without_switch := b\<rparr>) = sync_inv s"
  by (simp_all add: sync_inv_def)

lemma get_obj_ref_inv [cam_inv]: "sync_inv s \<Longrightarrow> sync_inv (snd (cam_sync_get_obj_ref so s))"
  by (simp add: cam_sync_get_obj_ref_def sync_inv_quiet)

lemma put_obj_ref_inv [cam_inv]: "sync_inv s \<Longrightarrow> sync_inv (snd (cam_sync_put_obj_ref so s))"
  by (simp add: cam_sync_put_obj_ref_def sync_inv_quiet)

lemma register_callback_inv [cam_inv]:
  "sync_inv s \<Longrightarrow> sync_inv (snd (cam_sync_register_callback ok f d so s))"
  by (auto simp: cam_sync_register_callback_def Let_def quiet_def live_def split: option.splits
      intro!: sync_inv_quiet)

lemma deregister_callback_inv [cam_inv]:
  assumes "sync_inv s"
  shows "sync_inv (snd (cam_sync_deregister_callback f d so s))"
  using assms by (auto simp: cam_sync_deregister_callback_def Let_def quiet_def live_def
      intro!: sync_inv_quiet)

lemma init_row_eq:
  "0 < idx \<Longrightarrow> idx < CAM_SYNC_MAX_OBJS \<Longrightarrow>
   cam_sync_init_row idx name ty s =
     (0, upd_row idx (\<lambda>_. zero_row\<lparr>row_name := take (SYNC_DEBUG_NAME_LEN - 1) name,
        row_type := ty, row_sync_id := idx, row_state := CAM_SYNC_STATE_ACTIVE\<rparr>) s)"
  by (simp add: cam_sync_init_row_def)

text \<open>The least free index is a usable one, because bit 0 is always set.\<close>

lemma free_index:
  assumes "bits_ok T B" and "find_first_zero_bit B CAM_SYNC_MAX_OBJS < CAM_SYNC_MAX_OBJS"
  shows "0 < find_first_zero_bit B CAM_SYNC_MAX_OBJS"
    and "\<not> live (T (find_first_zero_bit B CAM_SYNC_MAX_OBJS))"
proof -
  let ?i = "find_first_zero_bit B CAM_SYNC_MAX_OBJS"
  have nb: "\<not> B ?i" using assms(2) by (rule find_first_zero_bit_free)
  with assms(1) have "?i \<noteq> 0" unfolding bits_ok_def by metis
  then show "0 < ?i" using find_first_zero_bit_ge [of B CAM_SYNC_MAX_OBJS] by linarith
  with nb assms show "\<not> live (T ?i)" by (simp add: bits_ok_def)
qed

text \<open>A fresh row in a free slot.\<close>

lemma good_fresh:
  assumes "good X s" and "\<not> live (sync_table s i)" and "row_ok i r" and "live r"
    and "parents_list r = []" and "row_settled r \<or> i \<in> X"
  shows "good X (upd_row i (\<lambda>_. r) (s\<lparr>sync_bitmap := set_bit_at i (sync_bitmap s)\<rparr>))"
  using assms
  by (auto simp: good_def bits_ok_def row_ok_def intro!: tbl_wf_fresh settled_upd)

definition created_row ::
  "int \<Rightarrow> string \<Rightarrow> cam_dma_fence_create_sync_obj_payload option \<Rightarrow> sync_table_row" where
  "created_row idx name info =
     (let r = zero_row\<lparr>row_name := take (SYNC_DEBUG_NAME_LEN - 1) name, row_type := SYNC_TYPE_INDV,
                row_sync_id := idx, row_state := CAM_SYNC_STATE_ACTIVE\<rparr>
      in case info of None \<Rightarrow> r
         | Some p \<Rightarrow> r\<lparr>row_dma_fence_info := \<lparr>dfi_fd = dsc_fd p, dfi_row_idx = dsc_dma_fence_row_idx p,
                         dfi_sync_created_with_dma = dsc_sync_created_with_dma p\<rparr>,
                       ext_fence_mask := Bit_Operations.set_bit CAM_GENERIC_FENCE_TYPE_DMA_FENCE 0\<rparr>)"

lemma created_row_simps [simp]:
  "row_type (created_row i n info) = SYNC_TYPE_INDV" "row_sync_id (created_row i n info) = i"
  "row_state (created_row i n info) = CAM_SYNC_STATE_ACTIVE"
  "parents_list (created_row i n info) = []" "children_list (created_row i n info) = []"
  "remaining (created_row i n info) = 0" "signaled (created_row i n info) = False"
  "ref_cnt (created_row i n info) = 0" "callback_list (created_row i n info) = []"
  "user_payload_list (created_row i n info) = []"
  by (simp_all add: created_row_def Let_def split: option.splits)

lemma create_util_eq:
  assumes "sync_inv s"
  shows "cam_sync_create_util A name info s =
    (let i = find_first_zero_bit (sync_bitmap s) CAM_SYNC_MAX_OBJS;
         s1 = upd_row i (\<lambda>_. created_row i name info) (s\<lparr>sync_bitmap := set_bit_at i (sync_bitmap s)\<rparr>);
         g = (case info of None \<Rightarrow> (0, dma_dev s)
              | Some p \<Rightarrow> if dsc_sync_created_with_dma p
                          then cam_dma_fence_get_put_ref A True (dsc_dma_fence_row_idx p) (dma_dev s)
                          else (0, dma_dev s))
     in if CAM_SYNC_MAX_OBJS \<le> i then (- ENOMEM, None, s)
        else (fst g, Some i, upd_dma (snd g) s1))"
proof (cases "CAM_SYNC_MAX_OBJS \<le> find_first_zero_bit (sync_bitmap s) CAM_SYNC_MAX_OBJS")
  case True
  then show ?thesis by (simp add: cam_sync_create_util_def Let_def)
next
  case False
  then have "0 < find_first_zero_bit (sync_bitmap s) CAM_SYNC_MAX_OBJS"
    using free_index(1) [of "sync_table s" "sync_bitmap s"] assms by (auto simp: sync_inv_def)
  with False show ?thesis
    by (auto simp: cam_sync_create_util_def Let_def init_row_eq upd_row_def upd_dma_def
        created_row_def split: option.splits prod.splits)
qed

lemma create_util_inv [cam_inv]:
  assumes inv: "sync_inv s"
  shows "sync_inv (snd (snd (cam_sync_create_util A name info s)))"
proof (cases "CAM_SYNC_MAX_OBJS \<le> find_first_zero_bit (sync_bitmap s) CAM_SYNC_MAX_OBJS")
  case True
  with inv show ?thesis by (simp add: create_util_eq Let_def)
next
  case False
  define i where "i = find_first_zero_bit (sync_bitmap s) CAM_SYNC_MAX_OBJS"
  from False inv have i: "0 < i" "i < CAM_SYNC_MAX_OBJS" "\<not> live (sync_table s i)"
    using free_index [of "sync_table s" "sync_bitmap s"] by (auto simp: sync_inv_def i_def)
  then have "good {} (upd_row i (\<lambda>_. created_row i name info)
      (s\<lparr>sync_bitmap := set_bit_at i (sync_bitmap s)\<rparr>))"
    using inv by (intro good_fresh) (auto simp: sync_inv_good row_ok_def live_def row_settled_def)
  moreover have "dma_wf (snd (cam_dma_fence_get_put_ref A b j (dma_dev s)))" for b j
    using inv get_put_ref_wf [of A b j "dma_dev s"] by (metis prod.collapse sync_inv_def)
  ultimately show ?thesis
    using inv i
    by (auto simp: create_util_eq Let_def i_def [symmetric] sync_inv_good split: option.splits)
qed

subsection \<open>Destruction\<close>

lemma unlink_children_simps [simp]:
  "sync_bitmap (unlink_from_children idx cs s) = sync_bitmap s"
  "dma_dev (unlink_from_children idx cs s) = dma_dev s"
  "cam_sync_eventq (unlink_from_children idx cs s) = cam_sync_eventq s"
  "open_cnt (unlink_from_children idx cs s) = open_cnt s"
  "work_queue (unlink_from_children idx cs s) = work_queue s"
  "vdev_events (unlink_from_children idx cs s) = vdev_events s"
  "cb_trace (unlink_from_children idx cs s) = cb_trace s"
  by (induction cs arbitrary: s) simp_all

lemma unlink_parents_simps [simp]:
  "sync_bitmap (unlink_from_parents idx cs s) = sync_bitmap s"
  "dma_dev (unlink_from_parents idx cs s) = dma_dev s"
  "cam_sync_eventq (unlink_from_parents idx cs s) = cam_sync_eventq s"
  "open_cnt (unlink_from_parents idx cs s) = open_cnt s"
  "work_queue (unlink_from_parents idx cs s) = work_queue s"
  "vdev_events (unlink_from_parents idx cs s) = vdev_events s"
  "cb_trace (unlink_from_parents idx cs s) = cb_trace s"
  by (induction cs arbitrary: s) simp_all

lemma unlink_from_children_table:
  "distinct cs \<Longrightarrow> sync_table (unlink_from_children idx cs s) i =
     (if i \<in> set cs \<and> live (sync_table s i)
      then (sync_table s i)\<lparr>parents_list := remove1 idx (parents_list (sync_table s i))\<rparr>
      else sync_table s i)"
  by (induction cs arbitrary: s)
    (auto simp: live_def cam_sync_util_cleanup_parents_list_def)

lemma unlink_from_parents_table:
  "distinct ps \<Longrightarrow> sync_table (unlink_from_parents idx ps s) i =
     (if i \<in> set ps \<and> live (sync_table s i)
      then (sync_table s i)\<lparr>children_list := remove1 idx (children_list (sync_table s i))\<rparr>
      else sync_table s i)"
  by (induction ps arbitrary: s)
    (auto simp: live_def cam_sync_util_cleanup_children_list_def)

text \<open>The table after the row \<open>idx\<close> was destroyed.\<close>

definition destroy_table :: "int \<Rightarrow> (int \<Rightarrow> sync_table_row) \<Rightarrow> int \<Rightarrow> sync_table_row" where
  "destroy_table idx T i =
     (if i = idx then zero_row
      else (T i)\<lparr>parents_list := remove1 idx (parents_list (T i)),
                 children_list := (if i \<in> set (parents_list (T idx))
                    then remove1 idx (children_list (T i)) else children_list (T i))\<rparr>)"

lemma deinit_rc:
  "fst (cam_sync_deinit_object A idx chk s) =
     (if 0 < idx \<and> idx < CAM_SYNC_MAX_OBJS \<and> live (sync_table s idx) then 0 else - EINVAL)"
  by (simp add: cam_sync_deinit_object_def Let_def live_def split: prod.splits)

lemma deinit_fail:
  "\<not> (0 < idx \<and> idx < CAM_SYNC_MAX_OBJS \<and> live (sync_table s idx)) \<Longrightarrow>
   cam_sync_deinit_object A idx chk s = (- EINVAL, chk, s)"
  by (auto simp: cam_sync_deinit_object_def Let_def live_def)

lemma row_links_same [simp]:
  "(r :: sync_table_row)\<lparr>parents_list := parents_list r, children_list := children_list r\<rparr> = r"
  by simp

definition deinit_start :: "int \<Rightarrow> 'x sync_device \<Rightarrow> 'x sync_device" where
  "deinit_start idx s = upd_row idx (\<lambda>r. r\<lparr>row_state := CAM_SYNC_STATE_INVALID,
     children_list := filter (\<lambda>i. i \<le> 0) (children_list r),
     parents_list := filter (\<lambda>i. i \<le> 0) (parents_list r)\<rparr>) s"

lemma deinit_table:
  assumes wf: "tbl_wf (sync_table s)" and idx: "live (sync_table s idx)"
  shows "sync_table (snd (snd (cam_sync_deinit_object A idx chk s))) = destroy_table idx (sync_table s)"
proof
  fix i
  let ?T = "sync_table s"
  have rng: "0 < idx" "idx < CAM_SYNC_MAX_OBJS"
    using row_okD(1,2) [OF tbl_wfD(1) [OF wf] idx] by auto
  have cpos: "filter ((<) 0) (children_list (?T idx)) = children_list (?T idx)"
    using row_okD(10) [OF tbl_wfD(1) [OF wf]] by (auto simp: filter_id_conv)
  have ppos: "filter ((<) 0) (parents_list (?T idx)) = parents_list (?T idx)"
    using parents_group [OF wf] row_okD(1) [OF tbl_wfD(1) [OF wf]]
    by (auto simp: filter_id_conv is_group_def)
  have dist: "distinct (children_list (?T idx))" "distinct (parents_list (?T idx))"
    using row_okD(8,9) [OF tbl_wfD(1) [OF wf]] by auto
  have pnot: "idx \<notin> set (parents_list (?T idx))" using parents_group [OF wf] by blast
  have par: "idx \<in> set (parents_list (?T i)) \<Longrightarrow> i \<in> set (children_list (?T idx)) \<and> live (?T i)"
    using tbl_wfD(2) [OF wf, of i idx] kids_live(1) [OF wf, of i idx] by (auto simp: kids_def)
  have gl: "i \<in> set (parents_list (?T idx)) \<Longrightarrow> live (?T i)"
    using parents_group [OF wf] by (auto simp: is_group_def)
  show "sync_table (snd (snd (cam_sync_deinit_object A idx chk s))) i = destroy_table idx ?T i"
  proof (cases "i = idx")
    case True
    with rng idx show ?thesis
      by (simp add: cam_sync_deinit_object_def Let_def live_def destroy_table_def split: prod.splits)
  next
    case False
    have rm: "remove1 idx (parents_list (?T i)) = parents_list (?T i)"
      if "\<not> (i \<in> set (children_list (?T idx)) \<and> live (?T i))"
      by (rule remove1_idem) (use that par in blast)
    let ?s2 = "unlink_from_children idx (children_list (?T idx)) (deinit_start idx s)"
    have "sync_table (snd (snd (cam_sync_deinit_object A idx chk s))) i =
          sync_table (unlink_from_parents idx (parents_list (?T idx)) ?s2) i"
      using False rng idx unfolding deinit_start_def
      by (simp add: cam_sync_deinit_object_def Let_def live_def cpos ppos split_beta)
    moreover have "sync_table ?s2 i = (?T i)\<lparr>parents_list := remove1 idx (parents_list (?T i))\<rparr>"
      using False rm dist(1) by (auto simp: unlink_from_children_table deinit_start_def)
    ultimately show ?thesis
      using False gl dist(2) by (simp add: unlink_from_parents_table destroy_table_def live_def)
  qed
qed

lemma destroy_table_simps [simp]:
  "i \<noteq> idx \<Longrightarrow> row_state (destroy_table idx T i) = row_state (T i)"
  "i \<noteq> idx \<Longrightarrow> row_type (destroy_table idx T i) = row_type (T i)"
  "i \<noteq> idx \<Longrightarrow> row_sync_id (destroy_table idx T i) = row_sync_id (T i)"
  "i \<noteq> idx \<Longrightarrow> remaining (destroy_table idx T i) = remaining (T i)"
  "i \<noteq> idx \<Longrightarrow> signaled (destroy_table idx T i) = signaled (T i)"
  "i \<noteq> idx \<Longrightarrow> callback_list (destroy_table idx T i) = callback_list (T i)"
  "i \<noteq> idx \<Longrightarrow> user_payload_list (destroy_table idx T i) = user_payload_list (T i)"
  "i \<noteq> idx \<Longrightarrow> live (destroy_table idx T i) = live (T i)"
  "destroy_table idx T idx = zero_row"
  by (simp_all add: destroy_table_def live_def)

lemma live_zero_row [simp]: "\<not> live zero_row"
  by (simp add: live_def)

lemma destroy_table_live: "live (destroy_table idx T i) \<longleftrightarrow> i \<noteq> idx \<and> live (T i)"
  by (cases "i = idx") simp_all

lemma destroy_table_kids:
  assumes "tbl_wf T"
  shows "kids (destroy_table idx T) p = (if p = idx then {} else kids T p - {idx})"
proof -
  have "distinct (parents_list (T c))" for c using row_okD(8) [OF tbl_wfD(1) [OF assms]] .
  then show ?thesis by (auto simp: kids_def destroy_table_def)
qed

lemma destroy_table_wf:
  assumes wf: "tbl_wf T" and idx: "live (T idx)"
  shows "tbl_wf (destroy_table idx T)"
proof (rule tbl_wfI)
  fix i
  show "row_ok i (destroy_table idx T i)"
  proof (cases "i = idx")
    case True
    then show ?thesis by (simp add: row_ok_def live_def)
  next
    case False
    note ok = tbl_wfD(1) [OF wf, of i]
    have "set (remove1 idx (children_list (T i))) \<subseteq> set (children_list (T i))" by (rule set_remove1_subset)
    with ok False show ?thesis
      by (auto simp: row_ok_def live_def destroy_table_def)
  qed
next
  fix p c
  assume "c \<in> kids (destroy_table idx T) p"
  then have c: "c \<in> kids T p" "p \<noteq> idx" "c \<noteq> idx"
    using destroy_table_kids [OF wf] by (auto split: if_splits)
  with tbl_wfD(2) [OF wf c(1)] row_okD(9) [OF tbl_wfD(1) [OF wf, of p]]
  show "live (destroy_table idx T p) \<and> row_type (destroy_table idx T p) = SYNC_TYPE_GROUP \<and>
        c \<in> set (children_list (destroy_table idx T p))"
    by (simp add: destroy_table_def live_def)
next
  fix p
  show "card (kids (destroy_table idx T) p) \<le> unat (remaining (destroy_table idx T p))"
  proof (cases "p = idx")
    case False
    have "card (kids T p - {idx}) \<le> card (kids T p)" by (rule card_Diff1_le)
    with False tbl_wfD(3) [OF wf, of p] show ?thesis by (simp add: destroy_table_kids [OF wf])
  qed (simp add: destroy_table_kids [OF wf])
qed

lemma destroy_table_settled: "settled X T \<Longrightarrow> settled X (destroy_table idx T)"
proof -
  assume "settled X T"
  then have "row_settled (destroy_table idx T i)" if "i \<notin> X" for i
    using that by (cases "i = idx")
      (auto simp: settled_def row_settled_def live_def destroy_table_def)
  then show ?thesis by (simp add: settled_def)
qed

lemma deinit_bitmap:
  "sync_bitmap (snd (snd (cam_sync_deinit_object A idx chk s))) =
     (if 0 < idx \<and> idx < CAM_SYNC_MAX_OBJS \<and> live (sync_table s idx)
      then clear_bit_at idx (sync_bitmap s) else sync_bitmap s)"
  by (simp add: cam_sync_deinit_object_def Let_def live_def split: prod.splits)

lemma deinit_dma_wf:
  assumes "dma_wf (dma_dev s)"
  shows "dma_wf (dma_dev (snd (snd (cam_sync_deinit_object A idx chk s))))"
proof -
  have "dma_wf (snd (cam_dma_fence_get_put_ref A b j (dma_dev s)))" for b j
    using assms get_put_ref_wf [of A b j "dma_dev s"] by (metis prod.collapse)
  with assms show ?thesis
    by (simp add: cam_sync_deinit_object_def Let_def split_beta)
qed

lemma deinit_inv [cam_inv]:
  assumes "sync_inv s"
  shows "sync_inv (snd (snd (cam_sync_deinit_object A idx chk s)))"
proof (cases "0 < idx \<and> idx < CAM_SYNC_MAX_OBJS \<and> live (sync_table s idx)")
  case False
  with assms show ?thesis by (simp add: deinit_fail)
next
  case True
  with assms show ?thesis
    by (auto simp: sync_inv_def deinit_table deinit_bitmap deinit_dma_wf destroy_table_wf
        destroy_table_settled destroy_table_live bits_ok_def)
qed

lemma destroy_eq: "cam_sync_destroy A so s = (let r = cam_sync_deinit_object A so None s in (fst r, snd (snd r)))"
  by (simp add: cam_sync_destroy_def Let_def split_beta)

lemma destroy_inv [cam_inv]: "sync_inv s \<Longrightarrow> sync_inv (snd (cam_sync_destroy A so s))"
  by (simp add: destroy_eq Let_def deinit_inv)

end
