(* ===== verification/Cam_Sync_Merge.thy ===== *)
theory Cam_Sync_Merge
  imports Cam_Sync_Inv
begin

section \<open>Merging sync objects\<close>

text \<open>
  The duplicate check of \<open>cam_common_util.c\<close> against its specification (keep the first occurrence of
  every value), the effect of \<open>cam_sync_init_group_object\<close> on the table for the success and the
  failure path, and the proof that \<open>cam_sync_merge\<close> keeps the invariant.
\<close>

subsection \<open>Removing duplicates in place\<close>

definition first_occurrences :: "'a list \<Rightarrow> 'a list" where
  "first_occurrences xs = rev (remdups (rev xs))"

lemma first_occurrences_snoc:
  "first_occurrences (xs @ [x]) = (if x \<in> set xs then first_occurrences xs else first_occurrences xs @ [x])"
  by (simp add: first_occurrences_def)

lemma first_occurrences_props [simp]:
  "set (first_occurrences xs) = set xs" "distinct (first_occurrences xs)"
  "length (first_occurrences xs) = card (set xs)"
  by (simp_all add: first_occurrences_def length_remdups_card_conv)

lemma first_occurrences_distinct: "distinct xs \<Longrightarrow> first_occurrences xs = xs"
  by (simp add: first_occurrences_def distinct_remdups_id)

lemma dup_search_found:
  "dup_search arr v j k = j + k \<longleftrightarrow> (\<forall>t < k. arr ! (j + t) \<noteq> v)"
proof (induction k arbitrary: j)
  case (Suc k)
  show ?case
  proof (cases "v = arr ! j")
    case False
    then show ?thesis using Suc.IH [of "j + 1"]
      by (auto simp: less_Suc_eq_0_disj)
  qed force
qed simp

lemma dup_search_take:
  "wr \<le> length arr \<Longrightarrow> dup_search arr v 0 wr = wr \<longleftrightarrow> v \<notin> set (take wr arr)"
  using dup_search_found [of arr v 0 wr] by (auto simp: in_set_conv_nth)

lemma dup_loop_spec:
  assumes "length arr = length a" "i + k = length a" "take wr arr = first_occurrences (take i a)"
    and "wr \<le> i" "drop i arr = drop i a" "dup_loop k i wr arr = (n, r)"
  shows "n = card (set a) \<and> take n r = first_occurrences a \<and> length r = length a"
  using assms
proof (induction k arbitrary: i wr arr)
  case 0
  then have "wr = length (first_occurrences (take i a))" by (metis add_0_right length_take min.absorb2)
  with 0 show ?case by simp
next
  case (Suc k)
  define v where "v = arr ! i"
  have i: "i < length a" using Suc.prems by simp
  then have v: "v = a ! i" using Suc.prems(1,5) unfolding v_def
    by (metis Cons_nth_drop_Suc list.inject)
  have ti: "take (i + 1) a = take i a @ [v]" using i v by (simp add: take_Suc_conv_app_nth)
  have new: "dup_search arr v 0 wr = wr \<longleftrightarrow> v \<notin> set (take i a)"
    using dup_search_take [of wr arr v] Suc.prems(1,3,4) i by simp
  have dr: "drop (i + 1) arr = drop (i + 1) a"
    using Suc.prems(5) by (metis add.commute drop_drop)
  show ?case
  proof (cases "v \<in> set (take i a)")
    case True
    show ?thesis
      by (rule Suc.IH [of arr "i + 1" wr])
        (use Suc.prems dr ti new True in \<open>simp_all add: v_def [symmetric] first_occurrences_snoc\<close>)
  next
    case False
    have tk: "take (wr + 1) (arr[wr := v]) = take wr arr @ [v]"
      using Suc.prems(1,4) i by (simp add: take_Suc_conv_app_nth)
    have dk: "drop (i + 1) (arr[wr := v]) = drop (i + 1) a"
      using dr Suc.prems(4) by simp
    show ?thesis
      by (rule Suc.IH [of "arr[wr := v]" "i + 1" "wr + 1"])
        (use Suc.prems tk dk ti new False in \<open>simp_all add: v_def [symmetric] first_occurrences_snoc\<close>)
  qed
qed

lemma remove_duplicate_arr_spec:
  assumes "arr \<noteq> []" "cam_common_util_remove_duplicate_arr arr = (n, arr')"
  shows "n = card (set arr)" "take n arr' = first_occurrences arr" "length arr' = length arr"
proof -
  have one: "take 1 arr = first_occurrences (take 1 arr)"
    using assms(1) by (cases arr) (simp_all add: first_occurrences_def)
  have "n = card (set arr) \<and> take n arr' = first_occurrences arr \<and> length arr' = length arr"
    by (rule dup_loop_spec [OF _ _ one, of "length arr - 1"])
      (use assms in \<open>auto simp: cam_common_util_remove_duplicate_arr_def Suc_le_eq\<close>)
  then show "n = card (set arr)" "take n arr' = first_occurrences arr" "length arr' = length arr"
    by auto
qed

lemma remove_duplicate_arr_all:
  assumes "arr \<noteq> []" "cam_common_util_remove_duplicate_arr arr = (length arr, arr')"
  shows "distinct arr" "arr' = arr"
proof -
  note sp = remove_duplicate_arr_spec [OF assms]
  from sp(1) show "distinct arr" by (simp add: card_distinct)
  with sp(2,3) show "arr' = arr" by (simp add: first_occurrences_distinct)
qed

subsection \<open>The loop over the children\<close>

definition linkable :: "(int \<Rightarrow> sync_table_row) \<Rightarrow> int list \<Rightarrow> int list" where
  "linkable T cs = filter (\<lambda>c. row_state (T c) = CAM_SYNC_STATE_ACTIVE) cs"

definition failed_state :: "int \<Rightarrow> bool" where
  "failed_state st \<longleftrightarrow> st = CAM_SYNC_STATE_SIGNALED_ERROR \<or> st = CAM_SYNC_STATE_SIGNALED_CANCEL"

text \<open>The state a group starts with: that of the last child that already failed.\<close>

fun group_state :: "(int \<Rightarrow> sync_table_row) \<Rightarrow> int list \<Rightarrow> int \<Rightarrow> int" where
  "group_state T [] st = st"
| "group_state T (c # cs) st =
     group_state T cs (if failed_state (row_state (T c)) then row_state (T c) else st)"

definition link :: "int \<Rightarrow> int set \<Rightarrow> (int \<Rightarrow> sync_table_row) \<Rightarrow> int \<Rightarrow> sync_table_row" where
  "link idx L T i = (if i \<in> L then (T i)\<lparr>parents_list := parents_list (T i) @ [idx]\<rparr> else T i)"

lemma linkable_cong:
  "(\<And>c. c \<in> set cs \<Longrightarrow> row_state (T' c) = row_state (T c)) \<Longrightarrow> linkable T' cs = linkable T cs"
  unfolding linkable_def by (rule filter_cong) auto

lemma group_state_cong:
  "(\<And>c. c \<in> set cs \<Longrightarrow> row_state (T' c) = row_state (T c)) \<Longrightarrow> group_state T' cs st = group_state T cs st"
  by (induction cs arbitrary: st) auto

lemma group_loop_rest:
  assumes "group_loop alloc n idx dn cs s = (rc, dn', s')"
  shows "sync_bitmap s' = sync_bitmap s" "dma_dev s' = dma_dev s" "rc = 0 \<or> rc = - EINVAL \<or> rc = - ENOMEM"
    "cam_sync_eventq s' = cam_sync_eventq s" "open_cnt s' = open_cnt s"
  using assms
  by (induction cs arbitrary: n dn s) (auto simp: Let_def split: if_splits)

text \<open>What any run of the loop may have done to the table: it linked the objects of \<open>L\<close> to the group
  and changed the state, the count and the children of the group.\<close>

definition grp_row :: "sync_table_row \<Rightarrow> sync_table_row \<Rightarrow> bool" where
  "grp_row r r' \<longleftrightarrow> row_type r' = row_type r \<and> row_sync_id r' = row_sync_id r \<and>
     parents_list r' = parents_list r \<and> signaled r' = signaled r \<and>
     callback_list r' = callback_list r \<and> user_payload_list r' = user_payload_list r \<and>
     ref_cnt r' = ref_cnt r \<and> ext_fence_mask r' = ext_fence_mask r \<and>
     row_name r' = row_name r \<and> row_dma_fence_info r' = row_dma_fence_info r"

definition grp_frame ::
  "int \<Rightarrow> int set \<Rightarrow> (int \<Rightarrow> sync_table_row) \<Rightarrow> (int \<Rightarrow> sync_table_row) \<Rightarrow> bool" where
  "grp_frame idx L T T' \<longleftrightarrow> (\<forall>i. i \<noteq> idx \<longrightarrow> T' i = link idx L T i) \<and> grp_row (T idx) (T' idx)"

lemma grp_frame_trans:
  assumes "grp_frame idx L T T1" "grp_frame idx L' T1 T2" "L \<inter> L' = {}"
  shows "grp_frame idx (L \<union> L') T T2"
proof -
  have "T2 i = link idx (L \<union> L') T i" if "i \<noteq> idx" for i
    using assms that by (auto simp: grp_frame_def link_def)
  with assms show ?thesis by (auto simp: grp_frame_def grp_row_def)
qed

lemma grp_frame_simps [simp]:
  "grp_frame idx {} T T"
  "grp_frame idx {} T (T(idx := (T idx)\<lparr>row_state := x\<rparr>))"
  "grp_frame idx {} T (T(idx := (T idx)\<lparr>remaining := y\<rparr>))"
  "grp_frame idx {} T (T(idx := (T idx)\<lparr>remaining := y, children_list := z\<rparr>))"
  by (auto simp: grp_frame_def link_def grp_row_def)

lemma grp_frame_add:
  "c \<noteq> idx \<Longrightarrow> grp_frame idx {c} T (T(idx := (T idx)\<lparr>remaining := y, children_list := z\<rparr>,
     c := (T c)\<lparr>parents_list := parents_list (T c) @ [idx]\<rparr>))"
  by (auto simp: grp_frame_def link_def grp_row_def)

lemma group_loop_frame:
  assumes "group_loop alloc n idx dn cs s = (rc, dn', s')" "distinct cs" "idx \<notin> set cs"
  shows "\<exists>L. L \<subseteq> set cs \<and> set dn \<union> L \<subseteq> set dn' \<and> set dn' \<subseteq> set dn \<union> set cs \<and>
    grp_frame idx L (sync_table s) (sync_table s')"
  using assms
proof (induction cs arbitrary: n dn s)
  case Nil
  then show ?case by auto
next
  case (Cons c cs)
  let ?T = "sync_table s"
  have step: "\<exists>L. L \<subseteq> set (c # cs) \<and> set dn \<union> L \<subseteq> set dn' \<and> set dn' \<subseteq> set dn \<union> set (c # cs) \<and>
      grp_frame idx L ?T (sync_table s')"
    if "group_loop alloc m idx (c # dn) cs t = (rc, dn', s')" "grp_frame idx K ?T (sync_table t)"
      "K \<subseteq> {c}" for m t K
  proof -
    from Cons.IH [OF that(1)] Cons.prems(2,3) obtain L where
      L: "L \<subseteq> set cs" "set (c # dn) \<union> L \<subseteq> set dn'" "set dn' \<subseteq> set (c # dn) \<union> set cs"
         "grp_frame idx L (sync_table t) (sync_table s')" by auto
    have "K \<inter> L = {}" using that(3) L(1) Cons.prems(2) by auto
    from grp_frame_trans [OF that(2) L(4) this] L that(3) show ?thesis
      by (intro exI [of _ "K \<union> L"]) auto
  qed
  have stop: ?case if "dn' = dn" "grp_frame idx {} ?T (sync_table s')"
    using that by auto
  let ?bad = "row_type (?T c) = SYNC_TYPE_GROUP \<or> row_state (?T c) = CAM_SYNC_STATE_INVALID"
  let ?fail = "row_state (?T c) = CAM_SYNC_STATE_SIGNALED_ERROR \<or>
      row_state (?T c) = CAM_SYNC_STATE_SIGNALED_CANCEL"
  consider (bad) ?bad | (failed) "\<not> ?bad" ?fail
    | (other) "\<not> ?bad" "\<not> ?fail" "row_state (?T c) \<noteq> CAM_SYNC_STATE_ACTIVE"
    | (active) "\<not> ?bad" "row_state (?T c) = CAM_SYNC_STATE_ACTIVE"
    by blast
  then show ?case
  proof cases
    case bad
    with Cons.prems(1) show ?thesis by (intro stop) (auto simp: Let_def)
  next
    case failed
    with Cons.prems(1)
    have "group_loop alloc n idx (c # dn) cs (upd_row idx (\<lambda>r. r\<lparr>row_state := row_state (?T c)\<rparr>) s) =
        (rc, dn', s')" by (simp add: Let_def)
    then show ?thesis by (rule step [where K = "{}"]) simp_all
  next
    case other
    with Cons.prems(1) have "group_loop alloc n idx (c # dn) cs s = (rc, dn', s')"
      by (simp add: Let_def)
    then show ?thesis by (rule step [where K = "{}"]) simp_all
  next
    case active
    show ?thesis
    proof (cases "alloc n \<and> alloc (n + 1)")
      case False
      with active Cons.prems(1) show ?thesis by (intro stop) (auto simp: Let_def split: if_splits)
    next
      case True
      with active Cons.prems(1)
      have "group_loop alloc (n + 2) idx (c # dn) cs
         (upd_row c (\<lambda>r. r\<lparr>parents_list := parents_list r @ [idx]\<rparr>)
           (upd_row idx (\<lambda>r. r\<lparr>children_list := children_list r @ [c]\<rparr>)
             (upd_row idx (\<lambda>r. r\<lparr>remaining := remaining r + 1\<rparr>) s))) = (rc, dn', s')"
        by (simp add: Let_def)
      then show ?thesis
        by (rule step [where K = "{c}"]) (use Cons.prems(3) in \<open>auto simp: grp_frame_add\<close>)
    qed
  qed
qed

lemma group_loop_ok:
  assumes "group_loop alloc n idx dn cs s = (0, dn', s')" "distinct cs" "idx \<notin> set cs"
  shows "children_list (sync_table s' idx) =
           children_list (sync_table s idx) @ linkable (sync_table s) cs \<and>
         remaining (sync_table s' idx) =
           remaining (sync_table s idx) + of_nat (length (linkable (sync_table s) cs)) \<and>
         row_state (sync_table s' idx) = group_state (sync_table s) cs (row_state (sync_table s idx)) \<and>
         (\<forall>i. i \<noteq> idx \<longrightarrow> sync_table s' i = link idx (set (linkable (sync_table s) cs)) (sync_table s) i) \<and>
         (\<forall>c \<in> set cs. is_indv (sync_table s c))"
  using assms
proof (induction cs arbitrary: n dn s)
  case Nil
  then show ?case by (simp add: linkable_def link_def)
next
  case (Cons c cs)
  let ?T = "sync_table s"
  from Cons.prems(1) have nb: "row_type (?T c) = SYNC_TYPE_INDV" "row_state (?T c) \<noteq> CAM_SYNC_STATE_INVALID"
    by (cases "row_type (?T c)"; auto simp: Let_def split: if_splits)+
  obtain m t where loop: "group_loop alloc m idx (c # dn) cs t = (0, dn', s')"
    and t: "sync_table t =
      (if row_state (?T c) = CAM_SYNC_STATE_ACTIVE
       then ?T(idx := (?T idx)\<lparr>remaining := remaining (?T idx) + 1,
                 children_list := children_list (?T idx) @ [c]\<rparr>,
               c := (?T c)\<lparr>parents_list := parents_list (?T c) @ [idx]\<rparr>)
       else if failed_state (row_state (?T c)) then ?T(idx := (?T idx)\<lparr>row_state := row_state (?T c)\<rparr>)
       else ?T)"
    using Cons.prems(1,3) nb by (auto simp: Let_def failed_state_def split: if_splits)
  have same: "row_state (sync_table t d) = row_state (?T d)" "is_indv (sync_table t d) = is_indv (?T d)"
    if "d \<in> set cs" for d
    using that Cons.prems(2,3) by (auto simp: t is_indv_def live_def)
  have lk: "linkable (sync_table t) cs = linkable ?T cs"
    and gs: "group_state (sync_table t) cs st = group_state ?T cs st" for st
    using same(1) by (blast intro: linkable_cong group_state_cong)+
  have c: "c \<notin> set (linkable ?T cs)" using Cons.prems(2) by (simp add: linkable_def)
  have "distinct cs" "idx \<notin> set cs" using Cons.prems(2,3) by auto
  note IH = Cons.IH [OF loop this, unfolded lk gs]
  have indv: "\<forall>d \<in> set (c # cs). is_indv (?T d)"
    using IH same(2) nb by (auto simp: is_indv_def live_def)
  have lc: "linkable ?T (c # cs) =
      (if row_state (?T c) = CAM_SYNC_STATE_ACTIVE then c # linkable ?T cs else linkable ?T cs)"
    by (simp add: linkable_def)
  show ?case
    using IH indv c Cons.prems(3) unfolding lc
    by (auto simp: t link_def failed_state_def algebra_simps split: if_splits)
qed

subsection \<open>The failure path\<close>

lemma clean_children_simps [simp]:
  "sync_bitmap (clean_children_parents idx cs s) = sync_bitmap s"
  "dma_dev (clean_children_parents idx cs s) = dma_dev s"
  "cam_sync_eventq (clean_children_parents idx cs s) = cam_sync_eventq s"
  "open_cnt (clean_children_parents idx cs s) = open_cnt s"
  by (induction cs arbitrary: s) simp_all

lemma clean_children_table:
  assumes "\<And>i. distinct (parents_list (sync_table s i))"
  shows "sync_table (clean_children_parents idx cs s) i =
     (if i \<in> set cs
      then (sync_table s i)\<lparr>parents_list := removeAll idx (parents_list (sync_table s i))\<rparr>
      else sync_table s i)"
  using assms
proof (induction cs arbitrary: s)
  case (Cons c cs)
  let ?s = "upd_row c (cam_sync_util_cleanup_parents_list SYNC_LIST_CLEAN_ONE idx) s"
  have "distinct (parents_list (sync_table ?s i))" for i
    using Cons.prems by (simp add: cam_sync_util_cleanup_parents_list_def)
  note IH = Cons.IH [OF this]
  show ?case
    using Cons.prems
    by (auto simp: IH cam_sync_util_cleanup_parents_list_def distinct_remove1_removeAll)
qed simp

text \<open>When the group object cannot be built, every other row is as it was and the row of the group
  is free again.\<close>

lemma init_group_fail:
  assumes wf: "tbl_wf (sync_table s)" and idx: "0 < idx" "idx < CAM_SYNC_MAX_OBJS"
    and dead: "\<not> live (sync_table s idx)" and objs: "distinct objs" "idx \<notin> set objs"
    and run: "cam_sync_init_group_object alloc idx objs s = (rc, s')" "rc \<noteq> 0"
  shows "i \<noteq> idx \<Longrightarrow> sync_table s' i = sync_table s i"
    and "row_ok idx (sync_table s' idx) \<and> \<not> live (sync_table s' idx)"
    and "sync_bitmap s' = sync_bitmap s" "dma_dev s' = dma_dev s" "rc < 0"
proof -
  let ?T = "sync_table s"
  define s0 where "s0 = snd (cam_sync_init_row idx ''merged_fence'' SYNC_TYPE_GROUP s)"
  have s0i: "i \<noteq> idx \<Longrightarrow> sync_table s0 i = ?T i" for i
    using idx by (simp add: s0_def init_row_eq)
  have s0: "sync_bitmap s0 = sync_bitmap s"
    "dma_dev s0 = dma_dev s" "parents_list (sync_table s0 idx) = []"
    "callback_list (sync_table s0 idx) = []" "user_payload_list (sync_table s0 idx) = []"
    using idx by (simp_all add: s0_def init_row_eq)
  obtain dn s1 where loop: "group_loop alloc 0 idx [] objs s0 = (rc, dn, s1)"
    and s': "s' = upd_row idx (cam_sync_util_cleanup_children_list SYNC_LIST_CLEAN_ALL 0)
                  (clean_children_parents idx dn
                    (upd_row idx (\<lambda>r. r\<lparr>row_state := CAM_SYNC_STATE_INVALID\<rparr>) s1))"
  proof -
    obtain r0 where init: "cam_sync_init_row idx ''merged_fence'' SYNC_TYPE_GROUP s = (r0, s0)"
      by (metis s0_def prod.collapse)
    obtain rc' dn s1 where "group_loop alloc 0 idx [] objs s0 = (rc', dn, s1)" by (metis prod_cases3)
    with run init that show ?thesis
      by (auto simp: cam_sync_init_group_object_def Let_def split: if_splits)
  qed
  from group_loop_frame [OF loop objs] obtain L where
    L: "L \<subseteq> set dn" "set dn \<subseteq> set objs" and fr: "grp_frame idx L (sync_table s0) (sync_table s1)"
    by auto
  have nk: "idx \<notin> set (parents_list (?T i))" for i
    using kids_dead [OF wf dead] by (auto simp: kids_def)
  have other: "sync_table s1 i = link idx L ?T i" if "i \<noteq> idx" for i
    using fr that s0i by (simp add: grp_frame_def link_def)
  have row: "parents_list (sync_table s1 idx) = []" "callback_list (sync_table s1 idx) = []"
    "user_payload_list (sync_table s1 idx) = []"
    using fr s0 by (simp_all add: grp_frame_def grp_row_def)
  let ?s2 = "upd_row idx (\<lambda>r. r\<lparr>row_state := CAM_SYNC_STATE_INVALID\<rparr>) s1"
  have dist: "distinct (parents_list (sync_table ?s2 i))" for i
    using other [of i] row nk [of i] row_okD(8) [OF tbl_wfD(1) [OF wf, of i]]
    by (auto simp: link_def)
  have ndn: "idx \<notin> set dn" using L(2) objs by auto
  show "sync_table s' i = ?T i" if "i \<noteq> idx"
    using that other [OF that] L nk [of i]
    by (auto simp: s' clean_children_table [OF dist] link_def removeAll_id)
  have "sync_table s' idx = cam_sync_util_cleanup_children_list SYNC_LIST_CLEAN_ALL 0 (sync_table ?s2 idx)"
    using ndn by (simp add: s' clean_children_table [OF dist])
  with row show "row_ok idx (sync_table s' idx) \<and> \<not> live (sync_table s' idx)"
    by (simp add: row_ok_def live_def cam_sync_util_cleanup_children_list_def)
  show "sync_bitmap s' = sync_bitmap s" "dma_dev s' = dma_dev s" "rc < 0"
    using group_loop_rest [OF loop] s0 run(2) by (auto simp: s')
qed

subsection \<open>The success path\<close>

definition merged_row :: "int \<Rightarrow> int list \<Rightarrow> (int \<Rightarrow> sync_table_row) \<Rightarrow> sync_table_row" where
  "merged_row idx objs T =
     (let L = linkable T objs; st = group_state T objs CAM_SYNC_STATE_ACTIVE
      in zero_row\<lparr>row_name := ''merged_fence'', row_type := SYNC_TYPE_GROUP, row_sync_id := idx,
           row_state := (if L = [] \<and> \<not> failed_state st then CAM_SYNC_STATE_SIGNALED_SUCCESS else st),
           remaining := of_nat (length L), children_list := L, signaled := (L = [])\<rparr>)"

definition merged_table :: "int \<Rightarrow> int list \<Rightarrow> (int \<Rightarrow> sync_table_row) \<Rightarrow> int \<Rightarrow> sync_table_row" where
  "merged_table idx objs T = (link idx (set (linkable T objs)) T)(idx := merged_row idx objs T)"

lemma group_state_cases:
  "group_state T cs st = st \<or> failed_state (group_state T cs st)"
  by (induction cs arbitrary: st) (auto, metis)

lemma length_linkable_small:
  assumes "distinct objs" "\<And>c. c \<in> set objs \<Longrightarrow> 0 < c \<and> c < CAM_SYNC_MAX_OBJS"
  shows "int (length (linkable T objs)) < CAM_SYNC_MAX_OBJS"
proof -
  have "length (linkable T objs) \<le> length objs" by (simp add: linkable_def)
  also have "length objs = card (set objs)" using assms(1) by (simp add: distinct_card)
  also have "\<dots> \<le> card {0<..<CAM_SYNC_MAX_OBJS}" using assms(2) by (intro card_mono) auto
  finally show ?thesis by simp
qed

lemma of_nat_small: "int n < CAM_SYNC_MAX_OBJS \<Longrightarrow> unat (of_nat n :: u32) = n"
  by (simp add: unat_of_nat)

lemma of_nat_small_zero: "int n < CAM_SYNC_MAX_OBJS \<Longrightarrow> (of_nat n :: u32) = 0 \<longleftrightarrow> n = 0"
  using of_nat_small [of n] by (metis unat_eq_0)

lemma init_group_ok:
  assumes idx: "0 < idx" "idx < CAM_SYNC_MAX_OBJS"
    and objs: "distinct objs" "idx \<notin> set objs" "\<And>c. c \<in> set objs \<Longrightarrow> 0 < c \<and> c < CAM_SYNC_MAX_OBJS"
    and run: "cam_sync_init_group_object alloc idx objs s = (0, s')"
  shows "sync_table s' = merged_table idx objs (sync_table s)"
    and "sync_bitmap s' = sync_bitmap s" "dma_dev s' = dma_dev s"
    and "\<And>c. c \<in> set objs \<Longrightarrow> is_indv (sync_table s c)"
proof -
  let ?T = "sync_table s"
  define s0 where "s0 = snd (cam_sync_init_row idx ''merged_fence'' SYNC_TYPE_GROUP s)"
  have s0: "sync_table s0 = ?T(idx := zero_row\<lparr>row_name := ''merged_fence'', row_type := SYNC_TYPE_GROUP,
      row_sync_id := idx, row_state := CAM_SYNC_STATE_ACTIVE\<rparr>)"
    "sync_bitmap s0 = sync_bitmap s" "dma_dev s0 = dma_dev s"
    using idx by (simp_all add: s0_def init_row_eq)
  obtain dn s1 where loop: "group_loop alloc 0 idx [] objs s0 = (0, dn, s1)"
    and s': "s' = (if remaining (sync_table s1 idx) = 0 then
        upd_row idx (\<lambda>r. r\<lparr>row_state :=
           (if \<not> failed_state (row_state (sync_table s1 idx))
            then CAM_SYNC_STATE_SIGNALED_SUCCESS else row_state r), signaled := True\<rparr>) s1 else s1)"
  proof -
    obtain r0 where init: "cam_sync_init_row idx ''merged_fence'' SYNC_TYPE_GROUP s = (r0, s0)"
      by (metis s0_def prod.collapse)
    obtain rc' dn s1 where "group_loop alloc 0 idx [] objs s0 = (rc', dn, s1)" by (metis prod_cases3)
    with run init that show ?thesis
      by (auto simp: cam_sync_init_group_object_def Let_def failed_state_def split: if_splits)
  qed
  have same: "row_state (sync_table s0 c) = row_state (?T c)" "is_indv (sync_table s0 c) = is_indv (?T c)"
    if "c \<in> set objs" for c
    using that objs(2) by (auto simp: s0)
  have lk: "linkable (sync_table s0) objs = linkable ?T objs"
    and gs: "group_state (sync_table s0) objs st = group_state ?T objs st" for st
    using same(1) by (blast intro: linkable_cong group_state_cong)+
  note ok = group_loop_ok [OF loop objs(1,2), unfolded lk gs]
  have "grp_row (sync_table s0 idx) (sync_table s1 idx)"
    using group_loop_frame [OF loop objs(1,2)] by (auto simp: grp_frame_def)
  with ok have row1: "sync_table s1 idx = zero_row\<lparr>row_name := ''merged_fence'',
      row_type := SYNC_TYPE_GROUP, row_sync_id := idx,
      row_state := group_state ?T objs CAM_SYNC_STATE_ACTIVE,
      remaining := of_nat (length (linkable ?T objs)), children_list := linkable ?T objs\<rparr>"
    by (simp add: s0 grp_row_def)
  have z: "(of_nat (length (linkable ?T objs)) :: u32) = 0 \<longleftrightarrow> linkable ?T objs = []"
    using of_nat_small_zero [OF length_linkable_small [OF objs(1,3)]] by simp
  have "sync_table s' idx = merged_row idx objs ?T"
    using z by (simp add: s' row1 merged_row_def Let_def)
  moreover have "sync_table s' i = link idx (set (linkable ?T objs)) ?T i" if "i \<noteq> idx" for i
    using ok that by (simp add: s' s0 link_def)
  ultimately show "sync_table s' = merged_table idx objs ?T"
    by (auto simp: merged_table_def)
  show "sync_bitmap s' = sync_bitmap s" "dma_dev s' = dma_dev s"
    using group_loop_rest [OF loop] s0 by (simp_all add: s')
  show "is_indv (?T c)" if "c \<in> set objs" for c
    using ok same(2) that by blast
qed

lemma merged_row_simps [simp]:
  "row_type (merged_row idx objs T) = SYNC_TYPE_GROUP" "parents_list (merged_row idx objs T) = []"
  "children_list (merged_row idx objs T) = linkable T objs"
  "remaining (merged_row idx objs T) = of_nat (length (linkable T objs))"
  "signaled (merged_row idx objs T) = (linkable T objs = [])"
  "row_sync_id (merged_row idx objs T) = idx"
  by (simp_all add: merged_row_def Let_def)

lemma merged_row_state:
  "row_state (merged_row idx objs T) = CAM_SYNC_STATE_ACTIVE \<and> linkable T objs \<noteq> [] \<or>
   sync_signaled_state (row_state (merged_row idx objs T))"
  using group_state_cases [of T objs CAM_SYNC_STATE_ACTIVE]
  by (auto simp: merged_row_def Let_def sync_signaled_state_def failed_state_def)

lemma link_simps [simp]:
  "row_state (link idx L T i) = row_state (T i)" "row_type (link idx L T i) = row_type (T i)"
  "children_list (link idx L T i) = children_list (T i)" "remaining (link idx L T i) = remaining (T i)"
  "signaled (link idx L T i) = signaled (T i)" "row_sync_id (link idx L T i) = row_sync_id (T i)"
  "callback_list (link idx L T i) = callback_list (T i)"
  "user_payload_list (link idx L T i) = user_payload_list (T i)"
  "live (link idx L T i) = live (T i)"
  "parents_list (link idx L T i) = (if i \<in> L then parents_list (T i) @ [idx] else parents_list (T i))"
  by (simp_all add: link_def live_def)

lemma merged_table_kids:
  assumes "tbl_wf T" "\<not> live (T idx)" "idx \<notin> set objs"
  shows "kids (merged_table idx objs T) p = (if p = idx then set (linkable T objs) else kids T p)"
proof -
  have "idx \<notin> set (parents_list (T i))" for i using kids_dead [OF assms(1,2)] by (auto simp: kids_def)
  moreover have "parents_list (T idx) = []" using row_okD(4) [OF tbl_wfD(1) [OF assms(1)] assms(2)] .
  moreover have "idx \<notin> set (linkable T objs)" using assms(3) by (simp add: linkable_def)
  ultimately show ?thesis by (auto simp: kids_def merged_table_def split: if_splits)
qed

lemma merged_table_good:
  assumes wf: "tbl_wf T" and se: "settled {} T" and dead: "\<not> live (T idx)"
    and idx: "0 < idx" "idx < CAM_SYNC_MAX_OBJS"
    and objs: "distinct objs" "idx \<notin> set objs" "\<And>c. c \<in> set objs \<Longrightarrow> 0 < c \<and> c < CAM_SYNC_MAX_OBJS"
    and indv: "\<And>c. c \<in> set objs \<Longrightarrow> is_indv (T c)"
  shows "tbl_wf (merged_table idx objs T)" and "settled {} (merged_table idx objs T)"
    and "live (merged_table idx objs T i) = (i = idx \<or> live (T i))"
proof -
  let ?L = "linkable T objs" and ?M = "merged_table idx objs T"
  have len: "unat (of_nat (length ?L) :: u32) = length ?L"
    by (rule of_nat_small [OF length_linkable_small [OF objs(1,3)]])
  have lz: "(of_nat (length ?L) :: u32) = 0 \<longleftrightarrow> ?L = []"
    using of_nat_small_zero [OF length_linkable_small [OF objs(1,3)]] by simp
  have Ld: "distinct ?L" "set ?L \<subseteq> set objs" using objs(1) by (auto simp: linkable_def)
  have La: "c \<in> set ?L \<Longrightarrow> row_state (T c) = CAM_SYNC_STATE_ACTIVE" for c by (simp add: linkable_def)
  have lv: "live (merged_row idx objs T)"
    using merged_row_state [of idx objs T] by (auto simp: live_def sync_signaled_state_def)
  then show "live (?M i) = (i = idx \<or> live (T i))" by (simp add: merged_table_def)
  have nk: "idx \<notin> set (parents_list (T i))" for i
    using kids_dead [OF wf dead] by (auto simp: kids_def)
  have ok: "row_ok i (?M i)" for i
  proof (cases "i = idx")
    case True
    with merged_row_state [of idx objs T] lv idx Ld objs(3) show ?thesis
      by (auto simp: row_ok_def merged_table_def)
  next
    case False
    then have "?M i = link idx (set ?L) T i" by (simp add: merged_table_def)
    moreover have "i \<in> set ?L \<Longrightarrow> is_indv (T i)" using Ld indv by auto
    ultimately show ?thesis
      using tbl_wfD(1) [OF wf, of i] nk [of i] unfolding row_ok_def
      by (auto simp: is_indv_def)
  qed
  show "tbl_wf ?M"
  proof (rule tbl_wfI [OF ok])
    fix p c
    assume "c \<in> kids ?M p"
    then have "c \<in> (if p = idx then set ?L else kids T p)"
      by (simp only: merged_table_kids [OF wf dead objs(2)])
    with tbl_wfD(2) [OF wf, of c p] dead lv
    show "live (?M p) \<and> row_type (?M p) = SYNC_TYPE_GROUP \<and> c \<in> set (children_list (?M p))"
      by (auto simp: merged_table_def split: if_splits)
  next
    fix p
    show "card (kids ?M p) \<le> unat (remaining (?M p))"
      unfolding merged_table_kids [OF wf dead objs(2)]
      using tbl_wfD(3) [OF wf, of p] len Ld(1)
      by (auto simp: merged_table_def distinct_card)
  qed
  have "row_settled (?M i)" for i
  proof (cases "i = idx")
    case True
    with merged_row_state [of idx objs T] lz show ?thesis
      by (auto simp: row_settled_def merged_table_def sync_signaled_state_def)
  next
    case False
    then have "?M i = link idx (set ?L) T i" by (simp add: merged_table_def)
    moreover have "row_settled (T i)" using se by (simp add: settled_def)
    moreover have "i \<in> set ?L \<Longrightarrow> is_indv (T i) \<and> row_state (T i) = CAM_SYNC_STATE_ACTIVE"
      using La Ld(2) indv by auto
    ultimately show ?thesis by (auto simp: row_settled_def is_indv_def)
  qed
  then show "settled {} ?M" by (simp add: settled_def)
qed

lemma check_all_valid_zero:
  "check_all_valid objs s = 0 \<longleftrightarrow> (\<forall>c \<in> set objs. cam_sync_check_valid c s = 0)"
  by (induction objs) (auto simp: Let_def)

lemma check_valid_zero:
  "cam_sync_check_valid c s = 0 \<longleftrightarrow>
   0 < c \<and> c < CAM_SYNC_MAX_OBJS \<and> sync_bitmap s c \<and> live (sync_table s c)"
  by (auto simp: cam_sync_check_valid_def live_def)

subsection \<open>The merge operation\<close>

text \<open>A merge succeeds and yields the merged table, or fails and leaves the device as it was but
  for the contents of one free row.\<close>

lemma merge_cases:
  assumes inv: "sync_inv s" and run: "cam_sync_merge alloc o' s = (rc, r, s')"
  obtains (fail) i where "rc < 0" "r = None" "\<And>j. j \<noteq> i \<Longrightarrow> sync_table s' j = sync_table s j"
      "\<not> live (sync_table s i)" "\<not> live (sync_table s' i)" "row_ok i (sync_table s' i)"
      "sync_bitmap s' = sync_bitmap s" "dma_dev s' = dma_dev s"
    | (ok) objs idx where "rc = 0" "o' = Some objs" "r = Some idx" "distinct objs" "1 < length objs"
      "0 < idx" "idx < CAM_SYNC_MAX_OBJS" "\<not> live (sync_table s idx)" "idx \<notin> set objs"
      "\<And>c. c \<in> set objs \<Longrightarrow> 0 < c \<and> c < CAM_SYNC_MAX_OBJS \<and> is_indv (sync_table s c)"
      "sync_table s' = merged_table idx objs (sync_table s)"
      "sync_bitmap s' = set_bit_at idx (sync_bitmap s)" "dma_dev s' = dma_dev s"
      "idx = find_first_zero_bit (sync_bitmap s) CAM_SYNC_MAX_OBJS"
proof -
  have wf: "tbl_wf (sync_table s)" and bt: "bits_ok (sync_table s) (sync_bitmap s)"
    using inv by (auto simp: sync_inv_def)
  have unchanged: thesis if "rc < 0" "r = None" "s' = s"
  proof (rule fail [of 0])
    show "\<not> live (sync_table s 0)" "\<not> live (sync_table s' 0)"
      using row_okD(1) [OF tbl_wfD(1) [OF wf], of 0] that by auto
    show "row_ok 0 (sync_table s' 0)" using tbl_wfD(1) [OF wf] that by simp
  qed (use that in auto)
  show thesis
  proof (cases "rc < 0 \<and> r = None \<and> s' = s")
    case True
    then show thesis using unchanged by blast
  next
    case False
    define idx where "idx = find_first_zero_bit (sync_bitmap s) CAM_SYNC_MAX_OBJS"
    define s1 where "s1 = s\<lparr>sync_bitmap := set_bit_at idx (sync_bitmap s)\<rparr>"
    from run False obtain objs where o': "o' = Some objs" and len: "1 < length objs"
      by (auto simp: cam_sync_merge_def split: option.splits if_splits)
    then have ne: "objs \<noteq> []" by auto
    obtain n objs' where dup: "cam_common_util_remove_duplicate_arr objs = (n, objs')" by fastforce
    have n: "n = length objs"
      using run False len by (auto simp: o' cam_sync_merge_def dup Let_def split: if_splits)
    with dup have dupl: "distinct objs" "objs' = objs"
      using remove_duplicate_arr_all [OF ne, of objs'] by auto
    have neg: "check_all_valid objs s < 0 \<or> check_all_valid objs s = 0"
      by (induction objs) (auto simp: Let_def cam_sync_check_valid_def)
    have valid: "check_all_valid objs s = 0"
      using run False len neg by (auto simp: o' cam_sync_merge_def dup n dupl Let_def split: if_splits)
    have lt: "idx < CAM_SYNC_MAX_OBJS"
      using run False len valid
      by (auto simp: o' cam_sync_merge_def dup n dupl Let_def idx_def split: if_splits)
    note free = free_index [OF bt lt [unfolded idx_def], folded idx_def]
    obtain rc' s2 where grp: "cam_sync_init_group_object alloc idx objs s1 = (rc', s2)" by fastforce
    have res: "(rc, r, s') = (if rc' < 0 then
        (- EINVAL, None, s2\<lparr>sync_bitmap := clear_bit_at idx (sync_bitmap s2)\<rparr>) else (0, Some idx, s2))"
      using run len valid lt
      by (simp add: o' cam_sync_merge_def dup n dupl Let_def idx_def [symmetric] s1_def [symmetric] grp)
    have mem: "0 < c \<and> c < CAM_SYNC_MAX_OBJS \<and> live (sync_table s c)" if "c \<in> set objs" for c
      using valid that by (auto simp: check_all_valid_zero check_valid_zero)
    have nm: "idx \<notin> set objs" using mem free(2) by auto
    have tb: "sync_table s1 = sync_table s" "dma_dev s1 = dma_dev s" by (simp_all add: s1_def)
    show thesis
    proof (cases "rc' = 0")
      case True
      note gok = init_group_ok [OF free(1) lt dupl(1) nm _ grp [unfolded True], unfolded tb]
      show thesis
        by (rule ok [of objs idx])
          (use res True o' dupl len free lt nm mem gok in \<open>auto simp: s1_def idx_def\<close>)
    next
      case False
      note gf = init_group_fail [OF _ free(1) lt _ dupl(1) nm grp False, unfolded tb, OF wf free(2)]
      have "\<not> sync_bitmap s idx"
        using find_first_zero_bit_free lt unfolding idx_def by blast
      then have "clear_bit_at idx (sync_bitmap s2) = sync_bitmap s"
        by (auto simp: gf(3) s1_def fun_eq_iff)
      with gf res free show thesis by (intro fail [of idx]) auto
    qed
  qed
qed

lemma merge_inv [cam_inv]:
  assumes inv: "sync_inv s" and run: "cam_sync_merge alloc o' s = (rc, r, s')"
  shows "sync_inv s'"
  using inv run
proof (cases rule: merge_cases)
  case (fail i)
  have "sync_table s' = (sync_table s)(i := sync_table s' i)" using fail(3) by auto
  then obtain R where eq: "sync_table s' = (sync_table s)(i := R)" by blast
  with fail have R: "\<not> live R" "row_ok i R" by simp_all
  then have "parents_list R = []" by (rule row_okD(4) [rotated])
  with R have "tbl_wf (sync_table s')"
    unfolding eq using inv fail(4) by (intro tbl_wf_fresh) (auto simp: sync_inv_def)
  moreover have "settled {} (sync_table s')"
    unfolding eq using inv R by (intro settled_upd) (auto simp: sync_inv_def row_settled_def)
  moreover have "bits_ok (sync_table s') (sync_bitmap s')"
    unfolding eq fail(7) using inv R fail(4) by (auto simp: sync_inv_def bits_ok_def)
  ultimately show ?thesis using inv fail by (simp add: sync_inv_def)
next
  case (ok objs idx)
  from inv have "tbl_wf (sync_table s)" "settled {} (sync_table s)" by (auto simp: sync_inv_def)
  note m = merged_table_good [OF this ok(8,6,7,4,9)]
  show ?thesis
    using inv ok m by (auto simp: sync_inv_def bits_ok_def)
qed

end
