(* ===== verification/Cam_Sync_Ioctl.thy ===== *)
theory Cam_Sync_Ioctl
  imports Cam_Sync_Merge
begin

section \<open>The user-facing side of the sync device\<close>

text \<open>
  Model of the ioctl handlers, of \<open>open\<close>, \<open>close\<close> and \<open>poll\<close>, of the event subscription and of the bind
  function of \<open>camera-kernel/drivers/cam_sync/cam_sync.c\<close>.

  User memory is a parameter: a record \<open>user_memory\<close> with one typed read per structure that a handler
  copies in (\<^const>\<open>None\<close> when \<open>copy_from_user\<close> or \<open>memdup_user\<close> fails) and a flag that says whether
  \<open>copy_to_user\<close> succeeds. A read of an array of \<open>n\<close> elements yields a list of that length; a read of
  a fence batch of \<open>size\<close> bytes yields as many entries as fit. What a handler copies out is the
  \<open>ioctl_out\<close> component of its result. The structure sizes are those of the 64-bit ABI.

  The other parameters of the environment are in \<open>sync_env\<close>: which allocations succeed, the kernel's
  wait and jiffies functions, and \<open>env_others\<close>, what the other threads do to the device while the
  caller of a wait sleeps.
\<close>

subsection \<open>The structures of the user interface\<close>

record cam_sync_info =
  si_name :: string
  si_sync_obj :: int

record cam_sync_signal_arg =
  ss_sync_obj :: int
  ss_sync_state :: u32

record cam_sync_merge_arg =
  sm_sync_objs :: u64
  sm_num_objs :: u32
  sm_merged :: int

record cam_sync_userpayload_info =
  upi_sync_obj :: int
  upi_payload :: payload

record cam_sync_wait_arg =
  sw_sync_obj :: int
  sw_timeout_ms :: u64

record cam_generic_fence_config =
  fc_name :: string
  fc_fence_sel_mask :: u32
  fc_sync_obj :: int
  fc_dma_fence_fd :: int
  fc_reason_code :: int

record cam_generic_fence_input_info =
  num_fences_requested :: u32
  num_fences_processed :: u32
  fence_cfg :: "cam_generic_fence_config list"

record cam_generic_fence_cmd_args =
  fca_fence_type :: u32
  fca_input_handle_type :: u32
  fca_input_data_size :: u32
  fca_input_handle :: u64

record cam_private_ioctl_arg =
  ioc_id :: u32
  ioc_size :: u32
  ioc_ptr :: u64

record user_memory =
  um_info :: "u64 \<Rightarrow> cam_sync_info option"
  um_signal :: "u64 \<Rightarrow> cam_sync_signal_arg option"
  um_merge :: "u64 \<Rightarrow> cam_sync_merge_arg option"
  um_objs :: "u64 \<Rightarrow> nat \<Rightarrow> int list option"
  um_payload :: "u64 \<Rightarrow> cam_sync_userpayload_info option"
  um_wait :: "u64 \<Rightarrow> cam_sync_wait_arg option"
  um_cmd_args :: "u64 \<Rightarrow> cam_generic_fence_cmd_args option"
  um_fence_input :: "u64 \<Rightarrow> u32 \<Rightarrow> cam_generic_fence_input_info option"
  um_dma_signal :: "u64 \<Rightarrow> u32 \<Rightarrow> cam_dma_fence_signal option"
  um_write_ok :: "u64 \<Rightarrow> bool"

record 'x sync_env =
  env_alloc :: "nat \<Rightarrow> bool"
  env_timeout_multiplier :: u32
  env_msecs_to_jiffies :: "u32 \<Rightarrow> u64"
  env_wait :: "u64 \<Rightarrow> u64"
  env_others :: "'x sync_device \<Rightarrow> 'x sync_device"

datatype ioctl_out =
    Out_none
  | Out_info cam_sync_info
  | Out_merge cam_sync_merge_arg
  | Out_result u32
  | Out_fences cam_generic_fence_input_info

abbreviation SIZEOF_cam_sync_info :: u32 where "SIZEOF_cam_sync_info \<equiv> 68"
abbreviation SIZEOF_cam_sync_signal :: u32 where "SIZEOF_cam_sync_signal \<equiv> 8"
abbreviation SIZEOF_cam_sync_merge :: u32 where "SIZEOF_cam_sync_merge \<equiv> 16"
abbreviation SIZEOF_cam_sync_userpayload_info :: u32 where "SIZEOF_cam_sync_userpayload_info \<equiv> 24"
abbreviation SIZEOF_cam_sync_wait :: u32 where "SIZEOF_cam_sync_wait \<equiv> 16"
abbreviation SIZEOF_cam_generic_fence_config :: u32 where "SIZEOF_cam_generic_fence_config \<equiv> 112"
abbreviation SIZEOF_cam_generic_fence_input_info :: u32 where
  "SIZEOF_cam_generic_fence_input_info \<equiv> 144"
abbreviation SIZEOF_cam_generic_fence_cmd_args :: u32 where
  "SIZEOF_cam_generic_fence_cmd_args \<equiv> 56"
abbreviation SIZEOF_cam_dma_fence_signal :: u32 where "SIZEOF_cam_dma_fence_signal \<equiv> 32"
abbreviation CAM_GENERIC_FENCE_BATCH_MAX :: u32 where "CAM_GENERIC_FENCE_BATCH_MAX \<equiv> 10"
abbreviation CAM_HANDLE_USER_POINTER :: u32 where "CAM_HANDLE_USER_POINTER \<equiv> 1"
abbreviation CAM_SYNC_COMMON_EVENT_SYNX :: int where "CAM_SYNC_COMMON_EVENT_SYNX \<equiv> 4"
abbreviation CAM_SYNC_COMMON_REG_PAYLOAD_EVENT :: int where "CAM_SYNC_COMMON_REG_PAYLOAD_EVENT \<equiv> 5"
abbreviation CAM_SYNC_COMMON_SYNC_SIGNAL_EVENT :: int where "CAM_SYNC_COMMON_SYNC_SIGNAL_EVENT \<equiv> 6"
abbreviation CAM_SYNC_COMMON_RELEASE_EVENT :: int where "CAM_SYNC_COMMON_RELEASE_EVENT \<equiv> 7"

subsection \<open>Sync object ioctls\<close>

text \<open>\<open>name[SYNC_DEBUG_NAME_LEN] = '\0'\<close> cuts the name at 63 characters.\<close>

definition cam_sync_handle_create ::
  "'x dma_fence_core \<Rightarrow> user_memory \<Rightarrow> cam_private_ioctl_arg \<Rightarrow> 'x sync_device
   \<Rightarrow> int \<times> ioctl_out \<times> 'x sync_device" where
  "cam_sync_handle_create A um k s =
     (if ioc_size k \<noteq> SIZEOF_cam_sync_info then (- EINVAL, Out_none, s)
      else if ioc_ptr k = 0 then (- EINVAL, Out_none, s)
      else case um_info um (ioc_ptr k) of
        None \<Rightarrow> (- EFAULT, Out_none, s)
      | Some sync_create \<Rightarrow>
          let sc = sync_create\<lparr>si_name := take SYNC_DEBUG_NAME_LEN (si_name sync_create)\<rparr>;
              (result, r, s1) = cam_sync_create A (si_name sc) s;
              sc' = (case r of None \<Rightarrow> sc | Some i \<Rightarrow> sc\<lparr>si_sync_obj := i\<rparr>)
          in if result = 0 then
               (if \<not> um_write_ok um (ioc_ptr k) then (- EFAULT, Out_none, s1)
                else (result, Out_info sc', s1))
             else (result, Out_none, s1))"

definition cam_sync_handle_signal ::
  "'x dma_fence_core \<Rightarrow> user_memory \<Rightarrow> cam_private_ioctl_arg \<Rightarrow> 'x sync_device
   \<Rightarrow> int \<times> 'x sync_device" where
  "cam_sync_handle_signal A um k s =
     (if ioc_size k \<noteq> SIZEOF_cam_sync_signal then (- EINVAL, s)
      else if ioc_ptr k = 0 then (- EINVAL, s)
      else case um_signal um (ioc_ptr k) of
        None \<Rightarrow> (- EFAULT, s)
      | Some sg \<Rightarrow>
          let (rc, s1) = cam_sync_get_obj_ref (ss_sync_obj sg) s
          in if rc \<noteq> 0 then (rc, s1)
             else cam_sync_signal A (ss_sync_obj sg) (uint (ss_sync_state sg))
                    CAM_SYNC_COMMON_SYNC_SIGNAL_EVENT s1)"

definition cam_sync_handle_merge ::
  "'x sync_env \<Rightarrow> user_memory \<Rightarrow> cam_private_ioctl_arg \<Rightarrow> 'x sync_device
   \<Rightarrow> int \<times> ioctl_out \<times> 'x sync_device" where
  "cam_sync_handle_merge e um k s =
     (if ioc_size k \<noteq> SIZEOF_cam_sync_merge then (- EINVAL, Out_none, s)
      else if ioc_ptr k = 0 then (- EINVAL, Out_none, s)
      else case um_merge um (ioc_ptr k) of
        None \<Rightarrow> (- EFAULT, Out_none, s)
      | Some sm \<Rightarrow>
          if CAM_SYNC_MAX_OBJS \<le> uint (sm_num_objs sm) then (- EINVAL, Out_none, s)
          else if \<not> env_alloc e 0 then (- ENOMEM, Out_none, s)
          else case um_objs um (sm_sync_objs sm) (unat (sm_num_objs sm)) of
            None \<Rightarrow> (- EFAULT, Out_none, s)
          | Some objs \<Rightarrow>
              let (result, r, s1) = cam_sync_merge (\<lambda>n. env_alloc e (n + 1)) (Some objs) s;
                  sm' = (case r of None \<Rightarrow> sm | Some i \<Rightarrow> sm\<lparr>sm_merged := i\<rparr>)
              in if result = 0 then
                   (if \<not> um_write_ok um (ioc_ptr k) then (- EFAULT, Out_none, s1)
                    else (result, Out_merge sm', s1))
                 else (result, Out_none, s1))"

definition cam_sync_handle_wait ::
  "'x sync_env \<Rightarrow> user_memory \<Rightarrow> cam_private_ioctl_arg \<Rightarrow> 'x sync_device
   \<Rightarrow> int \<times> ioctl_out \<times> 'x sync_device" where
  "cam_sync_handle_wait e um k s =
     (if ioc_size k \<noteq> SIZEOF_cam_sync_wait then (- EINVAL, Out_none, s)
      else if ioc_ptr k = 0 then (- EINVAL, Out_none, s)
      else case um_wait um (ioc_ptr k) of
        None \<Rightarrow> (- EFAULT, Out_none, s)
      | Some sw \<Rightarrow>
          let s' = env_others e s
          in (0, Out_result (word_of_int (cam_sync_wait (env_timeout_multiplier e)
                (env_msecs_to_jiffies e) (env_wait e) (sw_sync_obj sw) (sw_timeout_ms sw) s s')), s'))"

definition cam_sync_handle_destroy ::
  "'x dma_fence_core \<Rightarrow> user_memory \<Rightarrow> cam_private_ioctl_arg \<Rightarrow> 'x sync_device
   \<Rightarrow> int \<times> 'x sync_device" where
  "cam_sync_handle_destroy A um k s =
     (if ioc_size k \<noteq> SIZEOF_cam_sync_info then (- EINVAL, s)
      else if ioc_ptr k = 0 then (- EINVAL, s)
      else case um_info um (ioc_ptr k) of
        None \<Rightarrow> (- EFAULT, s)
      | Some si \<Rightarrow> cam_sync_destroy A (si_sync_obj si) s)"

definition cam_sync_handle_register_user_payload ::
  "'x sync_env \<Rightarrow> user_memory \<Rightarrow> cam_private_ioctl_arg \<Rightarrow> 'x sync_device
   \<Rightarrow> int \<times> 'x sync_device" where
  "cam_sync_handle_register_user_payload e um k s =
     (if ioc_size k \<noteq> SIZEOF_cam_sync_userpayload_info then (- EINVAL, s)
      else if ioc_ptr k = 0 then (- EINVAL, s)
      else case um_payload um (ioc_ptr k) of
        None \<Rightarrow> (- EFAULT, s)
      | Some info \<Rightarrow>
          let sync_obj = upi_sync_obj info; p = upi_payload info in
          if CAM_SYNC_MAX_OBJS \<le> sync_obj \<or> sync_obj \<le> 0 then (- EINVAL, s)
          else if \<not> env_alloc e 0 then (- ENOMEM, s)
          else
            let row = sync_table s sync_obj in
            if row_state row = CAM_SYNC_STATE_INVALID then (- EINVAL, s)
            else if sync_signaled_state (row_state row) then
              (0, cam_sync_util_send_v4l2_event CAM_SYNC_V4L_EVENT_ID_CB_TRIG sync_obj
                    (row_state row) p CAM_SYNC_COMMON_REG_PAYLOAD_EVENT s)
            else if p \<in> set (user_payload_list row) then (- EALREADY, s)
            else (0, upd_row sync_obj
                       (\<lambda>r. r\<lparr>user_payload_list := user_payload_list r @ [p]\<rparr>) s))"

definition cam_sync_handle_deregister_user_payload ::
  "user_memory \<Rightarrow> cam_private_ioctl_arg \<Rightarrow> 'x sync_device \<Rightarrow> int \<times> 'x sync_device" where
  "cam_sync_handle_deregister_user_payload um k s =
     (if ioc_size k \<noteq> SIZEOF_cam_sync_userpayload_info then (- EINVAL, s)
      else if ioc_ptr k = 0 then (- EINVAL, s)
      else case um_payload um (ioc_ptr k) of
        None \<Rightarrow> (- EFAULT, s)
      | Some info \<Rightarrow>
          let sync_obj = upi_sync_obj info in
          if CAM_SYNC_MAX_OBJS \<le> sync_obj \<or> sync_obj \<le> 0 then (- EINVAL, s)
          else if row_state (sync_table s sync_obj) = CAM_SYNC_STATE_INVALID then (- EINVAL, s)
          else (0, upd_row sync_obj (\<lambda>r. r\<lparr>user_payload_list :=
                     filter (\<lambda>p. p \<noteq> upi_payload info) (user_payload_list r)\<rparr>) s))"

subsection \<open>Generic fence batches\<close>

text \<open>The batch is returned when its sizes are right, with status 0. \<open>memdup_user\<close> reads
  \<open>input_data_size\<close> bytes.\<close>

definition cam_generic_fence_alloc_validate_input_info_util ::
  "user_memory \<Rightarrow> cam_generic_fence_cmd_args \<Rightarrow> int \<times> cam_generic_fence_input_info option" where
  "cam_generic_fence_alloc_validate_input_info_util um args =
     (if fca_input_data_size args < SIZEOF_cam_generic_fence_input_info then (- EINVAL, None)
      else case um_fence_input um (fca_input_handle args) (fca_input_data_size args) of
        None \<Rightarrow> (- ENOMEM, None)
      | Some fence_input \<Rightarrow>
          let num_fences = num_fences_requested fence_input in
          if num_fences = 0 \<or> CAM_GENERIC_FENCE_BATCH_MAX < num_fences then (- EINVAL, None)
          else if SIZEOF_cam_generic_fence_input_info +
                  (num_fences - 1) * SIZEOF_cam_generic_fence_config \<noteq> fca_input_data_size args
          then (- EINVAL, None)
          else (0, Some fence_input))"

text \<open>
  Each batch operation is a loop over the entries. The loop returns the status, the number of
  entries processed, the entries as they are copied back and the device; an entry that is not
  reached is copied back as it was. \<open>run_batch\<close> is the frame that the handlers share: validate,
  loop over \<open>num_fences_requested\<close> entries, copy out.
\<close>

definition run_batch ::
  "user_memory \<Rightarrow> cam_generic_fence_cmd_args
   \<Rightarrow> (cam_generic_fence_config list \<Rightarrow> 'x sync_device
       \<Rightarrow> int \<times> u32 \<times> cam_generic_fence_config list \<times> 'x sync_device)
   \<Rightarrow> 'x sync_device \<Rightarrow> int \<times> ioctl_out \<times> 'x sync_device" where
  "run_batch um args loop s =
     (let (rc, info) = cam_generic_fence_alloc_validate_input_info_util um args in
      case info of
        None \<Rightarrow> (- EINVAL, Out_none, s)
      | Some fi \<Rightarrow>
          let n = unat (num_fences_requested fi);
              (rc', processed, cfgs, s1) = loop (take n (fence_cfg fi)) s;
              fi' = fi\<lparr>num_fences_processed := num_fences_processed fi + processed,
                       fence_cfg := cfgs @ drop n (fence_cfg fi)\<rparr>
          in if \<not> um_write_ok um (fca_input_handle args) then (- EFAULT, Out_none, s1)
             else (rc', Out_fences fi', s1))"

subsubsection \<open>DMA fences\<close>

fun dma_create_loop ::
  "'x dma_fence_core \<Rightarrow> cam_generic_fence_config list \<Rightarrow> 'x sync_device
   \<Rightarrow> int \<times> u32 \<times> cam_generic_fence_config list \<times> 'x sync_device" where
  "dma_create_loop A [] s = (0, 0, [], s)"
| "dma_create_loop A (c # cs) s =
     (let cfg = c\<lparr>fc_reason_code := 0\<rparr>;
          (rc, r, d) = cam_dma_fence_create_fd A (fc_name cfg) (dma_dev s);
          s1 = upd_dma d s
      in case r of
           None \<Rightarrow> (rc, 1, cfg\<lparr>fc_reason_code := rc\<rparr> # cs, s1)
         | Some (fd, _) \<Rightarrow>
             let (rc', n, cs', s2) = dma_create_loop A cs s1
             in (rc', n + 1, cfg\<lparr>fc_dma_fence_fd := fd\<rparr> # cs', s2))"

definition cam_generic_fence_handle_dma_create ::
  "'x dma_fence_core \<Rightarrow> user_memory \<Rightarrow> cam_generic_fence_cmd_args \<Rightarrow> 'x sync_device
   \<Rightarrow> int \<times> ioctl_out \<times> 'x sync_device" where
  "cam_generic_fence_handle_dma_create A um args s = run_batch um args (dma_create_loop A) s"

text \<open>\<open>rc\<close> is the status of the previous entry: the loop of the source leaves the one of the last
  entry in \<open>rc\<close> and overrides it with \<open>-ENOMSG\<close> when an entry failed.\<close>

fun dma_release_loop ::
  "'x dma_fence_core \<Rightarrow> int \<Rightarrow> bool \<Rightarrow> cam_generic_fence_config list \<Rightarrow> 'x sync_device
   \<Rightarrow> int \<times> u32 \<times> cam_generic_fence_config list \<times> 'x sync_device" where
  "dma_release_loop A rc failed [] s = (if failed then - ENOMSG else rc, 0, [], s)"
| "dma_release_loop A rc failed (c # cs) s =
     (let cfg = c\<lparr>fc_reason_code := 0\<rparr>;
          (rc', calls, d) = cam_dma_fence_release A (Release_fd (fc_dma_fence_fd cfg)) (dma_dev s);
          s1 = apply_sync_cbs calls (upd_dma d s);
          (rcn, n, cs', s2) = dma_release_loop A rc' (failed \<or> rc' \<noteq> 0) cs s1
      in (rcn, n + 1,
          (if rc' \<noteq> 0 then cfg\<lparr>fc_reason_code := rc'\<rparr> else cfg) # cs', s2))"

definition cam_generic_fence_handle_dma_release ::
  "'x dma_fence_core \<Rightarrow> user_memory \<Rightarrow> cam_generic_fence_cmd_args \<Rightarrow> 'x sync_device
   \<Rightarrow> int \<times> ioctl_out \<times> 'x sync_device" where
  "cam_generic_fence_handle_dma_release A um args s =
     run_batch um args (dma_release_loop A 0 False) s"

text \<open>The branch for an fd without a fence leaves \<open>rc\<close> as it is, which is 0 there.\<close>

fun dma_import_loop ::
  "'x dma_fence_core \<Rightarrow> cam_generic_fence_config list \<Rightarrow> 'x sync_device
   \<Rightarrow> int \<times> u32 \<times> cam_generic_fence_config list \<times> 'x sync_device" where
  "dma_import_loop A [] s = (0, 0, [], s)"
| "dma_import_loop A (c # cs) s =
     (let cfg = c\<lparr>fc_reason_code := 0\<rparr>;
          (fo, d) = cam_dma_fence_get_fence_from_fd A (fc_dma_fence_fd cfg) (dma_dev s);
          s1 = upd_dma d s
      in case fo of
           None \<Rightarrow> (0, 1, cfg\<lparr>fc_reason_code := - EINVAL\<rparr> # cs, s1)
         | Some (row_idx, _) \<Rightarrow>
             let (rc, r, s2) = cam_sync_create_util A (fc_name cfg)
                    (Some \<lparr>dsc_dma_fence_row_idx = row_idx, dsc_fd = fc_dma_fence_fd cfg,
                           dsc_sync_created_with_dma = False\<rparr>) s1;
                 cfg1 = (case r of None \<Rightarrow> cfg | Some i \<Rightarrow> cfg\<lparr>fc_sync_obj := i\<rparr>)
             in if rc \<noteq> 0 then
                  (rc, 1, cfg1\<lparr>fc_reason_code := rc\<rparr> # cs,
                   upd_dma (snd (cam_dma_fence_get_put_ref A False row_idx (dma_dev s2))) s2)
                else
                  let (rc', d') = cam_dma_fence_register_cb A (Some (fc_sync_obj cfg1))
                                    (Some row_idx) (Some cam_sync_dma_fence_cb_fn) (dma_dev s2);
                      s3 = upd_dma d' s2
                  in if rc' \<noteq> 0 then
                       (rc', 1, cfg1\<lparr>fc_reason_code := rc'\<rparr> # cs,
                        snd (snd (cam_sync_deinit_object A (fc_sync_obj cfg1) None s3)))
                     else
                       let (rcn, n, cs', s4) = dma_import_loop A cs s3
                       in (rcn, n + 1, cfg1 # cs', s4))"

definition cam_generic_fence_handle_dma_import ::
  "'x dma_fence_core \<Rightarrow> user_memory \<Rightarrow> cam_generic_fence_cmd_args \<Rightarrow> 'x sync_device
   \<Rightarrow> int \<times> ioctl_out \<times> 'x sync_device" where
  "cam_generic_fence_handle_dma_import A um args s = run_batch um args (dma_import_loop A) s"

definition cam_generic_fence_handle_dma_signal ::
  "'x dma_fence_core \<Rightarrow> user_memory \<Rightarrow> cam_generic_fence_cmd_args \<Rightarrow> 'x sync_device
   \<Rightarrow> int \<times> 'x sync_device" where
  "cam_generic_fence_handle_dma_signal A um args s =
     (if fca_input_data_size args < SIZEOF_cam_dma_fence_signal then (- EINVAL, s)
      else case um_dma_signal um (fca_input_handle args) (fca_input_data_size args) of
        None \<Rightarrow> (- EFAULT, s)
      | Some sig \<Rightarrow>
          let (rc, calls, d) = cam_dma_fence_signal_fd A sig (dma_dev s)
          in (rc, apply_sync_cbs calls (upd_dma d s)))"

definition cam_generic_fence_process_dma_fence_cmd ::
  "'x dma_fence_core \<Rightarrow> user_memory \<Rightarrow> u32 \<Rightarrow> cam_generic_fence_cmd_args \<Rightarrow> 'x sync_device
   \<Rightarrow> int \<times> ioctl_out \<times> 'x sync_device" where
  "cam_generic_fence_process_dma_fence_cmd A um id' args s =
     (if id' = 11 then cam_generic_fence_handle_dma_create A um args s
      else if id' = 12 then cam_generic_fence_handle_dma_release A um args s
      else if id' = 13 then cam_generic_fence_handle_dma_import A um args s
      else if id' = 14 then
        (let (rc, s1) = cam_generic_fence_handle_dma_signal A um args s in (rc, Out_none, s1))
      else (- EINVAL, Out_none, s))"

subsubsection \<open>Sync objects with an optional dma fence\<close>

fun sync_create_loop ::
  "'x dma_fence_core \<Rightarrow> cam_generic_fence_config list \<Rightarrow> 'x sync_device
   \<Rightarrow> int \<times> u32 \<times> cam_generic_fence_config list \<times> 'x sync_device" where
  "sync_create_loop A [] s = (0, 0, [], s)"
| "sync_create_loop A (c # cs) s =
     (let cfg = c\<lparr>fc_reason_code := 0\<rparr>;
          with_dma = bit (fc_fence_sel_mask cfg) CAM_GENERIC_FENCE_TYPE_DMA_FENCE;
          (rc0, r0, s1) = (if with_dma
             then (let (rc0, r0, d) = cam_dma_fence_create_fd A (fc_name cfg) (dma_dev s)
                   in (rc0, r0, upd_dma d s))
             else (0, None, s))
      in if rc0 \<noteq> 0 then (rc0, 1, cfg\<lparr>fc_reason_code := rc0\<rparr> # cs, s1)
         else
           let cfg1 = (case r0 of None \<Rightarrow> cfg | Some (fd, _) \<Rightarrow> cfg\<lparr>fc_dma_fence_fd := fd\<rparr>);
               row_idx = (case r0 of None \<Rightarrow> 0 | Some (_, i) \<Rightarrow> i);
               (rc, r, s2) = cam_sync_create_util A (fc_name cfg1)
                 (if with_dma then Some \<lparr>dsc_dma_fence_row_idx = row_idx,
                    dsc_fd = fc_dma_fence_fd cfg1, dsc_sync_created_with_dma = True\<rparr> else None) s1;
               cfg2 = (case r of None \<Rightarrow> cfg1 | Some i \<Rightarrow> cfg1\<lparr>fc_sync_obj := i\<rparr>);
               release_dma = (\<lambda>t. let (_, calls, d) =
                  cam_dma_fence_release A (Release_row_idx row_idx) (dma_dev t)
                  in apply_sync_cbs calls (upd_dma d t))
           in if rc \<noteq> 0 then
                (rc, 1, cfg2\<lparr>fc_reason_code := rc\<rparr> # cs, if with_dma then release_dma s2 else s2)
              else
                let (rc', s3) = (if with_dma
                   then (let (rc', d) = cam_dma_fence_register_cb A (Some (fc_sync_obj cfg2))
                            (Some row_idx) (Some cam_sync_dma_fence_cb_fn) (dma_dev s2)
                         in (rc', upd_dma d s2))
                   else (0, s2))
                in if rc' \<noteq> 0 then
                     (rc', 1, cfg2\<lparr>fc_reason_code := rc'\<rparr> # cs,
                      release_dma (snd (snd (cam_sync_deinit_object A (fc_sync_obj cfg2) None s3))))
                   else
                     let (rcn, n, cs', s4) = sync_create_loop A cs s3
                     in (rcn, n + 1, cfg2 # cs', s4))"

definition cam_generic_fence_handle_sync_create ::
  "'x dma_fence_core \<Rightarrow> user_memory \<Rightarrow> cam_generic_fence_cmd_args \<Rightarrow> 'x sync_device
   \<Rightarrow> int \<times> ioctl_out \<times> 'x sync_device" where
  "cam_generic_fence_handle_sync_create A um args s = run_batch um args (sync_create_loop A) s"

text \<open>\<open>check_for_dma_release\<close> is reset at each entry but for its row index, which is only read after
  \<open>cam_sync_deinit_object\<close> has set it for the same entry.\<close>

fun sync_release_loop ::
  "'x dma_fence_core \<Rightarrow> int \<Rightarrow> bool \<Rightarrow> cam_generic_fence_config list \<Rightarrow> 'x sync_device
   \<Rightarrow> int \<times> u32 \<times> cam_generic_fence_config list \<times> 'x sync_device" where
  "sync_release_loop A rc failed [] s = (if failed then - ENOMSG else rc, 0, [], s)"
| "sync_release_loop A rc failed (c # cs) s =
     (let cfg = c\<lparr>fc_reason_code := 0\<rparr>;
          chk = \<lparr>chk_dma_fence_row_idx = 0, chk_dma_fence_fd = fc_dma_fence_fd cfg,
                 chk_sync_created_with_dma = False\<rparr>;
          (rc1, chk', s1) = cam_sync_deinit_object A (fc_sync_obj cfg) (Some chk) s;
          cfg1 = (if rc1 \<noteq> 0 then cfg\<lparr>fc_reason_code := rc1\<rparr> else cfg);
          failed1 = (failed \<or> rc1 \<noteq> 0);
          (rc2, failed2, cfg2, s2) =
            (if \<not> bit (fc_fence_sel_mask cfg) CAM_GENERIC_FENCE_TYPE_DMA_FENCE
             then (rc1, failed1, cfg1, s1)
             else case chk' of
               None \<Rightarrow> (rc1, True, cfg1\<lparr>fc_reason_code := - EPERM\<rparr>, s1)
             | Some ck \<Rightarrow>
                 if \<not> chk_sync_created_with_dma ck
                 then (rc1, True, cfg1\<lparr>fc_reason_code := - EPERM\<rparr>, s1)
                 else
                   let (rc2, calls, d) = cam_dma_fence_release A
                          (Release_row_idx (chk_dma_fence_row_idx ck)) (dma_dev s1);
                       s2 = apply_sync_cbs calls (upd_dma d s1)
                   in if rc2 \<noteq> 0 then (rc2, True, cfg1\<lparr>fc_reason_code := rc2\<rparr>, s2)
                      else (rc2, failed1, cfg1, s2));
          (rcn, n, cs', s3) = sync_release_loop A rc2 failed2 cs s2
      in (rcn, n + 1, cfg2 # cs', s3))"

definition cam_generic_fence_handle_sync_release ::
  "'x dma_fence_core \<Rightarrow> user_memory \<Rightarrow> cam_generic_fence_cmd_args \<Rightarrow> 'x sync_device
   \<Rightarrow> int \<times> ioctl_out \<times> 'x sync_device" where
  "cam_generic_fence_handle_sync_release A um args s =
     run_batch um args (sync_release_loop A 0 False) s"

definition cam_generic_fence_process_sync_obj_cmd ::
  "'x dma_fence_core \<Rightarrow> user_memory \<Rightarrow> u32 \<Rightarrow> cam_generic_fence_cmd_args \<Rightarrow> 'x sync_device
   \<Rightarrow> int \<times> ioctl_out \<times> 'x sync_device" where
  "cam_generic_fence_process_sync_obj_cmd A um id' args s =
     (if id' = 11 then cam_generic_fence_handle_sync_create A um args s
      else if id' = 12 then cam_generic_fence_handle_sync_release A um args s
      else (- EINVAL, Out_none, s))"

definition cam_generic_fence_parser ::
  "'x dma_fence_core \<Rightarrow> user_memory \<Rightarrow> cam_private_ioctl_arg \<Rightarrow> 'x sync_device
   \<Rightarrow> int \<times> ioctl_out \<times> 'x sync_device" where
  "cam_generic_fence_parser A um k s =
     (if ioc_ptr k = 0 then (- EINVAL, Out_none, s)
      else if ioc_size k \<noteq> SIZEOF_cam_generic_fence_cmd_args then (- EINVAL, Out_none, s)
      else case um_cmd_args um (ioc_ptr k) of
        None \<Rightarrow> (- EFAULT, Out_none, s)
      | Some args \<Rightarrow>
          if fca_input_handle_type args \<noteq> CAM_HANDLE_USER_POINTER then (- EINVAL, Out_none, s)
          else if fca_fence_type args = 1
          then cam_generic_fence_process_sync_obj_cmd A um (ioc_id k) args s
          else if fca_fence_type args = 2
          then cam_generic_fence_process_dma_fence_cmd A um (ioc_id k) args s
          else (- EINVAL, Out_none, s))"

subsection \<open>The ioctl entry point\<close>

text \<open>\<open>private_cmd\<close> says whether \<open>cmd\<close> is \<open>CAM_PRIVATE_IOCTL_CMD\<close>; \<open>arg\<close> is \<^const>\<open>None\<close> for NULL.\<close>

definition cam_sync_dev_ioctl ::
  "'x dma_fence_core \<Rightarrow> 'x sync_env \<Rightarrow> user_memory \<Rightarrow> bool \<Rightarrow> cam_private_ioctl_arg option
   \<Rightarrow> 'x sync_device \<Rightarrow> int \<times> ioctl_out \<times> 'x sync_device" where
  "cam_sync_dev_ioctl A e um private_cmd arg s =
     (case arg of
        None \<Rightarrow> (- EINVAL, Out_none, s)
      | Some k \<Rightarrow>
          if \<not> private_cmd then (- ENOIOCTLCMD, Out_none, s)
          else
            let silent = (\<lambda>(rc, s1). (rc, Out_none, s1)); id' = ioc_id k in
            if id' = 0 then cam_sync_handle_create A um k s
            else if id' = 1 then silent (cam_sync_handle_destroy A um k s)
            else if id' = 4 then silent (cam_sync_handle_register_user_payload e um k s)
            else if id' = 5 then silent (cam_sync_handle_deregister_user_payload um k s)
            else if id' = 2 then silent (cam_sync_handle_signal A um k s)
            else if id' = 3 then cam_sync_handle_merge e um k s
            else if id' = 6 then cam_sync_handle_wait e um k s
            else if id' = 11 \<or> id' = 12 \<or> id' = 13 \<or> id' = 14
            then cam_generic_fence_parser A um k s
            else (- ENOIOCTLCMD, Out_none, s))"

subsection \<open>Opening, closing, polling, events\<close>

text \<open>\<open>v4l2_fh_open\<close>, \<open>v4l2_event_subscribe\<close> and \<open>v4l2_event_unsubscribe\<close> are the kernel's; their
  status is an argument.\<close>

definition cam_sync_open :: "int \<Rightarrow> 'x sync_device \<Rightarrow> int \<times> 'x sync_device" where
  "cam_sync_open fh_rc s =
     (if 1 \<le> open_cnt s then (- EALREADY, s)
      else if fh_rc = 0
      then (fh_rc, s\<lparr>open_cnt := open_cnt s + 1, dma_dev := cam_dma_fence_open (dma_dev s),
                     cam_sync_eventq := True\<rparr>)
      else (fh_rc, s))"

fun close_signal_loop ::
  "'x dma_fence_core \<Rightarrow> nat \<Rightarrow> int \<Rightarrow> int \<Rightarrow> 'x sync_device \<Rightarrow> int \<times> 'x sync_device" where
  "close_signal_loop A 0 i rc s = (rc, s)"
| "close_signal_loop A (Suc k) i rc s =
     (let (rc', s') = (if row_state (sync_table s i) = CAM_SYNC_STATE_ACTIVE
            then cam_sync_signal A i CAM_SYNC_STATE_SIGNALED_ERROR CAM_SYNC_COMMON_RELEASE_EVENT s
            else (rc, s))
      in close_signal_loop A k (i + 1) rc' s')"

definition flush_workqueue :: "'x sync_device \<Rightarrow> 'x sync_device" where
  "flush_workqueue s = fold cam_sync_util_cb_dispatch (work_queue s) (s\<lparr>work_queue := []\<rparr>)"

fun close_destroy_loop ::
  "'x dma_fence_core \<Rightarrow> nat \<Rightarrow> int \<Rightarrow> int \<Rightarrow> 'x sync_device \<Rightarrow> int \<times> 'x sync_device" where
  "close_destroy_loop A 0 i rc s = (rc, s)"
| "close_destroy_loop A (Suc k) i rc s =
     (let (rc', s') = (if row_state (sync_table s i) \<noteq> CAM_SYNC_STATE_INVALID
            then cam_sync_destroy A i s else (rc, s))
      in close_destroy_loop A k (i + 1) rc' s')"

definition cam_sync_close :: "'x dma_fence_core \<Rightarrow> 'x sync_device \<Rightarrow> int \<times> 'x sync_device" where
  "cam_sync_close A s =
     (let s0 = s\<lparr>open_cnt := open_cnt s - 1\<rparr>;
          (rc, s1) =
            (if open_cnt s0 = 0 then
               (let (rc1, s1) = close_signal_loop A (nat (CAM_SYNC_MAX_OBJS - 1)) 1 0 s0
                in close_destroy_loop A (nat (CAM_SYNC_MAX_OBJS - 1)) 1 rc1 (flush_workqueue s1))
             else (0, s0));
          (calls, d) = cam_dma_fence_close A (dma_dev s1)
      in (rc, (apply_sync_cbs calls (upd_dma d s1))\<lparr>cam_sync_eventq := False\<rparr>))"

definition cam_sync_poll :: "v4l2_event list option \<Rightarrow> int" where
  "cam_sync_poll eventq =
     (case eventq of None \<Rightarrow> - EINVAL | Some pending \<Rightarrow> if pending \<noteq> [] then 2 else 0)"

definition cam_sync_subscribe_event :: "int \<Rightarrow> int \<Rightarrow> 'x sync_device \<Rightarrow> int \<times> 'x sync_device" where
  "cam_sync_subscribe_event v4l2_rc ty s =
     (if ty \<noteq> CAM_SYNC_V4L_EVENT \<and> ty \<noteq> CAM_SYNC_V4L_EVENT_V2 then (- EINVAL, s)
      else (v4l2_rc, s\<lparr>sync_version := ty\<rparr>))"

definition cam_sync_unsubscribe_event :: "int \<Rightarrow> int \<Rightarrow> 'x sync_device \<Rightarrow> int \<times> 'x sync_device" where
  "cam_sync_unsubscribe_event v4l2_rc ty s =
     (if ty \<noteq> CAM_SYNC_V4L_EVENT \<and> ty \<noteq> CAM_SYNC_V4L_EVENT_V2 then (- EINVAL, s)
      else (v4l2_rc, s))"

text \<open>The \<open>SYNX_STATE_*\<close> values come from the synx driver's header and are arguments.\<close>

definition cam_synx_sync_signal ::
  "'x dma_fence_core \<Rightarrow> int \<Rightarrow> int \<Rightarrow> int \<Rightarrow> int \<Rightarrow> int \<Rightarrow> 'x sync_device \<Rightarrow> int \<times> 'x sync_device" where
  "cam_synx_sync_signal A SYNX_ACTIVE SYNX_SUCCESS SYNX_ERROR sync_obj synx_status s =
     (let sync_status =
        (if synx_status = SYNX_ACTIVE then CAM_SYNC_STATE_ACTIVE
         else if synx_status = SYNX_SUCCESS then CAM_SYNC_STATE_SIGNALED_SUCCESS
         else if synx_status = SYNX_ERROR then CAM_SYNC_STATE_SIGNALED_ERROR
         else if synx_status = 4 then CAM_SYNC_STATE_SIGNALED_CANCEL
         else CAM_SYNC_STATE_SIGNALED_ERROR)
      in cam_sync_signal A sync_obj sync_status CAM_SYNC_COMMON_EVENT_SYNX s)"

subsection \<open>Binding the device\<close>

text \<open>The outcomes of the kernel calls that \<open>cam_sync_component_bind\<close> makes, in order; \<open>bnd_synx_rc\<close> is
  \<^const>\<open>None\<close> when the synx driver is not configured. The device starts with every row zero; its dma
  fence table starts with the sequence counter \<open>seq\<close> and the core state \<open>x\<close>.\<close>

record bind_results =
  bnd_alloc :: bool
  bnd_vdev_alloc :: bool
  bnd_media_rc :: int
  bnd_v4l2_rc :: int
  bnd_video_rc :: int
  bnd_workq :: bool
  bnd_dma_alloc :: bool
  bnd_synx_rc :: "int option"

definition cam_sync_component_bind ::
  "bind_results \<Rightarrow> u64 \<Rightarrow> 'x \<Rightarrow> int \<times> 'x sync_device option" where
  "cam_sync_component_bind b seq x =
     (if \<not> bnd_alloc b then (- ENOMEM, None)
      else if \<not> bnd_vdev_alloc b then (- ENOMEM, None)
      else if bnd_media_rc b < 0 then (bnd_media_rc b, None)
      else if bnd_v4l2_rc b < 0 then (bnd_v4l2_rc b, None)
      else if bnd_video_rc b < 0 then (bnd_video_rc b, None)
      else if \<not> bnd_workq b then (- ENOMEM, None)
      else case cam_dma_fence_driver_init (bnd_dma_alloc b) seq x of
          (rc, None) \<Rightarrow> (rc, None)
        | (rc, Some d) \<Rightarrow>
            (case bnd_synx_rc b of
               Some rs \<Rightarrow> if rs \<noteq> 0 then (rs, None) else
                 (rs, Some \<lparr>sync_table = (\<lambda>_. zero_row), sync_bitmap = set_bit_at 0 (\<lambda>_. False),
                            open_cnt = 0, work_queue = [], cam_sync_eventq = False, sync_version = 0,
                            vdev_events = [], cb_trace = [], trigger_cb_without_switch = False,
                            dma_dev = d\<rparr>)
             | None \<Rightarrow>
                 (rc, Some \<lparr>sync_table = (\<lambda>_. zero_row), sync_bitmap = set_bit_at 0 (\<lambda>_. False),
                            open_cnt = 0, work_queue = [], cam_sync_eventq = False, sync_version = 0,
                            vdev_events = [], cb_trace = [], trigger_cb_without_switch = False,
                            dma_dev = d\<rparr>)))"

end
