(* ===== verification/Cam_Sync_Reach.thy ===== *)
theory Cam_Sync_Reach
  imports Cam_Sync_Ioctl
begin

section \<open>Reachable states of the sync device\<close>

text \<open>
  Every operation of the sync device, the user-facing ones included, preserves \<open>sync_inv\<close>. The
  operations are the steps of the relation \<open>sync_step\<close>; \<open>sync_reachable\<close> is the set of the states that a
  sequence of steps reaches from the state after a successful bind.
\<close>

subsection \<open>Preservation by the batch operations\<close>

lemma inv_upd_dma: "sync_inv s \<Longrightarrow> dma_wf d \<Longrightarrow> sync_inv (upd_dma d s)"
  by (simp add: sync_inv_good)

lemma inv_apply_cbs: "sync_inv s \<Longrightarrow> sync_inv (apply_sync_cbs cs s)"
  by (simp add: sync_inv_good apply_sync_cbs_good)

lemma inv_dma: "sync_inv s \<Longrightarrow> dma_wf (dma_dev s)"
  by (simp add: sync_inv_def)

lemma create_util_inv': "cam_sync_create_util A name info s = (rc, r, s') \<Longrightarrow> sync_inv s \<Longrightarrow> sync_inv s'"
  using create_util_inv [of s A name info] by simp

lemma deinit_inv': "cam_sync_deinit_object A i chk s = (rc, r, s') \<Longrightarrow> sync_inv s \<Longrightarrow> sync_inv s'"
  using deinit_inv [of s A i chk] by simp

lemmas step_inv = inv_upd_dma inv_apply_cbs inv_dma create_util_inv' deinit_inv' deinit_inv
  create_fd_wf release_wf register_cb_wf get_fence_from_fd_wf signal_fd_wf get_put_ref_wf

lemma dma_create_loop_inv:
  "dma_create_loop A cs s = (rc, n, cs', s') \<Longrightarrow> sync_inv s \<Longrightarrow> sync_inv s'"
proof (induction cs arbitrary: s rc n cs')
  case (Cons c cs)
  obtain rc1 r d where cr: "cam_dma_fence_create_fd A (fc_name (c\<lparr>fc_reason_code := 0\<rparr>)) (dma_dev s) = (rc1, r, d)"
    by (metis prod_cases3)
  then have "sync_inv (upd_dma d s)" using Cons.prems(2) by (blast intro: step_inv)
  with Cons cr show ?case by (auto simp: Let_def split: option.splits prod.splits)
qed simp

lemma release_inv:
  assumes "cam_dma_fence_release A p (dma_dev s) = (rc, calls, d)" and "sync_inv s"
  shows "sync_inv (apply_sync_cbs calls (upd_dma d s))"
  using assms by (blast intro: step_inv)

lemma dma_release_loop_inv:
  "dma_release_loop A rc f cs s = (rc', n, cs', s') \<Longrightarrow> sync_inv s \<Longrightarrow> sync_inv s'"
proof (induction cs arbitrary: s rc f rc' n cs')
  case (Cons c cs)
  obtain rc1 calls d where cr: "cam_dma_fence_release A (Release_fd (fc_dma_fence_fd c)) (dma_dev s) = (rc1, calls, d)"
    by (metis prod_cases3)
  note i = release_inv [OF cr Cons.prems(2)]
  show ?case using Cons.prems(1) cr Cons.IH [OF _ i]
    by (auto simp: Let_def simp del: cam_dma_fence_release.simps split: prod.splits)
qed simp

lemma get_put_ref_inv: "sync_inv s \<Longrightarrow> sync_inv (upd_dma (snd (cam_dma_fence_get_put_ref A b i (dma_dev s))) s)"
  by (rule inv_upd_dma) (auto simp: inv_dma intro: get_put_ref_wf [OF prod.collapse [symmetric]])

lemma dma_import_loop_inv:
  "dma_import_loop A cs s = (rc, n, cs', s') \<Longrightarrow> sync_inv s \<Longrightarrow> sync_inv s'"
proof (induction cs arbitrary: s rc n cs')
  case (Cons c cs)
  obtain fo d where cr: "cam_dma_fence_get_fence_from_fd A (fc_dma_fence_fd c) (dma_dev s) = (fo, d)"
    by fastforce
  then have i1: "sync_inv (upd_dma d s)" using Cons.prems(2) by (blast intro: step_inv)
  show ?case
  proof (cases fo)
    case None
    with Cons.prems cr i1 show ?thesis by (auto simp: Let_def)
  next
    case (Some p)
    then obtain ri f where fo: "fo = Some (ri, f)" by fastforce
    obtain rc1 r s2 where cu: "cam_sync_create_util A (fc_name c) (Some \<lparr>dsc_dma_fence_row_idx = ri,
        dsc_fd = fc_dma_fence_fd c, dsc_sync_created_with_dma = False\<rparr>) (upd_dma d s) = (rc1, r, s2)"
      by (metis prod_cases3)
    note i2 = create_util_inv' [OF cu i1]
    define so where "so = (case r of None \<Rightarrow> fc_sync_obj c | Some i \<Rightarrow> i)"
    obtain rc2 d2 where rg: "cam_dma_fence_register_cb A (Some so) (Some ri)
        (Some cam_sync_dma_fence_cb_fn) (dma_dev s2) = (rc2, d2)" by fastforce
    then have i3: "sync_inv (upd_dma d2 s2)" using i2 by (blast intro: step_inv)
    show ?thesis
      using Cons.prems(1) cr fo cu rg Cons.IH [OF _ i3] get_put_ref_inv [OF i2] deinit_inv [OF i3]
      by (auto simp: Let_def so_def split: if_splits option.splits prod.splits)
  qed
qed simp

lemma create_fd_inv:
  "sync_inv s \<Longrightarrow> sync_inv (upd_dma (snd (snd (cam_dma_fence_create_fd A n (dma_dev s)))) s)"
  by (rule inv_upd_dma)
    (auto simp: inv_dma intro: create_fd_wf [of A n "dma_dev s" "fst (cam_dma_fence_create_fd A n (dma_dev s))"
       "fst (snd (cam_dma_fence_create_fd A n (dma_dev s)))"])

lemma register_cb_inv:
  "sync_inv s \<Longrightarrow> sync_inv (upd_dma (snd (cam_dma_fence_register_cb A so i f (dma_dev s))) s)"
  by (rule inv_upd_dma) (auto simp: inv_dma intro: register_cb_wf [OF prod.collapse [symmetric]])

lemma release_inv':
  "sync_inv s \<Longrightarrow>
   sync_inv (apply_sync_cbs (fst (snd (cam_dma_fence_release A p (dma_dev s))))
     (upd_dma (snd (snd (cam_dma_fence_release A p (dma_dev s)))) s))"
  by (rule release_inv [of A p s "fst (cam_dma_fence_release A p (dma_dev s))"]) simp_all

lemma sync_create_loop_inv:
  "sync_inv s \<Longrightarrow> sync_inv (snd (snd (snd (sync_create_loop A cs s))))"
proof (induction cs arbitrary: s)
  case (Cons c cs)
  then show ?case
    by (simp add: Let_def split_beta create_fd_inv register_cb_inv release_inv' create_util_inv
        deinit_inv del: cam_dma_fence_release.simps)
qed simp

lemma sync_release_loop_inv:
  "sync_inv s \<Longrightarrow> sync_inv (snd (snd (snd (sync_release_loop A rc f cs s))))"
proof (induction cs arbitrary: s rc f)
  case (Cons c cs)
  then show ?case
    by (simp add: Let_def split_beta release_inv' deinit_inv del: cam_dma_fence_release.simps
        split: option.splits)
qed simp

lemma run_batch_inv:
  assumes "sync_inv s" and "\<And>cs. sync_inv (snd (snd (snd (loop cs s))))"
  shows "sync_inv (snd (snd (run_batch um args loop s)))"
  using assms by (simp add: run_batch_def Let_def split_beta split: option.splits)

lemma dma_loops_inv:
  assumes "sync_inv s"
  shows "sync_inv (snd (snd (snd (dma_create_loop A cs s))))"
    and "sync_inv (snd (snd (snd (dma_release_loop A rc f cs s))))"
    and "sync_inv (snd (snd (snd (dma_import_loop A cs s))))"
  using assms dma_create_loop_inv dma_release_loop_inv dma_import_loop_inv
  by (metis prod.collapse)+

lemma dma_signal_inv:
  assumes "sync_inv s"
  shows "sync_inv (snd (cam_generic_fence_handle_dma_signal A um args s))"
proof -
  have "dma_wf (snd (snd (cam_dma_fence_signal_fd A sig (dma_dev s))))" for sig
    using signal_fd_wf [OF _ inv_dma [OF assms]] by (metis prod.collapse)
  with assms show ?thesis
    by (auto simp: cam_generic_fence_handle_dma_signal_def Let_def split_beta inv_upd_dma inv_apply_cbs
        split: option.splits)
qed

lemma fence_parser_inv:
  assumes "sync_inv s"
  shows "sync_inv (snd (snd (cam_generic_fence_parser A um k s)))"
  using assms
  by (simp add: cam_generic_fence_parser_def cam_generic_fence_process_dma_fence_cmd_def
      cam_generic_fence_process_sync_obj_cmd_def cam_generic_fence_handle_dma_create_def
      cam_generic_fence_handle_dma_release_def cam_generic_fence_handle_dma_import_def
      cam_generic_fence_handle_sync_create_def cam_generic_fence_handle_sync_release_def
      run_batch_inv dma_loops_inv sync_create_loop_inv sync_release_loop_inv dma_signal_inv
      split_beta split: option.splits)

subsection \<open>Preservation by the ioctls\<close>

lemma send_event_inv [simp]:
  "sync_inv (cam_sync_util_send_v4l2_event evid so st p cause s) = sync_inv s"
  by (simp add: cam_sync_util_send_v4l2_event_def Let_def)

lemma payload_ioctls_inv:
  assumes "sync_inv s"
  shows "sync_inv (snd (cam_sync_handle_register_user_payload e um k s))"
    and "sync_inv (snd (cam_sync_handle_deregister_user_payload um k s))"
  using assms
  by (auto simp: cam_sync_handle_register_user_payload_def cam_sync_handle_deregister_user_payload_def
      Let_def quiet_def live_def split: option.splits intro!: sync_inv_quiet)

lemma merge_inv': "sync_inv s \<Longrightarrow> sync_inv (snd (snd (cam_sync_merge al o' s)))"
  using merge_inv by (metis prod.collapse)

lemma object_ioctls_inv:
  assumes "sync_inv s"
  shows "sync_inv (snd (snd (cam_sync_handle_create A um k s)))"
    and "sync_inv (snd (cam_sync_handle_destroy A um k s))"
    and "sync_inv (snd (cam_sync_handle_signal A um k s))"
    and "sync_inv (snd (snd (cam_sync_handle_merge e um k s)))"
    and "sync_inv (env_others e s) \<Longrightarrow> sync_inv (snd (snd (cam_sync_handle_wait e um k s)))"
  using assms
  by (simp_all add: cam_sync_handle_create_def cam_sync_handle_destroy_def cam_sync_handle_signal_def
      cam_sync_handle_merge_def cam_sync_handle_wait_def cam_sync_create_def Let_def split_beta
      create_util_inv destroy_inv get_obj_ref_inv signal_inv merge_inv' split: option.splits)

lemma dev_ioctl_inv:
  assumes "sync_inv s" and "sync_inv (env_others e s)"
  shows "sync_inv (snd (snd (cam_sync_dev_ioctl A e um pc arg s)))"
  using assms
  by (simp add: cam_sync_dev_ioctl_def Let_def split_beta object_ioctls_inv payload_ioctls_inv
      fence_parser_inv split: option.splits)

subsection \<open>Opening and closing\<close>

lemma close_signal_loop_inv: "sync_inv s \<Longrightarrow> sync_inv (snd (close_signal_loop A k i rc s))"
  by (induction k arbitrary: i rc s) (simp_all add: Let_def split_beta signal_inv)

lemma close_destroy_loop_inv: "sync_inv s \<Longrightarrow> sync_inv (snd (close_destroy_loop A k i rc s))"
  by (induction k arbitrary: i rc s) (simp_all add: Let_def split_beta destroy_inv)

lemma fold_cb_dispatch: "fold cam_sync_util_cb_dispatch q s = s\<lparr>cb_trace := cb_trace s @ q\<rparr>"
  by (induction q arbitrary: s) (simp_all add: cam_sync_util_cb_dispatch_def)

lemma flush_workqueue_eq:
  "flush_workqueue s = s\<lparr>work_queue := [], cb_trace := cb_trace s @ work_queue s\<rparr>"
  by (simp add: flush_workqueue_def fold_cb_dispatch)

lemma open_inv: "sync_inv s \<Longrightarrow> sync_inv (snd (cam_sync_open rc s))"
  by (simp add: cam_sync_open_def sync_inv_def open_wf)

lemma dma_close_inv:
  "sync_inv s \<Longrightarrow> sync_inv (apply_sync_cbs (fst (cam_dma_fence_close A (dma_dev s)))
     (upd_dma (snd (cam_dma_fence_close A (dma_dev s))) s))"
  by (intro inv_apply_cbs inv_upd_dma)
    (auto simp: inv_dma intro: close_wf [OF prod.collapse [symmetric]])

lemma close_inv: "sync_inv s \<Longrightarrow> sync_inv (snd (cam_sync_close A s))"
  by (simp add: cam_sync_close_def Let_def split_beta dma_close_inv close_signal_loop_inv
      close_destroy_loop_inv flush_workqueue_eq)

lemma bind_inv:
  assumes "cam_sync_component_bind b seq x = (rc, Some s)"
  shows "sync_inv s"
proof -
  from assms obtain rc' d where d: "cam_dma_fence_driver_init (bnd_dma_alloc b) seq x = (rc', Some d)"
    and s: "sync_table s = (\<lambda>_. zero_row)" "sync_bitmap s = set_bit_at 0 (\<lambda>_. False)" "dma_dev s = d"
    by (auto simp: cam_sync_component_bind_def split: if_splits option.splits prod.splits)
  have "kids (\<lambda>_. zero_row) p = {}" for p by (simp add: kids_def)
  then have "tbl_wf (\<lambda>_. zero_row)" by (auto simp: tbl_wf_def row_ok_def)
  with s driver_init_wf [OF d] show ?thesis
    by (simp add: sync_inv_def bits_ok_def settled_def row_settled_def)
qed

subsection \<open>Steps and reachable states\<close>

text \<open>
  The kernel-facing operations take any arguments. In the ioctl step the other threads do nothing
  during a wait: what they do are steps of their own, before or after it. \<open>run_work\<close> is the kernel
  running the first work item of the queue.
\<close>

inductive sync_step :: "'x dma_fence_core \<Rightarrow> 'x sync_device \<Rightarrow> 'x sync_device \<Rightarrow> bool"
  for A :: "'x dma_fence_core" where
  step_create: "cam_sync_create A name s = (rc, r, s') \<Longrightarrow> sync_step A s s'"
| step_register: "cam_sync_register_callback ok f d so s = (rc, s') \<Longrightarrow> sync_step A s s'"
| step_deregister: "cam_sync_deregister_callback f' d so s = (rc, s') \<Longrightarrow> sync_step A s s'"
| step_signal: "cam_sync_signal A so st cause s = (rc, s') \<Longrightarrow> sync_step A s s'"
| step_synx_signal: "cam_synx_sync_signal A a b c so st s = (rc, s') \<Longrightarrow> sync_step A s s'"
| step_merge: "cam_sync_merge alloc objs s = (rc, r, s') \<Longrightarrow> sync_step A s s'"
| step_get_ref: "cam_sync_get_obj_ref so s = (rc, s') \<Longrightarrow> sync_step A s s'"
| step_put_ref: "cam_sync_put_obj_ref so s = (rc, s') \<Longrightarrow> sync_step A s s'"
| step_destroy: "cam_sync_destroy A so s = (rc, s') \<Longrightarrow> sync_step A s s'"
| step_fence_cb: "cam_sync_dma_fence_cb so fd st s = (rc, s') \<Longrightarrow> sync_step A s s'"
| step_ioctl: "cam_sync_dev_ioctl A e um pc arg s = (rc, out, s') \<Longrightarrow> env_others e s = s \<Longrightarrow>
    sync_step A s s'"
| step_open: "cam_sync_open rc0 s = (rc, s') \<Longrightarrow> sync_step A s s'"
| step_close: "cam_sync_close A s = (rc, s') \<Longrightarrow> sync_step A s s'"
| step_subscribe: "cam_sync_subscribe_event rc0 ty s = (rc, s') \<Longrightarrow> sync_step A s s'"
| step_work: "work_queue s = cb # q \<Longrightarrow>
    sync_step A s (cam_sync_util_cb_dispatch cb (s\<lparr>work_queue := q\<rparr>))"
| step_debugfs: "sync_step A s (s\<lparr>trigger_cb_without_switch := b'\<rparr>)"

inductive sync_reachable :: "'x dma_fence_core \<Rightarrow> 'x sync_device \<Rightarrow> bool" for A where
  reach_bind: "cam_sync_component_bind b seq x = (rc, Some s) \<Longrightarrow> sync_reachable A s"
| reach_step: "sync_reachable A s \<Longrightarrow> sync_step A s s' \<Longrightarrow> sync_reachable A s'"

lemma inv_snd: "sync_inv (snd p) \<Longrightarrow> p = (rc, s') \<Longrightarrow> sync_inv s'" by simp
lemma inv_snd2: "sync_inv (snd (snd p)) \<Longrightarrow> p = (rc, r, s') \<Longrightarrow> sync_inv s'" by simp

lemma sync_step_inv: "sync_step A s s' \<Longrightarrow> sync_inv s \<Longrightarrow> sync_inv s'"
proof (induction rule: sync_step.induct)
  case (step_create name s rc r s')
  then show ?case using create_util_inv' by (auto simp: cam_sync_create_def)
next
  case (step_synx_signal a b c so st s rc s')
  then show ?case by (auto simp: cam_synx_sync_signal_def Let_def intro: inv_snd [OF signal_inv])
next
  case (step_fence_cb so fd st s rc s')
  then show ?case using dma_fence_cb_good [of "{}" s so fd st] dma_fence_cb_simps(2) [of so fd st s]
    by (simp add: sync_inv_good)
next
  case (step_ioctl e um pc arg s rc out s')
  with dev_ioctl_inv [of s e A um pc arg] show ?case by simp
next
  case (step_subscribe rc0 ty s rc s')
  then show ?case by (auto simp: cam_sync_subscribe_event_def split: if_splits)
next
  case (step_work s cb q)
  then show ?case by (simp add: cam_sync_util_cb_dispatch_def)
qed (auto intro: inv_snd [OF register_callback_inv] inv_snd [OF deregister_callback_inv]
    inv_snd [OF signal_inv] merge_inv inv_snd [OF get_obj_ref_inv] inv_snd [OF put_obj_ref_inv]
    inv_snd [OF destroy_inv] inv_snd [OF open_inv] inv_snd [OF close_inv])

lemma sync_reachable_inv: "sync_reachable A s \<Longrightarrow> sync_inv s"
  by (induction rule: sync_reachable.induct) (auto intro: bind_inv sync_step_inv)

end
