(* ===== verification/Cam_Sync_Demo.thy ===== *)
theory Cam_Sync_Demo
  imports Cam_Sync_Reach
begin

section \<open>Concrete sync devices\<close>

text \<open>
  Devices on which the properties of the sync driver are evaluated, built with the operations of the
  model from a successful bind over the concrete fence core \<^const>\<open>simple_core\<close>: \<open>demo_sync0\<close> is bound
  and open, \<open>demo_sync1\<close> has the object 1 and \<open>demo_sync2\<close> the objects 1 and 2, in \<open>demo_sync3\<close> they are
  merged into 3, and in \<open>demo_sync4\<close> each of them has one reference and the group has a callback.
\<close>

definition demo_bind :: bind_results where
  "demo_bind = \<lparr>bnd_alloc = True, bnd_vdev_alloc = True, bnd_media_rc = 0, bnd_v4l2_rc = 0,
     bnd_video_rc = 0, bnd_workq = True, bnd_dma_alloc = True, bnd_synx_rc = None\<rparr>"

definition demo_bound :: "simple_core_state sync_device" where
  "demo_bound = the (snd (cam_sync_component_bind demo_bind 0 simple_state))"

definition demo_sync0 :: "simple_core_state sync_device" where
  "demo_sync0 = snd (cam_sync_open 0 demo_bound)"

definition demo_sync1 :: "simple_core_state sync_device" where
  "demo_sync1 = snd (snd (cam_sync_create simple_core ''a'' demo_sync0))"

definition demo_sync2 :: "simple_core_state sync_device" where
  "demo_sync2 = snd (snd (cam_sync_create simple_core ''b'' demo_sync1))"

definition demo_sync3 :: "simple_core_state sync_device" where
  "demo_sync3 = snd (snd (cam_sync_merge (\<lambda>_. True) (Some [1, 2]) demo_sync2))"

definition demo_sync4 :: "simple_core_state sync_device" where
  "demo_sync4 = snd (cam_sync_register_callback True (Some 7) 9 3
     (snd (cam_sync_get_obj_ref 2 (snd (cam_sync_get_obj_ref 1 demo_sync3)))))"

definition demo_row :: "int \<Rightarrow> string \<Rightarrow> sync_table_row" where
  "demo_row i name = zero_row\<lparr>row_name := name, row_sync_id := i, row_state := CAM_SYNC_STATE_ACTIVE\<rparr>"

definition demo_group :: sync_table_row where
  "demo_group = zero_row\<lparr>row_name := ''merged_fence'', row_type := SYNC_TYPE_GROUP, row_sync_id := 3,
     row_state := CAM_SYNC_STATE_ACTIVE, remaining := 2, children_list := [1, 2]\<rparr>"

lemma demo_row_simps [simp]:
  "row_state (demo_row i n) = CAM_SYNC_STATE_ACTIVE" "row_type (demo_row i n) = SYNC_TYPE_INDV"
  "parents_list (demo_row i n) = []" "children_list (demo_row i n) = []" "remaining (demo_row i n) = 0"
  "row_sync_id (demo_row i n) = i" "callback_list (demo_row i n) = []"
  "user_payload_list (demo_row i n) = []" "signaled (demo_row i n) = False" "ref_cnt (demo_row i n) = 0"
  "ext_fence_mask (demo_row i n) = 0" "live (demo_row i n)"
  by (simp_all add: demo_row_def zero_row_def live_def)

lemma demo_group_simps [simp]:
  "row_state demo_group = CAM_SYNC_STATE_ACTIVE" "row_type demo_group = SYNC_TYPE_GROUP"
  "parents_list demo_group = []" "children_list demo_group = [1, 2]" "remaining demo_group = 2"
  "callback_list demo_group = []" "user_payload_list demo_group = []" "signaled demo_group = False"
  "ref_cnt demo_group = 0" "ext_fence_mask demo_group = 0" "live demo_group" "row_sync_id demo_group = 3"
  by (simp_all add: demo_group_def zero_row_def live_def)

lemma demo_bound_bind: "cam_sync_component_bind demo_bind 0 simple_state = (0, Some demo_bound)"
  by (simp add: demo_bound_def demo_bind_def cam_sync_component_bind_def cam_dma_fence_driver_init_def)

lemma demo_sync0_simps [simp]:
  "sync_table demo_sync0 = (\<lambda>_. zero_row)" "sync_bitmap demo_sync0 = set_bit_at 0 (\<lambda>_. False)"
  "open_cnt demo_sync0 = 1" "work_queue demo_sync0 = []" "cam_sync_eventq demo_sync0"
  "cb_trace demo_sync0 = []" "vdev_events demo_sync0 = []" "sync_version demo_sync0 = 0"
  "\<not> trigger_cb_without_switch demo_sync0" "dma_dev demo_sync0 = demo_dma"
  by (simp_all add: demo_sync0_def demo_bound_def demo_bind_def cam_sync_component_bind_def
      cam_dma_fence_driver_init_def cam_sync_open_def cam_dma_fence_open_def demo_dma_def)

lemma demo_free:
  "find_first_zero_bit (set_bit_at 0 (\<lambda>_. False)) CAM_SYNC_MAX_OBJS = 1"
  "find_first_zero_bit (set_bit_at 1 (set_bit_at 0 (\<lambda>_. False))) CAM_SYNC_MAX_OBJS = 2"
  "find_first_zero_bit (set_bit_at 2 (set_bit_at 1 (set_bit_at 0 (\<lambda>_. False)))) CAM_SYNC_MAX_OBJS = 3"
  by (rule find_first_zero_bit_unique; auto)+

lemma demo_sync1_eq:
  "cam_sync_create simple_core ''a'' demo_sync0 = (0, Some 1, demo_sync1)"
  "demo_sync1 = demo_sync0\<lparr>sync_table := (\<lambda>_. zero_row)(1 := demo_row 1 ''a''),
     sync_bitmap := set_bit_at 1 (set_bit_at 0 (\<lambda>_. False))\<rparr>"
  by (simp_all add: demo_sync1_def cam_sync_create_def cam_sync_create_util_def demo_free Let_def
      cam_sync_init_row_def upd_row_def demo_row_def zero_row_def)

lemma demo_sync2_eq:
  "cam_sync_create simple_core ''b'' demo_sync1 = (0, Some 2, demo_sync2)"
  "demo_sync2 = demo_sync0\<lparr>sync_table := (\<lambda>_. zero_row)(1 := demo_row 1 ''a'', 2 := demo_row 2 ''b''),
     sync_bitmap := set_bit_at 2 (set_bit_at 1 (set_bit_at 0 (\<lambda>_. False)))\<rparr>"
  by (simp_all add: demo_sync2_def demo_sync1_eq(2) cam_sync_create_def cam_sync_create_util_def
      demo_free Let_def cam_sync_init_row_def upd_row_def demo_row_def zero_row_def)

lemma demo_sync3_eq:
  "cam_sync_merge (\<lambda>_. True) (Some [1, 2]) demo_sync2 = (0, Some 3, demo_sync3)"
  "demo_sync3 = demo_sync0\<lparr>sync_table := (\<lambda>_. zero_row)(1 := (demo_row 1 ''a'')\<lparr>parents_list := [3]\<rparr>,
       3 := demo_group, 2 := (demo_row 2 ''b'')\<lparr>parents_list := [3]\<rparr>),
     sync_bitmap := set_bit_at 3 (set_bit_at 2 (set_bit_at 1 (set_bit_at 0 (\<lambda>_. False))))\<rparr>"
  by (simp_all add: demo_sync3_def demo_sync2_eq(2) cam_sync_merge_def numeral_eq_Suc
      cam_common_util_remove_duplicate_arr_def cam_sync_check_valid_def demo_free Let_def
      cam_sync_init_group_object_def cam_sync_init_row_def upd_row_def demo_group_def)

lemma demo_sync4_eq:
  "demo_sync4 = demo_sync3\<lparr>sync_table := (\<lambda>_. zero_row)(
       1 := (demo_row 1 ''a'')\<lparr>parents_list := [3], ref_cnt := 1\<rparr>,
       2 := (demo_row 2 ''b'')\<lparr>parents_list := [3], ref_cnt := 1\<rparr>,
       3 := demo_group\<lparr>callback_list :=
         [\<lparr>cbi_func = 7, cbi_data = 9, cbi_status = 0, cbi_sync_obj = 3\<rparr>]\<rparr>)\<rparr>"
  by (simp add: demo_sync4_def demo_sync3_eq(2) cam_sync_register_callback_def Let_def
      cam_sync_get_obj_ref_def upd_row_def sync_signaled_state_def fun_upd_twist)

lemma demo_reachable:
  shows "sync_reachable simple_core demo_sync0" and "sync_reachable simple_core demo_sync1"
    and "sync_reachable simple_core demo_sync2" and "sync_reachable simple_core demo_sync3"
    and "sync_reachable simple_core demo_sync4"
proof -
  show 0: "sync_reachable simple_core demo_sync0"
    unfolding demo_sync0_def using demo_bound_bind
    by (blast intro: reach_step reach_bind step_open prod.collapse [symmetric])
  show 1: "sync_reachable simple_core demo_sync1"
    using 0 demo_sync1_eq(1) by (blast intro: reach_step step_create)
  show 2: "sync_reachable simple_core demo_sync2"
    using 1 demo_sync2_eq(1) by (blast intro: reach_step step_create)
  show 3: "sync_reachable simple_core demo_sync3"
    using 2 demo_sync3_eq(1) by (blast intro: reach_step step_merge)
  show "sync_reachable simple_core demo_sync4"
    unfolding demo_sync4_def using 3
    by (blast intro: reach_step step_get_ref step_register prod.collapse [symmetric])
qed

lemmas demo_inv [simp] = demo_reachable [THEN sync_reachable_inv]

end
