(* ===== verification/Cam_Sync_Props.thy ===== *)
theory Cam_Sync_Props
  imports Cam_Sync_Demo
begin

section \<open>Properties of the sync objects\<close>

text \<open>
  The behaviour of the operations on sync objects as their clients see it: what a signal does to the
  object, to its callbacks and to the merged objects that wait for it, what creating, merging and
  destroying do to the table, when a callback runs, and what a wait and a close guarantee.
\<close>

subsection \<open>What a signal queues\<close>

text \<open>The callbacks that the completion of the parents queues, in the order of the list of parents.\<close>

definition parent_cbs ::
  "int \<Rightarrow> (int \<Rightarrow> sync_table_row) \<Rightarrow> int list \<Rightarrow> sync_callback_info list" where
  "parent_cbs st T ps = concat (map (\<lambda>p. if remaining (T p) = 1
     then map (\<lambda>cb. cb\<lparr>cbi_status := absorb st (row_state (T p))\<rparr>) (callback_list (T p)) else []) ps)"

lemma parent_cbs_cong:
  "(\<And>p. p \<in> set ps \<Longrightarrow> T' p = T p) \<Longrightarrow> parent_cbs st T' ps = parent_cbs st T ps"
  unfolding parent_cbs_def by (intro arg_cong [where f = concat] map_cong refl) simp

lemma own_parent_cbs:
  assumes "tbl_wf T" and "\<And>p. p \<noteq> c \<Longrightarrow> T' p = T p"
  shows "parent_cbs st T' (parents_list (T c)) = parent_cbs st T (parents_list (T c))"
  using parents_group [OF assms(1)] assms(2) by (intro parent_cbs_cong) blast

lemma signal_parent_queue:
  assumes "distinct ps" "\<And>p. p \<in> set ps \<Longrightarrow>
      row_state (sync_table s p) = CAM_SYNC_STATE_ACTIVE \<or> sync_signaled_state (row_state (sync_table s p))"
    and "sync_signaled_state st"
  shows "work_queue (cam_sync_signal_parent_util st cause ps s) =
         work_queue s @ parent_cbs st (sync_table s) ps"
  using assms
proof (induction ps arbitrary: s)
  case (Cons p ps)
  let ?r = "sync_table s p"
  let ?r1 = "?r\<lparr>remaining := remaining ?r - 1, row_state := absorb st (row_state ?r)\<rparr>"
  define s2 where "s2 = upd_row p (\<lambda>_. ?r1) s"
  define s3 where "s3 = (if remaining ?r = 1
      then cam_sync_util_dispatch_signaled_cb p (row_state ?r1) cause s2 else s2)"
  have up: "cam_sync_util_update_parent_state st (?r\<lparr>remaining := remaining ?r - 1\<rparr>) = (0, ?r1)"
    using Cons.prems(2) [of p] Cons.prems(3)
    by (auto simp: cam_sync_util_update_parent_state_def absorb_def sync_signaled_state_def)
  have eq: "cam_sync_signal_parent_util st cause (p # ps) s = cam_sync_signal_parent_util st cause ps s3"
    by (simp add: Let_def up s3_def s2_def upd_row_def)
  have lv: "row_state ?r1 \<noteq> CAM_SYNC_STATE_INVALID"
    using Cons.prems(2) [of p] Cons.prems(3) by (auto simp: absorb_def sync_signaled_state_def)
  have tb: "i \<noteq> p \<Longrightarrow> sync_table s3 i = sync_table s i" for i by (simp add: s3_def s2_def)
  have "work_queue s3 = work_queue s @ parent_cbs st (sync_table s) [p]"
    using lv by (simp add: s3_def s2_def dispatch_eq parent_cbs_def Let_def)
  moreover have "work_queue (cam_sync_signal_parent_util st cause ps s3) =
      work_queue s3 @ parent_cbs st (sync_table s3) ps"
  proof (rule Cons.IH)
    fix q
    assume q: "q \<in> set ps"
    then have "sync_table s3 q = sync_table s q" using Cons.prems(1) by (intro tb) auto
    then show "row_state (sync_table s3 q) = CAM_SYNC_STATE_ACTIVE \<or>
        sync_signaled_state (row_state (sync_table s3 q))"
      using Cons.prems(2) [of q] q by simp
  qed (use Cons.prems in auto)
  moreover have "parent_cbs st (sync_table s3) ps = parent_cbs st (sync_table s) ps"
    using Cons.prems(1) by (intro parent_cbs_cong) (subst tb, auto)
  ultimately show ?case by (simp add: eq del: cam_sync_signal_parent_util.simps) (simp add: parent_cbs_def)
qed (simp add: parent_cbs_def)

lemma dispatch_and_signal_queue:
  assumes wf: "tbl_wf (sync_table s)" and c: "is_indv (sync_table s c)" and st: "sync_signaled_state st"
  shows "work_queue (dispatch_and_signal_parents c st cause s) =
     work_queue s @ map (\<lambda>cb. cb\<lparr>cbi_status := st\<rparr>) (callback_list (sync_table s c)) @
     parent_cbs st (sync_table s) (parents_list (sync_table s c))"
proof -
  let ?ps = "parents_list (sync_table s c)"
  let ?s1 = "upd_row c (\<lambda>r. r\<lparr>parents_list := []\<rparr>) (cam_sync_util_dispatch_signaled_cb c st cause s)"
  have d: "distinct ?ps" "c \<notin> set ?ps"
    using row_okD(8) [OF tbl_wfD(1) [OF wf]] parents_group [OF wf] by blast+
  have ps: "row_state (sync_table s p) = CAM_SYNC_STATE_ACTIVE \<or> sync_signaled_state (row_state (sync_table s p))"
    if "p \<in> set ?ps" for p
    using parents_group [OF wf that] row_ok_state [OF tbl_wfD(1) [OF wf]] by (auto simp: is_group_def)
  have tb: "sync_table ?s1 p = sync_table s p" if "p \<in> set ?ps" for p using that d by auto
  have "parent_cbs st (sync_table ?s1) ?ps = parent_cbs st (sync_table s) ?ps"
    using tb by (rule parent_cbs_cong)
  moreover have "work_queue ?s1 = work_queue s @ map (\<lambda>cb. cb\<lparr>cbi_status := st\<rparr>) (callback_list (sync_table s c))"
    using c by (simp add: dispatch_eq Let_def is_indv_def live_def)
  moreover have "work_queue (cam_sync_signal_parent_util st cause ?ps ?s1) =
      work_queue ?s1 @ parent_cbs st (sync_table ?s1) ?ps"
    using ps tb by (intro signal_parent_queue d st) auto
  moreover have "dispatch_and_signal_parents c st cause s = cam_sync_signal_parent_util st cause ?ps ?s1"
    by (simp add: dispatch_and_signal_parents_def Let_def)
  ultimately show ?thesis by simp
qed

text \<open>A successful signal of an object without a dma fence, in full.\<close>

definition plain :: "sync_table_row \<Rightarrow> bool" where
  "plain r \<longleftrightarrow> \<not> bit (ext_fence_mask r) CAM_GENERIC_FENCE_TYPE_DMA_FENCE"

lemma signal_plain:
  assumes inv: "sync_inv s" and v: "cam_sync_signal_validate_util so st s = 0"
    and "plain (sync_table s so)" and "ref_cnt (sync_table s so) = 1"
    and run: "cam_sync_signal A so st cause s = (rc, s')"
  shows "rc = 0"
    and "sync_table s' = signal_table (cam_sync_eventq s) so st
           ((sync_table s)(so := (sync_table s so)\<lparr>ref_cnt := 0, row_state := st\<rparr>))"
    and "work_queue s' = work_queue s @
           map (\<lambda>cb. cb\<lparr>cbi_status := st\<rparr>) (callback_list (sync_table s so)) @
           parent_cbs st (sync_table s) (parents_list (sync_table s so))"
    and "sync_bitmap s' = sync_bitmap s" and "dma_dev s' = dma_dev s"
    and "cam_sync_eventq s' = cam_sync_eventq s"
proof -
  from v have so: "is_indv (sync_table s so)" "sync_signaled_state st" by (auto simp: validate_zero)
  have wf: "tbl_wf (sync_table s)" using inv by (simp add: sync_inv_def)
  have rng: "0 < so" "so < CAM_SYNC_MAX_OBJS"
    using row_okD(1,2) [OF tbl_wfD(1) [OF wf]] so by (auto simp: is_indv_def)
  define m where "m = signal_mid A so st s"
  have m: "m = upd_row so (\<lambda>r. r\<lparr>ref_cnt := 0, row_state := st\<rparr>) s"
    using assms(3,4) by (simp add: m_def signal_mid_def Let_def plain_def upd_row_def)
  have g: "good {so} m" unfolding m_def
    using signal_mid_good(1) inv so by (auto simp: sync_inv_good)
  then have wfm: "tbl_wf (sync_table m)" by (simp add: good_def)
  have eq: "s' = dispatch_and_signal_parents so st cause m" "rc = 0"
    using run v assms(4) rng by (auto simp: signal_cases m_def)
  then show "rc = 0" "sync_bitmap s' = sync_bitmap s" "dma_dev s' = dma_dev s"
    "cam_sync_eventq s' = cam_sync_eventq s" by (simp_all add: m)
  show "sync_table s' = signal_table (cam_sync_eventq s) so st
           ((sync_table s)(so := (sync_table s so)\<lparr>ref_cnt := 0, row_state := st\<rparr>))"
    by (simp add: eq dispatch_and_signal_parents_table [OF wfm]) (simp add: m)
  have "is_indv (sync_table m so)" using so by (auto simp: m is_indv_def live_def sync_signaled_state_def)
  note q = dispatch_and_signal_queue [OF wfm this so(2), of cause]
  have "parent_cbs st (sync_table m) (parents_list (sync_table s so)) =
      parent_cbs st (sync_table s) (parents_list (sync_table s so))"
    by (rule own_parent_cbs [OF wf]) (simp add: m)
  with q show "work_queue s' = work_queue s @
           map (\<lambda>cb. cb\<lparr>cbi_status := st\<rparr>) (callback_list (sync_table s so)) @
           parent_cbs st (sync_table s) (parents_list (sync_table s so))"
    by (simp add: eq) (simp add: m)
qed

subsection \<open>Merged objects as an abstract specification\<close>

text \<open>
  What a merged object promises, without links, counters or completions: the set of the objects
  that still have to report, and a verdict. A report removes its object from the set; the verdict is
  overridden as long as it is not a failure. \<open>group_view\<close> reads this off the table.
\<close>

type_synonym group_spec = "int set \<times> int"

definition report :: "int \<Rightarrow> int \<Rightarrow> group_spec \<Rightarrow> group_spec" where
  "report c st g = (if c \<in> fst g then (fst g - {c}, absorb st (snd g)) else g)"

definition group_view :: "int \<Rightarrow> 'x sync_device \<Rightarrow> group_spec" where
  "group_view g s = (kids (sync_table s) g, row_state (sync_table s g))"

text \<open>The verdict of a sequence of reports: the first failure, else success.\<close>

definition first_failure :: "int list \<Rightarrow> int" where
  "first_failure sts = (case filter failed_state sts of [] \<Rightarrow> CAM_SYNC_STATE_SIGNALED_SUCCESS | st # _ \<Rightarrow> st)"

lemma absorb_simps [simp]:
  "absorb st CAM_SYNC_STATE_ACTIVE = st" "absorb st CAM_SYNC_STATE_SIGNALED_SUCCESS = st"
  by (simp_all add: absorb_def)

lemma fold_absorb_failed: "failed_state st \<Longrightarrow> fold absorb sts st = st"
  by (induction sts) (auto simp: absorb_def failed_state_def)

lemma fold_absorb_success:
  "\<forall>x \<in> set sts. sync_signaled_state x \<Longrightarrow>
   fold absorb sts CAM_SYNC_STATE_SIGNALED_SUCCESS = first_failure sts"
proof (induction sts)
  case (Cons x sts)
  show ?case
  proof (cases "failed_state x")
    case True
    then show ?thesis using fold_absorb_failed [OF True] by (simp add: first_failure_def)
  next
    case False
    then have "x = CAM_SYNC_STATE_SIGNALED_SUCCESS"
      using Cons.prems by (auto simp: failed_state_def sync_signaled_state_def)
    with Cons False show ?thesis by (simp add: first_failure_def)
  qed
qed (simp add: first_failure_def)

lemma fold_absorb_active:
  assumes "sts \<noteq> []" "\<forall>x \<in> set sts. sync_signaled_state x"
  shows "fold absorb sts CAM_SYNC_STATE_ACTIVE = first_failure sts"
proof -
  obtain x xs where sts: "sts = x # xs" using assms(1) by (cases sts) auto
  have "fold absorb sts CAM_SYNC_STATE_ACTIVE = fold absorb sts CAM_SYNC_STATE_SIGNALED_SUCCESS"
    by (simp add: sts)
  with fold_absorb_success [OF assms(2)] show ?thesis by simp
qed

text \<open>Ready to be signalled by one call: active, one reference, no dma fence.\<close>

definition ready :: "sync_table_row \<Rightarrow> bool" where
  "ready r \<longleftrightarrow> is_indv r \<and> row_state r = CAM_SYNC_STATE_ACTIVE \<and> ref_cnt r = 1 \<and> plain r"

text \<open>One report, concretely.\<close>

lemma signal_report:
  assumes inv: "sync_inv s" and c: "ready (sync_table s c)" and st: "sync_signaled_state st"
    and run: "cam_sync_signal A c st cause s = (rc, s')"
  shows "rc = 0" and "sync_inv s'"
    and "kids (sync_table s') p = kids (sync_table s) p - {c}"
    and "p \<noteq> c \<Longrightarrow> sync_table s' p = (if c \<in> kids (sync_table s) p
           then parent_step (cam_sync_eventq s) st (sync_table s p) else sync_table s p)"
    and "row_state (sync_table s' c) = st" and "signaled (sync_table s' c)"
    and "callback_list (sync_table s' c) = []" and "parents_list (sync_table s' c) = []"
proof -
  have v: "cam_sync_signal_validate_util c st s = 0"
    using c st by (simp add: validate_zero ready_def)
  note sp = signal_plain [OF inv v _ _ run]
  have pl: "plain (sync_table s c)" "ref_cnt (sync_table s c) = 1" using c by (auto simp: ready_def)
  note sp = sp [OF this]
  have wf: "tbl_wf (sync_table s)" using inv by (simp add: sync_inv_def)
  have cp: "c \<notin> set (parents_list (sync_table s c))" using parents_group [OF wf] by blast
  show "rc = 0" by (rule sp(1))
  show "sync_inv s'" using signal_inv [OF inv, of A c st cause] run by simp
  show "p \<noteq> c \<Longrightarrow> sync_table s' p = (if c \<in> kids (sync_table s) p
           then parent_step (cam_sync_eventq s) st (sync_table s p) else sync_table s p)"
    by (simp add: sp(2) signal_table_def kids_def)
  show "kids (sync_table s') p = kids (sync_table s) p - {c}"
    by (auto simp: sp(2) signal_table_def kids_def)
  show "row_state (sync_table s' c) = st" "signaled (sync_table s' c)"
    "callback_list (sync_table s' c) = []" "parents_list (sync_table s' c) = []"
    using st by (auto simp: sp(2) signal_table_def dispatched_def live_def sync_signaled_state_def)
qed

lemma kids_not_group: "tbl_wf T \<Longrightarrow> is_group (T g) \<Longrightarrow> is_indv (T c) \<Longrightarrow> g \<noteq> c"
  by (auto simp: is_group_def is_indv_def)

lemma parent_step_group:
  assumes "row_ok g r" "is_group r" "sync_signaled_state st"
  shows "is_group (parent_step evq st r)"
proof -
  have "live r" using assms(2) by (simp add: is_group_def)
  from row_ok_state [OF assms(1) this] assms(3) have "live (parent_step evq st r)"
    by (intro signaled_state_live [THEN conjunct1]) (simp add: parent_step_state absorb_signaled)
  then show ?thesis using assms(2) by (simp add: is_group_def)
qed

lemma signal_keeps_group:
  assumes "sync_inv s" "ready (sync_table s c)" "sync_signaled_state st" "is_group (sync_table s g)"
    and run: "cam_sync_signal A c st cause s = (rc, s')"
  shows "is_group (sync_table s' g)"
proof -
  have wf: "tbl_wf (sync_table s)" using assms(1) by (simp add: sync_inv_def)
  have "g \<noteq> c" using assms(2,4) by (auto simp: ready_def is_group_def is_indv_def)
  then show ?thesis
    using signal_report(4) [OF assms(1-3) run] parent_step_group [OF tbl_wfD(1) [OF wf]] assms(3,4) by simp
qed

lemma signal_keeps_indv:
  assumes "sync_inv s" "ready (sync_table s c)" "sync_signaled_state st" "is_indv (sync_table s d)" "d \<noteq> c"
    and run: "cam_sync_signal A c st cause s = (rc, s')"
  shows "sync_table s' d = sync_table s d"
proof -
  have wf: "tbl_wf (sync_table s)" using assms(1) by (simp add: sync_inv_def)
  have "c \<notin> kids (sync_table s) d"
    using tbl_wfD(2) [OF wf, of c d] assms(4) by (auto simp: is_indv_def)
  then show ?thesis using signal_report(4) [OF assms(1-3) run] assms(5) by simp
qed

lemma group_signaled:
  assumes "sync_inv s" "is_group (sync_table s g)"
  shows "signaled (sync_table s g) \<longleftrightarrow> remaining (sync_table s g) = 0"
  using assms by (auto simp: sync_inv_def settled_def row_settled_def is_group_def)

text \<open>A sequence of signals, one call after the other.\<close>

fun run_signals ::
  "'x dma_fence_core \<Rightarrow> int \<Rightarrow> (int \<times> int) list \<Rightarrow> 'x sync_device \<Rightarrow> 'x sync_device" where
  "run_signals A cause [] s = s"
| "run_signals A cause ((c, st) # xs) s = run_signals A cause xs (snd (cam_sync_signal A c st cause s))"

lemma run_signals_group:
  assumes "sync_inv s" "is_group (sync_table s g)" "distinct (map fst xs)"
    and "\<And>c st. (c, st) \<in> set xs \<Longrightarrow> ready (sync_table s c) \<and> sync_signaled_state st"
    and "set (map fst xs) \<subseteq> kids (sync_table s) g"
  shows "sync_inv (run_signals A cause xs s) \<and> is_group (sync_table (run_signals A cause xs s) g) \<and>
     row_state (sync_table (run_signals A cause xs s) g) = fold absorb (map snd xs) (row_state (sync_table s g)) \<and>
     remaining (sync_table (run_signals A cause xs s) g) = remaining (sync_table s g) - of_nat (length xs) \<and>
     kids (sync_table (run_signals A cause xs s)) g = kids (sync_table s) g - set (map fst xs)"
  using assms
proof (induction xs arbitrary: s)
  case (Cons x xs)
  obtain c st where x: "x = (c, st)" by fastforce
  obtain rc s1 where run: "cam_sync_signal A c st cause s = (rc, s1)" by fastforce
  have c: "ready (sync_table s c)" "sync_signaled_state st" using Cons.prems(4) [of c st] x by auto
  have ck: "c \<in> kids (sync_table s) g" using Cons.prems(5) x by auto
  have gc: "g \<noteq> c" using Cons.prems(2) c by (auto simp: ready_def is_group_def is_indv_def)
  note rep = signal_report [OF Cons.prems(1) c run]
  have grp: "is_group (sync_table s1 g)" by (rule signal_keeps_group [OF Cons.prems(1) c Cons.prems(2) run])
  have rdy: "ready (sync_table s1 d) \<and> sync_signaled_state std" if "(d, std) \<in> set xs" for d std
  proof -
    have "d \<noteq> c" using that Cons.prems(3) x by (auto simp: image_iff)
    moreover have "ready (sync_table s d)" "sync_signaled_state std" using that Cons.prems(4) x by auto
    ultimately show ?thesis
      using signal_keeps_indv [OF Cons.prems(1) c _ _ run, of d] by (simp add: ready_def)
  qed
  have sub: "set (map fst xs) \<subseteq> kids (sync_table s1) g"
    using Cons.prems(3,5) x by (auto simp: rep(3))
  have d: "distinct (map fst xs)" using Cons.prems(3) by simp
  have g1: "sync_table s1 g = parent_step (cam_sync_eventq s) st (sync_table s g)"
    using rep(4) [OF gc] ck by simp
  show ?case
    using Cons.IH [OF rep(2) grp d rdy sub]
    by (auto simp: x run g1 parent_step_state rep(3) algebra_simps)
qed simp

lemma demo4_rows:
  "ready (sync_table demo_sync4 1)" "ready (sync_table demo_sync4 2)" "is_group (sync_table demo_sync4 3)"
  "row_state (sync_table demo_sync4 3) = CAM_SYNC_STATE_ACTIVE" "remaining (sync_table demo_sync4 3) = 2"
  "parents_list (sync_table demo_sync4 1) = [3]" "kids (sync_table demo_sync4) 3 = {1, 2}"
  "\<not> signaled (sync_table demo_sync4 3)"
  by (auto simp: demo_sync4_eq ready_def plain_def is_indv_def is_group_def live_def kids_def split: if_splits)

subsection \<open>The invariant\<close>

text \<open>C2: in every state the sync device can reach, from a successful bind by any sequence of kernel calls,
  ioctls, fence callbacks, opens and closes, the table is consistent: a set bit is a live object and
  conversely, the id of a live object is its index, a parent link leads to a live merged object that
  lists the child, an individual object is completed exactly when it left the active state, and a
  merged one exactly when no child has to report any more.\<close>

theorem sync_device_invariant:
  assumes "sync_reachable A s"
  shows "dma_wf (dma_dev s) \<and> sync_bitmap s 0 \<and>
     (\<forall>i. 0 < i \<and> i < CAM_SYNC_MAX_OBJS \<longrightarrow>
        (sync_bitmap s i \<longleftrightarrow> row_state (sync_table s i) \<noteq> CAM_SYNC_STATE_INVALID)) \<and>
     (\<forall>i. row_state (sync_table s i) \<noteq> CAM_SYNC_STATE_INVALID \<longrightarrow>
        0 < i \<and> i < CAM_SYNC_MAX_OBJS \<and> row_sync_id (sync_table s i) = i) \<and>
     (\<forall>p c. p \<in> set (parents_list (sync_table s c)) \<longrightarrow>
        is_indv (sync_table s c) \<and> is_group (sync_table s p) \<and> c \<in> set (children_list (sync_table s p))) \<and>
     (\<forall>i. is_indv (sync_table s i) \<longrightarrow>
        signaled (sync_table s i) = (row_state (sync_table s i) \<noteq> CAM_SYNC_STATE_ACTIVE)) \<and>
     (\<forall>i. is_group (sync_table s i) \<longrightarrow>
        signaled (sync_table s i) = (remaining (sync_table s i) = 0))"
proof -
  have inv: "sync_inv s" using sync_reachable_inv [OF assms] .
  then have wf: "tbl_wf (sync_table s)" and b: "bits_ok (sync_table s) (sync_bitmap s)"
    and se: "settled {} (sync_table s)" and "dma_wf (dma_dev s)" by (auto simp: sync_inv_def)
  moreover have "\<forall>i. row_state (sync_table s i) \<noteq> CAM_SYNC_STATE_INVALID \<longrightarrow>
        0 < i \<and> i < CAM_SYNC_MAX_OBJS \<and> row_sync_id (sync_table s i) = i"
    using row_okD(1-3) [OF tbl_wfD(1) [OF wf]] by (auto simp: live_def)
  moreover have "\<forall>p c. p \<in> set (parents_list (sync_table s c)) \<longrightarrow>
        is_indv (sync_table s c) \<and> is_group (sync_table s p) \<and> c \<in> set (children_list (sync_table s p))"
    using parents_group [OF wf] tbl_wfD(2) [OF wf] by (auto simp: kids_def)
  moreover have "\<forall>i. is_indv (sync_table s i) \<longrightarrow>
        signaled (sync_table s i) = (row_state (sync_table s i) \<noteq> CAM_SYNC_STATE_ACTIVE)"
    using se by (auto simp: settled_def row_settled_def is_indv_def)
  ultimately show ?thesis
    using group_signaled [OF inv] by (auto simp: bits_ok_def live_def)
qed

theorem sync_device_invariant_witness:
  "sync_reachable simple_core demo_sync4 \<and> is_group (sync_table demo_sync4 3) \<and>
   \<not> signaled (sync_table demo_sync4 3) \<and> sync_bitmap demo_sync4 3"
proof -
  have "row_state (sync_table demo_sync4 3) \<noteq> CAM_SYNC_STATE_INVALID" by (simp add: demo4_rows)
  then show ?thesis
    using sync_device_invariant [OF demo_reachable(5)] demo_reachable(5) demo4_rows by auto
qed



subsection \<open>Signalling\<close>



text \<open>an object is signalled at most once: after a signal that took effect, every further signal, with
  whatever status, is refused with \<open>-EALREADY\<close> and changes nothing.\<close>

theorem signal_at_most_once:
  assumes "sync_inv s" and "ready (sync_table s c)" and "sync_signaled_state st"
    and "cam_sync_signal A c st cause s = (rc, s')"
  shows "cam_sync_signal A c st' cause' s' = (- EALREADY, s')"
proof -
  have wf: "tbl_wf (sync_table s)" using assms(1) by (simp add: sync_inv_def)
  have "live (sync_table s c)" using assms(2) by (simp add: ready_def is_indv_def)
  then have rng: "0 < c" "c < CAM_SYNC_MAX_OBJS" using row_okD(1,2) [OF tbl_wfD(1) [OF wf]] by auto
  have v: "cam_sync_signal_validate_util c st s = 0" "plain (sync_table s c)" "ref_cnt (sync_table s c) = 1"
    using assms(2,3) by (auto simp: validate_zero ready_def)
  have "row_type (sync_table s' c) = SYNC_TYPE_INDV"
    using assms(2) signal_plain(2) [OF assms(1) v assms(4)]
    by (simp add: signal_table_def ready_def is_indv_def)
  then show ?thesis using signal_report(5) [OF assms] assms(3) rng
    by (auto simp: signal_cases cam_sync_signal_validate_util_def sync_signaled_state_def)
qed

theorem signal_at_most_once_witness:
  "let s' = snd (cam_sync_signal simple_core 1 CAM_SYNC_STATE_SIGNALED_SUCCESS 0 demo_sync4)
   in cam_sync_signal simple_core 1 CAM_SYNC_STATE_SIGNALED_ERROR 0 s' = (- EALREADY, s')"
  using signal_at_most_once [OF demo_inv(5) demo4_rows(1) _ prod.collapse [symmetric],
      of CAM_SYNC_STATE_SIGNALED_SUCCESS]
  by (simp add: sync_signaled_state_def Let_def)

text \<open>the error paths of a signal: an index outside the table, a free row, a merged object and a status
  that is not final give \<open>-EINVAL\<close>, an object that was already signalled \<open>-EALREADY\<close>; in each case the
  device is unchanged. A signal that succeeds while other references remain only drops a reference.\<close>

theorem signal_error_paths:
  "cam_sync_signal A so st cause s =
     (if so \<le> 0 \<or> CAM_SYNC_MAX_OBJS \<le> so \<or> \<not> live (sync_table s so) \<or>
         row_type (sync_table s so) = SYNC_TYPE_GROUP then (- EINVAL, s)
      else if row_state (sync_table s so) \<noteq> CAM_SYNC_STATE_ACTIVE then (- EALREADY, s)
      else if \<not> sync_signaled_state st then (- EINVAL, s)
      else if ref_cnt (sync_table s so) \<noteq> 1
      then (0, upd_row so (\<lambda>r. r\<lparr>ref_cnt := ref_cnt r - 1\<rparr>) s)
      else (0, dispatch_and_signal_parents so st cause (signal_mid A so st s)))"
  by (auto simp: signal_cases cam_sync_signal_validate_util_def sync_signaled_state_def live_def Let_def)

theorem signal_error_paths_witness:
  "cam_sync_signal simple_core 3 CAM_SYNC_STATE_SIGNALED_SUCCESS 0 demo_sync4 = (- EINVAL, demo_sync4) \<and>
   cam_sync_signal simple_core 9 CAM_SYNC_STATE_SIGNALED_SUCCESS 0 demo_sync4 = (- EINVAL, demo_sync4)"
  using signal_error_paths [of simple_core 3 CAM_SYNC_STATE_SIGNALED_SUCCESS 0 demo_sync4]
    signal_error_paths [of simple_core 9 CAM_SYNC_STATE_SIGNALED_SUCCESS 0 demo_sync4]
  by (simp add: demo_sync4_eq live_def)

subsection \<open>Merged objects\<close>

text \<open>C19: refinement: seen through \<open>group_view\<close>, a signal of any ready object \<open>c\<close> acts on every merged object
  as the abstract report of \<open>c\<close> does, and the merged object is completed exactly when it was complete
  or this report brought its count to zero.\<close>

theorem signal_refines_report:
  assumes "sync_inv s" and "ready (sync_table s c)" and "sync_signaled_state st"
    and "is_group (sync_table s g)" and "cam_sync_signal A c st cause s = (rc, s')"
  shows "group_view g s' = report c st (group_view g s) \<and>
     (signaled (sync_table s' g) \<longleftrightarrow>
        signaled (sync_table s g) \<or> c \<in> fst (group_view g s) \<and> remaining (sync_table s g) = 1)"
proof -
  note rep = signal_report [OF assms(1-3,5)]
  have gc: "g \<noteq> c" using assms(2,4) by (auto simp: ready_def is_group_def is_indv_def)
  have grp: "is_group (sync_table s' g)" by (rule signal_keeps_group [OF assms(1-5)])
  have wf: "tbl_wf (sync_table s)" using assms(1) by (simp add: sync_inv_def)
  have "remaining (sync_table s g) \<noteq> 0" if "c \<in> kids (sync_table s) g"
    using that finite_kids [OF wf] tbl_wfD(3) [OF wf, of g] by (auto simp: card_eq_0_iff)
  then show ?thesis
    using rep(4) [OF gc] group_signaled [OF rep(2) grp] group_signaled [OF assms(1,4)]
    by (auto simp: group_view_def report_def rep(3) parent_step_state)
qed

theorem signal_refines_report_witness:
  "group_view 3 (snd (cam_sync_signal simple_core 1 CAM_SYNC_STATE_SIGNALED_ERROR 0 demo_sync4)) =
     report 1 CAM_SYNC_STATE_SIGNALED_ERROR (group_view 3 demo_sync4) \<and>
   \<not> signaled (sync_table (snd (cam_sync_signal simple_core 1 CAM_SYNC_STATE_SIGNALED_ERROR 0 demo_sync4)) 3)"
  using signal_refines_report [OF demo_inv(5) demo4_rows(1) _ demo4_rows(3) prod.collapse [symmetric],
      of CAM_SYNC_STATE_SIGNALED_ERROR simple_core 0]
  by (simp add: sync_signaled_state_def demo4_rows)

text \<open>C1: the outcome of a merged object: when its pending children are signalled, in any order and with any
  final states, the merged object stays uncompleted until the last of them and is then completed
  with the first failure among their states, in the order of the signals, and with success when none
  failed.\<close>

theorem merged_object_outcome:
  assumes "sync_inv s" and "is_group (sync_table s g)"
    and "row_state (sync_table s g) = CAM_SYNC_STATE_ACTIVE"
    and "unat (remaining (sync_table s g)) = length (xs @ ys)" and "xs @ ys \<noteq> []"
    and "distinct (map fst (xs @ ys))" and "set (map fst (xs @ ys)) = kids (sync_table s) g"
    and "\<forall>(c, st) \<in> set (xs @ ys). ready (sync_table s c) \<and> sync_signaled_state st"
  shows "(signaled (sync_table (run_signals A cause xs s) g) \<longleftrightarrow> ys = []) \<and>
     (ys = [] \<longrightarrow> row_state (sync_table (run_signals A cause xs s) g) = first_failure (map snd xs))"
proof -
  let ?s = "run_signals A cause xs s"
  have run: "sync_inv ?s" "is_group (sync_table ?s g)"
    "row_state (sync_table ?s g) = fold absorb (map snd xs) (row_state (sync_table s g))"
    "remaining (sync_table ?s g) = remaining (sync_table s g) - of_nat (length xs)"
    using run_signals_group [OF assms(1,2), of xs A cause] assms(6-8) by auto
  have "remaining (sync_table s g) = of_nat (length xs) + of_nat (length ys)"
    using arg_cong [OF assms(4), of "of_nat :: nat \<Rightarrow> u32"] by simp
  then have rem: "remaining (sync_table ?s g) = of_nat (length ys)" by (simp add: run(4))
  have "length ys < 2 ^ 32" 
    using assms(4) unsigned_less [where ?'a = nat, of "remaining (sync_table s g)"] by simp
  then have "unat (of_nat (length ys) :: u32) = length ys" by (simp add: unat_of_nat)
  then have "(of_nat (length ys) :: u32) = 0 \<longleftrightarrow> ys = []"
    by (metis length_0_conv unat_eq_0)
  then have "signaled (sync_table ?s g) \<longleftrightarrow> ys = []" using group_signaled [OF run(1,2)] rem by simp
  moreover have "row_state (sync_table ?s g) = first_failure (map snd xs)" if "ys = []"
    using that assms(3,5,8) run(3) by (fastforce intro!: fold_absorb_active)
  ultimately show ?thesis by blast
qed

theorem merged_object_outcome_witness:
  "\<not> signaled (sync_table (run_signals simple_core 0 [(2, 4)] demo_sync4) 3) \<and>
   signaled (sync_table (run_signals simple_core 0 [(2, 4), (1, 2)] demo_sync4) 3) \<and>
   row_state (sync_table (run_signals simple_core 0 [(2, 4), (1, 2)] demo_sync4) 3) = 4"
proof -
  have r: "\<forall>(c, st) \<in> set [(2, 4), (1, 2)]. ready (sync_table demo_sync4 c) \<and> sync_signaled_state st"
    by (simp add: demo4_rows sync_signaled_state_def)
  show ?thesis
    using merged_object_outcome [OF demo_inv(5) demo4_rows(3,4), of "[(2, 4)]" "[(1, 2)]" simple_core 0]
      merged_object_outcome [OF demo_inv(5) demo4_rows(3,4), of "[(2, 4), (1, 2)]" "[]" simple_core 0] r
    by (auto simp: demo4_rows first_failure_def failed_state_def)
qed

end
