(* ===== verification/Cam_Sync_Life.thy ===== *)
theory Cam_Sync_Life
  imports Cam_Sync_Props
begin

section \<open>The life of a sync object\<close>

text \<open>
  Creating, merging and destroying objects, registering and deregistering callbacks, waiting, and
  closing the device.
\<close>

subsection \<open>Creation\<close>

lemma create_spec:
  assumes "sync_inv s" and "cam_sync_create A name s = (rc, r, s')"
  shows "r = Some i \<Longrightarrow> rc = 0 \<and> 0 < i \<and> i < CAM_SYNC_MAX_OBJS \<and> \<not> live (sync_table s i) \<and>
       i = find_first_zero_bit (sync_bitmap s) CAM_SYNC_MAX_OBJS \<and>
       s' = s\<lparr>sync_table := (sync_table s)(i := created_row i name None),
              sync_bitmap := (sync_bitmap s)(i := True)\<rparr>"
    and "r = None \<Longrightarrow> (rc, s') = (- ENOMEM, s) \<and>
       CAM_SYNC_MAX_OBJS \<le> find_first_zero_bit (sync_bitmap s) CAM_SYNC_MAX_OBJS"
proof -
  define k where "k = find_first_zero_bit (sync_bitmap s) CAM_SYNC_MAX_OBJS"
  have b: "bits_ok (sync_table s) (sync_bitmap s)" using assms(1) by (simp add: sync_inv_def)
  have eq: "(rc, r, s') = (if CAM_SYNC_MAX_OBJS \<le> k then (- ENOMEM, None, s)
      else (0, Some k, s\<lparr>sync_table := (sync_table s)(k := created_row k name None),
              sync_bitmap := (sync_bitmap s)(k := True)\<rparr>))"
    using assms(2) unfolding cam_sync_create_def create_util_eq [OF assms(1)] Let_def k_def [symmetric]
    by (auto simp: upd_row_def upd_dma_def set_bit_at_def split: if_splits)
  have fr: "k < CAM_SYNC_MAX_OBJS \<Longrightarrow> 0 < k \<and> \<not> live (sync_table s k)"
    using free_index [OF b] by (auto simp: k_def)
  show "r = Some i \<Longrightarrow> rc = 0 \<and> 0 < i \<and> i < CAM_SYNC_MAX_OBJS \<and> \<not> live (sync_table s i) \<and>
       i = find_first_zero_bit (sync_bitmap s) CAM_SYNC_MAX_OBJS \<and>
       s' = s\<lparr>sync_table := (sync_table s)(i := created_row i name None),
              sync_bitmap := (sync_bitmap s)(i := True)\<rparr>"
    using eq fr by (auto simp: k_def split: if_splits)
  show "r = None \<Longrightarrow> (rc, s') = (- ENOMEM, s) \<and>
       CAM_SYNC_MAX_OBJS \<le> find_first_zero_bit (sync_bitmap s) CAM_SYNC_MAX_OBJS"
    using eq by (auto simp: k_def split: if_splits)
qed

text \<open>creating an object takes the least free index, which is never 0, initialises exactly that row as an
  active individual object without links or callbacks and sets exactly its bit; it fails, with
  \<open>-ENOMEM\<close> and no effect, only when all 2047 objects are in use.\<close>

theorem create_takes_least_free:
  assumes "sync_inv s" and "cam_sync_create A name s = (rc, r, s')"
  shows "(\<exists>i. r = Some i \<and> rc = 0 \<and> 0 < i \<and> i < CAM_SYNC_MAX_OBJS \<and>
       \<not> live (sync_table s i) \<and> (\<forall>j. 0 < j \<and> j < i \<longrightarrow> live (sync_table s j)) \<and>
       s' = s\<lparr>sync_table := (sync_table s)(i := created_row i name None),
              sync_bitmap := (sync_bitmap s)(i := True)\<rparr>) \<or>
     (\<forall>j. 0 < j \<and> j < CAM_SYNC_MAX_OBJS \<longrightarrow> live (sync_table s j)) \<and> (rc, r, s') = (- ENOMEM, None, s)"
proof (cases r)
  case None
  with create_spec(2) [OF assms] find_first_zero_bit_full [of CAM_SYNC_MAX_OBJS "sync_bitmap s"] assms(1)
  show ?thesis by (auto simp: sync_inv_def bits_ok_def)
next
  case (Some i)
  note sp = create_spec(1) [OF assms Some]
  have "live (sync_table s j)" if "0 < j" "j < i" for j
    using that sp find_first_zero_bit_least [of j "sync_bitmap s" CAM_SYNC_MAX_OBJS] assms(1)
    by (auto simp: sync_inv_def bits_ok_def)
  with Some sp show ?thesis by blast
qed

theorem create_takes_least_free_witness:
  "\<exists>i. fst (snd (cam_sync_create simple_core ''c'' demo_sync4)) = Some i \<and> 3 < i \<and>
       row_state (sync_table (snd (snd (cam_sync_create simple_core ''c'' demo_sync4))) i) = CAM_SYNC_STATE_ACTIVE"
proof -
  have l: "live (sync_table demo_sync4 1)" "live (sync_table demo_sync4 2)" "live (sync_table demo_sync4 3)"
    and d: "\<not> live (sync_table demo_sync4 4)"
    by (simp_all add: demo_sync4_eq live_def)
  obtain rc r s' where run: "cam_sync_create simple_core ''c'' demo_sync4 = (rc, r, s')" by (metis prod_cases3)
  from create_takes_least_free [OF demo_inv(5) run] d
  obtain i where i: "r = Some i" "0 < i" "\<not> live (sync_table demo_sync4 i)"
    "sync_table s' = (sync_table demo_sync4)(i := created_row i ''c'' None)"
    by (auto dest: spec [of _ 4])
  have "i \<noteq> 1" "i \<noteq> 2" "i \<noteq> 3" using i(3) l by auto
  with i run show ?thesis by simp
qed

subsection \<open>Destruction\<close>

lemma destroy_run:
  assumes "sync_inv s" "cam_sync_destroy A so s = (rc, s')"
  shows "rc = (if live (sync_table s so) then 0 else - EINVAL)"
    and "sync_table s' = (if live (sync_table s so) then destroy_table so (sync_table s) else sync_table s)"
    and "sync_bitmap s' = (if live (sync_table s so) then clear_bit_at so (sync_bitmap s) else sync_bitmap s)"
proof -
  have wf: "tbl_wf (sync_table s)" using assms(1) by (simp add: sync_inv_def)
  have l: "live (sync_table s so) \<Longrightarrow> 0 < so \<and> so < CAM_SYNC_MAX_OBJS"
    using row_okD(1,2) [OF tbl_wfD(1) [OF wf]] by blast
  have eq: "rc = fst (cam_sync_deinit_object A so None s)" "s' = snd (snd (cam_sync_deinit_object A so None s))"
    using assms(2) by (simp_all add: destroy_eq Let_def)
  show "rc = (if live (sync_table s so) then 0 else - EINVAL)" using l by (auto simp: eq deinit_rc)
  show "sync_table s' = (if live (sync_table s so) then destroy_table so (sync_table s) else sync_table s)"
    using deinit_table [OF wf] deinit_fail [of so s A None] by (auto simp: eq)
  show "sync_bitmap s' = (if live (sync_table s so) then clear_bit_at so (sync_bitmap s) else sync_bitmap s)"
    using l by (auto simp: eq deinit_bitmap)
qed

lemma deinit_dma_plain:
  assumes "ext_fence_mask (sync_table s i) = 0" "parents_list (sync_table s i) = []"
    "children_list (sync_table s i) = []"
  shows "dma_dev (snd (snd (cam_sync_deinit_object A i chk s))) = dma_dev s"
  using assms by (simp add: cam_sync_deinit_object_def Let_def)

text \<open>destroying an object succeeds exactly when it exists; it frees the row and the bit, removes every
  link that leads to it, and changes neither the state nor the count, completion, callbacks or
  payloads of any other object.\<close>

theorem destroy_unlinks:
  assumes "sync_inv s" and "cam_sync_destroy A so s = (rc, s')"
  shows "(rc = 0 \<longleftrightarrow> live (sync_table s so)) \<and> \<not> live (sync_table s' so) \<and>
     (\<forall>i. so \<notin> set (parents_list (sync_table s' i))) \<and>
     (rc = 0 \<longrightarrow> sync_bitmap s' = (sync_bitmap s)(so := False)) \<and>
     (\<forall>i. i \<noteq> so \<longrightarrow> row_state (sync_table s' i) = row_state (sync_table s i) \<and>
        remaining (sync_table s' i) = remaining (sync_table s i) \<and>
        signaled (sync_table s' i) = signaled (sync_table s i) \<and>
        callback_list (sync_table s' i) = callback_list (sync_table s i) \<and>
        user_payload_list (sync_table s' i) = user_payload_list (sync_table s i) \<and>
        set (parents_list (sync_table s' i)) = set (parents_list (sync_table s i)) - {so})"
proof -
  note run = destroy_run [OF assms]
  have wf: "tbl_wf (sync_table s)" using assms(1) by (simp add: sync_inv_def)
  have d: "distinct (parents_list (sync_table s i))" for i using row_okD(8) [OF tbl_wfD(1) [OF wf]] .
  have nl: "so \<notin> set (parents_list (sync_table s i))" if "\<not> live (sync_table s so)" for i
    using parents_group [OF wf] that by (auto simp: is_group_def)
  have np: "so \<notin> set (parents_list (destroy_table so (sync_table s) i))" for i
    using d [of i] by (simp add: destroy_table_def)
  have pl: "i \<noteq> so \<Longrightarrow> set (parents_list (destroy_table so (sync_table s) i)) =
      set (parents_list (sync_table s i)) - {so}" for i
    using d [of i] by (simp add: destroy_table_def)
  show ?thesis
    by (cases "live (sync_table s so)") (use run nl np pl in \<open>auto simp: clear_bit_at_def\<close>)
qed

theorem destroy_unlinks_witness:
  "let s' = snd (cam_sync_destroy simple_core 3 demo_sync4)
   in \<not> live (sync_table s' 3) \<and> 3 \<notin> set (parents_list (sync_table s' 1)) \<and>
      row_state (sync_table s' 1) = row_state (sync_table demo_sync4 1)"
  using destroy_unlinks [OF demo_inv(5) prod.collapse [symmetric], of simple_core 3] by (simp add: Let_def)

text \<open>creating an object and destroying it again restores the device: the bitmap, the dma fence table and
  every row but the one used, which is free before and after.\<close>

theorem create_destroy_roundtrip:
  assumes "sync_inv s" and "cam_sync_create A name s = (0, Some i, s1)"
    and "cam_sync_destroy A i s1 = (rc, s2)"
  shows "rc = 0 \<and> sync_bitmap s2 = sync_bitmap s \<and> dma_dev s2 = dma_dev s \<and>
     \<not> live (sync_table s i) \<and> sync_table s2 = (sync_table s)(i := zero_row)"
proof -
  define r where "r = created_row i name None"
  have s1: "s1 = s\<lparr>sync_table := (sync_table s)(i := r), sync_bitmap := (sync_bitmap s)(i := True)\<rparr>"
    and dead: "\<not> live (sync_table s i)" and rng: "0 < i" "i < CAM_SYNC_MAX_OBJS"
    using create_spec [OF assms(1,2)] by (auto simp: r_def)
  have inv1: "sync_inv s1" using create_util_inv' [of A name None s] assms(1,2) by (simp add: cam_sync_create_def)
  have lv: "live (sync_table s1 i)" by (simp add: s1 r_def live_def)
  have wf: "tbl_wf (sync_table s)" using assms(1) by (simp add: sync_inv_def)
  have np: "i \<notin> set (parents_list (sync_table s j))" for j
    using parents_group [OF wf] dead by (auto simp: is_group_def)
  have bit: "\<not> sync_bitmap s i" using dead rng assms(1) by (auto simp: sync_inv_def bits_ok_def)
  note run = destroy_run [OF inv1 assms(3)]
  have tb: "sync_table s2 = (sync_table s)(i := zero_row)"
    using run(2) lv np by (auto simp: s1 destroy_table_def remove1_idem r_def fun_eq_iff)
  have "dma_dev s2 = dma_dev s1"
    using assms(3) deinit_dma_plain [of s1 i A None]
    by (auto simp: destroy_eq Let_def s1 r_def created_row_def)
  with tb run lv dead bit show ?thesis
    by (auto simp: s1 clear_bit_at_def fun_eq_iff)
qed

theorem create_destroy_roundtrip_witness:
  "sync_bitmap (snd (cam_sync_destroy simple_core 1 demo_sync1)) = sync_bitmap demo_sync0 \<and>
   sync_table (snd (cam_sync_destroy simple_core 1 demo_sync1)) = (\<lambda>_. zero_row)"
  using create_destroy_roundtrip [OF demo_inv(1) demo_sync1_eq(1) prod.collapse [symmetric]]
  by (simp add: fun_upd_idem)

subsection \<open>Merging\<close>

text \<open>the duplicate filter of the array of objects keeps the first occurrence of every value, in order, at
  the front of the array, and returns the number of distinct values.\<close>

theorem remove_duplicates_correct:
  assumes "arr \<noteq> []" and "cam_common_util_remove_duplicate_arr arr = (n, arr')"
  shows "n = card (set arr) \<and> take n arr' = first_occurrences arr \<and> distinct (take n arr') \<and>
     set (take n arr') = set arr"
  using remove_duplicate_arr_spec [OF assms] by simp

theorem remove_duplicates_correct_witness:
  "cam_common_util_remove_duplicate_arr [4, 7, 4, 9, 7] = (3, [4, 7, 9, 9, 7]) \<and>
   take 3 [4, 7, 9, 9, 7] = first_occurrences [4, 7, 4, 9, 7 :: int]"
proof -
  have e: "cam_common_util_remove_duplicate_arr [4, 7, 4, 9, 7] = (3, [4, 7, 9, 9, 7])" by code_simp
  with remove_duplicates_correct [OF _ e] show ?thesis by simp
qed



text \<open>C18: a merge that fails, on its arguments, on an allocation in the middle of its loop or because the
  table is full, returns a negative status and leaves no trace: the bitmap, the dma fence table and
  every row that is live before or after are unchanged.\<close>

theorem merge_failure_atomic:
  assumes "sync_inv s" and "cam_sync_merge alloc sync_obj s = (rc, r, s')" and "rc \<noteq> 0"
  shows "rc < 0 \<and> r = None \<and> sync_bitmap s' = sync_bitmap s \<and> dma_dev s' = dma_dev s \<and>
     (\<forall>i. live (sync_table s i) \<or> live (sync_table s' i) \<longrightarrow> sync_table s' i = sync_table s i)"
  using assms(1,2)
proof (cases rule: merge_cases)
  case (fail i)
  then show ?thesis by metis
qed (use assms(3) in simp)

theorem merge_failure_atomic_witness:
  "let (rc, r, s') = cam_sync_merge (\<lambda>n. n \<noteq> 3) (Some [1, 2]) demo_sync2
   in rc = - EINVAL \<and> r = None \<and> sync_table s' 1 = sync_table demo_sync2 1"
proof -
  have dup: "cam_common_util_remove_duplicate_arr [1, 2] = (2, [1, 2])" by code_simp
  have rc: "fst (cam_sync_merge (\<lambda>n. n \<noteq> 3) (Some [1, 2]) demo_sync2) = - EINVAL"
    by (simp add: demo_sync2_eq(2) cam_sync_merge_def dup cam_sync_check_valid_def demo_free Let_def
      cam_sync_init_group_object_def cam_sync_init_row_def upd_row_def)
  obtain rc r s' where run: "cam_sync_merge (\<lambda>n. n \<noteq> 3) (Some [1, 2]) demo_sync2 = (rc, r, s')"
    by (metis prod_cases3)
  have l: "live (sync_table demo_sync2 1)" by (simp add: demo_sync2_eq(2))
  have rc': "rc = - EINVAL" using rc run by simp
  then have nz: "rc \<noteq> 0" by simp
  have "r = None" "sync_table s' 1 = sync_table demo_sync2 1"
    using merge_failure_atomic [OF demo_inv(3) run nz] l by blast+
  with rc' show ?thesis unfolding run by simp
qed

subsection \<open>Callbacks\<close>

text \<open>C30: a kernel callback registered on a ready object runs exactly once: it waits, after the callbacks that
  were registered before it, until the object is signalled, and the signal queues it with the final
  status and takes it off the object.\<close>

theorem callback_runs_once:
  assumes "sync_inv s" and "ready (sync_table s c)" and "sync_signaled_state st"
    and "cam_sync_register_callback True (Some f) d c s = (rc, s1)"
    and "cam_sync_signal A c st cause s1 = (rc', s2)"
  shows "rc = 0 \<and> rc' = 0 \<and> work_queue s1 = work_queue s \<and> cb_trace s1 = cb_trace s \<and>
     work_queue s2 = work_queue s @ map (\<lambda>cb. cb\<lparr>cbi_status := st\<rparr>) (callback_list (sync_table s c)) @
       [\<lparr>cbi_func = f, cbi_data = d, cbi_status = st, cbi_sync_obj = c\<rparr>] @
       parent_cbs st (sync_table s) (parents_list (sync_table s c)) \<and>
     callback_list (sync_table s2 c) = []"
proof -
  let ?cb = "\<lparr>cbi_func = f, cbi_data = d, cbi_status = 0, cbi_sync_obj = c\<rparr>"
  have wf: "tbl_wf (sync_table s)" using assms(1) by (simp add: sync_inv_def)
  have c: "live (sync_table s c)" "row_state (sync_table s c) = CAM_SYNC_STATE_ACTIVE"
    using assms(2) by (auto simp: ready_def is_indv_def)
  have rng: "0 < c" "c < CAM_SYNC_MAX_OBJS" using row_okD(1,2) [OF tbl_wfD(1) [OF wf] c(1)] by auto
  have s1: "rc = 0" "s1 = upd_row c (\<lambda>r. r\<lparr>callback_list := callback_list r @ [?cb]\<rparr>) s"
    using assms(4) rng c by (auto simp: cam_sync_register_callback_def sync_signaled_state_def Let_def)
  have inv1: "sync_inv s1" using register_callback_inv [OF assms(1), of True "Some f" d c] assms(4) by simp
  have rdy: "ready (sync_table s1 c)" using assms(2) by (simp add: s1 ready_def is_indv_def plain_def live_def)
  have v: "cam_sync_signal_validate_util c st s1 = 0" "plain (sync_table s1 c)" "ref_cnt (sync_table s1 c) = 1"
    using rdy assms(3) by (auto simp: validate_zero ready_def)
  note sp = signal_plain(1,3) [OF inv1 v assms(5)]
  have "parent_cbs st (sync_table s1) (parents_list (sync_table s c)) =
      parent_cbs st (sync_table s) (parents_list (sync_table s c))"
    by (rule own_parent_cbs [OF wf]) (simp add: s1)
  with sp signal_report(7) [OF inv1 rdy assms(3,5)] show ?thesis by (simp add: s1)
qed

theorem callback_runs_once_witness:
  "let s1 = snd (cam_sync_register_callback True (Some 5) 6 1 demo_sync4);
       s2 = snd (cam_sync_signal simple_core 1 CAM_SYNC_STATE_SIGNALED_CANCEL 0 s1)
   in work_queue s1 = [] \<and>
      work_queue s2 = [\<lparr>cbi_func = 5, cbi_data = 6, cbi_status = CAM_SYNC_STATE_SIGNALED_CANCEL, cbi_sync_obj = 1\<rparr>]"
  using callback_runs_once [OF demo_inv(5) demo4_rows(1) _ prod.collapse [symmetric] prod.collapse [symmetric],
      of CAM_SYNC_STATE_SIGNALED_CANCEL 5 6 simple_core 0]
  by (simp add: sync_signaled_state_def Let_def) (simp add: demo_sync4_eq demo_sync3_eq(2) parent_cbs_def)

text \<open>a callback registered on an object that is already complete is not stored: it is handed over at
  once with the state of the object, to the work queue, or directly when the driver is configured to
  call without a switch of context.\<close>

theorem callback_after_completion:
  assumes "sync_inv s" and "live (sync_table s so)" and "signaled (sync_table s so)"
    and "cam_sync_register_callback True (Some f) d so s = (rc, s')"
  shows "rc = 0 \<and> sync_table s' = sync_table s \<and>
     (let cb = \<lparr>cbi_func = f, cbi_data = d, cbi_status = row_state (sync_table s so), cbi_sync_obj = so\<rparr>
      in if trigger_cb_without_switch s
         then cb_trace s' = cb_trace s @ [cb] \<and> work_queue s' = work_queue s
         else work_queue s' = work_queue s @ [cb] \<and> cb_trace s' = cb_trace s)"
proof -
  have wf: "tbl_wf (sync_table s)" using assms(1) by (simp add: sync_inv_def)
  note ok = tbl_wfD(1) [OF wf, of so]
  have rs: "row_settled (sync_table s so)" using assms(1) by (simp add: sync_inv_def settled_def)
  have "row_state (sync_table s so) \<noteq> CAM_SYNC_STATE_ACTIVE \<and> remaining (sync_table s so) = 0"
    using rs assms(2,3) row_okD(12) [OF ok] by (cases "row_type (sync_table s so)") (auto simp: row_settled_def)
  moreover have "row_state (sync_table s so) = CAM_SYNC_STATE_ACTIVE \<or> sync_signaled_state (row_state (sync_table s so))"
    by (rule row_ok_state [OF ok assms(2)])
  ultimately show ?thesis
    using assms(2,4) row_okD(1,2) [OF ok assms(2)]
    by (auto simp: cam_sync_register_callback_def Let_def live_def split: if_splits)
qed

theorem callback_after_completion_witness:
  "let s = run_signals simple_core 0 [(1, CAM_SYNC_STATE_SIGNALED_ERROR)] demo_sync4;
       s' = snd (cam_sync_register_callback True (Some 5) 6 1 s)
   in sync_table s' = sync_table s"
proof -
  let ?s = "run_signals simple_core 0 [(1, CAM_SYNC_STATE_SIGNALED_ERROR)] demo_sync4"
  note rep = signal_report [where A = simple_core and cause = 0 and st = CAM_SYNC_STATE_SIGNALED_ERROR,
      OF demo_inv(5) demo4_rows(1) _ prod.collapse [symmetric]]
  have "sync_inv ?s" "live (sync_table ?s 1)" "signaled (sync_table ?s 1)"
    using rep(2,5,6) by (simp_all add: sync_signaled_state_def live_def)
  from callback_after_completion [OF this prod.collapse [symmetric], of 5 6] show ?thesis
    by (simp add: Let_def)
qed

text \<open>deregistering removes every registration of the given function and data from the object and nothing
  else; it reports \<open>-ENOENT\<close> exactly when there was none, and the removed callbacks are not queued by
  a later signal.\<close>

theorem deregister_removes:
  assumes "sync_inv s" and "ready (sync_table s c)" and "sync_signaled_state st"
    and "cam_sync_deregister_callback f d c s = (rc, s1)"
    and "cam_sync_signal A c st cause s1 = (rc', s2)"
  shows "rc = (if \<exists>cb \<in> set (callback_list (sync_table s c)). cbi_func cb = f \<and> cbi_data cb = d
              then 0 else - ENOENT) \<and>
     work_queue s2 = work_queue s @
       map (\<lambda>cb. cb\<lparr>cbi_status := st\<rparr>)
         (filter (\<lambda>cb. \<not> (cbi_func cb = f \<and> cbi_data cb = d)) (callback_list (sync_table s c))) @
       parent_cbs st (sync_table s) (parents_list (sync_table s c))"
proof -
  let ?F = "\<lambda>r :: sync_table_row. r\<lparr>callback_list :=
      filter (\<lambda>cb. \<not> (cbi_func cb = f \<and> cbi_data cb = d)) (callback_list r)\<rparr>"
  have wf: "tbl_wf (sync_table s)" using assms(1) by (simp add: sync_inv_def)
  have c: "live (sync_table s c)" using assms(2) by (auto simp: ready_def is_indv_def)
  have rng: "0 < c" "c < CAM_SYNC_MAX_OBJS" using row_okD(1,2) [OF tbl_wfD(1) [OF wf] c] by auto
  have s1: "rc = (if \<exists>cb \<in> set (callback_list (sync_table s c)). cbi_func cb = f \<and> cbi_data cb = d
              then 0 else - ENOENT)" "s1 = upd_row c ?F s"
    using assms(4) rng c by (auto simp: cam_sync_deregister_callback_def Let_def live_def)
  have inv1: "sync_inv s1" using deregister_callback_inv [OF assms(1), of f d c] assms(4) by simp
  have v: "cam_sync_signal_validate_util c st s1 = 0" "plain (sync_table s1 c)" "ref_cnt (sync_table s1 c) = 1"
    using assms(2,3) by (auto simp: s1 validate_zero ready_def is_indv_def plain_def live_def)
  note sp = signal_plain(3) [OF inv1 v assms(5)]
  have "parent_cbs st (sync_table s1) (parents_list (sync_table s c)) =
      parent_cbs st (sync_table s) (parents_list (sync_table s c))"
    by (rule own_parent_cbs [OF wf]) (simp add: s1)
  with sp s1(1) show ?thesis by (simp add: s1(2))
qed

theorem deregister_removes_witness:
  "let s = snd (cam_sync_register_callback True (Some 5) 6 1 demo_sync4);
       (rc, s1) = cam_sync_deregister_callback 5 6 1 s;
       s2 = snd (cam_sync_signal simple_core 1 CAM_SYNC_STATE_SIGNALED_SUCCESS 0 s1)
   in rc = 0 \<and> work_queue s2 = []"
proof -
  let ?s = "snd (cam_sync_register_callback True (Some 5) 6 1 demo_sync4)"
  have s: "?s = upd_row 1 (\<lambda>r. r\<lparr>callback_list :=
      [\<lparr>cbi_func = 5, cbi_data = 6, cbi_status = 0, cbi_sync_obj = 1\<rparr>]\<rparr>) demo_sync4"
    by (simp add: demo_sync4_eq demo_sync3_eq(2) cam_sync_register_callback_def Let_def
        sync_signaled_state_def upd_row_def)
  have inv: "sync_inv ?s" by (rule register_callback_inv) simp
  have rdy: "ready (sync_table ?s 1)" using demo4_rows(1) by (simp add: s ready_def is_indv_def plain_def live_def)
  have q: "work_queue ?s = []" "parent_cbs st (sync_table ?s) (parents_list (sync_table ?s 1)) = []" for st
    by (simp_all add: s demo4_rows parent_cbs_def) (simp add: demo_sync4_eq demo_sync3_eq(2))
  show ?thesis
    using deregister_removes [OF inv rdy _ prod.collapse [symmetric] prod.collapse [symmetric],
      of CAM_SYNC_STATE_SIGNALED_SUCCESS 5 6 simple_core 0] q
    by (simp add: Let_def split_beta sync_signaled_state_def) (simp add: s)
qed

subsection \<open>The sync table as a slot table\<close>

definition take_obj :: "'x dma_fence_core \<Rightarrow> string \<Rightarrow> 'x sync_device \<Rightarrow> int option \<times> 'x sync_device" where
  "take_obj A name s = snd (cam_sync_create A name s)"

definition give_obj :: "'x dma_fence_core \<Rightarrow> int \<Rightarrow> 'x sync_device \<Rightarrow> 'x sync_device" where
  "give_obj A i s = snd (cam_sync_destroy A i s)"

lemma create_inv: "sync_inv s \<Longrightarrow> sync_inv (snd (snd (cam_sync_create A name s)))"
  by (simp add: cam_sync_create_def create_util_inv)

interpretation objects: full_slot_table sync_inv "\<lambda>s i. live (sync_table s i)" 1 CAM_SYNC_MAX_OBJS
  "take_obj A" "give_obj A" for A :: "'x dma_fence_core"
proof
  fix s s' :: "'x sync_device" and i name
  assume inv: "sync_inv s"
  obtain rc r t where cr: "cam_sync_create A name s = (rc, r, t)" by (metis prod_cases3)
  note sp = create_spec [OF inv cr]
  have wf: "tbl_wf (sync_table s)" using inv by (simp add: sync_inv_def)
  show "live (sync_table s i) \<Longrightarrow> 1 \<le> i \<and> i < CAM_SYNC_MAX_OBJS"
    using row_okD(1,2) [OF tbl_wfD(1) [OF wf], of i] by simp
  show "sync_inv (snd (take_obj A name s))" using create_inv [OF inv] by (simp add: take_obj_def)
  show "1 \<le> i \<and> i < CAM_SYNC_MAX_OBJS \<and> \<not> live (sync_table s i) \<and>
      (\<lambda>i. live (sync_table s' i)) = (\<lambda>i. live (sync_table s i))(i := True)"
    if "take_obj A name s = (Some i, s')"
    using that sp(1) [of i] by (auto simp: take_obj_def cr fun_eq_iff live_def created_row_def)
  show "(\<lambda>i. live (sync_table s' i)) = (\<lambda>i. live (sync_table s i))" if "take_obj A name s = (None, s')"
    using that sp(2) by (simp add: take_obj_def cr)
  obtain rc' t' where ds: "cam_sync_destroy A i s = (rc', t')" by fastforce
  show "sync_inv (give_obj A i s)"
    using deinit_inv [OF inv] by (simp add: give_obj_def cam_sync_destroy_def split_beta)
  show "(\<lambda>j. live (sync_table (give_obj A i s) j)) = (\<lambda>j. live (sync_table s j))(i := False)"
    using destroy_run(2) [OF inv ds] by (auto simp: give_obj_def ds fun_eq_iff destroy_table_live)
  show "live (sync_table s i)" if "fst (take_obj A name s) = None" "1 \<le> i" "i < CAM_SYNC_MAX_OBJS"
    using that sp(2) inv find_first_zero_bit_full [of CAM_SYNC_MAX_OBJS "sync_bitmap s"]
    by (auto simp: take_obj_def cr sync_inv_def bits_ok_def)
qed

text \<open>Several objects created one after the other.\<close>

fun create_objects :: "'x dma_fence_core \<Rightarrow> string list \<Rightarrow> 'x sync_device \<Rightarrow> int option list \<times> 'x sync_device" where
  "create_objects A [] s = ([], s)"
| "create_objects A (name # names) s =
     (let (rc, r, s1) = cam_sync_create A name s; (rs, s2) = create_objects A names s1 in (r # rs, s2))"

lemma create_objects_take: "create_objects A names s = objects.take_many A names s"
  by (induction names arbitrary: s) (simp_all add: take_obj_def split_beta Let_def)

text \<open>the capacity of the sync table: from a device with \<open>n\<close> live objects, \<open>2047 - n\<close> objects can be created in
  a row; they all succeed and get pairwise different indices that were free. Once 2047 objects are
  live, the next creation fails with \<open>-ENOMEM\<close> and changes nothing.\<close>

theorem sync_object_capacity:
  assumes "sync_inv s" and "length names + card {i. live (sync_table s i)} \<le> 2047"
    and "create_objects A names s = (rs, s')"
  shows "None \<notin> set rs \<and> distinct (map the rs) \<and> (\<forall>r \<in> set rs. \<not> live (sync_table s (the r))) \<and>
     card {i. live (sync_table s' i)} = card {i. live (sync_table s i)} + length names \<and>
     (card {i. live (sync_table s' i)} = 2047 \<longrightarrow> cam_sync_create A name s' = (- ENOMEM, None, s'))"
proof -
  have many: "objects.take_many A names s = (rs, s')" using assms(3) by (simp add: create_objects_take)
  have cap: "None \<notin> set rs" "card (objects.slots s') = card (objects.slots s) + length names"
    using objects.take_many_capacity [OF assms(1) many] assms(2) by (auto simp: objects.slots_def)
  have m: "map the (filter (\<lambda>r. r \<noteq> None) rs) = map the rs"
    using cap(1) by (metis (mono_tags, lifting) filter_True)
  note fresh = objects.take_many_fresh [OF assms(1) many, unfolded m]
  have "cam_sync_create A name s' = (- ENOMEM, None, s')" if "card {i. live (sync_table s' i)} = 2047"
  proof -
    have inv': "sync_inv s'" using fresh by simp
    obtain rc r t where cr: "cam_sync_create A name s' = (rc, r, t)" by (metis prod_cases3)
    have "r = None" using objects.take_exhausted [OF inv', of A name] that cr
      by (simp add: objects.slots_def take_obj_def)
    with create_spec(2) [OF inv' cr] show ?thesis by (simp add: cr)
  qed
  then show ?thesis using fresh cap by (auto simp: objects.slots_def)
qed

theorem sync_object_capacity_witness:
  "\<exists>a b. fst (create_objects simple_core [''x'', ''y''] demo_sync4) = [Some a, Some b] \<and> a \<noteq> b"
proof -
  have "{i. live (sync_table demo_sync4 i)} \<subseteq> {1, 2, 3}"
    by (auto simp: demo_sync4_eq live_def split: if_splits)
  then have "card {i. live (sync_table demo_sync4 i)} \<le> card {1, 2, 3 :: int}" by (intro card_mono) simp_all
  then have c: "length [''x'', ''y''] + card {i. live (sync_table demo_sync4 i)} \<le> 2047" by simp
  obtain rs s' where r: "create_objects simple_core [''x'', ''y''] demo_sync4 = (rs, s')" by fastforce
  have "length rs = 2" using r by (auto simp: Let_def split: prod.splits)
  then obtain p q where "rs = [p, q]" by (auto simp: length_Suc_conv numeral_2_eq_2)
  with sync_object_capacity [OF demo_inv(5) c r, of "[]"] r show ?thesis
    by (cases p; cases q) (simp_all del: create_objects.simps)
qed

end
