(* ===== verification/Cam_Sync_User.thy ===== *)
theory Cam_Sync_User
  imports Cam_Sync_Life
begin

section \<open>Waiting, closing and the user interface\<close>

text \<open>
  What a wait guarantees, what closing the device leaves behind, and the properties of the ioctl
  layer: rejected requests, user payloads and fence batches. The last section states the behaviours
  in which the code departs from its documentation.
\<close>

subsection \<open>Waiting\<close>

text \<open>a wait that returns 0 returns on an object that is complete and successful: given that the kernel's
  wait reports success only when the completion was done, the object exists when the wait ends, its
  completion is done, its state is success and, when it is a merged object, no child is pending.\<close>

theorem wait_sound:
  assumes "sync_inv s'" and "\<And>j. wait j \<noteq> 0 \<Longrightarrow> signaled (sync_table s' so)"
    and "cam_sync_wait mult m2j wait so t s s' = 0"
  shows "0 < so \<and> so < CAM_SYNC_MAX_OBJS \<and>
     row_state (sync_table s' so) = CAM_SYNC_STATE_SIGNALED_SUCCESS \<and> signaled (sync_table s' so) \<and>
     remaining (sync_table s' so) = 0"
proof -
  have wf: "tbl_wf (sync_table s')" using assms(1) by (simp add: sync_inv_def)
  have st: "0 < so" "so < CAM_SYNC_MAX_OBJS" "row_state (sync_table s' so) = CAM_SYNC_STATE_SIGNALED_SUCCESS"
    and sg: "signaled (sync_table s' so)"
    using assms(2,3) by (auto simp: cam_sync_wait_def cam_common_wait_for_completion_timeout_def Let_def
        split: if_splits)
  have "live (sync_table s' so)" using st by (simp add: live_def)
  moreover have "row_settled (sync_table s' so)" using assms(1) by (simp add: sync_inv_def settled_def)
  ultimately have "remaining (sync_table s' so) = 0"
    using sg row_okD(12) [OF tbl_wfD(1) [OF wf]]
    by (cases "row_type (sync_table s' so)") (auto simp: row_settled_def)
  with st sg show ?thesis by simp
qed

lemma demo_done:
  fixes s defines "s \<equiv> run_signals simple_core 0 [(2, 2), (1, 2)] demo_sync4"
  shows "sync_inv s" "row_state (sync_table s 3) = CAM_SYNC_STATE_SIGNALED_SUCCESS"
    "signaled (sync_table s 3)"
proof -
  have r: "ready (sync_table demo_sync4 c) \<and> sync_signaled_state st"
    if "(c, st) \<in> set [(2, 2), (1, 2)]" for c st
    using that by (auto simp: demo4_rows sync_signaled_state_def)
  have "set (map fst [(2, 2), (1, 2)]) \<subseteq> kids (sync_table demo_sync4) 3" "distinct (map fst [(2 :: int, 2 :: int), (1, 2)])"
    by (auto simp: demo4_rows)
  note run = run_signals_group [OF demo_inv(5) demo4_rows(3) this(2) r this(1), of simple_core 0, folded s_def]
  then have d: "is_group (sync_table s 3)" "remaining (sync_table s 3) = 0"
    and s: "sync_inv s" "row_state (sync_table s 3) = CAM_SYNC_STATE_SIGNALED_SUCCESS"
    by (auto simp: demo4_rows)
  then show "sync_inv s" "row_state (sync_table s 3) = CAM_SYNC_STATE_SIGNALED_SUCCESS"
    "signaled (sync_table s 3)" using group_signaled [OF s(1) d(1)] by auto
qed

theorem wait_sound_witness:
  "let s' = run_signals simple_core 0 [(2, 2), (1, 2)] demo_sync4
   in cam_sync_wait 1 (\<lambda>j. ucast j) (\<lambda>j. 5) 3 100 demo_sync4 s' = 0 \<and> remaining (sync_table s' 3) = 0"
proof -
  let ?s = "run_signals simple_core 0 [(2, 2), (1, 2)] demo_sync4"
  have w: "cam_sync_wait 1 (\<lambda>j. ucast j) (\<lambda>j. 5) 3 100 demo_sync4 ?s = 0"
    using demo_done(2) demo4_rows
    by (simp add: cam_sync_wait_def cam_common_wait_for_completion_timeout_def)
  from wait_sound [OF demo_done(1) _ w] demo_done(3) w show ?thesis by (simp add: Let_def)
qed

subsection \<open>Closing\<close>

lemma apply_cbs_dead: "(\<And>i. \<not> live (sync_table s i)) \<Longrightarrow> apply_sync_cbs cs s = s"
proof (induction cs)
  case (Cons c cs)
  have "snd (cam_sync_dma_fence_cb so fd st s) = s" for so fd st
    using dma_fence_cb_cases [of so fd st s] Cons.prems by (auto simp: is_indv_def)
  with Cons show ?case by simp
qed simp

lemma destroy_frame:
  "work_queue (snd (cam_sync_destroy A i s)) = work_queue s"
  "open_cnt (snd (cam_sync_destroy A i s)) = open_cnt s"
  by (simp_all add: destroy_eq Let_def cam_sync_deinit_object_def split_beta)

lemma close_destroy_loop_dead:
  assumes "sync_inv s"
  shows "(i \<le> j \<and> j < i + int k \<or> \<not> live (sync_table s j) \<longrightarrow>
          \<not> live (sync_table (snd (close_destroy_loop A k i rc s)) j)) \<and>
         work_queue (snd (close_destroy_loop A k i rc s)) = work_queue s \<and>
         open_cnt (snd (close_destroy_loop A k i rc s)) = open_cnt s"
  using assms
proof (induction k arbitrary: i rc s)
  case (Suc k)
  define t where "t = (if live (sync_table s i) then snd (cam_sync_destroy A i s) else s)"
  define rc' where "rc' = (if live (sync_table s i) then fst (cam_sync_destroy A i s) else rc)"
  have eq: "close_destroy_loop A (Suc k) i rc s = close_destroy_loop A k (i + 1) rc' t"
    by (simp add: Let_def split_beta t_def rc'_def live_def)
  have "sync_table t = (if live (sync_table s i) then destroy_table i (sync_table s) else sync_table s)"
    using destroy_run(2) [OF Suc.prems prod.collapse [symmetric], of A i] by (auto simp: t_def)
  then have d: "\<not> live (sync_table t j)" if "j = i \<or> \<not> live (sync_table s j)"
    using that by (auto simp: destroy_table_live)
  have "sync_inv t" using Suc.prems by (simp add: t_def destroy_inv)
  note IH = Suc.IH [OF this, of "i + 1" rc']
  have "work_queue t = work_queue s" "open_cnt t = open_cnt s" by (simp_all add: t_def destroy_frame)
  moreover have "i \<le> j \<and> j < i + int (Suc k) \<or> \<not> live (sync_table s j) \<longrightarrow>
      i + 1 \<le> j \<and> j < i + 1 + int k \<or> \<not> live (sync_table t j)" using d by auto
  ultimately show ?case unfolding eq using IH by metis
qed auto

lemma signal_loop_open_cnt: "open_cnt (snd (close_signal_loop A k i rc s)) = open_cnt s"
proof (induction k arbitrary: i rc s)
  case (Suc k)
  have "open_cnt (snd (cam_sync_signal A so st c s)) = open_cnt s" for so st c
    by (simp add: signal_cases signal_mid_def Let_def)
  with Suc show ?case by (simp add: Let_def split_beta)
qed simp

text \<open>C39: the last close empties the device: afterwards no object is live, only bit 0 is set, no dma fence
  row is live, the work queue is drained and no event queue is attached.\<close>

theorem close_empties:
  assumes "sync_inv s" and "open_cnt s = 1" and "cam_sync_close A s = (rc, s')"
  shows "(\<forall>i. \<not> live (sync_table s' i)) \<and>
     (\<forall>i. 0 \<le> i \<and> i < CAM_SYNC_MAX_OBJS \<longrightarrow> sync_bitmap s' i = (i = 0)) \<and>
     (\<forall>i. dfr_state (dfd_rows (dma_dev s') i) = CAM_DMA_FENCE_STATE_INVALID) \<and>
     work_queue s' = [] \<and> open_cnt s' = 0 \<and> \<not> cam_sync_eventq s'"
proof -
  define n where "n = nat (CAM_SYNC_MAX_OBJS - 1)"
  define r1 where "r1 = close_signal_loop A n 1 0 (s\<lparr>open_cnt := open_cnt s - 1\<rparr>)"
  define r2 where "r2 = close_destroy_loop A n 1 (fst r1) (flush_workqueue (snd r1))"
  define d where "d = cam_dma_fence_close A (dma_dev (snd r2))"
  have s': "s' = (apply_sync_cbs (fst d) (upd_dma (snd d) (snd r2)))\<lparr>cam_sync_eventq := False\<rparr>"
    using assms(2,3) unfolding cam_sync_close_def n_def [symmetric]
    by (simp add: Let_def split_beta r1_def r2_def d_def)
  have i1: "sync_inv (flush_workqueue (snd r1))"
    using assms(1) by (simp add: r1_def flush_workqueue_eq close_signal_loop_inv)
  have i2: "sync_inv (snd r2)" unfolding r2_def by (rule close_destroy_loop_inv [OF i1])
  have n: "int n = CAM_SYNC_MAX_OBJS - 1" by (simp add: n_def)
  note dead1 = close_destroy_loop_dead [OF i1, of 1 _ n A "fst r1", folded r2_def]
  have dead: "\<not> live (sync_table (snd r2) j)" for j
  proof (cases "1 \<le> j \<and> j < 1 + int n")
    case True
    then show ?thesis using dead1 by blast
  next
    case False
    have "tbl_wf (sync_table (snd r2))" using i2 by (simp add: sync_inv_def)
    from row_okD(1,2) [OF tbl_wfD(1) [OF this, of j]] False n show ?thesis by fastforce
  qed
  have ap: "apply_sync_cbs (fst d) (upd_dma (snd d) (snd r2)) = upd_dma (snd d) (snd r2)"
    by (rule apply_cbs_dead) (simp add: dead)
  have "bits_ok (sync_table (snd r2)) (sync_bitmap (snd r2))" using i2 by (simp add: sync_inv_def)
  then have "\<forall>i. 0 \<le> i \<and> i < CAM_SYNC_MAX_OBJS \<longrightarrow> sync_bitmap (snd r2) i = (i = 0)"
    using dead by (simp add: bits_ok_def) (metis order_le_less)
  moreover have "dfr_state (dfd_rows (snd d) i) = CAM_DMA_FENCE_STATE_INVALID" for i
    using close_effect [OF inv_dma [OF i2] prod.collapse [symmetric], of A, folded d_def] by blast
  moreover have "open_cnt (snd r2) = 0" "work_queue (snd r2) = []"
    using dead1 [of 0] assms(2) signal_loop_open_cnt [of A n 1 0 "s\<lparr>open_cnt := open_cnt s - 1\<rparr>"]
    by (simp_all add: flush_workqueue_eq r1_def)
  ultimately show ?thesis using dead by (simp add: s' ap)
qed

theorem close_empties_witness:
  "let s' = snd (cam_sync_close simple_core demo_sync4)
   in \<not> live (sync_table s' 1) \<and> \<not> live (sync_table s' 3) \<and> \<not> sync_bitmap s' 3 \<and> work_queue s' = []"
proof -
  have "open_cnt demo_sync4 = 1" by (simp add: demo_sync4_eq demo_sync3_eq(2))
  from close_empties [OF demo_inv(5) this prod.collapse [symmetric], of simple_core]
  show ?thesis by (simp add: Let_def)
qed

subsection \<open>Requests that are refused\<close>

text \<open>The structure size that each command requires.\<close>

definition command_size :: "u32 \<Rightarrow> u32 option" where
  "command_size id' =
     (if id' = 0 \<or> id' = 1 then Some SIZEOF_cam_sync_info
      else if id' = 2 then Some SIZEOF_cam_sync_signal
      else if id' = 3 then Some SIZEOF_cam_sync_merge
      else if id' = 4 \<or> id' = 5 then Some SIZEOF_cam_sync_userpayload_info
      else if id' = 6 then Some SIZEOF_cam_sync_wait
      else if id' = 11 \<or> id' = 12 \<or> id' = 13 \<or> id' = 14 then Some SIZEOF_cam_generic_fence_cmd_args
      else None)"

text \<open>a malformed request has no effect: without an argument, with a foreign command, an unknown id, a
  wrong size or a NULL data pointer, the ioctl fails with \<open>-EINVAL\<close> or \<open>-ENOIOCTLCMD\<close>, writes nothing
  to user space and leaves the device as it was.\<close>

theorem ioctl_refuses_malformed:
  assumes "case arg of None \<Rightarrow> True | Some k \<Rightarrow> \<not> private_cmd \<or> command_size (ioc_id k) \<noteq> Some (ioc_size k) \<or>
      ioc_ptr k = 0"
  shows "\<exists>rc. cam_sync_dev_ioctl A e um private_cmd arg s = (rc, Out_none, s) \<and>
     (rc = - EINVAL \<or> rc = - ENOIOCTLCMD)"
proof (cases arg)
  case (Some k)
  with assms show ?thesis
    by (auto simp: cam_sync_dev_ioctl_def command_size_def cam_sync_handle_create_def
        cam_sync_handle_destroy_def cam_sync_handle_signal_def cam_sync_handle_merge_def
        cam_sync_handle_wait_def cam_sync_handle_register_user_payload_def
        cam_sync_handle_deregister_user_payload_def cam_generic_fence_parser_def Let_def)
qed (simp add: cam_sync_dev_ioctl_def)

text \<open>A user memory in which every read fails, to evaluate requests on.\<close>

definition no_memory :: user_memory where
  "no_memory = \<lparr>um_info = (\<lambda>_. None), um_signal = (\<lambda>_. None), um_merge = (\<lambda>_. None),
     um_objs = (\<lambda>_ _. None), um_payload = (\<lambda>_. None), um_wait = (\<lambda>_. None), um_cmd_args = (\<lambda>_. None),
     um_fence_input = (\<lambda>_ _. None), um_dma_signal = (\<lambda>_ _. None), um_write_ok = (\<lambda>_. True)\<rparr>"

definition demo_env :: "simple_core_state sync_env" where
  "demo_env = \<lparr>env_alloc = (\<lambda>_. True), env_timeout_multiplier = 1, env_msecs_to_jiffies = (\<lambda>j. ucast j),
     env_wait = (\<lambda>j. j), env_others = (\<lambda>s. s)\<rparr>"

theorem ioctl_refuses_malformed_witness:
  "\<exists>rc. cam_sync_dev_ioctl simple_core demo_env no_memory True
     (Some \<lparr>ioc_id = 3, ioc_size = 8, ioc_ptr = 64\<rparr>) demo_sync4 = (rc, Out_none, demo_sync4) \<and>
     (rc = - EINVAL \<or> rc = - ENOIOCTLCMD)"
  using ioctl_refuses_malformed [of True "Some \<lparr>ioc_id = 3, ioc_size = 8, ioc_ptr = 64\<rparr>" simple_core
      demo_env no_memory demo_sync4]
  by (simp add: command_size_def)

subsection \<open>Signalling from user space\<close>

text \<open>the signal ioctl signals an active object that no driver holds a reference on: it takes the
  reference that the signal gives up, so the object reaches the requested final state, whatever it
  is, and is complete; a state that is not final is refused, and then the reference taken stays.\<close>

theorem ioctl_signal_effect:
  assumes "sync_inv s" and "is_indv (sync_table s (ss_sync_obj sg))" and "plain (sync_table s (ss_sync_obj sg))"
    and "row_state (sync_table s (ss_sync_obj sg)) = CAM_SYNC_STATE_ACTIVE"
    and "ref_cnt (sync_table s (ss_sync_obj sg)) = 0"
    and "ioc_size k = SIZEOF_cam_sync_signal" "ioc_ptr k \<noteq> 0" "um_signal um (ioc_ptr k) = Some sg"
    and "cam_sync_handle_signal A um k s = (rc, s')"
  shows "if sync_signaled_state (uint (ss_sync_state sg))
     then rc = 0 \<and> row_state (sync_table s' (ss_sync_obj sg)) = uint (ss_sync_state sg) \<and>
          signaled (sync_table s' (ss_sync_obj sg))
     else rc = - EINVAL \<and> s' = upd_row (ss_sync_obj sg) (\<lambda>r. r\<lparr>ref_cnt := 1\<rparr>) s"
proof -
  let ?so = "ss_sync_obj sg" and ?st = "uint (ss_sync_state sg)"
  define t where "t = upd_row ?so (\<lambda>r. r\<lparr>ref_cnt := 1\<rparr>) s"
  have wf: "tbl_wf (sync_table s)" using assms(1) by (simp add: sync_inv_def)
  have rng: "0 < ?so" "?so < CAM_SYNC_MAX_OBJS"
    using row_okD(1,2) [OF tbl_wfD(1) [OF wf]] assms(2) by (auto simp: is_indv_def)
  have ref: "cam_sync_get_obj_ref ?so s = (0, t)"
    using rng assms(4,5) by (simp add: cam_sync_get_obj_ref_def t_def upd_row_def)
  have inv: "sync_inv t" using get_obj_ref_inv [OF assms(1), of ?so] ref by simp
  have rdy: "ready (sync_table t ?so)"
    using assms(2-4) by (simp add: t_def ready_def is_indv_def plain_def live_def)
  have run: "cam_sync_signal A ?so ?st CAM_SYNC_COMMON_SYNC_SIGNAL_EVENT t = (rc, s')"
    using assms(6-9) ref by (simp add: cam_sync_handle_signal_def)
  show ?thesis
  proof (cases "sync_signaled_state ?st")
    case True
    with signal_report(1,5,6) [OF inv rdy True run] show ?thesis by simp
  next
    case False
    then have "(rc, s') = (- EINVAL, t)"
      using run rng rdy
      by (auto simp: signal_cases cam_sync_signal_validate_util_def sync_signaled_state_def ready_def
          is_indv_def live_def)
    with False show ?thesis by (simp add: t_def)
  qed
qed

definition demo_signal_memory :: user_memory where
  "demo_signal_memory = no_memory\<lparr>um_signal := (\<lambda>_. Some \<lparr>ss_sync_obj = 1, ss_sync_state = 3\<rparr>)\<rparr>"

theorem ioctl_signal_effect_witness:
  "let (rc, s') = cam_sync_handle_signal simple_core demo_signal_memory
     \<lparr>ioc_id = 2, ioc_size = 8, ioc_ptr = 64\<rparr> demo_sync3
   in rc = 0 \<and> row_state (sync_table s' 1) = CAM_SYNC_STATE_SIGNALED_ERROR"
proof -
  let ?sg = "\<lparr>ss_sync_obj = 1, ss_sync_state = 3\<rparr> :: cam_sync_signal_arg"
  have "is_indv (sync_table demo_sync3 (ss_sync_obj ?sg))" "plain (sync_table demo_sync3 (ss_sync_obj ?sg))"
    "row_state (sync_table demo_sync3 (ss_sync_obj ?sg)) = CAM_SYNC_STATE_ACTIVE"
    "ref_cnt (sync_table demo_sync3 (ss_sync_obj ?sg)) = 0"
    by (simp_all add: demo_sync3_eq(2) is_indv_def plain_def live_def)
  from ioctl_signal_effect [OF demo_inv(4) this _ _ _ prod.collapse [symmetric],
      of "\<lparr>ioc_id = 2, ioc_size = 8, ioc_ptr = 64\<rparr>" demo_signal_memory simple_core]
  show ?thesis by (simp add: demo_signal_memory_def split_beta sync_signaled_state_def)
qed

subsection \<open>Fence batches\<close>

text \<open>
  How far a batch went: \<open>n\<close> entries were processed; the entries after them are as they were; on
  success all were processed; on failure the last one processed carries the status as its reason,
  and every other processed entry has reason 0.
\<close>

definition batch_progress ::
  "cam_generic_fence_config list \<Rightarrow> int \<Rightarrow> nat \<Rightarrow> cam_generic_fence_config list \<Rightarrow> bool" where
  "batch_progress cs rc n cs' \<longleftrightarrow>
     length cs' = length cs \<and> n \<le> length cs \<and> drop n cs' = drop n cs \<and>
     (if rc = 0 then n = length cs \<and> (\<forall>c \<in> set cs'. fc_reason_code c = 0)
      else 0 < n \<and> fc_reason_code (cs' ! (n - 1)) = rc \<and> (\<forall>c \<in> set (take (n - 1) cs'). fc_reason_code c = 0))"

lemma batch_progress_fail:
  "rc \<noteq> 0 \<Longrightarrow> fc_reason_code c' = rc \<Longrightarrow> batch_progress (c # cs) rc (Suc 0) (c' # cs)"
  by (simp add: batch_progress_def)

lemma batch_progress_Cons:
  assumes "batch_progress cs rc n cs'" "fc_reason_code c' = 0"
  shows "batch_progress (c # cs) rc (Suc n) (c' # cs')"
  using assms by (cases n) (auto simp: batch_progress_def split: if_splits)

lemma unat_batch: "unat (n :: u32) \<le> k \<Longrightarrow> k < 2 ^ 32 - 1 \<Longrightarrow> unat (n + 1) = Suc (unat n)"
  by (simp add: unat_inc)

lemma dma_create_loop_progress:
  "dma_create_loop A cs s = (rc, n, cs', s') \<Longrightarrow> length cs < 2 ^ 32 - 1 \<Longrightarrow> batch_progress cs rc (unat n) cs'"
proof (induction cs arbitrary: s rc n cs' s')
  case (Cons c cs)
  obtain rc1 r d where cr: "cam_dma_fence_create_fd A (fc_name c) (dma_dev s) = (rc1, r, d)"
    by (metis prod_cases3)
  have nz: "r = None \<Longrightarrow> rc1 \<noteq> 0" using cr
    by (auto simp: cam_dma_fence_create_fd_def split: prod.splits if_splits)
  show ?case
  proof (cases r)
    case None
    with Cons.prems(1) cr nz show ?thesis by (auto intro: batch_progress_fail)
  next
    case (Some p)
    obtain fd i where r: "r = Some (fd, i)" using Some by (cases p) auto
    obtain rc2 n2 cs2 s2 where lp: "dma_create_loop A cs (upd_dma d s) = (rc2, n2, cs2, s2)"
      by (metis prod_cases4)
    have res: "rc = rc2" "n = n2 + 1" "cs' = c\<lparr>fc_reason_code := 0, fc_dma_fence_fd := fd\<rparr> # cs2"
      using Cons.prems(1) cr r lp by auto
    have ih: "batch_progress cs rc2 (unat n2) cs2" using Cons.IH [OF lp] Cons.prems(2) by simp
    then have "unat n2 \<le> length cs" by (simp add: batch_progress_def)
    with ih res Cons.prems(2) show ?thesis by (simp add: unat_batch batch_progress_Cons)
  qed
qed (simp add: batch_progress_def)

text \<open>creating a batch of dma fences stops at the first failure and tells user space how far it got: the
  number of entries processed counts the failing one, that entry carries the error as its reason,
  the entries before it have reason 0 and a created fd, and the entries after it are untouched.\<close>

theorem dma_create_batch_progress:
  assumes "dma_create_loop A cs s = (rc, n, cs', s')" and "length cs \<le> 10"
  shows "batch_progress cs rc (unat n) cs'"
  using dma_create_loop_progress [OF assms(1)] assms(2) by simp

definition demo_cfg :: cam_generic_fence_config where
  "demo_cfg = \<lparr>fc_name = ''f'', fc_fence_sel_mask = 0, fc_sync_obj = 0, fc_dma_fence_fd = 0, fc_reason_code = 9\<rparr>"

theorem dma_create_batch_progress_witness:
  "\<exists>n cs' s'. dma_create_loop simple_core [demo_cfg] demo_sync0 = (0, n, cs', s') \<and>
     batch_progress [demo_cfg] 0 (unat n) cs'"
proof -
  have e: "dma_create_loop simple_core [demo_cfg] demo_sync0 =
     (0, 1, [demo_cfg\<lparr>fc_reason_code := 0, fc_dma_fence_fd := 5\<rparr>], upd_dma demo_dma1 demo_sync0)"
    by (simp add: demo_cfg_def demo_create)
  from dma_create_batch_progress [OF e] e show ?thesis by auto
qed

subsection \<open>Where the code departs from its documentation\<close>

text \<open>a payload registered on a merged object can be answered too early: when some child has reported but
  others are pending, the merged object already has a final state without being complete;
  registering a user payload then sends the event at once with that provisional state, while
  registering a kernel callback, which also tests the count of pending children, correctly waits.\<close>

theorem payload_event_before_completion:
  assumes "sync_inv s" and "is_group (sync_table s g)" and "sync_signaled_state (row_state (sync_table s g))"
    and "remaining (sync_table s g) \<noteq> 0"
    and "ioc_size k = SIZEOF_cam_sync_userpayload_info" "ioc_ptr k \<noteq> 0" "env_alloc e 0"
    and "um_payload um (ioc_ptr k) = Some \<lparr>upi_sync_obj = g, upi_payload = p\<rparr>"
    and "cam_sync_handle_register_user_payload e um k s = (rc, s')"
    and "cam_sync_register_callback True (Some f) d g s = (rc2, s2)"
  shows "rc = 0 \<and> vdev_events s' = vdev_events s @
       [sync_event (sync_version s) g (row_state (sync_table s g)) CAM_SYNC_COMMON_REG_PAYLOAD_EVENT p] \<and>
     \<not> signaled (sync_table s' g) \<and>
     rc2 = 0 \<and> work_queue s2 = work_queue s \<and> cb_trace s2 = cb_trace s"
proof -
  have wf: "tbl_wf (sync_table s)" using assms(1) by (simp add: sync_inv_def)
  have lv: "live (sync_table s g)" using assms(2) by (simp add: is_group_def)
  then have rng: "0 < g" "g < CAM_SYNC_MAX_OBJS" using row_okD(1,2) [OF tbl_wfD(1) [OF wf]] by auto
  have "\<not> signaled (sync_table s g)" using group_signaled [OF assms(1,2)] assms(4) by simp
  with rng lv assms(3-10) show ?thesis
    by (auto simp: cam_sync_handle_register_user_payload_def Let_def live_def send_event_eq
        cam_sync_register_callback_def)
qed

definition demo_payload_memory :: user_memory where
  "demo_payload_memory = no_memory\<lparr>um_payload := (\<lambda>_. Some \<lparr>upi_sync_obj = 3, upi_payload = (7, 8)\<rparr>)\<rparr>"

lemma demo_half:
  fixes s defines "s \<equiv> snd (cam_sync_signal simple_core 1 CAM_SYNC_STATE_SIGNALED_SUCCESS 0 demo_sync4)"
  shows "sync_inv s" "is_group (sync_table s 3)" "row_state (sync_table s 3) = CAM_SYNC_STATE_SIGNALED_SUCCESS"
    "remaining (sync_table s 3) = 1"
proof -
  have st: "sync_signaled_state CAM_SYNC_STATE_SIGNALED_SUCCESS" by (simp add: sync_signaled_state_def)
  note run = demo_inv(5) demo4_rows(1) st
  note rep = signal_report [where A = simple_core and cause = 0, OF run prod.collapse [symmetric], folded s_def]
  show "sync_inv s" by (rule rep(2))
  show "is_group (sync_table s 3)"
    using signal_keeps_group [OF run demo4_rows(3) prod.collapse [symmetric], of simple_core 0] by (simp add: s_def)
  show "row_state (sync_table s 3) = CAM_SYNC_STATE_SIGNALED_SUCCESS" "remaining (sync_table s 3) = 1"
    using rep(4) [of 3] by (simp_all add: demo4_rows parent_step_state)
qed

theorem payload_event_before_completion_witness:
  "let s = snd (cam_sync_signal simple_core 1 CAM_SYNC_STATE_SIGNALED_SUCCESS 0 demo_sync4);
       (rc, s') = cam_sync_handle_register_user_payload demo_env demo_payload_memory
                    \<lparr>ioc_id = 4, ioc_size = 24, ioc_ptr = 64\<rparr> s
   in rc = 0 \<and> \<not> signaled (sync_table s' 3) \<and> vdev_events s' = vdev_events s @
        [sync_event (sync_version s) 3 CAM_SYNC_STATE_SIGNALED_SUCCESS CAM_SYNC_COMMON_REG_PAYLOAD_EVENT (7, 8)]"
  using payload_event_before_completion [OF demo_half(1,2) _ _ _ _ _ _ prod.collapse [symmetric]
      prod.collapse [symmetric], of "\<lparr>ioc_id = 4, ioc_size = 24, ioc_ptr = 64\<rparr>" demo_env demo_payload_memory "(7, 8)"]
    demo_half(3,4)
  by (simp add: Let_def split_beta demo_payload_memory_def demo_env_def sync_signaled_state_def)

text \<open>Signals, successful or refused, on a table without dma fences never bring the count of a group
  down to the number of its pending children when it was above.\<close>

lemma parent_step_mask [simp]: "ext_fence_mask (parent_step evq st r) = ext_fence_mask r"
  by (auto simp: parent_step_def cam_sync_util_update_parent_state_def)

lemma signal_orphaned:
  assumes inv: "sync_inv s" and pl: "\<And>i. plain (sync_table s i)" and g: "is_group (sync_table s g)"
    and lt: "card (kids (sync_table s) g) < unat (remaining (sync_table s g))"
    and s'_def: "s' = snd (cam_sync_signal A c st cause s)"
  shows "sync_inv s' \<and> (\<forall>i. plain (sync_table s' i)) \<and> is_group (sync_table s' g) \<and>
     card (kids (sync_table s') g) < unat (remaining (sync_table s' g))"
proof -
  have i': "sync_inv s'" unfolding s'_def by (rule signal_inv [OF inv])
  show ?thesis
  proof (cases "cam_sync_signal_validate_util c st s = 0 \<and> ref_cnt (sync_table s c) = 1")
    case False
    have same: "sync_table s' = sync_table s \<or>
        sync_table s' = (sync_table s)(c := (sync_table s c)\<lparr>ref_cnt := ref_cnt (sync_table s c) - 1\<rparr>)"
      using False by (auto simp: s'_def signal_cases)
    have "kids (sync_table s') g = kids (sync_table s) g" using same by (auto simp: kids_def split: if_splits)
    moreover have "remaining (sync_table s' g) = remaining (sync_table s g)" "is_group (sync_table s' g)"
      "plain (sync_table s' i)" for i
      using same g pl [of i] pl [of c] by (auto simp: plain_def is_group_def live_def split: if_splits)
    ultimately show ?thesis using i' lt by simp
  next
    case True
    then have st: "sync_signaled_state st" and rdy: "ready (sync_table s c)"
      using pl by (auto simp: validate_zero ready_def)
    note run = inv rdy st prod.collapse [symmetric]
    have v: "cam_sync_signal_validate_util c st s = 0" "plain (sync_table s c)" "ref_cnt (sync_table s c) = 1"
      using True pl by auto
    have tb: "sync_table s' = signal_table (cam_sync_eventq s) c st
           ((sync_table s)(c := (sync_table s c)\<lparr>ref_cnt := 0, row_state := st\<rparr>))"
      unfolding s'_def by (rule signal_plain(2) [OF inv v prod.collapse [symmetric]])
    have plm: "plain (sync_table s' i)" for i using pl [of i] pl [of c] by (auto simp: tb signal_table_def plain_def)
    have grp: "is_group (sync_table s' g)"
      unfolding s'_def by (rule signal_keeps_group [OF inv rdy st g prod.collapse [symmetric]])
    have gc: "g \<noteq> c" using g rdy by (auto simp: ready_def is_group_def is_indv_def)
    have k: "kids (sync_table s') g = kids (sync_table s) g - {c}"
      unfolding s'_def by (rule signal_report(3) [OF run])
    have wf: "tbl_wf (sync_table s)" using inv by (simp add: sync_inv_def)
    have rem: "remaining (sync_table s' g) = (if c \<in> kids (sync_table s) g
        then remaining (sync_table s g) - 1 else remaining (sync_table s g))"
      unfolding s'_def by (subst signal_report(4) [OF run gc]) simp
    have nz: "remaining (sync_table s g) \<noteq> 0" using lt by auto
    have "card (kids (sync_table s') g) < unat (remaining (sync_table s' g))"
    proof (cases "c \<in> kids (sync_table s) g")
      case True
      then have "0 < card (kids (sync_table s) g)" using finite_kids [OF wf] by (auto simp: card_gt_0_iff)
      moreover have "card (kids (sync_table s') g) = card (kids (sync_table s) g) - 1"
        unfolding k using True by (rule card_Diff_singleton)
      ultimately show ?thesis using lt True nz by (simp add: rem unat_dec)
    next
      case False
      then show ?thesis using lt by (simp add: k rem)
    qed
    with i' plm grp show ?thesis by blast
  qed
qed

lemma run_signals_orphaned:
  assumes "sync_inv s" "\<And>i. plain (sync_table s i)" "is_group (sync_table s g)"
    and "card (kids (sync_table s) g) < unat (remaining (sync_table s g))"
  shows "\<not> signaled (sync_table (run_signals A cause xs s) g)"
  using assms
proof (induction xs arbitrary: s)
  case Nil
  then show ?case using group_signaled [of s g] by auto
next
  case (Cons x xs)
  then show ?case using signal_orphaned [OF Cons.prems refl, of A "fst x" "snd x" cause]
    by (cases x) (auto intro: Cons.IH)
qed

text \<open>C40: destroying an object that a merged object still waits for starves the merged object: its count is
  not adjusted, so no sequence of signals whatsoever completes it any more.\<close>

theorem destroyed_child_starves_group:
  assumes "sync_inv s" and "\<forall>i. plain (sync_table s i)" and "c \<in> kids (sync_table s) g"
    and "cam_sync_destroy A c s = (rc, s1)"
  shows "rc = 0 \<and> is_group (sync_table s1 g) \<and> \<not> signaled (sync_table (run_signals A cause xs s1) g)"
proof -
  have wf: "tbl_wf (sync_table s)" using assms(1) by (simp add: sync_inv_def)
  have g: "is_group (sync_table s g)" "g \<noteq> c" "live (sync_table s c)"
    using parents_group [OF wf, of g c] assms(3) by (auto simp: kids_def is_indv_def)
  note run = destroy_run [OF assms(1,4)]
  have tb: "sync_table s1 = destroy_table c (sync_table s)" using run(2) g(3) by simp
  have inv1: "sync_inv s1" using destroy_inv [OF assms(1), of A c] assms(4) by simp
  have k: "kids (sync_table s1) g = kids (sync_table s) g - {c}"
    using g(2) by (simp add: tb destroy_table_kids [OF wf])
  have "card (kids (sync_table s1) g) < card (kids (sync_table s) g)"
    unfolding k using assms(3) finite_kids [OF wf] by (intro card_Diff1_less) auto
  then have lt: "card (kids (sync_table s1) g) < unat (remaining (sync_table s1 g))"
    using tbl_wfD(3) [OF wf, of g] g(2) by (simp add: tb)
  have "plain (sync_table s1 i)" for i
    using assms(2) by (simp add: tb destroy_table_def plain_def)
  moreover have grp: "is_group (sync_table s1 g)" using g by (simp add: tb is_group_def)
  ultimately show ?thesis using run_signals_orphaned [OF inv1 _ grp lt] run(1) g(3) by simp
qed

theorem destroyed_child_starves_group_witness:
  "let s1 = snd (cam_sync_destroy simple_core 1 demo_sync4)
   in \<not> signaled (sync_table (run_signals simple_core 0 [(2, CAM_SYNC_STATE_SIGNALED_SUCCESS)] s1) 3)"
proof -
  have "\<forall>i. plain (sync_table demo_sync4 i)" by (simp add: demo_sync4_eq plain_def)
  from destroyed_child_starves_group [OF demo_inv(5) this _ prod.collapse [symmetric], of 1 3 simple_core 0
      "[(2, CAM_SYNC_STATE_SIGNALED_SUCCESS)]"]
  show ?thesis by (simp add: Let_def demo4_rows)
qed

lemma close_signal_loop_unreferenced:
  assumes "\<And>j. i \<le> j \<Longrightarrow> row_state (sync_table s j) = CAM_SYNC_STATE_ACTIVE \<Longrightarrow> ref_cnt (sync_table s j) \<noteq> 1"
  shows "work_queue (snd (close_signal_loop A k i rc s)) = work_queue s \<and>
         cb_trace (snd (close_signal_loop A k i rc s)) = cb_trace s"
  using assms
proof (induction k arbitrary: i rc s)
  case (Suc k)
  define t where "t = (if row_state (sync_table s i) = CAM_SYNC_STATE_ACTIVE
      then snd (cam_sync_signal A i CAM_SYNC_STATE_SIGNALED_ERROR CAM_SYNC_COMMON_RELEASE_EVENT s) else s)"
  define rc' where "rc' = (if row_state (sync_table s i) = CAM_SYNC_STATE_ACTIVE
      then fst (cam_sync_signal A i CAM_SYNC_STATE_SIGNALED_ERROR CAM_SYNC_COMMON_RELEASE_EVENT s) else rc)"
  have eq: "close_signal_loop A (Suc k) i rc s = close_signal_loop A k (i + 1) rc' t"
    by (simp add: Let_def split_beta t_def rc'_def)
  have "t = s \<or> t = upd_row i (\<lambda>r. r\<lparr>ref_cnt := ref_cnt r - 1\<rparr>) s"
    using Suc.prems [of i] by (auto simp: t_def signal_cases)
  then have tb: "\<And>j. i + 1 \<le> j \<Longrightarrow> sync_table t j = sync_table s j"
    "work_queue t = work_queue s" "cb_trace t = cb_trace s" by auto
  have "work_queue (snd (close_signal_loop A k (i + 1) rc' t)) = work_queue t \<and>
        cb_trace (snd (close_signal_loop A k (i + 1) rc' t)) = cb_trace t"
  proof (rule Suc.IH)
    fix j
    assume j: "i + 1 \<le> j" "row_state (sync_table t j) = CAM_SYNC_STATE_ACTIVE"
    then show "ref_cnt (sync_table t j) \<noteq> 1" using Suc.prems [of j] tb(1) [of j] by simp
  qed
  with tb(2,3) show ?case by (simp only: eq)
qed simp

lemma close_destroy_loop_trace: "cb_trace (snd (close_destroy_loop A k i rc s)) = cb_trace s"
proof (induction k arbitrary: i rc s)
  case (Suc k)
  have "cb_trace (snd (cam_sync_destroy A i s)) = cb_trace s"
    by (simp add: destroy_eq Let_def cam_sync_deinit_object_def split_beta)
  with Suc show ?case by (simp add: Let_def split_beta)
qed simp

text \<open>the last close does not signal every active object, although its comment says so: an active object
  whose reference count is not one only has its count decremented before it is destroyed. When no
  active object has exactly one reference, the close runs none of the callbacks that are registered
  on the objects, only those that were queued before.\<close>

theorem close_runs_no_callbacks_without_reference:
  assumes "open_cnt s = 1"
    and "\<forall>i. row_state (sync_table s i) = CAM_SYNC_STATE_ACTIVE \<longrightarrow> ref_cnt (sync_table s i) \<noteq> 1"
    and "cam_sync_close A s = (rc, s')"
  shows "cb_trace s' = cb_trace s @ work_queue s"
proof -
  define n where "n = nat (CAM_SYNC_MAX_OBJS - 1)"
  define r1 where "r1 = close_signal_loop A n 1 0 (s\<lparr>open_cnt := open_cnt s - 1\<rparr>)"
  define r2 where "r2 = close_destroy_loop A n 1 (fst r1) (flush_workqueue (snd r1))"
  have "cb_trace s' = cb_trace (snd r2)"
    using assms(1,3) unfolding cam_sync_close_def n_def [symmetric]
    by (auto simp: Let_def split_beta r1_def r2_def)
  moreover have "work_queue (snd r1) = work_queue s \<and> cb_trace (snd r1) = cb_trace s"
    unfolding r1_def
    using close_signal_loop_unreferenced [of 1 "s\<lparr>open_cnt := open_cnt s - 1\<rparr>" A n 0] assms(2) by simp
  ultimately show ?thesis by (simp add: r2_def close_destroy_loop_trace flush_workqueue_eq)
qed

theorem close_runs_no_callbacks_without_reference_witness:
  "let s = snd (cam_sync_register_callback True (Some 5) 6 1 demo_sync1)
   in callback_list (sync_table s 1) \<noteq> [] \<and> cb_trace (snd (cam_sync_close simple_core s)) = []"
proof -
  let ?s = "snd (cam_sync_register_callback True (Some 5) 6 1 demo_sync1)"
  have s: "?s = upd_row 1 (\<lambda>r. r\<lparr>callback_list :=
      [\<lparr>cbi_func = 5, cbi_data = 6, cbi_status = 0, cbi_sync_obj = 1\<rparr>]\<rparr>) demo_sync1"
    by (simp add: demo_sync1_eq(2) cam_sync_register_callback_def Let_def sync_signaled_state_def upd_row_def)
  have f: "open_cnt ?s = 1"
    "\<forall>i. row_state (sync_table ?s i) = CAM_SYNC_STATE_ACTIVE \<longrightarrow> ref_cnt (sync_table ?s i) \<noteq> 1"
    "cb_trace ?s = []" "work_queue ?s = []" "callback_list (sync_table ?s 1) \<noteq> []"
    unfolding s by (simp_all add: demo_sync1_eq(2))
  with close_runs_no_callbacks_without_reference [OF f(1,2) prod.collapse [symmetric], of simple_core]
  show ?thesis by (simp add: Let_def)
qed

text \<open>importing an fd that belongs to no fence is not reported by the status of the ioctl: for a well-formed
  batch whose first fd is unknown, the ioctl returns 0, although nothing was imported. Only the
  batch that is copied back tells: one entry more is processed, it has the reason \<open>-EINVAL\<close>, and the
  others are as they were sent. No sync object is created.\<close>

theorem import_unknown_fd_returns_zero:
  assumes "ioc_id k = 13" and "ioc_size k = SIZEOF_cam_generic_fence_cmd_args" and "ioc_ptr k \<noteq> 0"
    and "um_cmd_args um (ioc_ptr k) = Some args" and "fca_input_handle_type args = CAM_HANDLE_USER_POINTER"
    and "fca_fence_type args = 2" and "um_write_ok um (fca_input_handle args)"
    and "cam_generic_fence_alloc_validate_input_info_util um args = (0, Some fi)" and "fence_cfg fi = c # cs"
    and "cam_dma_fence_get_fence_from_fd A (fc_dma_fence_fd c) (dma_dev s) = (None, d)"
  shows "cam_sync_dev_ioctl A e um True (Some k) s =
     (0, Out_fences (fi\<lparr>num_fences_processed := num_fences_processed fi + 1,
            fence_cfg := c\<lparr>fc_reason_code := - EINVAL\<rparr> # cs\<rparr>), upd_dma d s)"
proof -
  have "num_fences_requested fi \<noteq> 0"
    using assms(8) by (auto simp: cam_generic_fence_alloc_validate_input_info_util_def Let_def
        split: if_splits option.splits)
  then obtain n where n: "unat (num_fences_requested fi) = Suc n"
    by (metis not0_implies_Suc unat_eq_zero)
  have loop: "dma_import_loop A (c # take n cs) s = (0, 1, c\<lparr>fc_reason_code := - EINVAL\<rparr> # take n cs, upd_dma d s)"
    using assms(10) by simp
  have "cam_generic_fence_handle_dma_import A um args s =
      (0, Out_fences (fi\<lparr>num_fences_processed := num_fences_processed fi + 1,
            fence_cfg := c\<lparr>fc_reason_code := - EINVAL\<rparr> # cs\<rparr>), upd_dma d s)"
    using assms(7-9) n loop by (simp add: cam_generic_fence_handle_dma_import_def run_batch_def del: dma_import_loop.simps)
  then show ?thesis using assms(1-6)
    by (simp add: cam_sync_dev_ioctl_def cam_generic_fence_parser_def cam_generic_fence_process_dma_fence_cmd_def)
qed

theorem import_unknown_fd_returns_zero_witness:
  "let fi = \<lparr>num_fences_requested = 1, num_fences_processed = 0, fence_cfg = [demo_cfg]\<rparr>;
       um = no_memory\<lparr>um_cmd_args := (\<lambda>_. Some \<lparr>fca_fence_type = 2, fca_input_handle_type = 1,
              fca_input_data_size = SIZEOF_cam_generic_fence_input_info, fca_input_handle = 8\<rparr>),
            um_fence_input := (\<lambda>_ _. Some fi)\<rparr>
   in fst (cam_sync_dev_ioctl simple_core demo_env um True
        (Some \<lparr>ioc_id = 13, ioc_size = SIZEOF_cam_generic_fence_cmd_args, ioc_ptr = 64\<rparr>) demo_sync0) = 0"
proof -
  define fi where "fi = \<lparr>num_fences_requested = 1, num_fences_processed = 0, fence_cfg = [demo_cfg]\<rparr>"
  define args where "args = \<lparr>fca_fence_type = 2, fca_input_handle_type = 1,
      fca_input_data_size = SIZEOF_cam_generic_fence_input_info, fca_input_handle = 8\<rparr>"
  define um where "um = no_memory\<lparr>um_cmd_args := (\<lambda>_. Some args), um_fence_input := (\<lambda>_ _. Some fi)\<rparr>"
  have l: "find_fence_loop k i fd (\<lambda>_. zero_dma_row) = None" for k i fd
    by (induction k arbitrary: i) simp_all
  have un: "cam_dma_fence_get_fence_from_fd simple_core (fc_dma_fence_fd demo_cfg) (dma_dev demo_sync0) = (None, demo_dma)"
    by (simp add: cam_dma_fence_get_fence_from_fd_def dma_fence_find_fence_in_table_def l
        cam_dma_fence_get_fence_from_sync_file_def simple_core_def del: find_fence_loop.simps)
  have v: "cam_generic_fence_alloc_validate_input_info_util um args = (0, Some fi)"
    by (simp add: cam_generic_fence_alloc_validate_input_info_util_def um_def args_def fi_def)
  have "cam_sync_dev_ioctl simple_core demo_env um True
      (Some \<lparr>ioc_id = 13, ioc_size = SIZEOF_cam_generic_fence_cmd_args, ioc_ptr = 64\<rparr>) demo_sync0 =
     (0, Out_fences (fi\<lparr>num_fences_processed := num_fences_processed fi + 1,
            fence_cfg := demo_cfg\<lparr>fc_reason_code := - EINVAL\<rparr> # []\<rparr>), upd_dma demo_dma demo_sync0)"
    by (rule import_unknown_fd_returns_zero [OF _ _ _ _ _ _ _ v _ un]) (simp_all add: um_def args_def fi_def no_memory_def)
  then show ?thesis unfolding fi_def [symmetric] args_def [symmetric] um_def [symmetric] Let_def by simp
qed

end
