(* ===== verification/Cam_Sync_Fence.thy ===== *)
theory Cam_Sync_Fence
  imports Cam_Sync_User
begin

section \<open>Sync objects tied to dma fences\<close>

text \<open>
  The two directions of the bridge between \<open>cam_sync.c\<close> and \<open>cam_sync_dma_fence.c\<close>: a signal of the fence
  that reaches the sync object, and a signal of the sync object that reaches the fence.
\<close>

text \<open>The object \<open>so\<close> and the row \<open>i\<close> of the fence table, with file descriptor \<open>fd\<close>, point at each other.\<close>

definition tied :: "int \<Rightarrow> int \<Rightarrow> int \<Rightarrow> 'x sync_device \<Rightarrow> bool" where
  "tied so i fd s \<longleftrightarrow>
     (let r = sync_table s so; d = dfd_rows (dma_dev s) i in
      bit (ext_fence_mask r) CAM_GENERIC_FENCE_TYPE_DMA_FENCE \<and> dfi_fd (row_dma_fence_info r) = fd \<and>
      dfi_row_idx (row_dma_fence_info r) = i \<and> dfr_fd d = fd \<and> dfr_sync_obj d = so \<and>
      dfr_sync_cb d = Some cam_sync_dma_fence_cb_fn \<and> dfr_cb_registered_for_sync d \<and> \<not> dfr_sync_signal_dma d)"

text \<open>How the error of a fence and the state of an object translate into each other.\<close>

definition state_of_status :: "int \<Rightarrow> int" where
  "state_of_status e = (if e = 0 then CAM_SYNC_STATE_SIGNALED_SUCCESS
     else if e = - ECANCELED then CAM_SYNC_STATE_SIGNALED_CANCEL else CAM_SYNC_STATE_SIGNALED_ERROR)"

definition status_of_state :: "int \<Rightarrow> int" where
  "status_of_state st = (if st = CAM_SYNC_STATE_SIGNALED_SUCCESS then 0
     else if st = CAM_SYNC_STATE_SIGNALED_ERROR then - EADV else - ECANCELED)"

lemma state_of_status_signaled: "sync_signaled_state (state_of_status e)"
  by (simp add: state_of_status_def sync_signaled_state_def)

text \<open>What a dispatch leaves of the object itself.\<close>

lemma dispatch_own_row:
  assumes "tbl_wf (sync_table m)" and "live (sync_table m c)"
  shows "row_state (sync_table (dispatch_and_signal_parents c st cause m) c) = row_state (sync_table m c) \<and>
     signaled (sync_table (dispatch_and_signal_parents c st cause m) c)"
  using assms by (simp add: dispatch_and_signal_parents_table signal_table_def dispatched_def)

lemma signal_fd_calls:
  assumes "dma_fence_find_fence_in_table fd d = Some (i, f)"
    and "dfr_state (dfd_rows d i) = CAM_DMA_FENCE_STATE_ACTIVE" and "\<not> dfr_sync_signal_dma (dfd_rows d i)"
    and "dfr_sync_cb (dfd_rows d i) = Some cb" and "dfr_cb_registered_for_sync (dfd_rows d i)"
    and "\<not> core_is_signaled A f (dfd_core d)"
    and "core_signal A f (if e \<noteq> 0 then core_set_error A f e (dfd_core d) else dfd_core d) = (rc, [i], x)"
  shows "\<exists>d'. cam_dma_fence_signal_fd A \<lparr>sig_dma_fence_fd = fd, sig_status = e\<rparr> d =
       (rc, [\<lparr>call_fn = cb, call_sync_obj = dfr_sync_obj (dfd_rows d i), call_fd = fd,
              call_status = core_get_status_locked A f x\<rparr>], d') \<and>
     dfr_state (dfd_rows d' i) = CAM_DMA_FENCE_STATE_SIGNALED"
  using assms find_fence_in_table_Some [OF assms(1)]
  by (simp add: cam_dma_fence_signal_fd_def dma_fence_signal_fence_def dma_fence_signal_cb_def Let_def
      upd_core_def split: if_splits)

text \<open>The callback of a fence on the object tied to it.\<close>

lemma fence_cb_eq:
  assumes "sync_inv s" and "is_indv (sync_table s so)" and "row_state (sync_table s so) = CAM_SYNC_STATE_ACTIVE"
    and "bit (ext_fence_mask (sync_table s so)) CAM_GENERIC_FENCE_TYPE_DMA_FENCE"
    and "dfi_fd (row_dma_fence_info (sync_table s so)) = fd" and "e \<le> 0"
  defines "m \<equiv> upd_row so (\<lambda>r. r\<lparr>ref_cnt := 0, row_state := state_of_status e\<rparr>) s"
  shows "snd (cam_sync_dma_fence_cb so fd (if e = 0 then 1 else e) s) = (if ref_cnt (sync_table s so) = 1
      then dispatch_and_signal_parents so (state_of_status e) 0 m
      else upd_row so (\<lambda>r. r\<lparr>ref_cnt := ref_cnt r - 1\<rparr>) s)"
    and "tbl_wf (sync_table m)" and "live (sync_table m so)"
proof -
  have wf: "tbl_wf (sync_table s)" using assms(1) by (simp add: sync_inv_def)
  have so: "0 < so" "so < CAM_SYNC_MAX_OBJS"
    using row_okD(1,2) [OF tbl_wfD(1) [OF wf], of so] assms(2) by (auto simp: is_indv_def)
  have st: "(if (if e = 0 then 1 else e) < 0 then (if (if e = 0 then 1 else e) = - ECANCELED
       then CAM_SYNC_STATE_SIGNALED_CANCEL else CAM_SYNC_STATE_SIGNALED_ERROR)
       else CAM_SYNC_STATE_SIGNALED_SUCCESS) = state_of_status e"
    using assms(6) by (auto simp: state_of_status_def)
  have v: "cam_sync_signal_validate_util so (state_of_status e) s = 0"
    using assms(2,3) state_of_status_signaled [of e] by (simp add: validate_zero)
  show "snd (cam_sync_dma_fence_cb so fd (if e = 0 then 1 else e) s) = (if ref_cnt (sync_table s so) = 1
      then dispatch_and_signal_parents so (state_of_status e) 0 m
      else upd_row so (\<lambda>r. r\<lparr>ref_cnt := ref_cnt r - 1\<rparr>) s)"
    unfolding cam_sync_dma_fence_cb_def Let_def st v using so assms(4,5)
    by (auto simp: atomic_dec_and_test_def m_def upd_row_def)
  show "tbl_wf (sync_table m)"
    using good_set_state [OF good_ref_cnt, of "{}" s so "\<lambda>_. 0" so "state_of_status e"] assms(1,2)
      state_of_status_signaled [of e] by (auto simp: m_def good_def sync_inv_good upd_row_def is_indv_def live_def)
  show "live (sync_table m so)"
    using state_of_status_signaled [of e] by (auto simp: m_def live_def sync_signaled_state_def)
qed

text \<open>A device with one object, created together with a fence by the batch operation, and a reference to it.\<close>

definition demo_fenced :: "simple_core_state sync_device" where
  "demo_fenced = snd (snd (snd (sync_create_loop simple_core [demo_cfg\<lparr>fc_fence_sel_mask := 4\<rparr>] demo_sync0)))"

definition demo_fenced1 :: "simple_core_state sync_device" where
  "demo_fenced1 = snd (cam_sync_get_obj_ref 1 demo_fenced)"

lemma demo_fenced_inv: "sync_inv demo_fenced" "sync_inv demo_fenced1"
  by (simp_all add: demo_fenced_def demo_fenced1_def sync_create_loop_inv get_obj_ref_inv del: sync_create_loop.simps)

definition demo_fenced_row :: sync_table_row where
  "demo_fenced_row = (demo_row 1 ''f'')\<lparr>ext_fence_mask := 4, row_dma_fence_info :=
     \<lparr>dfi_fd = 5, dfi_row_idx = 0, dfi_sync_created_with_dma = True\<rparr>\<rparr>"

lemma demo_fence_steps:
  "cam_dma_fence_get_put_ref simple_core True 0 demo_dma1 = (0, demo_dma1)"
  "cam_dma_fence_register_cb simple_core (Some 1) (Some 0) (Some cb) demo_dma1 =
     (0, demo_dma1\<lparr>dfd_rows := (\<lambda>_. zero_dma_row)(0 := zero_dma_row\<lparr>dfr_fence := Some 0, dfr_fd := 5,
          dfr_state := CAM_DMA_FENCE_STATE_ACTIVE, dfr_name := ''f'', dfr_cb_registered_for_sync := True,
          dfr_sync_obj := 1, dfr_sync_cb := Some cb\<rparr>),
        dfd_core := simple_state\<lparr>sc_next := 1, sc_fd := 6, sc_cbs := (\<lambda>_. [])(0 := [0])\<rparr>\<rparr>)"
  by (simp_all add: cam_dma_fence_get_put_ref_def cam_dma_fence_register_cb_def demo_dma1_row simple_core_def
      simple_state_def upd_core_def upd_dma_row_def zero_dma_row_def)

lemma demo_create_util:
  "cam_sync_create_util simple_core ''f'' (Some \<lparr>dsc_dma_fence_row_idx = 0, dsc_fd = 5,
     dsc_sync_created_with_dma = True\<rparr>) (upd_dma demo_dma1 demo_sync0) =
   (0, Some 1, demo_sync0\<lparr>sync_table := (\<lambda>_. zero_row)(1 := demo_fenced_row),
      sync_bitmap := set_bit_at 1 (set_bit_at 0 (\<lambda>_. False)), dma_dev := demo_dma1\<rparr>)"
  by (simp add: cam_sync_create_util_def demo_free cam_sync_init_row_def Let_def demo_fence_steps demo_row_def
      demo_fenced_row_def zero_row_def upd_row_def upd_dma_def Bit_Operations.set_bit_eq_or)

lemma demo_fenced_eq:
  "sync_table demo_fenced = (\<lambda>_. zero_row)(1 := demo_fenced_row)"
  "dma_dev demo_fenced = snd (cam_dma_fence_register_cb simple_core (Some 1) (Some 0) (Some cam_sync_dma_fence_cb_fn) demo_dma1)"
  "sync_table demo_fenced1 = (\<lambda>_. zero_row)(1 := demo_fenced_row\<lparr>ref_cnt := 1\<rparr>)"
  "dma_dev demo_fenced1 = dma_dev demo_fenced"
proof -
  show t: "sync_table demo_fenced = (\<lambda>_. zero_row)(1 := demo_fenced_row)"
    "dma_dev demo_fenced = snd (cam_dma_fence_register_cb simple_core (Some 1) (Some 0) (Some cam_sync_dma_fence_cb_fn) demo_dma1)"
    by (simp_all add: demo_fenced_def demo_cfg_def demo_create demo_create_util demo_fence_steps Let_def bit_simps)
  show "sync_table demo_fenced1 = (\<lambda>_. zero_row)(1 := demo_fenced_row\<lparr>ref_cnt := 1\<rparr>)"
    "dma_dev demo_fenced1 = dma_dev demo_fenced"
    by (simp_all add: demo_fenced1_def cam_sync_get_obj_ref_def t(1) demo_fenced_row_def upd_row_def demo_row_def zero_row_def)
qed

text \<open>C11: a fence that user space signals through its fd reaches the sync object tied to it: given that the
  kernel's fence core runs the registered callback once and reports the error that was set (or
  success), the object gets the state that translates that error and is complete, provided exactly one
  reference to it is held. With any other count, in particular none, which is how the object is
  created, only the count goes down: the object stays active and uncompleted, and since the fence is
  signalled only once, the fence will never complete it.\<close>

theorem fence_signal_reaches_object:
  assumes "sync_inv s" and "tied so i fd s"
    and "dma_fence_find_fence_in_table fd (dma_dev s) = Some (i, f)"
    and "dfr_state (dfd_rows (dma_dev s) i) = CAM_DMA_FENCE_STATE_ACTIVE"
    and "is_indv (sync_table s so)" and "row_state (sync_table s so) = CAM_SYNC_STATE_ACTIVE"
    and "\<not> core_is_signaled A f (dfd_core (dma_dev s))" and "e \<le> 0"
    and "core_signal A f (if e \<noteq> 0 then core_set_error A f e (dfd_core (dma_dev s)) else dfd_core (dma_dev s)) =
           (0, [i], x)"
    and "core_get_status_locked A f x = (if e = 0 then 1 else e)"
    and "SIZEOF_cam_dma_fence_signal \<le> fca_input_data_size args"
    and "um_dma_signal um (fca_input_handle args) (fca_input_data_size args) =
           Some \<lparr>sig_dma_fence_fd = fd, sig_status = e\<rparr>"
    and "cam_generic_fence_handle_dma_signal A um args s = (rc, s')"
  shows "rc = 0 \<and> dfr_state (dfd_rows (dma_dev s') i) = CAM_DMA_FENCE_STATE_SIGNALED \<and>
     (if ref_cnt (sync_table s so) = 1
      then row_state (sync_table s' so) = state_of_status e \<and> signaled (sync_table s' so)
      else sync_table s' = (sync_table s)(so := (sync_table s so)\<lparr>ref_cnt := ref_cnt (sync_table s so) - 1\<rparr>) \<and>
           \<not> signaled (sync_table s' so))"
proof -
  have t: "dfr_sync_cb (dfd_rows (dma_dev s) i) = Some cam_sync_dma_fence_cb_fn"
    "\<not> dfr_sync_signal_dma (dfd_rows (dma_dev s) i)" "dfr_cb_registered_for_sync (dfd_rows (dma_dev s) i)"
    "dfr_sync_obj (dfd_rows (dma_dev s) i) = so" "dfi_fd (row_dma_fence_info (sync_table s so)) = fd"
    "bit (ext_fence_mask (sync_table s so)) CAM_GENERIC_FENCE_TYPE_DMA_FENCE"
    using assms(2) by (simp_all add: tied_def Let_def)
  from signal_fd_calls [OF assms(3,4) t(2,1,3) assms(7,9)] obtain d' where
    d': "cam_dma_fence_signal_fd A \<lparr>sig_dma_fence_fd = fd, sig_status = e\<rparr> (dma_dev s) =
       (0, [\<lparr>call_fn = cam_sync_dma_fence_cb_fn, call_sync_obj = so, call_fd = fd,
             call_status = (if e = 0 then 1 else e)\<rparr>], d')"
    "dfr_state (dfd_rows d' i) = CAM_DMA_FENCE_STATE_SIGNALED" by (auto simp: t(4) assms(10))
  have s': "rc = 0" "s' = snd (cam_sync_dma_fence_cb so fd (if e = 0 then 1 else e) (upd_dma d' s))"
    using assms(13) d'(1) leD [OF assms(11)] by (simp_all add: cam_generic_fence_handle_dma_signal_def assms(12))
  have inv': "sync_inv (upd_dma d' s)"
    using inv_upd_dma [OF assms(1) signal_fd_wf [OF d'(1) inv_dma [OF assms(1)]]] .
  note cb = fence_cb_eq [OF inv', of so fd e]
  have "\<not> signaled (sync_table s so)"
    using assms(1,5,6) by (auto simp: sync_inv_def settled_def row_settled_def is_indv_def)
  then show ?thesis
    using cb dispatch_own_row [OF cb(2,3), of "state_of_status e" 0] assms(5,6,8) t(5,6) s' d'(2) by simp
qed

definition demo_core :: "int \<Rightarrow> simple_core_state" where
  "demo_core e = simple_state\<lparr>sc_next := 1, sc_fd := 6, sc_error := (\<lambda>_. 0)(0 := e),
     sc_signaled := (\<lambda>_. False)(0 := True), sc_cbs := (\<lambda>_. [])(0 := [])\<rparr>"

lemma demo_fenced_ok:
  assumes "s = demo_fenced \<or> s = demo_fenced1"
  shows "tied 1 0 5 s" and "dma_fence_find_fence_in_table 5 (dma_dev s) = Some (0, 0)"
    and "dfr_state (dfd_rows (dma_dev s) 0) = CAM_DMA_FENCE_STATE_ACTIVE" and "is_indv (sync_table s 1)"
    and "row_state (sync_table s 1) = CAM_SYNC_STATE_ACTIVE" and "\<not> core_is_signaled simple_core 0 (dfd_core (dma_dev s))"
    and "e \<noteq> 0 \<Longrightarrow> core_signal simple_core 0 (if e \<noteq> 0 then core_set_error simple_core 0 e (dfd_core (dma_dev s))
       else dfd_core (dma_dev s)) = (0, [0], demo_core e)"
    and "dfr_fence (dfd_rows (dma_dev s) 0) = Some 0"
proof -
  have d: "dma_dev s = snd (cam_dma_fence_register_cb simple_core (Some 1) (Some 0) (Some cam_sync_dma_fence_cb_fn) demo_dma1)"
    and t: "\<exists>c. sync_table s 1 = demo_fenced_row\<lparr>ref_cnt := c\<rparr>"
    using assms by (auto simp: demo_fenced_eq intro: exI [of _ "ref_cnt demo_fenced_row"])
  show "tied 1 0 5 s" using d t by (auto simp: tied_def demo_fence_steps demo_fenced_row_def bit_simps)
  show "dma_fence_find_fence_in_table 5 (dma_dev s) = Some (0, 0)"
    unfolding d demo_fence_steps by (simp add: dma_fence_find_fence_in_table_def numeral_eq_Suc)
  show "dfr_state (dfd_rows (dma_dev s) 0) = CAM_DMA_FENCE_STATE_ACTIVE" "dfr_fence (dfd_rows (dma_dev s) 0) = Some 0"
    by (simp_all add: d demo_fence_steps)
  show "is_indv (sync_table s 1)" "row_state (sync_table s 1) = CAM_SYNC_STATE_ACTIVE"
    using t by (auto simp: demo_fenced_row_def is_indv_def live_def)
  show "\<not> core_is_signaled simple_core 0 (dfd_core (dma_dev s))"
    unfolding d demo_fence_steps by (simp add: simple_core_def simple_state_def)
  show "core_signal simple_core 0 (if e \<noteq> 0 then core_set_error simple_core 0 e (dfd_core (dma_dev s))
     else dfd_core (dma_dev s)) = (0, [0], demo_core e)" if "e \<noteq> 0"
    unfolding d demo_fence_steps
    using that by (simp add: simple_core_def simple_state_def simple_signal_def demo_core_def)
qed

theorem fence_signal_reaches_object_witness:
  "let um = no_memory\<lparr>um_dma_signal := (\<lambda>_ _. Some \<lparr>sig_dma_fence_fd = 5, sig_status = - ECANCELED\<rparr>)\<rparr>;
       args = \<lparr>fca_fence_type = 2, fca_input_handle_type = 1, fca_input_data_size = 32, fca_input_handle = 0\<rparr>;
       s1 = snd (cam_generic_fence_handle_dma_signal simple_core um args demo_fenced1);
       s0 = snd (cam_generic_fence_handle_dma_signal simple_core um args demo_fenced)
   in row_state (sync_table s1 1) = CAM_SYNC_STATE_SIGNALED_CANCEL \<and> signaled (sync_table s1 1) \<and>
      \<not> signaled (sync_table s0 1) \<and> row_state (sync_table s0 1) = CAM_SYNC_STATE_ACTIVE"
proof -
  define um where "um = no_memory\<lparr>um_dma_signal := (\<lambda>_ _. Some \<lparr>sig_dma_fence_fd = 5, sig_status = - ECANCELED\<rparr>)\<rparr>"
  define args where "args = \<lparr>fca_fence_type = 2, fca_input_handle_type = 1, fca_input_data_size = 32, fca_input_handle = 0\<rparr>"
  have st: "core_get_status_locked simple_core 0 (demo_core (- ECANCELED)) = (if - ECANCELED = (0 :: int) then 1 else - ECANCELED)"
    by (simp add: simple_core_def demo_core_def)
  have sz: "SIZEOF_cam_dma_fence_signal \<le> fca_input_data_size args" by (simp add: args_def)
  have mem: "um_dma_signal um (fca_input_handle args) (fca_input_data_size args) =
      Some \<lparr>sig_dma_fence_fd = 5, sig_status = - ECANCELED\<rparr>" by (simp add: um_def)
  note r = fence_signal_reaches_object [OF _ demo_fenced_ok(1-6) _ demo_fenced_ok(7) st sz mem prod.collapse [symmetric]]
  have "row_state (sync_table (snd (cam_generic_fence_handle_dma_signal simple_core um args demo_fenced1)) 1) =
      CAM_SYNC_STATE_SIGNALED_CANCEL \<and> signaled (sync_table (snd (cam_generic_fence_handle_dma_signal simple_core um args demo_fenced1)) 1)"
    using r [of demo_fenced1] demo_fenced_inv by (simp add: demo_fenced_eq state_of_status_def)
  moreover have "\<not> signaled (sync_table (snd (cam_generic_fence_handle_dma_signal simple_core um args demo_fenced)) 1) \<and>
      row_state (sync_table (snd (cam_generic_fence_handle_dma_signal simple_core um args demo_fenced)) 1) = CAM_SYNC_STATE_ACTIVE"
    using r [of demo_fenced] demo_fenced_inv by (simp add: demo_fenced_eq demo_fenced_row_def)
  ultimately show ?thesis unfolding um_def [symmetric] args_def [symmetric] Let_def by blast
qed

subsection \<open>From the object to the fence\<close>

lemma internal_signal_silent:
  assumes "0 \<le> i" and "i < CAM_DMA_FENCE_MAX_FENCES" and "dfr_fence (dfd_rows d i) = Some f"
    and "dfr_state (dfd_rows d i) \<noteq> CAM_DMA_FENCE_STATE_SIGNALED" and "\<not> core_is_signaled A f (dfd_core d)"
    and "core_signal A f (if e \<noteq> 0 then core_set_error A f e (dfd_core d) else dfd_core d) = (rc, cbs, x)"
    and "set cbs \<subseteq> {i}"
  shows "\<exists>d'. cam_dma_fence_internal_signal A i \<lparr>sig_dma_fence_fd = fd, sig_status = e\<rparr> d = (rc, [], d') \<and>
     dfd_core d' = x \<and> dfr_state (dfd_rows d' i) = CAM_DMA_FENCE_STATE_SIGNALED"
proof -
  let ?d = "(upd_dma_row i (\<lambda>r. r\<lparr>dfr_sync_signal_dma := True\<rparr>) d)\<lparr>dfd_core := x\<rparr>"
  have "run_fence_cbs A f cbs ?d = ([], ?d)" by (rule run_fence_cbs_silent [OF assms(7)]) simp
  then show ?thesis using assms(1-6)
    by (simp add: cam_dma_fence_internal_signal_def dma_fence_signal_fence_def upd_core_def Let_def
        upd_dma_row_def split: if_splits)
qed

lemma signal_mid_tied:
  assumes "tied so i fd s" and "ref_cnt (sync_table s so) = 1" and "sync_signaled_state st"
    and "cam_dma_fence_internal_signal A i \<lparr>sig_dma_fence_fd = fd, sig_status = status_of_state st\<rparr> (dma_dev s) =
      (rc, [], d')"
  shows "signal_mid A so st s = upd_dma d' (upd_row so (\<lambda>r. r\<lparr>ref_cnt := 0, row_state := st\<rparr>) s)"
proof -
  define s2 where "s2 = upd_row so (\<lambda>r. r\<lparr>ref_cnt := 0, row_state := st\<rparr>) s"
  have row: "bit (ext_fence_mask (sync_table s so)) CAM_GENERIC_FENCE_TYPE_DMA_FENCE"
    "dfi_fd (row_dma_fence_info (sync_table s so)) = fd" "dfi_row_idx (row_dma_fence_info (sync_table s so)) = i"
    using assms(1) by (simp_all add: tied_def Let_def)
  have "cam_sync_signal_dma_fence_util A (sync_table s2 so) st s2 = (rc, upd_dma d' s2)"
    using assms(3,4) row(2,3)
    by (auto simp: cam_sync_signal_dma_fence_util_def Let_def s2_def status_of_state_def sync_signaled_state_def)
  moreover have "upd_row so (\<lambda>r. r\<lparr>row_state := st\<rparr>) (upd_row so (\<lambda>r. r\<lparr>ref_cnt := ref_cnt r - 1\<rparr>) s) = s2"
    using assms(2) by (simp add: s2_def upd_row_def)
  moreover have "bit (ext_fence_mask (sync_table s2 so)) CAM_GENERIC_FENCE_TYPE_DMA_FENCE"
    using row(1) by (simp add: s2_def)
  ultimately show ?thesis unfolding s2_def [symmetric] by (simp add: signal_mid_def Let_def)
qed

text \<open>C12: signalling a sync object with its last reference signals the fence tied to it, exactly once and with
  the error that translates the state (none for success), and marks the fence row signalled; the
  fence core's callback does not come back to the object. The object itself gets its state, is
  complete and queues its callbacks as any other object does.\<close>

theorem object_signal_reaches_fence:
  assumes "sync_inv s" and "tied so i fd s" and "0 \<le> i" and "i < CAM_DMA_FENCE_MAX_FENCES"
    and "is_indv (sync_table s so)" and "row_state (sync_table s so) = CAM_SYNC_STATE_ACTIVE"
    and "ref_cnt (sync_table s so) = 1" and "sync_signaled_state st"
    and "dfr_fence (dfd_rows (dma_dev s) i) = Some f"
    and "dfr_state (dfd_rows (dma_dev s) i) = CAM_DMA_FENCE_STATE_ACTIVE"
    and "\<not> core_is_signaled A f (dfd_core (dma_dev s))"
    and "core_signal A f (if status_of_state st \<noteq> 0 then core_set_error A f (status_of_state st) (dfd_core (dma_dev s))
           else dfd_core (dma_dev s)) = (rc0, cbs, x)" and "set cbs \<subseteq> {i}"
    and "cam_sync_signal A so st cause s = (rc, s')"
  shows "rc = 0 \<and> row_state (sync_table s' so) = st \<and> signaled (sync_table s' so) \<and>
     dfd_core (dma_dev s') = x \<and> dfr_state (dfd_rows (dma_dev s') i) = CAM_DMA_FENCE_STATE_SIGNALED \<and>
     work_queue s' = work_queue s @ map (\<lambda>cb. cb\<lparr>cbi_status := st\<rparr>) (callback_list (sync_table s so)) @
       parent_cbs st (sync_table s) (parents_list (sync_table s so))"
proof -
  have wf: "tbl_wf (sync_table s)" using assms(1) by (simp add: sync_inv_def)
  have rng: "0 < so" "so < CAM_SYNC_MAX_OBJS"
    using row_okD(1,2) [OF tbl_wfD(1) [OF wf], of so] assms(5) by (auto simp: is_indv_def)
  have v: "cam_sync_signal_validate_util so st s = 0" using assms(5,6,8) by (simp add: validate_zero)
  have act: "dfr_state (dfd_rows (dma_dev s) i) \<noteq> CAM_DMA_FENCE_STATE_SIGNALED" using assms(10) by simp
  obtain d' where d': "cam_dma_fence_internal_signal A i \<lparr>sig_dma_fence_fd = fd, sig_status = status_of_state st\<rparr> (dma_dev s) =
      (rc0, [], d')" "dfd_core d' = x" "dfr_state (dfd_rows d' i) = CAM_DMA_FENCE_STATE_SIGNALED"
    using internal_signal_silent [OF assms(3,4,9) act assms(11,12,13), of fd] by blast
  define m where "m = upd_dma d' (upd_row so (\<lambda>r. r\<lparr>ref_cnt := 0, row_state := st\<rparr>) s)"
  have mid: "signal_mid A so st s = m" unfolding m_def by (rule signal_mid_tied [OF assms(2,7,8) d'(1)])
  have eq: "s' = dispatch_and_signal_parents so st cause m" "rc = 0"
    using assms(14) v assms(7) rng by (auto simp: signal_cases mid)
  have "good {} s" "dma_wf (dma_dev s)" using assms(1) by (auto simp: sync_inv_good)
  from signal_mid_good(1) [OF this assms(5,8), of A] have wfm: "tbl_wf (sync_table m)" by (simp add: mid good_def)
  have rm: "sync_table m = (sync_table s)(so := (sync_table s so)\<lparr>ref_cnt := 0, row_state := st\<rparr>)"
    by (simp add: m_def upd_row_def)
  have indv: "is_indv (sync_table m so)" using assms(5,8) by (auto simp: rm is_indv_def live_def sync_signaled_state_def)
  have "parent_cbs st (sync_table m) (parents_list (sync_table s so)) =
      parent_cbs st (sync_table s) (parents_list (sync_table s so))"
    by (rule own_parent_cbs [OF wf]) (simp add: rm)
  with dispatch_and_signal_queue [OF wfm indv assms(8), of cause]
  have "work_queue s' = work_queue s @ map (\<lambda>cb. cb\<lparr>cbi_status := st\<rparr>) (callback_list (sync_table s so)) @
      parent_cbs st (sync_table s) (parents_list (sync_table s so))"
    by (simp add: eq(1) rm) (simp add: m_def)
  moreover have "dma_dev s' = d'" by (simp add: eq(1) m_def)
  ultimately show ?thesis using dispatch_own_row [OF wfm, of so st cause] indv eq d'(2,3)
    by (simp add: is_indv_def rm)
qed

theorem object_signal_reaches_fence_witness:
  "let s' = snd (cam_sync_signal simple_core 1 CAM_SYNC_STATE_SIGNALED_ERROR 0 demo_fenced1)
   in row_state (sync_table s' 1) = CAM_SYNC_STATE_SIGNALED_ERROR \<and> sc_error (dfd_core (dma_dev s')) 0 = - EADV \<and>
      sc_signaled (dfd_core (dma_dev s')) 0"
proof -
  have e: "status_of_state CAM_SYNC_STATE_SIGNALED_ERROR = - EADV" by (simp add: status_of_state_def)
  have r: "ref_cnt (sync_table demo_fenced1 1) = 1" by (simp add: demo_fenced_eq)
  note ok = demo_fenced_ok [of demo_fenced1, OF disjI2 [OF refl]]
  have "core_signal simple_core 0 (if status_of_state CAM_SYNC_STATE_SIGNALED_ERROR \<noteq> 0
      then core_set_error simple_core 0 (status_of_state CAM_SYNC_STATE_SIGNALED_ERROR) (dfd_core (dma_dev demo_fenced1))
      else dfd_core (dma_dev demo_fenced1)) = (0, [0], demo_core (- EADV))"
    unfolding e by (rule ok(7)) simp
  from object_signal_reaches_fence [OF demo_fenced_inv(2) ok(1) _ _ ok(4,5) r _ ok(8,3,6) this _ prod.collapse [symmetric]]
  show ?thesis by (simp add: sync_signaled_state_def Let_def demo_core_def)
qed

end
