(* ===== verification/Cam_Hdl.thy ===== *)
theory Cam_Hdl
  imports Cam_Interfaces
begin

unbundle bit_operations_syntax

section \<open>The handle table of the request manager\<close>

text \<open>
  Model of \<open>camera-kernel/drivers/cam_req_mgr/cam_req_mgr_util.c\<close>: sessions, links and devices are named
  by 32-bit handles that carry the index of a row of a table, a type and eight random bits
  (\<open>cam_req_mgr_util_priv.h\<close>). The table pointer \<open>hdl_tbl\<close> is an option, NULL is \<^const>\<open>None\<close>; the private data
  and the operations of a handle are pointers, \<^const>\<open>None\<close> for NULL. A C \<open>int32_t\<close> handle is kept as the
  32-bit word; an operation that returns either a handle or a negative errno returns an \<^typ>\<open>int\<close>. The
  random byte is an argument.
\<close>

subsection \<open>The format of a handle\<close>

abbreviation CAM_REQ_MGR_MAX_HANDLES_V2 :: int where "CAM_REQ_MGR_MAX_HANDLES_V2 \<equiv> 256"
abbreviation CAM_REQ_MGR_HDL_IDX_MASK :: u32 where "CAM_REQ_MGR_HDL_IDX_MASK \<equiv> 0xFF"
abbreviation CAM_REQ_MGR_HDL_TYPE_MASK :: u32 where "CAM_REQ_MGR_HDL_TYPE_MASK \<equiv> 0xF"
abbreviation HDL_TYPE_DEV :: u32 where "HDL_TYPE_DEV \<equiv> 1"
abbreviation HDL_TYPE_SESSION :: u32 where "HDL_TYPE_SESSION \<equiv> 2"
abbreviation CAM_CRM :: u64 where "CAM_CRM \<equiv> 4"

definition GET_DEV_HANDLE :: "u8 \<Rightarrow> u32 \<Rightarrow> int \<Rightarrow> u32" where
  "GET_DEV_HANDLE rnd ty idx =
     push_bit 16 (ucast rnd) OR push_bit 12 0 OR push_bit 8 ty OR push_bit 0 (word_of_int idx)"

definition CAM_REQ_MGR_GET_HDL_IDX :: "u32 \<Rightarrow> int" where
  "CAM_REQ_MGR_GET_HDL_IDX hdl = uint (hdl AND CAM_REQ_MGR_HDL_IDX_MASK)"

definition CAM_REQ_MGR_GET_HDL_TYPE :: "u32 \<Rightarrow> u32" where
  "CAM_REQ_MGR_GET_HDL_TYPE hdl = drop_bit 8 hdl AND CAM_REQ_MGR_HDL_TYPE_MASK"

subsection \<open>The table\<close>

datatype hdl_state = HDL_FREE | HDL_ACTIVE

record handle =
  session_hdl :: u32
  hdl_value :: u32
  hdl_type :: u32
  hdl_state :: hdl_state
  dev_id :: u64
  hdl_ops :: "nat option"
  hdl_priv :: "nat option"

record cam_req_mgr_util_hdl_tbl =
  hdls :: "int \<Rightarrow> handle"
  hdl_bitmap :: bitmap

record cam_create_dev_hdl =
  cdh_session_hdl :: u32
  cdh_dev_id :: u64
  cdh_ops :: "nat option"
  cdh_priv :: "nat option"

type_synonym hdl_table = "cam_req_mgr_util_hdl_tbl option"

definition zero_handle :: handle where
  "zero_handle = \<lparr>session_hdl = 0, hdl_value = 0, hdl_type = 0, hdl_state = HDL_FREE, dev_id = 0,
     hdl_ops = None, hdl_priv = None\<rparr>"

text \<open>\<open>other\<close> is the table that another caller has installed between the first test and the taking of the
  lock, if any.\<close>

definition cam_req_mgr_util_init :: "bool \<Rightarrow> hdl_table \<Rightarrow> bool \<Rightarrow> hdl_table \<Rightarrow> int \<times> hdl_table" where
  "cam_req_mgr_util_init alloc_tbl other alloc_bitmap t =
     (if t \<noteq> None then (- EINVAL, t)
      else if \<not> alloc_tbl then (- ENOMEM, t)
      else if other \<noteq> None then (- EEXIST, other)
      else if \<not> alloc_bitmap then (- ENOMEM, None)
      else (0, Some \<lparr>hdls = (\<lambda>_. zero_handle), hdl_bitmap = (\<lambda>_. False)\<rparr>))"

definition cam_req_mgr_util_deinit :: "hdl_table \<Rightarrow> int \<times> hdl_table" where
  "cam_req_mgr_util_deinit t = (if t = None then (- EINVAL, t) else (0, None))"

fun free_hdls_loop :: "nat \<Rightarrow> int \<Rightarrow> cam_req_mgr_util_hdl_tbl \<Rightarrow> cam_req_mgr_util_hdl_tbl" where
  "free_hdls_loop 0 i h = h"
| "free_hdls_loop (Suc k) i h =
     free_hdls_loop k (i + 1)
       (if hdl_state (hdls h i) = HDL_ACTIVE
        then h\<lparr>hdls := (hdls h)(i := (hdls h i)\<lparr>hdl_state := HDL_FREE\<rparr>),
               hdl_bitmap := clear_bit_at i (hdl_bitmap h)\<rparr>
        else h)"

definition cam_req_mgr_util_free_hdls :: "hdl_table \<Rightarrow> int \<times> hdl_table" where
  "cam_req_mgr_util_free_hdls t =
     (case t of None \<Rightarrow> (- EINVAL, t)
      | Some h \<Rightarrow> (0, Some ((free_hdls_loop (nat CAM_REQ_MGR_MAX_HANDLES_V2) 0 h)\<lparr>hdl_bitmap := (\<lambda>_. False)\<rparr>)))"

definition cam_get_free_handle_index :: "cam_req_mgr_util_hdl_tbl \<Rightarrow> int \<times> cam_req_mgr_util_hdl_tbl" where
  "cam_get_free_handle_index h =
     (let idx = find_first_zero_bit (hdl_bitmap h) 256 in
      if CAM_REQ_MGR_MAX_HANDLES_V2 \<le> idx \<or> idx < 0 then (- ENOSR, h)
      else (idx, h\<lparr>hdl_bitmap := set_bit_at idx (hdl_bitmap h)\<rparr>))"

definition cam_create_session_hdl :: "u8 \<Rightarrow> nat option \<Rightarrow> hdl_table \<Rightarrow> int \<times> hdl_table" where
  "cam_create_session_hdl rand priv t =
     (case t of None \<Rightarrow> (- EINVAL, t)
      | Some h \<Rightarrow>
          let (idx, h1) = cam_get_free_handle_index h in
          if idx < 0 then (idx, Some h1)
          else
            let hdl = GET_DEV_HANDLE rand HDL_TYPE_SESSION idx in
            (uint hdl, Some (h1\<lparr>hdls := (hdls h1)(idx :=
               \<lparr>session_hdl = hdl, hdl_value = hdl, hdl_type = HDL_TYPE_SESSION, hdl_state = HDL_ACTIVE,
                dev_id = CAM_CRM, hdl_ops = None, hdl_priv = priv\<rparr>)\<rparr>)))"

definition cam_create_device_hdl ::
  "bool \<Rightarrow> u8 \<Rightarrow> cam_create_dev_hdl \<Rightarrow> hdl_table \<Rightarrow> int \<times> hdl_table" where
  "cam_create_device_hdl crm_active rand hdl_data t =
     (if \<not> crm_active then (- EINVAL, t)
      else case t of None \<Rightarrow> (- EINVAL, t)
      | Some h \<Rightarrow>
          let (idx, h1) = cam_get_free_handle_index h in
          if idx < 0 then (idx, Some h1)
          else
            let hdl = GET_DEV_HANDLE rand HDL_TYPE_DEV idx in
            (uint hdl, Some (h1\<lparr>hdls := (hdls h1)(idx :=
               \<lparr>session_hdl = cdh_session_hdl hdl_data, hdl_value = hdl, hdl_type = HDL_TYPE_DEV,
                hdl_state = HDL_ACTIVE, dev_id = cdh_dev_id hdl_data, hdl_ops = cdh_ops hdl_data,
                hdl_priv = cdh_priv hdl_data\<rparr>)\<rparr>)))"

definition cam_get_device_priv :: "u32 \<Rightarrow> hdl_table \<Rightarrow> nat option" where
  "cam_get_device_priv dev_hdl t =
     (case t of None \<Rightarrow> None
      | Some h \<Rightarrow>
          let idx = CAM_REQ_MGR_GET_HDL_IDX dev_hdl; ty = CAM_REQ_MGR_GET_HDL_TYPE dev_hdl in
          if CAM_REQ_MGR_MAX_HANDLES_V2 \<le> idx then None
          else if hdl_value (hdls h idx) \<noteq> dev_hdl then None
          else if hdl_state (hdls h idx) \<noteq> HDL_ACTIVE then None
          else if HDL_TYPE_DEV \<noteq> ty \<and> HDL_TYPE_SESSION \<noteq> ty then None
          else hdl_priv (hdls h idx))"

definition cam_get_device_ops :: "u32 \<Rightarrow> hdl_table \<Rightarrow> nat option" where
  "cam_get_device_ops dev_hdl t =
     (case t of None \<Rightarrow> None
      | Some h \<Rightarrow>
          let idx = CAM_REQ_MGR_GET_HDL_IDX dev_hdl; ty = CAM_REQ_MGR_GET_HDL_TYPE dev_hdl in
          if CAM_REQ_MGR_MAX_HANDLES_V2 \<le> idx then None
          else if hdl_state (hdls h idx) \<noteq> HDL_ACTIVE then None
          else if HDL_TYPE_DEV \<noteq> ty \<and> HDL_TYPE_SESSION \<noteq> ty then None
          else if hdl_value (hdls h idx) \<noteq> dev_hdl then None
          else hdl_ops (hdls h idx))"

definition cam_destroy_hdl :: "u32 \<Rightarrow> u32 \<Rightarrow> hdl_table \<Rightarrow> int \<times> hdl_table" where
  "cam_destroy_hdl dev_hdl dev_hdl_type t =
     (case t of None \<Rightarrow> (- EINVAL, t)
      | Some h \<Rightarrow>
          let idx = CAM_REQ_MGR_GET_HDL_IDX dev_hdl; ty = CAM_REQ_MGR_GET_HDL_TYPE dev_hdl in
          if CAM_REQ_MGR_MAX_HANDLES_V2 \<le> idx then (- EINVAL, t)
          else if hdl_state (hdls h idx) \<noteq> HDL_ACTIVE then (- EINVAL, t)
          else if ty \<noteq> dev_hdl_type then (- EINVAL, t)
          else if hdl_value (hdls h idx) \<noteq> dev_hdl then (- EINVAL, t)
          else (0, Some (h\<lparr>hdls := (hdls h)(idx :=
                    (hdls h idx)\<lparr>hdl_state := HDL_FREE, hdl_ops := None, hdl_priv := None\<rparr>),
                  hdl_bitmap := clear_bit_at idx (hdl_bitmap h)\<rparr>)))"

definition cam_destroy_device_hdl :: "u32 \<Rightarrow> hdl_table \<Rightarrow> int \<times> hdl_table" where
  "cam_destroy_device_hdl dev_hdl t = cam_destroy_hdl dev_hdl HDL_TYPE_DEV t"

definition cam_destroy_session_hdl :: "u32 \<Rightarrow> hdl_table \<Rightarrow> int \<times> hdl_table" where
  "cam_destroy_session_hdl dev_hdl t = cam_destroy_hdl dev_hdl HDL_TYPE_SESSION t"

subsection \<open>Encoding\<close>

lemma masks: "0xFF = (mask 8 :: u32)" "0xF = (mask 4 :: u32)"
  by (simp_all add: mask_eq_exp_minus_1)

lemma take_bit_self: "uint (x :: u32) < 2 ^ m \<Longrightarrow> take_bit m x = x"
  by (rule unsigned_word_eqI [where ?'a = int]) (simp add: unsigned_take_bit_eq take_bit_int_eq_self)

lemma uint_take_bit_less: "uint (take_bit m (x :: u32)) < 2 ^ m"
  by (simp add: unsigned_take_bit_eq)

lemma small_bits:
  assumes "take_bit m x = (x :: u32)"
  shows "bit x n \<Longrightarrow> n < m"
  using assms by (metis bit_take_bit_iff)

lemma hdl_fields:
  assumes "0 \<le> idx" "idx < 256" "ty < 16"
  shows "CAM_REQ_MGR_GET_HDL_IDX (GET_DEV_HANDLE rnd ty idx) = idx"
    and "CAM_REQ_MGR_GET_HDL_TYPE (GET_DEV_HANDLE rnd ty idx) = ty"
    and "ucast (drop_bit 16 (GET_DEV_HANDLE rnd ty idx)) = rnd"
    and "take_bit 24 (GET_DEV_HANDLE rnd ty idx) = GET_DEV_HANDLE rnd ty idx"
proof -
  define w :: u32 where "w = word_of_int idx"
  have uw: "uint w = idx" using assms by (simp add: w_def uint_word_of_int)
  have ti: "take_bit 8 w = w"
    using assms uw by (intro take_bit_self) simp
  have tt: "take_bit 4 ty = ty"
    using assms by (intro take_bit_self) (simp add: word_less_alt)
  note bi = small_bits [OF ti] and bt = small_bits [OF tt]
  have br: "bit rnd n \<Longrightarrow> n < 8" for n using bit_imp_le_length [of rnd n] by simp
  have H: "GET_DEV_HANDLE rnd ty idx = push_bit 16 (ucast rnd) OR push_bit 8 ty OR w"
    by (simp add: GET_DEV_HANDLE_def w_def)
  have "GET_DEV_HANDLE rnd ty idx AND 0xFF = w"
    unfolding H masks
    by (rule bit_word_eqI) (auto simp: bit_simps dest: bi bt)
  then show "CAM_REQ_MGR_GET_HDL_IDX (GET_DEV_HANDLE rnd ty idx) = idx"
    by (simp add: CAM_REQ_MGR_GET_HDL_IDX_def uw)
  show "CAM_REQ_MGR_GET_HDL_TYPE (GET_DEV_HANDLE rnd ty idx) = ty"
    unfolding CAM_REQ_MGR_GET_HDL_TYPE_def H masks
    by (rule bit_word_eqI) (auto simp: bit_simps dest: bi bt)
  show "ucast (drop_bit 16 (GET_DEV_HANDLE rnd ty idx)) = rnd"
    unfolding H by (rule bit_word_eqI) (auto simp: bit_simps dest: bi bt)
  show "take_bit 24 (GET_DEV_HANDLE rnd ty idx) = GET_DEV_HANDLE rnd ty idx"
    unfolding H by (rule bit_word_eqI) (auto simp: bit_simps dest: bi bt br)
qed

lemma hdl_positive:
  assumes "0 \<le> idx" "idx < 256" "ty < 16" "ty \<noteq> 0"
  shows "0 < uint (GET_DEV_HANDLE rnd ty idx) \<and> uint (GET_DEV_HANDLE rnd ty idx) < 2 ^ 24"
proof
  have "GET_DEV_HANDLE rnd ty idx \<noteq> 0"
    using hdl_fields(2) [OF assms(1-3), of rnd] assms(4) by (auto simp: CAM_REQ_MGR_GET_HDL_TYPE_def)
  then show "0 < uint (GET_DEV_HANDLE rnd ty idx)" by (simp add: order_less_le uint_0_iff)
  show "uint (GET_DEV_HANDLE rnd ty idx) < 2 ^ 24"
    using uint_take_bit_less [of 24 "GET_DEV_HANDLE rnd ty idx"] hdl_fields(4) [OF assms(1-3)] by simp
qed

subsection \<open>The invariant\<close>

text \<open>The bitmap marks exactly the active rows, an active row stores a handle of its own index and of
  one of the two types.\<close>

definition row_hdl_ok :: "int \<Rightarrow> handle \<Rightarrow> bool" where
  "row_hdl_ok i r \<longleftrightarrow> (hdl_state r = HDL_ACTIVE \<longrightarrow>
     (hdl_type r = HDL_TYPE_DEV \<or> hdl_type r = HDL_TYPE_SESSION) \<and>
     (\<exists>rnd. hdl_value r = GET_DEV_HANDLE rnd (hdl_type r) i))"

definition hdl_wf :: "cam_req_mgr_util_hdl_tbl \<Rightarrow> bool" where
  "hdl_wf h \<longleftrightarrow> (\<forall>i. hdl_state (hdls h i) = HDL_ACTIVE \<longrightarrow> 0 \<le> i \<and> i < CAM_REQ_MGR_MAX_HANDLES_V2) \<and>
     (\<forall>i. 0 \<le> i \<and> i < CAM_REQ_MGR_MAX_HANDLES_V2 \<longrightarrow>
        hdl_bitmap h i = (hdl_state (hdls h i) = HDL_ACTIVE)) \<and>
     (\<forall>i. row_hdl_ok i (hdls h i))"

definition tbl_ok :: "hdl_table \<Rightarrow> bool" where
  "tbl_ok t \<longleftrightarrow> (case t of None \<Rightarrow> True | Some h \<Rightarrow> hdl_wf h)"

text \<open>The handle of an active row, read off the row, and the rows that are in use.\<close>

definition active :: "hdl_table \<Rightarrow> int \<Rightarrow> bool" where
  "active t i \<longleftrightarrow> (case t of None \<Rightarrow> False | Some h \<Rightarrow> hdl_state (hdls h i) = HDL_ACTIVE)"

text \<open>\<open>names t hdl\<close>: the handle is one that the table has given out and not taken back.\<close>

definition names :: "hdl_table \<Rightarrow> u32 \<Rightarrow> bool" where
  "names t hdl \<longleftrightarrow> (case t of None \<Rightarrow> False
     | Some h \<Rightarrow> hdl_state (hdls h (CAM_REQ_MGR_GET_HDL_IDX hdl)) = HDL_ACTIVE \<and>
                hdl_value (hdls h (CAM_REQ_MGR_GET_HDL_IDX hdl)) = hdl)"

lemma hdl_wfD:
  assumes "hdl_wf h"
  shows "hdl_state (hdls h i) = HDL_ACTIVE \<Longrightarrow> 0 \<le> i \<and> i < CAM_REQ_MGR_MAX_HANDLES_V2"
    and "0 \<le> i \<Longrightarrow> i < CAM_REQ_MGR_MAX_HANDLES_V2 \<Longrightarrow> hdl_bitmap h i = (hdl_state (hdls h i) = HDL_ACTIVE)"
    and "row_hdl_ok i (hdls h i)"
  using assms by (auto simp: hdl_wf_def)

lemma idx_range [simp]: "0 \<le> CAM_REQ_MGR_GET_HDL_IDX hdl" "CAM_REQ_MGR_GET_HDL_IDX hdl < 256"
  "\<not> 256 \<le> CAM_REQ_MGR_GET_HDL_IDX hdl"
  using uint_take_bit_less [of 8 hdl]
  by (simp_all add: CAM_REQ_MGR_GET_HDL_IDX_def masks take_bit_eq_mask [symmetric] not_le)

text \<open>In a well-formed table a handle names a row exactly when it is the value stored in it; its index and
  type are those of the row.\<close>

lemma active_value:
  assumes "hdl_wf h" "hdl_state (hdls h i) = HDL_ACTIVE"
  shows "CAM_REQ_MGR_GET_HDL_IDX (hdl_value (hdls h i)) = i"
    and "CAM_REQ_MGR_GET_HDL_TYPE (hdl_value (hdls h i)) = hdl_type (hdls h i)"
    and "hdl_type (hdls h i) = HDL_TYPE_DEV \<or> hdl_type (hdls h i) = HDL_TYPE_SESSION"
proof -
  have i: "0 \<le> i" "i < 256" using hdl_wfD(1) [OF assms] by auto
  have ok: "row_hdl_ok i (hdls h i)" by (rule hdl_wfD(3) [OF assms(1)])
  with assms(2) show ty: "hdl_type (hdls h i) = HDL_TYPE_DEV \<or> hdl_type (hdls h i) = HDL_TYPE_SESSION"
    by (simp add: row_hdl_ok_def)
  then have "hdl_type (hdls h i) < 16" by auto
  note f = hdl_fields [OF i this]
  from ok assms(2) obtain rnd where "hdl_value (hdls h i) = GET_DEV_HANDLE rnd (hdl_type (hdls h i)) i"
    by (auto simp: row_hdl_ok_def)
  with f show "CAM_REQ_MGR_GET_HDL_IDX (hdl_value (hdls h i)) = i"
    "CAM_REQ_MGR_GET_HDL_TYPE (hdl_value (hdls h i)) = hdl_type (hdls h i)" by auto
qed

lemma get_priv_eq:
  assumes "hdl_wf h"
  shows "cam_get_device_priv hdl (Some h) = (if names (Some h) hdl
           then hdl_priv (hdls h (CAM_REQ_MGR_GET_HDL_IDX hdl)) else None)"
    and "cam_get_device_ops hdl (Some h) = (if names (Some h) hdl
           then hdl_ops (hdls h (CAM_REQ_MGR_GET_HDL_IDX hdl)) else None)"
  using active_value(2,3) [OF assms, of "CAM_REQ_MGR_GET_HDL_IDX hdl"]
  by (auto simp: cam_get_device_priv_def cam_get_device_ops_def names_def Let_def)

text \<open>Taking a free row.\<close>

lemma free_index_spec:
  assumes "hdl_wf h" "cam_get_free_handle_index h = (idx, h1)"
  shows "if idx < 0 then idx = - ENOSR \<and> h1 = h \<and> (\<forall>i. 0 \<le> i \<and> i < 256 \<longrightarrow> hdl_state (hdls h i) = HDL_ACTIVE)
    else idx < 256 \<and> hdl_state (hdls h idx) \<noteq> HDL_ACTIVE \<and> h1 = h\<lparr>hdl_bitmap := set_bit_at idx (hdl_bitmap h)\<rparr> \<and>
         (\<forall>i. 0 \<le> i \<and> i < idx \<longrightarrow> hdl_state (hdls h i) = HDL_ACTIVE)"
proof -
  define k where "k = find_first_zero_bit (hdl_bitmap h) 256"
  have eq: "(idx, h1) = (if 256 \<le> k then (- ENOSR, h) else (k, h\<lparr>hdl_bitmap := set_bit_at k (hdl_bitmap h)\<rparr>))"
    using assms(2) find_first_zero_bit_ge [of "hdl_bitmap h" 256]
    unfolding cam_get_free_handle_index_def Let_def k_def [symmetric] by (auto split: if_splits)
  show ?thesis
  proof (cases "256 \<le> k")
    case True
    then have "\<forall>i. 0 \<le> i \<and> i < 256 \<longrightarrow> hdl_bitmap h i"
      using find_first_zero_bit_full [of 256 "hdl_bitmap h"] by (simp add: k_def)
    with hdl_wfD(2) [OF assms(1)] eq True show ?thesis by auto
  next
    case False
    have ge: "0 \<le> k" by (simp add: k_def)
    have "\<not> hdl_bitmap h k" using False find_first_zero_bit_free [of "hdl_bitmap h" 256] by (simp add: k_def)
    moreover have "0 \<le> i \<Longrightarrow> i < k \<Longrightarrow> hdl_bitmap h i" for i
      using find_first_zero_bit_least [of i "hdl_bitmap h" 256] by (simp add: k_def)
    ultimately show ?thesis using hdl_wfD(2) [OF assms(1)] eq False ge by auto
  qed
qed

text \<open>Filling a free row keeps the invariant and adds exactly the new handle.\<close>

lemma install_row:
  assumes wf: "hdl_wf h" and i: "0 \<le> i" "i < 256" "hdl_state (hdls h i) \<noteq> HDL_ACTIVE"
    and r: "hdl_state r = HDL_ACTIVE" "hdl_type r = HDL_TYPE_DEV \<or> hdl_type r = HDL_TYPE_SESSION"
      "hdl_value r = GET_DEV_HANDLE rnd (hdl_type r) i"
  defines "h' \<equiv> h\<lparr>hdl_bitmap := set_bit_at i (hdl_bitmap h), hdls := (hdls h)(i := r)\<rparr>"
  shows "hdl_wf h'" and "names (Some h') x \<longleftrightarrow> x = hdl_value r \<or> names (Some h) x"
    and "\<not> names (Some h) (hdl_value r)" and "CAM_REQ_MGR_GET_HDL_IDX (hdl_value r) = i"
proof -
  have ty: "hdl_type r < 16" using r(2) by auto
  show idx: "CAM_REQ_MGR_GET_HDL_IDX (hdl_value r) = i" using hdl_fields(1) [OF i(1,2) ty] r(3) by simp
  have "row_hdl_ok i r" using r by (auto simp: row_hdl_ok_def)
  then show "hdl_wf h'" using wf i r by (auto simp: hdl_wf_def h'_def)
  show "\<not> names (Some h) (hdl_value r)" using i(3) by (simp add: names_def idx)
  show "names (Some h') x \<longleftrightarrow> x = hdl_value r \<or> names (Some h) x"
    using i(3) r(1) idx by (auto simp: names_def h'_def)
qed

text \<open>What a creation returns and does, for both kinds of handles.\<close>

definition dev_row :: "u32 \<Rightarrow> cam_create_dev_hdl \<Rightarrow> handle" where
  "dev_row hdl d = \<lparr>session_hdl = cdh_session_hdl d, hdl_value = hdl, hdl_type = HDL_TYPE_DEV,
     hdl_state = HDL_ACTIVE, dev_id = cdh_dev_id d, hdl_ops = cdh_ops d, hdl_priv = cdh_priv d\<rparr>"

definition session_row :: "u32 \<Rightarrow> nat option \<Rightarrow> handle" where
  "session_row hdl p = \<lparr>session_hdl = hdl, hdl_value = hdl, hdl_type = HDL_TYPE_SESSION,
     hdl_state = HDL_ACTIVE, dev_id = CAM_CRM, hdl_ops = None, hdl_priv = p\<rparr>"

lemma row_simps [simp]:
  "hdl_value (dev_row hdl d) = hdl" "hdl_type (dev_row hdl d) = HDL_TYPE_DEV" "hdl_state (dev_row hdl d) = HDL_ACTIVE"
  "hdl_ops (dev_row hdl d) = cdh_ops d" "hdl_priv (dev_row hdl d) = cdh_priv d"
  "hdl_value (session_row hdl p) = hdl" "hdl_type (session_row hdl p) = HDL_TYPE_SESSION"
  "hdl_state (session_row hdl p) = HDL_ACTIVE" "hdl_ops (session_row hdl p) = None" "hdl_priv (session_row hdl p) = p"
  by (simp_all add: dev_row_def session_row_def)

lemma create_cases:
  assumes wf: "hdl_wf h"
    and run: "cam_create_device_hdl True rnd d (Some h) = (v, t) \<and> row = (\<lambda>x. dev_row x d) \<and> ty = HDL_TYPE_DEV \<or>
      cam_create_session_hdl rnd p (Some h) = (v, t) \<and> row = (\<lambda>x. session_row x p) \<and> ty = HDL_TYPE_SESSION"
  obtains (full) "v = - ENOSR" "t = Some h" "\<And>i. 0 \<le> i \<Longrightarrow> i < 256 \<Longrightarrow> hdl_state (hdls h i) = HDL_ACTIVE"
  | (new) i where "0 \<le> i" "i < 256" "hdl_state (hdls h i) \<noteq> HDL_ACTIVE" "v = uint (GET_DEV_HANDLE rnd ty i)" "0 < v"
      "t = Some (h\<lparr>hdl_bitmap := set_bit_at i (hdl_bitmap h), hdls := (hdls h)(i := row (GET_DEV_HANDLE rnd ty i))\<rparr>)"
proof -
  obtain idx h1 where fi: "cam_get_free_handle_index h = (idx, h1)" by fastforce
  note sp = free_index_spec [OF wf fi]
  show thesis
  proof (cases "idx < 0")
    case True
    then show thesis using sp run fi
      by (intro full) (auto simp: cam_create_device_hdl_def cam_create_session_hdl_def)
  next
    case False
    have "ty < 16" "ty \<noteq> 0" using run by auto
    from hdl_positive [OF _ _ this, of idx rnd] False sp
    have "0 < uint (GET_DEV_HANDLE rnd ty idx)" by auto
    then show thesis
      by (intro new [of idx]) (use False sp run fi in \<open>auto simp: cam_create_device_hdl_def
          cam_create_session_hdl_def dev_row_def session_row_def Let_def\<close>)
  qed
qed

lemma create_session_cases:
  assumes "hdl_wf h" and "cam_create_session_hdl rnd p (Some h) = (v, t)"
  obtains (full) "v = - ENOSR" "t = Some h" "\<And>i. 0 \<le> i \<Longrightarrow> i < 256 \<Longrightarrow> hdl_state (hdls h i) = HDL_ACTIVE"
  | (new) i where "0 \<le> i" "i < 256" "hdl_state (hdls h i) \<noteq> HDL_ACTIVE"
      "v = uint (GET_DEV_HANDLE rnd HDL_TYPE_SESSION i)" "0 < v"
      "t = Some (h\<lparr>hdl_bitmap := set_bit_at i (hdl_bitmap h),
         hdls := (hdls h)(i := session_row (GET_DEV_HANDLE rnd HDL_TYPE_SESSION i) p)\<rparr>)"
  using create_cases [OF assms(1), where row = "\<lambda>x. session_row x p" and ty = HDL_TYPE_SESSION] assms(2) that
  by blast

lemma create_device_cases:
  assumes "hdl_wf h" and "cam_create_device_hdl True rnd d (Some h) = (v, t)"
  obtains (full) "v = - ENOSR" "t = Some h" "\<And>i. 0 \<le> i \<Longrightarrow> i < 256 \<Longrightarrow> hdl_state (hdls h i) = HDL_ACTIVE"
  | (new) i where "0 \<le> i" "i < 256" "hdl_state (hdls h i) \<noteq> HDL_ACTIVE"
      "v = uint (GET_DEV_HANDLE rnd HDL_TYPE_DEV i)" "0 < v"
      "t = Some (h\<lparr>hdl_bitmap := set_bit_at i (hdl_bitmap h),
         hdls := (hdls h)(i := dev_row (GET_DEV_HANDLE rnd HDL_TYPE_DEV i) d)\<rparr>)"
  using create_cases [OF assms(1), where row = "\<lambda>x. dev_row x d" and ty = HDL_TYPE_DEV] assms(2) that
  by blast

lemma create_ok:
  assumes "hdl_wf h"
    and "cam_create_device_hdl True rnd d (Some h) = (v, t) \<or> cam_create_session_hdl rnd p (Some h) = (v, t)"
  shows "tbl_ok t" and "t \<noteq> None"
proof -
  obtain row ty where run: "cam_create_device_hdl True rnd d (Some h) = (v, t) \<and> row = (\<lambda>x. dev_row x d) \<and> ty = HDL_TYPE_DEV \<or>
      cam_create_session_hdl rnd p (Some h) = (v, t) \<and> row = (\<lambda>x. session_row x p) \<and> ty = HDL_TYPE_SESSION"
    using assms(2) by auto
  from assms(1) run have "tbl_ok t \<and> t \<noteq> None"
  proof (cases rule: create_cases)
    case full
    then show ?thesis using assms(1) by (simp add: tbl_ok_def)
  next
    case (new i)
    have "hdl_state (row (GET_DEV_HANDLE rnd ty i)) = HDL_ACTIVE"
      "hdl_type (row (GET_DEV_HANDLE rnd ty i)) = ty" "ty = HDL_TYPE_DEV \<or> ty = HDL_TYPE_SESSION"
      "hdl_value (row (GET_DEV_HANDLE rnd ty i)) = GET_DEV_HANDLE rnd ty i" using run by auto
    then show ?thesis
      using install_row(1) [OF assms(1) new(1-3), of "row (GET_DEV_HANDLE rnd ty i)" rnd] new(6)
      by (simp add: tbl_ok_def)
  qed
  then show "tbl_ok t" "t \<noteq> None" by auto
qed

text \<open>What a destruction does.\<close>

lemma destroy_hdl_eq:
  assumes "hdl_wf h"
  shows "cam_destroy_hdl hdl ty (Some h) =
    (if names (Some h) hdl \<and> CAM_REQ_MGR_GET_HDL_TYPE hdl = ty
     then (0, Some (h\<lparr>hdls := (hdls h)(CAM_REQ_MGR_GET_HDL_IDX hdl :=
              (hdls h (CAM_REQ_MGR_GET_HDL_IDX hdl))\<lparr>hdl_state := HDL_FREE, hdl_ops := None, hdl_priv := None\<rparr>),
            hdl_bitmap := clear_bit_at (CAM_REQ_MGR_GET_HDL_IDX hdl) (hdl_bitmap h)\<rparr>))
     else (- EINVAL, Some h))"
  by (auto simp: cam_destroy_hdl_def names_def Let_def)

lemma free_row_wf:
  assumes "hdl_wf h" "hdl_state r = HDL_FREE"
  shows "hdl_wf (h\<lparr>hdls := (hdls h)(i := r), hdl_bitmap := clear_bit_at i (hdl_bitmap h)\<rparr>)"
  using assms by (auto simp: hdl_wf_def row_hdl_ok_def)

lemma destroy_ok: "tbl_ok t \<Longrightarrow> cam_destroy_hdl hdl ty t = (rc, t') \<Longrightarrow> tbl_ok t' \<and> (t' = None \<longleftrightarrow> t = None)"
proof (cases t)
  case (Some h)
  moreover assume "tbl_ok t" "cam_destroy_hdl hdl ty t = (rc, t')"
  ultimately show ?thesis using free_row_wf [of h]
    by (auto simp: tbl_ok_def destroy_hdl_eq split: if_splits)
qed (simp add: cam_destroy_hdl_def)

lemma free_hdls_loop_state:
  "hdl_state (hdls (free_hdls_loop k i h) j) =
     (if i \<le> j \<and> j < i + int k then HDL_FREE else hdl_state (hdls h j))"
proof (induction k arbitrary: i h)
  case (Suc k)
  have "hdl_state (hdls h i) = HDL_FREE" if "hdl_state (hdls h i) \<noteq> HDL_ACTIVE"
    using that by (cases "hdl_state (hdls h i)") auto
  then show ?case using Suc by (cases "j = i") auto
qed auto

lemma free_hdls_ok:
  assumes "tbl_ok t" "cam_req_mgr_util_free_hdls t = (rc, t')"
  shows "tbl_ok t'" and "\<not> active t' i"
proof -
  have st: "\<not> active t' i" for i
  proof (cases t)
    case (Some h)
    then have "t' = Some ((free_hdls_loop (nat 256) 0 h)\<lparr>hdl_bitmap := (\<lambda>_. False)\<rparr>)"
      using assms(2) by (simp add: cam_req_mgr_util_free_hdls_def del: free_hdls_loop.simps)
    moreover have "hdl_state (hdls h i) \<noteq> HDL_ACTIVE" if "\<not> (0 \<le> i \<and> i < 256)"
      using assms(1) Some that by (auto simp: tbl_ok_def dest: hdl_wfD(1))
    ultimately show ?thesis
      by (auto simp: active_def free_hdls_loop_state)
  qed (use assms in \<open>simp add: cam_req_mgr_util_free_hdls_def active_def\<close>)
  then show "\<not> active t' i" .
  show "tbl_ok t'"
    using st assms(2)
    by (auto simp: cam_req_mgr_util_free_hdls_def tbl_ok_def hdl_wf_def active_def row_hdl_ok_def
        split: option.splits)
qed

subsection \<open>Steps\<close>

inductive hdl_step :: "hdl_table \<Rightarrow> hdl_table \<Rightarrow> bool" where
  hs_init: "cam_req_mgr_util_init a None b t = (rc, t') \<Longrightarrow> hdl_step t t'"
| hs_deinit: "cam_req_mgr_util_deinit t = (rc, t') \<Longrightarrow> hdl_step t t'"
| hs_free: "cam_req_mgr_util_free_hdls t = (rc, t') \<Longrightarrow> hdl_step t t'"
| hs_session: "cam_create_session_hdl rnd p t = (v, t') \<Longrightarrow> hdl_step t t'"
| hs_device: "cam_create_device_hdl crm rnd d t = (v, t') \<Longrightarrow> hdl_step t t'"
| hs_destroy_device: "cam_destroy_device_hdl hdl t = (rc, t') \<Longrightarrow> hdl_step t t'"
| hs_destroy_session: "cam_destroy_session_hdl hdl t = (rc, t') \<Longrightarrow> hdl_step t t'"

inductive hdl_reachable :: "hdl_table \<Rightarrow> bool" where
  hr_start: "hdl_reachable None"
| hr_step: "hdl_reachable t \<Longrightarrow> hdl_step t t' \<Longrightarrow> hdl_reachable t'"

lemma zero_table_wf [simp]: "hdl_wf \<lparr>hdls = (\<lambda>_. zero_handle), hdl_bitmap = (\<lambda>_. False)\<rparr>"
  by (simp add: hdl_wf_def zero_handle_def row_hdl_ok_def)

lemma hdl_step_ok: "hdl_step t t' \<Longrightarrow> tbl_ok t \<Longrightarrow> tbl_ok t'"
proof (induction rule: hdl_step.induct)
  case (hs_session rnd p t v t')
  then show ?case
  proof (cases t)
    case None
    with hs_session show ?thesis by (auto simp: cam_create_session_hdl_def)
  next
    case (Some h)
    then have "hdl_wf h" using hs_session.prems by (simp add: tbl_ok_def)
    with hs_session.hyps Some show ?thesis by (intro create_ok(1) [of h rnd _ v t' p]) auto
  qed
next
  case (hs_device crm rnd d t v t')
  show ?case
  proof (cases "t = None \<or> \<not> crm")
    case True
    with hs_device show ?thesis by (auto simp: cam_create_device_hdl_def split: if_splits)
  next
    case False
    then obtain h where h: "t = Some h" crm by auto
    then have "hdl_wf h" using hs_device.prems by (simp add: tbl_ok_def)
    with hs_device.hyps h show ?thesis by (intro create_ok(1) [of h rnd d v t']) auto
  qed
next
  case (hs_free t rc t')
  then show ?case by (rule free_hdls_ok(1) [rotated])
next
  case (hs_destroy_device hdl t rc t')
  then show ?case using destroy_ok by (auto simp: cam_destroy_device_hdl_def)
next
  case (hs_destroy_session hdl t rc t')
  then show ?case using destroy_ok by (auto simp: cam_destroy_session_hdl_def)
qed (auto simp: cam_req_mgr_util_init_def cam_req_mgr_util_deinit_def tbl_ok_def
    split: if_splits option.splits)

lemma hdl_reachable_ok: "hdl_reachable t \<Longrightarrow> tbl_ok t"
  by (induction rule: hdl_reachable.induct) (auto simp: tbl_ok_def intro: hdl_step_ok [unfolded tbl_ok_def])

subsection \<open>The table as a slot table\<close>

text \<open>Creating sessions as the taking of slots; giving a slot back destroys the handle of an active row.\<close>

definition take_session :: "u8 \<times> nat option \<Rightarrow> hdl_table \<Rightarrow> int option \<times> hdl_table" where
  "take_session a t = (let (v, t') = cam_create_session_hdl (fst a) (snd a) t
     in (if v < 0 then None else Some (CAM_REQ_MGR_GET_HDL_IDX (word_of_int v)), t'))"

definition give_hdl :: "int \<Rightarrow> hdl_table \<Rightarrow> hdl_table" where
  "give_hdl i t = (case t of None \<Rightarrow> None
     | Some h \<Rightarrow> if active t i then snd (cam_destroy_hdl (hdl_value (hdls h i)) (hdl_type (hdls h i)) t) else t)"

lemma active_range: "tbl_ok t \<Longrightarrow> active t i \<Longrightarrow> 0 \<le> i \<and> i < 256"
  by (auto simp: tbl_ok_def active_def split: option.splits dest: hdl_wfD(1))

lemma take_session_cases:
  assumes wf: "hdl_wf h" and run: "take_session a (Some h) = (r, t')"
  obtains (full) "r = None" "t' = Some h" "\<And>i. 0 \<le> i \<Longrightarrow> i < 256 \<Longrightarrow> active (Some h) i"
    | (new) i where "r = Some i" "0 \<le> i" "i < 256" "\<not> active (Some h) i" "active t' = (active (Some h))(i := True)"
proof -
  obtain v t where cr: "cam_create_session_hdl (fst a) (snd a) (Some h) = (v, t)" by fastforce
  have r: "r = (if v < 0 then None else Some (CAM_REQ_MGR_GET_HDL_IDX (word_of_int v)))" "t' = t"
    using run cr by (auto simp: take_session_def)
  from wf cr show thesis
  proof (cases rule: create_session_cases)
    case full
    then show thesis using r that(1) by (auto simp: active_def)
  next
    case (new i)
    have "CAM_REQ_MGR_GET_HDL_IDX (word_of_int v) = i"
      using hdl_fields(1) [OF new(1,2), of HDL_TYPE_SESSION "fst a"] by (simp add: new(4))
    then show thesis using r new by (intro that(2) [of i]) (auto simp: active_def fun_eq_iff)
  qed
qed

lemma give_hdl_eq:
  assumes "tbl_ok t"
  shows "tbl_ok (give_hdl i t)" "give_hdl i t = None \<longleftrightarrow> t = None" "active (give_hdl i t) = (active t)(i := False)"
proof -
  have "tbl_ok (give_hdl i t) \<and> (give_hdl i t = None \<longleftrightarrow> t = None) \<and> active (give_hdl i t) = (active t)(i := False)"
  proof (cases "\<exists>h. t = Some h \<and> active t i")
    case True
    then obtain h where h: "t = Some h" "hdl_state (hdls h i) = HDL_ACTIVE" by (auto simp: active_def)
    have wf: "hdl_wf h" using assms h by (simp add: tbl_ok_def)
    note av = active_value [OF wf h(2)]
    have "names (Some h) (hdl_value (hdls h i))" using av h(2) by (simp add: names_def)
    then have eq: "give_hdl i t = Some (h\<lparr>hdls := (hdls h)(i :=
              (hdls h i)\<lparr>hdl_state := HDL_FREE, hdl_ops := None, hdl_priv := None\<rparr>),
            hdl_bitmap := clear_bit_at i (hdl_bitmap h)\<rparr>)"
      using h av by (simp add: give_hdl_def active_def destroy_hdl_eq [OF wf])
    have "tbl_ok (give_hdl i t)" unfolding eq tbl_ok_def using free_row_wf [OF wf] by simp
    moreover have "active (give_hdl i t) = (active t)(i := False)"
      unfolding eq by (auto simp: h active_def fun_eq_iff)
    ultimately show ?thesis using eq h by simp
  next
    case False
    then show ?thesis using assms by (auto simp: give_hdl_def active_def fun_eq_iff split: option.splits)
  qed
  then show "tbl_ok (give_hdl i t)" "give_hdl i t = None \<longleftrightarrow> t = None"
    "active (give_hdl i t) = (active t)(i := False)" by auto
qed

interpretation sessions: full_slot_table "\<lambda>t. tbl_ok t \<and> t \<noteq> None" active 0 256 take_session give_hdl
proof
  fix t :: hdl_table and i :: int and a :: "u8 \<times> nat option" and t' :: hdl_table
  assume t: "tbl_ok t \<and> t \<noteq> None"
  then obtain h where h: "t = Some h" "hdl_wf h" by (auto simp: tbl_ok_def)
  show "active t i \<Longrightarrow> 0 \<le> i \<and> i < 256" using active_range t by blast
  show "tbl_ok (snd (take_session a t)) \<and> snd (take_session a t) \<noteq> None"
    using create_ok [OF h(2) disjI2 [OF prod.collapse [symmetric]], of "fst a" "snd a"] h(1)
    by (simp add: take_session_def split_beta)
  show "0 \<le> i \<and> i < 256 \<and> \<not> active t i \<and> active t' = (active t)(i := True)"
    if "take_session a t = (Some i, t')"
    using h(2) that unfolding h(1) by (cases rule: take_session_cases) auto
  show "active t' = active t" if "take_session a t = (None, t')"
    using h(2) that unfolding h(1) by (cases rule: take_session_cases) auto
  show "tbl_ok (give_hdl i t) \<and> give_hdl i t \<noteq> None" using give_hdl_eq [of t i] t by blast
  show "active (give_hdl i t) = (active t)(i := False)" using give_hdl_eq(3) t by blast
  show "active t i" if f: "fst (take_session a t) = None" and r: "0 \<le> i" "i < 256"
  proof -
    have "take_session a (Some h) = (None, snd (take_session a t))" using f h(1) by (metis prod.collapse)
    with h(2) show ?thesis
      unfolding h(1) by (cases rule: take_session_cases) (use r in auto)
  qed
qed

text \<open>Several sessions created one after the other.\<close>

fun create_sessions :: "(u8 \<times> nat option) list \<Rightarrow> hdl_table \<Rightarrow> int list \<times> hdl_table" where
  "create_sessions [] t = ([], t)"
| "create_sessions (a # as) t =
     (let (v, t1) = cam_create_session_hdl (fst a) (snd a) t; (vs, t2) = create_sessions as t1 in (v # vs, t2))"

lemma create_sessions_take:
  "create_sessions as t = (vs, t') \<Longrightarrow>
   sessions.take_many as t =
     (map (\<lambda>v. if v < 0 then None else Some (CAM_REQ_MGR_GET_HDL_IDX (word_of_int v))) vs, t')"
  by (induction as arbitrary: t vs) (auto simp: take_session_def split: prod.splits)

subsection \<open>Properties\<close>

text \<open>a handle encodes and decodes without loss: index, type and the random byte of an encoded handle are
  the ones given, for every index of the table and every type of four bits, and the encoded value is
  below \<open>2 ^ 24\<close>, so that it is never confused with a negative errno.\<close>

theorem handle_encode_decode:
  assumes "0 \<le> idx" and "idx < CAM_REQ_MGR_MAX_HANDLES_V2" and "ty < 16"
  shows "CAM_REQ_MGR_GET_HDL_IDX (GET_DEV_HANDLE rnd ty idx) = idx \<and>
     CAM_REQ_MGR_GET_HDL_TYPE (GET_DEV_HANDLE rnd ty idx) = ty \<and>
     ucast (drop_bit 16 (GET_DEV_HANDLE rnd ty idx)) = rnd \<and>
     uint (GET_DEV_HANDLE rnd ty idx) < 2 ^ 24"
  using hdl_fields [OF assms, of rnd] uint_take_bit_less [of 24 "GET_DEV_HANDLE rnd ty idx"] by simp

theorem handle_encode_decode_witness:
  "GET_DEV_HANDLE 0xAB HDL_TYPE_SESSION 17 = 0xAB0211 \<and>
   CAM_REQ_MGR_GET_HDL_IDX (GET_DEV_HANDLE 0xAB HDL_TYPE_SESSION 17) = 17"
proof -
  have "GET_DEV_HANDLE 0xAB HDL_TYPE_SESSION 17 = 0xAB0211" by (simp add: GET_DEV_HANDLE_def)
  moreover have "CAM_REQ_MGR_GET_HDL_IDX (GET_DEV_HANDLE 0xAB HDL_TYPE_SESSION 17) = 17"
    using handle_encode_decode [of 17 HDL_TYPE_SESSION "0xAB"] by simp
  ultimately show ?thesis by simp
qed

text \<open>C28: in every reachable state of the handle table, the bitmap marks exactly the active rows and every
  active row stores a handle whose index is the row and whose type is the one recorded in the row;
  hence two rows never store the same handle.\<close>

theorem handle_table_invariant:
  assumes "hdl_reachable (Some h)"
  shows "(\<forall>i. 0 \<le> i \<and> i < CAM_REQ_MGR_MAX_HANDLES_V2 \<longrightarrow> hdl_bitmap h i = (hdl_state (hdls h i) = HDL_ACTIVE)) \<and>
     (\<forall>i. hdl_state (hdls h i) = HDL_ACTIVE \<longrightarrow>
        CAM_REQ_MGR_GET_HDL_IDX (hdl_value (hdls h i)) = i \<and>
        CAM_REQ_MGR_GET_HDL_TYPE (hdl_value (hdls h i)) = hdl_type (hdls h i)) \<and>
     (\<forall>i j. hdl_state (hdls h i) = HDL_ACTIVE \<and> hdl_state (hdls h j) = HDL_ACTIVE \<and>
        hdl_value (hdls h i) = hdl_value (hdls h j) \<longrightarrow> i = j)"
proof -
  have wf: "hdl_wf h" using hdl_reachable_ok [OF assms] by (simp add: tbl_ok_def)
  show ?thesis using hdl_wfD(2) [OF wf] active_value(1,2) [OF wf] by metis
qed

definition demo_hdl0 :: hdl_table where
  "demo_hdl0 = snd (cam_req_mgr_util_init True None True None)"

definition demo_hdl1 :: hdl_table where
  "demo_hdl1 = snd (cam_create_session_hdl 0xAB (Some 42) demo_hdl0)"

lemma demo_hdl0_eq: "demo_hdl0 = Some \<lparr>hdls = (\<lambda>_. zero_handle), hdl_bitmap = (\<lambda>_. False)\<rparr>"
  by (simp add: demo_hdl0_def cam_req_mgr_util_init_def)

lemma demo_hdl1_eq:
  "cam_create_session_hdl 0xAB (Some 42) demo_hdl0 = (0xAB0200, demo_hdl1)"
  "demo_hdl1 = Some \<lparr>hdls = (\<lambda>_. zero_handle)(0 := session_row 0xAB0200 (Some 42)),
     hdl_bitmap = set_bit_at 0 (\<lambda>_. False)\<rparr>"
proof -
  have z: "find_first_zero_bit (\<lambda>_. False) 256 = 0" by (intro find_first_zero_bit_unique) auto
  have h: "GET_DEV_HANDLE 0xAB HDL_TYPE_SESSION 0 = 0xAB0200" by (simp add: GET_DEV_HANDLE_def)
  show "cam_create_session_hdl 0xAB (Some 42) demo_hdl0 = (0xAB0200, demo_hdl1)"
    "demo_hdl1 = Some \<lparr>hdls = (\<lambda>_. zero_handle)(0 := session_row 0xAB0200 (Some 42)),
     hdl_bitmap = set_bit_at 0 (\<lambda>_. False)\<rparr>"
    by (simp_all add: demo_hdl1_def demo_hdl0_eq cam_create_session_hdl_def cam_get_free_handle_index_def z h
        session_row_def Let_def)
qed

lemma demo_hdl_reachable: "hdl_reachable demo_hdl0" "hdl_reachable demo_hdl1"
proof -
  show "hdl_reachable demo_hdl0"
    unfolding demo_hdl0_def by (rule hr_step [OF hr_start hs_init [OF prod.collapse [symmetric]]])
  then show "hdl_reachable demo_hdl1" using demo_hdl1_eq(1) by (blast intro: hr_step hs_session)
qed

theorem handle_table_invariant_witness:
  "hdl_bitmap (the demo_hdl1) 0 = (hdl_state (hdls (the demo_hdl1) 0) = HDL_ACTIVE)"
  using handle_table_invariant [of "the demo_hdl1"] demo_hdl_reachable(2) by (simp add: demo_hdl1_eq(2))

text \<open>a created device handle is new and usable: it differs from every handle in use, its private data and
  operations are the ones given, and the lookups of every other handle give what they gave before.
  The creation fails only with \<open>-ENOSR\<close>, when all 256 rows are in use, and then changes nothing.\<close>

theorem create_device_lookup:
  assumes "hdl_reachable (Some h)" and "cam_create_device_hdl True rnd d (Some h) = (v, t')"
  shows "if v < 0 then v = - ENOSR \<and> t' = Some h \<and> (\<forall>i. 0 \<le> i \<and> i < 256 \<longrightarrow> active (Some h) i)
     else (let hdl = word_of_int v in
        \<not> names (Some h) hdl \<and> cam_get_device_priv hdl t' = cdh_priv d \<and> cam_get_device_ops hdl t' = cdh_ops d \<and>
        (\<forall>x. x \<noteq> hdl \<longrightarrow> cam_get_device_priv x t' = cam_get_device_priv x (Some h) \<and>
                          cam_get_device_ops x t' = cam_get_device_ops x (Some h)))"
proof -
  have wf: "hdl_wf h" using hdl_reachable_ok [OF assms(1)] by (simp add: tbl_ok_def)
  from wf assms(2) show ?thesis
  proof (cases rule: create_device_cases)
    case full
    then show ?thesis by (auto simp: active_def)
  next
    case (new i)
    define hdl where "hdl = GET_DEV_HANDLE rnd HDL_TYPE_DEV i"
    define h' where "h' = h\<lparr>hdl_bitmap := set_bit_at i (hdl_bitmap h), hdls := (hdls h)(i := dev_row hdl d)\<rparr>"
    note ins = install_row [OF wf new(1-3), of "dev_row hdl d" rnd, folded h'_def, simplified hdl_def [symmetric] row_simps, simplified]
    have t': "t' = Some h'" using new(6) by (simp add: h'_def hdl_def)
    have v: "word_of_int v = hdl" "\<not> v < 0" using new(4,5) by (simp_all add: hdl_def)
    have other: "hdls h' (CAM_REQ_MGR_GET_HDL_IDX x) = hdls h (CAM_REQ_MGR_GET_HDL_IDX x)"
      if "names (Some h) x" for x
      using that new(3) by (auto simp: h'_def names_def)
    have self: "hdls h' (CAM_REQ_MGR_GET_HDL_IDX hdl) = dev_row hdl d" using ins(4) by (simp add: h'_def)
    show ?thesis
      using v ins(1-3) other self
      by (auto simp: t' Let_def get_priv_eq [OF wf] get_priv_eq [OF ins(1)])
  qed
qed

definition demo_dev :: cam_create_dev_hdl where
  "demo_dev = \<lparr>cdh_session_hdl = 0xAB0200, cdh_dev_id = 3, cdh_ops = Some 5, cdh_priv = Some 6\<rparr>"

lemma demo_hdl1_free: "find_first_zero_bit (set_bit_at 0 (\<lambda>_. False)) 256 = 1"
  by (intro find_first_zero_bit_unique) auto

lemma demo_dev_create: "fst (cam_create_device_hdl True 7 demo_dev demo_hdl1) = 0x070101"
  by (simp add: demo_hdl1_eq(2) cam_create_device_hdl_def cam_get_free_handle_index_def demo_hdl1_free
      GET_DEV_HANDLE_def Let_def)

theorem create_device_lookup_witness:
  "cam_get_device_priv 0x070101 (snd (cam_create_device_hdl True 7 demo_dev demo_hdl1)) = Some 6 \<and>
   cam_get_device_priv 0xAB0200 (snd (cam_create_device_hdl True 7 demo_dev demo_hdl1)) = cam_get_device_priv 0xAB0200 demo_hdl1"
proof -
  have "hdl_reachable (Some (the demo_hdl1))" "Some (the demo_hdl1) = demo_hdl1"
    using demo_hdl_reachable(2) by (simp_all add: demo_hdl1_eq(2))
  with create_device_lookup [OF this(1) prod.collapse [symmetric], of 7 demo_dev] demo_dev_create
  show ?thesis by (simp add: demo_dev_def)
qed

lemma destroy_lookup:
  assumes wf: "hdl_wf h" and run: "cam_destroy_hdl hdl ty (Some h) = (0, t')"
  obtains h' where "t' = Some h'" "hdl_wf h'" "names (Some h) hdl" "CAM_REQ_MGR_GET_HDL_TYPE hdl = ty"
    "\<And>x. names (Some h') x \<longleftrightarrow> names (Some h) x \<and> x \<noteq> hdl"
    "\<And>x. names (Some h') x \<Longrightarrow> hdls h' (CAM_REQ_MGR_GET_HDL_IDX x) = hdls h (CAM_REQ_MGR_GET_HDL_IDX x)"
proof -
  let ?i = "CAM_REQ_MGR_GET_HDL_IDX hdl"
  let ?h = "h\<lparr>hdls := (hdls h)(?i := (hdls h ?i)\<lparr>hdl_state := HDL_FREE, hdl_ops := None, hdl_priv := None\<rparr>),
            hdl_bitmap := clear_bit_at ?i (hdl_bitmap h)\<rparr>"
  have n: "names (Some h) hdl" "CAM_REQ_MGR_GET_HDL_TYPE hdl = ty" and t': "t' = Some ?h"
    using run by (auto simp: destroy_hdl_eq [OF wf] split: if_splits)
  have nm: "names (Some ?h) x \<longleftrightarrow> names (Some h) x \<and> x \<noteq> hdl" for x
    using n(1) by (auto simp: names_def)
  have other: "hdls ?h (CAM_REQ_MGR_GET_HDL_IDX x) = hdls h (CAM_REQ_MGR_GET_HDL_IDX x)"
    if "names (Some ?h) x" for x using that by (auto simp: names_def split: if_splits)
  show thesis by (rule that [of ?h]) (use t' n nm other free_row_wf [OF wf] in auto)
qed

text \<open>C26: a destroyed handle is dead: the handle was in use with the type that was asked for, its lookups give
  nothing afterwards, a second destruction is refused, and every other handle keeps its data. It
  stays dead until a creation returns the very same 32 bits.\<close>

theorem destroyed_handle_is_stale:
  assumes "hdl_reachable (Some h)" and "cam_destroy_hdl hdl ty (Some h) = (0, t')"
  shows "names (Some h) hdl \<and> CAM_REQ_MGR_GET_HDL_TYPE hdl = ty \<and>
     cam_get_device_priv hdl t' = None \<and> cam_get_device_ops hdl t' = None \<and>
     cam_destroy_hdl hdl ty' t' = (- EINVAL, t') \<and>
     (\<forall>x. x \<noteq> hdl \<longrightarrow> cam_get_device_priv x t' = cam_get_device_priv x (Some h) \<and>
                       cam_get_device_ops x t' = cam_get_device_ops x (Some h)) \<and>
     (\<forall>v t''. cam_create_device_hdl True rnd d t' = (v, t'') \<longrightarrow> word_of_int v \<noteq> hdl \<longrightarrow>
        cam_get_device_priv hdl t'' = None)"
proof -
  have wf: "hdl_wf h" using hdl_reachable_ok [OF assms(1)] by (simp add: tbl_ok_def)
  obtain h' where t': "t' = Some h'" and wf': "hdl_wf h'" and n: "names (Some h) hdl" "CAM_REQ_MGR_GET_HDL_TYPE hdl = ty"
    and nm: "\<And>x. names (Some h') x \<longleftrightarrow> names (Some h) x \<and> x \<noteq> hdl"
    and other: "\<And>x. names (Some h') x \<Longrightarrow> hdls h' (CAM_REQ_MGR_GET_HDL_IDX x) = hdls h (CAM_REQ_MGR_GET_HDL_IDX x)"
    using destroy_lookup [OF wf assms(2)] by metis
  have look: "cam_get_device_priv x t' = cam_get_device_priv x (Some h)"
    "cam_get_device_ops x t' = cam_get_device_ops x (Some h)" if "x \<noteq> hdl" for x
    using that other [of x] nm [of x] by (auto simp: t' get_priv_eq [OF wf] get_priv_eq [OF wf'])
  have dead: "cam_get_device_priv hdl t' = None" "cam_get_device_ops hdl t' = None"
    "cam_destroy_hdl hdl ty' t' = (- EINVAL, t')"
    using nm [of hdl] by (simp_all add: t' get_priv_eq [OF wf'] destroy_hdl_eq [OF wf'])
  have reuse: "cam_get_device_priv hdl t'' = None"
    if run: "cam_create_device_hdl True rnd d (Some h') = (v, t'')" and "word_of_int v \<noteq> hdl" for v t''
    using wf' run
  proof (cases rule: create_device_cases)
    case full
    then show ?thesis using dead(1) by (simp add: t')
  next
    case (new i)
    note ins = install_row(1,2) [OF wf' new(1-3), of "dev_row (GET_DEV_HANDLE rnd HDL_TYPE_DEV i) d" rnd]
    have "\<not> names t'' hdl"
      using that(2) new(4) nm [of hdl] ins(2) [of hdl] by (auto simp: new(6))
    then show ?thesis using ins(1) by (simp add: new(6) get_priv_eq)
  qed
  show ?thesis using n look dead reuse t' by blast
qed

theorem destroyed_handle_is_stale_witness:
  "cam_get_device_priv 0xAB0200 demo_hdl1 = Some 42 \<and>
   cam_get_device_priv 0xAB0200 (snd (cam_destroy_session_hdl 0xAB0200 demo_hdl1)) = None"
proof -
  obtain h where t: "demo_hdl1 = Some h" by (simp add: demo_hdl1_eq(2))
  have i: "CAM_REQ_MGR_GET_HDL_IDX 0xAB0200 = 0" "CAM_REQ_MGR_GET_HDL_TYPE 0xAB0200 = HDL_TYPE_SESSION"
    using hdl_fields(1,2) [of 0 HDL_TYPE_SESSION "0xAB"] by (simp_all add: GET_DEV_HANDLE_def)
  have d: "fst (cam_destroy_hdl 0xAB0200 HDL_TYPE_SESSION demo_hdl1) = 0"
    by (simp add: demo_hdl1_eq(2) cam_destroy_hdl_def Let_def i)
  have p: "cam_get_device_priv 0xAB0200 demo_hdl1 = Some 42"
    by (simp add: demo_hdl1_eq(2) cam_get_device_priv_def Let_def i)
  have "cam_destroy_hdl 0xAB0200 HDL_TYPE_SESSION demo_hdl1 =
      (0, snd (cam_destroy_hdl 0xAB0200 HDL_TYPE_SESSION demo_hdl1))"
    using d by (metis prod.collapse)
  from destroyed_handle_is_stale [OF _ this [unfolded t]] demo_hdl_reachable(2) p show ?thesis
    by (simp add: t cam_destroy_session_hdl_def)
qed

text \<open>the capacity: from a table with \<open>n\<close> handles in use, \<open>256 - n\<close> sessions can be created in a row; they
  all succeed and get pairwise different rows that were free. Once 256 handles are in use, the next
  creation fails with a negative status.\<close>

theorem handle_capacity:
  assumes "hdl_reachable (Some h)" and "length as + card {i. active (Some h) i} \<le> 256"
    and "create_sessions as (Some h) = (vs, t')"
  shows "(\<forall>v \<in> set vs. 0 \<le> v) \<and> distinct (map (\<lambda>v. CAM_REQ_MGR_GET_HDL_IDX (word_of_int v)) vs) \<and>
     (\<forall>v \<in> set vs. \<not> active (Some h) (CAM_REQ_MGR_GET_HDL_IDX (word_of_int v))) \<and>
     card {i. active t' i} = card {i. active (Some h) i} + length as \<and>
     (card {i. active t' i} = 256 \<longrightarrow> fst (cam_create_session_hdl rnd p t') < 0)"
proof -
  let ?f = "\<lambda>v. if v < 0 then None else Some (CAM_REQ_MGR_GET_HDL_IDX (word_of_int v))"
  have ok: "tbl_ok (Some h) \<and> Some h \<noteq> None" using hdl_reachable_ok [OF assms(1)] by simp
  note many = create_sessions_take [OF assms(3)]
  have cap: "None \<notin> set (map ?f vs)" "card (sessions.slots t') = card (sessions.slots (Some h)) + length as"
    using sessions.take_many_capacity [OF ok many] assms(2) by (auto simp: sessions.slots_def)
  have pos: "\<forall>v \<in> set vs. 0 \<le> v"
    using cap(1) by (auto simp: image_iff split: if_splits)
  have m: "map the (filter (\<lambda>r. r \<noteq> None) (map ?f vs)) = map (\<lambda>v. CAM_REQ_MGR_GET_HDL_IDX (word_of_int v)) vs"
    using pos by (induction vs) auto
  note fresh = sessions.take_many_fresh [OF ok many, unfolded m]
  have last: "fst (cam_create_session_hdl rnd p t') < 0" if "card {i. active t' i} = 256"
    using sessions.take_exhausted [of t' "(rnd, p)"] fresh that
    by (auto simp: sessions.slots_def take_session_def split_beta split: if_splits)
  show ?thesis
    using fresh cap(2) pos last by (auto simp: sessions.slots_def)
qed

theorem handle_capacity_witness:
  "list_all (\<lambda>v. 0 \<le> v) (fst (create_sessions [(1, None), (1, None)] demo_hdl1))"
proof -
  obtain h where t: "demo_hdl1 = Some h" by (simp add: demo_hdl1_eq(2))
  have "{i. active demo_hdl1 i} = {0}"
    by (auto simp: active_def demo_hdl1_eq(2) zero_handle_def split: if_splits)
  then have c: "length [(1, None), (1, None)] + card {i. active demo_hdl1 i} \<le> 256" by simp
  from handle_capacity [of h "[(1, None), (1, None)]", folded t, OF demo_hdl_reachable(2) c
      prod.collapse [symmetric]]
  show ?thesis unfolding list_all_iff by blast
qed

end
