(* ===== verification/Cam_Workq.thy ===== *)
theory Cam_Workq
  imports Cam_Interfaces
begin

section \<open>The request manager's work queue\<close>

text \<open>
  Model of \<open>camera-kernel/drivers/cam_req_mgr/cam_req_mgr_workq.c\<close> with the structures of
  \<open>cam_req_mgr_workq.h\<close>. A work queue owns a fixed pool of tasks. A client takes a task from the list
  of free tasks, fills it in and enqueues it with a priority; the worker thread of the kernel runs
  \<open>cam_req_mgr_process_workq\<close>, which empties the list of each priority in turn, calls the callback of
  each task and puts the task back on the list of free tasks.

  A task is named by its index in the pool and a \<open>struct list_head\<close> is the list of the indices that are
  linked into it. \<open>list_del_init\<close> unlinks a task from the list it is on, if any. The spin lock makes each
  access to the lists atomic; \<open>in_irq\<close> only selects the flavour of the lock. A callback is another
  driver's code: it runs without the lock and may use the queue itself, as may other threads at
  that moment, so it is the argument \<open>run\<close>, a function on the state; every call is recorded in
  \<open>wq_calls\<close>. Of the kernel's work item the model keeps whether it is queued (\<open>wq_work_queued\<close>) and, when
  the worker is inside \<open>cam_req_mgr_process_workq\<close>, the loop variable \<open>i\<close> (\<open>wq_worker\<close>).
\<close>

subsection \<open>Data\<close>

abbreviation CRM_TASK_PRIORITY_0 :: int where "CRM_TASK_PRIORITY_0 \<equiv> 0"
abbreviation CRM_TASK_PRIORITY_1 :: int where "CRM_TASK_PRIORITY_1 \<equiv> 1"
abbreviation CRM_TASK_PRIORITY_MAX :: int where "CRM_TASK_PRIORITY_MAX \<equiv> 2"
abbreviation WORKQ_NAME_LEN :: nat where "WORKQ_NAME_LEN \<equiv> 128"

record crm_workq_task =
  task_priority :: int
  task_payload :: "nat option"
  task_process_cb :: "nat option"
  task_parent :: bool
  task_cancel :: u8
  task_priv :: "nat option"

record crm_call =
  crm_fn :: nat
  crm_priv :: "nat option"
  crm_data :: "nat option"

record cam_req_mgr_core_workq =
  wq_job :: bool
  wq_in_irq :: u32
  wq_scheduled_ts :: int
  wq_flush :: bool
  wq_name :: string
  wq_pending_cnt :: int
  wq_free_cnt :: int
  wq_process_head :: "int \<Rightarrow> nat list"
  wq_empty_head :: "nat list"
  wq_pool :: "nat \<Rightarrow> crm_workq_task"
  wq_num_task :: u32
  wq_work_queued :: bool
  wq_worker :: "int option"
  wq_calls :: "crm_call list"

type_synonym workq = cam_req_mgr_core_workq

text \<open>A task as \<open>kcalloc\<close> leaves it.\<close>

definition zero_task :: crm_workq_task where
  "zero_task = \<lparr>task_priority = 0, task_payload = None, task_process_cb = None, task_parent = False,
     task_cancel = 0, task_priv = None\<rparr>"

definition upd_task :: "nat \<Rightarrow> (crm_workq_task \<Rightarrow> crm_workq_task) \<Rightarrow> workq \<Rightarrow> workq" where
  "upd_task t f w = w\<lparr>wq_pool := (wq_pool w)(t := f (wq_pool w t))\<rparr>"

text \<open>\<open>list_del_init\<close> on the \<open>entry\<close> of a task.\<close>

definition unlink_task :: "nat \<Rightarrow> workq \<Rightarrow> workq" where
  "unlink_task t w = w\<lparr>wq_empty_head := removeAll t (wq_empty_head w),
     wq_process_head := (\<lambda>i. removeAll t (wq_process_head w i))\<rparr>"

subsection \<open>Operations\<close>

definition cam_req_mgr_workq_get_task :: "workq option \<Rightarrow> nat option \<times> workq option" where
  "cam_req_mgr_workq_get_task workq =
     (case workq of
        None \<Rightarrow> (None, None)
      | Some w \<Rightarrow>
          (case wq_empty_head w of
             [] \<Rightarrow> (None, Some w)
           | t # ts \<Rightarrow> (Some t, Some (w\<lparr>wq_free_cnt := wq_free_cnt w - 1, wq_empty_head := ts\<rparr>))))"

definition cam_req_mgr_workq_put_task :: "nat \<Rightarrow> workq \<Rightarrow> workq" where
  "cam_req_mgr_workq_put_task t w =
     (let w1 = unlink_task t w;
          w2 = upd_task t (\<lambda>k. k\<lparr>task_cancel := 0, task_process_cb := None, task_priv := None\<rparr>) w1
      in w2\<lparr>wq_empty_head := wq_empty_head w2 @ [t], wq_free_cnt := wq_free_cnt w2 + 1\<rparr>)"

definition cam_req_mgr_process_task :: "(crm_call \<Rightarrow> workq \<Rightarrow> workq) \<Rightarrow> nat \<Rightarrow> workq \<Rightarrow> workq" where
  "cam_req_mgr_process_task run t w =
     (let task = wq_pool w t;
          w1 = (case task_process_cb task of
                  None \<Rightarrow> w
                | Some f \<Rightarrow>
                    let c = \<lparr>crm_fn = f, crm_priv = task_priv task, crm_data = task_payload task\<rparr>
                    in run c (w\<lparr>wq_calls := wq_calls w @ [c]\<rparr>))
      in cam_req_mgr_workq_put_task t w1)"

text \<open>One round of the worker: the test of the outer loop, then of the inner loop, then the body of
  the inner loop or the increment of \<open>i\<close>.\<close>

definition worker_iter :: "(crm_call \<Rightarrow> workq \<Rightarrow> workq) \<Rightarrow> workq \<Rightarrow> workq" where
  "worker_iter run w =
     (case wq_worker w of
        None \<Rightarrow> w
      | Some i \<Rightarrow>
          if \<not> i < CRM_TASK_PRIORITY_MAX then w\<lparr>wq_worker := None\<rparr>
          else case wq_process_head w i of
                 [] \<Rightarrow> w\<lparr>wq_worker := Some (i + 1)\<rparr>
               | t # ts \<Rightarrow>
                   let w1 = w\<lparr>wq_pending_cnt := wq_pending_cnt w - 1,
                              wq_process_head := (wq_process_head w)(i := ts)\<rparr>
                   in if wq_flush w1 then w1 else cam_req_mgr_process_task run t w1)"

fun worker_run :: "(crm_call \<Rightarrow> workq \<Rightarrow> workq) \<Rightarrow> nat \<Rightarrow> workq \<Rightarrow> workq option" where
  "worker_run run 0 w = (if wq_worker w = None then Some w else None)"
| "worker_run run (Suc n) w =
     (if wq_worker w = None then Some w else worker_run run n (worker_iter run w))"


text \<open>\<open>now\<close> is \<open>ktime_get()\<close>.\<close>

definition cam_req_mgr_workq_enqueue_task ::
  "int \<Rightarrow> nat option \<Rightarrow> nat option \<Rightarrow> int \<Rightarrow> workq \<Rightarrow> int \<times> workq" where
  "cam_req_mgr_workq_enqueue_task now task priv prio w =
     (case task of
        None \<Rightarrow> (- EINVAL, w)
      | Some t \<Rightarrow>
          if \<not> task_parent (wq_pool w t) then (- EINVAL, w)
          else if task_cancel (wq_pool w t) = 1 \<or> wq_flush w
          then (0, cam_req_mgr_workq_put_task t w)
          else
            let p = (if prio < CRM_TASK_PRIORITY_MAX \<and> CRM_TASK_PRIORITY_0 \<le> prio then prio
                     else CRM_TASK_PRIORITY_0);
                w1 = upd_task t (\<lambda>k. k\<lparr>task_priv := priv, task_priority := p\<rparr>) w
            in if \<not> wq_job w1 then (- EINVAL, cam_req_mgr_workq_put_task t w1)
               else (0, w1\<lparr>wq_process_head := (wq_process_head w1)(p := wq_process_head w1 p @ [t]),
                           wq_pending_cnt := wq_pending_cnt w1 + 1, wq_scheduled_ts := now,
                           wq_work_queued := True\<rparr>))"

text \<open>
  While \<open>flush\<close> is set the worker takes the tasks off their lists without running them, so it ends after
  as many rounds as there are tasks and three more: no callback is called and the argument \<open>run\<close> is
  irrelevant. \<open>finish_worker\<close> waits for the worker in that situation.
\<close>

definition finish_worker :: "workq \<Rightarrow> workq" where
  "finish_worker w =
     (case worker_run (\<lambda>_ v. v)
             (length (wq_process_head w 0) + length (wq_process_head w 1) + 3) w of
        None \<Rightarrow> w | Some w' \<Rightarrow> w')"

text \<open>\<open>cancel_work_sync\<close> takes the work item off the kernel's queue and waits for the worker when it is
  running.\<close>

definition cam_req_mgr_workq_flush :: "workq option \<Rightarrow> workq option" where
  "cam_req_mgr_workq_flush workq =
     (case workq of
        None \<Rightarrow> None
      | Some w \<Rightarrow> Some ((finish_worker (w\<lparr>wq_flush := True, wq_work_queued := False\<rparr>))\<lparr>wq_flush := False\<rparr>))"

fun put_all :: "nat \<Rightarrow> nat \<Rightarrow> workq \<Rightarrow> workq" where
  "put_all 0 i w = w"
| "put_all (Suc k) i w =
     put_all k (i + 1) (cam_req_mgr_workq_put_task i (upd_task i (\<lambda>t. t\<lparr>task_parent := True\<rparr>) w))"

text \<open>
  \<open>alloc\<close> and \<open>pool_alloc\<close> are the outcomes of \<open>kzalloc\<close> and \<open>kcalloc\<close>; \<open>alloc_workqueue\<close> is the kernel's, on the
  name, the request for a high priority and the maximum of active items.
\<close>

definition cam_req_mgr_workq_create ::
  "bool \<Rightarrow> (string \<Rightarrow> bool \<Rightarrow> int \<Rightarrow> bool) \<Rightarrow> bool \<Rightarrow> string \<Rightarrow> int \<Rightarrow> workq option \<Rightarrow> u32 \<Rightarrow> u32
   \<Rightarrow> int \<times> workq option" where
  "cam_req_mgr_workq_create alloc alloc_workqueue pool_alloc name num_tasks workq in_irq flags =
     (case workq of
        Some w \<Rightarrow> (0, Some w)
      | None \<Rightarrow>
          if \<not> alloc then (- ENOMEM, None)
          else
            let max_active_tasks = (if bit flags 1 then 1 else 0);
                buf = take (WORKQ_NAME_LEN - 1) (''crm_workq-'' @ name)
            in if \<not> alloc_workqueue buf (bit flags 0) max_active_tasks then (- ENOMEM, None)
               else if \<not> pool_alloc then (- ENOMEM, None)
               else
                 let w = \<lparr>wq_job = True, wq_in_irq = in_irq, wq_scheduled_ts = 0, wq_flush = False,
                          wq_name = buf, wq_pending_cnt = 0, wq_free_cnt = 0,
                          wq_process_head = (\<lambda>_. []), wq_empty_head = [],
                          wq_pool = (\<lambda>_. zero_task), wq_num_task = word_of_int num_tasks,
                          wq_work_queued = False, wq_worker = None, wq_calls = []\<rparr>
                 in (0, Some (put_all (unat (wq_num_task w)) 0 w)))"

text \<open>
  \<open>destroy_workqueue\<close> first lets a queued work item run and a running one end, both with \<open>flush\<close> set. The
  model returns the pointer of the caller, NULL afterwards, and the calls that were made.
\<close>

definition cam_req_mgr_workq_destroy :: "workq option \<Rightarrow> workq option \<times> crm_call list" where
  "cam_req_mgr_workq_destroy workq =
     (case workq of
        None \<Rightarrow> (None, [])
      | Some w \<Rightarrow>
          let w1 = w\<lparr>wq_flush := True\<rparr>;
              w2 = (if wq_job w1 then
                      let w3 = finish_worker (w1\<lparr>wq_job := False\<rparr>) in
                      if wq_work_queued w3
                      then finish_worker (w3\<lparr>wq_work_queued := False, wq_worker := Some CRM_TASK_PRIORITY_0\<rparr>)
                      else w3
                    else w1)
          in (None, wq_calls w2))"

subsection \<open>Invariant\<close>

definition task_clean :: "crm_workq_task \<Rightarrow> bool" where
  "task_clean k \<longleftrightarrow> task_cancel k = 0 \<and> task_process_cb k = None \<and> task_priv k = None"

definition queued :: "workq \<Rightarrow> nat list" where
  "queued w = wq_process_head w 0 @ wq_process_head w 1"

definition wq_inv :: "workq \<Rightarrow> bool" where
  "wq_inv w \<longleftrightarrow> distinct (wq_empty_head w @ queued w) \<and>
     set (wq_empty_head w @ queued w) \<subseteq> {..<unat (wq_num_task w)} \<and>
     (\<forall>i. i \<noteq> 0 \<and> i \<noteq> 1 \<longrightarrow> wq_process_head w i = []) \<and>
     wq_free_cnt w = int (length (wq_empty_head w)) \<and> wq_pending_cnt w = int (length (queued w)) \<and>
     (\<forall>t \<in> set (wq_empty_head w). task_clean (wq_pool w t)) \<and>
     (\<forall>i. \<forall>t \<in> set (wq_process_head w i). task_priority (wq_pool w t) = i) \<and>
     (\<forall>t < unat (wq_num_task w). task_parent (wq_pool w t)) \<and>
     (\<forall>i. wq_worker w = Some i \<longrightarrow> 0 \<le> i \<and> i \<le> CRM_TASK_PRIORITY_MAX)"

text \<open>A task that is on no list belongs to the client that took it, or to the worker.\<close>

definition held :: "workq \<Rightarrow> nat \<Rightarrow> bool" where
  "held w t \<longleftrightarrow> t < unat (wq_num_task w) \<and> t \<notin> set (wq_empty_head w) \<and> t \<notin> set (queued w)"

lemma unlink_held: "wq_inv w \<Longrightarrow> held w t \<Longrightarrow> unlink_task t w = w"
proof -
  assume inv: "wq_inv w" and "held w t"
  have "removeAll t (wq_process_head w i) = wq_process_head w i" for i
    using inv \<open>held w t\<close> by (cases "i = 0"; cases "i = 1") (auto simp: wq_inv_def held_def queued_def removeAll_id)
  moreover have "removeAll t (wq_empty_head w) = wq_empty_head w"
    using \<open>held w t\<close> by (simp add: held_def removeAll_id)
  ultimately show ?thesis by (simp add: unlink_task_def)
qed

lemma put_held:
  assumes "wq_inv w" and "held w t"
  shows "cam_req_mgr_workq_put_task t w =
     w\<lparr>wq_pool := (wq_pool w)(t := (wq_pool w t)\<lparr>task_cancel := 0, task_process_cb := None, task_priv := None\<rparr>),
       wq_empty_head := wq_empty_head w @ [t], wq_free_cnt := wq_free_cnt w + 1\<rparr>"
  by (simp add: cam_req_mgr_workq_put_task_def unlink_held [OF assms] upd_task_def)

lemma put_inv: "wq_inv w \<Longrightarrow> held w t \<Longrightarrow> wq_inv (cam_req_mgr_workq_put_task t w)"
  by (simp add: put_held) (auto simp: wq_inv_def held_def queued_def task_clean_def)

lemma get_inv:
  assumes "wq_inv w" and "cam_req_mgr_workq_get_task (Some w) = (r, Some w')"
  shows "wq_inv w' \<and> (\<forall>t. r = Some t \<longrightarrow> held w' t \<and> \<not> held w t \<and> task_clean (wq_pool w' t))"
  using assms by (auto simp: cam_req_mgr_workq_get_task_def wq_inv_def held_def queued_def split: list.splits)

text \<open>What a client does with a task it holds: it sets the callback, the payload and \<open>cancel\<close>.\<close>

lemma fill_inv:
  assumes "wq_inv w" and "held w t" and "\<And>k. task_parent (f k) = task_parent k"
  shows "wq_inv (upd_task t f w)"
proof -
  have "t \<notin> set (wq_process_head w i)" for i
    using assms(1,2) by (cases "i = 0"; cases "i = 1") (auto simp: wq_inv_def held_def queued_def)
  with assms show ?thesis by (auto simp: wq_inv_def held_def queued_def upd_task_def)
qed

lemma held_upd: "held (upd_task t f w) u = held w u"
  by (simp add: held_def upd_task_def queued_def)

lemma append_inv:
  assumes "wq_inv w" and "held w t" and "p = 0 \<or> p = 1" and "task_priority (wq_pool w t) = p"
  shows "wq_inv (w\<lparr>wq_process_head := (wq_process_head w)(p := wq_process_head w p @ [t]),
     wq_pending_cnt := wq_pending_cnt w + 1, wq_scheduled_ts := now, wq_work_queued := q\<rparr>)"
  using assms by (auto simp: wq_inv_def held_def queued_def)

lemma enqueue_inv:
  assumes "wq_inv w" and "held w t"
  shows "wq_inv (snd (cam_req_mgr_workq_enqueue_task now (Some t) priv prio w))"
proof -
  define p where "p = (if prio < CRM_TASK_PRIORITY_MAX \<and> CRM_TASK_PRIORITY_0 \<le> prio then prio
                       else CRM_TASK_PRIORITY_0)"
  define w1 where "w1 = upd_task t (\<lambda>k. k\<lparr>task_priv := priv, task_priority := p\<rparr>) w"
  have w1: "wq_inv w1" "held w1 t" "task_priority (wq_pool w1 t) = p"
    unfolding w1_def using assms by (auto intro!: fill_inv simp: held_upd) (simp add: upd_task_def)
  have "p = 0 \<or> p = 1" by (auto simp: p_def)
  from append_inv [OF w1(1,2) this w1(3)] show ?thesis
    by (simp add: cam_req_mgr_workq_enqueue_task_def Let_def put_inv [OF assms] put_inv [OF w1(1,2)]
        assms(1) flip: p_def w1_def)
qed

lemma pop_inv:
  assumes "wq_inv w" and "wq_process_head w i = t # ts"
  defines "w1 \<equiv> w\<lparr>wq_pending_cnt := wq_pending_cnt w - 1, wq_process_head := (wq_process_head w)(i := ts)\<rparr>"
  shows "wq_inv w1 \<and> held w1 t"
proof -
  have "i = 0 \<or> i = 1" using assms(1,2) by (auto simp: wq_inv_def)
  with assms(1,2) show ?thesis by (elim disjE) (auto simp: wq_inv_def held_def queued_def w1_def)
qed

subsection \<open>Steps\<close>

text \<open>
  The steps of the clients. \<open>busy\<close> is the task whose callback is being run, when there is one: it
  belongs to the worker, so no client touches it.
\<close>

inductive client_step :: "nat option \<Rightarrow> workq \<Rightarrow> workq \<Rightarrow> bool" for busy where
  client_get: "cam_req_mgr_workq_get_task (Some w) = (r, Some w') \<Longrightarrow> client_step busy w w'"
| client_fill: "held w t \<Longrightarrow> busy \<noteq> Some t \<Longrightarrow>
    client_step busy w (upd_task t (\<lambda>k. k\<lparr>task_process_cb := cb, task_payload := pl, task_cancel := cn\<rparr>) w)"
| client_enqueue: "held w t \<Longrightarrow> busy \<noteq> Some t \<Longrightarrow>
    cam_req_mgr_workq_enqueue_task now (Some t) priv prio w = (rc, w') \<Longrightarrow> client_step busy w w'"

text \<open>\<open>run\<close> is any behaviour of the callbacks that uses the queue as its clients do, whatever else happens
  meanwhile.\<close>

definition client_run :: "nat \<Rightarrow> (crm_call \<Rightarrow> workq \<Rightarrow> workq) \<Rightarrow> bool" where
  "client_run t run \<longleftrightarrow> (\<forall>c v. (client_step (Some t))\<^sup>*\<^sup>* v (run c v))"

inductive workq_step :: "workq \<Rightarrow> workq \<Rightarrow> bool" where
  step_client: "client_step None w w' \<Longrightarrow> workq_step w w'"
| step_start: "wq_worker w = None \<Longrightarrow> wq_work_queued w \<Longrightarrow>
    workq_step w (w\<lparr>wq_work_queued := False, wq_worker := Some CRM_TASK_PRIORITY_0\<rparr>)"
| step_worker: "\<forall>t. client_run t run \<Longrightarrow> workq_step w (worker_iter run w)"
| step_flush: "cam_req_mgr_workq_flush (Some w) = Some w' \<Longrightarrow> workq_step w w'"

inductive workq_reachable :: "workq \<Rightarrow> bool" where
  reach_create: "cam_req_mgr_workq_create alloc awq pool_alloc name num_tasks None in_irq flags = (0, Some w)
    \<Longrightarrow> workq_reachable w"
| reach_step: "workq_reachable w \<Longrightarrow> workq_step w w' \<Longrightarrow> workq_reachable w'"

inductive_cases client_stepE: "client_step busy w w'"

lemma client_step_inv:
  assumes "client_step busy w w'" and "wq_inv w"
  shows "wq_inv w'"
  using assms
proof (cases rule: client_step.cases)
  case (client_get r)
  then show ?thesis using get_inv [OF assms(2)] by blast
next
  case (client_fill t cb pl cn)
  then show ?thesis using fill_inv [OF assms(2), of t] by simp
next
  case (client_enqueue t now priv prio rc)
  then show ?thesis using enqueue_inv [OF assms(2), of t now priv prio] by simp
qed

text \<open>A step of a client does not touch the task of the worker and does not move the worker.\<close>

lemma client_step_busy:
  assumes "client_step (Some t) w w'" and "wq_inv w" and "held w t"
  shows "held w' t \<and> wq_worker w' = wq_worker w"
  using assms(1)
proof (cases rule: client_step.cases)
  case (client_get r)
  then show ?thesis using assms(2,3)
    by (auto simp: cam_req_mgr_workq_get_task_def held_def queued_def split: list.splits)
next
  case (client_fill u cb pl cn)
  then show ?thesis using assms(3) by (simp add: held_upd) (simp add: upd_task_def)
next
  case (client_enqueue u now priv prio rc)
  then have u: "u \<noteq> t" "held w u" by simp_all
  define p where "p = (if prio < CRM_TASK_PRIORITY_MAX \<and> CRM_TASK_PRIORITY_0 \<le> prio then prio
                       else CRM_TASK_PRIORITY_0)"
  have p: "p = 0 \<or> p = 1" by (auto simp: p_def)
  define w1 where "w1 = upd_task u (\<lambda>k. k\<lparr>task_priv := priv, task_priority := p\<rparr>) w"
  have w1: "wq_inv w1" "held w1 u" unfolding w1_def using assms(2) u by (auto intro!: fill_inv simp: held_upd)
  have "w' = snd (cam_req_mgr_workq_enqueue_task now (Some u) priv prio w)" using client_enqueue by simp
  then show ?thesis using assms(3) u(1) p
    by (simp add: cam_req_mgr_workq_enqueue_task_def put_held [OF assms(2) u(2)] Let_def
        put_held [OF w1] flip: p_def w1_def split: if_splits)
       (auto simp: held_def queued_def w1_def upd_task_def)
qed

lemma client_run_inv:
  assumes "client_run t run" and "wq_inv w" and "held w t"
  shows "wq_inv (run c w) \<and> held (run c w) t \<and> wq_worker (run c w) = wq_worker w"
proof -
  from assms(1) have "(client_step (Some t))\<^sup>*\<^sup>* w (run c w)" by (simp add: client_run_def)
  then show ?thesis
  proof (induction rule: rtranclp_induct)
    case base
    show ?case using assms(2,3) by simp
  next
    case (step y z)
    then show ?case using client_step_inv [OF step(2)] client_step_busy [OF step(2)] by simp
  qed
qed

lemma calls_inv: "wq_inv (w\<lparr>wq_calls := cs\<rparr>) = wq_inv w" "held (w\<lparr>wq_calls := cs\<rparr>) t = held w t"
  by (simp_all add: wq_inv_def held_def queued_def)

lemma process_task_inv:
  assumes "client_run t run" and "wq_inv w" and "held w t"
  shows "wq_inv (cam_req_mgr_process_task run t w)"
proof (cases "task_process_cb (wq_pool w t)")
  case None
  then show ?thesis by (simp add: cam_req_mgr_process_task_def put_inv [OF assms(2,3)])
next
  case (Some f)
  then show ?thesis
    using client_run_inv [OF assms(1), of "w\<lparr>wq_calls := wq_calls w @ [c]\<rparr>" c for c] assms(2,3)
    by (auto simp: cam_req_mgr_process_task_def Let_def calls_inv intro!: put_inv)
qed

lemma worker_iter_inv:
  assumes "\<forall>t. client_run t run" and "wq_inv w"
  shows "wq_inv (worker_iter run w)"
proof (cases "wq_worker w")
  case (Some i)
  show ?thesis
  proof (cases "i < CRM_TASK_PRIORITY_MAX")
    case True
    show ?thesis
    proof (cases "wq_process_head w i")
      case Nil
      then show ?thesis using True Some assms(2) by (auto simp: worker_iter_def wq_inv_def queued_def)
    next
      case (Cons t ts)
      then show ?thesis using True Some pop_inv [OF assms(2) Cons] process_task_inv assms(1)
        by (simp add: worker_iter_def Let_def)
    qed
  qed (use Some assms(2) in \<open>simp add: worker_iter_def wq_inv_def queued_def\<close>)
qed (use assms(2) in \<open>simp add: worker_iter_def\<close>)

subsection \<open>The worker loop\<close>

text \<open>The tasks that a worker at priority \<open>i\<close> has still to take.\<close>

definition rest :: "workq \<Rightarrow> int \<Rightarrow> nat list" where
  "rest w i = (if i \<le> 0 then queued w else if i \<le> 1 then wq_process_head w 1 else [])"

lemma rest_simps:
  "i < 2 \<Longrightarrow> 0 \<le> i \<Longrightarrow> rest w i = wq_process_head w i @ rest w (i + 1)"
  "2 \<le> i \<Longrightarrow> rest w i = []"
proof -
  show "rest w i = wq_process_head w i @ rest w (i + 1)" if "i < 2" "0 \<le> i"
  proof -
    from that have "i = 0 \<or> i = 1" by linarith
    then show ?thesis by (auto simp: rest_def queued_def)
  qed
qed (simp add: rest_def)

lemma rest_upd:
  "wq_process_head w' = wq_process_head w \<Longrightarrow> rest w' i = rest w i"
  "0 \<le> i \<Longrightarrow> wq_process_head w' = (wq_process_head w)(i := xs) \<Longrightarrow> rest w' (i + 1) = rest w (i + 1)"
  by (auto simp: rest_def queued_def)

definition drop_from :: "int \<Rightarrow> (int \<Rightarrow> nat list) \<Rightarrow> int \<Rightarrow> nat list" where
  "drop_from i h = (\<lambda>j. if i \<le> j \<and> j < 2 then [] else h j)"

lemma drop_from_simps:
  "h i = [] \<Longrightarrow> drop_from (i + 1) h = drop_from i h"
  "i < 2 \<Longrightarrow> drop_from i (h(i := ts)) = drop_from i h"
  "\<not> i < 2 \<Longrightarrow> drop_from i h = h"
proof -
  show "drop_from (i + 1) h = drop_from i h" if "h i = []"
  proof
    show "drop_from (i + 1) h j = drop_from i h j" for j
      using that by (cases "i = j") (auto simp: drop_from_def)
  qed
qed (auto simp: drop_from_def fun_eq_iff)

lemma drain:
  assumes "wq_flush w" and "wq_worker w = Some i" and "0 \<le> i" and "i \<le> 2"
    and "length (rest w i) + nat (3 - i) \<le> n"
  shows "worker_run run n w = Some (w\<lparr>wq_worker := None,
     wq_pending_cnt := wq_pending_cnt w - int (length (rest w i)),
     wq_process_head := drop_from i (wq_process_head w)\<rparr>)"
  using assms
proof (induction n arbitrary: w i)
  case (Suc n)
  show ?case
  proof (cases "i < 2")
    case True
    show ?thesis
    proof (cases "wq_process_head w i")
      case Nil
      let ?w = "w\<lparr>wq_worker := Some (i + 1)\<rparr>"
      have r: "rest ?w (i + 1) = rest w i"
        using rest_simps(1) [OF True Suc.prems(3), of w] rest_upd(1) [of ?w w "i + 1"] Nil by simp
      have "worker_iter run w = ?w" using Suc.prems(2) True Nil by (simp add: worker_iter_def)
      moreover have "length (rest w i) + nat (3 - (i + 1)) \<le> n" using Suc.prems(5) True by linarith
      ultimately show ?thesis using Suc.IH [of ?w "i + 1"] Suc.prems True r Nil by (simp add: drop_from_simps)
    next
      case (Cons t ts)
      define v where
        "v = w\<lparr>wq_pending_cnt := wq_pending_cnt w - 1, wq_process_head := (wq_process_head w)(i := ts)\<rparr>"
      have vs: "wq_process_head v = (wq_process_head w)(i := ts)" "wq_flush v" "wq_worker v = Some i"
        using Suc.prems by (simp_all add: v_def)
      have r: "rest w i = t # rest v i"
        using rest_simps(1) [OF True Suc.prems(3)] rest_upd(2) [OF Suc.prems(3) vs(1)] Cons vs(1) by simp
      have "drop_from i (wq_process_head v) = drop_from i (wq_process_head w)"
        unfolding vs(1) by (rule drop_from_simps(2) [OF True])
      moreover have "worker_iter run w = v" using Suc.prems(1,2) True Cons by (simp add: worker_iter_def v_def)
      moreover have "length (rest v i) + nat (3 - i) \<le> n" using Suc.prems(5) r by simp
      moreover have "v\<lparr>wq_worker := None, wq_pending_cnt := x, wq_process_head := h\<rparr> =
          w\<lparr>wq_worker := None, wq_pending_cnt := x, wq_process_head := h\<rparr>" for x h
        by (simp add: v_def)
      moreover have "wq_pending_cnt v - int (length (rest v i)) = wq_pending_cnt w - int (length (rest w i))"
        using r by (simp add: v_def)
      ultimately show ?thesis using Suc.IH [OF vs(2,3) Suc.prems(3,4)] Suc.prems(2) by simp
    qed
  next
    case False
    then have "worker_run run n (worker_iter run w) = Some (w\<lparr>wq_worker := None\<rparr>)"
      using Suc.prems(2) by (cases n) (simp_all add: worker_iter_def)
    then show ?thesis using False Suc.prems(2) by (simp add: rest_simps(2) drop_from_simps)
  qed
qed simp

lemma rest_le: "length (rest w i) \<le> length (wq_process_head w 0) + length (wq_process_head w 1)"
  by (simp add: rest_def queued_def)

lemma finish_worker_eq:
  assumes "wq_inv w" and "wq_flush w"
  shows "finish_worker w = (case wq_worker w of None \<Rightarrow> w
     | Some i \<Rightarrow> w\<lparr>wq_worker := None, wq_pending_cnt := wq_pending_cnt w - int (length (rest w i)),
                   wq_process_head := drop_from i (wq_process_head w)\<rparr>)"
proof (cases "wq_worker w")
  case None
  have "worker_run run n w = Some w" for run n by (cases n) (simp_all add: None)
  then show ?thesis by (simp add: finish_worker_def None)
next
  case (Some i)
  have i: "0 \<le> i" "i \<le> 2" using assms(1) Some by (auto simp: wq_inv_def)
  have "length (rest w i) + nat (3 - i) \<le> length (wq_process_head w 0) + length (wq_process_head w 1) + 3"
    using rest_le [of w i] i by linarith
  from drain [OF assms(2) Some i this] show ?thesis by (simp add: finish_worker_def Some)
qed

lemma finish_inv:
  assumes "wq_inv w" and "wq_flush w"
  shows "wq_inv (finish_worker w)"
proof (cases "wq_worker w")
  case (Some i)
  have "0 \<le> i" "i \<le> 2" using assms(1) Some by (auto simp: wq_inv_def)
  then have "i = 0 \<or> i = 1 \<or> i = 2" by linarith
  then show ?thesis using assms(1)
    by (elim disjE) (auto simp: finish_worker_eq [OF assms] Some wq_inv_def queued_def rest_def drop_from_def)
qed (use assms in \<open>simp add: finish_worker_eq\<close>)

lemma flush_field_inv: "wq_inv (w\<lparr>wq_flush := f\<rparr>) = wq_inv w" "wq_inv (w\<lparr>wq_work_queued := q\<rparr>) = wq_inv w"
  by (simp_all add: wq_inv_def queued_def)

lemma flush_inv: "wq_inv w \<Longrightarrow> cam_req_mgr_workq_flush (Some w) = Some w' \<Longrightarrow> wq_inv w'"
  using finish_inv [of "w\<lparr>wq_flush := True, wq_work_queued := False\<rparr>"]
  by (auto simp: cam_req_mgr_workq_flush_def flush_field_inv)

subsection \<open>The pool at creation\<close>

definition fresh_workq :: "nat \<Rightarrow> workq \<Rightarrow> bool" where
  "fresh_workq k w \<longleftrightarrow> wq_empty_head w = [0..<k] \<and> wq_process_head w = (\<lambda>_. []) \<and> wq_free_cnt w = int k \<and>
     wq_pending_cnt w = 0 \<and> wq_worker w = None \<and> (\<forall>t. task_clean (wq_pool w t)) \<and>
     (\<forall>t < k. task_parent (wq_pool w t)) \<and> \<not> wq_flush w \<and> wq_job w \<and> \<not> wq_work_queued w \<and> wq_calls w = []"

lemma put_fresh:
  assumes "fresh_workq k w"
  shows "fresh_workq (Suc k) (cam_req_mgr_workq_put_task k (upd_task k (\<lambda>t. t\<lparr>task_parent := True\<rparr>) w))"
proof -
  have "removeAll k [0..<k] = [0..<k]" by (simp add: removeAll_id)
  with assms show ?thesis
    by (auto simp: fresh_workq_def cam_req_mgr_workq_put_task_def unlink_task_def upd_task_def task_clean_def
        less_Suc_eq)
qed

lemma put_num: "wq_num_task (cam_req_mgr_workq_put_task k (upd_task k f w)) = wq_num_task w"
  by (simp add: cam_req_mgr_workq_put_task_def unlink_task_def upd_task_def Let_def)

lemma put_all_fresh: "fresh_workq i w \<Longrightarrow> fresh_workq (i + k) (put_all k i w) \<and> wq_num_task (put_all k i w) = wq_num_task w"
proof (induction k arbitrary: i w)
  case (Suc k)
  from Suc.IH [OF put_fresh [OF Suc.prems, unfolded Suc_eq_plus1]] show ?case by (simp add: put_num)
qed simp

lemma create_fresh:
  assumes "cam_req_mgr_workq_create alloc awq pool_alloc name num_tasks None in_irq flags = (0, Some w)"
  shows "fresh_workq (unat (wq_num_task w)) w \<and> wq_num_task w = word_of_int num_tasks"
proof -
  define w0 where "w0 = \<lparr>wq_job = True, wq_in_irq = in_irq, wq_scheduled_ts = 0, wq_flush = False,
    wq_name = take (WORKQ_NAME_LEN - 1) (''crm_workq-'' @ name), wq_pending_cnt = 0, wq_free_cnt = 0,
    wq_process_head = (\<lambda>_. []), wq_empty_head = [], wq_pool = (\<lambda>_. zero_task),
    wq_num_task = word_of_int num_tasks, wq_work_queued = False, wq_worker = None, wq_calls = []\<rparr>"
  have "fresh_workq 0 w0" by (simp add: w0_def fresh_workq_def zero_task_def task_clean_def)
  moreover have "w = put_all (unat (wq_num_task w0)) 0 w0"
    using assms by (simp add: cam_req_mgr_workq_create_def Let_def w0_def split: if_splits)
  moreover have "wq_num_task w0 = word_of_int num_tasks" by (simp add: w0_def)
  ultimately show ?thesis using put_all_fresh [of 0 w0 "unat (wq_num_task w0)"] by simp
qed

lemma fresh_inv: "fresh_workq (unat (wq_num_task w)) w \<Longrightarrow> wq_inv w"
  by (auto simp: fresh_workq_def wq_inv_def queued_def)

lemma workq_step_inv: "workq_step w w' \<Longrightarrow> wq_inv w \<Longrightarrow> wq_inv w'"
proof (induction rule: workq_step.induct)
  case (step_start w)
  then show ?case by (simp add: wq_inv_def queued_def)
qed (auto intro: client_step_inv worker_iter_inv flush_inv)

lemma workq_reachable_inv: "workq_reachable w \<Longrightarrow> wq_inv w"
  by (induction rule: workq_reachable.induct) (auto intro: workq_step_inv fresh_inv dest: create_fresh)

subsection \<open>Running the queued tasks\<close>






subsection \<open>Properties\<close>

text \<open>A queue with three tasks, two of them enqueued: task 0 with priority 1, then task 1 with priority 0.\<close>

definition demo_workq :: workq where
  "demo_workq = the (snd (cam_req_mgr_workq_create True (\<lambda>_ _ _. True) True ''demo'' 3 None 0 0))"

definition demo_take :: "nat \<Rightarrow> workq \<Rightarrow> workq" where
  "demo_take cb w =
     (case cam_req_mgr_workq_get_task (Some w) of
        (Some t, Some w') \<Rightarrow> upd_task t (\<lambda>k. k\<lparr>task_process_cb := Some cb, task_payload := None, task_cancel := 0\<rparr>) w'
      | _ \<Rightarrow> w)"

definition demo_workq1 :: workq where
  "demo_workq1 = snd (cam_req_mgr_workq_enqueue_task 5 (Some 1) None 0 (demo_take 11
     (snd (cam_req_mgr_workq_enqueue_task 4 (Some 0) (Some 7) 1 (demo_take 10 demo_workq)))))"

lemma demo_workq_create:
  "cam_req_mgr_workq_create True (\<lambda>_ _ _. True) True ''demo'' 3 None 0 0 = (0, Some demo_workq)"
  by (simp add: demo_workq_def cam_req_mgr_workq_create_def Let_def)

lemma demo_workq_fresh: "fresh_workq 3 demo_workq" "wq_num_task demo_workq = 3"
  using create_fresh [OF demo_workq_create] by (auto elim: subst)

lemma demo_workq1_fields:
  "wq_process_head demo_workq1 = (\<lambda>_. [])(1 := [0], 0 := [1])" "wq_empty_head demo_workq1 = [2]"
  "wq_num_task demo_workq1 = 3" "\<not> wq_flush demo_workq1" "wq_work_queued demo_workq1" "wq_worker demo_workq1 = None"
  "wq_job demo_workq1" "wq_calls demo_workq1 = []" "task_process_cb (wq_pool demo_workq1 0) = Some 10"
  "task_process_cb (wq_pool demo_workq1 (Suc 0)) = Some 11"
  "task_priv (wq_pool demo_workq1 0) = Some 7" "task_priv (wq_pool demo_workq1 (Suc 0)) = None"
  "task_payload (wq_pool demo_workq1 0) = None" "task_payload (wq_pool demo_workq1 (Suc 0)) = None"
  using demo_workq_fresh
  by (simp_all add: demo_workq1_def demo_take_def cam_req_mgr_workq_enqueue_task_def fresh_workq_def
      cam_req_mgr_workq_get_task_def upd_task_def Let_def upt_rec)

lemma demo_take_reachable:
  assumes "workq_reachable w" and "wq_empty_head w = t # ts"
  shows "workq_reachable (demo_take cb w) \<and> held (demo_take cb w) t"
proof -
  obtain w1 where g: "cam_req_mgr_workq_get_task (Some w) = (Some t, Some w1)"
    using assms(2) by (simp add: cam_req_mgr_workq_get_task_def)
  then have "workq_reachable w1" using assms(1) client_get step_client reach_step by blast
  moreover have "held w1 t" using get_inv [OF workq_reachable_inv [OF assms(1)] g] by simp
  ultimately show ?thesis using client_fill [of w1 t None 0 None "Some cb"]
    by (auto simp: demo_take_def g held_upd intro: step_client reach_step)
qed

lemma enqueue_reachable:
  "workq_reachable w \<Longrightarrow> held w t \<Longrightarrow> workq_reachable (snd (cam_req_mgr_workq_enqueue_task now (Some t) pr p w))"
  by (rule reach_step, assumption, rule step_client, rule client_enqueue [OF _ _ surjective_pairing]) auto

lemma demo_workq1_reachable: "workq_reachable demo_workq1"
proof -
  have 0: "workq_reachable demo_workq" using demo_workq_create by (rule reach_create)
  have e: "wq_empty_head demo_workq = 0 # [1, 2]"
    using demo_workq_fresh by (simp add: fresh_workq_def upt_rec)
  define w1 where "w1 = snd (cam_req_mgr_workq_enqueue_task 4 (Some 0) (Some 7) 1 (demo_take 10 demo_workq))"
  have 1: "workq_reachable w1"
    unfolding w1_def using demo_take_reachable [OF 0 e, of 10] by (intro enqueue_reachable) auto
  have "wq_empty_head w1 = 1 # [2]"
    using demo_workq_fresh
    by (simp add: w1_def demo_take_def cam_req_mgr_workq_enqueue_task_def fresh_workq_def
        cam_req_mgr_workq_get_task_def upd_task_def Let_def upt_rec)
  from demo_take_reachable [OF 1 this, of 11] show ?thesis
    unfolding demo_workq1_def w1_def [symmetric] by (intro enqueue_reachable) auto
qed

text \<open>C27: the bookkeeping of a work queue is exact in every state that clients, worker and flushes can bring it
  to, callbacks that use the queue themselves included: a task is on at most one list and at most
  once, the two counters are the lengths of the lists, a free task carries no callback and no
  private data of its last user, and a queued task is on the list of its priority. Hence the pool
  never hands out a task that is queued or in use.\<close>

theorem workq_bookkeeping:
  assumes "workq_reachable w"
  shows "distinct (wq_empty_head w @ wq_process_head w 0 @ wq_process_head w 1) \<and>
     wq_free_cnt w = int (length (wq_empty_head w)) \<and>
     wq_pending_cnt w = int (length (wq_process_head w 0) + length (wq_process_head w 1)) \<and>
     (\<forall>t \<in> set (wq_empty_head w). task_process_cb (wq_pool w t) = None \<and> task_priv (wq_pool w t) = None \<and>
        task_cancel (wq_pool w t) = 0) \<and>
     (\<forall>i. \<forall>t \<in> set (wq_process_head w i). task_priority (wq_pool w t) = i \<and> (i = 0 \<or> i = 1)) \<and>
     (\<forall>t w'. cam_req_mgr_workq_get_task (Some w) = (Some t, w') \<longrightarrow>
        t < unat (wq_num_task w) \<and> t \<notin> set (wq_process_head w 0) \<union> set (wq_process_head w 1))"
proof -
  have i: "wq_inv w" using assms by (rule workq_reachable_inv)
  have "i = 0 \<or> i = 1" if "t \<in> set (wq_process_head w i)" for i t
    using i that by (auto simp: wq_inv_def)
  moreover have "t \<in> set (wq_empty_head w)" if "cam_req_mgr_workq_get_task (Some w) = (Some t, w')" for t w'
    using that by (auto simp: cam_req_mgr_workq_get_task_def split: list.splits)
  ultimately show ?thesis using i by (auto simp: wq_inv_def queued_def task_clean_def)
qed

theorem workq_bookkeeping_witness:
  "wq_pending_cnt demo_workq1 = 2 \<and> wq_free_cnt demo_workq1 = 1"
  using workq_bookkeeping [OF demo_workq1_reachable] by (simp add: demo_workq1_fields)



text \<open>enqueueing a task that the client holds has three outcomes. A cancelled task, and any task during a
  flush, goes back to the end of the list of free tasks with status 0. Without a kernel work queue
  (after the start of a destruction) it goes back too, with \<open>-EINVAL\<close>. Otherwise it becomes the last
  task of the list of its priority, an out-of-range priority counting as priority 0, with the
  private data of the caller, and the work item is queued, so that the worker will run.\<close>

theorem enqueue_outcomes:
  assumes "workq_reachable w" and "held w t"
    and "cam_req_mgr_workq_enqueue_task now (Some t) priv prio w = (rc, w')"
  shows "if task_cancel (wq_pool w t) = 1 \<or> wq_flush w \<or> \<not> wq_job w
     then rc = (if task_cancel (wq_pool w t) = 1 \<or> wq_flush w then 0 else - EINVAL) \<and>
          wq_empty_head w' = wq_empty_head w @ [t] \<and> wq_free_cnt w' = wq_free_cnt w + 1 \<and>
          task_process_cb (wq_pool w' t) = None \<and> wq_process_head w' = wq_process_head w \<and>
          wq_work_queued w' = wq_work_queued w
     else let p = (if prio = CRM_TASK_PRIORITY_1 then CRM_TASK_PRIORITY_1 else CRM_TASK_PRIORITY_0) in
          rc = 0 \<and> wq_process_head w' = (wq_process_head w)(p := wq_process_head w p @ [t]) \<and>
          wq_empty_head w' = wq_empty_head w \<and> wq_pending_cnt w' = wq_pending_cnt w + 1 \<and>
          wq_pool w' t = (wq_pool w t)\<lparr>task_priv := priv, task_priority := p\<rparr> \<and> wq_work_queued w'"
proof -
  have i: "wq_inv w" using assms(1) by (rule workq_reachable_inv)
  define p where "p = (if prio < CRM_TASK_PRIORITY_MAX \<and> CRM_TASK_PRIORITY_0 \<le> prio then prio
                       else CRM_TASK_PRIORITY_0)"
  have p: "p = (if prio = CRM_TASK_PRIORITY_1 then CRM_TASK_PRIORITY_1 else CRM_TASK_PRIORITY_0)"
    by (auto simp: p_def)
  define w1 where "w1 = upd_task t (\<lambda>k. k\<lparr>task_priv := priv, task_priority := p\<rparr>) w"
  have w1: "wq_inv w1" "held w1 t" unfolding w1_def using i assms(2) by (auto intro!: fill_inv simp: held_upd)
  have "task_parent (wq_pool w t)" using i assms(2) by (simp add: wq_inv_def held_def)
  then have "cam_req_mgr_workq_enqueue_task now (Some t) priv prio w =
     (if task_cancel (wq_pool w t) = 1 \<or> wq_flush w then (0, cam_req_mgr_workq_put_task t w)
     else if \<not> wq_job w1 then (- EINVAL, cam_req_mgr_workq_put_task t w1)
     else (0, w1\<lparr>wq_process_head := (wq_process_head w1)(p := wq_process_head w1 p @ [t]),
                 wq_pending_cnt := wq_pending_cnt w1 + 1, wq_scheduled_ts := now, wq_work_queued := True\<rparr>))"
    unfolding cam_req_mgr_workq_enqueue_task_def option.case Let_def p_def [symmetric] w1_def [symmetric]
    by simp
  with assms(3) show ?thesis unfolding p [symmetric] Let_def put_held [OF i assms(2)] put_held [OF w1]
    by (auto simp: w1_def upd_task_def split: if_splits)
qed

theorem enqueue_outcomes_witness:
  "held (demo_take 12 demo_workq1) 2 \<and>
   wq_process_head (snd (cam_req_mgr_workq_enqueue_task 9 (Some 2) None 77 (demo_take 12 demo_workq1))) 0 = [1, 2]"
proof -
  let ?w = "demo_take 12 demo_workq1"
  have h: "workq_reachable ?w \<and> held ?w 2"
    using demo_take_reachable [OF demo_workq1_reachable] demo_workq1_fields(2) by blast
  have f: "wq_process_head ?w 0 = [1]" "\<not> wq_flush ?w" "wq_job ?w" "task_cancel (wq_pool ?w 2) = 0"
    by (simp_all add: demo_take_def cam_req_mgr_workq_get_task_def demo_workq1_fields upd_task_def)
  show ?thesis using h f
      enqueue_outcomes [of ?w 2 9 None 77 "fst (cam_req_mgr_workq_enqueue_task 9 (Some 2) None 77 ?w)"
        "snd (cam_req_mgr_workq_enqueue_task 9 (Some 2) None 77 ?w)"]
    by (simp add: Let_def)
qed

text \<open>a flush runs no task and returns none to the pool: the tasks that the running worker had still to take
  are unlinked and end up on no list, so they are lost for every client, and when the worker was not
  running the queued tasks stay queued with the work item cancelled, so nothing runs them until
  another task is enqueued.\<close>

theorem flush_loses_tasks:
  assumes "workq_reachable w" and "cam_req_mgr_workq_flush (Some w) = Some w'"
  shows "wq_calls w' = wq_calls w \<and> wq_empty_head w' = wq_empty_head w \<and> wq_free_cnt w' = wq_free_cnt w \<and>
     \<not> wq_work_queued w' \<and> wq_worker w' = None \<and>
     (wq_worker w = None \<longrightarrow> wq_process_head w' = wq_process_head w) \<and>
     (wq_worker w = Some 0 \<longrightarrow> (\<forall>t \<in> set (wq_process_head w 0) \<union> set (wq_process_head w 1). held w' t))"
proof -
  have i: "wq_inv w" using assms(1) by (rule workq_reachable_inv)
  let ?w = "w\<lparr>wq_flush := True, wq_work_queued := False\<rparr>"
  have "wq_inv ?w" using i by (simp add: wq_inv_def queued_def)
  from finish_worker_eq [OF this] assms(2)
  have w': "w' = (case wq_worker w of None \<Rightarrow> ?w | Some i \<Rightarrow> ?w\<lparr>wq_worker := None,
      wq_pending_cnt := wq_pending_cnt w - int (length (rest ?w i)),
      wq_process_head := drop_from i (wq_process_head w)\<rparr>)\<lparr>wq_flush := False\<rparr>"
    by (cases "wq_worker w") (simp_all add: cam_req_mgr_workq_flush_def)
  show ?thesis
  proof (cases "wq_worker w")
    case (Some j)
    then show ?thesis using i by (auto simp: w' held_def queued_def drop_from_def wq_inv_def)
  qed (simp add: w')
qed

theorem flush_loses_tasks_witness:
  "\<exists>w'. cam_req_mgr_workq_flush (Some (demo_workq1\<lparr>wq_work_queued := False, wq_worker := Some 0\<rparr>)) = Some w' \<and>
     held w' 0 \<and> held w' 1 \<and> wq_empty_head w' = [2] \<and> wq_calls w' = []"
proof -
  let ?w = "demo_workq1\<lparr>wq_work_queued := False, wq_worker := Some 0\<rparr>"
  have r: "workq_reachable ?w"
    by (rule reach_step [OF demo_workq1_reachable], rule step_start) (simp_all add: demo_workq1_fields)
  obtain w' where w': "cam_req_mgr_workq_flush (Some ?w) = Some w'" by (simp add: cam_req_mgr_workq_flush_def)
  then show ?thesis using flush_loses_tasks [OF r w'] by (simp add: demo_workq1_fields)
qed

end
