(* ===== verification/Cam_Mem.thy ===== *)
theory Cam_Mem
  imports Cam_Interfaces
begin

unbundle bit_operations_syntax

section \<open>The buffer table of the camera memory manager\<close>

text \<open>
  Model of \<open>camera-kernel/drivers/cam_req_mgr/cam_mem_mgr.c\<close> in its configuration with dma-buf heaps and
  without the pre-silicon support: a table of 2048 buffer entries behind a bitmap, in which slot 0 is
  reserved, and the operations that allocate, import, look up and release buffers. A buffer is named by
  a 32-bit handle that carries the index of its entry, a bit for protected buffers and the low 16 bits of
  its file descriptor.

  The dma-buf framework and the dma-buf heaps of Linux are not part of the sources, and the SMMU driver
  (\<open>cam_smmu\<close>) is a component of its own: both are the parameter \<open>A\<close> of type \<open>'x mem_core\<close>, a record of
  the operations the memory manager calls over an opaque state \<open>'x\<close>. Nothing is assumed of them unless
  a theorem says so. A \<open>struct dma_buf\<close> or \<open>struct dma_heap\<close> pointer is a natural number, NULL is 0; a
  function that returns a pointer or an error pointer returns a \<open>kptr\<close>. File descriptors, SMMU handles and
  status codes are integers; a C \<open>int32_t\<close> buffer handle is kept as its 32-bit word. The mutexes of the
  table and of its entries serialise the operations: an operation is one atomic step here. Logging, the
  debugfs files and the allocation profile are left out; the \<open>align\<close> field of an entry is never written.
\<close>

subsection \<open>Flags, handles and directions\<close>

abbreviation EAGAIN :: int where "EAGAIN \<equiv> 11"
abbreviation EBADR :: int where "EBADR \<equiv> 53"

abbreviation CAM_MEM_FLAG_HW_READ_WRITE :: u32 where "CAM_MEM_FLAG_HW_READ_WRITE \<equiv> 0x1"
abbreviation CAM_MEM_FLAG_HW_READ_ONLY :: u32 where "CAM_MEM_FLAG_HW_READ_ONLY \<equiv> 0x2"
abbreviation CAM_MEM_FLAG_HW_WRITE_ONLY :: u32 where "CAM_MEM_FLAG_HW_WRITE_ONLY \<equiv> 0x4"
abbreviation CAM_MEM_FLAG_KMD_ACCESS :: u32 where "CAM_MEM_FLAG_KMD_ACCESS \<equiv> 0x8"
abbreviation CAM_MEM_FLAG_PROTECTED_MODE :: u32 where "CAM_MEM_FLAG_PROTECTED_MODE \<equiv> 0x20"
abbreviation CAM_MEM_FLAG_CMD_BUF_TYPE :: u32 where "CAM_MEM_FLAG_CMD_BUF_TYPE \<equiv> 0x40"
abbreviation CAM_MEM_FLAG_CACHE :: u32 where "CAM_MEM_FLAG_CACHE \<equiv> 0x400"
abbreviation CAM_MEM_FLAG_HW_SHARED_ACCESS :: u32 where "CAM_MEM_FLAG_HW_SHARED_ACCESS \<equiv> 0x800"
abbreviation CAM_MEM_FLAG_CDSP_OUTPUT :: u32 where "CAM_MEM_FLAG_CDSP_OUTPUT \<equiv> 0x1000"
abbreviation CAM_MEM_FLAG_DISABLE_DELAYED_UNMAP :: u32 where "CAM_MEM_FLAG_DISABLE_DELAYED_UNMAP \<equiv> 0x2000"
abbreviation CAM_MEM_FLAG_KMD_DEBUG_FLAG :: u32 where "CAM_MEM_FLAG_KMD_DEBUG_FLAG \<equiv> 0x4000"
abbreviation CAM_MEM_FLAG_EVA_NOPIXEL :: u32 where "CAM_MEM_FLAG_EVA_NOPIXEL \<equiv> 0x8000"
abbreviation CAM_MEM_FLAG_HW_AND_CDM_OR_SHARED :: u32 where "CAM_MEM_FLAG_HW_AND_CDM_OR_SHARED \<equiv> 0x10000"
abbreviation CAM_MEM_FLAG_UBWC_P_HEAP :: u32 where "CAM_MEM_FLAG_UBWC_P_HEAP \<equiv> 0x20000"

abbreviation CAM_MEM_MMU_MAX_HANDLE :: nat where "CAM_MEM_MMU_MAX_HANDLE \<equiv> 16"
abbreviation CAM_MEM_BUFQ_MAX :: int where "CAM_MEM_BUFQ_MAX \<equiv> 2048"
abbreviation CAM_MEM_MGR_HDL_IDX_MASK :: u32 where "CAM_MEM_MGR_HDL_IDX_MASK \<equiv> 0x7FFF"
abbreviation CAM_MEM_CLEAN_INV_CACHE :: u32 where "CAM_MEM_CLEAN_INV_CACHE \<equiv> 3"
abbreviation CAM_MEM_BEGIN_CPU_ACCESS :: u32 where "CAM_MEM_BEGIN_CPU_ACCESS \<equiv> 1"
abbreviation CAM_MEM_END_CPU_ACCESS :: u32 where "CAM_MEM_END_CPU_ACCESS \<equiv> 2"
abbreviation CAM_MEM_CPU_ACCESS_READ :: u32 where "CAM_MEM_CPU_ACCESS_READ \<equiv> 1"
abbreviation CAM_MEM_CPU_ACCESS_WRITE :: u32 where "CAM_MEM_CPU_ACCESS_WRITE \<equiv> 2"
abbreviation CAM_MEM_SHARED_BUFFER_PAD_4K :: u64 where "CAM_MEM_SHARED_BUFFER_PAD_4K \<equiv> 4096"

text \<open>\<open>enum dma_data_direction\<close> of Linux, and the virtual machine ids of \<open>secure_buffer.h\<close> by name.\<close>

abbreviation DMA_BIDIRECTIONAL :: int where "DMA_BIDIRECTIONAL \<equiv> 0"
abbreviation DMA_TO_DEVICE :: int where "DMA_TO_DEVICE \<equiv> 1"
abbreviation DMA_FROM_DEVICE :: int where "DMA_FROM_DEVICE \<equiv> 2"

datatype vmid = VMID_CP_CAMERA | VMID_CP_CDSP | VMID_CP_NON_PIXEL

datatype cam_smmu_region_id =
    CAM_SMMU_REGION_FIRMWARE | CAM_SMMU_REGION_SHARED | CAM_SMMU_REGION_SCRATCH | CAM_SMMU_REGION_IO
  | CAM_SMMU_REGION_SECHEAP | CAM_SMMU_REGION_QDSS | CAM_SMMU_REGION_FWUNCACHED

datatype cam_smmu_mapping_client = CAM_SMMU_MAPPING_USER | CAM_SMMU_MAPPING_KERNEL

text \<open>The C expression \<open>flags & F\<close> used as a condition.\<close>

definition has_flag :: "u32 \<Rightarrow> u32 \<Rightarrow> bool" where
  "has_flag flags f \<longleftrightarrow> flags AND f \<noteq> 0"

definition GET_MEM_HANDLE :: "int \<Rightarrow> int \<Rightarrow> u32" where
  "GET_MEM_HANDLE idx fd = (word_of_int idx AND CAM_MEM_MGR_HDL_IDX_MASK) OR push_bit 16 (word_of_int fd)"

definition GET_FD_FROM_HANDLE :: "u32 \<Rightarrow> int" where
  "GET_FD_FROM_HANDLE hdl = sint (signed_drop_bit 16 hdl)"

definition CAM_MEM_MGR_GET_HDL_IDX :: "u32 \<Rightarrow> int" where
  "CAM_MEM_MGR_GET_HDL_IDX hdl = uint (hdl AND CAM_MEM_MGR_HDL_IDX_MASK)"

definition CAM_MEM_MGR_SET_SECURE_HDL :: "u32 \<Rightarrow> bool \<Rightarrow> u32" where
  "CAM_MEM_MGR_SET_SECURE_HDL hdl flag = (if flag then hdl OR push_bit 15 1 else hdl AND NOT (push_bit 15 1))"

definition CAM_MEM_MGR_IS_SECURE_HDL :: "u32 \<Rightarrow> bool" where
  "CAM_MEM_MGR_IS_SECURE_HDL hdl \<longleftrightarrow> signed_drop_bit 15 (hdl AND push_bit 15 1) \<noteq> 0"

definition cam_mem_is_secure_buf :: "u32 \<Rightarrow> bool" where
  "cam_mem_is_secure_buf buf_handle = CAM_MEM_MGR_IS_SECURE_HDL buf_handle"

subsection \<open>The dma-buf framework and the SMMU driver, a parameter\<close>

datatype kptr = ERR_PTR int | PTR nat

definition IS_ERR :: "kptr \<Rightarrow> bool" where
  "IS_ERR p = (case p of ERR_PTR _ \<Rightarrow> True | PTR _ \<Rightarrow> False)"

definition IS_ERR_OR_NULL :: "kptr \<Rightarrow> bool" where
  "IS_ERR_OR_NULL p = (case p of ERR_PTR _ \<Rightarrow> True | PTR a \<Rightarrow> a = 0)"

text \<open>\<open>PTR_ERR\<close> of an error pointer is its errno; of NULL it is 0.\<close>

definition PTR_ERR :: "kptr \<Rightarrow> int" where
  "PTR_ERR p = (case p of ERR_PTR e \<Rightarrow> e | PTR a \<Rightarrow> int a)"

definition ptr_of :: "kptr \<Rightarrow> nat" where
  "ptr_of p = (case p of ERR_PTR _ \<Rightarrow> 0 | PTR a \<Rightarrow> a)"

text \<open>The map operations take and return the pair of an IO address and a length, the C code's in/out
  arguments.\<close>

record 'x mem_core =
  mc_now :: "'x \<Rightarrow> nat"
  mc_alloc_bitmap :: "'x \<Rightarrow> bool"
  mc_heap_find :: "string \<Rightarrow> 'x \<Rightarrow> kptr"
  mc_heap_alloc :: "nat \<Rightarrow> u64 \<Rightarrow> 'x \<Rightarrow> kptr \<times> 'x"
  mc_i_ino :: "nat \<Rightarrow> 'x \<Rightarrow> u64"
  mc_size :: "nat \<Rightarrow> 'x \<Rightarrow> u64"
  mc_lend :: "nat \<Rightarrow> vmid list \<Rightarrow> 'x \<Rightarrow> int \<times> 'x"
  mc_get :: "nat \<Rightarrow> 'x \<Rightarrow> 'x"
  mc_put :: "nat \<Rightarrow> 'x \<Rightarrow> 'x"
  mc_fd :: "nat \<Rightarrow> 'x \<Rightarrow> int \<times> 'x"
  mc_get_from_fd :: "int \<Rightarrow> 'x \<Rightarrow> kptr \<times> 'x"
  mc_set_name :: "nat \<Rightarrow> string \<Rightarrow> 'x \<Rightarrow> 'x"
  mc_get_flags :: "nat \<Rightarrow> 'x \<Rightarrow> int"
  mc_begin_cpu_access :: "nat \<Rightarrow> int \<Rightarrow> 'x \<Rightarrow> int \<times> 'x"
  mc_end_cpu_access :: "nat \<Rightarrow> int \<Rightarrow> 'x \<Rightarrow> int \<times> 'x"
  mc_vmap :: "nat \<Rightarrow> 'x \<Rightarrow> int \<times> u64 \<times> 'x"
  mc_vunmap :: "nat \<Rightarrow> u64 \<Rightarrow> 'x \<Rightarrow> 'x"
  smmu_force_cached :: "'x \<Rightarrow> int \<times> bool"
  smmu_padding :: "'x \<Rightarrow> bool"
  smmu_expanded :: "'x \<Rightarrow> bool"
  smmu_shared_region :: "int \<Rightarrow> 'x \<Rightarrow> bool"
  smmu_map_user :: "int \<Rightarrow> int \<Rightarrow> nat \<Rightarrow> bool \<Rightarrow> int \<Rightarrow> cam_smmu_region_id \<Rightarrow> bool \<Rightarrow> u64 \<times> u64 \<Rightarrow> 'x
                     \<Rightarrow> int \<times> (u64 \<times> u64) \<times> 'x"
  smmu_map_stage2 :: "int \<Rightarrow> int \<Rightarrow> nat \<Rightarrow> int \<Rightarrow> u64 \<times> u64 \<Rightarrow> 'x \<Rightarrow> int \<times> (u64 \<times> u64) \<times> 'x"
  smmu_map_kernel :: "int \<Rightarrow> nat \<Rightarrow> cam_smmu_region_id \<Rightarrow> u64 \<times> u64 \<Rightarrow> 'x \<Rightarrow> int \<times> (u64 \<times> u64) \<times> 'x"
  smmu_unmap_user :: "int \<Rightarrow> int \<Rightarrow> nat \<Rightarrow> cam_smmu_region_id \<Rightarrow> 'x \<Rightarrow> int \<times> 'x"
  smmu_unmap_stage2 :: "int \<Rightarrow> int \<Rightarrow> nat \<Rightarrow> 'x \<Rightarrow> int \<times> 'x"
  smmu_unmap_kernel :: "int \<Rightarrow> nat \<Rightarrow> cam_smmu_region_id \<Rightarrow> 'x \<Rightarrow> int \<times> 'x"
  smmu_get_iova :: "int \<Rightarrow> int \<Rightarrow> nat \<Rightarrow> 'x \<Rightarrow> int \<times> u64 \<times> u64"
  smmu_get_stage2_iova :: "int \<Rightarrow> int \<Rightarrow> nat \<Rightarrow> 'x \<Rightarrow> int \<times> u64 \<times> u64"
  smmu_reserve_buf_region :: "cam_smmu_region_id \<Rightarrow> int \<Rightarrow> nat \<Rightarrow> u64 \<times> u64 \<Rightarrow> 'x \<Rightarrow> int \<times> (u64 \<times> u64) \<times> 'x"
  smmu_release_buf_region :: "cam_smmu_region_id \<Rightarrow> int \<Rightarrow> 'x \<Rightarrow> int \<times> 'x"

subsection \<open>The table\<close>

record cam_mem_buf_queue =
  bq_dma_buf :: nat
  bq_hdls :: "int list"
  bq_num_hdl :: nat
  bq_fd :: int
  bq_i_ino :: u64
  bq_buf_handle :: u32
  bq_len :: u64
  bq_flags :: u32
  bq_vaddr :: u64
  bq_kmdvaddr :: u64
  bq_active :: bool
  bq_is_imported :: bool
  bq_is_internal :: bool
  bq_timestamp :: nat

record 'x cam_mem_table =
  mt_state :: bool
  mt_bitmap :: bitmap
  mt_bufq :: "int \<Rightarrow> cam_mem_buf_queue"
  mt_dbg_buf_idx :: int
  mt_force_cache_allocs :: bool
  mt_need_shared_buffer_padding :: bool
  mt_system_heap :: nat
  mt_system_uncached_heap :: nat
  mt_camera_heap :: nat
  mt_camera_uncached_heap :: nat
  mt_secure_display_heap :: nat
  mt_ubwc_p_heap :: nat
  mt_override_cpu_access_dir :: bool
  mt_core :: 'x

record cam_mem_mgr_alloc_cmd_v2 =
  ac_num_hdl :: u32
  ac_mmu_hdls :: "int list"
  ac_len :: u64
  ac_buf_name :: string
  ac_flags :: u32

record cam_mem_alloc_out_params =
  ao_buf_handle :: u32
  ao_fd :: int
  ao_vaddr :: u64

record cam_mem_mgr_map_cmd_v2 =
  pc_fd :: int
  pc_mmu_hdls :: "int list"
  pc_num_hdl :: u32
  pc_flags :: u32
  pc_buf_name :: string

record cam_mem_map_out_params =
  po_buf_handle :: u32
  po_size :: u32
  po_vaddr :: u64

record cam_mem_mgr_request_desc =
  rd_size :: u64
  rd_smmu_hdl :: int
  rd_flags :: u32

record cam_mem_mgr_memory_desc =
  md_kva :: u64
  md_iova :: u32
  md_smmu_hdl :: int
  md_mem_handle :: u32
  md_len :: u64
  md_region :: cam_smmu_region_id

definition zero_bufq :: cam_mem_buf_queue where
  "zero_bufq = \<lparr>bq_dma_buf = 0, bq_hdls = replicate CAM_MEM_MMU_MAX_HANDLE 0, bq_num_hdl = 0, bq_fd = 0,
     bq_i_ino = 0, bq_buf_handle = 0, bq_len = 0, bq_flags = 0, bq_vaddr = 0, bq_kmdvaddr = 0,
     bq_active = False, bq_is_imported = False, bq_is_internal = False, bq_timestamp = 0\<rparr>"

definition upd_bufq ::
  "int \<Rightarrow> (cam_mem_buf_queue \<Rightarrow> cam_mem_buf_queue) \<Rightarrow> 'x cam_mem_table \<Rightarrow> 'x cam_mem_table" where
  "upd_bufq i f t = t\<lparr>mt_bufq := (mt_bufq t)(i := f (mt_bufq t i))\<rparr>"

text \<open>\<open>memcpy\<close> and \<open>memset\<close> on the first \<open>n\<close> entries of the array of SMMU handles.\<close>

definition copy_hdls :: "nat \<Rightarrow> int list \<Rightarrow> int list \<Rightarrow> int list" where
  "copy_hdls n src dst = take n src @ drop n dst"

definition clear_hdls :: "nat \<Rightarrow> int list \<Rightarrow> int list" where
  "clear_hdls n dst = replicate n 0 @ drop n dst"

subsection \<open>Start-up and slots\<close>

text \<open>The heaps are looked up by name. A result that is NULL or an error pointer leaves the heap NULL; the
  status is \<open>PTR_ERR\<close> of that result.\<close>

definition heap_or_null :: "kptr \<Rightarrow> nat" where
  "heap_or_null p = (if IS_ERR_OR_NULL p then 0 else ptr_of p)"

definition cam_mem_mgr_get_dma_heaps :: "'x mem_core \<Rightarrow> 'x cam_mem_table \<Rightarrow> int \<times> 'x cam_mem_table" where
  "cam_mem_mgr_get_dma_heaps A t =
     (let find = (\<lambda>name. mc_heap_find A name (mt_core t));
          t0 = t\<lparr>mt_system_heap := 0, mt_system_uncached_heap := 0, mt_camera_heap := 0,
                 mt_camera_uncached_heap := 0, mt_secure_display_heap := 0, mt_ubwc_p_heap := 0\<rparr>;
          sys = find ''qcom,system'' in
      if IS_ERR_OR_NULL sys then (PTR_ERR sys, t0)
      else
        let t1 = t0\<lparr>mt_system_heap := ptr_of sys\<rparr>; unc = find ''qcom,system-uncached'' in
        if IS_ERR_OR_NULL unc \<and> \<not> mt_force_cache_allocs t then (PTR_ERR unc, t1)
        else
          let t2 = t1\<lparr>mt_system_uncached_heap := heap_or_null unc,
                      mt_ubwc_p_heap := heap_or_null (find ''qcom,ubwcp'')\<rparr>;
              sec = find ''qcom,display'' in
          if IS_ERR_OR_NULL sec then (PTR_ERR sec, t2)
          else (0, t2\<lparr>mt_secure_display_heap := ptr_of sec,
                      mt_camera_heap := heap_or_null (find ''qcom,camera''),
                      mt_camera_uncached_heap := heap_or_null (find ''qcom,camera-uncached'')\<rparr>))"

definition init_bufq :: "int \<Rightarrow> cam_mem_buf_queue" where
  "init_bufq i = (if 1 \<le> i \<and> i < CAM_MEM_BUFQ_MAX then zero_bufq\<lparr>bq_fd := - 1, bq_buf_handle := - 1\<rparr>
                  else zero_bufq)"

definition cam_mem_mgr_init :: "'x mem_core \<Rightarrow> 'x cam_mem_table \<Rightarrow> int \<times> 'x cam_mem_table" where
  "cam_mem_mgr_init A t =
     (if mt_state t then (0, t)
      else
        let t1 = t\<lparr>mt_bufq := (\<lambda>_. zero_bufq)\<rparr>; (rc, force) = smmu_force_cached A (mt_core t) in
        if rc \<noteq> 0 then (- EINVAL, t1)
        else
          let t2 = t1\<lparr>mt_force_cache_allocs := force,
                      mt_need_shared_buffer_padding := smmu_padding A (mt_core t)\<rparr>;
              (rc, t3) = cam_mem_mgr_get_dma_heaps A t2 in
          if rc \<noteq> 0 then (rc, t3)
          else if \<not> mc_alloc_bitmap A (mt_core t3) then (- ENOMEM, t3)
          else (0, t3\<lparr>mt_bitmap := set_bit_at 0 (\<lambda>_. False), mt_bufq := init_bufq, mt_state := True\<rparr>))"

definition cam_mem_get_slot :: "'x mem_core \<Rightarrow> 'x cam_mem_table \<Rightarrow> int \<times> 'x cam_mem_table" where
  "cam_mem_get_slot A t =
     (let idx = find_first_zero_bit (mt_bitmap t) CAM_MEM_BUFQ_MAX in
      if CAM_MEM_BUFQ_MAX \<le> idx \<or> idx \<le> 0 then (- ENOMEM, t)
      else (idx, upd_bufq idx (\<lambda>q. q\<lparr>bq_active := True, bq_timestamp := mc_now A (mt_core t)\<rparr>)
                   (t\<lparr>mt_bitmap := set_bit_at idx (mt_bitmap t)\<rparr>)))"

definition cam_mem_put_slot :: "int \<Rightarrow> 'x cam_mem_table \<Rightarrow> 'x cam_mem_table" where
  "cam_mem_put_slot idx t =
     (upd_bufq idx (\<lambda>q. q\<lparr>bq_active := False, bq_is_internal := False, bq_timestamp := 0\<rparr>) t)
       \<lparr>mt_bitmap := clear_bit_at idx (mt_bitmap t)\<rparr>"

subsection \<open>Looking a buffer up\<close>

text \<open>The address and length of a buffer as the device sees it, with the buffer's flags. The out arguments
  of a failed call are 0; \<open>*len_ptr\<close> is set to 0 first, and the callers use the others only on success.\<close>

definition cam_mem_get_io_buf ::
  "'x mem_core \<Rightarrow> u32 \<Rightarrow> int \<Rightarrow> 'x cam_mem_table \<Rightarrow> int \<times> u64 \<times> u64 \<times> u32" where
  "cam_mem_get_io_buf A buf_handle mmu_handle t =
     (if \<not> mt_state t then (- EINVAL, 0, 0, 0)
      else
        let idx = CAM_MEM_MGR_GET_HDL_IDX buf_handle in
        if CAM_MEM_BUFQ_MAX \<le> idx \<or> idx \<le> 0 then (- ENOENT, 0, 0, 0)
        else
          let q = mt_bufq t idx in
          if \<not> bq_active q then (- EAGAIN, 0, 0, 0)
          else if buf_handle \<noteq> bq_buf_handle q then (- EINVAL, 0, 0, 0)
          else
            let (rc, iova, len) =
                  (if CAM_MEM_MGR_IS_SECURE_HDL buf_handle
                   then smmu_get_stage2_iova A mmu_handle (bq_fd q) (bq_dma_buf q) (mt_core t)
                   else smmu_get_iova A mmu_handle (bq_fd q) (bq_dma_buf q) (mt_core t)) in
            if rc \<noteq> 0 then (rc, iova, len, 0) else (0, iova, len, bq_flags q))"

text \<open>The kernel address and length of a buffer.\<close>

definition cam_mem_get_cpu_buf :: "u32 \<Rightarrow> 'x cam_mem_table \<Rightarrow> int \<times> u64 \<times> u64" where
  "cam_mem_get_cpu_buf buf_handle t =
     (if \<not> mt_state t then (- EINVAL, 0, 0)
      else if buf_handle = 0 then (- EINVAL, 0, 0)
      else
        let idx = CAM_MEM_MGR_GET_HDL_IDX buf_handle in
        if CAM_MEM_BUFQ_MAX \<le> idx \<or> idx \<le> 0 then (- EINVAL, 0, 0)
        else
          let q = mt_bufq t idx in
          if \<not> bq_active q then (- EPERM, 0, 0)
          else if buf_handle \<noteq> bq_buf_handle q then (- EINVAL, 0, 0)
          else if \<not> has_flag (bq_flags q) CAM_MEM_FLAG_KMD_ACCESS then (- EINVAL, 0, 0)
          else if bq_kmdvaddr q \<noteq> 0 then (0, bq_kmdvaddr q, bq_len q)
          else (- EINVAL, 0, 0))"

subsection \<open>Cache maintenance\<close>

definition cam_mem_mgr_cache_ops ::
  "'x mem_core \<Rightarrow> u32 \<Rightarrow> u32 \<Rightarrow> 'x cam_mem_table \<Rightarrow> int \<times> 'x cam_mem_table" where
  "cam_mem_mgr_cache_ops A buf_handle mem_cache_ops t =
     (if \<not> mt_state t then (- EINVAL, t)
      else
        let idx = CAM_MEM_MGR_GET_HDL_IDX buf_handle in
        if CAM_MEM_BUFQ_MAX \<le> idx \<or> idx \<le> 0 then (- EINVAL, t)
        else if \<not> mt_bitmap t idx then (- EINVAL, t)
        else
          let q = mt_bufq t idx in
          if buf_handle \<noteq> bq_buf_handle q then (- EINVAL, t)
          else
            let rc = mc_get_flags A (bq_dma_buf q) (mt_core t) in
            if rc \<noteq> 0 then (rc, t)
            else
              let (rc, x) = mc_begin_cpu_access A (bq_dma_buf q)
                    (if mem_cache_ops = CAM_MEM_CLEAN_INV_CACHE then DMA_BIDIRECTIONAL else DMA_TO_DEVICE)
                    (mt_core t) in
              if rc \<noteq> 0 then (rc, t\<lparr>mt_core := x\<rparr>)
              else
                let (rc, x) = mc_end_cpu_access A (bq_dma_buf q) DMA_BIDIRECTIONAL x
                in (rc, t\<lparr>mt_core := x\<rparr>))"

definition cpu_access_direction :: "u32 \<Rightarrow> bool \<Rightarrow> int" where
  "cpu_access_direction access_type override =
     (if override then DMA_BIDIRECTIONAL
      else if has_flag access_type CAM_MEM_CPU_ACCESS_READ \<and> has_flag access_type CAM_MEM_CPU_ACCESS_WRITE
      then DMA_BIDIRECTIONAL
      else if has_flag access_type CAM_MEM_CPU_ACCESS_READ then DMA_FROM_DEVICE
      else if has_flag access_type CAM_MEM_CPU_ACCESS_WRITE then DMA_TO_DEVICE
      else DMA_BIDIRECTIONAL)"

definition cam_mem_mgr_cpu_access_op ::
  "'x mem_core \<Rightarrow> u32 \<Rightarrow> u32 \<Rightarrow> u32 \<Rightarrow> 'x cam_mem_table \<Rightarrow> int \<times> 'x cam_mem_table" where
  "cam_mem_mgr_cpu_access_op A buf_handle access access_type t =
     (if \<not> mt_state t then (- EINVAL, t)
      else
        let idx = CAM_MEM_MGR_GET_HDL_IDX buf_handle in
        if CAM_MEM_BUFQ_MAX \<le> idx \<or> idx \<le> 0 then (- EINVAL, t)
        else if \<not> mt_bitmap t idx then (- EINVAL, t)
        else
          let q = mt_bufq t idx in
          if buf_handle \<noteq> bq_buf_handle q then (- EINVAL, t)
          else
            let direction = cpu_access_direction access_type (mt_override_cpu_access_dir t);
                (rc, x) = (if has_flag access CAM_MEM_BEGIN_CPU_ACCESS
                           then mc_begin_cpu_access A (bq_dma_buf q) direction (mt_core t) else (0, mt_core t)) in
            if rc \<noteq> 0 then (rc, t\<lparr>mt_core := x\<rparr>)
            else
              let (rc, x) = (if has_flag access CAM_MEM_END_CPU_ACCESS
                             then mc_end_cpu_access A (bq_dma_buf q) direction x else (0, x))
              in (rc, t\<lparr>mt_core := x\<rparr>))"

subsection \<open>Allocation and mapping helpers\<close>

definition cam_mem_mgr_ubwc_p_heap_supported :: "'x cam_mem_table \<Rightarrow> bool" where
  "cam_mem_mgr_ubwc_p_heap_supported t \<longleftrightarrow> mt_ubwc_p_heap t \<noteq> 0"

definition cam_mem_util_get_dma_dir :: "u32 \<Rightarrow> int" where
  "cam_mem_util_get_dma_dir flags =
     (if has_flag flags CAM_MEM_FLAG_HW_READ_ONLY then DMA_TO_DEVICE
      else if has_flag flags CAM_MEM_FLAG_HW_WRITE_ONLY then DMA_FROM_DEVICE
      else if has_flag flags CAM_MEM_FLAG_HW_READ_WRITE then DMA_BIDIRECTIONAL
      else if has_flag flags CAM_MEM_FLAG_PROTECTED_MODE then DMA_BIDIRECTIONAL
      else - EINVAL)"

definition cam_mem_util_map_cpu_va :: "'x mem_core \<Rightarrow> nat \<Rightarrow> 'x \<Rightarrow> int \<times> u64 \<times> u64 \<times> 'x" where
  "cam_mem_util_map_cpu_va A dmabuf x =
     (let (rc, x1) = mc_begin_cpu_access A dmabuf DMA_BIDIRECTIONAL x in
      if rc \<noteq> 0 then (rc, 0, 0, x1)
      else
        let (rc, vaddr, x2) = mc_vmap A dmabuf x1 in
        if rc \<noteq> 0 then (rc, 0, 0, snd (mc_end_cpu_access A dmabuf DMA_BIDIRECTIONAL x2))
        else (0, vaddr, mc_size A dmabuf x2, x2))"

definition cam_mem_util_unmap_cpu_va :: "'x mem_core \<Rightarrow> nat \<Rightarrow> u64 \<Rightarrow> 'x \<Rightarrow> int \<times> 'x" where
  "cam_mem_util_unmap_cpu_va A dmabuf vaddr x =
     (if dmabuf = 0 \<or> vaddr = 0 then (- EINVAL, x)
      else mc_end_cpu_access A dmabuf DMA_BIDIRECTIONAL (mc_vunmap A dmabuf vaddr x))"

text \<open>The heap to try first and the heap to fall back on, with the virtual machines a protected buffer is
  lent to.\<close>

definition select_heap :: "u32 \<Rightarrow> 'x cam_mem_table \<Rightarrow> int + (nat \<times> nat \<times> vmid list)" where
  "select_heap cam_flags t =
     (let use_cached_heap = (has_flag cam_flags CAM_MEM_FLAG_CACHE \<or>
            (mt_force_cache_allocs t \<and> \<not> has_flag cam_flags CAM_MEM_FLAG_PROTECTED_MODE) \<or>
            has_flag cam_flags CAM_MEM_FLAG_PROTECTED_MODE) in
      if \<not> use_cached_heap then Inl (- EINVAL)
      else if has_flag cam_flags CAM_MEM_FLAG_PROTECTED_MODE then
        Inr (0, mt_secure_display_heap t,
             if has_flag cam_flags CAM_MEM_FLAG_CDSP_OUTPUT then [VMID_CP_CAMERA, VMID_CP_CDSP] else [VMID_CP_CAMERA])
      else if has_flag cam_flags CAM_MEM_FLAG_EVA_NOPIXEL then
        Inr (0, mt_secure_display_heap t, [VMID_CP_NON_PIXEL])
      else if has_flag cam_flags CAM_MEM_FLAG_UBWC_P_HEAP then
        (if mt_ubwc_p_heap t = 0 then Inl (- EINVAL) else Inr (0, mt_ubwc_p_heap t, []))
      else Inr (mt_camera_heap t, mt_system_heap t, []))"

definition heap_alloc_buf :: "'x mem_core \<Rightarrow> nat \<Rightarrow> nat \<Rightarrow> u64 \<Rightarrow> 'x \<Rightarrow> kptr \<times> 'x" where
  "heap_alloc_buf A try_heap heap len x =
     (let (buf, x1) = (if try_heap \<noteq> 0 then mc_heap_alloc A try_heap len x else (PTR 0, x)) in
      if IS_ERR_OR_NULL buf then mc_heap_alloc A heap len x1 else (buf, x1))"

definition cam_mem_util_get_dma_buf ::
  "'x mem_core \<Rightarrow> u64 \<Rightarrow> u32 \<Rightarrow> 'x cam_mem_table \<Rightarrow> int \<times> nat \<times> u64 \<times> 'x cam_mem_table" where
  "cam_mem_util_get_dma_buf A len cam_flags t =
     (case select_heap cam_flags t of
        Inl rc \<Rightarrow> (rc, 0, 0, t)
      | Inr (try_heap, heap, vmids) \<Rightarrow>
          if try_heap = 0 \<and> heap = 0 then (- EINVAL, 0, 0, t)
          else
            let (buf, x1) = heap_alloc_buf A try_heap heap len (mt_core t) in
            if IS_ERR buf then (PTR_ERR buf, 0, 0, t\<lparr>mt_core := x1\<rparr>)
            else
              let b = ptr_of buf; i_ino = mc_i_ino A b x1 in
              if has_flag cam_flags CAM_MEM_FLAG_PROTECTED_MODE \<or> has_flag cam_flags CAM_MEM_FLAG_EVA_NOPIXEL then
                let (rc, x2) = mc_lend A b vmids x1 in
                if rc \<noteq> 0 then (rc, b, i_ino, t\<lparr>mt_core := mc_put A b x2\<rparr>)
                else (0, b, i_ino, t\<lparr>mt_core := x2\<rparr>)
              else (0, b, i_ino, t\<lparr>mt_core := x1\<rparr>))"

definition cam_mem_util_buffer_alloc ::
  "'x mem_core \<Rightarrow> u64 \<Rightarrow> u32 \<Rightarrow> 'x cam_mem_table \<Rightarrow> int \<times> nat \<times> int \<times> u64 \<times> 'x cam_mem_table" where
  "cam_mem_util_buffer_alloc A len flags t =
     (let (rc, b, i_ino, t1) = cam_mem_util_get_dma_buf A len flags t in
      if rc \<noteq> 0 then (rc, b, - 1, i_ino, t1)
      else
        let (fd, x) = mc_fd A b (mc_get A b (mt_core t1)) in
        if fd < 0 then (- EINVAL, b, fd, i_ino, t1\<lparr>mt_core := mc_put A b x\<rparr>)
        else (0, b, fd, i_ino, t1\<lparr>mt_core := x\<rparr>))"

definition cam_mem_util_check_alloc_flags :: "cam_mem_mgr_alloc_cmd_v2 \<Rightarrow> int" where
  "cam_mem_util_check_alloc_flags cmd =
     (let f = ac_flags cmd in
      if CAM_MEM_MMU_MAX_HANDLE < unat (ac_num_hdl cmd) then - EINVAL
      else if has_flag f CAM_MEM_FLAG_PROTECTED_MODE \<and> has_flag f CAM_MEM_FLAG_KMD_ACCESS then - EINVAL
      else if has_flag f CAM_MEM_FLAG_EVA_NOPIXEL \<and>
              (has_flag f CAM_MEM_FLAG_PROTECTED_MODE \<or> has_flag f CAM_MEM_FLAG_KMD_ACCESS) then - EINVAL
      else if has_flag f CAM_MEM_FLAG_UBWC_P_HEAP \<and>
              (has_flag f CAM_MEM_FLAG_PROTECTED_MODE \<or> has_flag f CAM_MEM_FLAG_EVA_NOPIXEL \<or>
               has_flag f CAM_MEM_FLAG_KMD_ACCESS \<or> has_flag f CAM_MEM_FLAG_CMD_BUF_TYPE \<or>
               has_flag f CAM_MEM_FLAG_HW_SHARED_ACCESS \<or> has_flag f CAM_MEM_FLAG_HW_AND_CDM_OR_SHARED) then - EINVAL
      else 0)"

definition cam_mem_util_check_map_flags :: "cam_mem_mgr_map_cmd_v2 \<Rightarrow> int" where
  "cam_mem_util_check_map_flags cmd =
     (let f = pc_flags cmd in
      if f = 0 then - EINVAL
      else if CAM_MEM_MMU_MAX_HANDLE < unat (pc_num_hdl cmd) then - EINVAL
      else if has_flag f CAM_MEM_FLAG_PROTECTED_MODE \<and> has_flag f CAM_MEM_FLAG_KMD_ACCESS then - EINVAL
      else if has_flag f CAM_MEM_FLAG_HW_SHARED_ACCESS then - EINVAL
      else 0)"

text \<open>The unwinding after a failed mapping: the handles already mapped, the last one first.\<close>

fun unmap_mapped :: "'x mem_core \<Rightarrow> u32 \<Rightarrow> int \<Rightarrow> nat \<Rightarrow> int list \<Rightarrow> 'x \<Rightarrow> 'x" where
  "unmap_mapped A flags fd dmabuf [] x = x"
| "unmap_mapped A flags fd dmabuf (h # hs) x =
     unmap_mapped A flags fd dmabuf hs
       (snd (if has_flag flags CAM_MEM_FLAG_PROTECTED_MODE then smmu_unmap_stage2 A h fd dmabuf x
             else smmu_unmap_user A h fd dmabuf CAM_SMMU_REGION_IO x))"

text \<open>\<open>mapped\<close> is the list of the handles mapped so far, the last one first.\<close>

fun map_hw_loop ::
  "'x mem_core \<Rightarrow> u32 \<Rightarrow> int \<Rightarrow> nat \<Rightarrow> int \<Rightarrow> bool \<Rightarrow> bool \<Rightarrow> int list \<Rightarrow> int \<Rightarrow> cam_smmu_region_id
   \<Rightarrow> u64 \<times> u64 \<Rightarrow> int list \<Rightarrow> 'x \<Rightarrow> int \<times> (u64 \<times> u64) \<times> 'x" where
  "map_hw_loop A flags fd dmabuf dir dis is_internal [] rc region va mapped x = (rc, va, x)"
| "map_hw_loop A flags fd dmabuf dir dis is_internal (h # hs) rc region va mapped x =
     (let region = (if smmu_expanded A x \<and> smmu_shared_region A h x \<and>
                       (has_flag flags CAM_MEM_FLAG_CMD_BUF_TYPE \<or> has_flag flags CAM_MEM_FLAG_HW_AND_CDM_OR_SHARED)
                    then CAM_SMMU_REGION_SHARED else region);
          (rc, va, x) = (if has_flag flags CAM_MEM_FLAG_PROTECTED_MODE
                         then smmu_map_stage2 A h fd dmabuf dir va x
                         else smmu_map_user A h fd dmabuf dis dir region is_internal va x) in
      if rc \<noteq> 0 then (rc, va, unmap_mapped A flags fd dmabuf mapped x)
      else map_hw_loop A flags fd dmabuf dir dis is_internal hs rc region va (h # mapped) x)"

definition cam_mem_util_map_hw_va ::
  "'x mem_core \<Rightarrow> u32 \<Rightarrow> int list \<Rightarrow> nat \<Rightarrow> int \<Rightarrow> nat \<Rightarrow> u64 \<times> u64 \<Rightarrow> cam_smmu_region_id \<Rightarrow> bool \<Rightarrow> 'x
   \<Rightarrow> int \<times> (u64 \<times> u64) \<times> 'x" where
  "cam_mem_util_map_hw_va A flags mmu_hdls num_hdls fd dmabuf va region is_internal x =
     (let dir = cam_mem_util_get_dma_dir flags in
      if dir < 0 then (dir, va, x)
      else map_hw_loop A flags fd dmabuf dir (has_flag flags CAM_MEM_FLAG_DISABLE_DELAYED_UNMAP) is_internal
             (take num_hdls mmu_hdls) (- 1) region va [] x)"

subsection \<open>Allocating, importing and releasing buffers of user space\<close>

text \<open>The region in which an allocation is mapped. The assignments of the source are sequential, the last
  one that applies wins.\<close>

definition alloc_region :: "u32 \<Rightarrow> cam_smmu_region_id" where
  "alloc_region flags =
     (if has_flag flags CAM_MEM_FLAG_PROTECTED_MODE then CAM_SMMU_REGION_IO
      else if has_flag flags CAM_MEM_FLAG_HW_SHARED_ACCESS then CAM_SMMU_REGION_SHARED
      else CAM_SMMU_REGION_IO)"

definition mem_handle_for :: "int \<Rightarrow> int \<Rightarrow> u32 \<Rightarrow> u32" where
  "mem_handle_for idx fd flags =
     (if has_flag flags CAM_MEM_FLAG_PROTECTED_MODE
      then CAM_MEM_MGR_SET_SECURE_HDL (GET_MEM_HANDLE idx fd) True else GET_MEM_HANDLE idx fd)"

text \<open>The part of \<open>cam_mem_mgr_alloc_and_map\<close> from the point where the slot, the buffer and the hardware
  mapping are there: the entry is filled in and the kernel mapping is made if it is asked for.\<close>

definition alloc_fill_entry ::
  "'x mem_core \<Rightarrow> cam_mem_mgr_alloc_cmd_v2 \<Rightarrow> int \<Rightarrow> nat \<Rightarrow> int \<Rightarrow> u64 \<Rightarrow> u64 \<times> u64 \<Rightarrow> 'x cam_mem_table
   \<Rightarrow> int \<times> cam_mem_alloc_out_params option \<times> 'x cam_mem_table" where
  "alloc_fill_entry A cmd idx dmabuf fd i_ino va t =
     (let t1 = upd_bufq idx (\<lambda>q. q\<lparr>bq_fd := fd, bq_i_ino := i_ino, bq_dma_buf := 0, bq_flags := ac_flags cmd,
                 bq_buf_handle := mem_handle_for idx fd (ac_flags cmd), bq_is_internal := True\<rparr>) t;
          (rc, kvaddr, klen, x) = (if has_flag (ac_flags cmd) CAM_MEM_FLAG_KMD_ACCESS
                                   then cam_mem_util_map_cpu_va A dmabuf (mt_core t1) else (0, 0, 0, mt_core t1));
          t2 = t1\<lparr>mt_core := x\<rparr> in
      if rc \<noteq> 0 then
        let t3 = cam_mem_put_slot idx t2 in (rc, None, t3\<lparr>mt_core := mc_put A dmabuf (mt_core t3)\<rparr>)
      else
        let t3 = (if has_flag (ac_flags cmd) CAM_MEM_FLAG_KMD_DEBUG_FLAG then t2\<lparr>mt_dbg_buf_idx := idx\<rparr> else t2);
            n = unat (ac_num_hdl cmd);
            t4 = upd_bufq idx (\<lambda>q. q\<lparr>bq_kmdvaddr := kvaddr, bq_vaddr := fst va, bq_dma_buf := dmabuf,
                   bq_len := snd va, bq_num_hdl := n, bq_hdls := copy_hdls n (ac_mmu_hdls cmd) (bq_hdls q),
                   bq_is_imported := False\<rparr>) t3 in
        (rc, Some \<lparr>ao_buf_handle = bq_buf_handle (mt_bufq t4 idx), ao_fd = bq_fd (mt_bufq t4 idx), ao_vaddr = 0\<rparr>, t4))"

text \<open>The hardware mapping of an allocation, where its flags ask for one.\<close>

definition alloc_map_hw ::
  "'x mem_core \<Rightarrow> cam_mem_mgr_alloc_cmd_v2 \<Rightarrow> int \<Rightarrow> nat \<Rightarrow> u64 \<Rightarrow> 'x \<Rightarrow> int \<times> (u64 \<times> u64) \<times> 'x" where
  "alloc_map_hw A cmd fd dmabuf len x =
     (if has_flag (ac_flags cmd) CAM_MEM_FLAG_HW_READ_WRITE \<or>
         has_flag (ac_flags cmd) CAM_MEM_FLAG_HW_SHARED_ACCESS \<or>
         has_flag (ac_flags cmd) CAM_MEM_FLAG_PROTECTED_MODE
      then cam_mem_util_map_hw_va A (ac_flags cmd) (ac_mmu_hdls cmd) (unat (ac_num_hdl cmd)) fd dmabuf
             (0, len) (alloc_region (ac_flags cmd)) True x
      else (0, (0, len), x))"

definition cam_mem_mgr_alloc_and_map ::
  "'x mem_core \<Rightarrow> cam_mem_mgr_alloc_cmd_v2 \<Rightarrow> 'x cam_mem_table
   \<Rightarrow> int \<times> cam_mem_alloc_out_params option \<times> 'x cam_mem_table" where
  "cam_mem_mgr_alloc_and_map A cmd t =
     (if \<not> mt_state t then (- EINVAL, None, t)
      else
        let len = (if mt_need_shared_buffer_padding t \<and> has_flag (ac_flags cmd) CAM_MEM_FLAG_HW_SHARED_ACCESS
                   then ac_len cmd + CAM_MEM_SHARED_BUFFER_PAD_4K else ac_len cmd);
            rc = cam_mem_util_check_alloc_flags cmd in
        if rc \<noteq> 0 then (rc, None, t)
        else
          let (rc, dmabuf, fd, i_ino, t1) = cam_mem_util_buffer_alloc A len (ac_flags cmd) t in
          if rc \<noteq> 0 then (rc, None, t1)
          else if dmabuf = 0 then (rc, None, t1)
          else
            let (idx, t2) = cam_mem_get_slot A t1 in
            if idx < 0 then (- ENOMEM, None, t2\<lparr>mt_core := mc_put A dmabuf (mt_core t2)\<rparr>)
            else
              let t3 = t2\<lparr>mt_core := mc_set_name A dmabuf (ac_buf_name cmd) (mt_core t2)\<rparr>;
                  (rc, va, x) = alloc_map_hw A cmd fd dmabuf len (mt_core t3);
                  t4 = t3\<lparr>mt_core := x\<rparr> in
              if rc \<noteq> 0 then
                let rc' = (if rc = - EALREADY \<and> mc_size A dmabuf x \<noteq> snd va then - EBADR else rc);
                    t5 = cam_mem_put_slot idx t4 in
                (rc', None, t5\<lparr>mt_core := mc_put A dmabuf (mt_core t5)\<rparr>)
              else alloc_fill_entry A cmd idx dmabuf fd i_ino va t4)"

text \<open>\<open>for_each_set_bit\<close> over the bitmap; the inode number is passed as an \<open>unsigned\<close> and so cut to 32 bits.\<close>

fun is_map_internal_loop :: "nat \<Rightarrow> int \<Rightarrow> int \<Rightarrow> u64 \<Rightarrow> 'x cam_mem_table \<Rightarrow> bool" where
  "is_map_internal_loop 0 i fd i_ino t = False"
| "is_map_internal_loop (Suc k) i fd i_ino t =
     (if mt_bitmap t i \<and> bq_fd (mt_bufq t i) = fd \<and> bq_i_ino (mt_bufq t i) = i_ino
      then bq_is_internal (mt_bufq t i) else is_map_internal_loop k (i + 1) fd i_ino t)"

definition cam_mem_util_is_map_internal :: "int \<Rightarrow> u64 \<Rightarrow> 'x cam_mem_table \<Rightarrow> bool" where
  "cam_mem_util_is_map_internal fd i_ino t =
     is_map_internal_loop (nat CAM_MEM_BUFQ_MAX) 0 fd (ucast (ucast i_ino :: u32)) t"

definition import_map_hw ::
  "'x mem_core \<Rightarrow> cam_mem_mgr_map_cmd_v2 \<Rightarrow> nat \<Rightarrow> bool \<Rightarrow> 'x \<Rightarrow> int \<times> (u64 \<times> u64) \<times> 'x" where
  "import_map_hw A cmd dmabuf is_internal x =
     (if has_flag (pc_flags cmd) CAM_MEM_FLAG_HW_READ_WRITE \<or>
         has_flag (pc_flags cmd) CAM_MEM_FLAG_PROTECTED_MODE
      then cam_mem_util_map_hw_va A (pc_flags cmd) (pc_mmu_hdls cmd) (unat (pc_num_hdl cmd))
             (pc_fd cmd) dmabuf (0, 0) CAM_SMMU_REGION_IO is_internal x
      else (0, (0, 0), x))"

definition cam_mem_mgr_map ::
  "'x mem_core \<Rightarrow> cam_mem_mgr_map_cmd_v2 \<Rightarrow> 'x cam_mem_table
   \<Rightarrow> int \<times> cam_mem_map_out_params option \<times> 'x cam_mem_table" where
  "cam_mem_mgr_map A cmd t =
     (if \<not> mt_state t then (- EINVAL, None, t)
      else if pc_fd cmd < 0 then (- EINVAL, None, t)
      else if CAM_MEM_MMU_MAX_HANDLE < unat (pc_num_hdl cmd) then (- EINVAL, None, t)
      else
        let rc = cam_mem_util_check_map_flags cmd in
        if rc \<noteq> 0 then (rc, None, t)
        else
          let (p, x) = mc_get_from_fd A (pc_fd cmd) (mt_core t); t1 = t\<lparr>mt_core := x\<rparr> in
          if IS_ERR_OR_NULL p then (- EINVAL, None, t1)
          else
            let dmabuf = ptr_of p; i_ino = mc_i_ino A dmabuf x;
                is_internal = cam_mem_util_is_map_internal (pc_fd cmd) i_ino t1;
                (idx, t2) = cam_mem_get_slot A t1 in
            if idx < 0 then (- ENOMEM, None, t2\<lparr>mt_core := mc_put A dmabuf (mt_core t2)\<rparr>)
            else
              let t3 = t2\<lparr>mt_core := mc_set_name A dmabuf (pc_buf_name cmd) (mt_core t2)\<rparr>;
                  (rc, va, x) = import_map_hw A cmd dmabuf is_internal (mt_core t3);
                  t4 = t3\<lparr>mt_core := x\<rparr> in
              if rc \<noteq> 0 then
                let rc' = (if rc = - EALREADY \<and> mc_size A dmabuf x \<noteq> snd va then - EBADR else rc);
                    t5 = cam_mem_put_slot idx t4 in
                (rc', None, t5\<lparr>mt_core := mc_put A dmabuf (mt_core t5)\<rparr>)
              else
                let n = unat (pc_num_hdl cmd);
                    t5 = upd_bufq idx (\<lambda>q. q\<lparr>bq_fd := pc_fd cmd, bq_i_ino := i_ino, bq_flags := pc_flags cmd,
                           bq_buf_handle := mem_handle_for idx (pc_fd cmd) (pc_flags cmd), bq_kmdvaddr := 0,
                           bq_vaddr := (if 0 < n then fst va else 0), bq_dma_buf := dmabuf, bq_len := snd va,
                           bq_num_hdl := n, bq_hdls := copy_hdls n (pc_mmu_hdls cmd) (bq_hdls q),
                           bq_is_imported := True, bq_is_internal := is_internal\<rparr>) t4 in
                (rc, Some \<lparr>po_buf_handle = bq_buf_handle (mt_bufq t5 idx), po_size = ucast (snd va), po_vaddr = 0\<rparr>, t5))"

fun unmap_hw_loop ::
  "'x mem_core \<Rightarrow> bool \<Rightarrow> cam_smmu_mapping_client \<Rightarrow> cam_smmu_region_id \<Rightarrow> int \<Rightarrow> nat \<Rightarrow> int list \<Rightarrow> int \<Rightarrow> 'x
   \<Rightarrow> int \<times> 'x" where
  "unmap_hw_loop A secure client region fd dmabuf [] rc x = (rc, x)"
| "unmap_hw_loop A secure client region fd dmabuf (h # hs) rc x =
     (let (rc, x) = (if secure then smmu_unmap_stage2 A h fd dmabuf x
                     else case client of
                         CAM_SMMU_MAPPING_USER \<Rightarrow> smmu_unmap_user A h fd dmabuf region x
                       | CAM_SMMU_MAPPING_KERNEL \<Rightarrow> smmu_unmap_kernel A h dmabuf region x) in
      if rc < 0 then (rc, x) else unmap_hw_loop A secure client region fd dmabuf hs rc x)"

definition cam_mem_util_unmap_hw_va ::
  "'x mem_core \<Rightarrow> int \<Rightarrow> cam_smmu_region_id \<Rightarrow> cam_smmu_mapping_client \<Rightarrow> 'x cam_mem_table
   \<Rightarrow> int \<times> 'x cam_mem_table" where
  "cam_mem_util_unmap_hw_va A idx region client t =
     (if CAM_MEM_BUFQ_MAX \<le> idx \<or> idx \<le> 0 then (- EINVAL, t)
      else
        let q = mt_bufq t idx;
            (rc, x) = unmap_hw_loop A (has_flag (bq_flags q) CAM_MEM_FLAG_PROTECTED_MODE) client region (bq_fd q)
                        (bq_dma_buf q) (take (bq_num_hdl q) (bq_hdls q)) 0 (mt_core t)
        in (rc, t\<lparr>mt_core := x\<rparr>))"

definition unmap_region :: "u32 \<Rightarrow> cam_smmu_region_id" where
  "unmap_region flags =
     (if has_flag flags CAM_MEM_FLAG_HW_SHARED_ACCESS then CAM_SMMU_REGION_SHARED
      else if has_flag flags CAM_MEM_FLAG_HW_READ_WRITE then CAM_SMMU_REGION_IO
      else CAM_SMMU_REGION_SHARED)"

definition cam_mem_mgr_unmap_active_buf :: "'x mem_core \<Rightarrow> int \<Rightarrow> 'x cam_mem_table \<Rightarrow> 'x cam_mem_table" where
  "cam_mem_mgr_unmap_active_buf A idx t =
     (let q = mt_bufq t idx;
          t1 = snd (cam_mem_util_unmap_hw_va A idx (unmap_region (bq_flags q)) CAM_SMMU_MAPPING_USER t) in
      if has_flag (bq_flags q) CAM_MEM_FLAG_KMD_ACCESS
      then t1\<lparr>mt_core := snd (cam_mem_util_unmap_cpu_va A (bq_dma_buf q) (bq_kmdvaddr q) (mt_core t1))\<rparr>
      else t1)"

definition cleanup_entry :: "'x mem_core \<Rightarrow> int \<Rightarrow> 'x cam_mem_table \<Rightarrow> 'x cam_mem_table" where
  "cleanup_entry A i t =
     (if \<not> bq_active (mt_bufq t i) then t
      else
        let t1 = cam_mem_mgr_unmap_active_buf A i t; b = bq_dma_buf (mt_bufq t1 i);
            t2 = (if b \<noteq> 0 then t1\<lparr>mt_core := mc_put A b (mt_core t1)\<rparr> else t1) in
        upd_bufq i (\<lambda>q. q\<lparr>bq_dma_buf := 0, bq_fd := - 1, bq_i_ino := 0, bq_flags := 0, bq_buf_handle := - 1,
          bq_vaddr := 0, bq_len := 0, bq_hdls := clear_hdls (bq_num_hdl q) (bq_hdls q), bq_num_hdl := 0,
          bq_active := False, bq_is_internal := False\<rparr>) t2)"

fun cleanup_loop :: "'x mem_core \<Rightarrow> nat \<Rightarrow> int \<Rightarrow> 'x cam_mem_table \<Rightarrow> 'x cam_mem_table" where
  "cleanup_loop A 0 i t = t"
| "cleanup_loop A (Suc k) i t = cleanup_loop A k (i + 1) (cleanup_entry A i t)"

definition cam_mem_mgr_cleanup_table :: "'x mem_core \<Rightarrow> 'x cam_mem_table \<Rightarrow> 'x cam_mem_table" where
  "cam_mem_mgr_cleanup_table A t =
     (cleanup_loop A (nat CAM_MEM_BUFQ_MAX - 1) 1 t)\<lparr>mt_bitmap := set_bit_at 0 (\<lambda>_. False)\<rparr>"

definition cam_mem_mgr_deinit :: "'x mem_core \<Rightarrow> 'x cam_mem_table \<Rightarrow> 'x cam_mem_table" where
  "cam_mem_mgr_deinit A t =
     (if \<not> mt_state t then t
      else (cam_mem_mgr_cleanup_table A (t\<lparr>mt_state := False\<rparr>))
             \<lparr>mt_bitmap := (\<lambda>_. False), mt_dbg_buf_idx := - 1\<rparr>)"

text \<open>The two halves of a release: the kernel mapping, where the entry has one, and the hardware mappings.
  A failure to undo the hardware mappings is only logged.\<close>

definition release_kmap :: "'x mem_core \<Rightarrow> cam_mem_buf_queue \<Rightarrow> 'x \<Rightarrow> int \<times> 'x" where
  "release_kmap A q x =
     (if has_flag (bq_flags q) CAM_MEM_FLAG_KMD_ACCESS \<and> bq_dma_buf q \<noteq> 0 \<and> bq_kmdvaddr q \<noteq> 0
      then cam_mem_util_unmap_cpu_va A (bq_dma_buf q) (bq_kmdvaddr q) x else (0, x))"

definition release_hw ::
  "'x mem_core \<Rightarrow> int \<Rightarrow> cam_mem_buf_queue \<Rightarrow> cam_smmu_mapping_client \<Rightarrow> 'x cam_mem_table \<Rightarrow> 'x cam_mem_table" where
  "release_hw A idx q client t =
     (if has_flag (bq_flags q) CAM_MEM_FLAG_HW_READ_WRITE \<or> has_flag (bq_flags q) CAM_MEM_FLAG_HW_SHARED_ACCESS \<or>
         has_flag (bq_flags q) CAM_MEM_FLAG_PROTECTED_MODE
      then snd (cam_mem_util_unmap_hw_va A idx (unmap_region (bq_flags q)) client t) else t)"

text \<open>The release of one entry. The kernel mapping of the entry is undone, then its hardware mappings, then
  the entry is reset; \<open>kmdvaddr\<close> keeps its value.\<close>

definition cam_mem_util_unmap ::
  "'x mem_core \<Rightarrow> int \<Rightarrow> cam_smmu_mapping_client \<Rightarrow> 'x cam_mem_table \<Rightarrow> int \<times> 'x cam_mem_table" where
  "cam_mem_util_unmap A idx client t =
     (if CAM_MEM_BUFQ_MAX \<le> idx \<or> idx \<le> 0 then (- EINVAL, t)
      else if \<not> bq_active (mt_bufq t idx) \<and> bq_vaddr (mt_bufq t idx) = 0 then (0, t)
      else
        let t1 = upd_bufq idx (\<lambda>q. q\<lparr>bq_active := False, bq_vaddr := 0\<rparr>) t; q = mt_bufq t1 idx;
            (rc, x) = release_kmap A q (mt_core t1);
            t3 = release_hw A idx q client (t1\<lparr>mt_core := x\<rparr>);
            t4 = t3\<lparr>mt_core := (if bq_dma_buf q \<noteq> 0 then mc_put A (bq_dma_buf q) (mt_core t3) else mt_core t3)\<rparr>;
            t5 = upd_bufq idx (\<lambda>q. q\<lparr>bq_flags := 0, bq_buf_handle := - 1,
                   bq_hdls := clear_hdls (bq_num_hdl q) (bq_hdls q), bq_fd := - 1, bq_i_ino := 0, bq_dma_buf := 0,
                   bq_is_imported := False, bq_is_internal := False, bq_len := 0, bq_num_hdl := 0,
                   bq_timestamp := 0\<rparr>) t4 in
        (rc, t5\<lparr>mt_bitmap := clear_bit_at idx (mt_bitmap t5)\<rparr>))"

definition cam_mem_mgr_release :: "'x mem_core \<Rightarrow> u32 \<Rightarrow> 'x cam_mem_table \<Rightarrow> int \<times> 'x cam_mem_table" where
  "cam_mem_mgr_release A buf_handle t =
     (if \<not> mt_state t then (- EINVAL, t)
      else
        let idx = CAM_MEM_MGR_GET_HDL_IDX buf_handle in
        if CAM_MEM_BUFQ_MAX \<le> idx \<or> idx \<le> 0 then (- EINVAL, t)
        else if \<not> bq_active (mt_bufq t idx) then (- EINVAL, t)
        else if bq_buf_handle (mt_bufq t idx) \<noteq> buf_handle then (- EINVAL, t)
        else cam_mem_util_unmap A idx CAM_SMMU_MAPPING_USER t)"

subsection \<open>Buffers of the kernel drivers\<close>

text \<open>\<open>cam_mem_mgr_request_mem\<close> also writes its argument: once the buffer is there the flags of the request
  contain \<open>CAM_MEM_FLAG_KMD_ACCESS\<close>. The request is returned second.\<close>

definition cam_mem_mgr_request_mem ::
  "'x mem_core \<Rightarrow> cam_mem_mgr_request_desc \<Rightarrow> 'x cam_mem_table
   \<Rightarrow> int \<times> cam_mem_mgr_request_desc \<times> cam_mem_mgr_memory_desc option \<times> 'x cam_mem_table" where
  "cam_mem_mgr_request_mem A inp t =
     (if \<not> mt_state t then (- EINVAL, inp, None, t)
      else if \<not> (has_flag (rd_flags inp) CAM_MEM_FLAG_HW_READ_WRITE \<or>
                 has_flag (rd_flags inp) CAM_MEM_FLAG_HW_SHARED_ACCESS \<or>
                 has_flag (rd_flags inp) CAM_MEM_FLAG_CACHE) then (- EINVAL, inp, None, t)
      else
        let (rc, buf, i_ino, t1) = cam_mem_util_get_dma_buf A (rd_size inp) (rd_flags inp) t in
        if rc \<noteq> 0 then (rc, inp, None, t1)
        else if buf = 0 then (rc, inp, None, t1)
        else
          let inp = inp\<lparr>rd_flags := rd_flags inp OR CAM_MEM_FLAG_KMD_ACCESS\<rparr>;
              (rc, kvaddr, request_len, x) = cam_mem_util_map_cpu_va A buf (mt_core t1) in
          if rc \<noteq> 0 then (rc, inp, None, t1\<lparr>mt_core := mc_put A buf x\<rparr>)
          else if rd_smmu_hdl inp = 0 then
            (- EINVAL, inp, None, t1\<lparr>mt_core := mc_put A buf (snd (cam_mem_util_unmap_cpu_va A buf kvaddr x))\<rparr>)
          else
            let region = unmap_region (rd_flags inp);
                (rc, (iova, request_len), x) =
                  smmu_map_kernel A (rd_smmu_hdl inp) buf region (0, request_len) x in
            if rc < 0 then
              (rc, inp, None, t1\<lparr>mt_core := mc_put A buf (snd (cam_mem_util_unmap_cpu_va A buf kvaddr x))\<rparr>)
            else
              let (idx, t2) = cam_mem_get_slot A (t1\<lparr>mt_core := x\<rparr>) in
              if idx < 0 then
                let x = snd (smmu_unmap_kernel A (rd_smmu_hdl inp) buf region (mt_core t2)) in
                (- ENOMEM, inp, None,
                 t2\<lparr>mt_core := mc_put A buf (snd (cam_mem_util_unmap_cpu_va A buf kvaddr x))\<rparr>)
              else
                let mem_handle = GET_MEM_HANDLE idx (- 1);
                    t3 = upd_bufq idx (\<lambda>q. q\<lparr>bq_dma_buf := buf, bq_fd := - 1, bq_i_ino := i_ino,
                           bq_flags := rd_flags inp, bq_buf_handle := mem_handle, bq_kmdvaddr := kvaddr,
                           bq_vaddr := iova, bq_len := rd_size inp, bq_num_hdl := 1,
                           bq_hdls := copy_hdls 1 [rd_smmu_hdl inp] (bq_hdls q), bq_is_imported := False\<rparr>) t2 in
                (rc, inp, Some \<lparr>md_kva = kvaddr, md_iova = ucast iova, md_smmu_hdl = rd_smmu_hdl inp,
                   md_mem_handle = mem_handle, md_len = rd_size inp, md_region = region\<rparr>, t3))"

definition cam_mem_mgr_release_mem ::
  "'x mem_core \<Rightarrow> cam_mem_mgr_memory_desc \<Rightarrow> 'x cam_mem_table \<Rightarrow> int \<times> 'x cam_mem_table" where
  "cam_mem_mgr_release_mem A inp t =
     (if \<not> mt_state t then (- EINVAL, t)
      else
        let idx = CAM_MEM_MGR_GET_HDL_IDX (md_mem_handle inp) in
        if CAM_MEM_BUFQ_MAX \<le> idx \<or> idx \<le> 0 then (- EINVAL, t)
        else if \<not> bq_active (mt_bufq t idx) then
          (if bq_vaddr (mt_bufq t idx) = 0 then (0, t) else (- EINVAL, t))
        else if bq_buf_handle (mt_bufq t idx) \<noteq> md_mem_handle inp then (- EINVAL, t)
        else cam_mem_util_unmap A idx CAM_SMMU_MAPPING_KERNEL t)"

definition cam_mem_mgr_reserve_memory_region ::
  "'x mem_core \<Rightarrow> cam_mem_mgr_request_desc \<Rightarrow> cam_smmu_region_id \<Rightarrow> 'x cam_mem_table
   \<Rightarrow> int \<times> cam_mem_mgr_memory_desc option \<times> 'x cam_mem_table" where
  "cam_mem_mgr_reserve_memory_region A inp region t =
     (if \<not> mt_state t then (- EINVAL, None, t)
      else if rd_smmu_hdl inp = 0 then (- EINVAL, None, t)
      else if region \<noteq> CAM_SMMU_REGION_SECHEAP \<and> region \<noteq> CAM_SMMU_REGION_FWUNCACHED then (- EINVAL, None, t)
      else
        let (rc, buf, i_ino, t1) = cam_mem_util_get_dma_buf A (rd_size inp) 0 t in
        if rc \<noteq> 0 then (rc, None, t1)
        else if buf = 0 then (rc, None, t1)
        else
          let (rc, kvaddr, request_len, x) =
                (if has_flag (rd_flags inp) CAM_MEM_FLAG_KMD_ACCESS then cam_mem_util_map_cpu_va A buf (mt_core t1)
                 else (0, 0, 0, mt_core t1)) in
          if rc \<noteq> 0 then (rc, None, t1\<lparr>mt_core := mc_put A buf x\<rparr>)
          else
            let undo_kmap = (\<lambda>x. if region = CAM_SMMU_REGION_FWUNCACHED
                                 then snd (cam_mem_util_unmap_cpu_va A buf kvaddr x) else x);
                (rc, (iova, request_len), x) =
                  smmu_reserve_buf_region A region (rd_smmu_hdl inp) buf (0, request_len) x in
            if rc \<noteq> 0 then (rc, None, t1\<lparr>mt_core := mc_put A buf (undo_kmap x)\<rparr>)
            else
              let (idx, t2) = cam_mem_get_slot A (t1\<lparr>mt_core := x\<rparr>) in
              if idx < 0 then
                let x = snd (smmu_release_buf_region A region (rd_smmu_hdl inp) (mt_core t2)) in
                (- ENOMEM, None, t2\<lparr>mt_core := mc_put A buf (undo_kmap x)\<rparr>)
              else
                let mem_handle = GET_MEM_HANDLE idx (- 1);
                    t3 = upd_bufq idx (\<lambda>q. q\<lparr>bq_dma_buf := buf, bq_fd := - 1, bq_i_ino := i_ino,
                           bq_flags := rd_flags inp, bq_buf_handle := mem_handle, bq_kmdvaddr := kvaddr,
                           bq_vaddr := iova, bq_len := request_len, bq_num_hdl := 1,
                           bq_hdls := copy_hdls 1 [rd_smmu_hdl inp] (bq_hdls q), bq_is_imported := False\<rparr>) t2 in
                (rc, Some \<lparr>md_kva = kvaddr, md_iova = ucast iova, md_smmu_hdl = rd_smmu_hdl inp,
                   md_mem_handle = mem_handle, md_len = request_len, md_region = region\<rparr>, t3))"

definition cam_mem_mgr_free_memory_region ::
  "'x mem_core \<Rightarrow> cam_mem_mgr_memory_desc \<Rightarrow> 'x cam_mem_table \<Rightarrow> int \<times> 'x cam_mem_table" where
  "cam_mem_mgr_free_memory_region A inp t =
     (if \<not> mt_state t then (- EINVAL, t)
      else if md_region inp \<noteq> CAM_SMMU_REGION_SECHEAP \<and> md_region inp \<noteq> CAM_SMMU_REGION_FWUNCACHED
      then (- EINVAL, t)
      else
        let idx = CAM_MEM_MGR_GET_HDL_IDX (md_mem_handle inp) in
        if CAM_MEM_BUFQ_MAX \<le> idx \<or> idx \<le> 0 then (- EINVAL, t)
        else if \<not> bq_active (mt_bufq t idx) then
          (if bq_vaddr (mt_bufq t idx) = 0 then (0, t) else (- EINVAL, t))
        else if bq_buf_handle (mt_bufq t idx) \<noteq> md_mem_handle inp then (- EINVAL, t)
        else if bq_num_hdl (mt_bufq t idx) \<noteq> 1 then (- ENODEV, t)
        else if md_smmu_hdl inp \<noteq> bq_hdls (mt_bufq t idx) ! 0 then (- ENODEV, t)
        else
          let (rc, x) = smmu_release_buf_region A (md_region inp) (md_smmu_hdl inp) (mt_core t);
              t1 = t\<lparr>mt_core := x\<rparr> in
          if rc \<noteq> 0 then (- ENODEV, t1) else cam_mem_util_unmap A idx CAM_SMMU_MAPPING_KERNEL t1)"

end
