(* ===== verification/Cam_Mem_Inv.thy ===== *)
theory Cam_Mem_Inv
  imports Cam_Mem
begin

unbundle bit_operations_syntax

section \<open>The invariant of the buffer table\<close>

subsection \<open>Buffer handles\<close>

lemma idx_mask: "(0x7FFF :: u32) = mask 15"
  by (simp add: mask_eq_exp_minus_1)

lemma handle_bit:
  "bit (GET_MEM_HANDLE idx fd) n \<longleftrightarrow>
     (n < 15 \<and> bit (word_of_int idx :: u32) n) \<or> (16 \<le> n \<and> n < 32 \<and> bit fd (n - 16))"
  unfolding GET_MEM_HANDLE_def idx_mask by (auto simp: bit_simps)

lemma secure_mask_bit [simp]: "bit (32768 :: u32) n \<longleftrightarrow> n = 15"
proof -
  have "(32768 :: u32) = push_bit 15 1" by simp
  then show ?thesis by (simp only: bit_push_bit_iff bit_1_iff) auto
qed

lemma secure_mask_bit_int [simp]: "bit (32768 :: int) n \<longleftrightarrow> n = 15"
proof -
  have "(32768 :: int) = push_bit 15 1" by simp
  then show ?thesis by (simp only: bit_push_bit_iff bit_1_iff) auto
qed

lemma secure_bit: "CAM_MEM_MGR_IS_SECURE_HDL h \<longleftrightarrow> bit h 15"
proof -
  have "signed_drop_bit 15 (h AND push_bit 15 1) = (if bit h 15 then 1 else 0)"
    by (rule bit_eqI) (auto simp: bit_simps bit_signed_drop_bit_iff intro!: gr0I)
  then show ?thesis by (simp add: CAM_MEM_MGR_IS_SECURE_HDL_def)
qed

lemma get_idx_uint: "CAM_MEM_MGR_GET_HDL_IDX h = uint (take_bit 15 h)"
  unfolding CAM_MEM_MGR_GET_HDL_IDX_def idx_mask by (simp only: take_bit_eq_mask)

lemma get_idx_range: "0 \<le> CAM_MEM_MGR_GET_HDL_IDX h \<and> CAM_MEM_MGR_GET_HDL_IDX h < 2 ^ 15"
  unfolding get_idx_uint unsigned_take_bit_eq by (simp only: take_bit_nonnegative take_bit_int_less_exp simp_thms)

lemma get_idx_eqI:
  assumes "0 \<le> idx" "idx < 2 ^ 15" "\<And>n. n < 15 \<Longrightarrow> bit h n = bit (word_of_int idx :: u32) n"
  shows "CAM_MEM_MGR_GET_HDL_IDX h = idx"
proof -
  have "take_bit 15 h = take_bit 15 (word_of_int idx :: u32)"
    using assms(3) by (intro bit_eqI) (auto simp: bit_take_bit_iff)
  then have "uint (take_bit 15 h) = take_bit 15 (uint (word_of_int idx :: u32))"
    by (simp add: unsigned_take_bit_eq)
  also have "\<dots> = idx"
    using assms(1,2) by (simp add: uint_word_of_int take_bit_eq_mod)
  finally show ?thesis by (simp add: get_idx_uint)
qed

lemma GET_MEM_HANDLE_idx:
  "0 \<le> idx \<Longrightarrow> idx < 2 ^ 15 \<Longrightarrow> CAM_MEM_MGR_GET_HDL_IDX (GET_MEM_HANDLE idx fd) = idx"
  by (rule get_idx_eqI) (auto simp: handle_bit)

lemma GET_MEM_HANDLE_not_secure [simp]: "\<not> CAM_MEM_MGR_IS_SECURE_HDL (GET_MEM_HANDLE idx fd)"
  by (simp add: secure_bit handle_bit)

lemma set_secure_bit: "bit (CAM_MEM_MGR_SET_SECURE_HDL h True) n \<longleftrightarrow> n = 15 \<or> bit h n"
  by (auto simp: CAM_MEM_MGR_SET_SECURE_HDL_def bit_simps)

lemma mem_handle_for_idx:
  "0 \<le> idx \<Longrightarrow> idx < 2 ^ 15 \<Longrightarrow> CAM_MEM_MGR_GET_HDL_IDX (mem_handle_for idx fd flags) = idx"
  by (rule get_idx_eqI) (auto simp: mem_handle_for_def handle_bit set_secure_bit)

lemma mem_handle_for_secure [simp]:
  "CAM_MEM_MGR_IS_SECURE_HDL (mem_handle_for idx fd flags) \<longleftrightarrow> has_flag flags CAM_MEM_FLAG_PROTECTED_MODE"
  by (simp add: mem_handle_for_def secure_bit set_secure_bit handle_bit)

lemma mem_handle_for_fd:
  assumes "- (2 ^ 15) \<le> fd" "fd < 2 ^ 15"
  shows "GET_FD_FROM_HANDLE (mem_handle_for idx fd flags) = fd"
proof -
  have fifteen: "n = 15" if "15 \<le> n" "\<not> 16 \<le> n" for n :: nat using that by simp
  have "signed_drop_bit 16 (mem_handle_for idx fd flags) = (word_of_int (signed_take_bit 15 fd) :: u32)"
    by (rule bit_eqI)
      (auto simp: bit_simps bit_signed_drop_bit_iff mem_handle_for_def handle_bit set_secure_bit min_def
         dest: fifteen)
  also have "\<dots> = word_of_int fd"
    using assms by (simp add: signed_take_bit_int_eq_self)
  finally have eq: "signed_drop_bit 16 (mem_handle_for idx fd flags) = word_of_int fd" .
  have "signed_take_bit 31 fd = fd" using assms by (intro signed_take_bit_int_eq_self) auto
  then show ?thesis unfolding GET_FD_FROM_HANDLE_def eq by (simp only: sint_sbintrunc') simp
qed

subsection \<open>The invariant\<close>

text \<open>
  The bitmap marks slot 0 and exactly the active entries. An active entry holds a buffer and a handle that
  leads back to it, at most 16 SMMU handles, and a handle with the protected bit only for a protected
  buffer that the kernel may not map; an idle entry holds no buffer and no
  IO address.
\<close>

definition entry_ok :: "int \<Rightarrow> cam_mem_buf_queue \<Rightarrow> bool" where
  "entry_ok i q \<longleftrightarrow>
     bq_num_hdl q \<le> CAM_MEM_MMU_MAX_HANDLE \<and> (bq_active q \<longleftrightarrow> bq_dma_buf q \<noteq> 0) \<and>
     (\<not> bq_active q \<longrightarrow> bq_vaddr q = 0) \<and>
     (bq_active q \<longrightarrow> CAM_MEM_MGR_GET_HDL_IDX (bq_buf_handle q) = i \<and>
        (CAM_MEM_MGR_IS_SECURE_HDL (bq_buf_handle q) \<longrightarrow>
           has_flag (bq_flags q) CAM_MEM_FLAG_PROTECTED_MODE \<and> \<not> has_flag (bq_flags q) CAM_MEM_FLAG_KMD_ACCESS))"

definition mem_wf :: "'x cam_mem_table \<Rightarrow> bool" where
  "mem_wf t \<longleftrightarrow> (mt_state t \<longrightarrow>
     mt_bitmap t 0 \<and> (\<forall>i. mt_bitmap t i \<longrightarrow> 0 \<le> i \<and> i < CAM_MEM_BUFQ_MAX) \<and>
     (\<forall>i. 1 \<le> i \<and> i < CAM_MEM_BUFQ_MAX \<longrightarrow>
        mt_bitmap t i = bq_active (mt_bufq t i) \<and> entry_ok i (mt_bufq t i)))"

text \<open>What an operation does to the table as a whole: nothing that a live entry would notice, one entry
  taken, or one entry given back.\<close>

definition quiet :: "'x cam_mem_table \<Rightarrow> 'x cam_mem_table \<Rightarrow> bool" where
  "quiet t t' \<longleftrightarrow> mt_state t' = mt_state t \<and> mt_bitmap t' = mt_bitmap t \<and>
     (\<forall>j. bq_active (mt_bufq t' j) = bq_active (mt_bufq t j)) \<and>
     (\<forall>j. bq_active (mt_bufq t j) \<longrightarrow> mt_bufq t' j = mt_bufq t j) \<and>
     (\<forall>j. entry_ok j (mt_bufq t j) \<longrightarrow> entry_ok j (mt_bufq t' j))"

definition took :: "int \<Rightarrow> 'x cam_mem_table \<Rightarrow> 'x cam_mem_table \<Rightarrow> bool" where
  "took i t t' \<longleftrightarrow> mt_state t' = mt_state t \<and> 1 \<le> i \<and> i < CAM_MEM_BUFQ_MAX \<and> \<not> mt_bitmap t i \<and>
     mt_bitmap t' = (mt_bitmap t)(i := True) \<and> (\<forall>j. j \<noteq> i \<longrightarrow> mt_bufq t' j = mt_bufq t j) \<and>
     bq_active (mt_bufq t' i) \<and> entry_ok i (mt_bufq t' i)"

definition gave :: "int \<Rightarrow> 'x cam_mem_table \<Rightarrow> 'x cam_mem_table \<Rightarrow> bool" where
  "gave i t t' \<longleftrightarrow> mt_state t' = mt_state t \<and> 1 \<le> i \<and> i < CAM_MEM_BUFQ_MAX \<and>
     mt_bitmap t' = (mt_bitmap t)(i := False) \<and> (\<forall>j. j \<noteq> i \<longrightarrow> mt_bufq t' j = mt_bufq t j) \<and>
     \<not> bq_active (mt_bufq t' i) \<and> bq_vaddr (mt_bufq t' i) = 0 \<and> entry_ok i (mt_bufq t' i)"

lemma quiet_refl [simp, intro]: "quiet t t"
  by (simp add: quiet_def)

lemma quiet_trans: "quiet t t1 \<Longrightarrow> quiet t1 t2 \<Longrightarrow> quiet t t2"
  unfolding quiet_def by metis

lemma quiet_core [simp]: "quiet t (t\<lparr>mt_core := x\<rparr>)"
  by (simp add: quiet_def)

lemma quiet_core_right [simp]: "quiet t (t'\<lparr>mt_core := x\<rparr>) \<longleftrightarrow> quiet t t'"
  by (simp add: quiet_def)

lemma took_core_left [simp]: "took i (t\<lparr>mt_core := x\<rparr>) t' \<longleftrightarrow> took i t t'"
  by (simp add: took_def)

lemma gave_core_left [simp]: "gave i (t\<lparr>mt_core := x\<rparr>) t' \<longleftrightarrow> gave i t t'"
  by (simp add: gave_def)

lemma quiet_core_left [simp]: "quiet (t\<lparr>mt_core := x\<rparr>) t' \<longleftrightarrow> quiet t t'"
  by (simp add: quiet_def)

lemma mem_wf_core [simp]: "mem_wf (t\<lparr>mt_core := x\<rparr>) \<longleftrightarrow> mem_wf t"
  by (simp add: mem_wf_def)

lemma quiet_wf [cam_inv]: "mem_wf t \<Longrightarrow> quiet t t' \<Longrightarrow> mem_wf t'"
  unfolding mem_wf_def quiet_def by metis

lemma took_wf [cam_inv]: "mem_wf t \<Longrightarrow> took i t t' \<Longrightarrow> mem_wf t'"
  unfolding mem_wf_def took_def by (auto split: if_splits)

lemma gave_wf [cam_inv]: "mem_wf t \<Longrightarrow> gave i t t' \<Longrightarrow> mem_wf t'"
  unfolding mem_wf_def gave_def by (auto split: if_splits)

lemma upd_bufq_sel [simp]:
  "mt_bufq (upd_bufq i f t) = (mt_bufq t)(i := f (mt_bufq t i))"
  "mt_bitmap (upd_bufq i f t) = mt_bitmap t"
  "mt_state (upd_bufq i f t) = mt_state t"
  "mt_core (upd_bufq i f t) = mt_core t"
  by (simp_all add: upd_bufq_def)

lemma put_slot_sel [simp]:
  "mt_bufq (cam_mem_put_slot i t) = (mt_bufq t)(i := (mt_bufq t i)
     \<lparr>bq_active := False, bq_is_internal := False, bq_timestamp := 0\<rparr>)"
  "mt_bitmap (cam_mem_put_slot i t) = (mt_bitmap t)(i := False)"
  "mt_state (cam_mem_put_slot i t) = mt_state t"
  "mt_core (cam_mem_put_slot i t) = mt_core t"
  by (simp_all add: cam_mem_put_slot_def clear_bit_at_def)

subsection \<open>Taking a slot\<close>

lemma get_slot_cases:
  assumes "mem_wf t" "mt_state t" "cam_mem_get_slot A t = (idx, t')"
  obtains (full) "idx = - ENOMEM" "t' = t" "\<And>j. 1 \<le> j \<Longrightarrow> j < CAM_MEM_BUFQ_MAX \<Longrightarrow> mt_bitmap t j"
  | (free) "1 \<le> idx" "idx < CAM_MEM_BUFQ_MAX" "\<not> mt_bitmap t idx" "\<not> bq_active (mt_bufq t idx)"
      "\<And>j. 1 \<le> j \<Longrightarrow> j < idx \<Longrightarrow> mt_bitmap t j"
      "t' = upd_bufq idx (\<lambda>q. q\<lparr>bq_active := True, bq_timestamp := mc_now A (mt_core t)\<rparr>)
              (t\<lparr>mt_bitmap := (mt_bitmap t)(idx := True)\<rparr>)"
proof -
  let ?i = "find_first_zero_bit (mt_bitmap t) CAM_MEM_BUFQ_MAX"
  have zero: "mt_bitmap t 0" using assms by (simp add: mem_wf_def)
  have pos: "0 < ?i" if "?i < CAM_MEM_BUFQ_MAX"
    using find_first_zero_bit_free [OF that] zero by (metis find_first_zero_bit_ge order_le_less)
  show thesis
  proof (cases "?i < CAM_MEM_BUFQ_MAX")
    case True
    note fr = find_first_zero_bit_free [OF True]
    moreover have "\<not> bq_active (mt_bufq t ?i)" using assms(1,2) True pos [OF True] fr by (auto simp: mem_wf_def)
    moreover have "mt_bitmap t j" if "1 \<le> j" "j < ?i" for j
      using find_first_zero_bit_least [of j "mt_bitmap t" CAM_MEM_BUFQ_MAX] that by simp
    ultimately show thesis
      using assms(3) True pos [OF True] by (intro free) (auto simp: cam_mem_get_slot_def set_bit_at_def Let_def)
  next
    case False
    then show thesis
      using assms(3) find_first_zero_bit_full [of CAM_MEM_BUFQ_MAX "mt_bitmap t"]
      by (intro full) (auto simp: cam_mem_get_slot_def Let_def)
  qed
qed

subsection \<open>Helpers change only the state of the framework\<close>

definition only_core :: "'x cam_mem_table \<Rightarrow> 'x cam_mem_table \<Rightarrow> bool" where
  "only_core t t' \<longleftrightarrow> (\<exists>x. t' = t\<lparr>mt_core := x\<rparr>)"

lemma only_core_refl [simp]: "only_core t t"
  unfolding only_core_def by (rule exI [of _ "mt_core t"]) simp

lemma only_core_upd [intro!]: "only_core t t' \<Longrightarrow> only_core t (t'\<lparr>mt_core := x\<rparr>)"
  by (auto simp: only_core_def)

lemma only_core_sel:
  "only_core t t' \<Longrightarrow> mt_bufq t' = mt_bufq t \<and> mt_bitmap t' = mt_bitmap t \<and> mt_state t' = mt_state t"
  by (auto simp: only_core_def)

lemma only_core_quiet: "only_core t t' \<Longrightarrow> quiet t t'"
  by (drule only_core_sel) (simp add: quiet_def)

lemma get_dma_buf_core: "cam_mem_util_get_dma_buf A len f t = (rc, b, i, t') \<Longrightarrow> only_core t t'"
  by (auto simp: cam_mem_util_get_dma_buf_def Let_def split: sum.splits prod.splits if_splits)

lemma buffer_alloc_core: "cam_mem_util_buffer_alloc A len f t = (rc, b, fd, i, t') \<Longrightarrow> only_core t t'"
  by (auto simp: cam_mem_util_buffer_alloc_def Let_def dest: get_dma_buf_core split: prod.splits if_splits)

lemma unmap_hw_va_core: "only_core t (snd (cam_mem_util_unmap_hw_va A idx region client t))"
  by (auto simp: cam_mem_util_unmap_hw_va_def Let_def split: prod.splits)

lemma unmap_active_core: "only_core t (cam_mem_mgr_unmap_active_buf A idx t)"
  by (auto simp: cam_mem_mgr_unmap_active_buf_def Let_def unmap_hw_va_core)

subsection \<open>Allocation and import\<close>

text \<open>The state between the taking of a slot and the filling of its entry.\<close>

definition reserved :: "int \<Rightarrow> 'x cam_mem_table \<Rightarrow> 'x cam_mem_table \<Rightarrow> bool" where
  "reserved i t t' \<longleftrightarrow> mt_state t' = mt_state t \<and> 1 \<le> i \<and> i < CAM_MEM_BUFQ_MAX \<and> \<not> mt_bitmap t i \<and>
     \<not> bq_active (mt_bufq t i) \<and> entry_ok i (mt_bufq t i) \<and> mt_bitmap t' = (mt_bitmap t)(i := True) \<and>
     (\<forall>j. j \<noteq> i \<longrightarrow> mt_bufq t' j = mt_bufq t j) \<and>
     bq_dma_buf (mt_bufq t' i) = 0 \<and> bq_vaddr (mt_bufq t' i) = 0 \<and> bq_num_hdl (mt_bufq t' i) \<le> CAM_MEM_MMU_MAX_HANDLE"

lemma reserved_core [simp]: "reserved i t (t'\<lparr>mt_core := x\<rparr>) \<longleftrightarrow> reserved i t t'"
  by (simp add: reserved_def)

lemma reserved_core_left [simp]: "reserved i (t\<lparr>mt_core := x\<rparr>) t' \<longleftrightarrow> reserved i t t'"
  by (simp add: reserved_def)

lemma get_slot_reserves:
  assumes "mem_wf t" "mt_state t" "cam_mem_get_slot A t = (idx, t')"
  shows "idx < 0 \<and> t' = t \<or> 0 \<le> idx \<and> reserved idx t t'"
  using assms
proof (cases rule: get_slot_cases)
  case free
  moreover have "entry_ok idx (mt_bufq t idx)" using assms(1,2) free(1,2) by (simp add: mem_wf_def)
  ultimately show ?thesis by (simp add: reserved_def entry_ok_def)
qed simp

text \<open>Giving a reserved slot back leaves nothing behind, whatever was written to the entry meanwhile, as long
  as it holds no buffer.\<close>

lemma reserved_put_quiet:
  assumes "reserved i t t'"
  shows "quiet t (cam_mem_put_slot i t')"
proof -
  have "(mt_bitmap t)(i := False) = mt_bitmap t" using assms by (auto simp: reserved_def fun_eq_iff)
  with assms show ?thesis by (auto simp: quiet_def reserved_def entry_ok_def)
qed

lemma reserved_upd:
  "reserved i t t' \<Longrightarrow> bq_dma_buf (f (mt_bufq t' i)) = 0 \<Longrightarrow> bq_vaddr (f (mt_bufq t' i)) = bq_vaddr (mt_bufq t' i)
   \<Longrightarrow> bq_num_hdl (f (mt_bufq t' i)) = bq_num_hdl (mt_bufq t' i) \<Longrightarrow> reserved i t (upd_bufq i f t')"
  by (simp add: reserved_def)

lemma reserved_fill:
  "reserved i t t' \<Longrightarrow> bq_active (f (mt_bufq t' i)) \<Longrightarrow> entry_ok i (f (mt_bufq t' i)) \<Longrightarrow> took i t (upd_bufq i f t')"
  by (simp add: reserved_def took_def)

text \<open>A reserved entry is active, so what is written to it afterwards leaves it active.\<close>

lemma get_slot_active:
  "cam_mem_get_slot A t = (idx, t') \<Longrightarrow> 0 \<le> idx \<Longrightarrow> bq_active (mt_bufq t' idx)"
  by (auto simp: cam_mem_get_slot_def Let_def split: if_splits)

lemma alloc_flags_secure:
  "cam_mem_util_check_alloc_flags cmd = 0 \<Longrightarrow> unat (ac_num_hdl cmd) \<le> CAM_MEM_MMU_MAX_HANDLE \<and>
     (has_flag (ac_flags cmd) CAM_MEM_FLAG_PROTECTED_MODE \<longrightarrow> \<not> has_flag (ac_flags cmd) CAM_MEM_FLAG_KMD_ACCESS)"
  by (auto simp: cam_mem_util_check_alloc_flags_def Let_def split: if_splits)

lemma map_flags_secure:
  "cam_mem_util_check_map_flags cmd = 0 \<Longrightarrow> unat (pc_num_hdl cmd) \<le> CAM_MEM_MMU_MAX_HANDLE \<and>
     (has_flag (pc_flags cmd) CAM_MEM_FLAG_PROTECTED_MODE \<longrightarrow> \<not> has_flag (pc_flags cmd) CAM_MEM_FLAG_KMD_ACCESS)"
  by (auto simp: cam_mem_util_check_map_flags_def Let_def split: if_splits)

lemma entry_okI:
  "0 \<le> i \<Longrightarrow> i < CAM_MEM_BUFQ_MAX \<Longrightarrow> bq_num_hdl q \<le> CAM_MEM_MMU_MAX_HANDLE \<Longrightarrow> bq_dma_buf q \<noteq> 0 \<Longrightarrow> bq_active q \<Longrightarrow>
   bq_buf_handle q = mem_handle_for i fd (bq_flags q) \<Longrightarrow>
   (has_flag (bq_flags q) CAM_MEM_FLAG_PROTECTED_MODE \<Longrightarrow> \<not> has_flag (bq_flags q) CAM_MEM_FLAG_KMD_ACCESS) \<Longrightarrow>
   entry_ok i q"
  by (simp add: entry_ok_def mem_handle_for_idx)

lemma alloc_fill_cases:
  assumes fill: "alloc_fill_entry A cmd idx buf fd i_ino va t1 = (rc, out, t')"
    and res: "reserved idx t t1" "bq_active (mt_bufq t1 idx)"
    and ok: "cam_mem_util_check_alloc_flags cmd = 0" "buf \<noteq> 0"
  shows "(\<exists>x. out = None \<and> quiet t (t'\<lparr>mt_core := x\<rparr>)) \<or>
     (\<exists>q. rc = 0 \<and> out = Some \<lparr>ao_buf_handle = bq_buf_handle q, ao_fd = fd, ao_vaddr = 0\<rparr> \<and> took idx t t' \<and>
        mt_bufq t' idx = q \<and> bq_buf_handle q = mem_handle_for idx fd (ac_flags cmd) \<and> bq_flags q = ac_flags cmd \<and>
        bq_dma_buf q = buf \<and> bq_len q = snd va \<and> bq_fd q = fd \<and>
        (has_flag (ac_flags cmd) CAM_MEM_FLAG_KMD_ACCESS \<longrightarrow>
           fst (snd (cam_mem_util_map_cpu_va A buf (mt_core t1))) = bq_kmdvaddr q))"
proof -
  have range: "0 \<le> idx" "idx < CAM_MEM_BUFQ_MAX" using res by (auto simp: reserved_def)
  define t2 where "t2 = upd_bufq idx (\<lambda>q. q\<lparr>bq_fd := fd, bq_i_ino := i_ino, bq_dma_buf := 0, bq_flags := ac_flags cmd,
     bq_buf_handle := mem_handle_for idx fd (ac_flags cmd), bq_is_internal := True\<rparr>) t1"
  have r2: "reserved idx t t2" unfolding t2_def using res(1) by (intro reserved_upd) (auto simp: reserved_def)
  obtain rc1 kv kl x where km: "(if has_flag (ac_flags cmd) CAM_MEM_FLAG_KMD_ACCESS
     then cam_mem_util_map_cpu_va A buf (mt_core t2) else (0, 0, 0, mt_core t2)) = (rc1, kv, kl, x)"
    by (metis prod_cases4)
  show ?thesis
  proof (cases "rc1 = 0")
    case False
    then have "t' = (cam_mem_put_slot idx (t2\<lparr>mt_core := x\<rparr>))\<lparr>mt_core := mt_core t'\<rparr>" "out = None"
      using fill km by (auto simp: alloc_fill_entry_def Let_def t2_def [symmetric])
    moreover have "quiet t (cam_mem_put_slot idx (t2\<lparr>mt_core := x\<rparr>))" using r2 by (intro reserved_put_quiet) simp
    ultimately show ?thesis by (metis quiet_core_right)
  next
    case True
    define t3 where "t3 = (if has_flag (ac_flags cmd) CAM_MEM_FLAG_KMD_DEBUG_FLAG
       then t2\<lparr>mt_core := x, mt_dbg_buf_idx := idx\<rparr> else t2\<lparr>mt_core := x\<rparr>)"
    have r3: "reserved idx t t3" using r2 by (simp add: t3_def reserved_def)
    have b3: "mt_bufq t3 = mt_bufq t2" by (simp add: t3_def)
    define f where "f = (\<lambda>q :: cam_mem_buf_queue. q\<lparr>bq_kmdvaddr := kv, bq_vaddr := fst va, bq_dma_buf := buf, bq_len := snd va,
       bq_num_hdl := unat (ac_num_hdl cmd),
       bq_hdls := copy_hdls (unat (ac_num_hdl cmd)) (ac_mmu_hdls cmd) (bq_hdls q), bq_is_imported := False\<rparr>)"
    have fsel: "bq_buf_handle (f q) = bq_buf_handle q" "bq_fd (f q) = bq_fd q" for q by (simp_all add: f_def)
    have act: "bq_active (f (mt_bufq t3 idx))" using res(2) by (simp add: b3 f_def t2_def)
    have "took idx t (upd_bufq idx f t3)"
      using r3 act range ok alloc_flags_secure [OF ok(1)]
      by (intro reserved_fill entry_okI [where fd = fd]) (auto simp: b3 f_def t2_def)
    moreover have "rc = rc1" "t' = upd_bufq idx f t3"
      "out = Some \<lparr>ao_buf_handle = bq_buf_handle (mt_bufq t' idx), ao_fd = bq_fd (mt_bufq t' idx), ao_vaddr = 0\<rparr>"
      using fill km True by (auto simp: alloc_fill_entry_def Let_def t2_def [symmetric] t3_def [symmetric] f_def [symmetric] fsel)
    ultimately show ?thesis using True km by (auto simp: b3 f_def t2_def)
  qed
qed

lemma alloc_cases:
  assumes "mem_wf t" "mt_state t" "cam_mem_mgr_alloc_and_map A cmd t = (rc, out, t')"
  shows "(out = None \<and> quiet t t') \<or>
     (\<exists>idx fd. rc = 0 \<and> 0 \<le> fd \<and> took idx t t' \<and>
        out = Some \<lparr>ao_buf_handle = mem_handle_for idx fd (ac_flags cmd), ao_fd = fd, ao_vaddr = 0\<rparr> \<and>
        bq_buf_handle (mt_bufq t' idx) = mem_handle_for idx fd (ac_flags cmd) \<and>
        bq_flags (mt_bufq t' idx) = ac_flags cmd \<and> bq_fd (mt_bufq t' idx) = fd)"
proof -
  define len where "len = (if mt_need_shared_buffer_padding t \<and> has_flag (ac_flags cmd) CAM_MEM_FLAG_HW_SHARED_ACCESS
                   then ac_len cmd + CAM_MEM_SHARED_BUFFER_PAD_4K else ac_len cmd)"
  obtain rc1 b fd ino t1 where al: "cam_mem_util_buffer_alloc A len (ac_flags cmd) t = (rc1, b, fd, ino, t1)"
    by (metis prod_cases5)
  note c1 = buffer_alloc_core [OF al]
  have wf1: "mem_wf t1" "mt_state t1"
    using assms only_core_sel [OF c1] only_core_quiet [OF c1] quiet_wf by blast+
  obtain idx t2 where gs: "cam_mem_get_slot A t1 = (idx, t2)" by fastforce
  consider (flags) "cam_mem_util_check_alloc_flags cmd \<noteq> 0" | (noalloc) "cam_mem_util_check_alloc_flags cmd = 0" "rc1 \<noteq> 0 \<or> b = 0"
    | (full) "cam_mem_util_check_alloc_flags cmd = 0" "rc1 = 0" "b \<noteq> 0" "idx < 0" | (go) "cam_mem_util_check_alloc_flags cmd = 0" "rc1 = 0" "b \<noteq> 0" "0 \<le> idx"
    by linarith
  then show ?thesis
  proof cases
    case flags
    then show ?thesis using assms by (auto simp: cam_mem_mgr_alloc_and_map_def Let_def)
  next
    case noalloc
    then have "out = None \<and> t' = t1"
      using assms al by (auto simp: cam_mem_mgr_alloc_and_map_def Let_def len_def [symmetric] split: if_splits)
    then show ?thesis using only_core_quiet [OF c1] by simp
  next
    case full
    then have "t2 = t1" using get_slot_reserves [OF wf1 gs] by auto
    then have "out = None \<and> t' = t1\<lparr>mt_core := mc_put A b (mt_core t1)\<rparr>"
      using assms al gs full by (auto simp: cam_mem_mgr_alloc_and_map_def Let_def len_def [symmetric])
    then show ?thesis using only_core_quiet [OF c1] by simp
  next
    case go
    have res: "reserved idx t t2"
      using get_slot_reserves [OF wf1 gs] go only_core_sel [OF c1] by (auto simp: reserved_def)
    note act = get_slot_active [OF gs go(4)]
    have fd: "0 \<le> fd" using al go(2) by (auto simp: cam_mem_util_buffer_alloc_def Let_def split: prod.splits if_splits)
    define y where "y = mc_set_name A b (ac_buf_name cmd) (mt_core t2)"
    obtain rc2 va x where mp: "alloc_map_hw A cmd fd b len y = (rc2, va, x)"
      by (metis prod_cases3)
    have run: "cam_mem_mgr_alloc_and_map A cmd t =
      (if rc2 \<noteq> 0 then
         ((if rc2 = - EALREADY \<and> mc_size A b x \<noteq> snd va then - EBADR else rc2), None,
          (cam_mem_put_slot idx (t2\<lparr>mt_core := x\<rparr>))\<lparr>mt_core := mc_put A b x\<rparr>)
       else alloc_fill_entry A cmd idx b fd ino va (t2\<lparr>mt_core := x\<rparr>))"
      using assms(2) al gs go mp
      by (simp add: cam_mem_mgr_alloc_and_map_def Let_def len_def [symmetric] y_def [symmetric])
    show ?thesis
    proof (cases "rc2 = 0")
      case False
      then show ?thesis
        using run assms(3) reserved_put_quiet [of idx t "t2\<lparr>mt_core := x\<rparr>"] res by auto
    next
      case True
      with run assms(3) have fill: "alloc_fill_entry A cmd idx b fd ino va (t2\<lparr>mt_core := x\<rparr>) = (rc, out, t')" by simp
      have "reserved idx t (t2\<lparr>mt_core := x\<rparr>)" "bq_active (mt_bufq (t2\<lparr>mt_core := x\<rparr>) idx)" using res act by simp_all
      from alloc_fill_cases [OF fill this go(1,3)] show ?thesis using fd by auto
    qed
  qed
qed

lemma map_cases:
  assumes "mem_wf t" "mt_state t" "cam_mem_mgr_map A cmd t = (rc, out, t')"
  shows "(out = None \<and> quiet t t') \<or>
     (\<exists>idx o1. rc = 0 \<and> 0 \<le> pc_fd cmd \<and> took idx t t' \<and> out = Some o1 \<and>
        po_buf_handle o1 = mem_handle_for idx (pc_fd cmd) (pc_flags cmd) \<and>
        bq_buf_handle (mt_bufq t' idx) = mem_handle_for idx (pc_fd cmd) (pc_flags cmd) \<and>
        bq_flags (mt_bufq t' idx) = pc_flags cmd \<and> bq_kmdvaddr (mt_bufq t' idx) = 0)"
proof -
  obtain p x1 where fdp: "mc_get_from_fd A (pc_fd cmd) (mt_core t) = (p, x1)" by fastforce
  define t1 where "t1 = t\<lparr>mt_core := x1\<rparr>"
  have wf1: "mem_wf t1" "mt_state t1" using assms by (simp_all add: t1_def)
  obtain idx t2 where gs: "cam_mem_get_slot A t1 = (idx, t2)" by fastforce
  consider (bad) "pc_fd cmd < 0 \<or> CAM_MEM_MMU_MAX_HANDLE < unat (pc_num_hdl cmd) \<or> cam_mem_util_check_map_flags cmd \<noteq> 0"
    | (noimport) "0 \<le> pc_fd cmd" "cam_mem_util_check_map_flags cmd = 0" "IS_ERR_OR_NULL p"
    | (full) "0 \<le> pc_fd cmd" "cam_mem_util_check_map_flags cmd = 0" "\<not> IS_ERR_OR_NULL p" "idx < 0"
    | (go) "0 \<le> pc_fd cmd" "cam_mem_util_check_map_flags cmd = 0" "\<not> IS_ERR_OR_NULL p" "0 \<le> idx"
    by linarith
  then show ?thesis
  proof cases
    case bad
    then show ?thesis using assms by (auto simp: cam_mem_mgr_map_def Let_def split: if_splits)
  next
    case noimport
    then have "out = None \<and> t' = t1"
      using assms fdp map_flags_secure [of cmd] by (auto simp: cam_mem_mgr_map_def Let_def t1_def)
    then show ?thesis by (simp add: t1_def)
  next
    case full
    then have "t2 = t1" using get_slot_reserves [OF wf1 gs] by auto
    then have "out = None \<and> t' = t1\<lparr>mt_core := mc_put A (ptr_of p) x1\<rparr>"
      using assms fdp gs full map_flags_secure [of cmd]
      by (auto simp: cam_mem_mgr_map_def Let_def t1_def [symmetric]) (simp_all add: t1_def)
    then show ?thesis by (simp add: t1_def)
  next
    case go
    have res: "reserved idx t t2" using get_slot_reserves [OF wf1 gs] go by (auto simp: t1_def)
    note act = get_slot_active [OF gs go(4)]
    note fl = map_flags_secure [OF go(2)]
    have buf: "ptr_of p \<noteq> 0" using go(3) by (auto simp: IS_ERR_OR_NULL_def ptr_of_def split: kptr.splits)
    define int where "int = cam_mem_util_is_map_internal (pc_fd cmd) (mc_i_ino A (ptr_of p) x1) t1"
    define y where "y = mc_set_name A (ptr_of p) (pc_buf_name cmd) (mt_core t2)"
    obtain rc2 va x where mp: "import_map_hw A cmd (ptr_of p) int y = (rc2, va, x)"
      by (metis prod_cases3)
    define f where "f = (\<lambda>q :: cam_mem_buf_queue. q\<lparr>bq_fd := pc_fd cmd, bq_i_ino := mc_i_ino A (ptr_of p) x1,
       bq_flags := pc_flags cmd, bq_buf_handle := mem_handle_for idx (pc_fd cmd) (pc_flags cmd), bq_kmdvaddr := 0,
       bq_vaddr := (if 0 < unat (pc_num_hdl cmd) then fst va else 0), bq_dma_buf := ptr_of p, bq_len := snd va,
       bq_num_hdl := unat (pc_num_hdl cmd),
       bq_hdls := copy_hdls (unat (pc_num_hdl cmd)) (pc_mmu_hdls cmd) (bq_hdls q),
       bq_is_imported := True, bq_is_internal := int\<rparr>)"
    have run: "cam_mem_mgr_map A cmd t =
      (if rc2 \<noteq> 0 then
         ((if rc2 = - EALREADY \<and> mc_size A (ptr_of p) x \<noteq> snd va then - EBADR else rc2), None,
          (cam_mem_put_slot idx (t2\<lparr>mt_core := x\<rparr>))\<lparr>mt_core := mc_put A (ptr_of p) x\<rparr>)
       else (0, Some \<lparr>po_buf_handle = mem_handle_for idx (pc_fd cmd) (pc_flags cmd), po_size = ucast (snd va),
               po_vaddr = 0\<rparr>, upd_bufq idx f (t2\<lparr>mt_core := x\<rparr>)))"
      using assms(2) fdp gs go mp fl
      by (simp add: cam_mem_mgr_map_def Let_def t1_def [symmetric] int_def [symmetric] y_def [symmetric] f_def)
    show ?thesis
    proof (cases "rc2 = 0")
      case False
      then show ?thesis
        using run assms(3) reserved_put_quiet [of idx t "t2\<lparr>mt_core := x\<rparr>"] res by auto
    next
      case True
      have "took idx t (upd_bufq idx f (t2\<lparr>mt_core := x\<rparr>))"
        using res act fl buf go(4)
        by (intro reserved_fill entry_okI [where fd = "pc_fd cmd"]) (auto simp: f_def reserved_def)
      with True run assms(3) go(1) show ?thesis by (auto simp: f_def)
    qed
  qed
qed

subsection \<open>Release\<close>

lemma release_hw_core: "only_core t (release_hw A idx q client t)"
  by (simp add: release_hw_def unmap_hw_va_core)

lemma unmap_gave:
  assumes "1 \<le> idx" "idx < CAM_MEM_BUFQ_MAX" "entry_ok idx (mt_bufq t idx)" "bq_active (mt_bufq t idx)"
    and "cam_mem_util_unmap A idx client t = (rc, t')"
  shows "gave idx t t' \<and> bq_buf_handle (mt_bufq t' idx) = - 1"
proof -
  define t1 where "t1 = upd_bufq idx (\<lambda>q. q\<lparr>bq_active := False, bq_vaddr := 0\<rparr>) t"
  define q where "q = mt_bufq t1 idx"
  obtain rc1 x where km: "release_kmap A q (mt_core t1) = (rc1, x)" by fastforce
  define t3 where "t3 = release_hw A idx q client (t1\<lparr>mt_core := x\<rparr>)"
  define t4 where "t4 = t3\<lparr>mt_core := (if bq_dma_buf q \<noteq> 0 then mc_put A (bq_dma_buf q) (mt_core t3) else mt_core t3)\<rparr>"
  have o4: "only_core t1 t4"
    using release_hw_core [of "t1\<lparr>mt_core := x\<rparr>" A idx q client] by (auto simp: t4_def t3_def only_core_def)
  note s4 = only_core_sel [OF o4]
  define f where "f = (\<lambda>q :: cam_mem_buf_queue. q\<lparr>bq_flags := 0, bq_buf_handle := - 1,
     bq_hdls := clear_hdls (bq_num_hdl q) (bq_hdls q), bq_fd := - 1, bq_i_ino := 0, bq_dma_buf := 0,
     bq_is_imported := False, bq_is_internal := False, bq_len := 0, bq_num_hdl := 0, bq_timestamp := 0\<rparr>)"
  have run: "cam_mem_util_unmap A idx client t =
     (rc1, (upd_bufq idx f t4)\<lparr>mt_bitmap := clear_bit_at idx (mt_bitmap t4)\<rparr>)"
    using assms(1,2,4) km
    by (simp add: cam_mem_util_unmap_def Let_def t1_def [symmetric] q_def [symmetric] t3_def [symmetric]
        t4_def f_def [symmetric])
  show ?thesis
    using run assms s4 by (auto simp: gave_def clear_bit_at_def f_def t1_def entry_ok_def fun_eq_iff)
qed

lemma wf_entry:
  "mem_wf t \<Longrightarrow> mt_state t \<Longrightarrow> 1 \<le> i \<Longrightarrow> i < CAM_MEM_BUFQ_MAX \<Longrightarrow>
   mt_bitmap t i = bq_active (mt_bufq t i) \<and> entry_ok i (mt_bufq t i)"
  by (simp add: mem_wf_def)

text \<open>A handle is live when the entry it leads to is active and carries it.\<close>

definition live_handle :: "'x cam_mem_table \<Rightarrow> u32 \<Rightarrow> bool" where
  "live_handle t h \<longleftrightarrow>
     (let i = CAM_MEM_MGR_GET_HDL_IDX h in
      1 \<le> i \<and> i < CAM_MEM_BUFQ_MAX \<and> bq_active (mt_bufq t i) \<and> bq_buf_handle (mt_bufq t i) = h)"

lemma release_cases:
  assumes "mem_wf t" "mt_state t" "cam_mem_mgr_release A h t = (rc, t')"
  shows "(\<not> live_handle t h \<and> rc = - EINVAL \<and> t' = t) \<or> (live_handle t h \<and> gave (CAM_MEM_MGR_GET_HDL_IDX h) t t')"
proof (cases "live_handle t h")
  case True
  then have "cam_mem_util_unmap A (CAM_MEM_MGR_GET_HDL_IDX h) CAM_SMMU_MAPPING_USER t = (rc, t')"
    using assms(2,3) by (simp add: cam_mem_mgr_release_def live_handle_def Let_def)
  with True unmap_gave [of "CAM_MEM_MGR_GET_HDL_IDX h" t] wf_entry [OF assms(1,2), of "CAM_MEM_MGR_GET_HDL_IDX h"]
  show ?thesis by (simp add: live_handle_def Let_def)
next
  case False
  then show ?thesis using assms(2,3) by (auto simp: cam_mem_mgr_release_def live_handle_def Let_def split: if_splits)
qed

lemma release_mem_cases:
  assumes "mem_wf t" "mt_state t" "cam_mem_mgr_release_mem A d t = (rc, t')"
  shows "(\<not> live_handle t (md_mem_handle d) \<and> t' = t) \<or>
     (live_handle t (md_mem_handle d) \<and> gave (CAM_MEM_MGR_GET_HDL_IDX (md_mem_handle d)) t t')"
proof (cases "live_handle t (md_mem_handle d)")
  case True
  let ?i = "CAM_MEM_MGR_GET_HDL_IDX (md_mem_handle d)"
  have "cam_mem_util_unmap A ?i CAM_SMMU_MAPPING_KERNEL t = (rc, t')"
    using assms(2,3) True by (simp add: cam_mem_mgr_release_mem_def live_handle_def Let_def)
  with True unmap_gave [of ?i t] wf_entry [OF assms(1,2), of ?i] show ?thesis by (simp add: live_handle_def Let_def)
next
  case False
  then show ?thesis
    using assms(2,3) by (auto simp: cam_mem_mgr_release_mem_def live_handle_def Let_def split: if_splits)
qed

lemma free_region_cases:
  assumes "mem_wf t" "mt_state t" "cam_mem_mgr_free_memory_region A d t = (rc, t')"
  shows "only_core t t' \<or>
     (live_handle t (md_mem_handle d) \<and> gave (CAM_MEM_MGR_GET_HDL_IDX (md_mem_handle d)) t t')"
proof -
  let ?i = "CAM_MEM_MGR_GET_HDL_IDX (md_mem_handle d)"
  obtain rc1 x where rel: "smmu_release_buf_region A (md_region d) (md_smmu_hdl d) (mt_core t) = (rc1, x)" by fastforce
  show ?thesis
  proof (cases "only_core t t'")
    case False
    then have "live_handle t (md_mem_handle d)"
      "cam_mem_util_unmap A ?i CAM_SMMU_MAPPING_KERNEL (t\<lparr>mt_core := x\<rparr>) = (rc, t')"
      using assms(2,3) rel only_core_upd [OF only_core_refl, of t x]
      by (auto simp: cam_mem_mgr_free_memory_region_def live_handle_def Let_def split: if_splits)
    with unmap_gave [of ?i "t\<lparr>mt_core := x\<rparr>" A CAM_SMMU_MAPPING_KERNEL rc t'] wf_entry [OF assms(1,2), of ?i]
    show ?thesis by (simp add: live_handle_def Let_def)
  qed simp
qed

text \<open>An entry of a kernel driver's buffer, as \<open>cam_mem_mgr_request_mem\<close> and
  \<open>cam_mem_mgr_reserve_memory_region\<close> fill it.\<close>

lemma kernel_entry_took:
  assumes res: "reserved idx t t2" and act: "bq_active (mt_bufq t2 idx)" and buf: "buf \<noteq> 0"
  shows "took idx t (upd_bufq idx (\<lambda>q. q\<lparr>bq_dma_buf := buf, bq_fd := fd, bq_i_ino := ino, bq_flags := flags,
     bq_buf_handle := GET_MEM_HANDLE idx fd', bq_kmdvaddr := kv, bq_vaddr := iova, bq_len := len, bq_num_hdl := 1,
     bq_hdls := hs q, bq_is_imported := False\<rparr>) t2)"
proof -
  have "0 \<le> idx" "idx < 2 ^ 15" using res by (auto simp: reserved_def)
  note GET_MEM_HANDLE_idx [OF this]
  with assms show ?thesis by (intro reserved_fill) (auto simp: entry_ok_def)
qed

lemma request_cases:
  assumes "mem_wf t" "mt_state t" "cam_mem_mgr_request_mem A inp t = (rc, inp', out, t')"
  shows "(out = None \<and> quiet t t') \<or>
     (\<exists>idx d. 0 \<le> rc \<and> out = Some d \<and> took idx t t' \<and> md_mem_handle d = GET_MEM_HANDLE idx (- 1) \<and>
        bq_buf_handle (mt_bufq t' idx) = GET_MEM_HANDLE idx (- 1) \<and>
        md_kva d = bq_kmdvaddr (mt_bufq t' idx) \<and> md_len d = bq_len (mt_bufq t' idx) \<and>
        has_flag (bq_flags (mt_bufq t' idx)) CAM_MEM_FLAG_KMD_ACCESS)"
proof -
  obtain rc1 b ino t1 where al: "cam_mem_util_get_dma_buf A (rd_size inp) (rd_flags inp) t = (rc1, b, ino, t1)"
    by (metis prod_cases4)
  note c1 = get_dma_buf_core [OF al]
  have wf1: "mem_wf (t1\<lparr>mt_core := x\<rparr>)" "mt_state (t1\<lparr>mt_core := x\<rparr>)" "quiet t (t1\<lparr>mt_core := x\<rparr>)" for x
    using assms only_core_sel [OF c1] only_core_quiet [OF c1] quiet_wf by simp_all
  have q1: "quiet t t1" using only_core_quiet [OF c1] .
  obtain rc2 kv kl x2 where km: "cam_mem_util_map_cpu_va A b (mt_core t1) = (rc2, kv, kl, x2)" by (metis prod_cases4)
  obtain rc3 iova rl x3 where mk: "smmu_map_kernel A (rd_smmu_hdl inp) b
     (unmap_region (rd_flags inp OR CAM_MEM_FLAG_KMD_ACCESS)) (0, kl) x2 = (rc3, (iova, rl), x3)"
    by (metis prod_cases3 prod.exhaust)
  obtain idx t2 where gs: "cam_mem_get_slot A (t1\<lparr>mt_core := x3\<rparr>) = (idx, t2)" by fastforce
  have slot: "idx < 0 \<and> t2 = t1\<lparr>mt_core := x3\<rparr> \<or> 0 \<le> idx \<and> reserved idx t t2"
    using get_slot_reserves [OF wf1(1,2) gs] only_core_sel [OF c1] by (auto simp: reserved_def)
  note run = assms(2,3) al km mk gs
  show ?thesis
  proof (cases "out = None")
    case True
    then have "quiet t t'"
      using run q1 slot by (auto simp: cam_mem_mgr_request_mem_def Let_def split: if_splits)
    with True show ?thesis by simp
  next
    case False
    have ok: "rc1 = 0" "b \<noteq> 0" "rc2 = 0" "0 \<le> rc3" "0 \<le> idx"
      using run False by (auto simp: cam_mem_mgr_request_mem_def Let_def split: if_splits)
    have kmd: "has_flag (f OR CAM_MEM_FLAG_KMD_ACCESS) CAM_MEM_FLAG_KMD_ACCESS" for f
      by (simp add: has_flag_def bit.conj_disj_distrib2)
    from slot ok have "reserved idx t t2" by simp
    from kernel_entry_took [OF this get_slot_active [OF gs ok(5)] ok(2)]
    show ?thesis
      using run False ok kmd by (auto simp: cam_mem_mgr_request_mem_def Let_def split: if_splits)
  qed
qed

lemma reserve_cases:
  assumes "mem_wf t" "mt_state t" "cam_mem_mgr_reserve_memory_region A inp region t = (rc, out, t')"
  shows "(out = None \<and> quiet t t') \<or>
     (\<exists>idx d. rc = 0 \<and> out = Some d \<and> took idx t t' \<and> md_mem_handle d = GET_MEM_HANDLE idx (- 1) \<and>
        bq_buf_handle (mt_bufq t' idx) = GET_MEM_HANDLE idx (- 1))"
proof -
  obtain rc1 b ino t1 where al: "cam_mem_util_get_dma_buf A (rd_size inp) 0 t = (rc1, b, ino, t1)"
    by (metis prod_cases4)
  note c1 = get_dma_buf_core [OF al]
  have wf1: "mem_wf (t1\<lparr>mt_core := x\<rparr>)" "mt_state (t1\<lparr>mt_core := x\<rparr>)" for x
    using assms only_core_sel [OF c1] only_core_quiet [OF c1] quiet_wf by simp_all
  have q1: "quiet t t1" using only_core_quiet [OF c1] .
  obtain rc2 kv kl x2 where km: "(if has_flag (rd_flags inp) CAM_MEM_FLAG_KMD_ACCESS
     then cam_mem_util_map_cpu_va A b (mt_core t1) else (0, 0, 0, mt_core t1)) = (rc2, kv, kl, x2)"
    by (metis prod_cases4)
  obtain rc3 iova rl x3 where mk: "smmu_reserve_buf_region A region (rd_smmu_hdl inp) b (0, kl) x2 = (rc3, (iova, rl), x3)"
    by (metis prod_cases3 prod.exhaust)
  obtain idx t2 where gs: "cam_mem_get_slot A (t1\<lparr>mt_core := x3\<rparr>) = (idx, t2)" by fastforce
  have slot: "idx < 0 \<and> t2 = t1\<lparr>mt_core := x3\<rparr> \<or> 0 \<le> idx \<and> reserved idx t t2"
    using get_slot_reserves [OF wf1(1,2) gs] only_core_sel [OF c1] by (auto simp: reserved_def)
  note run = assms(2,3) al mk gs
  show ?thesis
  proof (cases "out = None")
    case True
    then have "quiet t t'"
      using run q1 slot unfolding cam_mem_mgr_reserve_memory_region_def
      by (auto simp: km Let_def split: if_splits)
    with True show ?thesis by simp
  next
    case False
    have ok: "rc1 = 0" "b \<noteq> 0" "rc2 = 0" "rc3 = 0" "0 \<le> idx"
      using run False unfolding cam_mem_mgr_reserve_memory_region_def
      by (auto simp: km Let_def split: if_splits)
    from slot ok have "reserved idx t t2" by simp
    from kernel_entry_took [OF this get_slot_active [OF gs ok(5)] ok(2)]
    show ?thesis
      using run False ok unfolding cam_mem_mgr_reserve_memory_region_def
      by (auto simp: km Let_def split: if_splits)
  qed
qed

subsection \<open>Start-up and shut-down\<close>

lemma get_heaps_state: "cam_mem_mgr_get_dma_heaps A t = (rc, t') \<Longrightarrow> mt_state t' = mt_state t"
  by (auto simp: cam_mem_mgr_get_dma_heaps_def Let_def split: if_splits)

lemma init_started:
  assumes "\<not> mt_state t" "cam_mem_mgr_init A t = (rc, t')" "mt_state t'"
  shows "mt_bitmap t' = set_bit_at 0 (\<lambda>_. False) \<and> mt_bufq t' = init_bufq"
  using assms by (auto simp: cam_mem_mgr_init_def Let_def dest: get_heaps_state split: prod.splits if_splits)

lemma init_bufq_idle: "\<not> bq_active (init_bufq i) \<and> entry_ok i (init_bufq i)"
  by (simp add: init_bufq_def zero_bufq_def entry_ok_def)

lemma init_wf [cam_inv]:
  assumes "mem_wf t" "cam_mem_mgr_init A t = (rc, t')"
  shows "mem_wf t'"
proof (cases "mt_state t")
  case False
  then show ?thesis
    using init_started [OF False assms(2)] init_bufq_idle by (auto simp: mem_wf_def)
qed (use assms in \<open>simp add: cam_mem_mgr_init_def\<close>)

lemma cleanup_entry_idle:
  "bq_active (mt_bufq (cleanup_entry A i t) j) \<longleftrightarrow> j \<noteq> i \<and> bq_active (mt_bufq t j)"
  "j \<noteq> i \<Longrightarrow> mt_bufq (cleanup_entry A i t) j = mt_bufq t j"
  "mt_state (cleanup_entry A i t) = mt_state t"
  using only_core_sel [OF unmap_active_core, of A i t]
  by (auto simp: cleanup_entry_def Let_def)

lemma cleanup_loop_idle:
  "bq_active (mt_bufq (cleanup_loop A k i t) j) \<longleftrightarrow> \<not> (i \<le> j \<and> j < i + int k) \<and> bq_active (mt_bufq t j)"
  "mt_state (cleanup_loop A k i t) = mt_state t"
  by (induction k arbitrary: i t) (auto simp: cleanup_entry_idle)

lemma deinit_idle:
  "mt_state t \<Longrightarrow> 1 \<le> i \<Longrightarrow> i < CAM_MEM_BUFQ_MAX \<Longrightarrow> \<not> bq_active (mt_bufq (cam_mem_mgr_deinit A t) i)"
  by (simp add: cam_mem_mgr_deinit_def cam_mem_mgr_cleanup_table_def cleanup_loop_idle)

lemma deinit_state: "\<not> mt_state (cam_mem_mgr_deinit A t)"
  by (simp add: cam_mem_mgr_deinit_def cam_mem_mgr_cleanup_table_def cleanup_loop_idle)

lemma deinit_wf [cam_inv]: "mem_wf (cam_mem_mgr_deinit A t)"
  by (simp add: mem_wf_def deinit_state)

subsection \<open>Runs of the memory manager\<close>

text \<open>Any sequence of the operations, with any arguments, over any framework.\<close>

inductive mem_step :: "'x mem_core \<Rightarrow> 'x cam_mem_table \<Rightarrow> 'x cam_mem_table \<Rightarrow> bool" for A where
  step_init: "mem_step A t (snd (cam_mem_mgr_init A t))"
| step_deinit: "mem_step A t (cam_mem_mgr_deinit A t)"
| step_cache: "mem_step A t (snd (cam_mem_mgr_cache_ops A h c t))"
| step_cpu_access: "mem_step A t (snd (cam_mem_mgr_cpu_access_op A h a ty t))"
| step_alloc: "mem_step A t (snd (snd (cam_mem_mgr_alloc_and_map A cmd t)))"
| step_map: "mem_step A t (snd (snd (cam_mem_mgr_map A imp t)))"
| step_release: "mem_step A t (snd (cam_mem_mgr_release A h t))"
| step_request: "mem_step A t (snd (snd (snd (cam_mem_mgr_request_mem A inp t))))"
| step_release_mem: "mem_step A t (snd (cam_mem_mgr_release_mem A d t))"
| step_reserve: "mem_step A t (snd (snd (cam_mem_mgr_reserve_memory_region A inp region t)))"
| step_free: "mem_step A t (snd (cam_mem_mgr_free_memory_region A d t))"
| step_environment: "mem_step A t (t\<lparr>mt_core := x\<rparr>)"

inductive mem_reach :: "'x mem_core \<Rightarrow> 'x cam_mem_table \<Rightarrow> bool" for A where
  reach_start: "\<not> mt_state t \<Longrightarrow> mem_reach A t"
| reach_step: "mem_reach A t \<Longrightarrow> mem_step A t t' \<Longrightarrow> mem_reach A t'"

lemma uninit_refuses:
  assumes "\<not> mt_state t"
  shows "cam_mem_mgr_cache_ops A h c t = (- EINVAL, t)" "cam_mem_mgr_cpu_access_op A h a ty t = (- EINVAL, t)"
    "cam_mem_mgr_alloc_and_map A cmd t = (- EINVAL, None, t)" "cam_mem_mgr_map A imp t = (- EINVAL, None, t)"
    "cam_mem_mgr_release A h t = (- EINVAL, t)" "cam_mem_mgr_request_mem A inp t = (- EINVAL, inp, None, t)"
    "cam_mem_mgr_release_mem A d t = (- EINVAL, t)"
    "cam_mem_mgr_reserve_memory_region A inp region t = (- EINVAL, None, t)"
    "cam_mem_mgr_free_memory_region A d t = (- EINVAL, t)"
  using assms
  by (simp_all add: cam_mem_mgr_cache_ops_def cam_mem_mgr_cpu_access_op_def cam_mem_mgr_alloc_and_map_def
      cam_mem_mgr_map_def cam_mem_mgr_release_def cam_mem_mgr_request_mem_def cam_mem_mgr_release_mem_def
      cam_mem_mgr_reserve_memory_region_def cam_mem_mgr_free_memory_region_def)

lemma cache_core: "only_core t (snd (cam_mem_mgr_cache_ops A h c t))"
  by (auto simp: cam_mem_mgr_cache_ops_def Let_def split: prod.splits)

lemma cpu_access_core: "only_core t (snd (cam_mem_mgr_cpu_access_op A h a ty t))"
  by (auto simp: cam_mem_mgr_cpu_access_op_def Let_def split: prod.splits)

text \<open>In every step but start-up and shut-down at most one entry changes hands.\<close>

lemma step_cases:
  assumes "mem_wf t" "mem_step A t t'"
  obtains (start) "t' = snd (cam_mem_mgr_init A t)" | (stop) "t' = cam_mem_mgr_deinit A t"
    | (quiet) "quiet t t'" | (took) i where "mt_state t" "took i t t'" | (gave) i where "mt_state t" "gave i t t'"
  using assms(2)
proof cases
  case step_init then show ?thesis using start by blast
next
  case step_deinit then show ?thesis using stop by blast
next
  case (step_cache h c) then show ?thesis using quiet cache_core only_core_quiet by blast
next
  case (step_cpu_access h a ty) then show ?thesis using quiet cpu_access_core only_core_quiet by blast
next
  case (step_alloc cmd)
  obtain rc out where "cam_mem_mgr_alloc_and_map A cmd t = (rc, out, t')" using step_alloc by (metis prod.collapse)
  then show ?thesis
    using alloc_cases [OF assms(1), of A cmd rc out t'] quiet took uninit_refuses(3) [of t A cmd] by (cases "mt_state t") auto
next
  case (step_map imp)
  obtain rc out where "cam_mem_mgr_map A imp t = (rc, out, t')" using step_map by (metis prod.collapse)
  then show ?thesis
    using map_cases [OF assms(1), of A imp rc out t'] quiet took uninit_refuses(4) [of t A imp] by (cases "mt_state t") auto
next
  case (step_release h)
  obtain rc where "cam_mem_mgr_release A h t = (rc, t')" using step_release by (metis prod.collapse)
  then show ?thesis
    using release_cases [OF assms(1), of A h rc t'] quiet gave uninit_refuses(5) [of t A h] by (cases "mt_state t") auto
next
  case (step_request inp)
  obtain rc inp' out where "cam_mem_mgr_request_mem A inp t = (rc, inp', out, t')" using step_request by (metis prod.collapse)
  then show ?thesis
    using request_cases [OF assms(1), of A inp rc inp' out t'] quiet took uninit_refuses(6) [of t A inp]
    by (cases "mt_state t") auto
next
  case (step_release_mem d)
  obtain rc where "cam_mem_mgr_release_mem A d t = (rc, t')" using step_release_mem by (metis prod.collapse)
  then show ?thesis
    using release_mem_cases [OF assms(1), of A d rc t'] quiet gave uninit_refuses(7) [of t A d] by (cases "mt_state t") auto
next
  case (step_reserve inp region)
  obtain rc out where "cam_mem_mgr_reserve_memory_region A inp region t = (rc, out, t')"
    using step_reserve by (metis prod.collapse)
  then show ?thesis
    using reserve_cases [OF assms(1), of A inp region rc out t'] quiet took uninit_refuses(8) [of t A inp region]
    by (cases "mt_state t") auto
next
  case (step_free d)
  obtain rc where "cam_mem_mgr_free_memory_region A d t = (rc, t')" using step_free by (metis prod.collapse)
  then show ?thesis
    using free_region_cases [OF assms(1), of A d rc t'] quiet gave only_core_quiet uninit_refuses(9) [of t A d]
    by (cases "mt_state t") auto
next
  case (step_environment x) then show ?thesis using quiet by simp
qed

lemma step_wf [cam_inv]:
  assumes "mem_wf t" "mem_step A t t'"
  shows "mem_wf t'"
  using assms
proof (cases rule: step_cases)
  case start
  then show ?thesis using init_wf [OF assms(1)] by (metis prod.collapse)
qed (use assms(1) in \<open>auto intro: quiet_wf took_wf gave_wf deinit_wf\<close>)

lemma reach_wf [cam_inv]: "mem_reach A t \<Longrightarrow> mem_wf t"
proof (induction rule: mem_reach.induct)
  case (reach_start t)
  then show ?case by (simp add: mem_wf_def)
qed (rule step_wf)

subsection \<open>Live handles\<close>

lemma live_quiet: "quiet t t' \<Longrightarrow> live_handle t' h \<longleftrightarrow> live_handle t h"
  by (auto simp: quiet_def live_handle_def Let_def)

lemma live_took:
  assumes "mem_wf t" "mt_state t" "took i t t'"
  shows "live_handle t' h \<longleftrightarrow> live_handle t h \<or> h = bq_buf_handle (mt_bufq t' i)"
proof -
  have idle: "\<not> bq_active (mt_bufq t i)" using assms wf_entry [OF assms(1,2), of i] by (auto simp: took_def)
  have i: "1 \<le> i" "i < CAM_MEM_BUFQ_MAX" "bq_active (mt_bufq t' i)"
    "CAM_MEM_MGR_GET_HDL_IDX (bq_buf_handle (mt_bufq t' i)) = i"
    using assms(3) by (simp_all add: took_def entry_ok_def)
  show ?thesis
  proof (cases "CAM_MEM_MGR_GET_HDL_IDX h = i")
    case True
    with idle i show ?thesis by (auto simp: live_handle_def)
  next
    case False
    then have "mt_bufq t' (CAM_MEM_MGR_GET_HDL_IDX h) = mt_bufq t (CAM_MEM_MGR_GET_HDL_IDX h)"
      using assms(3) by (simp add: took_def)
    with False i show ?thesis by (auto simp: live_handle_def)
  qed
qed

lemma took_fresh:
  assumes "mem_wf t" "mt_state t" "took i t t'"
  shows "\<not> live_handle t (bq_buf_handle (mt_bufq t' i)) \<and> live_handle t' (bq_buf_handle (mt_bufq t' i)) \<and>
         CAM_MEM_MGR_GET_HDL_IDX (bq_buf_handle (mt_bufq t' i)) = i"
  using assms wf_entry [OF assms(1,2), of i]
  by (auto simp: took_def live_handle_def Let_def entry_ok_def)

lemma live_gave:
  "gave i t t' \<Longrightarrow> live_handle t' h \<longleftrightarrow> live_handle t h \<and> CAM_MEM_MGR_GET_HDL_IDX h \<noteq> i"
  by (auto simp: gave_def live_handle_def Let_def)

lemma live_entry:
  assumes "live_handle t h" "quiet t t' \<or> mem_wf t \<and> mt_state t \<and> took i t t' \<or> gave i t t' \<and> CAM_MEM_MGR_GET_HDL_IDX h \<noteq> i"
  shows "mt_bufq t' (CAM_MEM_MGR_GET_HDL_IDX h) = mt_bufq t (CAM_MEM_MGR_GET_HDL_IDX h)"
  using assms wf_entry [of t "CAM_MEM_MGR_GET_HDL_IDX h"]
  by (auto simp: quiet_def gave_def took_def live_handle_def Let_def)

text \<open>The two lookups in terms of live handles.\<close>

lemma get_cpu_buf_live:
  assumes "mt_state t"
  shows "cam_mem_get_cpu_buf h t =
     (let q = mt_bufq t (CAM_MEM_MGR_GET_HDL_IDX h) in
      if live_handle t h \<and> has_flag (bq_flags q) CAM_MEM_FLAG_KMD_ACCESS \<and> bq_kmdvaddr q \<noteq> 0
      then (0, bq_kmdvaddr q, bq_len q)
      else (if h \<noteq> 0 \<and> 1 \<le> CAM_MEM_MGR_GET_HDL_IDX h \<and> CAM_MEM_MGR_GET_HDL_IDX h < CAM_MEM_BUFQ_MAX \<and> \<not> bq_active q
            then - EPERM else - EINVAL, 0, 0))"
proof -
  have "h \<noteq> 0" if "live_handle t h" using that by (auto simp: live_handle_def CAM_MEM_MGR_GET_HDL_IDX_def Let_def)
  with assms show ?thesis by (auto simp: cam_mem_get_cpu_buf_def live_handle_def Let_def)
qed

lemma get_io_buf_live:
  "mt_state t \<Longrightarrow> fst (cam_mem_get_io_buf A h m t) = 0 \<Longrightarrow> live_handle t h"
  by (auto simp: cam_mem_get_io_buf_def live_handle_def Let_def split: if_splits)

end
