(* ===== verification/Cam_Mem_Props.thy ===== *)
theory Cam_Mem_Props
  imports Cam_Mem_Inv
begin

unbundle bit_operations_syntax

section \<open>What the memory manager promises\<close>

text \<open>
  The properties of the buffer table, over an arbitrary framework \<open>A\<close>, and a concrete framework for their
  witnesses: a log of the calls, most recent first, in which every call succeeds except for the kernel
  mapping, whose status is a parameter.
\<close>

subsection \<open>A concrete framework\<close>

datatype mem_event =
    Ev_alloc nat | Ev_get nat | Ev_put nat | Ev_fd nat | Ev_lend nat | Ev_name nat
  | Ev_begin nat | Ev_end nat | Ev_vmap nat | Ev_vunmap nat
  | Ev_map int nat cam_smmu_region_id | Ev_unmap int nat cam_smmu_region_id | Ev_reserve int nat | Ev_unreserve int

definition log_core :: "int \<Rightarrow> int \<Rightarrow> mem_event list mem_core" where
  "log_core vmap_rc bad_mmu = \<lparr>mc_now = length, mc_alloc_bitmap = (\<lambda>_. True),
     mc_heap_find = (\<lambda>name _. if name = ''qcom,system'' then PTR 1 else if name = ''qcom,display'' then PTR 2 else PTR 0),
     mc_heap_alloc = (\<lambda>h len x. (PTR (100 + length x), Ev_alloc (100 + length x) # x)),
     mc_i_ino = (\<lambda>b _. of_nat b), mc_size = (\<lambda>_ _. 4096),
     mc_lend = (\<lambda>b _ x. (0, Ev_lend b # x)), mc_get = (\<lambda>b x. Ev_get b # x), mc_put = (\<lambda>b x. Ev_put b # x),
     mc_fd = (\<lambda>b x. (int (length x), Ev_fd b # x)), mc_get_from_fd = (\<lambda>fd x. (PTR (nat (50 + fd)), x)),
     mc_set_name = (\<lambda>b _ x. Ev_name b # x), mc_get_flags = (\<lambda>_ _. 0),
     mc_begin_cpu_access = (\<lambda>b _ x. (0, Ev_begin b # x)), mc_end_cpu_access = (\<lambda>b _ x. (0, Ev_end b # x)),
     mc_vmap = (\<lambda>b x. (vmap_rc, of_nat (65536 * b), Ev_vmap b # x)), mc_vunmap = (\<lambda>b _ x. Ev_vunmap b # x),
     smmu_force_cached = (\<lambda>_. (0, True)), smmu_padding = (\<lambda>_. False), smmu_expanded = (\<lambda>_. False),
     smmu_shared_region = (\<lambda>_ _. False),
     smmu_map_user = (\<lambda>h fd b _ _ r _ va x.
        if h = bad_mmu then (- EINVAL, va, x) else (0, (of_nat (4096 * b), 4096), Ev_map h b r # x)),
     smmu_map_stage2 = (\<lambda>h fd b _ va x. (0, (of_nat (4096 * b), 4096), Ev_map h b CAM_SMMU_REGION_IO # x)),
     smmu_map_kernel = (\<lambda>h b r va x. (0, (of_nat (4096 * b), 4096), Ev_map h b r # x)),
     smmu_unmap_user = (\<lambda>h fd b r x. (0, Ev_unmap h b r # x)),
     smmu_unmap_stage2 = (\<lambda>h fd b x. (0, Ev_unmap h b CAM_SMMU_REGION_IO # x)),
     smmu_unmap_kernel = (\<lambda>h b r x. (0, Ev_unmap h b r # x)),
     smmu_get_iova = (\<lambda>h fd b _. (0, of_nat (4096 * b), 4096)),
     smmu_get_stage2_iova = (\<lambda>h fd b _. (0, of_nat (4096 * b), 4096)),
     smmu_reserve_buf_region = (\<lambda>r h b va x. (0, (of_nat (4096 * b), 4096), Ev_reserve h b # x)),
     smmu_release_buf_region = (\<lambda>r h x. (0, Ev_unreserve h # x))\<rparr>"

definition boot_table :: "mem_event list cam_mem_table" where
  "boot_table = \<lparr>mt_state = False, mt_bitmap = (\<lambda>_. False), mt_bufq = (\<lambda>_. zero_bufq), mt_dbg_buf_idx = 0,
     mt_force_cache_allocs = False, mt_need_shared_buffer_padding = False, mt_system_heap = 0,
     mt_system_uncached_heap = 0, mt_camera_heap = 0, mt_camera_uncached_heap = 0, mt_secure_display_heap = 0,
     mt_ubwc_p_heap = 0, mt_override_cpu_access_dir = False, mt_core = []\<rparr>"

definition up_table :: "mem_event list cam_mem_table" where
  "up_table = boot_table\<lparr>mt_state := True, mt_bitmap := set_bit_at 0 (\<lambda>_. False), mt_bufq := init_bufq,
     mt_force_cache_allocs := True, mt_system_heap := 1, mt_secure_display_heap := 2\<rparr>"

lemma up_table_init: "cam_mem_mgr_init (log_core e h) boot_table = (0, up_table)"
  by (simp add: cam_mem_mgr_init_def cam_mem_mgr_get_dma_heaps_def boot_table_def up_table_def log_core_def Let_def
      heap_or_null_def IS_ERR_OR_NULL_def ptr_of_def)

lemma up_table_reach: "mem_reach (log_core e h) up_table"
proof -
  have "mem_step (log_core e h) boot_table (snd (cam_mem_mgr_init (log_core e h) boot_table))" by (rule step_init)
  then have "mem_step (log_core e h) boot_table up_table" by (simp add: up_table_init)
  moreover have "mem_reach (log_core e h) boot_table" by (rule reach_start) (simp add: boot_table_def)
  ultimately show ?thesis by (metis reach_step)
qed

text \<open>A kernel-accessible buffer for two SMMU contexts.\<close>

definition demo_cmd :: cam_mem_mgr_alloc_cmd_v2 where
  "demo_cmd = \<lparr>ac_num_hdl = 2, ac_mmu_hdls = [7, 9] @ replicate 14 0, ac_len = 4096, ac_buf_name = ''buf'',
     ac_flags = 0x9\<rparr>"

lemma zero_bit_2048: "\<not> bm (1 :: int) \<Longrightarrow> bm 0 \<Longrightarrow> find_first_zero_bit bm 2048 = 1"
  by (rule find_first_zero_bit_unique) (auto simp: le_less)

lemma demo_alloc_flags: "cam_mem_util_check_alloc_flags demo_cmd = 0"
  by (simp add: cam_mem_util_check_alloc_flags_def demo_cmd_def has_flag_def Let_def)

definition demo_handle :: u32 where
  "demo_handle = 0x20001"

definition demo_entry :: cam_mem_buf_queue where
  "demo_entry = \<lparr>bq_dma_buf = 100, bq_hdls = [7, 9] @ replicate 14 0, bq_num_hdl = 2, bq_fd = 2, bq_i_ino = 100,
     bq_buf_handle = demo_handle, bq_len = 4096, bq_flags = 0x9, bq_vaddr = 409600, bq_kmdvaddr = 6553600,
     bq_active = True, bq_is_imported = False, bq_is_internal = True, bq_timestamp = 3\<rparr>"

definition demo_table :: "mem_event list cam_mem_table" where
  "demo_table = up_table\<lparr>mt_bitmap := (mt_bitmap up_table)(1 := True), mt_bufq := (mt_bufq up_table)(1 := demo_entry),
     mt_core := [Ev_vmap 100, Ev_begin 100, Ev_map 9 100 CAM_SMMU_REGION_IO, Ev_map 7 100 CAM_SMMU_REGION_IO,
                 Ev_name 100, Ev_fd 100, Ev_get 100, Ev_alloc 100]\<rparr>"

lemma demo_buffer_alloc:
  "cam_mem_util_buffer_alloc (log_core e h) 4096 0x9 up_table =
     (0, 100, 2, 100, up_table\<lparr>mt_core := [Ev_fd 100, Ev_get 100, Ev_alloc 100]\<rparr>)"
  by (simp add: cam_mem_util_buffer_alloc_def cam_mem_util_get_dma_buf_def select_heap_def has_flag_def up_table_def
      boot_table_def Let_def log_core_def heap_alloc_buf_def IS_ERR_def IS_ERR_OR_NULL_def ptr_of_def)

lemma demo_table_sel:
  "mt_state demo_table" "mt_bufq demo_table 1 = demo_entry" "mt_bitmap demo_table = (\<lambda>i. i = 0 \<or> i = 1)"
  by (simp_all add: demo_table_def up_table_def boot_table_def fun_eq_iff)

lemma demo_slot:
  "cam_mem_get_slot A (up_table\<lparr>mt_core := x\<rparr>) =
     (1, upd_bufq 1 (\<lambda>q. q\<lparr>bq_active := True, bq_timestamp := mc_now A x\<rparr>)
           (up_table\<lparr>mt_core := x, mt_bitmap := set_bit_at 1 (mt_bitmap up_table)\<rparr>))"
proof -
  have "find_first_zero_bit (mt_bitmap up_table) CAM_MEM_BUFQ_MAX = 1"
    by (rule zero_bit_2048) (simp_all add: up_table_def)
  then show ?thesis by (simp add: cam_mem_get_slot_def)
qed

lemma demo_map_hw:
  "alloc_map_hw (log_core e 0) demo_cmd 2 100 4096 x =
     (0, (409600, 4096), Ev_map 9 100 CAM_SMMU_REGION_IO # Ev_map 7 100 CAM_SMMU_REGION_IO # x)"
  by (simp add: alloc_map_hw_def demo_cmd_def has_flag_def cam_mem_util_map_hw_va_def cam_mem_util_get_dma_dir_def
      alloc_region_def log_core_def)

lemma demo_alloc:
  "cam_mem_mgr_alloc_and_map (log_core 0 0) demo_cmd up_table =
     (0, Some \<lparr>ao_buf_handle = demo_handle, ao_fd = 2, ao_vaddr = 0\<rparr>, demo_table)"
proof -
  have pad: "mt_need_shared_buffer_padding up_table = False" "mt_state up_table"
    by (simp_all add: up_table_def boot_table_def)
  have cmd: "ac_len demo_cmd = 4096" "ac_flags demo_cmd = 0x9" "ac_num_hdl demo_cmd = 2"
    "ac_mmu_hdls demo_cmd = [7, 9] @ replicate 14 0" by (simp_all add: demo_cmd_def)
  have log: "mc_now (log_core 0 0) = length" "mc_set_name (log_core 0 0) = (\<lambda>b _ x. Ev_name b # x)"
    "mc_begin_cpu_access (log_core 0 0) = (\<lambda>b _ x. (0, Ev_begin b # x))"
    "mc_vmap (log_core 0 0) = (\<lambda>b x. (0, of_nat (65536 * b), Ev_vmap b # x))"
    "mc_size (log_core 0 0) = (\<lambda>_ _. 4096)" by (simp_all add: log_core_def)
  have hdl: "mem_handle_for 1 2 0x9 = demo_handle"
    by (simp add: mem_handle_for_def has_flag_def GET_MEM_HANDLE_def demo_handle_def)
  show ?thesis
    apply (simp add: cam_mem_mgr_alloc_and_map_def demo_alloc_flags pad cmd demo_buffer_alloc demo_slot log demo_map_hw)
    apply (simp add: alloc_fill_entry_def cmd has_flag_def cam_mem_util_map_cpu_va_def log Let_def hdl)
    by (rule cam_mem_table.equality)
      (simp_all add: demo_table_def up_table_def boot_table_def upd_bufq_def demo_entry_def init_bufq_def zero_bufq_def
        copy_hdls_def set_bit_at_def fun_eq_iff numeral_eq_Suc)
qed

lemma demo_reach: "mem_reach (log_core 0 0) demo_table"
proof -
  have "mem_step (log_core 0 0) up_table (snd (snd (cam_mem_mgr_alloc_and_map (log_core 0 0) demo_cmd up_table)))"
    by (rule step_alloc)
  then show ?thesis using up_table_reach [of 0 0] by (auto simp: demo_alloc intro: reach_step)
qed

lemma demo_live: "live_handle demo_table demo_handle"
  by (simp add: live_handle_def Let_def CAM_MEM_MGR_GET_HDL_IDX_def demo_handle_def demo_table_sel demo_entry_def)

subsection \<open>The table\<close>

text \<open>In every run, whatever the framework and the SMMU driver answer, the bitmap marks exactly the active
  entries, every active entry holds a buffer and a handle that leads back to it, an idle entry holds neither
  a buffer nor an IO address, and a handle carries the protected bit only for a protected buffer without
  kernel access.\<close>

theorem mem_table_invariant:
  assumes "mem_reach A t"
  shows "mem_wf t"
  using assms by (rule reach_wf)

theorem mem_table_invariant_witness: "mem_wf demo_table \<and> mt_state demo_table"
  using mem_table_invariant [OF demo_reach] by (simp add: demo_table_sel)


text \<open>C32: A successful allocation returns status 0 and a handle that was not live before and is live now. The
  handle gives back its entry, whether the buffer is protected, and the file descriptor if that fits in 15
  bits. Every other handle keeps its meaning: the live handles are the old ones and the new one, with the
  old entries.\<close>

theorem alloc_fresh_handle:
  assumes reach: "mem_reach A t" and run: "cam_mem_mgr_alloc_and_map A cmd t = (rc, Some res, t')"
  shows "rc = 0 \<and> \<not> live_handle t (ao_buf_handle res) \<and>
     (\<forall>h. live_handle t' h = (live_handle t h \<or> h = ao_buf_handle res)) \<and>
     cam_mem_is_secure_buf (ao_buf_handle res) = has_flag (ac_flags cmd) CAM_MEM_FLAG_PROTECTED_MODE \<and>
     (GET_FD_FROM_HANDLE (ao_buf_handle res) = ao_fd res \<or> 2 ^ 15 \<le> ao_fd res) \<and>
     bq_flags (mt_bufq t' (CAM_MEM_MGR_GET_HDL_IDX (ao_buf_handle res))) = ac_flags cmd \<and>
     (\<forall>h. live_handle t h \<longrightarrow> mt_bufq t' (CAM_MEM_MGR_GET_HDL_IDX h) = mt_bufq t (CAM_MEM_MGR_GET_HDL_IDX h))"
proof -
  note wf = reach_wf [OF reach]
  have st: "mt_state t" using run uninit_refuses(3) [of t A cmd] by (cases "mt_state t") auto
  from alloc_cases [OF wf st run] obtain idx fd where c:
    "rc = 0" "0 \<le> fd" "took idx t t'"
    "res = \<lparr>ao_buf_handle = mem_handle_for idx fd (ac_flags cmd), ao_fd = fd, ao_vaddr = 0\<rparr>"
    "bq_buf_handle (mt_bufq t' idx) = mem_handle_for idx fd (ac_flags cmd)"
    "bq_flags (mt_bufq t' idx) = ac_flags cmd"
    by auto
  have "GET_FD_FROM_HANDLE (mem_handle_for idx fd (ac_flags cmd)) = fd" if "fd < 2 ^ 15"
    using c(2) that by (intro mem_handle_for_fd) auto
  then have "GET_FD_FROM_HANDLE (ao_buf_handle res) = ao_fd res \<or> 2 ^ 15 \<le> ao_fd res" using c(4) by force
  moreover have "mt_bufq t' (CAM_MEM_MGR_GET_HDL_IDX h) = mt_bufq t (CAM_MEM_MGR_GET_HDL_IDX h)" if "live_handle t h" for h
    using live_entry [OF that] wf st c(3) by blast
  ultimately show ?thesis
    using c took_fresh [OF wf st c(3)] live_took [OF wf st c(3)] by (simp add: cam_mem_is_secure_buf_def)
qed
theorem alloc_fresh_handle_witness:
  "\<not> live_handle up_table demo_handle \<and> live_handle demo_table demo_handle \<and> GET_FD_FROM_HANDLE demo_handle = 2"
  using alloc_fresh_handle [OF up_table_reach demo_alloc] by simp

text \<open>After a release of a live handle every use of that handle is refused, a second release included,
  and every other handle keeps its meaning. A release of a handle that is not live changes nothing.\<close>

theorem release_invalidates:
  assumes reach: "mem_reach A t" and st: "mt_state t" and run: "cam_mem_mgr_release A h t = (rc, t')"
  shows "if live_handle t h
     then fst (cam_mem_get_cpu_buf h t') = - EPERM \<and> fst (cam_mem_get_io_buf A h mmu t') = - EAGAIN \<and>
          cam_mem_mgr_release A h t' = (- EINVAL, t') \<and> cam_mem_mgr_cache_ops A h c t' = (- EINVAL, t') \<and>
          (\<forall>h'. live_handle t' h' = (live_handle t h' \<and> h' \<noteq> h)) \<and>
          (\<forall>h'. live_handle t' h' \<longrightarrow> cam_mem_get_cpu_buf h' t' = cam_mem_get_cpu_buf h' t)
     else rc = - EINVAL \<and> t' = t"
proof (cases "live_handle t h")
  case True
  note wf = reach_wf [OF reach]
  let ?i = "CAM_MEM_MGR_GET_HDL_IDX h"
  have g: "gave ?i t t'" using release_cases [OF wf st run] True by auto
  then have st': "mt_state t'" and idle: "\<not> bq_active (mt_bufq t' ?i)" "\<not> mt_bitmap t' ?i" "1 \<le> ?i" "?i < CAM_MEM_BUFQ_MAX"
    using st by (auto simp: gave_def)
  have nz: "h \<noteq> 0" using idle(3) by (auto simp: CAM_MEM_MGR_GET_HDL_IDX_def)
  have other: "live_handle t' h' = (live_handle t h' \<and> h' \<noteq> h)" for h'
    using live_gave [OF g, of h'] True by (auto simp: live_handle_def Let_def)
  have same: "cam_mem_get_cpu_buf h' t' = cam_mem_get_cpu_buf h' t" if "live_handle t' h'" for h'
  proof -
    have "mt_bufq t' (CAM_MEM_MGR_GET_HDL_IDX h') = mt_bufq t (CAM_MEM_MGR_GET_HDL_IDX h')"
      using live_entry [of t h' t' ?i] live_gave [OF g, of h'] that g by blast
    then show ?thesis using that other [of h'] by (simp add: get_cpu_buf_live st st' Let_def)
  qed
  have "fst (cam_mem_get_cpu_buf h t') = - EPERM" "fst (cam_mem_get_io_buf A h mmu t') = - EAGAIN"
    "cam_mem_mgr_release A h t' = (- EINVAL, t')" "cam_mem_mgr_cache_ops A h c t' = (- EINVAL, t')"
    using idle st' nz
    by (simp_all add: cam_mem_get_cpu_buf_def cam_mem_get_io_buf_def cam_mem_mgr_release_def cam_mem_mgr_cache_ops_def Let_def)
  with other same True show ?thesis by simp
next
  case False
  then show ?thesis using release_cases [OF reach_wf [OF reach] st run] by auto
qed

theorem release_invalidates_witness:
  "let t' = snd (cam_mem_mgr_release (log_core 0 0) demo_handle demo_table) in
   live_handle demo_table demo_handle \<and> fst (cam_mem_get_cpu_buf demo_handle t') = - EPERM \<and>
   cam_mem_mgr_release (log_core 0 0) demo_handle t' = (- EINVAL, t')"
  using release_invalidates [OF demo_reach demo_table_sel(1), of demo_handle _ _ 0 0] demo_live
  by (metis prod.collapse)

subsection \<open>Many buffers\<close>

text \<open>The buffer table as a slot table: a request is an allocation command, a release gives the entry back.\<close>

definition take_buffer :: "'x mem_core \<Rightarrow> cam_mem_mgr_alloc_cmd_v2 \<Rightarrow> 'x cam_mem_table \<Rightarrow> int option \<times> 'x cam_mem_table" where
  "take_buffer A cmd t =
     (let (rc, out, t') = cam_mem_mgr_alloc_and_map A cmd t
      in (map_option (\<lambda>r. CAM_MEM_MGR_GET_HDL_IDX (ao_buf_handle r)) out, t'))"

definition mem_up :: "'x cam_mem_table \<Rightarrow> bool" where
  "mem_up t \<longleftrightarrow> mem_wf t \<and> mt_state t"

definition entry_used :: "'x cam_mem_table \<Rightarrow> int \<Rightarrow> bool" where
  "entry_used t i \<longleftrightarrow> 1 \<le> i \<and> i < CAM_MEM_BUFQ_MAX \<and> bq_active (mt_bufq t i)"

lemma entry_used_quiet: "quiet t t' \<Longrightarrow> entry_used t' = entry_used t"
  by (auto simp: quiet_def entry_used_def fun_eq_iff)

lemma entry_used_took:
  assumes "mem_wf t" "mt_state t" "took i t t'"
  shows "1 \<le> i \<and> i < CAM_MEM_BUFQ_MAX \<and> \<not> entry_used t i \<and> entry_used t' = (entry_used t)(i := True)"
  using assms wf_entry [OF assms(1,2), of i] by (auto simp: took_def entry_used_def fun_eq_iff)

lemma entry_used_gave: "gave i t t' \<Longrightarrow> entry_used t' = (entry_used t)(i := False)"
  by (auto simp: gave_def entry_used_def fun_eq_iff)

lemma take_buffer_cases:
  assumes "mem_up t" "take_buffer A cmd t = (r, t')"
  shows "mem_up t' \<and> (case r of None \<Rightarrow> entry_used t' = entry_used t
     | Some i \<Rightarrow> 1 \<le> i \<and> i < CAM_MEM_BUFQ_MAX \<and> \<not> entry_used t i \<and> entry_used t' = (entry_used t)(i := True))"
proof -
  obtain rc out where run: "cam_mem_mgr_alloc_and_map A cmd t = (rc, out, t')" and
    r: "r = map_option (\<lambda>r. CAM_MEM_MGR_GET_HDL_IDX (ao_buf_handle r)) out"
    using assms(2) by (auto simp: take_buffer_def split: prod.splits)
  have wf: "mem_wf t" "mt_state t" using assms(1) by (simp_all add: mem_up_def)
  from alloc_cases [OF wf run] show ?thesis
  proof (elim disjE exE conjE)
    assume "out = None" "quiet t t'"
    then show ?thesis
      using wf quiet_wf entry_used_quiet [of t t'] r by (auto simp: mem_up_def quiet_def)
  next
    fix idx fd
    assume t: "took idx t t'" and o1: "out = Some \<lparr>ao_buf_handle = mem_handle_for idx fd (ac_flags cmd), ao_fd = fd, ao_vaddr = 0\<rparr>"
      and h: "bq_buf_handle (mt_bufq t' idx) = mem_handle_for idx fd (ac_flags cmd)"
    show ?thesis
      using took_fresh [OF wf t] entry_used_took [OF wf t] took_wf [OF wf(1) t] t wf r
      by (auto simp: o1 h mem_up_def took_def)
  qed
qed

lemma unmap_cases:
  assumes "mem_up t" "cam_mem_util_unmap A i client t = (rc, t')"
  shows "mem_up t' \<and> entry_used t' = (entry_used t)(i := False)"
proof (cases "entry_used t i")
  case True
  have wf: "mem_wf t" "mt_state t" using assms(1) by (simp_all add: mem_up_def)
  have g: "gave i t t'"
    using True wf_entry [OF wf, of i] unmap_gave [of i t A client rc t'] assms(2) by (simp add: entry_used_def)
  then show ?thesis using wf gave_wf [OF wf(1) g] entry_used_gave [OF g] by (simp add: mem_up_def gave_def)
next
  case False
  have "t' = t"
    using assms False wf_entry [of t i]
    by (auto simp: cam_mem_util_unmap_def entry_used_def mem_up_def entry_ok_def split: if_splits)
  with False assms(1) show ?thesis by (simp add: fun_eq_iff)
qed

interpretation buffers: slot_table mem_up entry_used 1 CAM_MEM_BUFQ_MAX "take_buffer A"
    "\<lambda>i t. snd (cam_mem_util_unmap A i CAM_SMMU_MAPPING_USER t)" for A
proof
  show "mem_up t \<Longrightarrow> entry_used t i \<Longrightarrow> 1 \<le> i \<and> i < CAM_MEM_BUFQ_MAX" for t i by (simp add: entry_used_def)
  show "mem_up (snd (take_buffer A a t))" if "mem_up t" for a t
    using take_buffer_cases [OF that, of A a] by (metis prod.collapse)
  show "1 \<le> i \<and> i < CAM_MEM_BUFQ_MAX \<and> \<not> entry_used t i \<and> entry_used t' = (entry_used t)(i := True)"
    if "mem_up t" "take_buffer A a t = (Some i, t')" for a t i t' using take_buffer_cases [OF that] by simp
  show "entry_used t' = entry_used t" if "mem_up t" "take_buffer A a t = (None, t')" for a t t'
    using take_buffer_cases [OF that] by simp
  show "mem_up (snd (cam_mem_util_unmap A i CAM_SMMU_MAPPING_USER t))" if "mem_up t" for i t
    using unmap_cases [OF that] by (metis prod.collapse)
  show "entry_used (snd (cam_mem_util_unmap A i CAM_SMMU_MAPPING_USER t)) = (entry_used t)(i := False)" if "mem_up t" for i t
    using unmap_cases [OF that] by (metis prod.collapse)
qed

fun alloc_buffers ::
  "'x mem_core \<Rightarrow> cam_mem_mgr_alloc_cmd_v2 list \<Rightarrow> 'x cam_mem_table \<Rightarrow> u32 list \<times> 'x cam_mem_table" where
  "alloc_buffers A [] t = ([], t)"
| "alloc_buffers A (cmd # cmds) t =
     (let (rc, out, t1) = cam_mem_mgr_alloc_and_map A cmd t; (hs, t2) = alloc_buffers A cmds t1
      in ((case out of None \<Rightarrow> hs | Some r \<Rightarrow> ao_buf_handle r # hs), t2))"

lemma alloc_buffers_take_many:
  "alloc_buffers A cmds t = (hs, t') \<Longrightarrow> \<exists>rs. buffers.take_many A cmds t = (rs, t') \<and>
     map the (filter (\<lambda>r. r \<noteq> None) rs) = map CAM_MEM_MGR_GET_HDL_IDX hs"
proof (induction cmds arbitrary: t hs)
  case (Cons cmd cmds)
  obtain rc out t1 where a: "cam_mem_mgr_alloc_and_map A cmd t = (rc, out, t1)" by (metis prod_cases3)
  obtain hs1 where b: "alloc_buffers A cmds t1 = (hs1, t')"
    using Cons.prems a by (auto split: prod.splits)
  from Cons.IH [OF b] obtain rs where c: "buffers.take_many A cmds t1 = (rs, t')"
    "map the (filter (\<lambda>r. r \<noteq> None) rs) = map CAM_MEM_MGR_GET_HDL_IDX hs1" by auto
  let ?r = "map_option (\<lambda>r. CAM_MEM_MGR_GET_HDL_IDX (ao_buf_handle r)) out"
  have "take_buffer A cmd t = (?r, t1)" by (simp add: take_buffer_def a)
  then have "buffers.take_many A (cmd # cmds) t = (?r # rs, t')" using c by simp
  moreover have "map the (filter (\<lambda>r. r \<noteq> None) (?r # rs)) = map CAM_MEM_MGR_GET_HDL_IDX hs"
    using Cons.prems a b c by (cases out) auto
  ultimately show ?case by blast
qed simp

text \<open>However many buffers are allocated, the entries behind the handles that are returned are pairwise
  different and were free before, so no two live buffers share a handle; and never more than 2047 buffers
  are live.\<close>

theorem allocations_distinct:
  assumes "mem_reach A t" "mt_state t" "alloc_buffers A cmds t = (hs, t')"
  shows "distinct (map CAM_MEM_MGR_GET_HDL_IDX hs) \<and>
     {i. entry_used t' i} = {i. entry_used t i} \<union> CAM_MEM_MGR_GET_HDL_IDX ` set hs \<and>
     {i. entry_used t i} \<inter> CAM_MEM_MGR_GET_HDL_IDX ` set hs = {} \<and> card {i. entry_used t' i} \<le> 2047"
proof -
  have up: "mem_up t" using assms reach_wf by (simp add: mem_up_def)
  obtain rs where rs: "buffers.take_many A cmds t = (rs, t')"
    "map the (filter (\<lambda>r. r \<noteq> None) rs) = map CAM_MEM_MGR_GET_HDL_IDX hs"
    using alloc_buffers_take_many [OF assms(3)] by auto
  note fresh = buffers.take_many_fresh [OF up rs(1), unfolded rs(2) buffers.slots_def]
  then have "int (card {i. entry_used t' i}) \<le> 2047" using buffers.slots_card [of t'] by (simp add: buffers.slots_def)
  with fresh show ?thesis by auto
qed

theorem allocations_distinct_witness:
  "alloc_buffers (log_core 0 0) [demo_cmd] up_table = ([demo_handle], demo_table) \<and>
   {i. entry_used demo_table i} = {i. entry_used up_table i} \<union> {1} \<and> card {i. entry_used demo_table i} \<le> 2047"
proof -
  have run: "alloc_buffers (log_core 0 0) [demo_cmd] up_table = ([demo_handle], demo_table)" by (simp add: demo_alloc)
  have "mt_state up_table" by (simp add: up_table_def)
  note r = allocations_distinct [OF up_table_reach this run]
  have "CAM_MEM_MGR_GET_HDL_IDX demo_handle = 1" by (simp add: CAM_MEM_MGR_GET_HDL_IDX_def demo_handle_def)
  with r run show ?thesis by (metis image_empty image_insert list.simps(15) set_empty)
qed

end
