(* ===== verification/Cam_Mem_Maps.thy ===== *)
theory Cam_Mem_Maps
  imports Cam_Mem_Props
begin

unbundle bit_operations_syntax

section \<open>Mappings, kernel buffers and start-up of the memory manager\<close>

text \<open>
  What the operations do to the hardware mappings that the SMMU driver keeps. The driver counts, for each
  context and buffer, how often the buffer is mapped there; \<open>ledger\<close> states that of a framework: a
  successful map call adds one to the count of its context and buffer, an unmap call takes one away, and
  nothing else touches the counts.
\<close>

subsection \<open>Counting mappings\<close>















subsection \<open>Buffers of the kernel drivers\<close>

lemma kernel_handle: "0 \<le> idx \<Longrightarrow> idx < 2 ^ 15 \<Longrightarrow> GET_MEM_HANDLE idx (- 1) = 0xFFFF0000 OR word_of_int idx"
proof -
  assume idx: "0 \<le> idx" "idx < 2 ^ 15"
  have small: "n < 15" if "bit idx n" for n
    using that take_bit_int_eq_self [OF idx] by (metis bit_take_bit_iff)
  have "(0xFFFF0000 :: u32) = push_bit 16 (- 1)"
    by (simp add: mask_eq_exp_minus_1 not_eq_complement)
  then have "bit (0xFFFF0000 :: u32) n \<longleftrightarrow> 16 \<le> n \<and> n < 32" for n
    by (simp only: bit_push_bit_iff bit_minus_1_iff) auto
  then show ?thesis
    by (intro bit_eqI) (auto simp: handle_bit bit_or_iff bit_word_of_int_iff dest: small)
qed

text \<open>A buffer that a driver requests for itself gets a handle that depends only on the index of its entry,
  \<open>0xFFFF0000\<close> with the index, and the release operation of user space accepts it: released by that handle the
  buffer of the driver is gone, together with its kernel mapping.\<close>

theorem user_can_release_kernel_buffer:
  assumes "mem_reach A t" "mt_state t" "cam_mem_mgr_request_mem A inp t = (rc, inp', Some d, t')"
  shows "md_mem_handle d = 0xFFFF0000 OR word_of_int (CAM_MEM_MGR_GET_HDL_IDX (md_mem_handle d)) \<and>
     live_handle t' (md_mem_handle d) \<and>
     \<not> live_handle (snd (cam_mem_mgr_release A (md_mem_handle d) t')) (md_mem_handle d) \<and>
     bq_dma_buf (mt_bufq (snd (cam_mem_mgr_release A (md_mem_handle d) t')) (CAM_MEM_MGR_GET_HDL_IDX (md_mem_handle d))) = 0"
proof -
  note wf = reach_wf [OF assms(1)]
  from request_cases [OF wf assms(2,3)] obtain idx where c: "took idx t t'" "md_mem_handle d = GET_MEM_HANDLE idx (- 1)"
    "bq_buf_handle (mt_bufq t' idx) = GET_MEM_HANDLE idx (- 1)" by auto
  have range: "0 \<le> idx" "idx < 2 ^ 15" using c(1) by (auto simp: took_def)
  note fresh = took_fresh [OF wf assms(2) c(1)]
  have st': "mt_state t'" using c(1) assms(2) by (simp add: took_def)
  obtain rc2 t2 where rel: "cam_mem_mgr_release A (md_mem_handle d) t' = (rc2, t2)" by fastforce
  have "gave idx t' t2"
    using release_cases [OF took_wf [OF wf c(1)] st' rel] fresh c(2,3) by auto
  then have "\<not> live_handle t2 (md_mem_handle d)" "bq_dma_buf (mt_bufq t2 idx) = 0"
    using fresh c(2,3) live_gave [of idx t' t2] by (auto simp: gave_def entry_ok_def)
  then show ?thesis
    using fresh c(2,3) rel kernel_handle [OF range] by (simp add: GET_MEM_HANDLE_idx [OF range])
qed

subsection \<open>Start-up without heaps\<close>

lemma no_heap_get_dma_buf:
  assumes "mt_system_heap t = 0" "mt_camera_heap t = 0" "mt_secure_display_heap t = 0" "mt_ubwc_p_heap t = 0"
  shows "fst (cam_mem_util_get_dma_buf A len flags t) = - EINVAL"
  using assms by (auto simp: cam_mem_util_get_dma_buf_def select_heap_def Let_def)

text \<open>A missing system heap is not noticed: when the lookup of the heap answers NULL, start-up takes
  \<open>PTR_ERR(NULL)\<close>, which is 0, for its status and reports success with no heap at all; every allocation is
  refused from then on.\<close>

theorem init_accepts_missing_heap:
  assumes "\<not> mt_state t" "fst (smmu_force_cached A (mt_core t)) = 0" "mc_alloc_bitmap A (mt_core t)"
    and "mc_heap_find A ''qcom,system'' (mt_core t) = PTR 0"
  shows "fst (cam_mem_mgr_init A t) = 0 \<and> mt_state (snd (cam_mem_mgr_init A t)) \<and>
     fst (cam_mem_mgr_alloc_and_map A cmd (snd (cam_mem_mgr_init A t))) = - EINVAL"
proof -
  obtain force where f: "smmu_force_cached A (mt_core t) = (0, force)" using assms(2) by (metis prod.collapse)
  define t' where "t' = snd (cam_mem_mgr_init A t)"
  have r: "fst (cam_mem_mgr_init A t) = 0" "mt_state t'" "mt_system_heap t' = 0" "mt_camera_heap t' = 0"
    "mt_secure_display_heap t' = 0" "mt_ubwc_p_heap t' = 0"
    using assms f unfolding t'_def
    by (simp_all add: cam_mem_mgr_init_def cam_mem_mgr_get_dma_heaps_def IS_ERR_OR_NULL_def PTR_ERR_def Let_def)
  have "cam_mem_util_check_alloc_flags cmd = 0 \<or> cam_mem_util_check_alloc_flags cmd = - EINVAL"
    by (simp add: cam_mem_util_check_alloc_flags_def Let_def)
  moreover have "fst (cam_mem_util_buffer_alloc A len flags t') = - EINVAL" for len flags
    using no_heap_get_dma_buf [OF r(3-6), of A len flags]
    by (auto simp: cam_mem_util_buffer_alloc_def split: prod.splits)
  ultimately have "fst (cam_mem_mgr_alloc_and_map A cmd t') = - EINVAL"
    using r(2) by (auto simp: cam_mem_mgr_alloc_and_map_def Let_def case_prod_unfold)
  with r(1,2) show ?thesis by (simp add: t'_def)
qed

theorem user_can_release_kernel_buffer_witness:
  "let inp = \<lparr>rd_size = 4096, rd_smmu_hdl = 5, rd_flags = 1\<rparr>;
       (rc, inp', out, t') = cam_mem_mgr_request_mem (log_core 0 0) inp up_table in
   rc = 0 \<and> map_option md_mem_handle out = Some 0xFFFF0001 \<and>
   \<not> live_handle (snd (cam_mem_mgr_release (log_core 0 0) 0xFFFF0001 t')) 0xFFFF0001"
proof -
  let ?inp = "\<lparr>rd_size = 4096, rd_smmu_hdl = 5, rd_flags = 1\<rparr>"
  have get: "cam_mem_util_get_dma_buf (log_core 0 0) 4096 1 up_table = (0, 100, 100, up_table\<lparr>mt_core := [Ev_alloc 100]\<rparr>)"
    by (simp add: cam_mem_util_get_dma_buf_def select_heap_def has_flag_def up_table_def boot_table_def Let_def
        log_core_def heap_alloc_buf_def IS_ERR_def IS_ERR_OR_NULL_def ptr_of_def)
  have kmap: "cam_mem_util_map_cpu_va (log_core 0 0) 100 x = (0, 6553600, 4096, Ev_vmap 100 # Ev_begin 100 # x)" for x
    by (simp add: cam_mem_util_map_cpu_va_def log_core_def)
  have smmu: "smmu_map_kernel (log_core 0 0) 5 100 r va x = (0, (409600, 4096), Ev_map 5 100 r # x)" for r va x
    by (simp add: log_core_def)
  have hdl: "GET_MEM_HANDLE 1 (- 1) = 0xFFFF0001"
    by (simp add: GET_MEM_HANDLE_def mask_eq_exp_minus_1 not_eq_complement)
  have up: "mt_state up_table" by (simp add: up_table_def)
  obtain rc inp' out t' where run: "cam_mem_mgr_request_mem (log_core 0 0) ?inp up_table = (rc, inp', out, t')"
    by (metis prod_cases4)
  have "rc = 0 \<and> map_option md_mem_handle out = Some 0xFFFF0001"
    using run by (simp add: cam_mem_mgr_request_mem_def up has_flag_def get kmap smmu demo_slot hdl Let_def) auto
  moreover from this obtain d where "out = Some d" "md_mem_handle d = 0xFFFF0001" by auto
  ultimately show ?thesis
    using user_can_release_kernel_buffer [OF up_table_reach up run [unfolded \<open>out = Some d\<close>]] by (simp add: run)
qed

theorem init_accepts_missing_heap_witness:
  "let A = (log_core 0 0)\<lparr>mc_heap_find := (\<lambda>_ _. PTR 0)\<rparr>; t' = snd (cam_mem_mgr_init A boot_table) in
   mt_state t' \<and> fst (cam_mem_mgr_alloc_and_map A demo_cmd t') = - EINVAL"
  using init_accepts_missing_heap [of boot_table "(log_core 0 0)\<lparr>mc_heap_find := (\<lambda>_ _. PTR 0)\<rparr>" demo_cmd]
  by (simp add: boot_table_def log_core_def)

end
