(* ===== verification/Cam_Kmem.thy ===== *)
theory Cam_Kmem
  imports Cam_Prelude "HOL-Library.Monad_Syntax"
begin

unbundle bit_operations_syntax

section \<open>Kernel memory\<close>

text \<open>
  The memory that the packet parsers read and patch: a partial map from addresses to bytes. An access is a
  load or a store of a little-endian 32-bit word, as the drivers run on arm64; it is \<^const>\<open>None\<close> when one of
  its bytes is not mapped. A function that accesses memory is \<^const>\<open>None\<close> as soon as one access is, so that
  ``does not return \<^const>\<open>None\<close>'' says that every access of the function is inside mapped memory. The structures of
  the interface consist of 32-bit fields (and one 64-bit request id), at the offsets the C compiler gives
  them: all of them are naturally aligned.
\<close>

type_synonym kmem = "u64 \<Rightarrow> u8 option"

definition load_u32 :: "kmem \<Rightarrow> u64 \<Rightarrow> u32 option" where
  "load_u32 m a = do {
     b0 \<leftarrow> m a; b1 \<leftarrow> m (a + 1); b2 \<leftarrow> m (a + 2); b3 \<leftarrow> m (a + 3);
     Some (ucast b0 OR push_bit 8 (ucast b1) OR push_bit 16 (ucast b2) OR push_bit 24 (ucast b3)) }"

definition load_u64 :: "kmem \<Rightarrow> u64 \<Rightarrow> u64 option" where
  "load_u64 m a = do { lo \<leftarrow> load_u32 m a; hi \<leftarrow> load_u32 m (a + 4); Some (ucast lo OR push_bit 32 (ucast hi)) }"

definition store_u32 :: "kmem \<Rightarrow> u64 \<Rightarrow> u32 \<Rightarrow> kmem option" where
  "store_u32 m a v =
     (if m a \<noteq> None \<and> m (a + 1) \<noteq> None \<and> m (a + 2) \<noteq> None \<and> m (a + 3) \<noteq> None
      then Some (m(a \<mapsto> ucast v, a + 1 \<mapsto> ucast (drop_bit 8 v), a + 2 \<mapsto> ucast (drop_bit 16 v),
                   a + 3 \<mapsto> ucast (drop_bit 24 v)))
      else None)"

subsection \<open>Mapped ranges\<close>

text \<open>The \<open>n\<close> bytes from \<open>a\<close> on are mapped.\<close>

definition mapped :: "kmem \<Rightarrow> u64 \<Rightarrow> nat \<Rightarrow> bool" where
  "mapped m a n \<longleftrightarrow> (\<forall>k<n. m (a + of_nat k) \<noteq> None)"

text \<open>The four bytes of a word at \<open>b\<close> are none of the \<open>n\<close> bytes from \<open>a\<close> on.\<close>

definition outside :: "u64 \<Rightarrow> u64 \<Rightarrow> nat \<Rightarrow> bool" where
  "outside b a n \<longleftrightarrow> (\<forall>j<4. \<forall>k<n. b + of_nat j \<noteq> a + of_nat k)"

lemma mapped_mono: "mapped m a n \<Longrightarrow> k \<le> n \<Longrightarrow> mapped m a k"
  by (simp add: mapped_def)

lemma mapped_shift: "mapped m a n \<Longrightarrow> k + l \<le> n \<Longrightarrow> mapped m (a + of_nat k) l"
  by (auto simp: mapped_def add.assoc simp flip: of_nat_add)

lemma mapped_four:
  "mapped m a 4 \<longleftrightarrow> m a \<noteq> None \<and> m (a + 1) \<noteq> None \<and> m (a + 2) \<noteq> None \<and> m (a + 3) \<noteq> None"
  by (auto simp: mapped_def numeral_eq_Suc less_Suc_eq)

lemma load_u32_mapped: "load_u32 m a \<noteq> None \<longleftrightarrow> mapped m a 4"
  unfolding mapped_four by (auto simp: load_u32_def bind_eq_None_conv)

lemma store_u32_mapped: "store_u32 m a v \<noteq> None \<longleftrightarrow> mapped m a 4"
  by (auto simp: store_u32_def mapped_four)

lemma load_field: "mapped m a n \<Longrightarrow> k + 4 \<le> n \<Longrightarrow> load_u32 m (a + of_nat k) \<noteq> None"
  unfolding load_u32_mapped by (rule mapped_shift)

lemma load_fieldE:
  assumes "mapped m a n" "k + 4 \<le> n"
  obtains v where "load_u32 m (a + of_nat k) = Some v"
  using load_field [OF assms] by auto

lemma store_u32_dom: "store_u32 m a v = Some m' \<Longrightarrow> m' x = None \<longleftrightarrow> m x = None"
  by (auto simp: store_u32_def split: if_splits)

lemma store_u32_keeps_mapped: "store_u32 m a v = Some m' \<Longrightarrow> mapped m' b n \<longleftrightarrow> mapped m b n"
  by (simp add: mapped_def store_u32_dom)

lemma store_u32_frame:
  "store_u32 m a v = Some m' \<Longrightarrow> x \<noteq> a \<Longrightarrow> x \<noteq> a + 1 \<Longrightarrow> x \<noteq> a + 2 \<Longrightarrow> x \<noteq> a + 3 \<Longrightarrow> m' x = m x"
  by (auto simp: store_u32_def split: if_splits)

lemma store_u32_outside:
  assumes "store_u32 m a v = Some m'" "outside a b n" "k < n"
  shows "m' (b + of_nat k) = m (b + of_nat k)"
proof (rule store_u32_frame [OF assms(1)])
  have o1: "a + of_nat j \<noteq> b + of_nat k" if "j < 4" for j using assms(2,3) that by (auto simp: outside_def)
  show "b + of_nat k \<noteq> a" using o1 [of 0] by auto
  show "b + of_nat k \<noteq> a + 1" using o1 [of 1] by auto
  show "b + of_nat k \<noteq> a + 2" using o1 [of 2] by auto
  show "b + of_nat k \<noteq> a + 3" using o1 [of 3] by auto
qed

text \<open>Two memories that agree on a range.\<close>

definition agree :: "kmem \<Rightarrow> kmem \<Rightarrow> u64 \<Rightarrow> nat \<Rightarrow> bool" where
  "agree m m' a n \<longleftrightarrow> (\<forall>k<n. m' (a + of_nat k) = m (a + of_nat k))"

lemma agree_refl [simp]: "agree m m a n"
  by (simp add: agree_def)

lemma agree_trans: "agree m m1 a n \<Longrightarrow> agree m1 m2 a n \<Longrightarrow> agree m m2 a n"
  by (simp add: agree_def)

lemma agree_store: "store_u32 m a v = Some m' \<Longrightarrow> outside a b n \<Longrightarrow> agree m m' b n"
  by (simp add: agree_def store_u32_outside)

lemma agree_load: "agree m m' a n \<Longrightarrow> k + 4 \<le> n \<Longrightarrow> load_u32 m' (a + of_nat k) = load_u32 m (a + of_nat k)"
proof -
  assume ag: "agree m m' a n" and k: "k + 4 \<le> n"
  have "m' (a + of_nat k + of_nat j) = m (a + of_nat k + of_nat j)" if "j < 4" for j
    using ag k that by (simp add: agree_def add.assoc flip: of_nat_add)
  from this [of 0] this [of 1] this [of 2] this [of 3] show ?thesis by (simp add: load_u32_def)
qed

lemma agree_sub: "agree m m' a n \<Longrightarrow> k + l \<le> n \<Longrightarrow> agree m m' (a + of_nat k) l"
  by (auto simp: agree_def add.assoc simp flip: of_nat_add)

lemma unat_of_nat_small: "n < 2 ^ LENGTH('a) \<Longrightarrow> unat (of_nat n :: 'a::len word) = n"
  by (simp add: unsigned_of_nat take_bit_nat_eq_self)

lemma byte_of_word:
  fixes v :: u32
  assumes "n < 32"
  shows "bit (push_bit s (ucast (ucast (drop_bit s v) :: u8)) :: u32) n \<longleftrightarrow> s \<le> n \<and> n < s + 8 \<and> bit v n"
proof (cases "s \<le> n")
  case True
  then obtain k where n: "n = s + k" using le_Suc_ex by blast
  have "k < 32" using assms n by simp
  then show ?thesis using assms by (auto simp: bit_simps n)
qed (simp add: bit_simps)

lemma bytes_of_word:
  fixes v :: u32
  shows "ucast (ucast v :: u8) OR push_bit 8 (ucast (ucast (drop_bit 8 v) :: u8)) OR
      push_bit 16 (ucast (ucast (drop_bit 16 v) :: u8)) OR push_bit 24 (ucast (ucast (drop_bit 24 v) :: u8)) = v"
proof (rule bit_word_eqI)
  fix n
  assume "n < LENGTH(32)"
  then have n: "n < 32" by simp
  have "bit (ucast (ucast v :: u8) :: u32) n \<longleftrightarrow> n < 8 \<and> bit v n"
    using byte_of_word [OF n, of 0 v] by simp
  then show "bit (ucast (ucast v :: u8) OR push_bit 8 (ucast (ucast (drop_bit 8 v) :: u8)) OR
      push_bit 16 (ucast (ucast (drop_bit 16 v) :: u8)) OR push_bit 24 (ucast (ucast (drop_bit 24 v) :: u8)) :: u32) n = bit v n"
    unfolding bit_or_iff byte_of_word [OF n] using n by auto
qed

lemma load_store_u32:
  assumes "store_u32 m a v = Some m'"
  shows "load_u32 m' a = Some v"
proof -
  have "m' = m(a \<mapsto> ucast v, a + 1 \<mapsto> ucast (drop_bit 8 v), a + 2 \<mapsto> ucast (drop_bit 16 v), a + 3 \<mapsto> ucast (drop_bit 24 v))"
    using assms by (auto simp: store_u32_def split: if_splits)
  then show ?thesis by (simp add: load_u32_def bytes_of_word)
qed

subsection \<open>Memory with given contents\<close>

definition bytes_at :: "u64 \<Rightarrow> u8 list \<Rightarrow> kmem" where
  "bytes_at base bs a = (let k = unat (a - base) in if k < length bs then Some (bs ! k) else None)"

definition le_bytes :: "u32 \<Rightarrow> u8 list" where
  "le_bytes v = [ucast v, ucast (drop_bit 8 v), ucast (drop_bit 16 v), ucast (drop_bit 24 v)]"

text \<open>A buffer at \<open>base\<close> that holds the given 32-bit words; the rest of memory is not mapped.\<close>

definition words_at :: "u64 \<Rightarrow> u32 list \<Rightarrow> kmem" where
  "words_at base ws = bytes_at base (concat (map le_bytes ws))"

lemma length_words: "length (concat (map le_bytes ws)) = 4 * length ws"
  by (induction ws) (simp_all add: le_bytes_def)

lemma nth_words:
  "i < length ws \<Longrightarrow> j < 4 \<Longrightarrow> concat (map le_bytes ws) ! (4 * i + j) = le_bytes (ws ! i) ! j"
proof (induction ws arbitrary: i)
  case (Cons w ws)
  have len: "length (le_bytes w) = 4" by (simp add: le_bytes_def)
  show ?case
  proof (cases i)
    case 0
    then show ?thesis using Cons.prems len by (simp add: nth_append)
  next
    case (Suc i')
    then show ?thesis using Cons.IH [of i'] Cons.prems len by (simp add: nth_append)
  qed
qed simp

lemma byte_in_words:
  assumes "unat (a - base) = 4 * i + j" "j < 4"
  shows "words_at base ws a = (if i < length ws then Some (le_bytes (ws ! i) ! j) else None)"
proof -
  have "4 * i + j < 4 * length ws \<longleftrightarrow> i < length ws" using assms(2) by auto
  then show ?thesis using assms nth_words by (simp add: words_at_def bytes_at_def length_words)
qed

lemma byte_after_words: "4 * length ws \<le> unat (a - base) \<Longrightarrow> words_at base ws a = None"
  by (simp add: words_at_def bytes_at_def length_words)

lemma load_words:
  assumes "unat (a - base) mod 4 = 0" "unat (a - base) div 4 < length ws" "length ws < 2 ^ 60"
  shows "load_u32 (words_at base ws) a = Some (ws ! (unat (a - base) div 4))"
proof -
  define i where "i = unat (a - base) div 4"
  have i: "unat (a - base) = 4 * i" using div_mult_mod_eq [of "unat (a - base)" 4] assms(1) by (simp add: i_def)
  have byte: "words_at base ws (a + of_nat j) = Some (le_bytes (ws ! i) ! j)" if "j < 4" for j
  proof -
    have "unat (of_nat (4 * i + j) :: u64) = 4 * i + j"
      by (rule unat_of_nat_small) (use assms(2,3) i that in simp)
    moreover have "a + of_nat j - base = of_nat (4 * i + j)"
      using arg_cong [OF i, of "of_nat :: nat \<Rightarrow> u64"] by (simp add: algebra_simps)
    ultimately have "unat (a + of_nat j - base) = 4 * i + j" by (simp only:)
    then show ?thesis using byte_in_words [OF _ that] assms(2) by (simp add: i_def)
  qed
  show ?thesis using byte [of 0] byte [of 1] byte [of 2] byte [of 3]
    by (simp add: load_u32_def le_bytes_def bytes_of_word i_def [symmetric])
qed

lemma load_beyond_words: "4 * length ws \<le> unat (a + 3 - base) \<Longrightarrow> load_u32 (words_at base ws) a = None"
  using byte_after_words [of ws "a + 3" base] by (cases "words_at base ws a"; simp add: load_u32_def bind_eq_None_conv)

lemma words_mapped: "4 * length ws < 2 ^ 63 \<Longrightarrow> mapped (words_at base ws) base (4 * length ws)"
  by (auto simp: mapped_def words_at_def bytes_at_def length_words unsigned_of_nat take_bit_nat_eq_self)

end
