(* ===== verification/Cam_Packet.thy ===== *)
theory Cam_Packet
  imports Cam_Mem Cam_Kmem
begin

unbundle bit_operations_syntax

section \<open>Camera packets\<close>

text \<open>
  Model of \<open>camera-kernel/drivers/cam_utils/cam_packet_util.c\<close>. A packet is a structure that user space writes
  into a shared buffer: a header, then a payload with an array of command buffer descriptors, an array of
  IO configurations and an array of patches, each at an offset that the header gives. The functions here
  find a packet, validate it, find the space for commands of the kernel, apply the patches (write the device
  address of one buffer into another), and walk the blobs of a generic command buffer.

  A packet, descriptor or blob is named by its address in kernel memory and read field by field, in the
  order of the code, so that an access outside mapped memory shows as \<^const>\<open>None\<close>. The buffers behind handles
  come from the memory manager (\<open>cam_mem_get_cpu_buf\<close>, \<open>cam_mem_get_io_buf\<close>). Other processors do not write
  to the buffers while a function runs; what a function itself writes, it reads back. A loop whose length
  is read from memory that the loop may change takes fuel, and \<^const>\<open>None\<close> also stands for used-up fuel.
\<close>

subsection \<open>Layout of the interface structures\<close>

text \<open>\<open>struct cam_packet\<close>, \<open>struct cam_cmd_buf_desc\<close>, \<open>struct cam_patch_desc\<close> and \<open>struct cam_buf_io_cfg\<close>.\<close>

abbreviation sizeof_cmd_buf_desc :: u64 where "sizeof_cmd_buf_desc \<equiv> 24"
abbreviation sizeof_patch_desc :: u64 where "sizeof_patch_desc \<equiv> 16"
abbreviation sizeof_buf_io_cfg :: u64 where "sizeof_buf_io_cfg \<equiv> 256"
abbreviation offsetof_payload :: u64 where "offsetof_payload \<equiv> 56"
abbreviation CAM_PACKET_MAX_PLANES :: nat where "CAM_PACKET_MAX_PLANES \<equiv> 3"
abbreviation CAM_BUF_OUTPUT :: u32 where "CAM_BUF_OUTPUT \<equiv> 2"
abbreviation CAM_UNIQUE_SRC_HDL_MAX :: nat where "CAM_UNIQUE_SRC_HDL_MAX \<equiv> 50"
abbreviation CAM_PRESIL_UNIQUE_HDL_MAX :: nat where "CAM_PRESIL_UNIQUE_HDL_MAX \<equiv> 50"

definition pkt_size :: "kmem \<Rightarrow> u64 \<Rightarrow> u32 option" where "pkt_size m p = load_u32 m (p + 4)"
definition pkt_request_id :: "kmem \<Rightarrow> u64 \<Rightarrow> u64 option" where "pkt_request_id m p = load_u64 m (p + 8)"
definition pkt_cmd_buf_offset :: "kmem \<Rightarrow> u64 \<Rightarrow> u32 option" where "pkt_cmd_buf_offset m p = load_u32 m (p + 24)"
definition pkt_num_cmd_buf :: "kmem \<Rightarrow> u64 \<Rightarrow> u32 option" where "pkt_num_cmd_buf m p = load_u32 m (p + 28)"
definition pkt_io_configs_offset :: "kmem \<Rightarrow> u64 \<Rightarrow> u32 option" where "pkt_io_configs_offset m p = load_u32 m (p + 32)"
definition pkt_num_io_configs :: "kmem \<Rightarrow> u64 \<Rightarrow> u32 option" where "pkt_num_io_configs m p = load_u32 m (p + 36)"
definition pkt_patch_offset :: "kmem \<Rightarrow> u64 \<Rightarrow> u32 option" where "pkt_patch_offset m p = load_u32 m (p + 40)"
definition pkt_num_patches :: "kmem \<Rightarrow> u64 \<Rightarrow> u32 option" where "pkt_num_patches m p = load_u32 m (p + 44)"
definition pkt_kmd_cmd_buf_index :: "kmem \<Rightarrow> u64 \<Rightarrow> u32 option" where "pkt_kmd_cmd_buf_index m p = load_u32 m (p + 48)"
definition pkt_kmd_cmd_buf_offset :: "kmem \<Rightarrow> u64 \<Rightarrow> u32 option" where "pkt_kmd_cmd_buf_offset m p = load_u32 m (p + 52)"

definition desc_mem_handle :: "kmem \<Rightarrow> u64 \<Rightarrow> u32 option" where "desc_mem_handle m d = load_u32 m d"
definition desc_offset :: "kmem \<Rightarrow> u64 \<Rightarrow> u32 option" where "desc_offset m d = load_u32 m (d + 4)"
definition desc_size :: "kmem \<Rightarrow> u64 \<Rightarrow> u32 option" where "desc_size m d = load_u32 m (d + 8)"
definition desc_length :: "kmem \<Rightarrow> u64 \<Rightarrow> u32 option" where "desc_length m d = load_u32 m (d + 12)"

definition patch_dst_buf_hdl :: "kmem \<Rightarrow> u64 \<Rightarrow> u32 option" where "patch_dst_buf_hdl m d = load_u32 m d"
definition patch_dst_offset :: "kmem \<Rightarrow> u64 \<Rightarrow> u32 option" where "patch_dst_offset m d = load_u32 m (d + 4)"
definition patch_src_buf_hdl :: "kmem \<Rightarrow> u64 \<Rightarrow> u32 option" where "patch_src_buf_hdl m d = load_u32 m (d + 8)"
definition patch_src_offset :: "kmem \<Rightarrow> u64 \<Rightarrow> u32 option" where "patch_src_offset m d = load_u32 m (d + 12)"

definition io_mem_handle :: "kmem \<Rightarrow> u64 \<Rightarrow> nat \<Rightarrow> u32 option" where
  "io_mem_handle m c j = load_u32 m (c + of_nat (4 * j))"
definition io_offsets :: "kmem \<Rightarrow> u64 \<Rightarrow> nat \<Rightarrow> u32 option" where
  "io_offsets m c j = load_u32 m (c + of_nat (12 + 4 * j))"
definition io_resource_type :: "kmem \<Rightarrow> u64 \<Rightarrow> u32 option" where "io_resource_type m c = load_u32 m (c + 188)"
definition io_direction :: "kmem \<Rightarrow> u64 \<Rightarrow> u32 option" where "io_direction m c = load_u32 m (c + 224)"

subsection \<open>Finding and validating a packet\<close>

text \<open>The handle is passed on as an \<open>int32_t\<close>. The packet pointer of a failed call is NULL.\<close>

definition cam_packet_util_get_packet_addr :: "u64 \<Rightarrow> u32 \<Rightarrow> 'x cam_mem_table \<Rightarrow> int \<times> u64" where
  "cam_packet_util_get_packet_addr packet_handle offset t =
     (let (rc, addr, len) = cam_mem_get_cpu_buf (ucast packet_handle) t in
      if rc \<noteq> 0 then (rc, 0) else (rc, addr + ucast offset))"

definition cam_packet_util_get_cmd_mem_addr :: "u32 \<Rightarrow> 'x cam_mem_table \<Rightarrow> int \<times> u64 \<times> u64" where
  "cam_packet_util_get_cmd_mem_addr handle t =
     (let (rc, addr, len) = cam_mem_get_cpu_buf handle t in
      if rc \<noteq> 0 then (rc, 0, len)
      else if addr \<noteq> 0 \<and> len \<noteq> 0 then (0, addr, len) else (- ENOMEM, 0, len))"

definition cam_packet_util_validate_cmd_desc :: "kmem \<Rightarrow> u64 \<Rightarrow> int option" where
  "cam_packet_util_validate_cmd_desc m d = do {
     length \<leftarrow> desc_length m d; size \<leftarrow> desc_size m d;
     if size < length then Some (- EINVAL)
     else do { h \<leftarrow> desc_mem_handle m d; if sint h \<le> 0 then Some (- EINVAL) else Some 0 } }"

definition cam_packet_util_validate_packet :: "kmem \<Rightarrow> u64 \<Rightarrow> u64 \<Rightarrow> int option" where
  "cam_packet_util_validate_packet m p remain_len =
     (if p = 0 then Some (- EINVAL)
      else do {
        size \<leftarrow> pkt_size m p;
        if remain_len < ucast size then Some (- EINVAL)
        else do {
          num_cmd_buf \<leftarrow> pkt_num_cmd_buf m p; num_io_configs \<leftarrow> pkt_num_io_configs m p;
          num_patches \<leftarrow> pkt_num_patches m p; cmd_buf_offset \<leftarrow> pkt_cmd_buf_offset m p;
          io_configs_offset \<leftarrow> pkt_io_configs_offset m p; patch_offset \<leftarrow> pkt_patch_offset m p;
          let sum_cmd_desc = ucast num_cmd_buf * sizeof_cmd_buf_desc;
              sum_io_cfgs = ucast num_io_configs * sizeof_buf_io_cfg;
              sum_patch_desc = ucast num_patches * sizeof_patch_desc;
              pkt_wo_payload = offsetof_payload in
          if size = 0 \<or> ucast size < pkt_wo_payload + ucast cmd_buf_offset + sum_cmd_desc \<or>
             ucast size < pkt_wo_payload + ucast io_configs_offset + sum_io_cfgs \<or>
             ucast size < pkt_wo_payload + ucast patch_offset + sum_patch_desc
          then Some (- EINVAL) else Some 0 } })"

subsection \<open>The command space of the kernel\<close>

record cam_kmd_buf_info =
  kmd_handle :: u32
  kmd_cpu_addr :: u64
  kmd_offset :: u32
  kmd_size :: u32
  kmd_used_bytes :: u32

definition cmd_desc_addr :: "u64 \<Rightarrow> u32 \<Rightarrow> u32 \<Rightarrow> u64" where
  "cmd_desc_addr p cmd_buf_offset i = p + offsetof_payload + ucast cmd_buf_offset + sizeof_cmd_buf_desc * ucast i"

text \<open>The index is unsigned, so the test for a negative index of the code never succeeds.\<close>

definition cam_packet_util_get_kmd_buffer ::
  "kmem \<Rightarrow> u64 \<Rightarrow> 'x cam_mem_table \<Rightarrow> (int \<times> cam_kmd_buf_info option) option" where
  "cam_packet_util_get_kmd_buffer m p t =
     (if p = 0 then Some (- EINVAL, None)
      else do {
        index \<leftarrow> pkt_kmd_cmd_buf_index m p; num_cmd_buf \<leftarrow> pkt_num_cmd_buf m p;
        if num_cmd_buf \<le> index then Some (- EINVAL, None)
        else do {
          cmd_buf_offset \<leftarrow> pkt_cmd_buf_offset m p;
          let d = cmd_desc_addr p cmd_buf_offset index in do {
            rc \<leftarrow> cam_packet_util_validate_cmd_desc m d;
            if rc \<noteq> 0 then Some (rc, None)
            else do {
              mem_handle \<leftarrow> desc_mem_handle m d;
              let (rc, cpu_addr, len) = cam_packet_util_get_cmd_mem_addr mem_handle t in
              if rc \<noteq> 0 then Some (rc, None)
              else do {
                offset \<leftarrow> desc_offset m d; size \<leftarrow> desc_size m d;
                if len \<le> ucast offset \<or> len - ucast offset < ucast size then Some (- EINVAL, None)
                else do {
                  kmd_off \<leftarrow> pkt_kmd_cmd_buf_offset m p;
                  if len - ucast offset \<le> ucast kmd_off then Some (- EINVAL, None)
                  else do {
                    length \<leftarrow> desc_length m d;
                    Some (0, Some \<lparr>kmd_handle = mem_handle,
                      kmd_cpu_addr = cpu_addr + 4 * ucast (offset div 4 + kmd_off div 4),
                      kmd_offset = offset + kmd_off, kmd_size = size - length, kmd_used_bytes = 0\<rparr>) } } } } } } })"

subsection \<open>Patches\<close>

record cam_patch_unique_src_buf_tbl =
  pt_hdl :: u32
  pt_iova :: u64
  pt_buf_size :: u64
  pt_flags :: u32

definition zero_patch_tbl :: "cam_patch_unique_src_buf_tbl list" where
  "zero_patch_tbl = replicate CAM_UNIQUE_SRC_HDL_MAX \<lparr>pt_hdl = 0, pt_iova = 0, pt_buf_size = 0, pt_flags = 0\<rparr>"

text \<open>The scan of the table: whether the handle is found, and the index where the scan stops.\<close>

fun patch_scan :: "u32 \<Rightarrow> cam_patch_unique_src_buf_tbl list \<Rightarrow> nat \<Rightarrow> bool \<times> nat" where
  "patch_scan buf_hdl [] idx = (False, idx)"
| "patch_scan buf_hdl (e # es) idx =
     (if buf_hdl = pt_hdl e then (True, idx)
      else if pt_hdl e = 0 \<or> pt_iova e = 0 then (False, idx)
      else patch_scan buf_hdl es (idx + 1))"

definition cam_packet_util_get_patch_iova ::
  "'x mem_core \<Rightarrow> cam_patch_unique_src_buf_tbl list \<Rightarrow> int \<Rightarrow> u32 \<Rightarrow> 'x cam_mem_table
   \<Rightarrow> int \<times> u64 \<times> u64 \<times> u32 \<times> cam_patch_unique_src_buf_tbl list" where
  "cam_packet_util_get_patch_iova A tbl hdl buf_hdl t =
     (let (is_found, idx) = patch_scan buf_hdl tbl 0 in
      if is_found then (0, pt_iova (tbl ! idx), pt_buf_size (tbl ! idx), pt_flags (tbl ! idx), tbl)
      else
        let (rc, iova_addr, src_buf_size, flags) = cam_mem_get_io_buf A buf_hdl hdl t in
        if rc < 0 then (rc, 0, 0, 0, tbl)
        else (rc, iova_addr, src_buf_size, flags,
              if idx < CAM_UNIQUE_SRC_HDL_MAX \<and> pt_hdl (tbl ! idx) = 0
              then tbl[idx := \<lparr>pt_hdl = buf_hdl, pt_iova = iova_addr, pt_buf_size = src_buf_size, pt_flags = flags\<rparr>]
              else tbl))"

text \<open>The 32-bit word that is written for the device address \<open>temp\<close>: on devices with 36-bit addresses the
  address without its low byte, unless the buffer is shared with firmware or a command buffer.\<close>

definition patch_value :: "bool \<Rightarrow> u32 \<Rightarrow> u64 \<Rightarrow> u32" where
  "patch_value expanded flags temp =
     (if expanded then
        (if has_flag flags CAM_MEM_FLAG_HW_SHARED_ACCESS \<or> has_flag flags CAM_MEM_FLAG_CMD_BUF_TYPE
         then ucast temp else ucast (drop_bit 8 temp))
      else ucast temp)"

text \<open>One round of the loop for the descriptor at \<open>d\<close>: \<open>Some rc\<close> as first component when the function
  returns \<open>rc\<close> there, and \<^const>\<open>None\<close> when the loop goes on.\<close>

definition patch_one ::
  "'x mem_core \<Rightarrow> u64 \<Rightarrow> int \<Rightarrow> int \<Rightarrow> bool \<Rightarrow> 'x cam_mem_table \<Rightarrow> cam_patch_unique_src_buf_tbl list \<Rightarrow> kmem
   \<Rightarrow> (int option \<times> cam_patch_unique_src_buf_tbl list \<times> kmem) option" where
  "patch_one A d iommu_hdl sec_mmu_hdl exp_mem t tbl m = do {
     src_buf_hdl \<leftarrow> patch_src_buf_hdl m d;
     let hdl = (if cam_mem_is_secure_buf src_buf_hdl then sec_mmu_hdl else iommu_hdl);
         (rc, iova_addr, src_buf_size, flags, tbl) = cam_packet_util_get_patch_iova A tbl hdl src_buf_hdl t in
     if rc \<noteq> 0 then Some (Some rc, tbl, m)
     else do {
       src_offset \<leftarrow> patch_src_offset m d;
       if src_buf_size \<le> ucast src_offset then Some (Some (- EINVAL), tbl, m)
       else do {
         dst_buf_hdl \<leftarrow> patch_dst_buf_hdl m d;
         let (rc, cpu_addr, dst_buf_len) = cam_mem_get_cpu_buf dst_buf_hdl t in
         if rc < 0 \<or> cpu_addr = 0 \<or> dst_buf_len = 0 then Some (Some rc, tbl, m)
         else do {
           dst_offset \<leftarrow> patch_dst_offset m d;
           if dst_buf_len < 8 \<or> dst_buf_len - 8 < ucast dst_offset then Some (Some (- EINVAL), tbl, m)
           else do {
             m' \<leftarrow> store_u32 m (cpu_addr + ucast dst_offset)
                    (patch_value (exp_mem \<and> smmu_expanded A (mt_core t)) flags (iova_addr + ucast src_offset));
             Some (None, tbl, m') } } } } }"

fun patch_loop ::
  "'x mem_core \<Rightarrow> nat \<Rightarrow> nat \<Rightarrow> u64 \<Rightarrow> u64 \<Rightarrow> int \<Rightarrow> int \<Rightarrow> bool \<Rightarrow> 'x cam_mem_table
   \<Rightarrow> cam_patch_unique_src_buf_tbl list \<Rightarrow> kmem \<Rightarrow> (int \<times> kmem) option" where
  "patch_loop A 0 i p patch_desc iommu_hdl sec_mmu_hdl exp_mem t tbl m = None"
| "patch_loop A (Suc fuel) i p patch_desc iommu_hdl sec_mmu_hdl exp_mem t tbl m = do {
     num_patches \<leftarrow> pkt_num_patches m p;
     if of_nat i < num_patches then do {
       (ret, tbl, m) \<leftarrow> patch_one A (patch_desc + of_nat (16 * i)) iommu_hdl sec_mmu_hdl exp_mem t tbl m;
       case ret of Some rc \<Rightarrow> Some (rc, m)
       | None \<Rightarrow> patch_loop A fuel (i + 1) p patch_desc iommu_hdl sec_mmu_hdl exp_mem t tbl m }
     else Some (0, m) }"

text \<open>The patch array is addressed in 32-bit steps: its offset is rounded down to a multiple of 4.\<close>

definition patch_desc_addr :: "u64 \<Rightarrow> u32 \<Rightarrow> u64" where
  "patch_desc_addr p patch_offset = p + offsetof_payload + 4 * ucast (patch_offset div 4)"

definition cam_packet_util_process_patches ::
  "'x mem_core \<Rightarrow> nat \<Rightarrow> u64 \<Rightarrow> int \<Rightarrow> int \<Rightarrow> bool \<Rightarrow> 'x cam_mem_table \<Rightarrow> kmem \<Rightarrow> (int \<times> kmem) option" where
  "cam_packet_util_process_patches A fuel p iommu_hdl sec_mmu_hdl exp_mem t m = do {
     patch_offset \<leftarrow> pkt_patch_offset m p;
     patch_loop A fuel 0 p (patch_desc_addr p patch_offset) iommu_hdl sec_mmu_hdl exp_mem t zero_patch_tbl m }"

subsection \<open>Generic command buffers\<close>

text \<open>The handler gets the type, the size and the address of the data of a blob; the state \<open>'s\<close> is what
  \<open>user_data\<close> points to.\<close>

type_synonym 's blob_handler = "u32 \<Rightarrow> u32 \<Rightarrow> u64 \<Rightarrow> 's \<Rightarrow> int \<times> 's"

definition blob_block_size :: "u32 \<Rightarrow> u32" where
  "blob_block_size blob_size = 4 + ((blob_size + 4 - 1) div 4) * 4"

fun blob_loop ::
  "nat \<Rightarrow> kmem \<Rightarrow> 's blob_handler \<Rightarrow> u32 \<Rightarrow> u64 \<Rightarrow> u32 \<Rightarrow> 's \<Rightarrow> (int \<times> 's) option" where
  "blob_loop 0 m cb cmd_len blob_ptr len_read s = None"
| "blob_loop (Suc fuel) m cb cmd_len blob_ptr len_read s =
     (if len_read < cmd_len then do {
        w \<leftarrow> load_u32 m blob_ptr;
        let blob_type = w AND 0xFF; blob_size = drop_bit 8 (w AND 0xFFFFFF00); block = blob_block_size blob_size in
        if cmd_len < len_read + block then Some (- EINVAL, s)
        else
          let (rc, s) = cb blob_type blob_size (blob_ptr + 4) s in
          if rc \<noteq> 0 then Some (rc, s)
          else blob_loop fuel m cb cmd_len (blob_ptr + 4 * ucast (block div 4)) (len_read + block) s }
      else Some (0, s))"

definition cam_packet_util_process_generic_cmd_buffer ::
  "nat \<Rightarrow> kmem \<Rightarrow> u64 \<Rightarrow> 's blob_handler option \<Rightarrow> 's \<Rightarrow> 'x cam_mem_table \<Rightarrow> (int \<times> 's) option" where
  "cam_packet_util_process_generic_cmd_buffer fuel m d cbo s t =
     (case cbo of None \<Rightarrow> Some (- EINVAL, s)
      | Some cb \<Rightarrow>
          if d = 0 then Some (- EINVAL, s)
          else do {
            length \<leftarrow> desc_length m d; size \<leftarrow> desc_size m d;
            if length = 0 \<or> size = 0 then Some (- EINVAL, s)
            else do {
              mem_handle \<leftarrow> desc_mem_handle m d;
              let (rc, cpu_addr, buf_size) = cam_mem_get_cpu_buf mem_handle t in
              if rc \<noteq> 0 \<or> cpu_addr = 0 \<or> buf_size = 0 then Some (rc, s)
              else do {
                offset \<leftarrow> desc_offset m d;
                if buf_size < 4 \<or> buf_size - 4 < ucast offset then Some (- EINVAL, s)
                else if buf_size - ucast offset < ucast length then Some (- EINVAL, s)
                else blob_loop fuel m cb length (cpu_addr + ucast offset) 0 s } } })"

subsection \<open>Page fault reports\<close>

datatype cam_faulted_mem_type = CAM_FAULT_BUF_NOT_FOUND | CAM_FAULT_IO_CFG_BUF | CAM_FAULT_PATCH_BUF

text \<open>\<open>struct cam_context_pf_info\<close> with the two fields of the SMMU driver's report that are read here: the
  faulting address and the file descriptor of the buffer.\<close>

record cam_hw_dump_pf_args =
  pf_smmu_iova :: u64
  pf_smmu_buf_info :: u32
  pf_mem_type :: cam_faulted_mem_type
  pf_resource_type :: u32
  pf_buf_hdl :: u32
  pf_offset :: u32
  pf_delta :: u64
  pf_patch_idx :: u32
  pf_mem_flag :: u32
  pf_req_id :: u64
  pf_ctx_found :: bool

definition CAM_SMMU_GET_IOVA_DELTA :: "u64 \<Rightarrow> u64 \<Rightarrow> u64" where
  "CAM_SMMU_GET_IOVA_DELTA a b = (if b < a then a - b else b - a)"

definition fd_matches :: "u32 \<Rightarrow> u32 \<Rightarrow> bool" where
  "fd_matches hdl fd \<longleftrightarrow> (signed_drop_bit 16 hdl :: u32) = fd"

text \<open>One patch: \<^const>\<open>None\<close> in the first component ends the loop.\<close>

definition dump_patch_one ::
  "'x mem_core \<Rightarrow> u64 \<Rightarrow> u64 \<Rightarrow> nat \<Rightarrow> int \<Rightarrow> int \<Rightarrow> 'x cam_mem_table \<Rightarrow> kmem \<Rightarrow> cam_hw_dump_pf_args option
   \<Rightarrow> (bool \<times> cam_hw_dump_pf_args option) option" where
  "dump_patch_one A p d i iommu_hdl sec_iommu_hdl t m pf = do {
     src \<leftarrow> patch_src_buf_hdl m d;
     let hdl = (if cam_mem_is_secure_buf src then sec_iommu_hdl else iommu_hdl);
         (rc, iova_addr, src_buf_size, flags) = cam_mem_get_io_buf A src hdl t in
     if rc < 0 then Some (False, pf)
     else do {
       pf \<leftarrow> (case pf of None \<Rightarrow> Some None
              | Some a \<Rightarrow>
                  if fd_matches src (pf_smmu_buf_info a) \<and> pf_mem_type a = CAM_FAULT_BUF_NOT_FOUND then do {
                    src_offset \<leftarrow> patch_src_offset m d; req_id \<leftarrow> pkt_request_id m p;
                    Some (Some (a\<lparr>pf_mem_type := CAM_FAULT_PATCH_BUF, pf_patch_idx := of_nat i, pf_buf_hdl := src,
                      pf_offset := src_offset, pf_mem_flag := flags,
                      pf_delta := CAM_SMMU_GET_IOVA_DELTA (pf_smmu_iova a) iova_addr, pf_req_id := req_id,
                      pf_ctx_found := True\<rparr>)) }
                  else Some (Some a));
       dst \<leftarrow> patch_dst_buf_hdl m d;
       let (rc, cpu_addr, dst_buf_len) = cam_mem_get_cpu_buf dst t in
       if rc < 0 \<or> cpu_addr = 0 \<or> dst_buf_len = 0 then Some (False, pf)
       else do {
         dst_offset \<leftarrow> patch_dst_offset m d;
         value \<leftarrow> load_u32 m (cpu_addr + ucast dst_offset);
         Some (True, pf) } } }"

fun dump_patch_loop ::
  "'x mem_core \<Rightarrow> nat \<Rightarrow> nat \<Rightarrow> u64 \<Rightarrow> u64 \<Rightarrow> int \<Rightarrow> int \<Rightarrow> 'x cam_mem_table \<Rightarrow> kmem \<Rightarrow> cam_hw_dump_pf_args option
   \<Rightarrow> cam_hw_dump_pf_args option option" where
  "dump_patch_loop A 0 i p patch_desc iommu_hdl sec_iommu_hdl t m pf = Some pf"
| "dump_patch_loop A (Suc k) i p patch_desc iommu_hdl sec_iommu_hdl t m pf = do {
     (go, pf) \<leftarrow> dump_patch_one A p (patch_desc + of_nat (16 * i)) i iommu_hdl sec_iommu_hdl t m pf;
     if go then dump_patch_loop A k (i + 1) p patch_desc iommu_hdl sec_iommu_hdl t m pf else Some pf }"

definition cam_packet_util_dump_patch_info ::
  "'x mem_core \<Rightarrow> u64 \<Rightarrow> int \<Rightarrow> int \<Rightarrow> 'x cam_mem_table \<Rightarrow> kmem \<Rightarrow> cam_hw_dump_pf_args option
   \<Rightarrow> cam_hw_dump_pf_args option option" where
  "cam_packet_util_dump_patch_info A p iommu_hdl sec_iommu_hdl t m pf =
     (if p = 0 then Some pf
      else do {
        patch_offset \<leftarrow> pkt_patch_offset m p; num_patches \<leftarrow> pkt_num_patches m p;
        dump_patch_loop A (unat num_patches) 0 p (patch_desc_addr p patch_offset) iommu_hdl sec_iommu_hdl t m pf })"

fun dump_io_planes ::
  "'x mem_core \<Rightarrow> u64 \<Rightarrow> u64 \<Rightarrow> nat \<Rightarrow> nat \<Rightarrow> int \<Rightarrow> int \<Rightarrow> u32 \<Rightarrow> 'x cam_mem_table \<Rightarrow> kmem \<Rightarrow> cam_hw_dump_pf_args
   \<Rightarrow> cam_hw_dump_pf_args option" where
  "dump_io_planes A p c 0 j iommu_hdl sec_mmu_hdl buf_fd t m pf = Some pf"
| "dump_io_planes A p c (Suc k) j iommu_hdl sec_mmu_hdl buf_fd t m pf = do {
     h \<leftarrow> io_mem_handle m c j;
     if h = 0 then Some pf
     else
       let mmu_hdl = (if cam_mem_is_secure_buf h then sec_mmu_hdl else iommu_hdl);
           (rc, iova_addr, src_buf_size, flags) = cam_mem_get_io_buf A h mmu_hdl t in
       if rc < 0 then dump_io_planes A p c k (j + 1) iommu_hdl sec_mmu_hdl buf_fd t m pf
       else do {
         pf \<leftarrow> (if fd_matches h buf_fd then do {
                  off \<leftarrow> io_offsets m c j; res \<leftarrow> io_resource_type m c; req_id \<leftarrow> pkt_request_id m p;
                  Some (pf\<lparr>pf_mem_type := CAM_FAULT_IO_CFG_BUF, pf_buf_hdl := h, pf_offset := off,
                    pf_resource_type := res, pf_delta := CAM_SMMU_GET_IOVA_DELTA (pf_smmu_iova pf) iova_addr,
                    pf_req_id := req_id, pf_ctx_found := True\<rparr>) }
                else Some pf);
         dump_io_planes A p c k (j + 1) iommu_hdl sec_mmu_hdl buf_fd t m pf } }"

fun dump_io_loop ::
  "'x mem_core \<Rightarrow> nat \<Rightarrow> u64 \<Rightarrow> u64 \<Rightarrow> int \<Rightarrow> int \<Rightarrow> bool \<Rightarrow> u32 \<Rightarrow> 'x cam_mem_table \<Rightarrow> kmem \<Rightarrow> cam_hw_dump_pf_args
   \<Rightarrow> cam_hw_dump_pf_args option" where
  "dump_io_loop A 0 p c iommu_hdl sec_mmu_hdl res_id_support buf_fd t m pf = Some pf"
| "dump_io_loop A (Suc k) p c iommu_hdl sec_mmu_hdl res_id_support buf_fd t m pf = do {
     res \<leftarrow> (if res_id_support then io_resource_type m c else Some (pf_resource_type pf));
     if res \<noteq> pf_resource_type pf
     then dump_io_loop A k p (c + sizeof_buf_io_cfg) iommu_hdl sec_mmu_hdl res_id_support buf_fd t m pf
     else do {
       pf \<leftarrow> dump_io_planes A p c CAM_PACKET_MAX_PLANES 0 iommu_hdl sec_mmu_hdl buf_fd t m pf;
       if res_id_support then Some pf
       else dump_io_loop A k p (c + sizeof_buf_io_cfg) iommu_hdl sec_mmu_hdl res_id_support buf_fd t m pf } }"

definition cam_packet_util_dump_io_bufs ::
  "'x mem_core \<Rightarrow> u64 \<Rightarrow> int \<Rightarrow> int \<Rightarrow> bool \<Rightarrow> 'x cam_mem_table \<Rightarrow> kmem \<Rightarrow> cam_hw_dump_pf_args
   \<Rightarrow> cam_hw_dump_pf_args option" where
  "cam_packet_util_dump_io_bufs A p iommu_hdl sec_mmu_hdl res_id_support t m pf =
     (if p = 0 then Some pf
      else do {
        io_configs_offset \<leftarrow> pkt_io_configs_offset m p; num_io_configs \<leftarrow> pkt_num_io_configs m p;
        dump_io_loop A (unat num_io_configs) p (p + offsetof_payload + 4 * ucast (io_configs_offset div 4))
          iommu_hdl sec_mmu_hdl res_id_support (pf_smmu_buf_info pf) t m pf })"

subsection \<open>Buffers for pre-silicon simulation\<close>

text \<open>The transfer of a buffer to or from the simulator is the parameter \<open>send\<close>; the function that retrieves a
  buffer does nothing in a build without the simulator.\<close>

fun retrieve_planes ::
  "'x mem_core \<Rightarrow> u64 \<Rightarrow> nat \<Rightarrow> nat \<Rightarrow> int \<Rightarrow> 'x cam_mem_table \<Rightarrow> kmem \<Rightarrow> int option" where
  "retrieve_planes A c 0 j iommu_hdl t m = Some 0"
| "retrieve_planes A c (Suc k) j iommu_hdl t m = do {
     h \<leftarrow> io_mem_handle m c j;
     if h = 0 then Some 0
     else
       let (rc, io_addr, size, flags) = cam_mem_get_io_buf A h iommu_hdl t in
       if rc \<noteq> 0 then Some (- ENOMEM)
       else if drop_bit 32 io_addr \<noteq> 0 then Some (- EINVAL)
       else do { off \<leftarrow> io_offsets m c j; retrieve_planes A c k (j + 1) iommu_hdl t m } }"

fun retrieve_loop ::
  "'x mem_core \<Rightarrow> nat \<Rightarrow> u64 \<Rightarrow> int \<Rightarrow> u32 \<Rightarrow> 'x cam_mem_table \<Rightarrow> kmem \<Rightarrow> int option" where
  "retrieve_loop A 0 c iommu_hdl out_res_id t m = Some 0"
| "retrieve_loop A (Suc k) c iommu_hdl out_res_id t m = do {
     dir \<leftarrow> io_direction m c;
     if dir \<noteq> CAM_BUF_OUTPUT then retrieve_loop A k (c + sizeof_buf_io_cfg) iommu_hdl out_res_id t m
     else do {
       res \<leftarrow> io_resource_type m c;
       if res \<noteq> out_res_id then retrieve_loop A k (c + sizeof_buf_io_cfg) iommu_hdl out_res_id t m
       else do {
         rc \<leftarrow> retrieve_planes A c CAM_PACKET_MAX_PLANES 0 iommu_hdl t m;
         if rc \<noteq> 0 then Some rc
         else retrieve_loop A k (c + sizeof_buf_io_cfg) iommu_hdl out_res_id t m } } }"

definition cam_presil_retrieve_buffers_from_packet ::
  "'x mem_core \<Rightarrow> u64 \<Rightarrow> int \<Rightarrow> u32 \<Rightarrow> 'x cam_mem_table \<Rightarrow> kmem \<Rightarrow> int option" where
  "cam_presil_retrieve_buffers_from_packet A p iommu_hdl out_res_id t m =
     (if p = 0 \<or> iommu_hdl < 0 then Some (- EINVAL)
      else do {
        io_configs_offset \<leftarrow> pkt_io_configs_offset m p; num_io_configs \<leftarrow> pkt_num_io_configs m p;
        retrieve_loop A (unat num_io_configs) (p + offsetof_payload + ucast io_configs_offset)
          iommu_hdl out_res_id t m })"

text \<open>The list of handles is an array of \<open>max_handles\<close> entries of which \<open>*num_hdls\<close> are used; here it is the
  list of the used ones.\<close>

definition cam_presil_add_unique_buf_hdl_to_list :: "nat \<Rightarrow> u32 \<Rightarrow> u32 list \<Rightarrow> u32 list" where
  "cam_presil_add_unique_buf_hdl_to_list max_handles buf_hdl hdl_list =
     (if buf_hdl = 0 then hdl_list
      else if max_handles \<le> length hdl_list then hdl_list
      else if buf_hdl \<in> set hdl_list then hdl_list
      else hdl_list @ [buf_hdl])"

fun collect_planes :: "kmem \<Rightarrow> u64 \<Rightarrow> nat \<Rightarrow> nat \<Rightarrow> u32 list \<Rightarrow> u32 list option" where
  "collect_planes m c 0 j hs = Some hs"
| "collect_planes m c (Suc k) j hs = do {
     h \<leftarrow> io_mem_handle m c j;
     if h = 0 then Some hs
     else collect_planes m c k (j + 1) (cam_presil_add_unique_buf_hdl_to_list CAM_PRESIL_UNIQUE_HDL_MAX h hs) }"

fun collect_io :: "kmem \<Rightarrow> nat \<Rightarrow> u64 \<Rightarrow> u32 list \<Rightarrow> u32 list option" where
  "collect_io m 0 c hs = Some hs"
| "collect_io m (Suc k) c hs = do {
     dir \<leftarrow> io_direction m c;
     hs \<leftarrow> (if dir = CAM_BUF_OUTPUT then Some hs else collect_planes m c CAM_PACKET_MAX_PLANES 0 hs);
     collect_io m k (c + sizeof_buf_io_cfg) hs }"

text \<open>Command descriptors and patches: the handle is at offset \<open>f\<close> of structures of \<open>sz\<close> bytes.\<close>

fun collect_field :: "kmem \<Rightarrow> u64 \<Rightarrow> u64 \<Rightarrow> nat \<Rightarrow> u64 \<Rightarrow> u32 list \<Rightarrow> u32 list option" where
  "collect_field m sz f 0 d hs = Some hs"
| "collect_field m sz f (Suc k) d hs = do {
     h \<leftarrow> load_u32 m (d + f);
     collect_field m sz f k (d + sz) (cam_presil_add_unique_buf_hdl_to_list CAM_PRESIL_UNIQUE_HDL_MAX h hs) }"

fun send_all :: "(int \<Rightarrow> u32 \<Rightarrow> 's \<Rightarrow> int \<times> 's) \<Rightarrow> int \<Rightarrow> u32 list \<Rightarrow> 's \<Rightarrow> int \<times> 's" where
  "send_all send hdl [] s = (0, s)"
| "send_all send hdl (h # hs) s =
     (let (rc, s) = send hdl h s in if rc \<noteq> 0 then (rc, s) else send_all send hdl hs s)"

definition cam_presil_send_buffers_from_packet ::
  "(int \<Rightarrow> u32 \<Rightarrow> 's \<Rightarrow> int \<times> 's) \<Rightarrow> u64 \<Rightarrow> int \<Rightarrow> int \<Rightarrow> kmem \<Rightarrow> 's \<Rightarrow> (int \<times> 's) option" where
  "cam_presil_send_buffers_from_packet send p img_iommu_hdl cdm_iommu_hdl m s =
     (if p = 0 then Some (- EINVAL, s)
      else do {
        (rc, s) \<leftarrow>
          (if img_iommu_hdl = - 1 then Some (0, s)
           else do {
             io_off \<leftarrow> pkt_io_configs_offset m p; n \<leftarrow> pkt_num_io_configs m p;
             hs \<leftarrow> collect_io m (unat n) (p + offsetof_payload + ucast io_off) [];
             Some (send_all send img_iommu_hdl hs s) });
        if rc \<noteq> 0 then Some (rc, s)
        else if cdm_iommu_hdl = - 1 then Some (rc, s)
        else do {
          cmd_off \<leftarrow> pkt_cmd_buf_offset m p; n \<leftarrow> pkt_num_cmd_buf m p;
          hs \<leftarrow> collect_field m sizeof_cmd_buf_desc 0 (unat n) (p + offsetof_payload + ucast cmd_off) [];
          patch_off \<leftarrow> pkt_patch_offset m p; n \<leftarrow> pkt_num_patches m p;
          hs \<leftarrow> collect_field m sizeof_patch_desc 8 (unat n) (p + offsetof_payload + ucast patch_off) hs;
          Some (send_all send cdm_iommu_hdl hs s) } })"

end
