(* ===== verification/Cam_Packet_Props.thy ===== *)
theory Cam_Packet_Props
  imports Cam_Packet Cam_Mem_Props
begin

unbundle bit_operations_syntax

section \<open>What the packet functions promise\<close>

text \<open>
  Validation in natural numbers, the reads of a validated packet, and the patches: the loop of the code against
  the sequence of writes that the descriptors stand for. The runs at the end use a packet in the buffer of the
  demonstration table of the memory manager.
\<close>

subsection \<open>Arithmetic of addresses and sizes\<close>

lemma unat_ucast_u32 [simp]: "unat (ucast (a :: u32) :: u64) = unat a"
  proof -
  have "unat a < 2 ^ LENGTH(32)" by (rule unsigned_less)
  then show ?thesis by (simp add: unsigned_ucast_eq take_bit_nat_eq_self_iff)
qed

lemma u32_bound: "unat (a :: u32) < 4294967296"
  using unsigned_less [of a] by simp

lemma word_sum:
  assumes "unat (c :: u64) \<le> 256"
  shows "unat (56 + ucast (a :: u32) + ucast (b :: u32) * c :: u64) = 56 + unat a + unat b * unat c"
proof -
  have "unat b * unat c \<le> 4294967296 * 256" using u32_bound [of b] assms by (intro mult_mono) auto
  then have "56 + unat a + unat b * unat c < 2 ^ LENGTH(64)" using u32_bound [of a] by simp
  then have "unat (of_nat (56 + unat a + unat b * unat c) :: u64) = 56 + unat a + unat b * unat c"
    by (rule unat_of_nat_small)
  moreover have "of_nat (56 + unat a + unat b * unat c) = (56 + ucast a + ucast b * c :: u64)" by simp
  ultimately show ?thesis by (simp only:)
qed

lemma load_at: "mapped m p n \<Longrightarrow> unat k + 4 \<le> n \<Longrightarrow> load_u32 m (p + k) \<noteq> None"
  using load_field [of m p n "unat k"] by simp

text \<open>What a successful validation says of the header, in natural numbers.\<close>

lemma validate_packet_iff:
  assumes "pkt_size m p = Some sz" "pkt_num_cmd_buf m p = Some nc" "pkt_num_io_configs m p = Some ni"
    "pkt_num_patches m p = Some np" "pkt_cmd_buf_offset m p = Some co" "pkt_io_configs_offset m p = Some io"
    "pkt_patch_offset m p = Some po"
  shows "cam_packet_util_validate_packet m p remain_len =
    (if p \<noteq> 0 \<and> 0 < unat sz \<and> unat sz \<le> unat remain_len \<and> 56 + unat co + unat nc * 24 \<le> unat sz \<and>
        56 + unat io + unat ni * 256 \<le> unat sz \<and> 56 + unat po + unat np * 16 \<le> unat sz
     then Some 0 else Some (- EINVAL))"
  using assms
  by (auto simp: cam_packet_util_validate_packet_def word_less_nat_alt word_sum unat_gt_0 Let_def not_less)


text \<open>C34: The validation accepts a packet exactly when its address is not NULL, the size of its header is
  positive and at most the length that remains in the buffer, and each of the three descriptor arrays ends
  within that size: the sums are those of the natural numbers, so no choice of counts and offsets in the
  packet makes one wrap around and pass.\<close>

theorem validate_packet_exact:
  "cam_packet_util_validate_packet m p remain_len = Some 0 \<longleftrightarrow>
   (\<exists>sz nc ni np co io po. pkt_size m p = Some sz \<and> pkt_num_cmd_buf m p = Some nc \<and>
      pkt_num_io_configs m p = Some ni \<and> pkt_num_patches m p = Some np \<and> pkt_cmd_buf_offset m p = Some co \<and>
      pkt_io_configs_offset m p = Some io \<and> pkt_patch_offset m p = Some po \<and> p \<noteq> 0 \<and> 0 < unat sz \<and>
      unat sz \<le> unat remain_len \<and> 56 + unat co + unat nc * 24 \<le> unat sz \<and>
      56 + unat io + unat ni * 256 \<le> unat sz \<and> 56 + unat po + unat np * 16 \<le> unat sz)"
    (is "?L \<longleftrightarrow> ?R")
proof
  assume L: ?L
  then obtain sz nc ni np co io po where f: "pkt_size m p = Some sz" "pkt_num_cmd_buf m p = Some nc"
    "pkt_num_io_configs m p = Some ni" "pkt_num_patches m p = Some np" "pkt_cmd_buf_offset m p = Some co"
    "pkt_io_configs_offset m p = Some io" "pkt_patch_offset m p = Some po"
    by (auto simp: cam_packet_util_validate_packet_def Option.bind_eq_Some_conv split: if_splits)
  with L show ?R unfolding validate_packet_iff [OF f] by (auto split: if_splits)
next
  assume ?R
  then show ?L by (elim exE conjE) (simp add: validate_packet_iff)
qed

subsection \<open>Reads of a validated packet\<close>

text \<open>A packet that has been validated in mapped memory of the given length.\<close>

definition valid_packet :: "kmem \<Rightarrow> u64 \<Rightarrow> u64 \<Rightarrow> bool" where
  "valid_packet m p remain_len \<longleftrightarrow>
     mapped m p (unat remain_len) \<and> cam_packet_util_validate_packet m p remain_len = Some 0"

lemma valid_packetE:
  assumes "valid_packet m p remain_len"
  obtains sz nc ni np co io po where "pkt_size m p = Some sz" "pkt_num_cmd_buf m p = Some nc"
    "pkt_num_io_configs m p = Some ni" "pkt_num_patches m p = Some np" "pkt_cmd_buf_offset m p = Some co"
    "pkt_io_configs_offset m p = Some io" "pkt_patch_offset m p = Some po" "p \<noteq> 0" "mapped m p (unat sz)"
    "unat sz \<le> unat remain_len"
    "56 + unat co + unat nc * 24 \<le> unat sz" "56 + unat io + unat ni * 256 \<le> unat sz"
    "56 + unat po + unat np * 16 \<le> unat sz"
proof -
  have m: "mapped m p (unat remain_len)" using assms by (simp add: valid_packet_def)
  have "cam_packet_util_validate_packet m p remain_len = Some 0" using assms by (simp add: valid_packet_def)
  then show thesis unfolding validate_packet_exact using mapped_mono [OF m] by (elim exE conjE) (rule that)
qed

lemma mapped_part:
  assumes "mapped m p n" "k + l \<le> n" "a = p + of_nat k"
  shows "mapped m a l"
  using mapped_shift [OF assms(1,2)] assms(3) by simp

lemma load_part:
  assumes "mapped m p n" "k + 4 \<le> n" "a = p + of_nat k"
  shows "load_u32 m a \<noteq> None"
  using load_field [OF assms(1,2)] assms(3) by simp

lemma io_read:
  assumes "mapped m c 256"
  shows "io_resource_type m c \<noteq> None" "io_direction m c \<noteq> None"
    "j < 3 \<Longrightarrow> io_mem_handle m c j \<noteq> None" "j < 3 \<Longrightarrow> io_offsets m c j \<noteq> None"
  using load_part [OF assms, of 188 "c + 188"] load_part [OF assms, of 224 "c + 224"]
    load_part [OF assms, of "4 * j" "c + of_nat (4 * j)"] load_part [OF assms, of "12 + 4 * j" "c + of_nat (12 + 4 * j)"]
  by (simp_all only: io_resource_type_def io_direction_def io_mem_handle_def io_offsets_def) simp_all

lemma request_id_read: "mapped m p 56 \<Longrightarrow> pkt_request_id m p \<noteq> None"
  using load_part [of m p 56 8 "p + 8"] load_part [of m p 56 12 "p + 8 + 4"]
  by (auto simp: pkt_request_id_def load_u64_def)

text \<open>A computation that makes no access outside mapped memory.\<close>

definition safe :: "'a option \<Rightarrow> bool" where
  "safe x \<longleftrightarrow> x \<noteq> None"

lemma safe_Some [intro!]: "safe (Some x)"
  by (simp add: safe_def)

lemma safe_bind [intro!]: "safe x \<Longrightarrow> (\<And>v. x = Some v \<Longrightarrow> safe (f v)) \<Longrightarrow> safe (Option.bind x f)"
  by (cases x) (auto simp: safe_def)

lemma safe_if [intro!]: "(b \<Longrightarrow> safe x) \<Longrightarrow> (\<not> b \<Longrightarrow> safe y) \<Longrightarrow> safe (if b then x else y)"
  by simp

lemma safe_prod [intro!]: "(\<And>a b. x = (a, b) \<Longrightarrow> safe (f a b)) \<Longrightarrow> safe (case x of (a, b) \<Rightarrow> f a b)"
  by (cases x) simp

lemma safe_let [intro!]: "safe (f x) \<Longrightarrow> safe (let y = x in f y)"
  by simp

lemma io_safe:
  assumes "mapped m c 256"
  shows "safe (io_resource_type m c)" "safe (io_direction m c)"
    "j < 3 \<Longrightarrow> safe (io_mem_handle m c j)" "j < 3 \<Longrightarrow> safe (io_offsets m c j)"
  using io_read [OF assms] by (simp_all add: safe_def)

lemma request_id_safe: "mapped m p 56 \<Longrightarrow> safe (pkt_request_id m p)"
  using request_id_read by (simp add: safe_def)

lemma elem_mapped:
  assumes "mapped m c (256 * Suc k)"
  shows "mapped m c 256" "mapped m (c + 256) (256 * k)"
  using assms mapped_mono [OF assms, of 256] mapped_part [OF assms, of 256 "256 * k" "c + 256"] by auto

lemma dump_io_planes_safe:
  assumes "mapped m c 256" "mapped m p 56"
  shows "j + k \<le> 3 \<Longrightarrow> safe (dump_io_planes A p c k j hdl sec fd t m pf)"
proof (induction k arbitrary: j pf)
  case (Suc k)
  then show ?case by (simp only: dump_io_planes.simps) (auto intro!: io_safe [OF assms(1)] request_id_safe [OF assms(2)])
qed auto

lemma dump_io_loop_safe:
  "mapped m c (256 * k) \<Longrightarrow> mapped m p 56 \<Longrightarrow> safe (dump_io_loop A k p c hdl sec res_id fd t m pf)"
proof (induction k arbitrary: c pf res_id)
  case (Suc k)
  note c = elem_mapped [OF Suc.prems(1)]
  show ?case
    by (simp only: dump_io_loop.simps)
      (auto intro!: Suc.IH [OF c(2) Suc.prems(2)] io_safe [OF c(1)] dump_io_planes_safe [OF c(1) Suc.prems(2)])
qed auto

lemma retrieve_planes_safe:
  assumes "mapped m c 256"
  shows "j + k \<le> 3 \<Longrightarrow> safe (retrieve_planes A c k j hdl t m)"
proof (induction k arbitrary: j)
  case (Suc k)
  then show ?case by (simp only: retrieve_planes.simps) (auto intro!: io_safe [OF assms])
qed auto

lemma retrieve_loop_safe: "mapped m c (256 * k) \<Longrightarrow> safe (retrieve_loop A k c hdl res t m)"
proof (induction k arbitrary: c)
  case (Suc k)
  note c = elem_mapped [OF Suc.prems]
  show ?case
    by (simp only: retrieve_loop.simps)
      (auto intro!: Suc.IH [OF c(2)] io_safe [OF c(1)] retrieve_planes_safe [OF c(1)])
qed auto

lemma collect_planes_safe:
  assumes "mapped m c 256"
  shows "j + k \<le> 3 \<Longrightarrow> safe (collect_planes m c k j hs)"
proof (induction k arbitrary: j hs)
  case (Suc k)
  then show ?case by (simp only: collect_planes.simps) (auto intro!: io_safe [OF assms])
qed auto

lemma collect_io_safe: "mapped m c (256 * k) \<Longrightarrow> safe (collect_io m k c hs)"
proof (induction k arbitrary: c hs)
  case (Suc k)
  note c = elem_mapped [OF Suc.prems]
  show ?case
    by (simp only: collect_io.simps) (auto intro!: Suc.IH [OF c(2)] io_safe [OF c(1)] collect_planes_safe [OF c(1)])
qed auto

lemma collect_field_safe:
  "mapped m d (sz * k) \<Longrightarrow> f + 4 \<le> sz \<Longrightarrow> safe (collect_field m (of_nat sz) (of_nat f) k d hs)"
proof (induction k arbitrary: d hs)
  case (Suc k)
  have "mapped m (d + of_nat sz) (sz * k)" by (rule mapped_part [OF Suc.prems(1), of sz]) (simp_all add: algebra_simps)
  moreover have "safe (load_u32 m (d + of_nat f))"
    unfolding safe_def by (rule load_part [OF Suc.prems(1), of f]) (use Suc.prems(2) in simp_all)
  ultimately show ?case using Suc.IH Suc.prems(2) by (simp only: collect_field.simps) auto
qed auto

lemma desc_safe:
  assumes "mapped m d 24"
  shows "safe (desc_mem_handle m d)" "safe (desc_offset m d)" "safe (desc_size m d)" "safe (desc_length m d)"
  using load_part [OF assms, of 0 d] load_part [OF assms, of 4 "d + 4"] load_part [OF assms, of 8 "d + 8"]
    load_part [OF assms, of 12 "d + 12"]
  by (simp_all add: safe_def desc_mem_handle_def desc_offset_def desc_size_def desc_length_def)

lemma cmd_index_safe:
  assumes "mapped m p 56"
  shows "safe (pkt_kmd_cmd_buf_index m p)" "safe (pkt_kmd_cmd_buf_offset m p)"
  using load_part [OF assms, of 48 "p + 48"] load_part [OF assms, of 52 "p + 52"]
  by (simp_all add: safe_def pkt_kmd_cmd_buf_index_def pkt_kmd_cmd_buf_offset_def)

text \<open>The descriptor arrays of a validated packet.\<close>

lemma array_mapped:
  assumes "mapped m p n" "56 + unat (o' :: u32) + e * k \<le> n" "r \<le> unat o'"
  shows "mapped m (p + 56 + of_nat r) (e * k)"
  by (rule mapped_part [OF assms(1), of "56 + r"]) (use assms(2,3) in \<open>simp_all add: add.assoc\<close>)

lemma unat_div4_le: "4 * unat ((x :: u32) div 4) \<le> unat x"
  by (simp add: unat_div_distrib)

text \<open>C35: After a validation has accepted a packet, the functions that read it stay inside the packet: finding
  the command space of the kernel, searching the IO configurations for a faulting buffer, and collecting the
  buffers for the simulator make no access outside the bytes that the validation was told about, whatever
  counts, offsets, indices and handles user space has written into the packet.\<close>

theorem validated_packet_safe:
  assumes "mapped m p (unat remain_len)" "cam_packet_util_validate_packet m p remain_len = Some 0"
  shows "cam_packet_util_get_kmd_buffer m p t \<noteq> None \<and>
    cam_packet_util_dump_io_bufs A p iommu_hdl sec_mmu_hdl res_id_support t m pf \<noteq> None \<and>
    cam_presil_retrieve_buffers_from_packet A p iommu_hdl out_res_id t m \<noteq> None \<and>
    cam_presil_send_buffers_from_packet send p iommu_hdl cdm_iommu_hdl m s \<noteq> None"
proof -
  have "valid_packet m p remain_len" using assms by (simp add: valid_packet_def)
  then obtain sz nc ni np co io po where "pkt_size m p = Some sz" and f: "pkt_num_cmd_buf m p = Some nc"
    "pkt_num_io_configs m p = Some ni" "pkt_num_patches m p = Some np" "pkt_cmd_buf_offset m p = Some co"
    "pkt_io_configs_offset m p = Some io" "pkt_patch_offset m p = Some po"
    and "p \<noteq> 0" and m: "mapped m p (unat sz)" and "unat sz \<le> unat remain_len"
    and b0: "56 + unat co + unat nc * 24 \<le> unat sz" "56 + unat io + unat ni * 256 \<le> unat sz"
    "56 + unat po + unat np * 16 \<le> unat sz"
    by (rule valid_packetE)
  have b: "56 + unat co + 24 * unat nc \<le> unat sz" "56 + unat io + 256 * unat ni \<le> unat sz"
    "56 + unat po + 16 * unat np \<le> unat sz" using b0 by (simp_all add: mult.commute)
  have hd: "mapped m p 56" using mapped_mono [OF m] b(1) by simp
  have cmds: "mapped m (p + 56 + ucast co) (24 * unat nc)" using array_mapped [OF m b(1) order_refl] by simp
  have ios: "mapped m (p + 56 + ucast io) (256 * unat ni)" using array_mapped [OF m b(2) order_refl] by simp
  have ios4: "mapped m (p + 56 + 4 * ucast (io div 4)) (256 * unat ni)"
    using array_mapped [OF m b(2) unat_div4_le] by simp
  have patches: "mapped m (p + 56 + ucast po) (16 * unat np)" using array_mapped [OF m b(3) order_refl] by simp
  have desc: "mapped m (cmd_desc_addr p co i) 24" if "i < nc" for i
    by (rule mapped_part [OF cmds, of "24 * unat i"]) (use that in \<open>simp_all add: word_less_nat_alt cmd_desc_addr_def\<close>)
  have "safe (cam_packet_util_get_kmd_buffer m p t)"
    unfolding cam_packet_util_get_kmd_buffer_def cam_packet_util_validate_cmd_desc_def f
    by (auto simp: not_le intro!: cmd_index_safe [OF hd] desc_safe desc)
  moreover have "safe (cam_packet_util_dump_io_bufs A p iommu_hdl sec_mmu_hdl res_id_support t m pf)"
    unfolding cam_packet_util_dump_io_bufs_def f by (auto intro!: dump_io_loop_safe [OF ios4 hd])
  moreover have "safe (cam_presil_retrieve_buffers_from_packet A p iommu_hdl out_res_id t m)"
    unfolding cam_presil_retrieve_buffers_from_packet_def f by (auto intro!: retrieve_loop_safe [OF ios])
  moreover have "safe (cam_presil_send_buffers_from_packet send p iommu_hdl cdm_iommu_hdl m s)"
    unfolding cam_presil_send_buffers_from_packet_def f
    using collect_io_safe [OF ios] collect_field_safe [of m _ 24 _ 0] collect_field_safe [of m _ 16 _ 8] cmds patches
    by auto
  ultimately show ?thesis by (simp add: safe_def)
qed

subsection \<open>Applying patches\<close>

text \<open>A patch descriptor as a value, and what one patch does when its descriptor is known: it is refused with
  a status, or it writes a word at an address. Neither the table of remembered buffers nor the memory takes
  part in it.\<close>

record patch_desc =
  pd_dst_hdl :: u32
  pd_dst_offset :: u32
  pd_src_hdl :: u32
  pd_src_offset :: u32

definition patch_target :: "'x mem_core \<Rightarrow> int \<Rightarrow> int \<Rightarrow> bool \<Rightarrow> 'x cam_mem_table \<Rightarrow> patch_desc \<Rightarrow> int + u64 \<times> u32" where
  "patch_target A iommu_hdl sec_mmu_hdl exp_mem t d =
     (let mmu = (if cam_mem_is_secure_buf (pd_src_hdl d) then sec_mmu_hdl else iommu_hdl);
          (rc, iova, src_len, flags) = cam_mem_get_io_buf A (pd_src_hdl d) mmu t;
          (rc', cpu_addr, dst_len) = cam_mem_get_cpu_buf (pd_dst_hdl d) t in
      if rc \<noteq> 0 then Inl rc
      else if unat src_len \<le> unat (pd_src_offset d) then Inl (- EINVAL)
      else if rc' \<noteq> 0 then Inl rc'
      else if dst_len = 0 then Inl 0
      else if unat dst_len < unat (pd_dst_offset d) + 8 then Inl (- EINVAL)
      else Inr (cpu_addr + ucast (pd_dst_offset d),
        patch_value (exp_mem \<and> smmu_expanded A (mt_core t)) flags (iova + ucast (pd_src_offset d))))"

fun write_targets :: "(int + u64 \<times> u32) list \<Rightarrow> kmem \<Rightarrow> (int \<times> kmem) option" where
  "write_targets [] m = Some (0, m)"
| "write_targets (Inl rc # ts) m = Some (rc, m)"
| "write_targets (Inr (a, v) # ts) m = do { m' \<leftarrow> store_u32 m a v; write_targets ts m' }"

definition read_patch :: "kmem \<Rightarrow> u64 \<Rightarrow> patch_desc \<Rightarrow> bool" where
  "read_patch m d pd \<longleftrightarrow> patch_dst_buf_hdl m d = Some (pd_dst_hdl pd) \<and> patch_dst_offset m d = Some (pd_dst_offset pd) \<and>
     patch_src_buf_hdl m d = Some (pd_src_hdl pd) \<and> patch_src_offset m d = Some (pd_src_offset pd)"

text \<open>The table of remembered buffers: an entry in use holds what the memory manager answers for its handle,
  and the entries behind the first free one are free.\<close>

definition remembers :: "'x mem_core \<Rightarrow> int \<Rightarrow> int \<Rightarrow> 'x cam_mem_table \<Rightarrow> cam_patch_unique_src_buf_tbl \<Rightarrow> bool" where
  "remembers A iommu_hdl sec_mmu_hdl t e \<longleftrightarrow> pt_hdl e \<noteq> 0 \<longrightarrow>
     cam_mem_get_io_buf A (pt_hdl e) (if cam_mem_is_secure_buf (pt_hdl e) then sec_mmu_hdl else iommu_hdl) t =
       (0, pt_iova e, pt_buf_size e, pt_flags e)"

definition tbl_ok :: "'x mem_core \<Rightarrow> int \<Rightarrow> int \<Rightarrow> 'x cam_mem_table \<Rightarrow> cam_patch_unique_src_buf_tbl list \<Rightarrow> bool" where
  "tbl_ok A iommu_hdl sec_mmu_hdl t tbl \<longleftrightarrow> (\<forall>e \<in> set tbl. remembers A iommu_hdl sec_mmu_hdl t e)"

lemma tbl_ok_update: "tbl_ok A i s t tbl \<Longrightarrow> remembers A i s t e \<Longrightarrow> tbl_ok A i s t (tbl[j := e])"
  unfolding tbl_ok_def using set_update_subset_insert [of tbl j e] by blast

lemma tbl_ok_zero: "tbl_ok A i s t zero_patch_tbl"
  by (simp add: tbl_ok_def zero_patch_tbl_def remembers_def)

lemma patch_scan_found:
  "patch_scan h tbl i = (True, j) \<Longrightarrow> i \<le> j \<and> j < i + length tbl \<and> pt_hdl (tbl ! (j - i)) = h"
proof (induction tbl arbitrary: i)
  case (Cons e es)
  then show ?case
    by (cases "h = pt_hdl e") (auto split: if_splits simp: nth_Cons' Suc_le_eq dest!: Cons.IH)
qed simp

lemma get_patch_iova_remembers:
  fixes A :: "'x mem_core"
  assumes "tbl_ok A iommu_hdl sec_mmu_hdl t tbl" "h \<noteq> 0"
    "mmu = (if cam_mem_is_secure_buf h then sec_mmu_hdl else iommu_hdl)"
    "cam_mem_get_io_buf A h mmu t = (rc, iova, len, flags)"
  shows "\<exists>iova' len' flags' tbl'. cam_packet_util_get_patch_iova A tbl mmu h t = (rc, iova', len', flags', tbl') \<and>
    (rc = 0 \<longrightarrow> iova' = iova \<and> len' = len \<and> flags' = flags \<and> tbl_ok A iommu_hdl sec_mmu_hdl t tbl')"
proof -
  obtain found j where scan: "patch_scan h tbl 0 = (found, j)" by fastforce
  show ?thesis
  proof (cases found)
    case True
    then have j: "j < length tbl" "pt_hdl (tbl ! j) = h" using patch_scan_found [of h tbl 0 j] scan by auto
    then have "remembers A iommu_hdl sec_mmu_hdl t (tbl ! j)" using assms(1) by (simp add: tbl_ok_def)
    then have "(rc, iova, len, flags) = (0, pt_iova (tbl ! j), pt_buf_size (tbl ! j), pt_flags (tbl ! j))"
      using j(2) assms(2-4) by (simp add: remembers_def)
    then show ?thesis using scan True assms(1) by (simp add: cam_packet_util_get_patch_iova_def)
  next
    case False
    let ?e = "\<lparr>pt_hdl = h, pt_iova = iova, pt_buf_size = len, pt_flags = flags\<rparr>"
    have "rc = 0 \<Longrightarrow> tbl_ok A iommu_hdl sec_mmu_hdl t (tbl[j := ?e])"
      using assms(2-4) by (intro tbl_ok_update [OF assms(1)]) (simp add: remembers_def)
    then show ?thesis using scan False assms(1,4) by (simp add: cam_packet_util_get_patch_iova_def)
  qed
qed

lemma room_iff: "unat (l :: u64) < unat (o' :: u32) + 8 \<longleftrightarrow> l < 8 \<or> l - 8 < ucast o'"
proof (cases "l < 8")
  case True
  then show ?thesis by (simp add: word_less_nat_alt)
next
  case False
  then have "8 \<le> l" by simp
  then have "unat (l - 8) = unat l - 8" by (simp add: unat_sub)
  moreover have "8 \<le> unat l" using \<open>8 \<le> l\<close> by (simp add: word_le_nat_alt)
  ultimately show ?thesis using False by (auto simp: word_less_nat_alt)
qed

lemma cpu_buf_outcome: "cam_mem_get_cpu_buf h t = (rc, a, l) \<Longrightarrow> rc < 0 \<or> rc = 0 \<and> a \<noteq> 0"
  by (auto simp: cam_mem_get_cpu_buf_def Let_def split: if_splits)

lemma patch_one_target:
  fixes A :: "'x mem_core"
  assumes "read_patch m d pd" "tbl_ok A iommu_hdl sec_mmu_hdl t tbl" "pd_src_hdl pd \<noteq> 0"
  shows "\<exists>tbl'. tbl_ok A iommu_hdl sec_mmu_hdl t tbl' \<and>
    (case patch_target A iommu_hdl sec_mmu_hdl exp_mem t pd of
       Inl rc \<Rightarrow> \<exists>tbl''. patch_one A d iommu_hdl sec_mmu_hdl exp_mem t tbl m = Some (Some rc, tbl'', m)
     | Inr (a, v) \<Rightarrow> patch_one A d iommu_hdl sec_mmu_hdl exp_mem t tbl m =
         map_option (\<lambda>m'. (None, tbl', m')) (store_u32 m a v))"
proof -
  let ?mmu = "if cam_mem_is_secure_buf (pd_src_hdl pd) then sec_mmu_hdl else iommu_hdl"
  obtain rc iova len flags where io: "cam_mem_get_io_buf A (pd_src_hdl pd) ?mmu t = (rc, iova, len, flags)"
    by (metis prod_cases4)
  obtain rc' cpu dst_len where cpu: "cam_mem_get_cpu_buf (pd_dst_hdl pd) t = (rc', cpu, dst_len)"
    by (metis prod_cases3)
  obtain iova' len' flags' tbl' where get: "cam_packet_util_get_patch_iova A tbl ?mmu (pd_src_hdl pd) t =
      (rc, iova', len', flags', tbl')"
    and same: "rc = 0 \<Longrightarrow> iova' = iova \<and> len' = len \<and> flags' = flags \<and> tbl_ok A iommu_hdl sec_mmu_hdl t tbl'"
    using get_patch_iova_remembers [OF assms(2,3) refl io] by blast
  note reads = assms(1) [unfolded read_patch_def]
  show ?thesis
  proof (cases "rc = 0")
    case False
    then show ?thesis using reads io get cpu assms(2)
      by (auto simp: patch_one_def patch_target_def Let_def)
  next
    case True
    then show ?thesis using reads io get cpu same [OF True] cpu_buf_outcome [OF cpu]
      by (intro exI [of _ tbl'])
        (auto simp: patch_one_def patch_target_def Let_def word_le_nat_alt room_iff map_option_case
          split: option.splits)
  qed
qed

text \<open>The patches of a packet, read before any of them is applied.\<close>

fun read_patches :: "kmem \<Rightarrow> u64 \<Rightarrow> nat \<Rightarrow> patch_desc list option" where
  "read_patches m d 0 = Some []"
| "read_patches m d (Suc k) = do {
     dst \<leftarrow> patch_dst_buf_hdl m d; dst_offset \<leftarrow> patch_dst_offset m d;
     src \<leftarrow> patch_src_buf_hdl m d; src_offset \<leftarrow> patch_src_offset m d;
     ds \<leftarrow> read_patches m (d + 16) k;
     Some (\<lparr>pd_dst_hdl = dst, pd_dst_offset = dst_offset, pd_src_hdl = src, pd_src_offset = src_offset\<rparr> # ds) }"

definition patches_of :: "kmem \<Rightarrow> u64 \<Rightarrow> patch_desc list option" where
  "patches_of m p = do {
     patch_offset \<leftarrow> pkt_patch_offset m p; num_patches \<leftarrow> pkt_num_patches m p;
     read_patches m (patch_desc_addr p patch_offset) (unat num_patches) }"

lemma read_patches_nth:
  "read_patches m d k = Some ds \<Longrightarrow> length ds = k \<and> (\<forall>i<k. read_patch m (d + of_nat (16 * i)) (ds ! i))"
proof (induction k arbitrary: d ds)
  case (Suc k)
  then show ?case
    by (auto simp: Option.bind_eq_Some_conv read_patch_def less_Suc_eq_0_disj algebra_simps dest!: Suc.IH)
qed simp

lemma read_patch_agree:
  assumes "agree m m' p n" "d = p + of_nat k" "k + 16 \<le> n"
  shows "read_patch m' d pd = read_patch m d pd"
proof -
  have "load_u32 m' (d + of_nat j) = load_u32 m (d + of_nat j)" if "j + 4 \<le> 16" for j
    using agree_load [OF assms(1), of "k + j"] assms(2,3) that by (simp add: add.assoc)
  from this [of 0] this [of 4] this [of 8] this [of 12] show ?thesis
    by (simp add: read_patch_def patch_dst_buf_hdl_def patch_dst_offset_def patch_src_buf_hdl_def patch_src_offset_def)
qed

text \<open>What the loop relies on: the count and the descriptors can be read where they lie in the packet of \<open>n\<close>
  bytes at \<open>p\<close>, and the words that the patches write are mapped and lie outside the packet.\<close>

definition patches_apart ::
  "'x mem_core \<Rightarrow> int \<Rightarrow> int \<Rightarrow> bool \<Rightarrow> 'x cam_mem_table \<Rightarrow> u64 \<Rightarrow> nat \<Rightarrow> patch_desc list \<Rightarrow> kmem \<Rightarrow> bool" where
  "patches_apart A iommu_hdl sec_mmu_hdl exp_mem t p n pds m \<longleftrightarrow>
     (\<forall>d \<in> set pds. pd_src_hdl d \<noteq> 0 \<and>
        (\<forall>a v. patch_target A iommu_hdl sec_mmu_hdl exp_mem t d = Inr (a, v) \<longrightarrow> mapped m a 4 \<and> outside a p n))"

definition packet_patches :: "u64 \<Rightarrow> nat \<Rightarrow> nat \<Rightarrow> patch_desc list \<Rightarrow> kmem \<Rightarrow> bool" where
  "packet_patches p n r pds m \<longleftrightarrow> pkt_num_patches m p = Some (of_nat (length pds)) \<and> length pds < 2 ^ 32 \<and>
     48 \<le> n \<and> r + 16 * length pds \<le> n \<and>
     (\<forall>i<length pds. read_patch m (p + of_nat r + of_nat (16 * i)) (pds ! i))"

lemma packet_patches_agree:
  assumes "packet_patches p n r pds m" "agree m m' p n"
  shows "packet_patches p n r pds m'"
proof -
  have "pkt_num_patches m' p = pkt_num_patches m p"
    using agree_load [OF assms(2), of 44] assms(1) by (simp add: packet_patches_def pkt_num_patches_def)
  moreover have "read_patch m' (p + of_nat r + of_nat (16 * i)) pd = read_patch m (p + of_nat r + of_nat (16 * i)) pd"
    if "i < length pds" for i pd
    by (rule read_patch_agree [OF assms(2), of _ "r + 16 * i"])
      (use assms(1) that in \<open>simp_all add: packet_patches_def\<close>)
  ultimately show ?thesis using assms(1) by (simp add: packet_patches_def)
qed

lemma patch_loop_writes:
  assumes "packet_patches p n r pds m" "patches_apart A iommu sec e t p n pds m" "tbl_ok A iommu sec t tbl"
    "i \<le> length pds" "length pds - i < fuel"
  shows "\<exists>rc m'. patch_loop A fuel i p (p + of_nat r) iommu sec e t tbl m = Some (rc, m') \<and>
    write_targets (map (patch_target A iommu sec e t) (drop i pds)) m = Some (rc, m')"
  using assms
proof (induction fuel arbitrary: i m tbl)
  case (Suc fuel)
  note P = Suc.prems(1) [unfolded packet_patches_def]
  have less: "(of_nat i :: u32) < of_nat (length pds) \<longleftrightarrow> i < length pds"
  proof -
    have "unat (of_nat i :: u32) = i" "unat (of_nat (length pds) :: u32) = length pds"
      using P Suc.prems(4) by (auto intro!: unat_of_nat_small)
    then show ?thesis by (simp only: word_less_nat_alt)
  qed
  show ?case
  proof (cases "i < length pds")
    case True
    let ?d = "pds ! i"
    have here: "drop i pds = ?d # drop (Suc i) pds" by (rule Cons_nth_drop_Suc [OF True, symmetric])
    have rd: "read_patch m (p + of_nat r + of_nat (16 * i)) ?d" using P True by blast
    have d: "?d \<in> set pds" using True by simp
    then have nz: "pd_src_hdl ?d \<noteq> 0" using Suc.prems(2) by (simp add: patches_apart_def)
    obtain tbl' where tbl': "tbl_ok A iommu sec t tbl'" and one:
      "case patch_target A iommu sec e t ?d of
         Inl rc \<Rightarrow> \<exists>tbl''. patch_one A (p + of_nat r + of_nat (16 * i)) iommu sec e t tbl m = Some (Some rc, tbl'', m)
       | Inr (a, v) \<Rightarrow> patch_one A (p + of_nat r + of_nat (16 * i)) iommu sec e t tbl m =
           map_option (\<lambda>m'. (None, tbl', m')) (store_u32 m a v)"
      using patch_one_target [OF rd Suc.prems(3) nz] by blast
    show ?thesis
    proof (cases "patch_target A iommu sec e t ?d")
      case (Inl rc)
      then show ?thesis using one P True less by (auto simp: here)
    next
      case (Inr av)
      then obtain a v where av: "patch_target A iommu sec e t ?d = Inr (a, v)" by (cases av) auto
      then have "mapped m a 4" "outside a p n" using Suc.prems(2) d by (auto simp: patches_apart_def)
      then obtain m1 where m1: "store_u32 m a v = Some m1" using store_u32_mapped by blast
      have pp: "packet_patches p n r pds m1"
        by (rule packet_patches_agree [OF Suc.prems(1) agree_store [OF m1 \<open>outside a p n\<close>]])
      have pa: "patches_apart A iommu sec e t p n pds m1"
        using Suc.prems(2) store_u32_keeps_mapped [OF m1] by (simp add: patches_apart_def)
      have "i + 1 \<le> length pds" "length pds - (i + 1) < fuel" using True Suc.prems(5) by simp_all
      from Suc.IH [OF pp pa tbl' this] show ?thesis
        using one av m1 P True less by (simp add: here)
    qed
  qed (use P Suc.prems(4) less in simp)
qed simp

lemma validated_packet_patches:
  assumes "valid_packet m p remain_len" "pkt_size m p = Some sz" "patches_of m p = Some pds"
  shows "\<exists>r po. pkt_patch_offset m p = Some po \<and> patch_desc_addr p po = p + of_nat r \<and>
    packet_patches p (unat sz) r pds m"
proof -
  from assms(1) obtain sz' nc ni np co io po where "pkt_size m p = Some sz'" "pkt_num_cmd_buf m p = Some nc"
    "pkt_num_io_configs m p = Some ni" and np: "pkt_num_patches m p = Some np" and "pkt_cmd_buf_offset m p = Some co"
    "pkt_io_configs_offset m p = Some io" and po: "pkt_patch_offset m p = Some po"
    and "p \<noteq> 0" "mapped m p (unat sz')" "unat sz' \<le> unat remain_len"
    "56 + unat co + unat nc * 24 \<le> unat sz'" "56 + unat io + unat ni * 256 \<le> unat sz'"
    and b: "56 + unat po + unat np * 16 \<le> unat sz'"
    by (rule valid_packetE)
  then have sz: "sz' = sz" using assms(2) by simp
  define r where "r = 56 + 4 * unat (po div 4)"
  have r: "patch_desc_addr p po = p + of_nat r" by (simp add: patch_desc_addr_def r_def)
  have "read_patches m (p + of_nat r) (unat np) = Some pds" using assms(3) np po r by (simp add: patches_of_def)
  from read_patches_nth [OF this]
  have "packet_patches p (unat sz) r pds m"
    using b np sz u32_bound [of np] unat_div4_le [of po] by (auto simp: packet_patches_def r_def)
  then show ?thesis using po r by blast
qed

lemma process_patches_run:
  assumes "valid_packet m p remain_len" "pkt_size m p = Some sz" "patches_of m p = Some pds"
    "patches_apart A iommu_hdl sec_mmu_hdl exp_mem t p (unat sz) pds m" "length pds < fuel"
  obtains rc m' where "cam_packet_util_process_patches A fuel p iommu_hdl sec_mmu_hdl exp_mem t m = Some (rc, m')"
    "write_targets (map (patch_target A iommu_hdl sec_mmu_hdl exp_mem t) pds) m = Some (rc, m')"
proof -
  obtain r po where "pkt_patch_offset m p = Some po" "patch_desc_addr p po = p + of_nat r"
    "packet_patches p (unat sz) r pds m" using validated_packet_patches [OF assms(1-3)] by blast
  then show thesis using that patch_loop_writes [OF _ assms(4) tbl_ok_zero le0, of r fuel] assms(5)
    by (auto simp: cam_packet_util_process_patches_def)
qed


text \<open>After a run of patches without overlaps each patched word has its value, and the other bytes are as they
  were.\<close>

abbreviation no_overlap :: "int + u64 \<times> u32 \<Rightarrow> int + u64 \<times> u32 \<Rightarrow> bool" where
  "no_overlap t1 t2 \<equiv> (case (t1, t2) of (Inr (a, v), Inr (a', v')) \<Rightarrow> outside a' a 4 | _ \<Rightarrow> True)"

lemma write_targets_frame:
  assumes "write_targets ts m = Some (rc, m')" "\<And>a v. Inr (a, v) \<in> set ts \<Longrightarrow> outside a b n"
  shows "agree m m' b n"
  using assms
proof (induction ts m rule: write_targets.induct)
  case (3 a v ts m)
  then obtain m1 where m1: "store_u32 m a v = Some m1" "write_targets ts m1 = Some (rc, m')"
    by (auto simp: Option.bind_eq_Some_conv)
  have "agree m1 m' b n" by (rule "3.IH" [OF m1]) (use 3(3) in auto)
  moreover have "agree m m1 b n" by (rule agree_store [OF m1(1)]) (rule 3(3) [of a v], simp)
  ultimately show ?case by (rule agree_trans [rotated])
qed auto

lemma write_targets_values:
  assumes "write_targets ts m = Some (0, m')" "sorted_wrt no_overlap ts" "\<And>x. x \<in> set ts \<Longrightarrow> x \<noteq> Inl 0"
    "x \<in> set ts"
  shows "\<exists>a v. x = Inr (a, v) \<and> load_u32 m' a = Some v"
  using assms
proof (induction ts m rule: write_targets.induct)
  case (3 a v ts m)
  then obtain m1 where m1: "store_u32 m a v = Some m1" "write_targets ts m1 = Some (0, m')"
    by (auto simp: Option.bind_eq_Some_conv)
  show ?case
  proof (cases "x = Inr (a, v)")
    case True
    have "agree m1 m' a 4" by (rule write_targets_frame [OF m1(2)]) (use 3(3) in auto)
    then show ?thesis using agree_load [of m1 m' a 4 0] load_store_u32 [OF m1(1)] True by simp
  next
    case False
    show ?thesis by (rule "3.IH" [OF m1]) (use 3 False in auto)
  qed
qed auto

text \<open>After a successful run of patches that do not overlap, every patched word holds the low 32 bits of
  the device address of its source, shifted where the device takes 36-bit addresses, and every byte that no
  patch names is unchanged.\<close>

theorem patched_words:
  assumes "mapped m p (unat remain_len)" "cam_packet_util_validate_packet m p remain_len = Some 0"
    "pkt_size m p = Some sz" "patches_of m p = Some pds"
    "patches_apart A iommu_hdl sec_mmu_hdl exp_mem t p (unat sz) pds m" "length pds < fuel"
    "sorted_wrt no_overlap (map (patch_target A iommu_hdl sec_mmu_hdl exp_mem t) pds)"
    "Inl 0 \<notin> patch_target A iommu_hdl sec_mmu_hdl exp_mem t ` set pds"
    "cam_packet_util_process_patches A fuel p iommu_hdl sec_mmu_hdl exp_mem t m = Some (0, m')"
  shows "(\<forall>d \<in> set pds. \<exists>a v. patch_target A iommu_hdl sec_mmu_hdl exp_mem t d = Inr (a, v) \<and> load_u32 m' a = Some v) \<and>
    (\<forall>x. (\<forall>d \<in> set pds. \<forall>a v. patch_target A iommu_hdl sec_mmu_hdl exp_mem t d = Inr (a, v) \<longrightarrow> outside a x 1) \<longrightarrow>
       m' x = m x)"
proof -
  let ?ts = "map (patch_target A iommu_hdl sec_mmu_hdl exp_mem t) pds"
  have "valid_packet m p remain_len" using assms(1,2) by (simp add: valid_packet_def)
  then have run: "write_targets ?ts m = Some (0, m')"
    using process_patches_run [OF _ assms(3-6)] assms(9) by (metis Pair_inject option.inject)
  have "\<exists>a v. x = Inr (a, v) \<and> load_u32 m' a = Some v" if "x \<in> set ?ts" for x
    by (rule write_targets_values [OF run assms(7) _ that]) (use assms(8) in \<open>metis set_map\<close>)
  moreover have "m' x = m x" if "\<forall>d \<in> set pds. \<forall>a v. patch_target A iommu_hdl sec_mmu_hdl exp_mem t d = Inr (a, v) \<longrightarrow> outside a x 1" for x
  proof -
    have "agree m m' x 1" by (rule write_targets_frame [OF run]) (use that in \<open>metis image_iff set_map\<close>)
    then show ?thesis by (simp add: agree_def)
  qed
  ultimately show ?thesis by auto
qed

subsection \<open>Runs on a small packet\<close>

text \<open>The buffer of the demonstration table, with a packet of one command descriptor and one patch at its
  start: the patch writes the device address of byte 16 of the buffer into the word at byte 512.\<close>

definition demo_packet_words :: "u32 list" where
  "demo_packet_words =
     [0, 96, 7, 0, 0, 0,  0, 1,  0, 0,  24, 1,  0, 8,
      0x20001, 256, 64, 32, 0, 0,
      0x20001, 512, 0x20001, 16]"

definition demo_memory :: kmem where
  "demo_memory = words_at 0x640000 (demo_packet_words @ replicate 1000 0)"

lemma load_padded:
  assumes "unat (a - base) mod 4 = 0" "unat (a - base) div 4 < length ws + n" "length ws + n < 2 ^ 60"
  shows "load_u32 (words_at base (ws @ replicate n 0)) a =
    Some (if unat (a - base) div 4 < length ws then ws ! (unat (a - base) div 4) else 0)"
proof -
  have "load_u32 (words_at base (ws @ replicate n 0)) a = Some ((ws @ replicate n 0) ! (unat (a - base) div 4))"
    by (rule load_words) (use assms in simp_all)
  then show ?thesis using assms(2) by (auto simp: nth_append)
qed

lemma demo_load:
  assumes "unat (a - 0x640000) mod 4 = 0" "unat (a - 0x640000) div 4 < 1024"
  shows "load_u32 demo_memory a =
    Some (if unat (a - 0x640000) div 4 < 24 then demo_packet_words ! (unat (a - 0x640000) div 4) else 0)"
proof -
  have len24: "length demo_packet_words = 24" by (simp add: demo_packet_words_def)
  show ?thesis using load_padded [OF assms(1), of demo_packet_words 1000] assms(2)
    unfolding demo_memory_def len24 by simp
qed

lemma demo_memory_mapped: "mapped demo_memory 0x640000 4096"
  using words_mapped [of "demo_packet_words @ replicate 1000 0" "0x640000"]
  by (simp add: demo_memory_def demo_packet_words_def)

lemmas demo_reads = demo_load demo_packet_words_def pkt_size_def pkt_num_cmd_buf_def pkt_num_io_configs_def
  pkt_num_patches_def pkt_cmd_buf_offset_def pkt_io_configs_offset_def pkt_patch_offset_def
  pkt_kmd_cmd_buf_index_def pkt_kmd_cmd_buf_offset_def

lemma demo_valid: "cam_packet_util_validate_packet demo_memory 0x640000 4096 = Some 0"
  by (simp add: cam_packet_util_validate_packet_def demo_reads)

theorem validated_packet_safe_witness:
  "cam_packet_util_get_kmd_buffer demo_memory 0x640000 demo_table \<noteq> None"
  by (rule conjunct1 [OF validated_packet_safe [OF _ demo_valid]]) (simp add: demo_memory_mapped)

definition demo_patch :: patch_desc where
  "demo_patch = \<lparr>pd_dst_hdl = 0x20001, pd_dst_offset = 512, pd_src_hdl = 0x20001, pd_src_offset = 16\<rparr>"

lemma demo_cpu_buf: "cam_mem_get_cpu_buf 0x20001 demo_table = (0, 0x640000, 4096)"
  by (simp add: cam_mem_get_cpu_buf_def demo_table_sel demo_entry_def demo_handle_def CAM_MEM_MGR_GET_HDL_IDX_def
      has_flag_def Let_def)

lemma demo_io_buf: "cam_mem_get_io_buf (log_core 0 0) 0x20001 7 demo_table = (0, 409600, 4096, 0x9)"
  by (simp add: cam_mem_get_io_buf_def demo_table_sel demo_entry_def demo_handle_def CAM_MEM_MGR_GET_HDL_IDX_def
      CAM_MEM_MGR_IS_SECURE_HDL_def log_core_def Let_def)

lemma demo_target:
  "patch_target (log_core 0 0) 7 7 False demo_table demo_patch = Inr (0x640200, 409616)"
  by (simp add: patch_target_def demo_patch_def demo_cpu_buf demo_io_buf patch_value_def)

lemma demo_patches: "patches_of demo_memory 0x640000 = Some [demo_patch]"
  by (simp add: patches_of_def patch_desc_addr_def demo_reads patch_dst_buf_hdl_def patch_dst_offset_def
      patch_src_buf_hdl_def patch_src_offset_def demo_patch_def)

lemma demo_apart: "patches_apart (log_core 0 0) 7 7 False demo_table 0x640000 96 [demo_patch] demo_memory"
proof -
  have "mapped demo_memory 0x640200 4" by (rule mapped_part [OF demo_memory_mapped, of 512]) simp_all
  moreover have "outside 0x640200 0x640000 96"
  proof (unfold outside_def, intro allI impI)
    fix j k :: nat
    assume "j < 4" "k < 96"
    then have "unat (of_nat (512 + j) :: u64) \<noteq> unat (of_nat k :: u64)"
      by (subst (1 2) unat_of_nat_small) simp_all
    then have "(of_nat (512 + j) :: u64) \<noteq> of_nat k" by auto
    then show "(0x640200 :: u64) + of_nat j \<noteq> 0x640000 + of_nat k" by (auto simp: algebra_simps)
  qed
  ultimately show ?thesis by (simp add: patches_apart_def demo_target) (simp add: demo_patch_def)
qed


theorem patched_words_witness:
  "\<exists>m'. cam_packet_util_process_patches (log_core 0 0) 2 0x640000 7 7 False demo_table demo_memory = Some (0, m') \<and>
     load_u32 m' 0x640200 = Some 409616"
proof -
  have sz: "pkt_size demo_memory 0x640000 = Some 96" by (simp add: demo_reads)
  obtain m1 where m1: "store_u32 demo_memory 0x640200 409616 = Some m1"
    using mapped_part [OF demo_memory_mapped, of 512 4 "0x640200"] store_u32_mapped by fastforce
  have run: "cam_packet_util_process_patches (log_core 0 0) 2 0x640000 7 7 False demo_table demo_memory = Some (0, m1)"
    using process_patches_run [OF _ sz demo_patches, of 4096 "log_core 0 0" 7 7 False demo_table 2]
      demo_memory_mapped demo_apart demo_valid m1
    by (fastforce simp: demo_target valid_packet_def)
  show ?thesis
    using patched_words [OF _ demo_valid sz demo_patches _ _ _ _ run] demo_memory_mapped demo_apart run
    by (auto simp: demo_target)
qed

subsection \<open>A packet that patches itself\<close>

text \<open>A packet of 72 bytes at the end of the same buffer, whose only patch names the count of patches in the
  header of the packet as its destination.\<close>

definition tail_packet_words :: "u32 list" where
  "tail_packet_words = [0, 72, 7, 0, 0, 0,  0, 0,  0, 0,  0, 1,  0, 0,  0x20001, 4068, 0x20001, 16]"

definition tail_memory :: kmem where
  "tail_memory = words_at 0x640000 (replicate 1006 0 @ tail_packet_words)"

definition tail_patch :: patch_desc where
  "tail_patch = \<lparr>pd_dst_hdl = 0x20001, pd_dst_offset = 4068, pd_src_hdl = 0x20001, pd_src_offset = 16\<rparr>"

lemma tail_load:
  assumes "unat (a - 0x640000) mod 4 = 0" "1006 \<le> unat (a - 0x640000) div 4" "unat (a - 0x640000) div 4 < 1024"
  shows "load_u32 tail_memory a = Some (tail_packet_words ! (unat (a - 0x640000) div 4 - 1006))"
proof -
  have len: "length (replicate 1006 0 @ tail_packet_words) = 1024" by (simp add: tail_packet_words_def)
  have "load_u32 tail_memory a = Some ((replicate 1006 0 @ tail_packet_words) ! (unat (a - 0x640000) div 4))"
    unfolding tail_memory_def by (rule load_words) (use assms len in simp_all)
  then show ?thesis using assms(2) by (simp add: nth_append)
qed

lemma tail_memory_mapped: "mapped tail_memory 0x640000 4096"
  using words_mapped [of "replicate 1006 0 @ tail_packet_words" "0x640000"]
  by (simp add: tail_memory_def tail_packet_words_def)

lemmas tail_reads = tail_load tail_packet_words_def pkt_size_def pkt_num_cmd_buf_def pkt_num_io_configs_def
  pkt_num_patches_def pkt_cmd_buf_offset_def pkt_io_configs_offset_def pkt_patch_offset_def

lemma tail_read_patch: "read_patch tail_memory 0x640FF0 tail_patch"
  by (simp add: read_patch_def tail_reads patch_dst_buf_hdl_def patch_dst_offset_def patch_src_buf_hdl_def
      patch_src_offset_def tail_patch_def)

lemma tail_target: "patch_target (log_core 0 0) 7 7 False demo_table tail_patch = Inr (0x640FE4, 409616)"
  by (simp add: patch_target_def tail_patch_def demo_cpu_buf demo_io_buf patch_value_def)

lemma tail_store:
  obtains m1 where "store_u32 tail_memory 0x640FE4 409616 = Some m1"
  using mapped_part [OF tail_memory_mapped, of 4068 4 "0x640FE4"] store_u32_mapped by fastforce

lemma tail_next_patch:
  assumes "store_u32 tail_memory 0x640FE4 409616 = Some m1"
  shows "patch_one A 0x641000 i s e t tbl m1 = None"
proof -
  have "load_u32 tail_memory 0x641008 = None"
    unfolding tail_memory_def by (rule load_beyond_words) (simp add: tail_packet_words_def)
  then have "\<not> mapped m1 0x641008 4"
    using load_u32_mapped store_u32_keeps_mapped [OF assms] by blast
  then have "load_u32 m1 0x641008 = None" using load_u32_mapped by blast
  then show ?thesis by (simp add: patch_one_def patch_src_buf_hdl_def)
qed

lemma tail_loop: "patch_loop (log_core 0 0) fuel 0 0x640FB8 0x640FF0 7 7 False demo_table zero_patch_tbl tail_memory = None"
proof (cases fuel)
  case (Suc k)
  obtain m1 where m1: "store_u32 tail_memory 0x640FE4 409616 = Some m1" by (rule tail_store)
  have nz: "pd_src_hdl tail_patch \<noteq> 0" by (simp add: tail_patch_def)
  obtain tbl' where one: "patch_one (log_core 0 0) 0x640FF0 7 7 False demo_table zero_patch_tbl tail_memory =
      Some (None, tbl', m1)"
    using patch_one_target [OF tail_read_patch tbl_ok_zero nz, of "log_core 0 0" 7 7 demo_table False] m1
    by (auto simp: tail_target)
  have count: "pkt_num_patches m1 0x640FB8 = Some 409616"
    using load_store_u32 [OF m1] by (simp add: pkt_num_patches_def)
  have "patch_loop (log_core 0 0) k 1 0x640FB8 0x640FF0 7 7 False demo_table tbl' m1 = None"
    by (cases k) (simp_all add: count tail_next_patch [OF m1])
  then show ?thesis using one Suc by (simp add: tail_reads)
qed simp

text \<open>The loop over the patches reads the count of patches again in every round, after the patches before
  have been written, so a validated packet can patch its own count: in a buffer that is mapped as a whole,
  a packet with one patch makes the loop go on behind the end of the packet and of the buffer. However much
  fuel it is given, the run ends in an access outside mapped memory.\<close>

theorem packet_patches_its_own_count:
  "mapped tail_memory 0x640000 4096 \<and> cam_packet_util_validate_packet tail_memory 0x640FB8 72 = Some 0 \<and>
   pkt_num_patches tail_memory 0x640FB8 = Some 1 \<and>
   (\<exists>m1. store_u32 tail_memory 0x640FE4 409616 = Some m1 \<and> pkt_num_patches m1 0x640FB8 = Some 409616) \<and>
   (\<forall>fuel. cam_packet_util_process_patches (log_core 0 0) fuel 0x640FB8 7 7 False demo_table tail_memory = None)"
proof (intro conjI allI)
  show "mapped tail_memory 0x640000 4096" by (rule tail_memory_mapped)
  show "cam_packet_util_validate_packet tail_memory 0x640FB8 72 = Some 0"
    by (simp add: cam_packet_util_validate_packet_def tail_reads)
  show "pkt_num_patches tail_memory 0x640FB8 = Some 1" by (simp add: tail_reads)
  obtain m1 where "store_u32 tail_memory 0x640FE4 409616 = Some m1" by (rule tail_store)
  then show "\<exists>m1. store_u32 tail_memory 0x640FE4 409616 = Some m1 \<and> pkt_num_patches m1 0x640FB8 = Some 409616"
    using load_store_u32 by (fastforce simp: pkt_num_patches_def)
  show "cam_packet_util_process_patches (log_core 0 0) fuel 0x640FB8 7 7 False demo_table tail_memory = None" for fuel
    using tail_loop by (simp add: cam_packet_util_process_patches_def tail_reads patch_desc_addr_def)
qed

end
