(* ===== verification/Cam_Packet_Cmds.thy ===== *)
theory Cam_Packet_Cmds
  imports Cam_Packet_Props
begin

unbundle bit_operations_syntax

section \<open>Command buffers of packets\<close>

text \<open>
  The command space of the kernel that a packet names, the walk over the blobs of a generic command buffer,
  and the list of buffers for the simulator. The walk is compared with an encoder of blob lists.
\<close>

subsection \<open>The command space of the kernel\<close>

lemma cmd_mem_addr_ok:
  "cam_packet_util_get_cmd_mem_addr h t = (0, a, l) \<Longrightarrow> cam_mem_get_cpu_buf h t = (0, a, l) \<and> l \<noteq> 0"
  by (auto simp: cam_packet_util_get_cmd_mem_addr_def split: prod.splits if_splits)

lemma validate_cmd_desc_ok:
  "cam_packet_util_validate_cmd_desc m d = Some 0 \<Longrightarrow>
   \<exists>len sz h. desc_length m d = Some len \<and> desc_size m d = Some sz \<and> desc_mem_handle m d = Some h \<and> len \<le> sz \<and> 0 < sint h"
  by (auto simp: cam_packet_util_validate_cmd_desc_def Option.bind_eq_Some_conv not_less split: if_splits)

lemma unat_div_u32: "unat ((x :: u32) div 4) = unat x div 4"
  by (simp add: unat_div_distrib)

lemma unat_quad: "unat (4 * ucast (x :: u32) :: u64) = 4 * unat x"
proof -
  have "unat (of_nat (4 * unat x) :: u64) = 4 * unat x" by (rule unat_of_nat_small) (use u32_bound [of x] in simp)
  then show ?thesis by simp
qed

lemma get_kmd_buffer_ok:
  assumes "cam_packet_util_get_kmd_buffer m p t = Some (0, Some k)"
  shows "\<exists>i co off kmd sz len a l h. pkt_kmd_cmd_buf_index m p = Some i \<and> pkt_cmd_buf_offset m p = Some co \<and>
    desc_length m (cmd_desc_addr p co i) = Some len \<and> desc_size m (cmd_desc_addr p co i) = Some sz \<and>
    desc_offset m (cmd_desc_addr p co i) = Some off \<and> pkt_kmd_cmd_buf_offset m p = Some kmd \<and> len \<le> sz \<and>
    cam_packet_util_get_cmd_mem_addr h t = (0, a, l) \<and>
    ucast off < l \<and> ucast sz \<le> l - ucast off \<and> ucast kmd < l - ucast off \<and>
    k = \<lparr>kmd_handle = h, kmd_cpu_addr = a + 4 * ucast (off div 4 + kmd div 4), kmd_offset = off + kmd,
      kmd_size = sz - len, kmd_used_bytes = 0\<rparr>"
  using assms unfolding cam_packet_util_get_kmd_buffer_def Let_def
  by (auto simp: Option.bind_eq_Some_conv not_le not_less split: if_split_asm dest!: validate_cmd_desc_ok)
    (auto simp: Option.bind_eq_Some_conv not_le not_less split: if_split_asm prod.split_asm)

text \<open>When the command space of the kernel is found, it starts inside the buffer of the descriptor that the
  packet selects, at the offsets that descriptor and packet give, each rounded down to a word; the part of
  the descriptor lies in the buffer, and the size that is reported is the part that user space has not
  used.\<close>

theorem kmd_buffer_inside:
  assumes "cam_packet_util_get_kmd_buffer m p t = Some (0, Some k)"
  shows "\<exists>i co off kmd sz len a l. pkt_kmd_cmd_buf_index m p = Some i \<and> pkt_cmd_buf_offset m p = Some co \<and>
    desc_offset m (cmd_desc_addr p co i) = Some off \<and> desc_size m (cmd_desc_addr p co i) = Some sz \<and>
    desc_length m (cmd_desc_addr p co i) = Some len \<and> pkt_kmd_cmd_buf_offset m p = Some kmd \<and>
    cam_mem_get_cpu_buf (kmd_handle k) t = (0, a, l) \<and>
    unat off + unat kmd < unat l \<and> unat off + unat sz \<le> unat l \<and>
    unat (kmd_cpu_addr k - a) = 4 * (unat off div 4) + 4 * (unat kmd div 4) \<and>
    unat (kmd_size k) + unat len = unat sz \<and> kmd_used_bytes k = 0"
proof -
  obtain i co off kmd sz len a l h where i: "pkt_kmd_cmd_buf_index m p = Some i" and co: "pkt_cmd_buf_offset m p = Some co"
    and d: "desc_length m (cmd_desc_addr p co i) = Some len" "desc_size m (cmd_desc_addr p co i) = Some sz"
    "desc_offset m (cmd_desc_addr p co i) = Some off" and kmd: "pkt_kmd_cmd_buf_offset m p = Some kmd" and "len \<le> sz"
    and addr: "cam_packet_util_get_cmd_mem_addr h t = (0, a, l)"
    and ok: "ucast off < l" "ucast sz \<le> l - ucast off" "ucast kmd < l - ucast off"
    and kb: "k = \<lparr>kmd_handle = h, kmd_cpu_addr = a + 4 * ucast (off div 4 + kmd div 4), kmd_offset = off + kmd,
        kmd_size = sz - len, kmd_used_bytes = 0\<rparr>"
    using get_kmd_buffer_ok [OF assms] by blast
  have buf: "cam_mem_get_cpu_buf h t = (0, a, l)" using cmd_mem_addr_ok [OF addr] by simp
  have sub: "unat (l - ucast off) = unat l - unat off" using ok(1) by (simp add: unat_sub)
  have off: "unat off < unat l" "unat off + unat sz \<le> unat l" "unat off + unat kmd < unat l"
    using ok sub by (auto simp: word_less_nat_alt word_le_nat_alt)
  have "unat (4 * ucast (off div 4 + kmd div 4) :: u64) = 4 * (unat off div 4) + 4 * (unat kmd div 4)"
  proof -
    have "off div 4 + kmd div 4 = of_nat (unat off div 4 + unat kmd div 4)"
      by (simp flip: unat_div_u32)
    moreover have "unat (of_nat (unat off div 4 + unat kmd div 4) :: u32) = unat off div 4 + unat kmd div 4"
      by (rule unat_of_nat_small) (use u32_bound [of off] u32_bound [of kmd] in simp)
    ultimately have "unat (off div 4 + kmd div 4) = unat off div 4 + unat kmd div 4" by (simp only:)
    then show ?thesis by (simp add: unat_quad)
  qed
  moreover have "unat (sz - len) + unat len = unat sz" using \<open>len \<le> sz\<close> by (simp add: unat_sub word_le_nat_alt)
  ultimately show ?thesis using i co d kmd buf off kb by fastforce
qed

lemma demo_cmd_mem: "cam_packet_util_get_cmd_mem_addr 0x20001 demo_table = (0, 0x640000, 4096)"
  by (simp add: cam_packet_util_get_cmd_mem_addr_def demo_cpu_buf)

lemmas kmd_run = cam_packet_util_get_kmd_buffer_def cam_packet_util_validate_cmd_desc_def cmd_desc_addr_def
  desc_mem_handle_def desc_offset_def desc_size_def desc_length_def demo_cmd_mem Let_def

definition demo_kmd :: cam_kmd_buf_info where
  "demo_kmd = \<lparr>kmd_handle = 0x20001, kmd_cpu_addr = 0x640108, kmd_offset = 264, kmd_size = 32, kmd_used_bytes = 0\<rparr>"

lemma demo_kmd_run: "cam_packet_util_get_kmd_buffer demo_memory 0x640000 demo_table = Some (0, Some demo_kmd)"
  by (simp add: kmd_run demo_reads demo_kmd_def)

theorem kmd_buffer_inside_witness:
  "kmd_handle demo_kmd = 0x20001 \<and> unat (kmd_cpu_addr demo_kmd - 0x640000) = 264 \<and>
   (\<exists>sz len. unat (kmd_size demo_kmd) + unat (len :: u32) = unat (sz :: u32))"
  using kmd_buffer_inside [OF demo_kmd_run] by (auto simp: demo_kmd_def)

definition wide_memory :: kmem where
  "wide_memory = words_at 0x640000
     ([0, 80, 7, 0, 0, 0,  0, 1,  0, 0,  24, 0,  0, 3836, 0x20001, 256, 3840, 0, 0, 0] @ replicate 1004 0)"

definition wide_kmd :: cam_kmd_buf_info where
  "wide_kmd = \<lparr>kmd_handle = 0x20001, kmd_cpu_addr = 0x640FFC, kmd_offset = 4092, kmd_size = 3840, kmd_used_bytes = 0\<rparr>"

text \<open>The size of the command space does not take the offset into it into account: for a packet with the
  whole rest of a buffer as its descriptor and an offset to the last word of the buffer, the command space
  that is reported starts in that word and has 3840 bytes, and only 4 of them lie in the buffer.\<close>

theorem kmd_size_ignores_offset:
  "cam_packet_util_validate_packet wide_memory 0x640000 4096 = Some 0 \<and>
   cam_packet_util_get_kmd_buffer wide_memory 0x640000 demo_table = Some (0, Some wide_kmd) \<and>
   cam_mem_get_cpu_buf (kmd_handle wide_kmd) demo_table = (0, 0x640000, 4096) \<and>
   unat (kmd_cpu_addr wide_kmd - 0x640000) + 4 = 4096 \<and> unat (kmd_size wide_kmd) = 3840"
proof -
  have rd: "load_u32 wide_memory a = Some (if unat (a - 0x640000) div 4 < 20 then
      [0, 80, 7, 0, 0, 0,  0, 1,  0, 0,  24, 0,  0, 3836, 0x20001, 256, 3840, 0, 0, 0] ! (unat (a - 0x640000) div 4) else 0)"
    if "unat (a - 0x640000) mod 4 = 0" "unat (a - 0x640000) div 4 < 1024" for a
    using load_padded [OF that(1), of "[0, 80, 7, 0, 0, 0,  0, 1,  0, 0,  24, 0,  0, 3836, 0x20001, 256, 3840, 0, 0, 0]" 1004]
      that(2) by (simp add: wide_memory_def)
  note reads = rd pkt_size_def pkt_num_cmd_buf_def pkt_num_io_configs_def pkt_num_patches_def pkt_cmd_buf_offset_def
    pkt_io_configs_offset_def pkt_patch_offset_def pkt_kmd_cmd_buf_index_def pkt_kmd_cmd_buf_offset_def
  have "cam_packet_util_validate_packet wide_memory 0x640000 4096 = Some 0"
    by (simp add: cam_packet_util_validate_packet_def reads)
  moreover have "cam_packet_util_get_kmd_buffer wide_memory 0x640000 demo_table = Some (0, Some wide_kmd)"
    by (simp add: kmd_run reads wide_kmd_def)
  ultimately show ?thesis by (simp add: wide_kmd_def demo_cpu_buf)
qed

subsection \<open>Generic command buffers\<close>

text \<open>The encoding of a list of blobs: a header word with the type in the low byte and the size in bytes above
  it, then the data in whole words.\<close>

record blob =
  blob_type :: u8
  blob_bytes :: u32
  blob_data :: "u32 list"

definition blob_header :: "blob \<Rightarrow> u32" where
  "blob_header b = ucast (blob_type b) OR push_bit 8 (blob_bytes b)"

definition blob_ok :: "blob \<Rightarrow> bool" where
  "blob_ok b \<longleftrightarrow> unat (blob_bytes b) < 2 ^ 24 \<and> length (blob_data b) = (unat (blob_bytes b) + 3) div 4"

definition encode_blobs :: "blob list \<Rightarrow> u32 list" where
  "encode_blobs bs = concat (map (\<lambda>b. blob_header b # blob_data b) bs)"

definition holds_words :: "kmem \<Rightarrow> u64 \<Rightarrow> u32 list \<Rightarrow> bool" where
  "holds_words m a ws \<longleftrightarrow> (\<forall>i<length ws. load_u32 m (a + of_nat (4 * i)) = Some (ws ! i))"

text \<open>The calls of the handler that a list of blobs at \<open>a\<close> stands for, and their effect: the first error ends
  them.\<close>

fun blob_calls :: "u64 \<Rightarrow> blob list \<Rightarrow> (u32 \<times> u32 \<times> u64) list" where
  "blob_calls a [] = []"
| "blob_calls a (b # bs) = (ucast (blob_type b), blob_bytes b, a + 4) # blob_calls (a + of_nat (4 + 4 * length (blob_data b))) bs"

fun run_calls :: "'s blob_handler \<Rightarrow> (u32 \<times> u32 \<times> u64) list \<Rightarrow> 's \<Rightarrow> int \<times> 's" where
  "run_calls cb [] s = (0, s)"
| "run_calls cb ((ty, sz, a) # cs) s = (let (rc, s) = cb ty sz a s in if rc \<noteq> 0 then (rc, s) else run_calls cb cs s)"

lemma type_mask: "(0xFF :: u32) = mask 8"
  by (simp add: mask_eq_exp_minus_1)

lemma size_mask: "(0xFFFFFF00 :: u32) = NOT (mask 8)"
  by (simp add: mask_eq_exp_minus_1)

lemma header_type: "blob_header b AND 0xFF = ucast (blob_type b)"
  unfolding blob_header_def type_mask
  by (rule bit_word_eqI) (auto simp: bit_simps dest: bit_imp_le_length)

lemma header_size:
  assumes "unat (blob_bytes b) < 2 ^ 24"
  shows "drop_bit 8 (blob_header b AND 0xFFFFFF00) = blob_bytes b"
proof -
  have "take_bit 24 (blob_bytes b) = blob_bytes b"
    using assms by (simp add: word_unat_eq_iff unsigned_take_bit_eq take_bit_nat_eq_self)
  then have high: "n < 24" if "bit (blob_bytes b) n" for n
    using that by (metis bit_take_bit_iff)
  show ?thesis unfolding blob_header_def size_mask
    by (rule bit_word_eqI) (auto simp: bit_simps dest: high bit_imp_le_length)
qed

lemma block_size:
  assumes "unat sz < 2 ^ 24"
  shows "unat (blob_block_size sz) = 4 + 4 * ((unat sz + 3) div 4)"
proof -
  have "unat (of_nat (unat sz + 3) :: u32) = unat sz + 3" by (rule unat_of_nat_small) (use assms in simp)
  then have "unat (sz + 4 - 1) = unat sz + 3" by (simp add: algebra_simps)
  then have d: "unat ((sz + 4 - 1) div 4) = (unat sz + 3) div 4" by (simp add: unat_div_distrib)
  have "unat (of_nat (4 + 4 * ((unat sz + 3) div 4)) :: u32) = 4 + 4 * ((unat sz + 3) div 4)"
    by (rule unat_of_nat_small) (use assms in simp)
  moreover have "blob_block_size sz = of_nat (4 + 4 * ((unat sz + 3) div 4))"
    by (simp add: blob_block_size_def flip: d)
  ultimately show ?thesis by (simp only:)
qed

lemma encode_Cons: "encode_blobs (b # bs) = (blob_header b # blob_data b) @ encode_blobs bs"
  by (simp add: encode_blobs_def)

lemma length_encode_Cons: "length (encode_blobs (b # bs)) = 1 + length (blob_data b) + length (encode_blobs bs)"
  by (simp add: encode_Cons)

lemma holds_words_first: "holds_words m a (w # ws) \<Longrightarrow> load_u32 m a = Some w"
  unfolding holds_words_def by (elim allE [of _ 0]) simp

lemma holds_words_rest:
  assumes "holds_words m a (us @ ws)"
  shows "holds_words m (a + of_nat (4 * length us)) ws"
  unfolding holds_words_def
proof (intro allI impI)
  fix i
  assume "i < length ws"
  then have "load_u32 m (a + of_nat (4 * (length us + i))) = Some ((us @ ws) ! (length us + i))"
    by (intro assms [unfolded holds_words_def, rule_format]) simp
  then show "load_u32 m (a + of_nat (4 * length us) + of_nat (4 * i)) = Some (ws ! i)"
    by (simp add: algebra_simps nth_append)
qed

lemma blob_loop_decodes:
  assumes "\<forall>b \<in> set bs. blob_ok b" "holds_words m a (encode_blobs bs)"
    "unat len_read + 4 * length (encode_blobs bs) = unat cmd_len" "length bs < fuel"
  shows "blob_loop fuel m cb cmd_len a len_read s = Some (run_calls cb (blob_calls a bs) s)"
  using assms
proof (induction bs arbitrary: fuel a len_read s)
  case Nil
  then obtain k where "fuel = Suc k" by (cases fuel) auto
  moreover have "\<not> len_read < cmd_len" using Nil by (simp add: word_less_nat_alt encode_blobs_def)
  ultimately show ?case by simp
next
  case (Cons b bs)
  then obtain k where k: "fuel = Suc k" "length bs < k" by (cases fuel) auto
  have ok: "unat (blob_bytes b) < 2 ^ 24" "length (blob_data b) = (unat (blob_bytes b) + 3) div 4"
    using Cons.prems(1) by (simp_all add: blob_ok_def)
  let ?block = "blob_block_size (blob_bytes b)"
  let ?n = "4 + 4 * length (blob_data b)"
  have block: "unat ?block = ?n" using block_size [OF ok(1)] ok(2) by simp
  have w: "load_u32 m a = Some (blob_header b)"
    using Cons.prems(2) by (simp add: encode_Cons holds_words_first)
  have len: "unat len_read + ?n + 4 * length (encode_blobs bs) = unat cmd_len"
    using Cons.prems(3) by (simp add: length_encode_Cons)
  have "unat (of_nat (unat len_read + unat ?block) :: u32) = unat len_read + ?n"
    unfolding block by (rule unat_of_nat_small) (use len u32_bound [of cmd_len] in simp)
  moreover have "of_nat (unat len_read + unat ?block) = len_read + ?block" by simp
  ultimately have read: "unat (len_read + ?block) = unat len_read + ?n" by (simp only:)
  have less: "len_read < cmd_len" "\<not> cmd_len < len_read + ?block"
    using len read by (simp_all add: word_less_nat_alt)
  have ptr: "a + 4 * ucast (?block div 4) = a + of_nat ?n"
  proof -
    have "unat (?block div 4) = 1 + length (blob_data b)" using block by (simp add: unat_div_distrib)
    then have "(ucast (?block div 4) :: u64) = of_nat (1 + length (blob_data b))" by (metis of_nat_unat)
    then show ?thesis by simp
  qed
  have rest: "holds_words m (a + of_nat ?n) (encode_blobs bs)"
    using holds_words_rest [of m a "blob_header b # blob_data b"] Cons.prems(2) by (simp add: encode_Cons algebra_simps)
  have IH: "blob_loop k m cb cmd_len (a + of_nat ?n) (len_read + ?block) s' = Some (run_calls cb (blob_calls (a + of_nat ?n) bs) s')" for s'
    by (rule Cons.IH) (use Cons.prems(1) rest read len k(2) in simp_all)
  show ?case
    using less by (simp add: k(1) w header_type header_size [OF ok(1), simplified] ptr Let_def case_prod_unfold IH del: of_nat_add)
qed

text \<open>The checks before the walk: the part of the buffer that the descriptor names lies in the buffer.\<close>

lemma generic_cmd_buffer_walk:
  assumes "d \<noteq> 0" "desc_mem_handle m d = Some h" "desc_offset m d = Some off" "desc_size m d = Some sz"
    "desc_length m d = Some cmd_len" "cam_mem_get_cpu_buf h t = (rc, a, l)"
  shows "cam_packet_util_process_generic_cmd_buffer fuel m d (Some cb) s t =
    (if cmd_len = 0 \<or> sz = 0 then Some (- EINVAL, s)
     else if rc \<noteq> 0 \<or> l = 0 then Some (rc, s)
     else if unat l < unat off + 4 \<or> unat l < unat off + unat cmd_len then Some (- EINVAL, s)
     else blob_loop fuel m cb cmd_len (a + ucast off) 0 s)"
proof -
  have four: "l < 4 \<or> l - 4 < ucast off \<longleftrightarrow> unat l < unat off + 4"
  proof (cases "l < 4")
    case False
    then show ?thesis by (auto simp: word_less_nat_alt unat_sub word_le_nat_alt)
  qed (simp add: word_less_nat_alt)
  have rest: "l - ucast off < ucast cmd_len \<longleftrightarrow> unat l < unat off + unat cmd_len" if "\<not> unat l < unat off + 4"
    using that by (auto simp: word_less_nat_alt unat_sub word_le_nat_alt)
  show ?thesis
    using assms cpu_buf_outcome [OF assms(6)] four rest
    by (auto simp: cam_packet_util_process_generic_cmd_buffer_def)
qed

text \<open>C37: The walk over a generic command buffer is the inverse of its encoding: when the part of the buffer
  that the descriptor names holds the words that encode a list of blobs, the handler is called for exactly
  these blobs, in their order, with their types, their sizes in bytes and the addresses of their data, until
  it fails or the list ends, and its status is returned.\<close>

theorem generic_blobs_roundtrip:
  assumes "d \<noteq> 0" "desc_mem_handle m d = Some h" "desc_offset m d = Some off" "desc_size m d = Some sz" "sz \<noteq> 0"
    "desc_length m d = Some cmd_len" "cam_mem_get_cpu_buf h t = (0, a, l)" "unat off + unat cmd_len \<le> unat l"
    "unat cmd_len = 4 * length (encode_blobs bs)" "bs \<noteq> []" "\<forall>b \<in> set bs. blob_ok b"
    "holds_words m (a + ucast off) (encode_blobs bs)" "length bs < fuel"
  shows "cam_packet_util_process_generic_cmd_buffer fuel m d (Some cb) s t =
    Some (run_calls cb (blob_calls (a + ucast off) bs) s)"
proof -
  obtain b bs' where "bs = b # bs'" using assms(10) by (cases bs) auto
  then have four: "4 \<le> unat cmd_len" using assms(9) by (simp add: length_encode_Cons)
  then have "cmd_len \<noteq> 0" "l \<noteq> 0" using assms(8) by auto
  moreover have "\<not> unat l < unat off + 4" "\<not> unat l < unat off + unat cmd_len" using four assms(8) by linarith+
  moreover have "blob_loop fuel m cb cmd_len (a + ucast off) 0 s = Some (run_calls cb (blob_calls (a + ucast off) bs) s)"
    by (rule blob_loop_decodes) (use assms(9,11,12,13) in simp_all)
  ultimately show ?thesis
    using assms(5) by (simp add: generic_cmd_buffer_walk [OF assms(1,2,3,4,6,7)])
qed

text \<open>A buffer with a descriptor at its start and two blobs at byte 64: five bytes of type 3, and an empty one
  of type 9. The handler of the run collects what it is called with.\<close>

definition demo_blobs :: "blob list" where
  "demo_blobs = [\<lparr>blob_type = 3, blob_bytes = 5, blob_data = [0x44332211, 0x55]\<rparr>,
     \<lparr>blob_type = 9, blob_bytes = 0, blob_data = []\<rparr>]"

definition blob_memory :: kmem where
  "blob_memory = words_at 0x640000
     ([0x20001, 64, 32, 16, 0, 0, 0, 0, 0, 0, 0, 0, 0, 0, 0, 0, 0x503, 0x44332211, 0x55, 9] @ replicate 1004 0)"

definition collect_blobs :: "(u32 \<times> u32 \<times> u64) list blob_handler" where
  "collect_blobs ty sz a s = (0, s @ [(ty, sz, a)])"

lemma blob_load:
  assumes "unat (a - 0x640000) mod 4 = 0" "unat (a - 0x640000) div 4 < 20"
  shows "load_u32 blob_memory a =
    Some ([0x20001, 64, 32, 16, 0, 0, 0, 0, 0, 0, 0, 0, 0, 0, 0, 0, 0x503, 0x44332211, 0x55, 9] ! (unat (a - 0x640000) div 4))"
  using load_padded [OF assms(1), of "[0x20001, 64, 32, 16, 0, 0, 0, 0, 0, 0, 0, 0, 0, 0, 0, 0, 0x503, 0x44332211, 0x55, 9]" 1004]
    assms(2) by (simp add: blob_memory_def)

lemma demo_blobs_words: "encode_blobs demo_blobs = [0x503, 0x44332211, 0x55, 9]"
  by (simp add: encode_blobs_def demo_blobs_def blob_header_def)

lemma demo_blobs_held: "holds_words blob_memory 0x640040 [0x503, 0x44332211, 0x55, 9]"
proof -
  have four: "i = 0 \<or> i = 1 \<or> i = 2 \<or> i = 3" if "i < 4" for i :: nat using that by auto
  have "load_u32 blob_memory (0x640040 + of_nat (4 * i)) = Some ([0x503, 0x44332211, 0x55, 9] ! i)" if "i < 4" for i
    using four [OF that] by (elim disjE) (simp_all add: blob_load)
  then show ?thesis by (simp add: holds_words_def)
qed

lemmas blob_desc = blob_load desc_mem_handle_def desc_offset_def desc_size_def desc_length_def

theorem generic_blobs_roundtrip_witness:
  "cam_packet_util_process_generic_cmd_buffer 3 blob_memory 0x640000 (Some collect_blobs) [] demo_table =
     Some (0, [(3, 5, 0x640044), (9, 0, 0x640050)])"
proof -
  have ok: "\<forall>b \<in> set demo_blobs. blob_ok b" by (simp add: demo_blobs_def blob_ok_def)
  have ne: "demo_blobs \<noteq> []" "length demo_blobs < 3" by (simp_all add: demo_blobs_def)
  show ?thesis
    using generic_blobs_roundtrip [where d = "0x640000" and m = blob_memory and h = "0x20001" and off = 64 and sz = 32
        and cmd_len = 16 and t = demo_table and a = "0x640000" and l = 4096 and bs = demo_blobs and fuel = 3
        and cb = collect_blobs and s = "[]"] ok ne demo_cpu_buf demo_blobs_held
    by (simp add: blob_desc demo_blobs_words) (simp add: demo_blobs_def collect_blobs_def)
qed

subsection \<open>Arbitrary contents\<close>






text \<open>A descriptor of five bytes that end with the buffer, at an odd offset.\<close>

definition odd_memory :: kmem where
  "odd_memory = words_at 0x640000 ([0x20001, 4091, 8, 5] @ replicate 1020 0)"

lemma odd_byte: "i < 1024 \<Longrightarrow> unat (a - 0x640000) = 4 * i + j \<Longrightarrow> j < 4 \<Longrightarrow> 4 \<le> i \<Longrightarrow> odd_memory a = Some 0"
proof -
  assume i: "i < 1024" "4 \<le> i" and a: "unat (a - 0x640000) = 4 * i + j" and j: "j < 4"
  have "([0x20001, 4091, 8, 5] @ replicate 1020 0) ! i = (0 :: u32)" using i by (simp add: nth_append)
  moreover have "le_bytes 0 ! j = 0" using j by (auto simp: le_bytes_def nth_Cons split: nat.splits)
  ultimately show ?thesis using byte_in_words [OF a j] i by (simp add: odd_memory_def)
qed

text \<open>The length of a generic command buffer need not be a multiple of four: with five bytes left at the end
  of a buffer, the walk takes an empty blob of four bytes and then reads the header of the next one from the
  last byte of the buffer and three bytes behind it. However much fuel it is given, the run ends in an
  access outside mapped memory, though the buffer is mapped and every check has passed.\<close>

theorem blob_header_read_past_end:
  "mapped odd_memory 0x640000 4096 \<and> desc_length odd_memory 0x640000 = Some 5 \<and>
   (\<forall>fuel. cam_packet_util_process_generic_cmd_buffer fuel odd_memory 0x640000 (Some collect_blobs) [] demo_table = None)"
proof (intro conjI allI)
  show "mapped odd_memory 0x640000 4096"
    using words_mapped [of "[0x20001, 4091, 8, 5] @ replicate 1020 0" "0x640000"] by (simp add: odd_memory_def)
  have rd: "load_u32 odd_memory a = Some ([0x20001, 4091, 8, 5] ! (unat (a - 0x640000) div 4))"
    if "unat (a - 0x640000) mod 4 = 0" "unat (a - 0x640000) div 4 < 4" for a
    using load_padded [OF that(1), of "[0x20001, 4091, 8, 5]" 1020] that(2) by (simp add: odd_memory_def)
  note desc = rd desc_mem_handle_def desc_offset_def desc_size_def desc_length_def
  show "desc_length odd_memory 0x640000 = Some 5" by (simp add: desc)
  have first: "load_u32 odd_memory 0x640FFB = Some 0"
    by (simp add: load_u32_def odd_byte [of 1022 "0x640FFB" 3] odd_byte [of 1023 "0x640FFC" 0]
        odd_byte [of 1023 "0x640FFD" 1] odd_byte [of 1023 "0x640FFE" 2])
  have second: "load_u32 odd_memory 0x640FFF = None"
    unfolding odd_memory_def by (rule load_beyond_words) simp
  show "cam_packet_util_process_generic_cmd_buffer fuel odd_memory 0x640000 (Some collect_blobs) [] demo_table = None" for fuel
  proof -
    have "blob_loop fuel odd_memory collect_blobs 5 0x640FFB 0 [] = None"
      by (cases fuel; cases "fuel - 1") (simp_all add: first second blob_block_size_def collect_blobs_def)
    then show ?thesis
      using generic_cmd_buffer_walk [where d = "0x640000" and m = odd_memory and h = "0x20001" and off = 4091 and sz = 8
          and cmd_len = 5 and t = demo_table and rc = 0 and a = "0x640000" and l = 4096 and fuel = fuel
          and cb = collect_blobs and s = "[]"] demo_cpu_buf
      by (simp add: desc)
  qed
qed

subsection \<open>The report of patches after a page fault\<close>

definition far_memory :: kmem where
  "far_memory = words_at 0x640000
     ([0, 72, 7, 0, 0, 0,  0, 0,  0, 0,  0, 1,  0, 0,  0x20001, 8192, 0x20001, 16] @ replicate 1006 0)"

definition far_patch :: patch_desc where
  "far_patch = \<lparr>pd_dst_hdl = 0x20001, pd_dst_offset = 8192, pd_src_hdl = 0x20001, pd_src_offset = 16\<rparr>"

lemma far_load:
  assumes "unat (a - 0x640000) mod 4 = 0" "unat (a - 0x640000) div 4 < 18"
  shows "load_u32 far_memory a = Some ([0, 72, 7, 0, 0, 0,  0, 0,  0, 0,  0, 1,  0, 0,  0x20001, 8192, 0x20001, 16]
    ! (unat (a - 0x640000) div 4))"
  using load_padded [OF assms(1), of "[0, 72, 7, 0, 0, 0,  0, 0,  0, 0,  0, 1,  0, 0,  0x20001, 8192, 0x20001, 16]" 1006]
    assms(2) by (simp add: far_memory_def)

lemmas far_reads = far_load pkt_size_def pkt_num_cmd_buf_def pkt_num_io_configs_def pkt_num_patches_def
  pkt_cmd_buf_offset_def pkt_io_configs_offset_def pkt_patch_offset_def patch_dst_buf_hdl_def patch_dst_offset_def
  patch_src_buf_hdl_def patch_src_offset_def

text \<open>Applying a patch and reporting it disagree on the bounds: a patch whose destination lies 8 KB into a
  buffer of 4 KB is refused with -EINVAL when patches are applied, but the report after a page fault reads
  the word at that place all the same, outside the buffer.\<close>

theorem patch_report_reads_outside:
  "mapped far_memory 0x640000 4096 \<and> cam_packet_util_validate_packet far_memory 0x640000 4096 = Some 0 \<and>
   cam_packet_util_process_patches (log_core 0 0) 2 0x640000 7 7 False demo_table far_memory = Some (- EINVAL, far_memory) \<and>
   cam_packet_util_dump_patch_info (log_core 0 0) 0x640000 7 7 demo_table far_memory None = None"
proof (intro conjI)
  show "mapped far_memory 0x640000 4096"
    using words_mapped [of "[0, 72, 7, 0, 0, 0,  0, 0,  0, 0,  0, 1,  0, 0,  0x20001, 8192, 0x20001, 16] @ replicate 1006 0"
        "0x640000"] by (simp add: far_memory_def)
  show "cam_packet_util_validate_packet far_memory 0x640000 4096 = Some 0"
    by (simp add: cam_packet_util_validate_packet_def far_reads)
  have rd: "read_patch far_memory 0x640038 far_patch" by (simp add: read_patch_def far_reads far_patch_def)
  have tgt: "patch_target (log_core 0 0) 7 7 False demo_table far_patch = Inl (- EINVAL)" and nz: "pd_src_hdl far_patch \<noteq> 0"
    by (simp_all add: patch_target_def far_patch_def demo_cpu_buf demo_io_buf)
  obtain tbl' where "patch_one (log_core 0 0) 0x640038 7 7 False demo_table zero_patch_tbl far_memory =
      Some (Some (- EINVAL), tbl', far_memory)"
    using patch_one_target [OF rd tbl_ok_zero nz, of "log_core 0 0" 7 7 demo_table False] by (auto simp: tgt)
  then have "patch_loop (log_core 0 0) (Suc k) 0 0x640000 0x640038 7 7 False demo_table zero_patch_tbl far_memory =
      Some (- EINVAL, far_memory)" for k by (simp add: far_reads)
  note loop = this [of 1, unfolded Suc_1]
  show "cam_packet_util_process_patches (log_core 0 0) 2 0x640000 7 7 False demo_table far_memory = Some (- EINVAL, far_memory)"
    by (simp add: cam_packet_util_process_patches_def patch_desc_addr_def far_reads loop)
  have "load_u32 far_memory 0x642000 = None"
    unfolding far_memory_def by (rule load_beyond_words) simp
  then show "cam_packet_util_dump_patch_info (log_core 0 0) 0x640000 7 7 demo_table far_memory None = None"
    by (simp add: cam_packet_util_dump_patch_info_def patch_desc_addr_def far_reads dump_patch_one_def demo_io_buf demo_cpu_buf)
qed

subsection \<open>Buffers for the simulator\<close>

definition hdl_list_ok :: "u32 list \<Rightarrow> bool" where
  "hdl_list_ok hs \<longleftrightarrow> distinct hs \<and> 0 \<notin> set hs \<and> length hs \<le> 50"

lemma add_unique_ok: "hdl_list_ok hs \<Longrightarrow> hdl_list_ok (cam_presil_add_unique_buf_hdl_to_list 50 h hs)"
  by (auto simp: hdl_list_ok_def cam_presil_add_unique_buf_hdl_to_list_def)

lemma collect_planes_ok: "collect_planes m c k j hs = Some hs' \<Longrightarrow> hdl_list_ok hs \<Longrightarrow> hdl_list_ok hs'"
  by (induction k arbitrary: j hs) (auto simp: Option.bind_eq_Some_conv add_unique_ok split: if_splits)

lemma collect_io_ok: "collect_io m k c hs = Some hs' \<Longrightarrow> hdl_list_ok hs \<Longrightarrow> hdl_list_ok hs'"
  by (induction k arbitrary: c hs) (auto simp: Option.bind_eq_Some_conv collect_planes_ok split: if_splits)

lemma collect_field_ok: "collect_field m sz f k d hs = Some hs' \<Longrightarrow> hdl_list_ok hs \<Longrightarrow> hdl_list_ok hs'"
  by (induction k arbitrary: d hs) (auto simp: Option.bind_eq_Some_conv add_unique_ok split: if_splits)

definition log_send :: "int \<Rightarrow> u32 \<Rightarrow> (int \<times> u32) list \<Rightarrow> int \<times> (int \<times> u32) list" where
  "log_send hdl h s = (0, s @ [(hdl, h)])"

lemma send_all_log: "send_all log_send hdl hs s = (0, s @ map (Pair hdl) hs)"
  by (induction hs arbitrary: s) (simp_all add: log_send_def)

text \<open>Sending the buffers of a packet to the simulator sends at most 50 buffers for each of the two SMMU
  contexts, none of them twice and none for the handle 0, however often the packet names a buffer.\<close>

theorem presil_sends_once:
  assumes "cam_presil_send_buffers_from_packet log_send p img cdm m [] = Some (0, sent)"
  shows "\<exists>imgs cmds. sent = map (Pair img) imgs @ map (Pair cdm) cmds \<and> distinct imgs \<and> distinct cmds \<and>
    0 \<notin> set imgs \<union> set cmds \<and> length imgs \<le> 50 \<and> length cmds \<le> 50 \<and> (img = - 1 \<longrightarrow> imgs = []) \<and> (cdm = - 1 \<longrightarrow> cmds = [])"
proof -
  have nil: "hdl_list_ok []" by (simp add: hdl_list_ok_def)
  have "p \<noteq> 0" using assms by (auto simp: cam_presil_send_buffers_from_packet_def)
  obtain imgs where imgs: "hdl_list_ok imgs" "img = - 1 \<longrightarrow> imgs = []" and
    rest: "cdm = - 1 \<and> sent = map (Pair img) imgs \<or> (\<exists>n1 d1 n2 d2 hs cmds. collect_field m 24 0 n1 d1 [] = Some hs \<and>
      collect_field m 16 8 n2 d2 hs = Some cmds \<and> cdm \<noteq> - 1 \<and> sent = map (Pair img) imgs @ map (Pair cdm) cmds)"
  proof (cases "img = - 1")
    case True
    show thesis
      by (rule that [of "[]"])
        (use assms \<open>p \<noteq> 0\<close> nil True in \<open>auto simp: cam_presil_send_buffers_from_packet_def send_all_log
          Option.bind_eq_Some_conv split: if_splits, blast\<close>)
  next
    case False
    then obtain k c hs where hs: "collect_io m k c [] = Some hs" and
      "cdm = - 1 \<and> sent = map (Pair img) hs \<or> (\<exists>n1 d1 n2 d2 hs' cmds. collect_field m 24 0 n1 d1 [] = Some hs' \<and>
        collect_field m 16 8 n2 d2 hs' = Some cmds \<and> cdm \<noteq> - 1 \<and> sent = map (Pair img) hs @ map (Pair cdm) cmds)"
      using assms \<open>p \<noteq> 0\<close> unfolding cam_presil_send_buffers_from_packet_def
      by (auto simp: send_all_log Option.bind_eq_Some_conv split: if_splits) blast+
    then show thesis using that [of hs] collect_io_ok [OF hs nil] False by simp
  qed
  obtain cmds where "sent = map (Pair img) imgs @ map (Pair cdm) cmds" "hdl_list_ok cmds" "cdm = - 1 \<longrightarrow> cmds = []"
    using rest collect_field_ok nil by (metis append_Nil2 list.map(1))
  with imgs have "\<exists>imgs cmds. sent = map (Pair img) imgs @ map (Pair cdm) cmds \<and> hdl_list_ok imgs \<and> hdl_list_ok cmds \<and>
      (img = - 1 \<longrightarrow> imgs = []) \<and> (cdm = - 1 \<longrightarrow> cmds = [])" by blast
  then show ?thesis unfolding hdl_list_ok_def by blast
qed

theorem presil_sends_once_witness:
  "cam_presil_send_buffers_from_packet log_send 0x640000 7 9 demo_memory [] = Some (0, [(9, 0x20001)]) \<and>
   distinct [0x20001 :: u32]"
proof -
  have run: "cam_presil_send_buffers_from_packet log_send 0x640000 7 9 demo_memory [] = Some (0, [(9, 0x20001)])"
    by (simp add: cam_presil_send_buffers_from_packet_def demo_reads cam_presil_add_unique_buf_hdl_to_list_def
        send_all_log)
  show ?thesis using presil_sends_once [OF run] run by auto
qed

end
