(* ===== verification/Cam_Crm.thy ===== *)
theory Cam_Crm
  imports Cam_Hdl Cam_Workq
begin

section \<open>Links, request queues and pipeline-delay tables of the request manager\<close>

text \<open>
  The data of \<open>camera-kernel/drivers/cam_req_mgr/cam_req_mgr_core.h\<close> and the helpers of
  \<open>cam_req_mgr_core.c\<close> that work on a single link. A link connects the devices of one camera. User space
  queues request ids in a ring of slots (\<open>in_q\<close>). Devices with the same pipeline delay share a table of
  slots, where each announces the requests it has settings for. At each frame the manager looks whether
  the request at the read index is ready in the table with the largest delay, the one before it in the table
  with the next smaller delay, and so on, and if so tells all devices to apply their settings.

  The list of tables that C links through \<open>next\<close> is the list of the tables, an array indexed by slots or
  delays is a function, and a device points to its table by the table's delay. The operations that a
  device driver provides (\<open>cam_req_mgr_kmd_ops\<close>) act on a state of the devices of an arbitrary type; each is
  optional, as the function pointers are.
\<close>

subsection \<open>Data\<close>

abbreviation (input) ENXIO :: int where "ENXIO \<equiv> 6"
abbreviation (input) CRM_EAGAIN :: int where "CRM_EAGAIN \<equiv> 11"
abbreviation (input) EBUSY :: int where "EBUSY \<equiv> 16"
abbreviation (input) EBADR :: int where "EBADR \<equiv> 53"
abbreviation (input) MAX_REQ_SLOTS :: int where "MAX_REQ_SLOTS \<equiv> 48"
abbreviation (input) CAM_PIPELINE_DELAY_0 :: int where "CAM_PIPELINE_DELAY_0 \<equiv> 0"
abbreviation (input) CAM_PIPELINE_DELAY_1 :: int where "CAM_PIPELINE_DELAY_1 \<equiv> 1"
abbreviation (input) CAM_PIPELINE_DELAY_2 :: int where "CAM_PIPELINE_DELAY_2 \<equiv> 2"
abbreviation (input) CAM_PIPELINE_DELAY_MAX :: int where "CAM_PIPELINE_DELAY_MAX \<equiv> 3"
abbreviation (input) CAM_TRIGGER_POINT_SOF :: u32 where "CAM_TRIGGER_POINT_SOF \<equiv> 1"
abbreviation (input) CAM_TRIGGER_POINT_EOF :: u32 where "CAM_TRIGGER_POINT_EOF \<equiv> 2"
abbreviation (input) MAXIMUM_LINKS_PER_SESSION :: int where "MAXIMUM_LINKS_PER_SESSION \<equiv> 4"
abbreviation (input) CAM_REQ_MGR_SYNC_MODE_NO_SYNC :: int where "CAM_REQ_MGR_SYNC_MODE_NO_SYNC \<equiv> 0"
abbreviation (input) CAM_REQ_MGR_SYNC_MODE_SYNC :: int where "CAM_REQ_MGR_SYNC_MODE_SYNC \<equiv> 1"
abbreviation (input) CAM_REQ_MGR_WATCHDOG_TIMEOUT :: int where "CAM_REQ_MGR_WATCHDOG_TIMEOUT \<equiv> 1000"
abbreviation (input) CAM_REQ_MGR_WATCHDOG_TIMEOUT_DEFAULT :: int where "CAM_REQ_MGR_WATCHDOG_TIMEOUT_DEFAULT \<equiv> 5000"

datatype crm_req_state =
  CRM_REQ_STATE_EMPTY | CRM_REQ_STATE_PENDING | CRM_REQ_STATE_READY | CRM_REQ_STATE_INVALID

datatype crm_slot_status =
  CRM_SLOT_STATUS_NO_REQ | CRM_SLOT_STATUS_REQ_ADDED | CRM_SLOT_STATUS_REQ_PENDING |
  CRM_SLOT_STATUS_REQ_READY | CRM_SLOT_STATUS_REQ_APPLIED | CRM_SLOT_STATUS_INVALID

datatype cam_req_mgr_link_state =
  CAM_CRM_LINK_STATE_AVAILABLE | CAM_CRM_LINK_STATE_IDLE | CAM_CRM_LINK_STATE_READY |
  CAM_CRM_LINK_STATE_ERR

datatype cam_req_mgr_device_error =
  CRM_KMD_ERR_NOT_FOUND | CRM_KMD_ERR_BUBBLE | CRM_KMD_ERR_FATAL | CRM_KMD_ERR_PAGE_FAULT |
  CRM_KMD_ERR_OVERFLOW | CRM_KMD_ERR_TIMEOUT | CRM_KMD_ERR_STOPPED | CRM_KMD_WARN_INTERNAL_RECOVERY |
  CRM_KMD_ERR_MAX

datatype cam_req_mgr_link_evt_type =
  CAM_REQ_MGR_LINK_EVT_ERR | CAM_REQ_MGR_LINK_EVT_PAUSE | CAM_REQ_MGR_LINK_EVT_RESUME |
  CAM_REQ_MGR_LINK_EVT_SOF_FREEZE | CAM_REQ_MGR_LINK_EVT_STALLED | CAM_REQ_MGR_LINK_EVT_EOF |
  CAM_REQ_MGR_LINK_EVT_UPDATE_PROPERTIES

record cam_req_mgr_apply =
  ad_idx :: int
  ad_pd :: int
  ad_req_id :: int
  ad_skip_idx :: int

record crm_tbl_slot_special_ops =
  so_dev_hdl :: u32
  apply_at_eof :: bool
  is_applied :: bool

record cam_req_mgr_tbl_slot =
  ts_idx :: int
  req_ready_map :: u32
  ts_state :: crm_req_state
  inject_delay_at_sof :: u32
  inject_delay_at_eof :: u32
  ts_ops :: crm_tbl_slot_special_ops

record cam_req_mgr_req_tbl =
  tb_id :: int
  tb_pd :: int
  dev_count :: int
  dev_mask :: u32
  skip_traverse :: int
  pd_delta :: int
  tb_num_slots :: int
  tb_slot :: "int \<Rightarrow> cam_req_mgr_tbl_slot"

record cam_req_mgr_slot =
  sl_idx :: int
  skip_idx :: int
  sl_status :: crm_slot_status
  recover :: int
  sl_req_id :: int
  sl_sync_mode :: int
  additional_timeout :: int
  recovery_counter :: int
  sl_num_sync_links :: int
  sync_link_hdls :: "int \<Rightarrow> u32"

record cam_req_mgr_req_queue =
  q_num_slots :: int
  q_slot :: "int \<Rightarrow> cam_req_mgr_slot"
  rd_idx :: int
  wr_idx :: int
  last_applied_idx :: int

text \<open>What a device reports about itself: \<open>p_delay\<close> is its pipeline delay, \<open>trigger\<close> the trigger points at
  which it applies settings, \<open>trigger_on\<close> whether it is a source of triggers.\<close>

record cam_req_mgr_device_info =
  di_name :: string
  di_dev_id :: u64
  p_delay :: int
  di_trigger :: u32
  trigger_on :: bool

record cam_req_mgr_connected_device =
  cd_dev_hdl :: u32
  dev_bit :: nat
  pd_tbl :: "int option"
  dev_info :: cam_req_mgr_device_info
  cd_ops :: "nat option"

record cam_req_mgr_timer =
  expires :: int
  pause_timer :: bool
  sys_timer :: "(u64 \<times> int) option"

text \<open>The messages between user space, the devices and the manager, and the payload that a task of a link's
  work queue carries: the union of those that are handled on the work queue.\<close>

record cam_req_mgr_sched_request =
  sr_session_hdl :: u32
  sr_link_hdl :: u32
  sr_bubble_enable :: int
  sr_sync_mode :: int
  sr_additional_timeout :: int
  sr_req_id :: int

record cam_req_mgr_sched_request_v2 = cam_req_mgr_sched_request +
  sr_num_links :: int
  sr_link_hdls :: "int \<Rightarrow> u32"

record cam_req_mgr_flush_info =
  fl_session_hdl :: u32
  fl_link_hdl :: u32
  flush_type :: u32
  fl_req_id :: int

record cam_req_mgr_add_request =
  aq_link_hdl :: u32
  aq_dev_hdl :: u32
  aq_req_id :: u64
  skip_at_sof :: u32
  skip_at_eof :: u32
  trigger_eof :: bool

record cam_req_mgr_trigger_notify =
  nt_link_hdl :: u32
  nt_dev_hdl :: u32
  nt_frame_id :: int
  nt_trigger :: u32
  sof_timestamp_val :: u64
  nt_req_id :: u64
  trigger_id :: int

record cam_req_mgr_error_notify =
  ne_link_hdl :: u32
  ne_dev_hdl :: u32
  ne_req_id :: u64
  ne_frame_id :: int
  ne_trigger :: u32
  ne_sof_timestamp_val :: u64
  ne_error :: cam_req_mgr_device_error

datatype crm_task_payload =
  Task_none | Task_sched_req cam_req_mgr_sched_request_v2 | Task_flush_req cam_req_mgr_flush_info |
  Task_dev_req cam_req_mgr_add_request | Task_notify_trigger cam_req_mgr_trigger_notify |
  Task_notify_err cam_req_mgr_error_notify

record cam_req_mgr_core_link =
  link_hdl :: u32
  num_devs :: int
  max_delay :: int
  min_delay :: int
  link_workq :: "workq option"
  task_data :: "nat \<Rightarrow> crm_task_payload"
  pd_mask :: u32
  l_dev :: "cam_req_mgr_connected_device list"
  in_q :: "cam_req_mgr_req_queue option"
  l_tbl :: "cam_req_mgr_req_tbl list"
  num_tbl :: int
  apply_data :: "int \<Rightarrow> cam_req_mgr_apply"
  prev_apply_data :: "int \<Rightarrow> cam_req_mgr_apply"
  watchdog :: "cam_req_mgr_timer option"
  workq_comp :: bool
  link_state :: cam_req_mgr_link_state
  link_parent :: "nat option"
  sync_link :: "int \<Rightarrow> nat option"
  num_sync_links :: int
  sync_link_sof_skip :: bool
  open_req_cnt :: u32
  last_flush_id :: int
  is_used :: bool
  is_master :: bool
  initial_skip :: bool
  in_msync_mode :: bool
  initial_sync_req :: int
  retry_cnt :: u32
  is_shutdown :: bool
  sof_timestamp :: u64
  prev_sof_timestamp :: u64
  dual_trigger :: bool
  trigger_cnt :: "int \<Rightarrow> u32 \<Rightarrow> u32"
  eof_event_cnt :: int
  skip_init_frame :: bool
  last_sof_trigger_jiffies :: u64
  wq_congestion :: bool
  try_for_internal_recovery :: bool
  properties_mask :: u32

text \<open>The structures that the manager hands to the operations of a device.\<close>

record cam_req_mgr_apply_request =
  ar_link_hdl :: u32
  ar_dev_hdl :: u32
  ar_request_id :: u64
  report_if_bubble :: int
  ar_trigger_point :: u32
  re_apply :: bool

datatype crm_evt_u = Evt_error cam_req_mgr_device_error | Evt_properties_mask u32

record cam_req_mgr_link_evt_data =
  ev_link_hdl :: u32
  ev_dev_hdl :: u32
  ev_req_id :: u64
  try_for_recovery :: bool
  ev_type :: cam_req_mgr_link_evt_type
  ev_u :: crm_evt_u

record cam_req_mgr_flush_request =
  fr_link_hdl :: u32
  fr_dev_hdl :: u32
  fr_type :: u32
  fr_req_id :: u64

record cam_req_mgr_core_dev_link_setup =
  ls_link_enable :: int
  ls_link_hdl :: u32
  ls_dev_hdl :: u32
  ls_max_delay :: int
  ls_trigger_id :: int

record cam_req_mgr_dump_info =
  du_req_id :: u64
  du_offset :: u64
  du_error_type :: u32
  du_buf_handle :: u32
  du_link_hdl :: u32
  du_dev_hdl :: u32

text \<open>\<open>process_evt\<close> may clear or set the flag \<open>try_for_recovery\<close> of the event it is given, and
  \<open>dump_req\<close> advances the offset; \<open>get_dev_info\<close> fills in a structure.\<close>

record 'x cam_req_mgr_kmd_ops =
  op_get_dev_info :: "(u32 \<Rightarrow> 'x \<Rightarrow> int \<times> cam_req_mgr_device_info \<times> 'x) option"
  op_link_setup :: "(cam_req_mgr_core_dev_link_setup \<Rightarrow> 'x \<Rightarrow> int \<times> 'x) option"
  op_apply_req :: "(cam_req_mgr_apply_request \<Rightarrow> 'x \<Rightarrow> int \<times> 'x) option"
  op_notify_frame_skip :: "(cam_req_mgr_apply_request \<Rightarrow> 'x \<Rightarrow> int \<times> 'x) option"
  op_flush_req :: "(cam_req_mgr_flush_request \<Rightarrow> 'x \<Rightarrow> int \<times> 'x) option"
  op_process_evt :: "(cam_req_mgr_link_evt_data \<Rightarrow> 'x \<Rightarrow> int \<times> bool \<times> 'x) option"
  op_dump_req :: "(cam_req_mgr_dump_info \<Rightarrow> 'x \<Rightarrow> int \<times> u64 \<times> 'x) option"

type_synonym 'x kmd = "nat \<Rightarrow> 'x cam_req_mgr_kmd_ops"

text \<open>A message for user space, and the surroundings in which the operations run: the state of the devices, the
  events queued for user space, the clock, what an uninitialised flag on the stack happens to hold, and what
  the bytes of an old payload read as when they are taken for the frame number and the time stamp of an
  error.\<close>

record cam_req_mgr_error_msg =
  em_session_hdl :: u32
  em_error_type :: u32
  em_request_id :: u32
  em_link_hdl :: u32
  em_error_code :: u32

abbreviation (input) CAM_REQ_MGR_ERROR_TYPE_RECOVERY :: u32 where "CAM_REQ_MGR_ERROR_TYPE_RECOVERY \<equiv> 3"
abbreviation (input) CAM_REQ_MGR_ERROR_TYPE_SOF_FREEZE :: u32 where "CAM_REQ_MGR_ERROR_TYPE_SOF_FREEZE \<equiv> 4"
abbreviation (input) CAM_REQ_MGR_LINK_STALLED_ERROR :: u32 where "CAM_REQ_MGR_LINK_STALLED_ERROR \<equiv> 1"

record 'x crm_env =
  dev_world :: 'x
  v4l_events :: "cam_req_mgr_error_msg list"
  jiffies :: u64
  jiffies_to_msecs :: "u64 \<Rightarrow> u32"
  stack_flag :: bool
  stale_payload :: "crm_task_payload \<Rightarrow> int \<times> u64"

definition cam_req_mgr_notify_message :: "cam_req_mgr_error_msg \<Rightarrow> 'x crm_env \<Rightarrow> int \<times> 'x crm_env" where
  "cam_req_mgr_notify_message msg e = (0, e\<lparr>v4l_events := v4l_events e @ [msg]\<rparr>)"

text \<open>A session, and the state of the whole manager. A handle's private pointer leads to a link when it is
  below 4, the index of the link in \<open>g_links\<close>; the pointer \<open>ses_ptr k\<close> leads to the session with number
  \<open>k\<close>, and other pointers belong to device drivers. Using the private pointer of a session or device as a link is
  a confusion of types, for which the model has no value.\<close>

record cam_req_mgr_core_session =
  ses_hdl :: u32
  num_links :: int
  ses_links :: "int \<Rightarrow> nat option"
  force_err_recovery :: int
  ses_sync_mode :: int

record 'x crm =
  g_links :: "nat \<Rightarrow> cam_req_mgr_core_link"
  ses_heap :: "nat \<Rightarrow> cam_req_mgr_core_session option"
  session_head :: "nat list"
  crm_hdls :: hdl_table
  recovery_on_apply_fail :: bool
  environ :: "'x crm_env"

definition ses_ptr :: "nat \<Rightarrow> nat" where
  "ses_ptr k = 4 + 2 * k"

datatype crm_object = Obj_null | Obj_link nat | Obj_session nat | Obj_other

definition ptr_object :: "nat option \<Rightarrow> crm_object" where
  "ptr_object p = (case p of None \<Rightarrow> Obj_null
     | Some n \<Rightarrow> if n < 4 then Obj_link n else if even n then Obj_session ((n - 4) div 2) else Obj_other)"

definition hdl_object :: "'x crm \<Rightarrow> u32 \<Rightarrow> crm_object" where
  "hdl_object s hdl = ptr_object (cam_get_device_priv hdl (crm_hdls s))"

definition link_of_hdl :: "'x crm \<Rightarrow> u32 \<Rightarrow> nat option option" where
  "link_of_hdl s hdl = (case hdl_object s hdl of Obj_null \<Rightarrow> Some None | Obj_link i \<Rightarrow> Some (Some i) | _ \<Rightarrow> None)"

text \<open>Most ioctls compare the handle with the first word of the object, which is the handle in a link and in a
  session alike: the comparison does not tell the two apart.\<close>

definition checked_link :: "'x crm \<Rightarrow> u32 \<Rightarrow> nat option option" where
  "checked_link s hdl =
     (case hdl_object s hdl of
        Obj_null \<Rightarrow> Some None
      | Obj_link i \<Rightarrow> Some (if link_hdl (g_links s i) = hdl then Some i else None)
      | Obj_session k \<Rightarrow> (case ses_heap s k of None \<Rightarrow> None
          | Some c \<Rightarrow> if ses_hdl c \<noteq> hdl then Some None else None)
      | Obj_other \<Rightarrow> None)"

definition checked_session :: "'x crm \<Rightarrow> u32 \<Rightarrow> nat option option" where
  "checked_session s hdl =
     (case hdl_object s hdl of
        Obj_null \<Rightarrow> Some None
      | Obj_session k \<Rightarrow> (case ses_heap s k of None \<Rightarrow> None
          | Some c \<Rightarrow> Some (if ses_hdl c = hdl then Some k else None))
      | Obj_link i \<Rightarrow> if link_hdl (g_links s i) \<noteq> hdl then Some None else None
      | Obj_other \<Rightarrow> None)"

subsection \<open>Timers\<close>

text \<open>\<open>sys_timer\<close> of a timer is the kernel's timer, when it is armed: the time of arming and the
  milliseconds after which it expires.\<close>

definition crm_timer_reset :: "u64 \<Rightarrow> cam_req_mgr_timer option \<Rightarrow> cam_req_mgr_timer option" where
  "crm_timer_reset now t = map_option (\<lambda>w. w\<lparr>sys_timer := Some (now, expires w)\<rparr>) t"

definition crm_timer_modify ::
  "u64 \<Rightarrow> cam_req_mgr_timer option \<Rightarrow> int \<Rightarrow> cam_req_mgr_timer option" where
  "crm_timer_modify now t ms =
     (case t of None \<Rightarrow> None | Some w \<Rightarrow> crm_timer_reset now (Some (w\<lparr>expires := ms\<rparr>)))"

definition crm_timer_init ::
  "bool \<Rightarrow> u64 \<Rightarrow> cam_req_mgr_timer option \<Rightarrow> int \<Rightarrow> int \<times> cam_req_mgr_timer option" where
  "crm_timer_init alloc now t ms =
     (if t \<noteq> None then (- EINVAL, t)
      else if \<not> alloc then (- ENOMEM, None)
      else (0, crm_timer_reset now (Some \<lparr>expires = ms, pause_timer = False, sys_timer = None\<rparr>)))"

definition crm_timer_exit :: "cam_req_mgr_timer option \<Rightarrow> cam_req_mgr_timer option" where
  "crm_timer_exit t = None"

subsection \<open>Indices, slots and tables\<close>

definition inc_idx :: "int \<Rightarrow> int \<Rightarrow> int \<Rightarrow> int" where
  "inc_idx val step max_val = (val + step) mod max_val"

definition dec_idx :: "int \<Rightarrow> int \<Rightarrow> int \<Rightarrow> int" where
  "dec_idx val step max_val = (if val - step < 0 then max_val + (val - step) else val - step)"

definition upd_slot :: "int \<Rightarrow> (cam_req_mgr_slot \<Rightarrow> cam_req_mgr_slot) \<Rightarrow>
  cam_req_mgr_req_queue \<Rightarrow> cam_req_mgr_req_queue" where
  "upd_slot i f q = q\<lparr>q_slot := (q_slot q)(i := f (q_slot q i))\<rparr>"

definition upd_tbl_slot :: "int \<Rightarrow> (cam_req_mgr_tbl_slot \<Rightarrow> cam_req_mgr_tbl_slot) \<Rightarrow>
  cam_req_mgr_req_tbl \<Rightarrow> cam_req_mgr_req_tbl" where
  "upd_tbl_slot i f t = t\<lparr>tb_slot := (tb_slot t)(i := f (tb_slot t i))\<rparr>"

text \<open>A write through the table pointer of a device.\<close>

definition upd_pd_slot :: "int option \<Rightarrow> int \<Rightarrow> (cam_req_mgr_tbl_slot \<Rightarrow> cam_req_mgr_tbl_slot) \<Rightarrow>
  cam_req_mgr_req_tbl list \<Rightarrow> cam_req_mgr_req_tbl list" where
  "upd_pd_slot p i f ts = map (\<lambda>t. if p = Some (tb_pd t) then upd_tbl_slot i f t else t) ts"

definition find_pd_tbl :: "cam_req_mgr_req_tbl list \<Rightarrow> int \<Rightarrow> cam_req_mgr_req_tbl option" where
  "find_pd_tbl ts delay = List.find (\<lambda>t. tb_pd t = delay) ts"

text \<open>The slot that a device's table pointer leads to; \<^const>\<open>None\<close> is a null pointer.\<close>

definition pd_slot :: "cam_req_mgr_req_tbl list \<Rightarrow> cam_req_mgr_connected_device \<Rightarrow> int \<Rightarrow>
  cam_req_mgr_tbl_slot option" where
  "pd_slot ts d i = (case pd_tbl d of None \<Rightarrow> None
     | Some p \<Rightarrow> map_option (\<lambda>t. tb_slot t i) (find_pd_tbl ts p))"

definition zero_apply :: cam_req_mgr_apply where
  "zero_apply = \<lparr>ad_idx = 0, ad_pd = 0, ad_req_id = 0, ad_skip_idx = 0\<rparr>"

definition reset_apply_data :: "cam_req_mgr_core_link \<Rightarrow> cam_req_mgr_core_link" where
  "reset_apply_data l = l\<lparr>
     apply_data := (\<lambda>pd. if 0 \<le> pd \<and> pd < CAM_PIPELINE_DELAY_MAX
       then (apply_data l pd)\<lparr>ad_req_id := - 1\<rparr> else apply_data l pd),
     prev_apply_data := (\<lambda>pd. if 0 \<le> pd \<and> pd < CAM_PIPELINE_DELAY_MAX
       then (prev_apply_data l pd)\<lparr>ad_req_id := - 1\<rparr> else prev_apply_data l pd)\<rparr>"

definition clear_trigger_cnt :: "cam_req_mgr_core_link \<Rightarrow> cam_req_mgr_core_link" where
  "clear_trigger_cnt l = l\<lparr>trigger_cnt := (trigger_cnt l)
     (0 := (trigger_cnt l 0)(CAM_TRIGGER_POINT_SOF := 0, CAM_TRIGGER_POINT_EOF := 0),
      1 := (trigger_cnt l 1)(CAM_TRIGGER_POINT_SOF := 0, CAM_TRIGGER_POINT_EOF := 0))\<rparr>"

definition cam_req_mgr_core_link_reset :: "cam_req_mgr_core_link \<Rightarrow> cam_req_mgr_core_link" where
  "cam_req_mgr_core_link_reset l = reset_apply_data (clear_trigger_cnt (l\<lparr>
     link_hdl := 0, num_devs := 0, max_delay := CAM_PIPELINE_DELAY_0, min_delay := CAM_PIPELINE_DELAY_2,
     link_workq := None, pd_mask := 0, l_dev := [], in_q := None, l_tbl := [], num_tbl := 0,
     watchdog := None, link_state := CAM_CRM_LINK_STATE_AVAILABLE, link_parent := None,
     sync_link_sof_skip := False, open_req_cnt := 0, last_flush_id := - 1, initial_sync_req := - 1,
     dual_trigger := False, in_msync_mode := False, retry_cnt := 0, is_shutdown := False,
     initial_skip := True, sof_timestamp := 0, prev_sof_timestamp := 0, skip_init_frame := False,
     num_sync_links := 0, last_sof_trigger_jiffies := 0, wq_congestion := False,
     try_for_internal_recovery := False, eof_event_cnt := 0, properties_mask := 0,
     sync_link := (sync_link l)(0 := None, 1 := None, 2 := None)\<rparr>))"

fun inject_delay :: "cam_req_mgr_req_tbl list \<Rightarrow> int \<Rightarrow> u32 \<Rightarrow> int \<times> cam_req_mgr_req_tbl list" where
  "inject_delay [] cur trigger = (0, [])"
| "inject_delay (t # ts) cur trigger =
     (let s = tb_slot t cur;
          sof = trigger = CAM_TRIGGER_POINT_SOF \<and> 0 < inject_delay_at_sof s;
          eof = \<not> sof \<and> trigger = CAM_TRIGGER_POINT_EOF \<and> 0 < inject_delay_at_eof s;
          t' = (if sof then upd_tbl_slot cur (\<lambda>s. s\<lparr>inject_delay_at_sof := inject_delay_at_sof s - 1\<rparr>) t
                else if eof then upd_tbl_slot cur (\<lambda>s. s\<lparr>inject_delay_at_eof := inject_delay_at_eof s - 1\<rparr>) t
                else t);
          (rc, ts') = inject_delay ts (dec_idx cur (pd_delta t) (tb_num_slots t)) trigger
      in (if sof \<or> eof then - CRM_EAGAIN else rc, t' # ts'))"

end
