(* ===== verification/Cam_Crm_Apply.thy ===== *)
theory Cam_Crm_Apply
  imports Cam_Crm "HOL-Library.Monad_Syntax"
begin

section \<open>Applying a request to the devices of a link\<close>

text \<open>
  The part of \<open>cam_req_mgr_core.c\<close> from the traversal of the pipeline-delay tables to
  \<open>__cam_req_mgr_check_link_is_ready\<close>: which slots of which tables belong to a frame, whether they are
  ready, resetting and skipping of slots, the watchdog, and the loops that hand a request to the devices.
  Operations that follow the table pointer of a device or the queue of a link return an option,
  \<^const>\<open>None\<close> for the null pointer dereference.
\<close>

subsection \<open>Events to the devices\<close>

definition link_devs :: "cam_req_mgr_core_link \<Rightarrow> cam_req_mgr_connected_device list" where
  "link_devs l = take (nat (num_devs l)) (l_dev l)"

text \<open>Calls of an optional device operation: \<open>if (dev->ops && dev->ops->f) dev->ops->f(&arg)\<close>.\<close>

definition call_op ::
  "('x cam_req_mgr_kmd_ops \<Rightarrow> ('r \<Rightarrow> 'x \<Rightarrow> int \<times> 'x) option) \<Rightarrow> 'x kmd \<Rightarrow>
    cam_req_mgr_connected_device \<Rightarrow> 'r \<Rightarrow> 'x crm_env \<Rightarrow> int \<times> 'x crm_env" where
  "call_op sel kmd d r e =
     (case cd_ops d of None \<Rightarrow> (0, e)
      | Some p \<Rightarrow> (case sel (kmd p) of None \<Rightarrow> (0, e)
         | Some f \<Rightarrow> let (rc, x) = f r (dev_world e) in (rc, e\<lparr>dev_world := x\<rparr>)))"

definition has_op :: "('x cam_req_mgr_kmd_ops \<Rightarrow> 'f option) \<Rightarrow> 'x kmd \<Rightarrow> cam_req_mgr_connected_device \<Rightarrow> bool" where
  "has_op sel kmd d = (case cd_ops d of None \<Rightarrow> False | Some p \<Rightarrow> sel (kmd p) \<noteq> None)"

definition call_process_evt :: "'x kmd \<Rightarrow> cam_req_mgr_connected_device \<Rightarrow> cam_req_mgr_link_evt_data \<Rightarrow>
  'x crm_env \<Rightarrow> bool \<times> 'x crm_env" where
  "call_process_evt kmd d ev e =
     (case cd_ops d of None \<Rightarrow> (try_for_recovery ev, e)
      | Some p \<Rightarrow> (case op_process_evt (kmd p) of None \<Rightarrow> (try_for_recovery ev, e)
         | Some f \<Rightarrow> let (rc, fl, x) = f ev (dev_world e) in (fl, e\<lparr>dev_world := x\<rparr>)))"

definition set_is_applied :: "bool \<Rightarrow> cam_req_mgr_tbl_slot \<Rightarrow> cam_req_mgr_tbl_slot" where
  "set_is_applied b s = s\<lparr>ts_ops := (ts_ops s)\<lparr>is_applied := b\<rparr>\<rparr>"

text \<open>The special operation of a slot belongs to the device, and at this trigger point the device is not to
  be called for its regular settings.\<close>

definition eof_mismatch :: "u32 \<Rightarrow> cam_req_mgr_connected_device \<Rightarrow> cam_req_mgr_tbl_slot \<Rightarrow> bool" where
  "eof_mismatch trigger d s \<longleftrightarrow>
     trigger = CAM_TRIGGER_POINT_SOF \<and> cd_dev_hdl d = so_dev_hdl (ts_ops s) \<and> apply_at_eof (ts_ops s) \<or>
     trigger = CAM_TRIGGER_POINT_EOF \<and> cd_dev_hdl d = so_dev_hdl (ts_ops s) \<and> \<not> apply_at_eof (ts_ops s)"

fun frame_skip_loop :: "'x kmd \<Rightarrow> u32 \<Rightarrow> (int \<Rightarrow> cam_req_mgr_apply) \<Rightarrow> u32 \<Rightarrow>
  cam_req_mgr_connected_device list \<Rightarrow> cam_req_mgr_req_tbl list \<Rightarrow> 'x crm_env \<Rightarrow>
  (cam_req_mgr_req_tbl list \<times> 'x crm_env) option" where
  "frame_skip_loop kmd lhdl ad trigger [] ts e = Some (ts, e)"
| "frame_skip_loop kmd lhdl ad trigger (d # ds) ts e =
     (let pd = p_delay (dev_info d); idx = ad_idx (ad pd) in
      if CAM_PIPELINE_DELAY_MAX \<le> pd then frame_skip_loop kmd lhdl ad trigger ds ts e
      else do {
        s \<leftarrow> pd_slot ts d idx;
        if so_dev_hdl (ts_ops s) = cd_dev_hdl d \<and> is_applied (ts_ops s)
        then frame_skip_loop kmd lhdl ad trigger ds (upd_pd_slot (pd_tbl d) idx (set_is_applied False) ts) e
        else if eof_mismatch trigger d s then frame_skip_loop kmd lhdl ad trigger ds ts e
        else
          let r = \<lparr>ar_link_hdl = lhdl, ar_dev_hdl = cd_dev_hdl d, ar_request_id = word_of_int (ad_req_id (ad pd)),
                   report_if_bubble = 0, ar_trigger_point = trigger, re_apply = stack_flag e\<rparr>
          in frame_skip_loop kmd lhdl ad trigger ds ts (snd (call_op op_notify_frame_skip kmd d r e))
      })"

definition notify_frame_skip :: "'x kmd \<Rightarrow> u32 \<Rightarrow> cam_req_mgr_core_link \<Rightarrow> 'x crm_env \<Rightarrow>
  (cam_req_mgr_core_link \<times> 'x crm_env) option" where
  "notify_frame_skip kmd trigger l e = do {
     (ts, e') \<leftarrow> frame_skip_loop kmd (link_hdl l) (prev_apply_data l) trigger (link_devs l) (l_tbl l) e;
     Some (l\<lparr>l_tbl := ts\<rparr>, e')
   }"

fun send_evt_loop :: "'x kmd \<Rightarrow> cam_req_mgr_link_evt_data \<Rightarrow> cam_req_mgr_connected_device list \<Rightarrow> 'x crm_env \<Rightarrow>
  bool \<times> 'x crm_env" where
  "send_evt_loop kmd ev [] e = (try_for_recovery ev, e)"
| "send_evt_loop kmd ev (d # ds) e =
     (let (fl, e1) = call_process_evt kmd d (ev\<lparr>ev_dev_hdl := cd_dev_hdl d\<rparr>) e
      in send_evt_loop kmd (ev\<lparr>try_for_recovery := fl\<rparr>) ds e1)"

definition send_evt :: "'x kmd \<Rightarrow> u64 \<Rightarrow> cam_req_mgr_link_evt_type \<Rightarrow> cam_req_mgr_device_error \<Rightarrow>
  cam_req_mgr_core_link \<Rightarrow> 'x crm_env \<Rightarrow> cam_req_mgr_core_link \<times> 'x crm_env" where
  "send_evt kmd req_id ty err l e =
     (let (fl, e') = send_evt_loop kmd \<lparr>ev_link_hdl = link_hdl l, ev_dev_hdl = 0, ev_req_id = req_id,
          try_for_recovery = try_for_internal_recovery l, ev_type = ty, ev_u = Evt_error err\<rparr> (link_devs l) e
      in (l\<lparr>try_for_internal_recovery := fl\<rparr>, e'))"

text \<open>\<open>ses\<close> is the handle of the session the link belongs to.\<close>

definition notify_error_on_link :: "'x kmd \<Rightarrow> u32 option \<Rightarrow> cam_req_mgr_connected_device \<Rightarrow>
  cam_req_mgr_core_link \<Rightarrow> 'x crm_env \<Rightarrow> int \<times> cam_req_mgr_core_link \<times> 'x crm_env" where
  "notify_error_on_link kmd ses d l e =
     (case ses of None \<Rightarrow> (- EINVAL, l, e)
      | Some shdl \<Rightarrow>
          let pd = p_delay (dev_info d) in
          if CAM_PIPELINE_DELAY_MAX \<le> pd then (- EINVAL, l, e)
          else if CAM_PIPELINE_DELAY_MAX \<le> min_delay l then (- EINVAL, l, e)
          else
            let (l1, e1) = send_evt kmd (word_of_int (ad_req_id (apply_data l (min_delay l))))
                             CAM_REQ_MGR_LINK_EVT_STALLED CRM_KMD_ERR_FATAL l e in
            if try_for_internal_recovery l1 then (0, l1, e1)
            else
              let (rc, e2) = cam_req_mgr_notify_message
                     \<lparr>em_session_hdl = shdl, em_error_type = CAM_REQ_MGR_ERROR_TYPE_RECOVERY,
                      em_request_id = word_of_int (ad_req_id (apply_data l1 pd)),
                      em_link_hdl = link_hdl l1, em_error_code = CAM_REQ_MGR_LINK_STALLED_ERROR\<rparr> e1
              in (rc, l1, e2))"

subsection \<open>The traversal of the tables\<close>

record cam_req_mgr_traverse =
  tv_idx :: int
  tv_result :: u32
  tv_req_id :: int
  tv_pd :: u32
  tv_masked_value :: u32
  validate_only :: bool
  tv_open_req_cnt :: u32

definition slot_passes :: "cam_req_mgr_req_queue \<Rightarrow> cam_req_mgr_req_tbl \<Rightarrow> int \<Rightarrow> bool" where
  "slot_passes q t i \<longleftrightarrow> ts_state (tb_slot t i) = CRM_REQ_STATE_READY \<or> skip_idx (q_slot q i) = 1 \<or> 0 < skip_traverse t"

fun traverse :: "cam_req_mgr_req_queue \<Rightarrow> cam_req_mgr_req_tbl list \<Rightarrow> cam_req_mgr_traverse \<Rightarrow>
  (int \<Rightarrow> cam_req_mgr_apply) \<Rightarrow>
  int \<times> cam_req_mgr_req_tbl list \<times> cam_req_mgr_traverse \<times> (int \<Rightarrow> cam_req_mgr_apply)" where
  "traverse q [] tv ad = (- EINVAL, [], tv\<lparr>tv_result := 0\<rparr>, ad)"
| "traverse q (t # ts) tv ad =
     (let cur = tv_idx tv in
      if slot_passes q t cur then
        let (rc, ts', tv', ad') =
              (if ts = [] then (0, [], tv, ad)
               else traverse q ts (tv\<lparr>tv_idx := dec_idx cur (pd_delta t) (tb_num_slots t)\<rparr>) ad) in
        if 0 \<le> rc then
          let tv'' = tv'\<lparr>tv_result := tv_result tv' OR push_bit (nat (tb_pd t)) 1\<rparr> in
          if validate_only tv then (0, t # ts', tv'', ad')
          else
            let a = (ad' (tb_pd t))\<lparr>ad_pd := tb_pd t, ad_idx := cur,
                       ad_req_id := (if 0 < skip_traverse t then - 1 else sl_req_id (q_slot q cur))\<rparr>;
                t' = (if 0 < skip_traverse t then t\<lparr>skip_traverse := skip_traverse t - 1\<rparr> else t)
            in (0, t' # ts', tv'', ad'(tb_pd t := a))
        else (rc, t # ts', tv', ad')
      else
        (- CRM_EAGAIN, t # ts,
         tv\<lparr>tv_req_id := sl_req_id (q_slot q cur), tv_pd := word_of_int (tb_pd t),
            tv_masked_value := dev_mask t AND req_ready_map (tb_slot t cur),
            tv_result := tv_result tv AND NOT (push_bit (nat (tb_pd t)) 1)\<rparr>, ad))"

subsection \<open>Slots\<close>

definition in_q_skip_idx :: "int \<Rightarrow> cam_req_mgr_req_queue \<Rightarrow> cam_req_mgr_req_queue" where
  "in_q_skip_idx idx q = upd_slot idx (\<lambda>s. s\<lparr>sl_req_id := - 1, skip_idx := 1\<rparr>) q"

fun tbl_set_id :: "cam_req_mgr_req_tbl list \<Rightarrow> int \<Rightarrow> cam_req_mgr_req_tbl list \<times> int" where
  "tbl_set_id [] n = ([], n)"
| "tbl_set_id (t # ts) n = (let (ts', n') = tbl_set_id ts (n + 1) in (t\<lparr>tb_id := n\<rparr> # ts', n'))"

definition tbl_set_all_skip_cnt :: "cam_req_mgr_req_tbl list \<Rightarrow> cam_req_mgr_req_tbl list" where
  "tbl_set_all_skip_cnt ts =
     (case ts of [] \<Rightarrow> []
      | t # _ \<Rightarrow> map (\<lambda>u. u\<lparr>skip_traverse := tb_pd t - tb_pd u\<rparr>) ts)"

text \<open>The search runs backwards from the read index, through all slots.\<close>

fun find_slot_loop :: "nat \<Rightarrow> int \<Rightarrow> cam_req_mgr_req_queue \<Rightarrow> int \<Rightarrow> int" where
  "find_slot_loop 0 idx q req_id = - 1"
| "find_slot_loop (Suc k) idx q req_id =
     (if sl_req_id (q_slot q idx) = req_id then idx
      else find_slot_loop k (dec_idx idx 1 (q_num_slots q)) q req_id)"

definition find_slot_for_req :: "cam_req_mgr_req_queue \<Rightarrow> int \<Rightarrow> int" where
  "find_slot_for_req q req_id = find_slot_loop (nat (q_num_slots q)) (rd_idx q) q req_id"

definition clear_sync_hdls :: "cam_req_mgr_slot \<Rightarrow> cam_req_mgr_slot" where
  "clear_sync_hdls s = s\<lparr>sync_link_hdls := (sync_link_hdls s)(0 := 0, 1 := 0, 2 := 0)\<rparr>"

definition reset_tbl_slot :: "cam_req_mgr_tbl_slot \<Rightarrow> cam_req_mgr_tbl_slot" where
  "reset_tbl_slot s = s\<lparr>req_ready_map := 0, ts_state := CRM_REQ_STATE_EMPTY,
     inject_delay_at_sof := 0, inject_delay_at_eof := 0,
     ts_ops := \<lparr>so_dev_hdl = - 1, apply_at_eof = False, is_applied = False\<rparr>\<rparr>"

definition reset_slot :: "cam_req_mgr_slot \<Rightarrow> cam_req_mgr_slot" where
  "reset_slot s = clear_sync_hdls (s\<lparr>sl_req_id := - 1, skip_idx := 0, recover := 0, additional_timeout := 0,
     recovery_counter := 0, sl_sync_mode := CAM_REQ_MGR_SYNC_MODE_NO_SYNC,
     sl_status := CRM_SLOT_STATUS_NO_REQ, sl_num_sync_links := 0\<rparr>)"

text \<open>The queue of a link is passed separately where the caller has it at hand.\<close>

definition reset_req_slot :: "int \<Rightarrow> cam_req_mgr_req_queue \<Rightarrow> cam_req_mgr_core_link \<Rightarrow>
  cam_req_mgr_req_queue \<times> cam_req_mgr_core_link" where
  "reset_req_slot idx q l =
     (if sl_status (q_slot q idx) = CRM_SLOT_STATUS_REQ_ADDED \<or> last_applied_idx q = idx \<or> idx < 0
      then (q, l\<lparr>in_q := Some q\<rparr>)
      else let q' = upd_slot idx reset_slot q in
           (q', l\<lparr>in_q := Some q', l_tbl := map (upd_tbl_slot idx reset_tbl_slot) (l_tbl l)\<rparr>))"

definition validate_crm_wd_timer :: "u64 \<Rightarrow> cam_req_mgr_req_queue \<Rightarrow> cam_req_mgr_core_link \<Rightarrow>
  cam_req_mgr_core_link" where
  "validate_crm_wd_timer now q l =
     (if skip_init_frame l then l\<lparr>skip_init_frame := False\<rparr>
      else
        let nxt = q_slot q (dec_idx (rd_idx q) (max_delay l - 1) (q_num_slots q));
            cur = q_slot q (dec_idx (rd_idx q) (max_delay l) (q_num_slots q)) in
        if sl_req_id cur = - 1 \<and> sl_req_id nxt = - 1 then l
        else case watchdog l of None \<Rightarrow> l
        | Some w \<Rightarrow>
            if expires w < additional_timeout nxt + CAM_REQ_MGR_WATCHDOG_TIMEOUT
            then l\<lparr>watchdog := crm_timer_modify now (Some w) (additional_timeout nxt + CAM_REQ_MGR_WATCHDOG_TIMEOUT)\<rparr>
            else if additional_timeout cur \<noteq> 0
            then l\<lparr>watchdog := crm_timer_modify now (Some w) (additional_timeout cur + CAM_REQ_MGR_WATCHDOG_TIMEOUT)\<rparr>
            else if additional_timeout nxt = 0 \<and> CAM_REQ_MGR_WATCHDOG_TIMEOUT < expires w
            then l\<lparr>watchdog := crm_timer_modify now (Some w) CAM_REQ_MGR_WATCHDOG_TIMEOUT\<rparr>
            else l)"

definition check_for_lower_pd_devices :: "cam_req_mgr_core_link \<Rightarrow> int" where
  "check_for_lower_pd_devices l =
     (if \<exists>d \<in> set (link_devs l). p_delay (dev_info d) < max_delay l then 0 else - CRM_EAGAIN)"

definition check_next_req_slot :: "cam_req_mgr_req_queue \<Rightarrow> cam_req_mgr_core_link \<Rightarrow>
  int \<times> cam_req_mgr_req_queue \<times> cam_req_mgr_core_link" where
  "check_next_req_slot q l =
     (let idx = inc_idx (rd_idx q) 1 (q_num_slots q);
          (q1, l1) =
            (if sl_status (q_slot q idx) = CRM_SLOT_STATUS_REQ_APPLIED
             then reset_req_slot idx (if last_applied_idx q = idx then q\<lparr>last_applied_idx := - 1\<rparr> else q) l
             else (q, l)) in
      if sl_status (q_slot q1 idx) = CRM_SLOT_STATUS_NO_REQ then
        let rc = check_for_lower_pd_devices l1 in
        if rc \<noteq> 0 then (rc, q1, l1)
        else
          let q2 = upd_slot idx (\<lambda>s. s\<lparr>sl_status := CRM_SLOT_STATUS_REQ_ADDED\<rparr>) (in_q_skip_idx idx q1);
              q3 = (if wr_idx q2 \<noteq> idx then q2
                    else q2\<lparr>wr_idx := inc_idx (wr_idx q2) 1 (q_num_slots q2)\<rparr>)
          in (0, q3, l1\<lparr>in_q := Some q3\<rparr>)
      else (0, q1, l1))"

subsection \<open>Handing a request to the devices\<close>

text \<open>The first pass serves the devices that asked for a special operation: settings that are applied at the
  end of a frame. It can fail, end the function, or let the second pass follow.\<close>

datatype send_outcome = Send_failed int cam_req_mgr_connected_device | Send_returned | Send_go_on

definition skip_request :: "'x kmd \<Rightarrow> u32 \<Rightarrow> cam_req_mgr_core_link \<Rightarrow> cam_req_mgr_connected_device \<Rightarrow>
  cam_req_mgr_apply_request \<Rightarrow> 'x crm_env \<Rightarrow> cam_req_mgr_apply_request \<times> 'x crm_env" where
  "skip_request kmd trigger l d ar e =
     (let ar' = ar\<lparr>ar_dev_hdl := cd_dev_hdl d,
            ar_request_id := word_of_int (ad_req_id (prev_apply_data l (p_delay (dev_info d)))),
            ar_trigger_point := trigger, report_if_bubble := 0\<rparr>
      in (ar', snd (call_op op_notify_frame_skip kmd d ar' e)))"

fun special_loop :: "'x kmd \<Rightarrow> u32 \<Rightarrow> cam_req_mgr_core_link \<Rightarrow> cam_req_mgr_connected_device list \<Rightarrow>
  cam_req_mgr_apply_request \<Rightarrow> cam_req_mgr_req_tbl list \<Rightarrow> 'x crm_env \<Rightarrow>
  (send_outcome \<times> cam_req_mgr_apply_request \<times> cam_req_mgr_req_tbl list \<times> 'x crm_env) option" where
  "special_loop kmd trigger l [] ar ts e = Some (Send_go_on, ar, ts, e)"
| "special_loop kmd trigger l (d # ds) ar ts e =
     (let pd = p_delay (dev_info d); a = apply_data l pd; idx = ad_idx a in
      if CAM_PIPELINE_DELAY_MAX \<le> pd then special_loop kmd trigger l ds ar ts e
      else do {
        s \<leftarrow> pd_slot ts d idx;
        if so_dev_hdl (ts_ops s) <s 0 \<or> cd_dev_hdl d \<noteq> so_dev_hdl (ts_ops s)
        then special_loop kmd trigger l ds ar ts e
        else if ad_skip_idx a \<noteq> 0 \<or> ad_req_id a < 0 then
          let (ar', e') = skip_request kmd trigger l d ar e in special_loop kmd trigger l ds ar' ts e'
        else if trigger = CAM_TRIGGER_POINT_SOF \<and> apply_at_eof (ts_ops s) then Some (Send_go_on, ar, ts, e)
        else if trigger = CAM_TRIGGER_POINT_EOF \<and> \<not> apply_at_eof (ts_ops s) then Some (Send_go_on, ar, ts, e)
        else
          let ar' = ar\<lparr>ar_dev_hdl := cd_dev_hdl d, ar_request_id := word_of_int (ad_req_id a),
                      ar_trigger_point := trigger\<rparr> in
          if \<not> (has_op op_apply_req kmd d \<and> \<not> is_applied (ts_ops s)) then Some (Send_go_on, ar', ts, e)
          else
            let (rc, e') = call_op op_apply_req kmd d ar' e in
            if rc \<noteq> 0 then Some (Send_failed rc d, ar', ts, e')
            else if trigger = CAM_TRIGGER_POINT_EOF \<and> apply_at_eof (ts_ops s) then
              Some (Send_returned, ar',
                upd_pd_slot (pd_tbl d) idx
                  (\<lambda>s. s\<lparr>ts_ops := (ts_ops s)\<lparr>is_applied := True, apply_at_eof := False\<rparr>\<rparr>) ts, e')
            else special_loop kmd trigger l ds ar' ts e'
      })"

text \<open>The second pass. \<open>visited\<close> are the devices the pass has reached, the last one first; \<open>mp\<close> is the request
  applied to a device with the smallest delay. The pass stops at the first device that fails.\<close>

fun regular_loop :: "'x kmd \<Rightarrow> u32 \<Rightarrow> cam_req_mgr_core_link \<Rightarrow> cam_req_mgr_req_queue \<Rightarrow>
  cam_req_mgr_connected_device list \<Rightarrow> cam_req_mgr_connected_device list \<Rightarrow> int \<Rightarrow> cam_req_mgr_apply_request \<Rightarrow>
  cam_req_mgr_req_tbl list \<Rightarrow> int \<Rightarrow> 'x crm_env \<Rightarrow>
  (int \<times> cam_req_mgr_connected_device list \<times> cam_req_mgr_apply_request \<times> cam_req_mgr_req_tbl list \<times> int \<times>
    'x crm_env) option" where
  "regular_loop kmd trigger l q visited [] rc ar ts mp e = Some (rc, visited, ar, ts, mp, e)"
| "regular_loop kmd trigger l q visited (d # ds) rc ar ts mp e =
     (let pd = p_delay (dev_info d); a = apply_data l pd; idx = ad_idx a in
      if CAM_PIPELINE_DELAY_MAX \<le> pd \<or> di_trigger (dev_info d) AND trigger = 0
      then regular_loop kmd trigger l q (d # visited) ds rc ar ts mp e
      else if ad_skip_idx a \<noteq> 0 \<or> ad_req_id a < 0 then
        let (ar', e') = skip_request kmd trigger l d ar e
        in regular_loop kmd trigger l q (d # visited) ds rc ar' ts mp e'
      else do {
        s \<leftarrow> pd_slot ts d idx;
        let report = recover (q_slot q idx);
        let ar1 = ar\<lparr>ar_dev_hdl := cd_dev_hdl d, ar_request_id := word_of_int (ad_req_id a),
                   report_if_bubble := report,
                   re_apply := (0 < retry_cnt l \<and> report = 0 \<and> dual_trigger l \<or> re_apply ar)\<rparr>;
        if so_dev_hdl (ts_ops s) = cd_dev_hdl d \<and> is_applied (ts_ops s)
        then regular_loop kmd trigger l q (d # visited) ds rc ar1
               (upd_pd_slot (pd_tbl d) idx (set_is_applied False) ts) mp e
        else if eof_mismatch trigger d s then regular_loop kmd trigger l q (d # visited) ds rc ar1 ts mp e
        else
          let ar2 = ar1\<lparr>ar_trigger_point := trigger\<rparr>;
              (rc', e') = (if has_op op_apply_req kmd d then call_op op_apply_req kmd d ar2 e else (rc, e)) in
          if rc' < 0 then Some (rc', d # visited, ar2, ts, mp, e')
          else regular_loop kmd trigger l q (d # visited) ds rc' ar2 ts
                 (if pd = min_delay l then sint (ar_request_id ar2) else mp) e'
      })"

definition send_req :: "'x kmd \<Rightarrow> bool \<Rightarrow> u32 \<Rightarrow> cam_req_mgr_req_queue \<Rightarrow> cam_req_mgr_core_link \<Rightarrow>
  'x crm_env \<Rightarrow>
  (int \<times> cam_req_mgr_connected_device option \<times> cam_req_mgr_core_link \<times> 'x crm_env) option" where
  "send_req kmd recovery trigger q l e =
     (let ar = \<lparr>ar_link_hdl = link_hdl l, ar_dev_hdl = 0, ar_request_id = 0, report_if_bubble = 0,
               ar_trigger_point = 0, re_apply = (0 < retry_cnt l \<and> recovery)\<rparr> in do {
      (out, ar1, ts1, e1) \<leftarrow> special_loop kmd trigger l (link_devs l) ar (l_tbl l) e;
      let l1 = l\<lparr>l_tbl := ts1\<rparr>;
      case out of
        Send_failed rc d \<Rightarrow> do {
          (l2, e2) \<leftarrow> notify_frame_skip kmd trigger l1 e1;
          Some (rc, Some d, l2, e2) }
      | Send_returned \<Rightarrow>
          Some (0, None, l1\<lparr>eof_event_cnt := (if 0 < eof_event_cnt l1 then eof_event_cnt l1 - 1
                                              else eof_event_cnt l1)\<rparr>, e1)
      | Send_go_on \<Rightarrow> do {
          (rc, visited, ar2, ts2, mp, e2) \<leftarrow>
             regular_loop kmd trigger l q [] (link_devs l) 0 ar1 ts1 (- 1) e1;
          let l2 = l\<lparr>l_tbl := ts2\<rparr>;
          if rc < 0 then do {
            let e3 = snd (send_evt_loop kmd \<lparr>ev_link_hdl = link_hdl l, ev_dev_hdl = 0,
                       ev_req_id = ar_request_id ar2, try_for_recovery = stack_flag e2,
                       ev_type = CAM_REQ_MGR_LINK_EVT_ERR, ev_u = Evt_error CRM_KMD_ERR_BUBBLE\<rparr> visited e2);
            (l3, e4) \<leftarrow> notify_frame_skip kmd trigger l2 e3;
            Some (rc, (case visited of d # _ \<Rightarrow> Some d | [] \<Rightarrow> None), l3, e4) }
          else
            Some (rc, None, l2\<lparr>prev_apply_data := (\<lambda>pd. if 0 \<le> pd \<and> pd < CAM_PIPELINE_DELAY_MAX
                                    then apply_data l2 pd else prev_apply_data l2 pd),
                              open_req_cnt := (if 0 < mp then open_req_cnt l2 - 1 else open_req_cnt l2)\<rparr>, e2) }
     })"

definition new_traverse :: "int \<Rightarrow> bool \<Rightarrow> cam_req_mgr_core_link \<Rightarrow> cam_req_mgr_traverse" where
  "new_traverse idx vo l = \<lparr>tv_idx = idx, tv_result = 0, tv_req_id = 0, tv_pd = 0, tv_masked_value = 0,
     validate_only = vo, tv_open_req_cnt = open_req_cnt l\<rparr>"

text \<open>The queue is not looked at when there is no table.\<close>

definition check_link_is_ready :: "int \<Rightarrow> bool \<Rightarrow> cam_req_mgr_core_link \<Rightarrow> (int \<times> cam_req_mgr_core_link) option" where
  "check_link_is_ready idx vo l =
     (let ad = (if vo then apply_data l
                else (\<lambda>pd. if 0 \<le> pd \<and> pd < CAM_PIPELINE_DELAY_MAX then zero_apply else apply_data l pd));
          l1 = l\<lparr>apply_data := ad, initial_skip := False\<rparr> in
      if l_tbl l = [] then Some (- CRM_EAGAIN, l1)
      else do {
        q \<leftarrow> in_q l;
        let (rc, ts, tv, ad') = traverse q (l_tbl l) (new_traverse idx vo l) ad;
        Some (if rc = 0 \<and> tv_result tv = pd_mask l then 0 else - CRM_EAGAIN,
              l1\<lparr>l_tbl := ts, apply_data := ad'\<rparr>)
      })"

end
