(* ===== verification/Cam_Crm_Sync.thy ===== *)
theory Cam_Crm_Sync
  imports Cam_Crm_Apply
begin

section \<open>Readiness of links that run in step\<close>

text \<open>
  \<open>__cam_req_mgr_check_sync_for_mslave\<close>, \<open>__cam_req_mgr_check_sync_req_is_ready\<close> and
  \<open>__cam_req_mgr_check_multi_sync_link_ready\<close> of \<open>cam_req_mgr_core.c\<close>. A request may name other links
  that must apply it in the same frame. Links are the entries of the array \<open>g_links\<close>, here a
  function from the index; the pointer to a link is its index, so that a link that is synchronised with
  itself is one object. The slot that is processed belongs to the queue of the first link; the
  functions only read it.
\<close>

type_synonym links = "nat \<Rightarrow> cam_req_mgr_core_link"

abbreviation (input) DEFAULT_FRAME_DURATION :: u64 where "DEFAULT_FRAME_DURATION \<equiv> 33333333"
abbreviation (input) INITIAL_IN_SYNC_REQ :: int where "INITIAL_IN_SYNC_REQ \<equiv> 5"

definition upd_link :: "nat \<Rightarrow> (cam_req_mgr_core_link \<Rightarrow> cam_req_mgr_core_link) \<Rightarrow> links \<Rightarrow> links" where
  "upd_link i f L = L(i := f (L i))"

definition set_sof_skip :: "bool \<Rightarrow> cam_req_mgr_core_link \<Rightarrow> cam_req_mgr_core_link" where
  "set_sof_skip b l = l\<lparr>sync_link_sof_skip := b\<rparr>"

definition validate_link :: "nat \<Rightarrow> int \<Rightarrow> links \<Rightarrow> (int \<times> links) option" where
  "validate_link i idx L = do {
     (rc, l) \<leftarrow> check_link_is_ready idx True (L i);
     Some (rc, L(i := l))
   }"

text \<open>The part that master and slave share: the other link must have the request \<open>req\<close> next, and ready.\<close>

definition mslave_peer_ready :: "nat \<Rightarrow> nat \<Rightarrow> int \<Rightarrow> links \<Rightarrow> (int \<times> links) option" where
  "mslave_peer_ready i j req L =
     (if initial_sync_req (L j) \<noteq> - 1 \<and> initial_sync_req (L j) \<le> req then do {
        q \<leftarrow> in_q (L j);
        let idx = find_slot_for_req q req;
        if idx = - 1 then Some (- EINVAL, upd_link i (set_sof_skip True) L)
        else if sl_status (q_slot q idx) \<noteq> CRM_SLOT_STATUS_REQ_APPLIED \<and>
                1 \<le> (idx - rd_idx q + q_num_slots q) mod q_num_slots q \<and>
                sl_status (q_slot q (rd_idx q)) \<noteq> CRM_SLOT_STATUS_REQ_APPLIED
        then Some (- EINVAL, L)
        else do {
          (rc, L1) \<leftarrow> validate_link j idx L;
          if rc \<noteq> 0 \<and> sl_status (q_slot q idx) \<noteq> CRM_SLOT_STATUS_REQ_APPLIED
          then Some (rc, upd_link i (set_sof_skip True) L1)
          else Some (0, L1)
        } }
      else Some (0, L))"

definition check_sync_for_mslave :: "nat \<Rightarrow> nat option \<Rightarrow> cam_req_mgr_slot \<Rightarrow> links \<Rightarrow> (int \<times> links) option" where
  "check_sync_for_mslave i sync s L =
     (case sync of None \<Rightarrow> Some (- EINVAL, L)
      | Some j \<Rightarrow> (case in_q (L j) of None \<Rightarrow> Some (- EINVAL, L)
      | Some sq \<Rightarrow>
          if sync_link_sof_skip (L j) then Some (- CRM_EAGAIN, upd_link j (set_sof_skip False) L)
          else if in_msync_mode (L i) \<and> in_msync_mode (L j) \<and>
             max_delay (L i) - max_delay (L j) < sl_req_id s - sl_req_id (q_slot sq (rd_idx sq))
          then Some (- EINVAL, L)
          else if is_master (L i) then
            if initial_skip (L j) then Some (- CRM_EAGAIN, L)
            else do {
              (rc, L1) \<leftarrow> validate_link i (sl_idx s) L;
              if rc \<noteq> 0 then Some (rc, upd_link i (set_sof_skip True) L1)
              else do {
                q \<leftarrow> in_q (L1 i);
                let prev_idx = dec_idx (sl_idx s) (max_delay (L1 i) - max_delay (L1 j)) (q_num_slots q);
                mslave_peer_ready i j (sl_req_id (q_slot q prev_idx)) L1
              } }
          else do {
            (rc, L1) \<leftarrow> validate_link i (sl_idx s) (upd_link i (\<lambda>l. l\<lparr>initial_skip := False\<rparr>) L);
            if rc \<noteq> 0 then Some (rc, upd_link i (set_sof_skip True) L1)
            else do {
              q \<leftarrow> in_q (L1 i);
              let next_idx = inc_idx (rd_idx q) (max_delay (L1 j) - max_delay (L1 i)) (q_num_slots q);
              mslave_peer_ready i j (sl_req_id (q_slot q next_idx)) L1
            } }))"

text \<open>Two links of the same delay. \<open>dur\<close> is the duration of the last frame of the other link; the time stamps
  are 64-bit numbers whose difference may wrap.\<close>

definition sync_frame_duration :: "cam_req_mgr_core_link \<Rightarrow> u64" where
  "sync_frame_duration l =
     (if prev_sof_timestamp l \<noteq> 0 then sof_timestamp l - prev_sof_timestamp l else DEFAULT_FRAME_DURATION)"

definition first_frame_skipped :: "cam_req_mgr_core_link \<Rightarrow> cam_req_mgr_core_link \<Rightarrow> bool" where
  "first_frame_skipped l sl \<longleftrightarrow>
     sof_timestamp sl < sof_timestamp l \<and> 0 < sof_timestamp sl \<and>
       sof_timestamp l - sof_timestamp sl < sync_frame_duration sl div 2 \<or>
     sof_timestamp l \<le> sof_timestamp sl"

definition not_next_on_peer :: "cam_req_mgr_req_queue \<Rightarrow> int \<Rightarrow> bool" where
  "not_next_on_peer q idx \<longleftrightarrow>
     (let diff = (idx - rd_idx q + q_num_slots q) mod q_num_slots q in
      sl_status (q_slot q idx) \<noteq> CRM_SLOT_STATUS_REQ_APPLIED \<and>
      (1 < diff \<or> diff = 1 \<and> sl_status (q_slot q (rd_idx q)) \<noteq> CRM_SLOT_STATUS_REQ_APPLIED))"

definition self_correction :: "nat \<Rightarrow> nat \<Rightarrow> cam_req_mgr_slot \<Rightarrow> cam_req_mgr_req_queue \<Rightarrow> int \<Rightarrow> u32 \<Rightarrow> links \<Rightarrow>
  int \<times> links" where
  "self_correction i j s q idx trigger L =
     (let delta = (if sof_timestamp (L j) \<le> sof_timestamp (L i) then sof_timestamp (L i) - sof_timestamp (L j)
                   else sof_timestamp (L j) - sof_timestamp (L i));
          rd = q_slot q (rd_idx q) in
      if trigger = CAM_TRIGGER_POINT_SOF \<and> 0 < sof_timestamp (L j) \<and>
         delta < sync_frame_duration (L j) div 5 \<and> sl_sync_mode rd = CAM_REQ_MGR_SYNC_MODE_SYNC \<and>
         initial_sync_req (L i) \<le> sl_req_id s \<and>
         INITIAL_IN_SYNC_REQ + max_delay (L i) \<le> sl_req_id s - initial_sync_req (L i)
      then if sl_req_id rd < sl_req_id s then (- CRM_EAGAIN, L)
           else if sl_req_id s < sl_req_id rd then (0, upd_link i (set_sof_skip True) L)
           else if sl_status (q_slot q idx) \<noteq> CRM_SLOT_STATUS_REQ_APPLIED then (- CRM_EAGAIN, L)
           else (0, L)
      else (0, L))"

definition check_sync_req_is_ready :: "nat \<Rightarrow> nat option \<Rightarrow> cam_req_mgr_slot \<Rightarrow> u32 \<Rightarrow> links \<Rightarrow>
  (int \<times> links) option" where
  "check_sync_req_is_ready i sync s trigger L =
     (case sync of None \<Rightarrow> Some (- EINVAL, L)
      | Some j \<Rightarrow> (case in_q (L j) of None \<Rightarrow> Some (- EINVAL, L)
      | Some q \<Rightarrow>
          if initial_skip (L j) \<and> sl_req_id (q_slot q (rd_idx q)) \<le> sl_req_id s
          then Some (- CRM_EAGAIN, upd_link i (\<lambda>l. l\<lparr>initial_skip := False\<rparr>) L)
          else
            let L0 = upd_link i (\<lambda>l. l\<lparr>initial_skip := False\<rparr>) L in
            if initial_skip (L i) \<and> first_frame_skipped (L0 i) (L0 j) then Some (- CRM_EAGAIN, L0)
            else if sync_link_sof_skip (L0 j) then Some (- CRM_EAGAIN, upd_link j (set_sof_skip False) L0)
            else
              let idx = find_slot_for_req q (sl_req_id s) in
              if idx = - 1 then Some (- CRM_EAGAIN, L0)
              else if not_next_on_peer q idx then Some (- CRM_EAGAIN, L0)
              else do {
                (rc1, L1) \<leftarrow> validate_link i (sl_idx s) L0;
                (rc2, L2) \<leftarrow> validate_link j idx L1;
                let ready = (rc1 = 0);
                let sync_ready = (rc2 = 0 \<or> sl_status (q_slot q idx) = CRM_SLOT_STATUS_REQ_APPLIED);
                if sync_ready \<noteq> ready then
                  Some (- EINVAL,
                    if sync_frame_duration (L2 j) div 2 < sof_timestamp (L2 i) - sof_timestamp (L2 j)
                    then upd_link i (set_sof_skip True) L2 else L2)
                else if \<not> ready then Some (- EINVAL, L2)
                else Some (self_correction i j s q idx trigger L2)
              }))"

fun multi_sync_loop :: "nat \<Rightarrow> nat option list \<Rightarrow> cam_req_mgr_slot \<Rightarrow> u32 \<Rightarrow> links \<Rightarrow> (int \<times> links) option" where
  "multi_sync_loop i [] s trigger L = Some (0, L)"
| "multi_sync_loop i (None # js) s trigger L = Some (- EINVAL, L)"
| "multi_sync_loop i (Some j # js) s trigger L =
     (if sl_req_id s \<le> last_flush_id (L j) then do {
        (rc, L1) \<leftarrow> validate_link i (sl_idx s) L;
        if rc = 0 then multi_sync_loop i js s trigger L1 else Some (- EINVAL, L1) }
      else if link_state (L j) = CAM_CRM_LINK_STATE_IDLE then Some (- EINVAL, L)
      else do {
        (rc, L1) \<leftarrow>
          (if max_delay (L i) = max_delay (L j) then check_sync_req_is_ready i (Some j) s trigger L
           else
             let m = (max_delay (L j) < max_delay (L i)) in
             check_sync_for_mslave i (Some j) s
               (upd_link j (\<lambda>l. l\<lparr>is_master := \<not> m\<rparr>) (upd_link i (\<lambda>l. l\<lparr>is_master := m\<rparr>) L)));
        if rc < 0 then Some (rc, L1) else multi_sync_loop i js s trigger L1 })"

definition check_multi_sync_link_ready :: "nat \<Rightarrow> nat option list \<Rightarrow> cam_req_mgr_slot \<Rightarrow> u32 \<Rightarrow> links \<Rightarrow>
  (int \<times> links) option" where
  "check_multi_sync_link_ready i js s trigger L =
     (if link_state (L i) = CAM_CRM_LINK_STATE_IDLE then Some (- EINVAL, L)
      else do {
        (rc, L1) \<leftarrow> multi_sync_loop i js s trigger L;
        if rc \<noteq> 0 then Some (rc, L1)
        else
          let (rc2, ts) = inject_delay (l_tbl (L1 i)) (sl_idx s) trigger;
              L2 = upd_link i (\<lambda>l. l\<lparr>l_tbl := ts\<rparr>) L1 in
          if rc2 < 0 then Some (- EINVAL, L2)
          else do {
            (rc3, l) \<leftarrow> check_link_is_ready (sl_idx s) False (L2 i);
            Some (0, L2(i := l)) }
      })"

datatype crm_req_eof_trigger_type =
  CAM_REQ_EOF_TRIGGER_NONE | CAM_REQ_EOF_TRIGGER_NOT_APPLY | CAM_REQ_EOF_TRIGGER_APPLIED

fun check_for_eof_loop :: "cam_req_mgr_req_tbl list \<Rightarrow> int \<Rightarrow> crm_req_eof_trigger_type" where
  "check_for_eof_loop [] cur = CAM_REQ_EOF_TRIGGER_NONE"
| "check_for_eof_loop (t # ts) cur =
     (if is_applied (ts_ops (tb_slot t cur)) then CAM_REQ_EOF_TRIGGER_APPLIED
      else if apply_at_eof (ts_ops (tb_slot t cur)) then CAM_REQ_EOF_TRIGGER_NOT_APPLY
      else check_for_eof_loop ts (dec_idx cur (pd_delta t) (tb_num_slots t)))"

definition check_for_eof :: "cam_req_mgr_req_queue \<Rightarrow> cam_req_mgr_core_link \<Rightarrow> crm_req_eof_trigger_type" where
  "check_for_eof q l = check_for_eof_loop (l_tbl l) (rd_idx q)"

end
