(* ===== verification/Cam_Crm_Frame.thy ===== *)
theory Cam_Crm_Frame
  imports Cam_Crm_Sync
begin

section \<open>What a link does at a frame\<close>

text \<open>
  \<open>__cam_req_mgr_process_req\<close> of \<open>cam_req_mgr_core.c\<close>, the step that a trigger at the start (SOF) or end (EOF)
  of a frame leads to, and the report of a camera that has stopped. The functions work on the state of the manager
  (\<open>'x crm\<close>); the lock of the session makes each of them atomic.
\<close>

subsection \<open>Operations of a link on the state of the manager\<close>

definition the_link :: "nat \<Rightarrow> 'x crm \<Rightarrow> cam_req_mgr_core_link" where
  "the_link i s = g_links s i"

definition set_links :: "links \<Rightarrow> 'x crm \<Rightarrow> 'x crm" where
  "set_links L s = s\<lparr>g_links := L\<rparr>"

definition map_link :: "nat \<Rightarrow> (cam_req_mgr_core_link \<Rightarrow> cam_req_mgr_core_link) \<Rightarrow> 'x crm \<Rightarrow> 'x crm" where
  "map_link i f s = s\<lparr>g_links := upd_link i f (g_links s)\<rparr>"

definition put_link :: "nat \<Rightarrow> cam_req_mgr_core_link \<times> 'x crm_env \<Rightarrow> 'x crm \<Rightarrow> 'x crm" where
  "put_link i le s = s\<lparr>g_links := (g_links s)(i := fst le), environ := snd le\<rparr>"

definition set_status :: "nat \<Rightarrow> int \<Rightarrow> crm_slot_status \<Rightarrow> 'x crm \<Rightarrow> 'x crm" where
  "set_status i idx st =
     map_link i (\<lambda>l. l\<lparr>in_q := map_option (upd_slot idx (\<lambda>s. s\<lparr>sl_status := st\<rparr>)) (in_q l)\<rparr>)"

definition frame_skip :: "'x kmd \<Rightarrow> u32 \<Rightarrow> nat \<Rightarrow> 'x crm \<Rightarrow> 'x crm option" where
  "frame_skip kmd trigger i s = do {
     le \<leftarrow> notify_frame_skip kmd trigger (the_link i s) (environ s);
     Some (put_link i le s)
   }"

definition wd_timer :: "nat \<Rightarrow> 'x crm \<Rightarrow> 'x crm option" where
  "wd_timer i s = do {
     q \<leftarrow> in_q (the_link i s);
     Some (map_link i (validate_crm_wd_timer (jiffies (environ s)) q) s)
   }"

text \<open>The links that a link has been synchronised with by the session, and those that a slot names itself. The
  arrays have three entries; more are outside the array.\<close>

definition link_sync_list :: "cam_req_mgr_core_link \<Rightarrow> nat option list option" where
  "link_sync_list l =
     (if MAXIMUM_LINKS_PER_SESSION - 1 < num_sync_links l then None
      else Some (map (\<lambda>k. sync_link l (int k)) [0..<nat (num_sync_links l)]))"

fun hdl_links :: "'x crm \<Rightarrow> u32 list \<Rightarrow> nat option list option" where
  "hdl_links s [] = Some []"
| "hdl_links s (h # hs) = do { p \<leftarrow> link_of_hdl s h; ps \<leftarrow> hdl_links s hs; Some (p # ps) }"

definition slot_sync_list :: "'x crm \<Rightarrow> cam_req_mgr_slot \<Rightarrow> nat option list option" where
  "slot_sync_list s sl =
     (if MAXIMUM_LINKS_PER_SESSION - 1 < sl_num_sync_links sl then None
      else hdl_links s (map (\<lambda>k. sync_link_hdls sl (int k)) [0..<nat (sl_num_sync_links sl)]))"

subsection \<open>The time stamps of a frame\<close>

abbreviation (input) CAM_COMMON_NS_PER_MS :: u64 where "CAM_COMMON_NS_PER_MS \<equiv> 1000000"

text \<open>\<open>CAM_REQ_MGR_HALF_FRAME_DURATION(a - b)\<close> expands to \<open>a - b / 2\<close>: the macro does not put its argument in
  parentheses.\<close>

definition wq_sched_timeout :: "cam_req_mgr_core_link \<Rightarrow> u64" where
  "wq_sched_timeout l = (sof_timestamp l - prev_sof_timestamp l div 2) div CAM_COMMON_NS_PER_MS"

definition update_timestamps :: "'x crm_env \<Rightarrow> cam_req_mgr_trigger_notify \<Rightarrow> cam_req_mgr_core_link \<Rightarrow>
  cam_req_mgr_core_link" where
  "update_timestamps e td l =
     (let l1 = l\<lparr>prev_sof_timestamp := sof_timestamp l, sof_timestamp := sof_timestamp_val td\<rparr>
      in l1\<lparr>wq_congestion := (ucast (jiffies_to_msecs e (jiffies e - last_sof_trigger_jiffies l)) < wq_sched_timeout l1),
            last_sof_trigger_jiffies := jiffies e\<rparr>)"

subsection \<open>Is the request ready?\<close>

definition leave_msync :: "nat option list \<Rightarrow> links \<Rightarrow> links" where
  "leave_msync js L = fold (\<lambda>j L. case j of None \<Rightarrow> L
      | Some k \<Rightarrow> upd_link k (\<lambda>l. l\<lparr>initial_sync_req := - 1, in_msync_mode := False\<rparr>) L) js L"

definition check_own_ready :: "nat \<Rightarrow> cam_req_mgr_slot \<Rightarrow> u32 \<Rightarrow> links \<Rightarrow> (int \<times> links) option" where
  "check_own_ready i sl trigger L = do {
     (rc, L1) \<leftarrow> validate_link i (sl_idx sl) L;
     if rc \<noteq> 0 then Some (rc, L1)
     else
       let (rc2, ts) = inject_delay (l_tbl (L1 i)) (sl_idx sl) trigger;
           L2 = upd_link i (\<lambda>l. l\<lparr>l_tbl := ts\<rparr>) L1 in
       if rc2 \<noteq> 0 then Some (rc2, L2)
       else do {
         (rc3, l) \<leftarrow> check_link_is_ready (sl_idx sl) False (L2 i);
         Some (rc3, L2(i := l)) }
   }"

definition slot_readiness :: "nat \<Rightarrow> cam_req_mgr_slot \<Rightarrow> u32 \<Rightarrow> 'x crm \<Rightarrow> (int \<times> 'x crm) option" where
  "slot_readiness i sl trigger s =
     (if sl_sync_mode sl = CAM_REQ_MGR_SYNC_MODE_SYNC then do {
        js \<leftarrow> (if sl_num_sync_links sl = 0 then link_sync_list (the_link i s) else slot_sync_list s sl);
        (rc, L) \<leftarrow> check_multi_sync_link_ready i js sl trigger (g_links s);
        Some (rc, set_links L s) }
      else do {
        L0 \<leftarrow> (if in_msync_mode (the_link i s) then do {
                 js \<leftarrow> link_sync_list (the_link i s);
                 Some (leave_msync js (upd_link i (\<lambda>l. l\<lparr>in_msync_mode := False, initial_sync_req := - 1\<rparr>)
                                         (g_links s))) }
               else Some (g_links s));
        (rc, L) \<leftarrow> check_own_ready i sl trigger L0;
        Some (rc, set_links L s) })"

definition request_not_ready :: "'x kmd \<Rightarrow> nat \<Rightarrow> int \<Rightarrow> u32 \<Rightarrow> int \<Rightarrow> 'x crm \<Rightarrow> (int \<times> 'x crm) option" where
  "request_not_ready kmd i idx trigger rc s = do {
     let s1 = set_status i idx CRM_SLOT_STATUS_REQ_PENDING s;
     let rc' = (if link_state (the_link i s1) = CAM_CRM_LINK_STATE_ERR then - EPERM else rc);
     s2 \<leftarrow> frame_skip kmd trigger i s1;
     s3 \<leftarrow> wd_timer i s2;
     Some (rc', s3)
   }"

subsection \<open>After the request has been sent\<close>

definition upd_slot_of :: "nat \<Rightarrow> int \<Rightarrow> (cam_req_mgr_slot \<Rightarrow> cam_req_mgr_slot) \<Rightarrow> 'x crm \<Rightarrow> 'x crm" where
  "upd_slot_of i idx f = map_link i (\<lambda>l. l\<lparr>in_q := map_option (upd_slot idx f) (in_q l)\<rparr>)"

definition max_retry_reached :: "'x kmd \<Rightarrow> nat \<Rightarrow> int \<Rightarrow> cam_req_mgr_connected_device \<Rightarrow> 'x crm \<Rightarrow> 'x crm option" where
  "max_retry_reached kmd i idx d s = do {
     q \<leftarrow> in_q (the_link i s);
     let s1 = (if recovery_counter (q_slot q idx) = 0
               then map_link i (\<lambda>l. l\<lparr>try_for_internal_recovery := True\<rparr>) s else s);
     ses \<leftarrow> (case link_parent (the_link i s1) of None \<Rightarrow> Some None
              | Some p \<Rightarrow> map_option (\<lambda>c. Some (ses_hdl c)) (ses_heap s1 p));
     let (rc, le) = notify_error_on_link kmd ses d (the_link i s1) (environ s1);
     let s2 = put_link i le s1;
     let s3 = (if try_for_internal_recovery (the_link i s2)
               then map_link i (\<lambda>l. l\<lparr>try_for_internal_recovery := False\<rparr>)
                      (upd_slot_of i idx (\<lambda>sl. sl\<lparr>recovery_counter := recovery_counter sl + 1\<rparr>) s2)
               else s2);
     Some (map_link i (\<lambda>l. l\<lparr>retry_cnt := 0\<rparr>) s3)
   }"

definition apply_failed :: "'x kmd \<Rightarrow> nat \<Rightarrow> int \<Rightarrow> cam_req_mgr_connected_device option \<Rightarrow> int \<Rightarrow> 'x crm \<Rightarrow>
  'x crm option" where
  "apply_failed kmd i idx dev rc s =
     (let s1 = set_status i idx CRM_SLOT_STATUS_REQ_PENDING s in
      case dev of None \<Rightarrow> Some s1
      | Some d \<Rightarrow>
          if wq_congestion (the_link i s1) then Some s1
          else
            let s2 = (if rc \<noteq> - CRM_EAGAIN then map_link i (\<lambda>l. l\<lparr>retry_cnt := retry_cnt l + 1\<rparr>) s1 else s1) in
            if 3 \<le> retry_cnt (the_link i s2) then max_retry_reached kmd i idx d s2 else Some s2)"

text \<open>The slot that is cleared after an application lies as many places back as the slowest device, or the slowest
  of the links in master-slave mode, may still need.\<close>

definition reset_step :: "links \<Rightarrow> cam_req_mgr_core_link \<Rightarrow> nat option list \<Rightarrow> int" where
  "reset_step L l js = fold (\<lambda>j m. case j of None \<Rightarrow> m
      | Some k \<Rightarrow> if in_msync_mode l \<and> m < max_delay (L k) then max_delay (L k) else m) js (max_delay l)"

definition apply_succeeded :: "nat \<Rightarrow> int \<Rightarrow> u32 \<Rightarrow> crm_req_eof_trigger_type \<Rightarrow> 'x crm \<Rightarrow> 'x crm option" where
  "apply_succeeded i idx trigger eof s = do {
     s1 \<leftarrow> wd_timer i (map_link i (\<lambda>l. l\<lparr>retry_cnt := 0\<rparr>) s);
     let s2 = map_link i (\<lambda>l. l\<lparr>link_state := (if link_state l = CAM_CRM_LINK_STATE_ERR
                 then CAM_CRM_LINK_STATE_READY else link_state l), sync_link_sof_skip := False\<rparr>) s1;
     if eof \<noteq> CAM_REQ_EOF_TRIGGER_NOT_APPLY \<and> trigger = CAM_TRIGGER_POINT_SOF then do {
       let s3 = set_status i idx CRM_SLOT_STATUS_REQ_APPLIED s2;
       js \<leftarrow> link_sync_list (the_link i s3);
       q \<leftarrow> in_q (the_link i s3);
       let q' = q\<lparr>last_applied_idx := idx\<rparr>;
       let back = dec_idx idx (reset_step (g_links s3) (the_link i s3) js + 1) (q_num_slots q');
       Some (map_link i (\<lambda>l. snd (reset_req_slot back q' l)) s3) }
     else Some s2
   }"

subsection \<open>A trigger\<close>

definition try_send :: "'x kmd \<Rightarrow> nat \<Rightarrow> int \<Rightarrow> u32 \<Rightarrow> crm_req_eof_trigger_type \<Rightarrow> 'x crm \<Rightarrow> (int \<times> 'x crm) option" where
  "try_send kmd i idx trigger eof s = do {
     q \<leftarrow> in_q (the_link i s);
     (rc, dev, le) \<leftarrow> send_req kmd (recovery_on_apply_fail s) trigger q (the_link i s) (environ s);
     s2 \<leftarrow> (if rc < 0 then apply_failed kmd i idx dev rc (put_link i le s)
            else apply_succeeded i idx trigger eof (put_link i le s));
     Some (rc, s2)
   }"

definition process_slot :: "'x kmd \<Rightarrow> nat \<Rightarrow> cam_req_mgr_slot \<Rightarrow> int \<Rightarrow> u32 \<Rightarrow> crm_req_eof_trigger_type \<Rightarrow> 'x crm \<Rightarrow>
  (int \<times> 'x crm) option" where
  "process_slot kmd i sl idx trigger eof s =
     (if sl_status sl = CRM_SLOT_STATUS_REQ_READY then try_send kmd i idx trigger eof s
      else do {
        (rc, s1) \<leftarrow> slot_readiness i sl trigger s;
        let rc1 = (if rc = 0 \<and> trigger = CAM_TRIGGER_POINT_SOF \<and> eof = CAM_REQ_EOF_TRIGGER_NOT_APPLY
                   then - CRM_EAGAIN else rc);
        if rc1 < 0 then request_not_ready kmd i idx trigger rc1 s1
        else try_send kmd i idx trigger eof (set_status i idx CRM_SLOT_STATUS_REQ_READY s1) })"

definition process_req :: "'x kmd \<Rightarrow> nat \<Rightarrow> cam_req_mgr_trigger_notify \<Rightarrow> 'x crm \<Rightarrow> (int \<times> 'x crm) option" where
  "process_req kmd i td s =
     (let trigger = nt_trigger td; l = the_link i s in
      if link_parent l = None then Some (- EINVAL, s)
      else if link_state l = CAM_CRM_LINK_STATE_IDLE then Some (- EPERM, s)
      else do {
        q \<leftarrow> in_q l;
        let sl = q_slot q (rd_idx q);
        let eof = check_for_eof q l;
        if trigger \<noteq> CAM_TRIGGER_POINT_SOF \<and> trigger \<noteq> CAM_TRIGGER_POINT_EOF then Some (0, s)
        else if trigger = CAM_TRIGGER_POINT_EOF \<and> eof = CAM_REQ_EOF_TRIGGER_NONE then Some (0, s)
        else if trigger = CAM_TRIGGER_POINT_SOF then
          if sl_status sl = CRM_SLOT_STATUS_NO_REQ then do {
            s1 \<leftarrow> frame_skip kmd trigger i s;
            Some (0, s1) }
          else process_slot kmd i sl (rd_idx q) trigger eof (map_link i (update_timestamps (environ s) td) s)
        else process_slot kmd i sl (rd_idx q) trigger eof s })"

subsection \<open>A camera that has stopped\<close>

text \<open>The watchdog of a link queues this report.\<close>

definition process_sof_freeze :: "'x kmd \<Rightarrow> nat \<Rightarrow> 'x crm \<Rightarrow> (int \<times> 'x crm) option" where
  "process_sof_freeze kmd i s =
     (case link_parent (the_link i s) of None \<Rightarrow> Some (- EINVAL, s)
      | Some p \<Rightarrow>
          if (case watchdog (the_link i s) of None \<Rightarrow> False | Some w \<Rightarrow> pause_timer w) then Some (0, s)
          else do {
            c \<leftarrow> ses_heap s p;
            let (l, e) = send_evt kmd 0 CAM_REQ_MGR_LINK_EVT_SOF_FREEZE CRM_KMD_ERR_FATAL
                           (the_link i s) (environ s);
            let (rc, e') = cam_req_mgr_notify_message
                  \<lparr>em_session_hdl = ses_hdl c, em_error_type = CAM_REQ_MGR_ERROR_TYPE_SOF_FREEZE,
                   em_request_id = 0, em_link_hdl = link_hdl l, em_error_code = 0\<rparr> e;
            Some (rc, put_link i (l, e') s) })"

text \<open>A task is taken from the work queue of a link, filled in and queued. The result says whether there was
  a free task. \<open>cb\<close> numbers the handlers. \<open>next_task\<close> is the task that the queue will hand out.\<close>

definition next_task :: "cam_req_mgr_core_link \<Rightarrow> nat" where
  "next_task l = (case link_workq l of Some w \<Rightarrow> (case wq_empty_head w of t # _ \<Rightarrow> t | [] \<Rightarrow> 0) | None \<Rightarrow> 0)"

definition queue_task :: "nat \<Rightarrow> nat \<Rightarrow> crm_task_payload \<Rightarrow> cam_req_mgr_core_link \<Rightarrow> int option \<times> cam_req_mgr_core_link" where
  "queue_task i cb pl l =
     (case cam_req_mgr_workq_get_task (link_workq l) of
        (Some t, Some w) \<Rightarrow>
          (let w1 = upd_task t (\<lambda>k. k\<lparr>task_process_cb := Some cb\<rparr>) w;
               (rc, w2) = cam_req_mgr_workq_enqueue_task 0 (Some t) (Some i) CRM_TASK_PRIORITY_0 w1
           in (Some rc, l\<lparr>link_workq := Some w2, task_data := (task_data l)(t := pl)\<rparr>))
      | (_, w) \<Rightarrow> (None, l\<lparr>link_workq := w\<rparr>))"

abbreviation (input) CB_SOF_FREEZE :: nat where "CB_SOF_FREEZE \<equiv> 0"
abbreviation (input) CB_SCHED_REQ :: nat where "CB_SCHED_REQ \<equiv> 1"
abbreviation (input) CB_FLUSH_REQ :: nat where "CB_FLUSH_REQ \<equiv> 2"
abbreviation (input) CB_ADD_REQ :: nat where "CB_ADD_REQ \<equiv> 3"
abbreviation (input) CB_TRIGGER :: nat where "CB_TRIGGER \<equiv> 4"
abbreviation (input) CB_ERROR :: nat where "CB_ERROR \<equiv> 5"
abbreviation (input) CB_STOP :: nat where "CB_STOP \<equiv> 6"

text \<open>The report carries no data: the payload keeps what an earlier task left there.\<close>

definition sof_freeze :: "nat \<Rightarrow> 'x crm \<Rightarrow> 'x crm" where
  "sof_freeze i s = map_link i (\<lambda>l. snd (queue_task i CB_SOF_FREEZE (task_data l (next_task l)) l)) s"

end
