(* ===== verification/Cam_Crm_Queue.thy ===== *)
theory Cam_Crm_Queue
  imports Cam_Crm_Frame
begin

section \<open>The handlers that run on the work queue of a link\<close>

text \<open>
  Flushing and cancelling, scheduling, the announcements of the devices, error recovery and triggers:
  \<open>cam_req_mgr_process_flush_req\<close> to \<open>cam_req_mgr_process_trigger\<close> of \<open>cam_req_mgr_core.c\<close>. A request id is a signed
  64-bit number in the manager and an unsigned one in the messages of the devices. \<open>i\<close> is the link the
  handler was queued for.
\<close>

abbreviation (input) EBADSLT :: int where "EBADSLT \<equiv> 57"
abbreviation (input) CAM_REQ_MGR_FLUSH_TYPE_ALL :: u32 where "CAM_REQ_MGR_FLUSH_TYPE_ALL \<equiv> 0"
abbreviation (input) CAM_REQ_MGR_FLUSH_TYPE_CANCEL_REQ :: u32 where "CAM_REQ_MGR_FLUSH_TYPE_CANCEL_REQ \<equiv> 1"
abbreviation (input) CAM_REQ_MGR_FLUSH_TYPE_MAX :: u32 where "CAM_REQ_MGR_FLUSH_TYPE_MAX \<equiv> 2"
abbreviation (input) CAM_REQ_MGR_DEVICE_IFE :: u64 where "CAM_REQ_MGR_DEVICE_IFE \<equiv> 4"
abbreviation (input) CAM_REQ_MGR_WATCHDOG_TIMEOUT_MAX :: int where "CAM_REQ_MGR_WATCHDOG_TIMEOUT_MAX \<equiv> 50000"
abbreviation (input) CAM_LINK_PROPERTY_SENSOR_STANDBY_AFTER_EOF :: u32 where
  "CAM_LINK_PROPERTY_SENSOR_STANDBY_AFTER_EOF \<equiv> 1"

subsection \<open>Flush\<close>

definition leave_sync :: "u32 \<Rightarrow> cam_req_mgr_slot \<Rightarrow> cam_req_mgr_slot" where
  "leave_sync lhdl s =
     (if sl_sync_mode s = CAM_REQ_MGR_SYNC_MODE_SYNC
      then s\<lparr>sl_sync_mode := CAM_REQ_MGR_SYNC_MODE_NO_SYNC, sl_num_sync_links := 0,
             sync_link_hdls := (\<lambda>k. if k \<in> {0, 1, 2} \<and> sync_link_hdls s k = lhdl then 0
                                    else sync_link_hdls s k)\<rparr>
      else s)"

fun disconnect_loop :: "u32 \<Rightarrow> int \<Rightarrow> nat option list \<Rightarrow> links \<Rightarrow> links option" where
  "disconnect_loop lhdl req [] L = Some L"
| "disconnect_loop lhdl req (None # js) L = disconnect_loop lhdl req js L"
| "disconnect_loop lhdl req (Some j # js) L = do {
     q \<leftarrow> in_q (L j);
     let idx = find_slot_for_req q req;
     disconnect_loop lhdl req js
       (if idx < 0 then L
        else upd_link j (\<lambda>l. l\<lparr>in_q := Some (upd_slot idx (leave_sync lhdl) q)\<rparr>) L) }"

definition disconnect_flushed_req_on_sync_link :: "nat \<Rightarrow> cam_req_mgr_slot \<Rightarrow> 'x crm \<Rightarrow> 'x crm option" where
  "disconnect_flushed_req_on_sync_link i sl s =
     (if 0 < sl_req_id sl \<and> sl_num_sync_links sl \<noteq> 0 then do {
        js \<leftarrow> slot_sync_list s sl;
        L \<leftarrow> disconnect_loop (link_hdl (the_link i s)) (sl_req_id sl) js (g_links s);
        Some (set_links L s) }
      else Some s)"

definition flush_slot :: "cam_req_mgr_slot \<Rightarrow> cam_req_mgr_slot" where
  "flush_slot s = clear_sync_hdls (s\<lparr>sl_req_id := - 1, skip_idx := 1, recover := 0, additional_timeout := 0,
     sl_sync_mode := CAM_REQ_MGR_SYNC_MODE_NO_SYNC, sl_status := CRM_SLOT_STATUS_NO_REQ,
     sl_num_sync_links := 0\<rparr>)"

definition flush_tbl_slot :: "cam_req_mgr_tbl_slot \<Rightarrow> cam_req_mgr_tbl_slot" where
  "flush_tbl_slot s = s\<lparr>req_ready_map := 0, ts_state := CRM_REQ_STATE_EMPTY,
     ts_ops := \<lparr>so_dev_hdl = - 1, apply_at_eof = False, is_applied = False\<rparr>\<rparr>"

definition flush_idx :: "int \<Rightarrow> cam_req_mgr_core_link \<Rightarrow> cam_req_mgr_core_link" where
  "flush_idx idx l = l\<lparr>in_q := map_option (upd_slot idx flush_slot) (in_q l),
     l_tbl := map (upd_tbl_slot idx flush_tbl_slot) (l_tbl l)\<rparr>"

fun flush_loop :: "nat \<Rightarrow> int \<Rightarrow> nat \<Rightarrow> 'x crm \<Rightarrow> 'x crm option" where
  "flush_loop 0 idx i s = Some s"
| "flush_loop (Suc k) idx i s = do {
     q \<leftarrow> in_q (the_link i s);
     s1 \<leftarrow> disconnect_flushed_req_on_sync_link i (q_slot q idx) s;
     flush_loop k (idx + 1) i (map_link i (flush_idx idx) s1) }"

definition flush_req_slot :: "nat \<Rightarrow> 'x crm \<Rightarrow> 'x crm option" where
  "flush_req_slot i s = do {
     q \<leftarrow> in_q (the_link i s);
     s1 \<leftarrow> flush_loop (nat (q_num_slots q)) 0 i s;
     Some (map_link i (\<lambda>l. clear_trigger_cnt (l\<lparr>eof_event_cnt := 0,
        in_q := map_option (\<lambda>q. q\<lparr>wr_idx := 0, rd_idx := 0\<rparr>) (in_q l)\<rparr>)) s1)
   }"

fun flush_dev_loop :: "'x kmd \<Rightarrow> cam_req_mgr_flush_info \<Rightarrow> int \<Rightarrow> cam_req_mgr_connected_device list \<Rightarrow>
  'x crm_env \<Rightarrow> 'x crm_env" where
  "flush_dev_loop kmd fi max_pd [] e = e"
| "flush_dev_loop kmd fi max_pd (d # ds) e =
     flush_dev_loop kmd fi max_pd ds
       (if max_pd < p_delay (dev_info d) then e
        else snd (call_op op_flush_req kmd d
               \<lparr>fr_link_hdl = fl_link_hdl fi, fr_dev_hdl = cd_dev_hdl d, fr_type = flush_type fi,
                fr_req_id = word_of_int (fl_req_id fi)\<rparr> e))"

definition flush_dev_with_max_pd :: "'x kmd \<Rightarrow> cam_req_mgr_flush_info \<Rightarrow> int \<Rightarrow> nat \<Rightarrow> 'x crm \<Rightarrow> 'x crm" where
  "flush_dev_with_max_pd kmd fi max_pd i s =
     s\<lparr>environ := flush_dev_loop kmd fi max_pd (link_devs (the_link i s)) (environ s)\<rparr>"

definition get_dev_pd :: "cam_req_mgr_core_link \<Rightarrow> u64 \<Rightarrow> int" where
  "get_dev_pd l dev = (case List.find (\<lambda>d. di_dev_id (dev_info d) = dev) (link_devs l) of
     None \<Rightarrow> - ENODEV | Some d \<Rightarrow> p_delay (dev_info d))"

text \<open>The largest delay whose devices have not been given the request yet, at most \<open>k\<close> above \<open>pd\<close>.\<close>

fun cancel_max_pd :: "nat \<Rightarrow> int \<Rightarrow> int \<Rightarrow> (int \<Rightarrow> cam_req_mgr_apply) \<Rightarrow> int" where
  "cancel_max_pd 0 pd req ad = pd"
| "cancel_max_pd (Suc k) pd req ad =
     (if req \<le> ad_req_id (ad (pd + 1)) then pd else cancel_max_pd k (pd + 1) req ad)"

definition cancel_slot :: "'x kmd \<Rightarrow> cam_req_mgr_flush_info \<Rightarrow> int \<Rightarrow> int \<Rightarrow> nat \<Rightarrow> 'x crm \<Rightarrow> 'x crm" where
  "cancel_slot kmd fi idx pd i s =
     map_link i (\<lambda>l. l\<lparr>open_req_cnt := open_req_cnt l - 1\<rparr>)
       (flush_dev_with_max_pd kmd fi pd i
         (map_link i (\<lambda>l. l\<lparr>in_q := map_option (\<lambda>q. in_q_skip_idx idx
              (upd_slot idx (\<lambda>sl. sl\<lparr>additional_timeout := 0\<rparr>) q)) (in_q l)\<rparr>) s))"

definition try_cancel_req :: "'x kmd \<Rightarrow> cam_req_mgr_flush_info \<Rightarrow> nat \<Rightarrow> 'x crm \<Rightarrow> (int \<times> 'x crm) option" where
  "try_cancel_req kmd fi i s = do {
     q \<leftarrow> in_q (the_link i s);
     let idx = find_slot_for_req q (fl_req_id fi);
     if idx < 0 then Some (- ENOENT, s)
     else do {
       s1 \<leftarrow> disconnect_flushed_req_on_sync_link i (q_slot q idx) s;
       let l = the_link i s1;
       let st = sl_status (q_slot q idx);
       if st = CRM_SLOT_STATUS_REQ_PENDING \<or> st = CRM_SLOT_STATUS_REQ_APPLIED then
         let pd = get_dev_pd l CAM_REQ_MGR_DEVICE_IFE in
         if pd < 0 \<or> CAM_PIPELINE_DELAY_MAX \<le> pd then Some (pd, s1)
         else if fl_req_id fi \<le> ad_req_id (prev_apply_data l pd) then Some (- EPERM, s1)
         else Some (0, cancel_slot kmd fi idx
                (cancel_max_pd (nat (max_delay l - pd)) pd (fl_req_id fi) (prev_apply_data l)) i s1)
       else if st = CRM_SLOT_STATUS_REQ_READY \<or> st = CRM_SLOT_STATUS_REQ_ADDED then
         Some (0, cancel_slot kmd fi idx CAM_PIPELINE_DELAY_MAX i s1)
       else Some (- EINVAL, s1)
     } }"

definition cam_req_mgr_process_flush_req :: "'x kmd \<Rightarrow> cam_req_mgr_flush_info \<Rightarrow> nat \<Rightarrow> 'x crm \<Rightarrow>
  (int \<times> 'x crm) option" where
  "cam_req_mgr_process_flush_req kmd fi i s = do {
     (rc, s') \<leftarrow>
       (if flush_type fi = CAM_REQ_MGR_FLUSH_TYPE_ALL then do {
          s1 \<leftarrow> flush_req_slot i (map_link i (\<lambda>l. l\<lparr>last_flush_id := fl_req_id fi\<rparr>) s);
          let s2 = map_link i reset_apply_data s1;
          let s3 = flush_dev_with_max_pd kmd fi (max_delay (the_link i s2)) i s2;
          Some (0, map_link i (\<lambda>l. l\<lparr>open_req_cnt := 0\<rparr>) s3) }
        else if flush_type fi = CAM_REQ_MGR_FLUSH_TYPE_CANCEL_REQ then try_cancel_req kmd fi i s
        else Some (- EINVAL, s));
     Some (rc, map_link i (\<lambda>l. l\<lparr>workq_comp := True\<rparr>) s')
   }"

end
