(* ===== verification/Cam_Crm_Tasks.thy ===== *)
theory Cam_Crm_Tasks
  imports Cam_Crm_Queue
begin

section \<open>Scheduling, announcements, recovery and triggers\<close>

text \<open>
  The rest of the handlers that run on the work queue of a link: \<open>cam_req_mgr_process_sched_req\<close>,
  \<open>cam_req_mgr_process_add_req\<close> with the transfer of delays to synchronised links,
  \<open>cam_req_mgr_process_error\<close>, \<open>cam_req_mgr_process_stop\<close> and \<open>cam_req_mgr_process_trigger\<close> of
  \<open>cam_req_mgr_core.c\<close>.
\<close>

subsection \<open>Scheduling a request\<close>

text \<open>The handles of the other links are copied into the slot, which has room for three; \<open>k\<close> is the
  next entry. More are written behind the array.\<close>

fun copy_sync_hdls :: "u32 \<Rightarrow> u32 list \<Rightarrow> int \<Rightarrow> (int \<Rightarrow> u32) \<Rightarrow> (int \<times> (int \<Rightarrow> u32)) option" where
  "copy_sync_hdls lhdl [] k f = Some (k, f)"
| "copy_sync_hdls lhdl (h # hs) k f =
     (if lhdl = h then copy_sync_hdls lhdl hs k f
      else if MAXIMUM_LINKS_PER_SESSION - 1 \<le> k then None
      else copy_sync_hdls lhdl hs (k + 1) (f(k := h)))"

definition clamp_timeout :: "int \<Rightarrow> int" where
  "clamp_timeout ms = (if ms < 0 then 0
     else if CAM_REQ_MGR_WATCHDOG_TIMEOUT_MAX < ms then CAM_REQ_MGR_WATCHDOG_TIMEOUT_MAX else ms)"

definition sched_slot :: "cam_req_mgr_sched_request_v2 \<Rightarrow> int \<times> (int \<Rightarrow> u32) \<Rightarrow> cam_req_mgr_slot \<Rightarrow> cam_req_mgr_slot" where
  "sched_slot sr nh s = s\<lparr>sl_status := CRM_SLOT_STATUS_REQ_ADDED, sl_req_id := sr_req_id sr,
     sl_sync_mode := sr_sync_mode sr, skip_idx := 0, recover := sr_bubble_enable sr,
     additional_timeout := clamp_timeout (sr_additional_timeout sr),
     sync_link_hdls := snd nh, sl_num_sync_links := fst nh\<rparr>"

definition forget_initial_sync :: "nat option list \<Rightarrow> links \<Rightarrow> links" where
  "forget_initial_sync js L = fold (\<lambda>j L. case j of None \<Rightarrow> L
      | Some k \<Rightarrow> upd_link k (\<lambda>l. l\<lparr>initial_sync_req := - 1\<rparr>) L) js L"

definition cam_req_mgr_process_sched_req :: "cam_req_mgr_sched_request_v2 \<Rightarrow> nat \<Rightarrow> 'x crm \<Rightarrow> (int \<times> 'x crm) option" where
  "cam_req_mgr_process_sched_req sr i s = do {
     q \<leftarrow> in_q (the_link i s);
     nh \<leftarrow> copy_sync_hdls (link_hdl (the_link i s))
               (map (\<lambda>k. sr_link_hdls sr (int k)) [0..<nat (sr_num_links sr)]) 0
               (sync_link_hdls (q_slot q (wr_idx q)));
     let q1 = upd_slot (wr_idx q) (sched_slot sr nh) q;
     let q2 = q1\<lparr>wr_idx := inc_idx (wr_idx q) 1 (q_num_slots q)\<rparr>;
     let s1 = map_link i (\<lambda>l. l\<lparr>in_q := Some q2, open_req_cnt := open_req_cnt l + 1\<rparr>) s;
     if sr_sync_mode sr = CAM_REQ_MGR_SYNC_MODE_SYNC then
       Some (0, map_link i (\<lambda>l. if initial_sync_req l = - 1
                                then l\<lparr>initial_sync_req := sr_req_id sr\<rparr> else l) s1)
     else do {
       js \<leftarrow> link_sync_list (the_link i s1);
       Some (0, set_links (forget_initial_sync js
              (upd_link i (\<lambda>l. l\<lparr>initial_sync_req := - 1\<rparr>) (g_links s1))) s1) }
   }"

subsection \<open>A device announces that it has settings for a request\<close>

datatype cam_req_mgr_sync_type = CAM_SYNC_TYPE_DELAY_AT_SOF | CAM_SYNC_TYPE_DELAY_AT_EOF | CAM_SYNC_TYPE_APPLY_AT_EOF

definition dev_handle_to_name :: "u32 \<Rightarrow> cam_req_mgr_core_link \<Rightarrow> string" where
  "dev_handle_to_name hdl l = (case List.find (\<lambda>d. hdl = cd_dev_hdl d) (link_devs l) of
     None \<Rightarrow> ''Invalid dev_hdl'' | Some d \<Rightarrow> di_name (dev_info d))"

definition name_to_dev_handle :: "string \<Rightarrow> cam_req_mgr_core_link \<Rightarrow> u32" where
  "name_to_dev_handle nm l = (case List.find (\<lambda>d. nm = di_name (dev_info d)) (link_devs l) of
     None \<Rightarrow> word_of_int (- EINVAL) | Some d \<Rightarrow> cd_dev_hdl d)"

definition find_dev :: "u32 \<Rightarrow> cam_req_mgr_core_link \<Rightarrow> cam_req_mgr_connected_device option" where
  "find_dev hdl l = List.find (\<lambda>d. cd_dev_hdl d = hdl) (link_devs l)"

definition set_sync_info :: "cam_req_mgr_sync_type \<Rightarrow> cam_req_mgr_tbl_slot \<Rightarrow> u32 \<Rightarrow> cam_req_mgr_tbl_slot \<Rightarrow>
  cam_req_mgr_tbl_slot" where
  "set_sync_info ty sl hdl t =
     (let t1 = t\<lparr>ts_ops := (ts_ops t)\<lparr>so_dev_hdl := hdl\<rparr>\<rparr> in
      case ty of
        CAM_SYNC_TYPE_DELAY_AT_SOF \<Rightarrow> t1\<lparr>inject_delay_at_sof := inject_delay_at_sof sl\<rparr>
      | CAM_SYNC_TYPE_DELAY_AT_EOF \<Rightarrow> t1\<lparr>inject_delay_at_eof := inject_delay_at_eof sl\<rparr>
      | CAM_SYNC_TYPE_APPLY_AT_EOF \<Rightarrow> t1\<lparr>ts_ops := (ts_ops t1)\<lparr>apply_at_eof := apply_at_eof (ts_ops sl)\<rparr>\<rparr>)"

text \<open>The table found for one link stays in the variable \<open>tbl\<close> when the next link has no such device: the pair of
  a link and the delay of its table. Taking the lock of the own link again never returns.\<close>

fun sync_info_loop :: "nat \<Rightarrow> cam_req_mgr_add_request \<Rightarrow> cam_req_mgr_tbl_slot \<Rightarrow> cam_req_mgr_sync_type \<Rightarrow>
  nat option list \<Rightarrow> (nat \<times> int option) option \<Rightarrow> links \<Rightarrow> (int \<times> links) option" where
  "sync_info_loop i aq sl ty [] tbl L = Some (0, L)"
| "sync_info_loop i aq sl ty (None # js) tbl L = None"
| "sync_info_loop i aq sl ty (Some j # js) tbl L =
     (if j = i then None
      else do {
        q \<leftarrow> in_q (L j);
        let idx = find_slot_for_req q (sint (aq_req_id aq));
        if idx < 0 then Some (- EBADSLT, L)
        else
          let hdl = name_to_dev_handle (dev_handle_to_name (aq_dev_hdl aq) (L i)) (L j);
              tbl' = (case find_dev hdl (L j) of
                        None \<Rightarrow> tbl
                      | Some d \<Rightarrow> if pd_tbl d = None then None else Some (j, pd_tbl d)) in
          case tbl' of None \<Rightarrow> Some (- EINVAL, L)
          | Some (k, p) \<Rightarrow>
              sync_info_loop i aq sl ty js tbl'
                (upd_link k (\<lambda>l. l\<lparr>l_tbl := upd_pd_slot p idx (set_sync_info ty sl hdl) (l_tbl l)\<rparr>) L) })"

definition cam_req_mgr_sync_info_for_sync_mode :: "nat \<Rightarrow> cam_req_mgr_add_request \<Rightarrow> cam_req_mgr_tbl_slot \<Rightarrow>
  cam_req_mgr_sync_type \<Rightarrow> links \<Rightarrow> (int \<times> links) option" where
  "cam_req_mgr_sync_info_for_sync_mode i aq sl ty L = do {
     js \<leftarrow> link_sync_list (L i);
     sync_info_loop i aq sl ty js None L
   }"

text \<open>One of the three transfers: the own slot is changed by \<open>f\<close> when \<open>c\<close> holds, and the change goes to the
  other links when the request is synchronised.\<close>

definition add_special :: "bool \<Rightarrow> (cam_req_mgr_tbl_slot \<Rightarrow> cam_req_mgr_tbl_slot) \<Rightarrow> cam_req_mgr_sync_type \<Rightarrow> bool \<Rightarrow>
  nat \<Rightarrow> cam_req_mgr_add_request \<Rightarrow> cam_req_mgr_connected_device \<Rightarrow> int \<Rightarrow> links \<Rightarrow> (int \<times> links) option" where
  "add_special c f ty sync i aq d idx L =
     (if \<not> c then Some (0, L)
      else
        let L1 = upd_link i (\<lambda>l. l\<lparr>l_tbl := upd_pd_slot (pd_tbl d) idx f (l_tbl l)\<rparr>) L in
        if sync then do {
          sl \<leftarrow> pd_slot (l_tbl (L1 i)) d idx;
          cam_req_mgr_sync_info_for_sync_mode i aq sl ty L1 }
        else Some (0, L1))"

definition announce :: "nat \<Rightarrow> u32 \<Rightarrow> cam_req_mgr_tbl_slot \<Rightarrow> cam_req_mgr_tbl_slot" where
  "announce bit_no dmask t =
     (let m = req_ready_map t OR push_bit bit_no 1
      in t\<lparr>req_ready_map := m,
           ts_state := (if m = dmask then CRM_REQ_STATE_READY else CRM_REQ_STATE_PENDING)\<rparr>)"

definition cam_req_mgr_process_add_req :: "cam_req_mgr_add_request \<Rightarrow> nat \<Rightarrow> 'x crm \<Rightarrow> (int \<times> 'x crm) option" where
  "cam_req_mgr_process_add_req aq i s =
     (case find_dev (aq_dev_hdl aq) (the_link i s) of
        None \<Rightarrow> Some (- EINVAL, s)
      | Some d \<Rightarrow>
        if pd_tbl d = None then Some (- EINVAL, s)
        else do {
          q \<leftarrow> in_q (the_link i s);
          let idx = find_slot_for_req q (sint (aq_req_id aq));
          if idx < 0 then Some (- EBADSLT, s)
          else do {
            let sync = (sl_sync_mode (q_slot q idx) = CAM_REQ_MGR_SYNC_MODE_SYNC);
            t0 \<leftarrow> pd_slot (l_tbl (the_link i s)) d idx;
            let L0 = upd_link i (\<lambda>l. l\<lparr>l_tbl := upd_pd_slot (pd_tbl d) idx (set_is_applied False) (l_tbl l)\<rparr>)
                       (g_links s);
            let sof = skip_at_sof aq AND 0xFF;
            let eof = skip_at_eof aq AND 0xFF;
            (rc1, L1) \<leftarrow> add_special (inject_delay_at_sof t0 < sof)
                (\<lambda>t. t\<lparr>inject_delay_at_sof := sof\<rparr>) CAM_SYNC_TYPE_DELAY_AT_SOF sync i aq d idx L0;
            if rc1 < 0 then Some (rc1, set_links L1 s)
            else do {
              t1 \<leftarrow> pd_slot (l_tbl (L1 i)) d idx;
              (rc2, L2) \<leftarrow> add_special (inject_delay_at_eof t1 < eof)
                  (\<lambda>t. t\<lparr>inject_delay_at_eof := eof\<rparr>) CAM_SYNC_TYPE_DELAY_AT_EOF sync i aq d idx L1;
              if rc2 < 0 then Some (rc2, set_links L2 s)
              else do {
                (rc3, L3) \<leftarrow> add_special (trigger_eof aq)
                    (\<lambda>t. t\<lparr>ts_ops := (ts_ops t)\<lparr>apply_at_eof := True, so_dev_hdl := aq_dev_hdl aq\<rparr>\<rparr>)
                    CAM_SYNC_TYPE_APPLY_AT_EOF sync i aq d idx L2;
                if rc3 < 0 then Some (rc3, set_links L3 s)
                else do {
                  p \<leftarrow> pd_tbl d;
                  t \<leftarrow> find_pd_tbl (l_tbl (L3 i)) p;
                  Some (rc3, set_links (upd_link i (\<lambda>l. l\<lparr>l_tbl :=
                      upd_pd_slot (pd_tbl d) idx (announce (dev_bit d) (dev_mask t)) (l_tbl l)\<rparr>) L3) s) } } } } })"

subsection \<open>Recovery from a bubble\<close>

text \<open>The slots after the one at fault that count as applied are scheduled again.\<close>

fun readd_loop :: "nat \<Rightarrow> int \<Rightarrow> int \<Rightarrow> cam_req_mgr_req_queue \<Rightarrow> cam_req_mgr_req_queue" where
  "readd_loop 0 idx n q = q"
| "readd_loop (Suc k) idx n q =
     (let j = inc_idx idx 1 n in
      readd_loop k j n
        (if sl_status (q_slot q j) = CRM_SLOT_STATUS_REQ_APPLIED
         then upd_slot j (\<lambda>s. s\<lparr>sl_status := CRM_SLOT_STATUS_REQ_ADDED\<rparr>) q else q))"

text \<open>\<open>n\<close> is the number of slots as the first table knows it, \<open>sync\<close> whether the link has a partner.\<close>

definition rewind_queue :: "int \<Rightarrow> bool \<Rightarrow> int \<Rightarrow> cam_req_mgr_req_queue \<Rightarrow> cam_req_mgr_req_queue" where
  "rewind_queue n sync idx q =
     (let q1 = upd_slot idx (\<lambda>s. s\<lparr>sl_status := CRM_SLOT_STATUS_REQ_ADDED\<rparr>) (q\<lparr>rd_idx := idx\<rparr>);
          q2 = (if sync then upd_slot (inc_idx idx 1 n) (\<lambda>s. s\<lparr>sl_sync_mode := 0\<rparr>)
                               (upd_slot idx (\<lambda>s. s\<lparr>sl_sync_mode := 0\<rparr>) q1) else q1);
          d = last_applied_idx q - idx;
          slot_diff = (if 0 \<le> last_applied_idx q then (if d < 0 then d + n else d) else 1)
      in readd_loop (nat slot_diff) idx n q2)"

definition apply_on_bubble :: "'x kmd \<Rightarrow> cam_req_mgr_error_notify \<Rightarrow> nat \<Rightarrow> 'x crm \<Rightarrow> 'x crm option" where
  "apply_on_bubble kmd er i s = do {
     (rc, s') \<leftarrow> process_req kmd i \<lparr>nt_link_hdl = ne_link_hdl er, nt_dev_hdl = ne_dev_hdl er,
        nt_frame_id = ne_frame_id er, nt_trigger = ne_trigger er,
        sof_timestamp_val = ne_sof_timestamp_val er, nt_req_id = 0, trigger_id = 0\<rparr> s;
     Some s'
   }"

definition rewind_link :: "int \<Rightarrow> cam_req_mgr_req_queue \<Rightarrow> int \<Rightarrow> cam_req_mgr_core_link \<Rightarrow> cam_req_mgr_core_link" where
  "rewind_link n q idx l = l\<lparr>l_tbl := tbl_set_all_skip_cnt (l_tbl l),
     in_q := Some (rewind_queue n (sync_link l 0 \<noteq> None) idx q),
     link_state := CAM_CRM_LINK_STATE_ERR, open_req_cnt := open_req_cnt l + 1\<rparr>"

definition cam_req_mgr_process_error :: "'x kmd \<Rightarrow> cam_req_mgr_error_notify \<Rightarrow> nat \<Rightarrow> 'x crm \<Rightarrow> (int \<times> 'x crm) option" where
  "cam_req_mgr_process_error kmd er i s =
     (if ne_error er = CRM_KMD_ERR_BUBBLE \<or> ne_error er = CRM_KMD_WARN_INTERNAL_RECOVERY then do {
        q \<leftarrow> in_q (the_link i s);
        let idx = find_slot_for_req q (sint (ne_req_id er));
        if idx < 0 then Some (0, s)
        else if recover (q_slot q idx) = 0 then Some (0, s)
        else if sl_status (q_slot q idx) \<noteq> CRM_SLOT_STATUS_REQ_PENDING \<and>
                sl_status (q_slot q idx) \<noteq> CRM_SLOT_STATUS_REQ_APPLIED then Some (- EINVAL, s)
        else do {
          n \<leftarrow> (case l_tbl (the_link i s) of [] \<Rightarrow> None | t # _ \<Rightarrow> Some (tb_num_slots t));
          s2 \<leftarrow> apply_on_bubble kmd er i (map_link i (rewind_link n q idx) s);
          Some (0, s2) } }
      else if ne_error er = CRM_KMD_ERR_FATAL then
        Some (0, put_link i (send_evt kmd (ne_req_id er) CAM_REQ_MGR_LINK_EVT_ERR CRM_KMD_ERR_FATAL
                               (the_link i s) (environ s)) s)
      else Some (0, s))"

definition cam_req_mgr_process_stop :: "nat \<Rightarrow> 'x crm \<Rightarrow> (int \<times> 'x crm) option" where
  "cam_req_mgr_process_stop i s = do { s' \<leftarrow> flush_req_slot i s; Some (0, s') }"

subsection \<open>Triggers\<close>

text \<open>The event at the end of a frame carries no request and no error: those fields are not initialised, and the
  flag for recovery holds whatever was on the stack.\<close>

definition cam_req_mgr_notify_eof_event :: "'x kmd \<Rightarrow> nat \<Rightarrow> 'x crm \<Rightarrow> 'x crm" where
  "cam_req_mgr_notify_eof_event kmd i s =
     s\<lparr>environ := snd (send_evt_loop kmd \<lparr>ev_link_hdl = link_hdl (the_link i s), ev_dev_hdl = 0, ev_req_id = 0,
          try_for_recovery = stack_flag (environ s), ev_type = CAM_REQ_MGR_LINK_EVT_EOF,
          ev_u = Evt_properties_mask 0\<rparr> (link_devs (the_link i s)) (environ s))\<rparr>"

text \<open>The request that the device reports at the start of a frame has reached the hardware; the slot that no
  device can need any more is cleared.\<close>

definition reset_reported :: "nat \<Rightarrow> int \<Rightarrow> 'x crm \<Rightarrow> 'x crm option" where
  "reset_reported i req s = do {
     q \<leftarrow> in_q (the_link i s);
     let idx = find_slot_for_req q req;
     if idx < 0 then Some s
     else do {
       js \<leftarrow> link_sync_list (the_link i s);
       let q1 = (if idx = last_applied_idx q then q\<lparr>last_applied_idx := - 1\<rparr> else q);
       let idx1 = (if idx = rd_idx q then dec_idx idx 1 (q_num_slots q) else idx);
       let back = dec_idx idx1 (reset_step (g_links s) (the_link i s) js + 1) (q_num_slots q);
       Some (map_link i (\<lambda>l. snd (reset_req_slot back q1 l)) s) }
   }"

definition next_rd :: "nat \<Rightarrow> 'x crm \<Rightarrow> 'x crm" where
  "next_rd i = map_link i (\<lambda>l. l\<lparr>in_q := map_option
      (\<lambda>q. q\<lparr>rd_idx := inc_idx (rd_idx q) 1 (q_num_slots q)\<rparr>) (in_q l)\<rparr>)"

definition advance_and_process :: "'x kmd \<Rightarrow> cam_req_mgr_trigger_notify \<Rightarrow> nat \<Rightarrow> 'x crm \<Rightarrow> (int \<times> 'x crm) option" where
  "advance_and_process kmd td i s = do {
     q \<leftarrow> in_q (the_link i s);
     if sl_status (q_slot q (rd_idx q)) = CRM_SLOT_STATUS_REQ_APPLIED then
       let (rc, q', l') = check_next_req_slot q (the_link i s);
           s1 = map_link i (\<lambda>_. l') s in
       if rc \<noteq> 0 then do {
         s2 \<leftarrow> frame_skip kmd (nt_trigger td) i s1;
         Some (0, next_rd i s2) }
       else process_req kmd i td (next_rd i s1)
     else process_req kmd i td s
   }"

definition cam_req_mgr_process_trigger :: "'x kmd \<Rightarrow> cam_req_mgr_trigger_notify \<Rightarrow> nat \<Rightarrow> 'x crm \<Rightarrow>
  (int \<times> 'x crm) option" where
  "cam_req_mgr_process_trigger kmd td i s = do {
     s1 \<leftarrow> (if nt_trigger td = CAM_TRIGGER_POINT_SOF then reset_reported i (sint (nt_req_id td)) s
            else if nt_trigger td = CAM_TRIGGER_POINT_EOF \<and>
              properties_mask (the_link i s) AND CAM_LINK_PROPERTY_SENSOR_STANDBY_AFTER_EOF \<noteq> 0
            then Some (cam_req_mgr_notify_eof_event kmd i s)
            else Some s);
     if link_state (the_link i s1) \<in> {CAM_CRM_LINK_STATE_AVAILABLE, CAM_CRM_LINK_STATE_IDLE}
     then Some (- EPERM, s1)
     else advance_and_process kmd td i s1
   }"

end
