(* ===== verification/Cam_Crm_Callbacks.thy ===== *)
theory Cam_Crm_Callbacks
  imports Cam_Crm_Tasks
begin

section \<open>What the devices call\<close>

text \<open>
  The callbacks of \<open>cam_req_mgr_ops\<close> in \<open>cam_req_mgr_core.c\<close>: a device announces a request, reports an error,
  a trigger or the end of streaming, or pauses the watchdog. They run in interrupt context or in a driver and queue
  a task for the link.
\<close>

abbreviation (input) CAM_REQ_MGR_MAX_TRIGGERS :: int where "CAM_REQ_MGR_MAX_TRIGGERS \<equiv> 2"

definition below_ready :: "cam_req_mgr_link_state \<Rightarrow> bool" where
  "below_ready st \<longleftrightarrow> st = CAM_CRM_LINK_STATE_AVAILABLE \<or> st = CAM_CRM_LINK_STATE_IDLE"

text \<open>Queue a task for link \<open>i\<close>; without a free task the call fails with \<open>-EBUSY\<close>.\<close>

definition queue_or_busy :: "nat \<Rightarrow> nat \<Rightarrow> crm_task_payload \<Rightarrow> 'x crm \<Rightarrow> int \<times> 'x crm" where
  "queue_or_busy i cb pl s =
     (let (r, l) = queue_task i cb pl (the_link i s);
          s' = map_link i (\<lambda>_. l) s
      in (case r of None \<Rightarrow> - EBUSY | Some rc \<Rightarrow> rc, s'))"

fun set_eof_cnt :: "int \<Rightarrow> nat option list \<Rightarrow> links \<Rightarrow> links option" where
  "set_eof_cnt n [] L = Some L"
| "set_eof_cnt n (None # js) L = None"
| "set_eof_cnt n (Some j # js) L = set_eof_cnt n js (upd_link j (\<lambda>l. l\<lparr>eof_event_cnt := n\<rparr>) L)"

definition has_task :: "cam_req_mgr_core_link \<Rightarrow> bool" where
  "has_task l = (case link_workq l of None \<Rightarrow> False | Some w \<Rightarrow> wq_empty_head w \<noteq> [])"

definition cam_req_mgr_cb_add_req :: "cam_req_mgr_add_request \<Rightarrow> 'x crm \<Rightarrow> (int \<times> 'x crm) option" where
  "cam_req_mgr_cb_add_req aq s = do {
     p \<leftarrow> link_of_hdl s (aq_link_hdl aq);
     case p of None \<Rightarrow> Some (- EINVAL, s)
     | Some i \<Rightarrow> do {
         q \<leftarrow> in_q (the_link i s);
         if find_slot_for_req q (sint (aq_req_id aq)) < 0 then
           Some (if uint (ucast (aq_req_id aq) :: u32) \<le> last_flush_id (the_link i s) then - EBADR else - ENOENT, s)
         else if \<not> has_task (the_link i s) then Some (- EBUSY, s)
         else do {
           s1 \<leftarrow> (if trigger_eof aq then do {
                    let n = eof_event_cnt (the_link i s) + 1;
                    js \<leftarrow> link_sync_list (the_link i s);
                    L \<leftarrow> set_eof_cnt n js (upd_link i (\<lambda>l. l\<lparr>eof_event_cnt := n\<rparr>) (g_links s));
                    Some (set_links L s) }
                  else Some s);
           Some (queue_or_busy i CB_ADD_REQ (Task_dev_req aq) s1) } } }"

text \<open>The frame number and the time stamp of the error are not copied into the task: its payload keeps what an
  earlier task left there.\<close>

definition cam_req_mgr_cb_notify_err :: "cam_req_mgr_error_notify \<Rightarrow> 'x crm \<Rightarrow> (int \<times> 'x crm) option" where
  "cam_req_mgr_cb_notify_err er s = do {
     p \<leftarrow> link_of_hdl s (ne_link_hdl er);
     case p of None \<Rightarrow> Some (- EINVAL, s)
     | Some i \<Rightarrow>
         if link_state (the_link i s) \<noteq> CAM_CRM_LINK_STATE_READY then Some (- EPERM, s)
         else
           let s1 = map_link i (\<lambda>l. l\<lparr>watchdog := crm_timer_reset (jiffies (environ s)) (watchdog l)\<rparr>) s;
               l = the_link i s1;
               (fr, ts) = stale_payload (environ s) (task_data l (next_task l))
           in Some (queue_or_busy i CB_ERROR
                (Task_notify_err (er\<lparr>ne_frame_id := fr, ne_sof_timestamp_val := ts\<rparr>)) s1) }"

subsection \<open>Links with two sources of triggers\<close>

text \<open>Both counters are read and written under the spin lock of the link's state.\<close>

definition check_for_dual_trigger :: "cam_req_mgr_core_link \<Rightarrow> u32 \<Rightarrow> int \<times> cam_req_mgr_core_link" where
  "check_for_dual_trigger l trigger =
     (let a = trigger_cnt l 0 trigger; b = trigger_cnt l 1 trigger;
          l0 = l\<lparr>trigger_cnt := (trigger_cnt l)(0 := (trigger_cnt l 0)(trigger := 0),
                                               1 := (trigger_cnt l 1)(trigger := 0))\<rparr> in
      if a = b then (0, l0)
      else if a \<noteq> 0 \<and> 1 < a - b \<or> b \<noteq> 0 \<and> 1 < b - a then (- CRM_EAGAIN, l0)
      else (- CRM_EAGAIN, l))"

definition count_trigger :: "int \<Rightarrow> u32 \<Rightarrow> cam_req_mgr_core_link \<Rightarrow> int \<times> cam_req_mgr_core_link" where
  "count_trigger tid trigger l =
     check_for_dual_trigger
       (l\<lparr>trigger_cnt := (trigger_cnt l)(tid := (trigger_cnt l tid)(trigger := trigger_cnt l tid trigger + 1))\<rparr>) trigger"

definition set_pause :: "bool \<Rightarrow> cam_req_mgr_core_link \<Rightarrow> cam_req_mgr_core_link" where
  "set_pause b l = l\<lparr>watchdog := map_option (\<lambda>w. w\<lparr>pause_timer := b\<rparr>) (watchdog l)\<rparr>"

text \<open>The array of counters has three entries for each source; other trigger values are outside it.\<close>

definition dual_check :: "cam_req_mgr_trigger_notify \<Rightarrow> cam_req_mgr_core_link \<Rightarrow> (int \<times> cam_req_mgr_core_link) option" where
  "dual_check td l =
     (if \<not> dual_trigger l then Some (0, l)
      else if 0 \<le> trigger_id td \<and> trigger_id td < CAM_REQ_MGR_MAX_TRIGGERS then
        if 2 < nt_trigger td then None else Some (count_trigger (trigger_id td) (nt_trigger td) l)
      else Some (- EINVAL, l))"

definition cam_req_mgr_cb_notify_trigger :: "cam_req_mgr_trigger_notify \<Rightarrow> 'x crm \<Rightarrow> (int \<times> 'x crm) option" where
  "cam_req_mgr_cb_notify_trigger td s = do {
     p \<leftarrow> link_of_hdl s (nt_link_hdl td);
     case p of None \<Rightarrow> Some (- EINVAL, s)
     | Some i \<Rightarrow>
       let l = the_link i s; trigger = nt_trigger td in
       if trigger = CAM_TRIGGER_POINT_EOF \<and> eof_event_cnt l = 0 \<and>
          properties_mask l AND CAM_LINK_PROPERTY_SENSOR_STANDBY_AFTER_EOF = 0 then Some (0, s)
       else if below_ready (link_state l) then Some (- EPERM, s)
       else do {
         let l1 = (if trigger = CAM_TRIGGER_POINT_SOF then set_pause False l else l);
         (rc, l2) \<leftarrow> dual_check td l1;
         if rc \<noteq> 0 then Some (rc, map_link i (\<lambda>_. l2) s)
         else
           let l3 = (if trigger = CAM_TRIGGER_POINT_SOF
                     then l2\<lparr>watchdog := crm_timer_reset (jiffies (environ s)) (watchdog l2)\<rparr> else l2);
               s3 = map_link i (\<lambda>_. l3) s in
           if has_task l3 then Some (queue_or_busy i CB_TRIGGER (Task_notify_trigger td) s3)
           else Some (- EBUSY, map_link i (set_pause True) s3) } }"

subsection \<open>The watchdog and the end of streaming\<close>

definition cam_req_mgr_cb_notify_timer :: "u32 \<Rightarrow> bool \<Rightarrow> 'x crm \<Rightarrow> (int \<times> 'x crm) option" where
  "cam_req_mgr_cb_notify_timer lhdl on s = do {
     p \<leftarrow> link_of_hdl s lhdl;
     case p of None \<Rightarrow> Some (- EINVAL, s)
     | Some i \<Rightarrow>
         if below_ready (link_state (the_link i s)) then Some (- EPERM, s)
         else Some (0, map_link i (\<lambda>l. let l1 = set_pause (\<not> on) l
                in l1\<lparr>watchdog := crm_timer_reset (jiffies (environ s)) (watchdog l1)\<rparr>) s) }"

definition cam_req_mgr_cb_notify_stop :: "u32 \<Rightarrow> 'x crm \<Rightarrow> (int \<times> 'x crm) option" where
  "cam_req_mgr_cb_notify_stop lhdl s = do {
     p \<leftarrow> link_of_hdl s lhdl;
     case p of None \<Rightarrow> Some (- EINVAL, s)
     | Some i \<Rightarrow>
         if link_state (the_link i s) \<noteq> CAM_CRM_LINK_STATE_READY then Some (- EPERM, s)
         else do {
           w \<leftarrow> watchdog (the_link i s);
           Some (queue_or_busy i CB_STOP (task_data (the_link i s) (next_task (the_link i s))) (map_link i (\<lambda>l. set_pause True
              (l\<lparr>watchdog := crm_timer_reset (jiffies (environ s)) (Some w)\<rparr>)) s)) } }"

subsection \<open>The worker of a link\<close>

text \<open>The callback of a task runs its handler with the link and the payload; a failure of the handler is only
  logged.\<close>

definition run_task :: "'x kmd \<Rightarrow> nat \<Rightarrow> nat \<Rightarrow> nat \<Rightarrow> 'x crm \<Rightarrow> 'x crm option" where
  "run_task kmd cb i t s = map_option snd
     (case (cb, task_data (the_link i s) t) of
        (0, _) \<Rightarrow> process_sof_freeze kmd i s
      | (Suc 0, Task_sched_req sr) \<Rightarrow> cam_req_mgr_process_sched_req sr i s
      | (Suc (Suc 0), Task_flush_req fi) \<Rightarrow> cam_req_mgr_process_flush_req kmd fi i s
      | (Suc (Suc (Suc 0)), Task_dev_req aq) \<Rightarrow> cam_req_mgr_process_add_req aq i s
      | (Suc (Suc (Suc (Suc 0))), Task_notify_trigger td) \<Rightarrow> cam_req_mgr_process_trigger kmd td i s
      | (Suc (Suc (Suc (Suc (Suc 0)))), Task_notify_err er) \<Rightarrow> cam_req_mgr_process_error kmd er i s
      | (Suc (Suc (Suc (Suc (Suc (Suc 0))))), _) \<Rightarrow> cam_req_mgr_process_stop i s
      | _ \<Rightarrow> None)"

text \<open>One task of the worker: the first of the queue of priority 0, as all tasks of the manager have. The task goes
  back to the pool when its handler is done.\<close>

definition work_one :: "'x kmd \<Rightarrow> nat \<Rightarrow> 'x crm \<Rightarrow> 'x crm option" where
  "work_one kmd i s =
     (case link_workq (the_link i s) of None \<Rightarrow> Some s
      | Some w \<Rightarrow> (case wq_process_head w CRM_TASK_PRIORITY_0 of [] \<Rightarrow> Some s
        | t # ts \<Rightarrow>
            let w1 = w\<lparr>wq_pending_cnt := wq_pending_cnt w - 1,
                       wq_process_head := (wq_process_head w)(CRM_TASK_PRIORITY_0 := ts)\<rparr>;
                s1 = map_link i (\<lambda>l. l\<lparr>link_workq := Some w1\<rparr>) s in do {
              s2 \<leftarrow> (case task_process_cb (wq_pool w1 t) of None \<Rightarrow> Some s1
                     | Some cb \<Rightarrow> run_task kmd cb i t s1);
              Some (map_link i (\<lambda>l. l\<lparr>link_workq := map_option (cam_req_mgr_workq_put_task t) (link_workq l)\<rparr>) s2) }))"

end
