(* ===== verification/Cam_Crm_Links.thy ===== *)
theory Cam_Crm_Links
  imports Cam_Crm_Callbacks
begin

section \<open>Sessions and the life of a link\<close>

text \<open>
  \<open>__cam_req_mgr_reserve_link\<close>, \<open>__cam_req_mgr_setup_link_info\<close>, \<open>__cam_req_mgr_unreserve_link\<close> and the
  ioctls of \<open>cam_req_mgr_core.c\<close> that create and destroy sessions and links. Allocations and the kernel's work
  queue are arguments; memory that has been freed is no longer in the state.
\<close>

subsection \<open>Queues and tables of a new link\<close>

definition zero_slot :: cam_req_mgr_slot where
  "zero_slot = \<lparr>sl_idx = 0, skip_idx = 0, sl_status = CRM_SLOT_STATUS_NO_REQ, recover = 0, sl_req_id = 0,
     sl_sync_mode = 0, additional_timeout = 0, recovery_counter = 0, sl_num_sync_links = 0,
     sync_link_hdls = (\<lambda>_. 0)\<rparr>"

definition new_in_q :: cam_req_mgr_req_queue where
  "new_in_q = \<lparr>q_num_slots = 0, q_slot = (\<lambda>_. zero_slot), rd_idx = 0, wr_idx = 0, last_applied_idx = 0\<rparr>"

definition setup_in_q :: "cam_req_mgr_req_queue option \<Rightarrow> int \<times> cam_req_mgr_req_queue option" where
  "setup_in_q qo = (case qo of None \<Rightarrow> (- EINVAL, None)
     | Some q \<Rightarrow> (0, Some (q\<lparr>q_num_slots := MAX_REQ_SLOTS,
          q_slot := (\<lambda>i. if 0 \<le> i \<and> i < MAX_REQ_SLOTS
             then (q_slot q i)\<lparr>sl_idx := i, sl_req_id := - 1, skip_idx := 0, sl_status := CRM_SLOT_STATUS_NO_REQ\<rparr>
             else q_slot q i), wr_idx := 0, rd_idx := 0\<rparr>)))"

definition reset_in_q :: "cam_req_mgr_req_queue option \<Rightarrow> int \<times> cam_req_mgr_req_queue option" where
  "reset_in_q qo = (case qo of None \<Rightarrow> (- EINVAL, None)
     | Some q \<Rightarrow> (0, Some (q\<lparr>q_slot := (\<lambda>i. if 0 \<le> i \<and> i < q_num_slots q then zero_slot else q_slot q i),
          q_num_slots := 0, wr_idx := 0, rd_idx := 0\<rparr>)))"

definition create_pd_tbl :: cam_req_mgr_req_tbl where
  "create_pd_tbl = \<lparr>tb_id = 0, tb_pd = 0, dev_count = 0, dev_mask = 0, skip_traverse = 0, pd_delta = 0,
     tb_num_slots = MAX_REQ_SLOTS, tb_slot = (\<lambda>_. \<lparr>ts_idx = 0, req_ready_map = 0, ts_state = CRM_REQ_STATE_EMPTY,
       inject_delay_at_sof = 0, inject_delay_at_eof = 0,
       ts_ops = \<lparr>so_dev_hdl = - 1, apply_at_eof = False, is_applied = False\<rparr>\<rparr>)\<rparr>"

fun insert_after :: "cam_req_mgr_req_tbl \<Rightarrow> cam_req_mgr_req_tbl list \<Rightarrow> cam_req_mgr_req_tbl list" where
  "insert_after new [] = [new]"
| "insert_after new [t] = [t\<lparr>pd_delta := tb_pd t - tb_pd new\<rparr>, new\<lparr>pd_delta := 0\<rparr>]"
| "insert_after new (t # u # ts) =
     (if tb_pd new < tb_pd u then t # insert_after new (u # ts)
      else t\<lparr>pd_delta := tb_pd t - tb_pd new\<rparr> # new\<lparr>pd_delta := tb_pd new - tb_pd u\<rparr> # u # ts)"

definition add_tbl_to_link :: "cam_req_mgr_req_tbl \<Rightarrow> cam_req_mgr_req_tbl list \<Rightarrow> cam_req_mgr_req_tbl list" where
  "add_tbl_to_link new ts =
     (case ts of [] \<Rightarrow> [new]
      | t # _ \<Rightarrow> if tb_pd t < tb_pd new then new\<lparr>pd_delta := tb_pd new - tb_pd t\<rparr> # ts
                else insert_after new ts)"

definition destroy_link_info :: "cam_req_mgr_core_link \<Rightarrow> cam_req_mgr_core_link" where
  "destroy_link_info l = l\<lparr>l_tbl := [], in_q := snd (reset_in_q (in_q l)), num_tbl := 0, pd_mask := 0,
     num_devs := 0, max_delay := CAM_PIPELINE_DELAY_0, min_delay := CAM_PIPELINE_DELAY_2\<rparr>"

subsection \<open>Connecting the devices\<close>

text \<open>The first pass asks every device about itself. The result is the status with which the pass stops early, if
  it does, and the devices so far.\<close>

fun query_devs :: "'x kmd \<Rightarrow> hdl_table \<Rightarrow> u32 list \<Rightarrow> cam_req_mgr_connected_device list \<Rightarrow> 'x crm_env \<Rightarrow>
  int option \<times> cam_req_mgr_connected_device list \<times> 'x crm_env" where
  "query_devs kmd t [] ds e = (None, ds, e)"
| "query_devs kmd t (h # hs) ds e =
     (case cam_get_device_ops h t of None \<Rightarrow> (Some (- ENXIO), ds, e)
      | Some p \<Rightarrow> (case (op_get_dev_info (kmd p), op_link_setup (kmd p)) of
          (Some f, Some _) \<Rightarrow>
            (let (rc, info, x) = f h (dev_world e);
                 e1 = e\<lparr>dev_world := x\<rparr>;
                 d = \<lparr>cd_dev_hdl = h, dev_bit = 0, pd_tbl = None, dev_info = info, cd_ops = Some p\<rparr> in
             if rc < 0 \<or> CAM_PIPELINE_DELAY_MAX \<le> p_delay info \<or> p_delay info < CAM_PIPELINE_DELAY_0
             then (Some rc, ds @ [d], e1)
             else query_devs kmd t hs (ds @ [d]) e1)
        | _ \<Rightarrow> (Some (- ENXIO), ds, e)))"

definition triggers_of :: "cam_req_mgr_connected_device list \<Rightarrow> nat" where
  "triggers_of ds = length (filter (\<lambda>d. trigger_on (dev_info d)) ds)"

fun max_p_delay :: "cam_req_mgr_connected_device list \<Rightarrow> int" where
  "max_p_delay [] = CAM_PIPELINE_DELAY_0"
| "max_p_delay (d # ds) = max (p_delay (dev_info d)) (max_p_delay ds)"

text \<open>The table of a device: an existing one of its delay, or a new one, which \<open>alloc\<close> says can be had. A mask has 32
  bits; a shift by more is not defined in C.\<close>

definition attach_dev :: "(int \<Rightarrow> bool) \<Rightarrow> cam_req_mgr_connected_device \<Rightarrow> cam_req_mgr_core_link \<Rightarrow>
  (int \<times> cam_req_mgr_connected_device \<times> cam_req_mgr_core_link) option" where
  "attach_dev alloc d l =
     (let pd = p_delay (dev_info d); known = bit (pd_mask l) (nat pd) in
      if known \<and> find_pd_tbl (l_tbl l) pd = None \<or> \<not> known \<and> \<not> alloc pd then Some (- ENXIO, d, l)
      else
        let l1 = (if known then l
                  else l\<lparr>pd_mask := pd_mask l OR push_bit (nat pd) 1,
                         l_tbl := add_tbl_to_link (create_pd_tbl\<lparr>tb_pd := pd\<rparr>) (l_tbl l)\<rparr>) in do {
          t \<leftarrow> find_pd_tbl (l_tbl l1) pd;
          if 32 \<le> dev_count t then None
          else Some (0, d\<lparr>dev_bit := nat (dev_count t), pd_tbl := Some pd\<rparr>,
            l1\<lparr>l_tbl := map (\<lambda>u. if tb_pd u = pd
                 then u\<lparr>dev_count := dev_count u + 1, dev_mask := dev_mask u OR push_bit (nat (dev_count u)) 1\<rparr>
                 else u) (l_tbl l1)\<rparr>) })"

text \<open>The second pass gives every device its table and bit and tells it about the link. \<open>maxd\<close> is the
  largest delay, \<open>n\<close> counts the sources of triggers.\<close>

fun connect_devs :: "'x kmd \<Rightarrow> (int \<Rightarrow> bool) \<Rightarrow> int \<Rightarrow> int \<Rightarrow> cam_req_mgr_connected_device list \<Rightarrow>
  cam_req_mgr_connected_device list \<Rightarrow> cam_req_mgr_core_link \<Rightarrow> 'x crm_env \<Rightarrow>
  (int \<times> cam_req_mgr_connected_device list \<times> cam_req_mgr_core_link \<times> 'x crm_env) option" where
  "connect_devs kmd alloc maxd n [] ds l e = Some (0, ds, l, e)"
| "connect_devs kmd alloc maxd n (d # us) ds l e = do {
     (rc, d1, l1) \<leftarrow> attach_dev alloc d l;
     if rc \<noteq> 0 then Some (rc, ds @ d1 # us, l1, e)
     else
       let src = trigger_on (dev_info d) \<and> dual_trigger l;
           e1 = snd (call_op op_link_setup kmd d \<lparr>ls_link_enable = 1, ls_link_hdl = link_hdl l1,
                  ls_dev_hdl = cd_dev_hdl d, ls_max_delay = maxd, ls_trigger_id = (if src then n else - 1)\<rparr> e);
           pd = p_delay (dev_info d)
       in connect_devs kmd alloc maxd (if src then n + 1 else n) us (ds @ [d1])
            (l1\<lparr>max_delay := (if max_delay l1 < pd then pd else max_delay l1),
                min_delay := (if pd < min_delay l1 then pd else min_delay l1)\<rparr>) e1 }"

record cam_req_mgr_link_info =
  li_version :: nat
  li_session_hdl :: u32
  num_devices :: u32
  dev_hdls :: "nat \<Rightarrow> u32"

abbreviation (input) CAM_REQ_MGR_MAX_HANDLES :: u32 where "CAM_REQ_MGR_MAX_HANDLES \<equiv> 64"
abbreviation (input) MAX_HANDLES_V2 :: u32 where "MAX_HANDLES_V2 \<equiv> 256"

definition setup_link_info :: "'x kmd \<Rightarrow> (int \<Rightarrow> bool) \<Rightarrow> cam_req_mgr_link_info \<Rightarrow> nat \<Rightarrow> 'x crm \<Rightarrow>
  (int \<times> 'x crm) option" where
  "setup_link_info kmd alloc li i s =
     (let (rc0, q) = setup_in_q (in_q (the_link i s)) in
      if li_version li = 1 \<and> CAM_REQ_MGR_MAX_HANDLES < num_devices li \<or>
         li_version li = 2 \<and> MAX_HANDLES_V2 < num_devices li then Some (- EPERM, s)
      else if rc0 < 0 then Some (rc0, map_link i (\<lambda>l. l\<lparr>num_tbl := 0\<rparr>) s)
      else
        let n = unat (num_devices li);
            s0 = map_link i (\<lambda>l. l\<lparr>num_tbl := 0, in_q := q\<rparr>) s;
            (stop, ds, e1) = query_devs kmd (crm_hdls s0) (map (dev_hdls li) [0..<n]) [] (environ s0);
            s1 = put_link i ((the_link i s0)\<lparr>l_dev := ds\<rparr>, e1) s0 in
        case stop of
          Some rc \<Rightarrow> Some (rc, map_link i destroy_link_info s1)
        | None \<Rightarrow>
            if CAM_REQ_MGR_MAX_TRIGGERS < int (triggers_of ds)
            then Some (- EINVAL, map_link i destroy_link_info s1)
            else do {
              let l1 = (the_link i s1)\<lparr>dual_trigger :=
                    (int (triggers_of ds) = CAM_REQ_MGR_MAX_TRIGGERS \<or> dual_trigger (the_link i s1))\<rparr>;
              (rc, ds2, l2, e2) \<leftarrow> connect_devs kmd alloc (max_p_delay ds) 0 ds [] l1 (environ s1);
              if rc \<noteq> 0 then Some (rc, put_link i (destroy_link_info (l2\<lparr>l_dev := ds2\<rparr>), e2) s1)
              else
                let (ts, m) = tbl_set_id (l_tbl l2) (num_tbl l2) in
                Some (0, put_link i (l2\<lparr>l_dev := ds2, num_devs := int n, num_tbl := m,
                                        l_tbl := tbl_set_all_skip_cnt ts\<rparr>, e2) s1) })"

subsection \<open>Reserving and freeing\<close>

definition init_link :: "nat \<Rightarrow> cam_req_mgr_core_link \<Rightarrow> cam_req_mgr_core_link" where
  "init_link k l = l\<lparr>num_devs := 0, max_delay := CAM_PIPELINE_DELAY_0, min_delay := CAM_PIPELINE_DELAY_2,
     in_q := Some new_in_q, link_state := CAM_CRM_LINK_STATE_IDLE, link_parent := Some k,
     sync_link := (sync_link l)(0 := None, 1 := None, 2 := None)\<rparr>"

text \<open>The least index below four with the property, if there is one.\<close>

definition first_below4 :: "(nat \<Rightarrow> bool) \<Rightarrow> nat option" where
  "first_below4 f = List.find f [0, 1, 2, 3]"

text \<open>\<open>alloc\<close> is the outcome of the allocation of the queue. On the error paths the link stays marked as used.\<close>

definition reserve_link :: "bool \<Rightarrow> nat \<Rightarrow> cam_req_mgr_core_session \<Rightarrow> 'x crm \<Rightarrow> nat option \<times> 'x crm" where
  "reserve_link alloc k c s =
     (if MAXIMUM_LINKS_PER_SESSION \<le> num_links c then (None, s)
      else case first_below4 (\<lambda>i. \<not> is_used (g_links s i)) of
        None \<Rightarrow> (None, s)
      | Some i \<Rightarrow>
          let s1 = map_link i (\<lambda>l. cam_req_mgr_core_link_reset (l\<lparr>is_used := True\<rparr>)) s in
          if \<not> alloc then (None, s1)
          else
            let s2 = map_link i (init_link k) s1 in
            case first_below4 (\<lambda>m. ses_links c (int m) = None) of
              None \<Rightarrow> (None, map_link i (\<lambda>l. l\<lparr>in_q := None\<rparr>) s2)
            | Some m \<Rightarrow> (Some i, s2\<lparr>ses_heap := (ses_heap s2)(k \<mapsto> c\<lparr>ses_links := (ses_links c)(int m \<mapsto> i),
                                                                    num_links := num_links c + 1\<rparr>)\<rparr>))"

definition free_link :: "nat \<Rightarrow> 'x crm \<Rightarrow> 'x crm" where
  "free_link i s = map_link i (\<lambda>l. (cam_req_mgr_core_link_reset (l\<lparr>in_q := None, link_parent := None\<rparr>))
                                      \<lparr>is_used := False\<rparr>) s"

text \<open>One step of the loop over the links of the session, for its \<open>m\<close>-th link \<open>p\<close>: where the leaving link has it
  as partner number \<open>j\<close>, the partner number \<open>j\<close> of \<open>p\<close> is cleared.\<close>

definition unsync_step :: "nat \<Rightarrow> nat option \<Rightarrow> links \<Rightarrow> links" where
  "unsync_step i peer L =
     (case peer of None \<Rightarrow> L
      | Some p \<Rightarrow> if p = i then L
          else fold (\<lambda>j L. if sync_link (L i) j = Some p
                           then upd_link p (\<lambda>l. l\<lparr>sync_link := (sync_link l)(j := None)\<rparr>) L else L) [0, 1, 2] L)"

definition unreserve_link :: "nat \<Rightarrow> nat \<Rightarrow> 'x crm \<Rightarrow> 'x crm option" where
  "unreserve_link k i s = do {
     c \<leftarrow> ses_heap s k;
     if num_links c = 0 then Some s
     else
       let L = fold (\<lambda>m L. unsync_step i (ses_links c m) L) [0, 1, 2, 3] (g_links s);
           c' = c\<lparr>ses_links := (\<lambda>m. if m \<in> {0, 1, 2, 3} \<and> ses_links c m = Some i then None else ses_links c m),
                  num_links := num_links c - 1\<rparr>
       in Some (free_link i (s\<lparr>g_links := upd_link i (\<lambda>l. l\<lparr>sync_link := (sync_link l)(0 := None, 1 := None, 2 := None)\<rparr>) L,
                               ses_heap := (ses_heap s)(k \<mapsto> c')\<rparr>))
   }"

subsection \<open>Destroying a link\<close>

fun disconnect_loop_devs :: "'x kmd \<Rightarrow> u32 \<Rightarrow> cam_req_mgr_connected_device list \<Rightarrow> 'x crm_env \<Rightarrow> int \<Rightarrow> int \<times> 'x crm_env" where
  "disconnect_loop_devs kmd lhdl [] e rc = (rc, e)"
| "disconnect_loop_devs kmd lhdl (d # ds) e rc =
     (let (rc', e') = (if has_op op_link_setup kmd d
        then call_op op_link_setup kmd d \<lparr>ls_link_enable = 0, ls_link_hdl = lhdl, ls_dev_hdl = cd_dev_hdl d,
               ls_max_delay = 0, ls_trigger_id = 0\<rparr> e
        else (rc, e))
      in disconnect_loop_devs kmd lhdl ds e' rc')"

definition disconnect_link :: "'x kmd \<Rightarrow> nat \<Rightarrow> 'x crm \<Rightarrow> int \<times> 'x crm" where
  "disconnect_link kmd i s =
     (let l = the_link i s;
          (rc, e) = disconnect_loop_devs kmd (link_hdl l) (link_devs l) (environ s) 0
      in (rc, put_link i (l\<lparr>l_dev := map (\<lambda>d. d\<lparr>cd_dev_hdl := 0, cd_ops := None\<rparr>) (take (nat (num_devs l)) (l_dev l))
                                    @ drop (nat (num_devs l)) (l_dev l)\<rparr>, e) s))"

text \<open>\<open>__cam_req_mgr_unlink\<close>. The message that disconnects a device has no delay and no trigger; the work queue is drained without running its tasks.\<close>

definition unlink_devices :: "'x kmd \<Rightarrow> nat \<Rightarrow> 'x crm \<Rightarrow> int \<times> 'x crm" where
  "unlink_devices kmd i s =
     (let s1 = map_link i (\<lambda>l. l\<lparr>link_state := CAM_CRM_LINK_STATE_IDLE\<rparr>) s;
          s2 = (if is_shutdown (the_link i s1) then s1 else snd (disconnect_link kmd i s1));
          s3 = map_link i (\<lambda>l. (destroy_link_info (l\<lparr>watchdog := crm_timer_exit (watchdog l),
                 link_workq := fst (cam_req_mgr_workq_destroy (link_workq l))\<rparr>))\<lparr>l_dev := []\<rparr>) s2;
          (rc, t) = cam_destroy_device_hdl (link_hdl (the_link i s3)) (crm_hdls s3);
          s4 = s3\<lparr>crm_hdls := t\<rparr>
      in (rc, if rc < 0 then s4 else map_link i (\<lambda>l. l\<lparr>link_hdl := - 1\<rparr>) s4))"

subsection \<open>Sessions\<close>

text \<open>\<open>mem\<close> is the address that the allocation of the session returns, if it succeeds. The second component of the
  result is the handle for user space.\<close>

definition cam_req_mgr_create_session :: "nat option \<Rightarrow> u8 \<Rightarrow> 'x crm \<Rightarrow> int \<times> u32 \<times> 'x crm" where
  "cam_req_mgr_create_session mem rand s =
     (case mem of None \<Rightarrow> (- ENOMEM, 0, s)
      | Some k \<Rightarrow>
          let (hdl, t) = cam_create_session_hdl rand (Some (ses_ptr k)) (crm_hdls s);
              s1 = s\<lparr>crm_hdls := t\<rparr> in
          if hdl < 0 then (hdl, 0, s1)
          else (0, word_of_int hdl, s1\<lparr>ses_heap := (ses_heap s1)(k \<mapsto>
                 \<lparr>ses_hdl = word_of_int hdl, num_links = 0, ses_links = (\<lambda>_. None), force_err_recovery = 0,
                  ses_sync_mode = CAM_REQ_MGR_SYNC_MODE_NO_SYNC\<rparr>), session_head := k # session_head s1\<rparr>))"

definition destroy_session_link :: "'x kmd \<Rightarrow> bool \<Rightarrow> nat option \<Rightarrow> 'x crm \<Rightarrow> 'x crm" where
  "destroy_session_link kmd shutdown lo s =
     (case lo of None \<Rightarrow> s
      | Some i \<Rightarrow> free_link i (snd (unlink_devices kmd i (map_link i (\<lambda>l. l\<lparr>is_shutdown := shutdown\<rparr>) s))))"

definition cam_req_mgr_destroy_session :: "'x kmd \<Rightarrow> u32 \<Rightarrow> bool \<Rightarrow> 'x crm \<Rightarrow> (int \<times> 'x crm) option" where
  "cam_req_mgr_destroy_session kmd hdl shutdown s = do {
     ko \<leftarrow> checked_session s hdl;
     case ko of None \<Rightarrow> Some (- ENOENT, s)
     | Some k \<Rightarrow> do {
         c \<leftarrow> ses_heap s k;
         let s1 = (if num_links c = 0 then s
                   else fold (\<lambda>m s. destroy_session_link kmd shutdown (ses_links c m) s) [0, 1, 2, 3] s);
         let s2 = s1\<lparr>session_head := removeAll k (session_head s1), ses_heap := (ses_heap s1)(k := None)\<rparr>;
         let (rc, t) = cam_destroy_session_hdl hdl (crm_hdls s2);
         Some (rc, s2\<lparr>crm_hdls := t\<rparr>) } }"

fun shutdown_loop :: "'x kmd \<Rightarrow> nat list \<Rightarrow> 'x crm \<Rightarrow> 'x crm option" where
  "shutdown_loop kmd [] s = Some s"
| "shutdown_loop kmd (k # ks) s = do {
     c \<leftarrow> ses_heap s k;
     (rc, s1) \<leftarrow> cam_req_mgr_destroy_session kmd (ses_hdl c) True s;
     shutdown_loop kmd ks s1 }"

definition cam_req_mgr_handle_core_shutdown :: "'x kmd \<Rightarrow> 'x crm \<Rightarrow> 'x crm option" where
  "cam_req_mgr_handle_core_shutdown kmd s = shutdown_loop kmd (session_head s) s"

end
