(* ===== verification/Cam_Crm_Ioctl.thy ===== *)
theory Cam_Crm_Ioctl
  imports Cam_Crm_Links
begin

section \<open>The ioctls of the request manager\<close>

text \<open>
  The functions of \<open>cam_req_mgr_core.c\<close> that the ioctl handler of \<open>cam_req_mgr_dev.c\<close> calls for links: making and
  unmaking a link, scheduling, synchronising, flushing, starting and stopping, properties and dumps. A result
  \<^const>\<open>None\<close> stands for behaviour that C does not define: a null pointer, an index outside an array, or an object
  of one kind used as another.
\<close>

subsection \<open>Making a link\<close>

text \<open>The outcomes of the allocations that making a link needs, the random byte of the handle, and the kernel's
  formatting of the name and creation of a work queue.\<close>

record link_allocs =
  al_in_q :: bool
  al_subdevs :: bool
  al_tbl :: "int \<Rightarrow> bool"
  al_workq :: bool
  al_workqueue :: "string \<Rightarrow> bool \<Rightarrow> int \<Rightarrow> bool"
  al_pool :: bool
  al_payload :: bool
  al_rand :: u8
  al_name :: "u32 \<Rightarrow> u32 \<Rightarrow> string"
  al_crm_active :: bool

abbreviation (input) CRM_WORKQ_NUM_TASKS :: int where "CRM_WORKQ_NUM_TASKS \<equiv> 60"

text \<open>The failure paths: the handle is destroyed when it was made, and the link is given back.\<close>

definition link_failed :: "int \<Rightarrow> bool \<Rightarrow> nat \<Rightarrow> nat \<Rightarrow> 'x crm \<Rightarrow> (int \<times> u32 \<times> 'x crm) option" where
  "link_failed rc made k i s = do {
     let s1 = (if made then s\<lparr>crm_hdls := snd (cam_destroy_device_hdl (link_hdl (the_link i s)) (crm_hdls s)),
                              g_links := upd_link i (\<lambda>l. l\<lparr>l_dev := []\<rparr>) (g_links s)\<rparr> else s);
     s2 \<leftarrow> unreserve_link k i s1;
     Some (rc, - 1, s2)
   }"

definition start_worker :: "link_allocs \<Rightarrow> u32 \<Rightarrow> nat \<Rightarrow> 'x crm \<Rightarrow> int \<times> 'x crm" where
  "start_worker al shdl i s =
     (let l = (the_link i s)\<lparr>link_state := CAM_CRM_LINK_STATE_READY\<rparr>;
          (rc, w) = cam_req_mgr_workq_create (al_workq al) (al_workqueue al) (al_pool al)
                      (al_name al shdl (link_hdl l)) CRM_WORKQ_NUM_TASKS (link_workq l) 0 3 in
      if rc < 0 then (rc, map_link i (\<lambda>_. destroy_link_info (l\<lparr>link_workq := w\<rparr>)) s)
      else if \<not> al_payload al
      then (- ENOMEM, map_link i (\<lambda>_. (destroy_link_info l)\<lparr>link_workq := None\<rparr>) s)
      else (0, map_link i (\<lambda>_. l\<lparr>link_workq := w, task_data := (\<lambda>_. Task_none)\<rparr>) s))"

definition make_link :: "'x kmd \<Rightarrow> link_allocs \<Rightarrow> cam_req_mgr_link_info \<Rightarrow> nat \<Rightarrow> nat \<Rightarrow> 'x crm \<Rightarrow>
  (int \<times> u32 \<times> 'x crm) option" where
  "make_link kmd al li k i s =
     (let shdl = li_session_hdl li;
          (h, t) = cam_create_device_hdl (al_crm_active al) (al_rand al)
                     \<lparr>cdh_session_hdl = shdl, cdh_dev_id = CAM_CRM, cdh_ops = None, cdh_priv = Some i\<rparr> (crm_hdls s);
          s1 = map_link i (\<lambda>l. l\<lparr>link_hdl := word_of_int h\<rparr>) (s\<lparr>crm_hdls := t\<rparr>) in
      if h < 0 then link_failed h False k i s1
      else
        let s2 = map_link i (\<lambda>l. l\<lparr>last_flush_id := 0\<rparr>) s1 in
        if \<not> al_subdevs al then link_failed (- ENOMEM) True k i s2
        else do {
          (rc, s3) \<leftarrow> setup_link_info kmd (al_tbl al) li i s2;
          if rc < 0 then link_failed rc True k i s3
          else
            let (rc2, s4) = start_worker al shdl i s3 in
            if rc2 < 0 then link_failed rc2 True k i s4
            else Some (rc2, word_of_int h, s4) })"

text \<open>The result holds the status, the link's handle for user space and the state. Both versions of the ioctl differ
  in the number of devices they allow, and the second clears the counters of triggers.\<close>

definition link_common :: "'x kmd \<Rightarrow> link_allocs \<Rightarrow> u32 \<Rightarrow> cam_req_mgr_link_info \<Rightarrow> 'x crm \<Rightarrow>
  (int \<times> u32 \<times> 'x crm) option" where
  "link_common kmd al limit li s =
     (if limit < num_devices li then Some (- EINVAL, 0, s)
      else do {
        ko \<leftarrow> checked_session s (li_session_hdl li);
        case ko of None \<Rightarrow> Some (- EINVAL, 0, s)
        | Some k \<Rightarrow> do {
            c \<leftarrow> ses_heap s k;
            let (io, s1) = reserve_link (al_in_q al) k c s;
            case io of None \<Rightarrow> Some (- EINVAL, 0, s1)
            | Some i \<Rightarrow> make_link kmd al li k i s1 } })"

definition cam_req_mgr_link :: "'x kmd \<Rightarrow> link_allocs \<Rightarrow> cam_req_mgr_link_info \<Rightarrow> 'x crm \<Rightarrow>
  (int \<times> u32 \<times> 'x crm) option" where
  "cam_req_mgr_link kmd al li s = link_common kmd al CAM_REQ_MGR_MAX_HANDLES (li\<lparr>li_version := 1\<rparr>) s"

definition cam_req_mgr_link_v2 :: "'x kmd \<Rightarrow> link_allocs \<Rightarrow> cam_req_mgr_link_info \<Rightarrow> 'x crm \<Rightarrow>
  (int \<times> u32 \<times> 'x crm) option" where
  "cam_req_mgr_link_v2 kmd al li s = do {
     (rc, h, s1) \<leftarrow> link_common kmd al MAX_HANDLES_V2 (li\<lparr>li_version := 2\<rparr>) s;
     Some (rc, h, if rc < 0 then s1
                  else (case link_of_hdl s1 h of Some (Some i) \<Rightarrow> map_link i clear_trigger_cnt s1 | _ \<Rightarrow> s1))
   }"

definition cam_req_mgr_unlink :: "'x kmd \<Rightarrow> u32 \<Rightarrow> u32 \<Rightarrow> 'x crm \<Rightarrow> (int \<times> 'x crm) option" where
  "cam_req_mgr_unlink kmd shdl lhdl s = do {
     ko \<leftarrow> checked_session s shdl;
     case ko of None \<Rightarrow> Some (- EINVAL, s)
     | Some k \<Rightarrow> do {
         io \<leftarrow> checked_link s lhdl;
         case io of None \<Rightarrow> Some (- EINVAL, s)
         | Some i \<Rightarrow> do {
             let (rc, s1) = unlink_devices kmd i s;
             s2 \<leftarrow> unreserve_link k i s1;
             Some (rc, s2) } } }"

subsection \<open>Scheduling\<close>

abbreviation (input) AUTO_RECOVERY :: int where "AUTO_RECOVERY \<equiv> 0"
abbreviation (input) FORCE_ENABLE_RECOVERY :: int where "FORCE_ENABLE_RECOVERY \<equiv> 1"
abbreviation (input) FORCE_DISABLE_RECOVERY :: int where "FORCE_DISABLE_RECOVERY \<equiv> 2"

definition bubble_of :: "cam_req_mgr_core_session \<Rightarrow> int \<Rightarrow> int" where
  "bubble_of c b = (if force_err_recovery c = AUTO_RECOVERY then b
                    else if force_err_recovery c = FORCE_ENABLE_RECOVERY then 1 else 0)"

text \<open>The checks that both versions make, and the continuation with the link and its session.\<close>

definition schedule_on :: "u32 \<Rightarrow> int \<Rightarrow> (nat \<Rightarrow> cam_req_mgr_core_session \<Rightarrow> 'x crm \<Rightarrow> (int \<times> 'x crm) option) \<Rightarrow>
  'x crm \<Rightarrow> (int \<times> 'x crm) option" where
  "schedule_on lhdl req f s = do {
     io \<leftarrow> checked_link s lhdl;
     case io of None \<Rightarrow> Some (- EINVAL, s)
     | Some i \<Rightarrow> (case link_parent (the_link i s) of None \<Rightarrow> Some (- EINVAL, s)
         | Some k \<Rightarrow>
             if req \<le> last_flush_id (the_link i s) then Some (- EBADR, s)
             else do {
               c \<leftarrow> ses_heap s k;
               f i c (map_link i (\<lambda>l. l\<lparr>last_flush_id := 0\<rparr>) s) }) }"

text \<open>The structure on the stack is filled in but for the links; \<open>stk\<close> is what it held before.\<close>

definition cam_req_mgr_schedule_request :: "cam_req_mgr_sched_request_v2 \<Rightarrow> cam_req_mgr_sched_request \<Rightarrow> 'x crm \<Rightarrow>
  (int \<times> 'x crm) option" where
  "cam_req_mgr_schedule_request stk sr s =
     schedule_on (sr_link_hdl sr) (sr_req_id sr) (\<lambda>i c s1.
       cam_req_mgr_process_sched_req
         (stk\<lparr>sr_req_id := sr_req_id sr, sr_sync_mode := sr_sync_mode sr, sr_link_hdl := sr_link_hdl sr,
              sr_additional_timeout := sr_additional_timeout sr,
              sr_bubble_enable := bubble_of c (sr_bubble_enable sr)\<rparr>) i s1) s"

text \<open>The links of a synchronised request are looked up one after the other; the array for them on the stack has
  four entries. The array in the request itself has two, and the entries behind it are the words that follow it
  in the structure.\<close>

fun check_sched_links :: "'x crm \<Rightarrow> u32 list \<Rightarrow> nat \<Rightarrow> int option" where
  "check_sched_links s [] n = Some 0"
| "check_sched_links s (h # hs) n =
     (if h = 0 then Some (- EINVAL)
      else if 4 \<le> n then None
      else do {
        io \<leftarrow> checked_link s h;
        if io = None then Some (- EINVAL) else check_sched_links s hs (n + 1) })"

definition cam_req_mgr_schedule_request_v2 :: "cam_req_mgr_sched_request_v2 \<Rightarrow> cam_req_mgr_sched_request_v2 \<Rightarrow>
  'x crm \<Rightarrow> (int \<times> 'x crm) option" where
  "cam_req_mgr_schedule_request_v2 stk sr s =
     schedule_on (sr_link_hdl sr) (sr_req_id sr) (\<lambda>i c s1.
       let sched = stk\<lparr>sr_req_id := sr_req_id sr, sr_sync_mode := sr_sync_mode sr, sr_link_hdl := sr_link_hdl sr,
              sr_additional_timeout := sr_additional_timeout sr,
              sr_bubble_enable := bubble_of c (sr_bubble_enable sr)\<rparr> in
       if sr_sync_mode sr = CAM_REQ_MGR_SYNC_MODE_SYNC then
         if sr_num_links sr \<le> 0 \<and> MAXIMUM_LINKS_PER_SESSION < sr_num_links sr then Some (- EINVAL, s1)
         else do {
           rc \<leftarrow> check_sched_links s1 (map (\<lambda>k. sr_link_hdls sr (int k)) [0..<nat (sr_num_links sr)]) 0;
           if rc \<noteq> 0 then Some (rc, s1)
           else cam_req_mgr_process_sched_req
                  (sched\<lparr>sr_num_links := sr_num_links sr,
                         sr_link_hdls := (\<lambda>k. if 0 \<le> k \<and> k < sr_num_links sr then sr_link_hdls sr k
                                              else sr_link_hdls stk k)\<rparr>) i s1 }
       else cam_req_mgr_process_sched_req (sched\<lparr>sr_num_links := 0\<rparr>) i s1) s"

end
