(* ===== verification/Cam_Crm_Control.thy ===== *)
theory Cam_Crm_Control
  imports Cam_Crm_Ioctl
begin

section \<open>Synchronising, flushing, starting and stopping links\<close>

text \<open>
  The remaining ioctls of \<open>cam_req_mgr_core.c\<close>: \<open>cam_req_mgr_sync_config\<close>, \<open>_flush_requests\<close>, \<open>_link_control\<close>,
  \<open>_link_properties\<close> and \<open>_dump_request\<close>, the dump of all links after a crash, and the start and end of the
  device.
\<close>

subsection \<open>Synchronising links\<close>

record cam_req_mgr_sync_mode =
  sm_session_hdl :: u32
  sm_sync_mode :: int
  sm_num_links :: int
  sm_link_hdls :: "int \<Rightarrow> u32"

abbreviation (input) MAX_LINKS_PER_SESSION :: int where "MAX_LINKS_PER_SESSION \<equiv> 2"

text \<open>The first loop looks the links up and separates them; \<open>n\<close> is the number of links. It stops at the first handle
  that does not name a link.\<close>

definition unsync_link :: "int \<Rightarrow> cam_req_mgr_core_link \<Rightarrow> cam_req_mgr_core_link" where
  "unsync_link n l = l\<lparr>sync_link_sof_skip := False, is_master := False, in_msync_mode := False,
     initial_sync_req := - 1, num_sync_links := 0,
     sync_link := (\<lambda>j. if 0 \<le> j \<and> j < n - 1 then None else sync_link l j)\<rparr>"

fun sync_lookup :: "int \<Rightarrow> u32 list \<Rightarrow> nat list \<Rightarrow> 'x crm \<Rightarrow> (nat list option \<times> 'x crm) option" where
  "sync_lookup n [] ls s = Some (Some ls, s)"
| "sync_lookup n (h # hs) ls s =
     (if h = 0 then Some (None, s)
      else do {
        io \<leftarrow> checked_link s h;
        case io of None \<Rightarrow> Some (None, s)
        | Some i \<Rightarrow> sync_lookup n hs (ls @ [i]) (map_link i (unsync_link n) s) })"

text \<open>Link number \<open>a\<close> of the list gets all others as partners. The tests compare the positions, not the links.\<close>

definition sync_partners :: "nat \<Rightarrow> nat list \<Rightarrow> nat list" where
  "sync_partners a ls = map (\<lambda>b. ls ! b) (filter (\<lambda>b. a \<noteq> b) [0..<length ls])"

definition add_partner :: "nat \<Rightarrow> int \<times> cam_req_mgr_core_link \<Rightarrow> int \<times> cam_req_mgr_core_link" where
  "add_partner j = (\<lambda>(k, l). (k + 1, l\<lparr>sync_link := (sync_link l)(k \<mapsto> j), num_sync_links := num_sync_links l + 1\<rparr>))"

definition restart_sync :: "cam_req_mgr_core_link \<Rightarrow> cam_req_mgr_core_link" where
  "restart_sync l = l\<lparr>initial_skip := True, sof_timestamp := 0\<rparr>"

definition join_links :: "nat list \<Rightarrow> links \<Rightarrow> links" where
  "join_links ls L = fold (\<lambda>a L. upd_link (ls ! a)
     (\<lambda>l. restart_sync (snd (fold add_partner (sync_partners a ls) (0, l)))) L) [0..<length ls] L"

definition cam_req_mgr_sync_config :: "cam_req_mgr_sync_mode \<Rightarrow> 'x crm \<Rightarrow> (int \<times> 'x crm) option" where
  "cam_req_mgr_sync_config sm s =
     (if sm_num_links sm < 0 \<or> MAX_LINKS_PER_SESSION < sm_num_links sm then Some (- EINVAL, s)
      else if sm_sync_mode sm \<noteq> CAM_REQ_MGR_SYNC_MODE_SYNC \<and> sm_sync_mode sm \<noteq> CAM_REQ_MGR_SYNC_MODE_NO_SYNC
      then Some (- EINVAL, s)
      else if sm_link_hdls sm 0 = 0 \<or> sm_link_hdls sm 1 = 0 then Some (- EINVAL, s)
      else do {
        ko \<leftarrow> checked_session s (sm_session_hdl sm);
        case ko of None \<Rightarrow> Some (- EINVAL, s)
        | Some k \<Rightarrow> do {
            (lo, s1) \<leftarrow> sync_lookup (sm_num_links sm)
               (map (\<lambda>m. sm_link_hdls sm (int m)) [0..<nat (sm_num_links sm)]) [] s;
            case lo of None \<Rightarrow> Some (- EINVAL, s1)
            | Some ls \<Rightarrow> do {
                c \<leftarrow> ses_heap s1 k;
                let L = (if sm_sync_mode sm = CAM_REQ_MGR_SYNC_MODE_SYNC then join_links ls (g_links s1)
                         else fold (\<lambda>i. upd_link i restart_sync) ls (g_links s1));
                Some (0, s1\<lparr>g_links := L, ses_heap := (ses_heap s1)(k \<mapsto> c\<lparr>ses_sync_mode := sm_sync_mode sm\<rparr>)\<rparr>) } } })"

subsection \<open>Flushing\<close>

text \<open>While the caller waits for the completion, the worker of the link runs: \<open>worker\<close> is what happens in
  the meantime, with the ticks that remain of the waiting time, 0 after a timeout. This number is the result.\<close>

definition cam_req_mgr_flush_requests :: "('x crm \<Rightarrow> (u64 \<times> 'x crm) option) \<Rightarrow> cam_req_mgr_flush_info \<Rightarrow> 'x crm \<Rightarrow>
  (int \<times> 'x crm) option" where
  "cam_req_mgr_flush_requests worker fi s =
     (if CAM_REQ_MGR_FLUSH_TYPE_MAX \<le> flush_type fi then Some (- EINVAL, s)
      else do {
        ko \<leftarrow> checked_session s (fl_session_hdl fi);
        case ko of None \<Rightarrow> Some (- EINVAL, s)
        | Some k \<Rightarrow> do {
            c \<leftarrow> ses_heap s k;
            if num_links c \<le> 0 then Some (0, s)
            else do {
              io \<leftarrow> checked_link s (fl_link_hdl fi);
              case io of None \<Rightarrow> Some (- EINVAL, s)
              | Some i \<Rightarrow>
                  if \<not> has_task (the_link i s) then Some (- ENOMEM, s)
                  else do {
                    (rem, s2) \<leftarrow> worker (snd (queue_or_busy i CB_FLUSH_REQ (Task_flush_req fi)
                                   (map_link i (\<lambda>l. l\<lparr>workq_comp := False\<rparr>) s)));
                    Some (sint (ucast rem :: u32), s2) } } } })"

subsection \<open>Starting and stopping\<close>

record cam_req_mgr_link_control_arg =
  lc_ops :: int
  lc_num_links :: int
  init_timeout :: "nat \<Rightarrow> u32"
  lc_link_hdls :: "nat \<Rightarrow> u32"

abbreviation (input) CAM_REQ_MGR_LINK_ACTIVATE :: int where "CAM_REQ_MGR_LINK_ACTIVATE \<equiv> 0"
abbreviation (input) CAM_REQ_MGR_LINK_DEACTIVATE :: int where "CAM_REQ_MGR_LINK_DEACTIVATE \<equiv> 1"

text \<open>The watchdog starts at twice the time-out that user space gives, as 32-bit numbers. When the timer cannot be
  had, or exists already, the status says so and the function goes on.\<close>

definition activate_link :: "'x kmd \<Rightarrow> bool \<Rightarrow> u32 \<Rightarrow> nat \<Rightarrow> 'x crm \<Rightarrow> (int \<times> 'x crm) option" where
  "activate_link kmd alloc ms i s =
     (let l = the_link i s;
          (rc, w) = crm_timer_init alloc (jiffies (environ s)) (watchdog l) (sint (2 * ms + 1000));
          l1 = l\<lparr>link_state := CAM_CRM_LINK_STATE_READY, skip_init_frame := (ms \<noteq> 0 \<or> skip_init_frame l),
                 watchdog := w, initial_skip := True\<rparr> in
      case w of None \<Rightarrow> None
      | Some t \<Rightarrow> Some (if rc < 0 then - EFAULT else rc,
          put_link i (send_evt kmd 0 CAM_REQ_MGR_LINK_EVT_RESUME CRM_KMD_ERR_MAX (set_pause True l1) (environ s)) s))"

definition deactivate_link :: "'x kmd \<Rightarrow> nat \<Rightarrow> 'x crm \<Rightarrow> 'x crm" where
  "deactivate_link kmd i s =
     map_link i (\<lambda>l. l\<lparr>link_state := CAM_CRM_LINK_STATE_IDLE, skip_init_frame := False,
                       watchdog := crm_timer_exit (watchdog l)\<rparr>)
       (put_link i (send_evt kmd 0 CAM_REQ_MGR_LINK_EVT_PAUSE CRM_KMD_ERR_MAX (the_link i s) (environ s)) s)"

text \<open>A status is overwritten when the next timer starts; \<open>alloc\<close> says whether the timer of the \<open>m\<close>-th link can be had.\<close>

fun control_loop :: "'x kmd \<Rightarrow> (nat \<Rightarrow> bool) \<Rightarrow> cam_req_mgr_link_control_arg \<Rightarrow> nat list \<Rightarrow> int \<Rightarrow> 'x crm \<Rightarrow>
  (int \<times> 'x crm) option" where
  "control_loop kmd alloc lc [] rc s = Some (rc, s)"
| "control_loop kmd alloc lc (m # ms) rc s = do {
     io \<leftarrow> checked_link s (lc_link_hdls lc m);
     case io of None \<Rightarrow> Some (- EINVAL, s)
     | Some i \<Rightarrow>
         if lc_ops lc = CAM_REQ_MGR_LINK_ACTIVATE then do {
           (rc1, s1) \<leftarrow> activate_link kmd (alloc m) (init_timeout lc m) i s;
           control_loop kmd alloc lc ms rc1 s1 }
         else if lc_ops lc = CAM_REQ_MGR_LINK_DEACTIVATE then
           control_loop kmd alloc lc ms rc (deactivate_link kmd i s)
         else control_loop kmd alloc lc ms (- EINVAL) s }"

definition cam_req_mgr_link_control :: "'x kmd \<Rightarrow> (nat \<Rightarrow> bool) \<Rightarrow> cam_req_mgr_link_control_arg \<Rightarrow> 'x crm \<Rightarrow>
  (int \<times> 'x crm) option" where
  "cam_req_mgr_link_control kmd alloc lc s =
     (if lc_num_links lc \<le> 0 \<or> MAX_LINKS_PER_SESSION < lc_num_links lc then Some (- EINVAL, s)
      else control_loop kmd alloc lc [0..<nat (lc_num_links lc)] 0 s)"

subsection \<open>Properties and dumps\<close>

definition call_process_evt_rc :: "'x kmd \<Rightarrow> cam_req_mgr_connected_device \<Rightarrow> cam_req_mgr_link_evt_data \<Rightarrow>
  'x crm_env \<Rightarrow> int \<times> bool \<times> 'x crm_env" where
  "call_process_evt_rc kmd d ev e =
     (case cd_ops d of None \<Rightarrow> (0, try_for_recovery ev, e)
      | Some p \<Rightarrow> (case op_process_evt (kmd p) of None \<Rightarrow> (0, try_for_recovery ev, e)
         | Some f \<Rightarrow> let (rc, fl, x) = f ev (dev_world e) in (rc, fl, e\<lparr>dev_world := x\<rparr>)))"

fun properties_loop :: "'x kmd \<Rightarrow> cam_req_mgr_link_evt_data \<Rightarrow> cam_req_mgr_connected_device list \<Rightarrow> 'x crm_env \<Rightarrow>
  int \<times> 'x crm_env" where
  "properties_loop kmd ev [] e = (0, e)"
| "properties_loop kmd ev (d # ds) e =
     (let (rc, fl, e1) = call_process_evt_rc kmd d (ev\<lparr>ev_dev_hdl := cd_dev_hdl d\<rparr>) e in
      if rc \<noteq> 0 then (rc, e1) else properties_loop kmd (ev\<lparr>try_for_recovery := fl\<rparr>) ds e1)"

definition cam_req_mgr_link_properties :: "'x kmd \<Rightarrow> u32 \<Rightarrow> u32 \<Rightarrow> 'x crm \<Rightarrow> (int \<times> 'x crm) option" where
  "cam_req_mgr_link_properties kmd lhdl pmask s = do {
     io \<leftarrow> checked_link s lhdl;
     case io of None \<Rightarrow> Some (- EINVAL, s)
     | Some i \<Rightarrow>
         if link_state (the_link i s) \<noteq> CAM_CRM_LINK_STATE_READY then Some (- CRM_EAGAIN, s)
         else
           let l = (the_link i s)\<lparr>properties_mask := pmask\<rparr>;
               (rc, e) = properties_loop kmd \<lparr>ev_link_hdl = link_hdl l, ev_dev_hdl = 0, ev_req_id = 0,
                  try_for_recovery = stack_flag (environ s), ev_type = CAM_REQ_MGR_LINK_EVT_UPDATE_PROPERTIES,
                  ev_u = Evt_properties_mask pmask\<rparr> (link_devs l) (environ s)
           in Some (rc, put_link i (l, e) s) }"

fun dump_loop :: "'x kmd \<Rightarrow> cam_req_mgr_dump_info \<Rightarrow> cam_req_mgr_connected_device list \<Rightarrow> 'x crm_env \<Rightarrow>
  u64 \<times> 'x crm_env" where
  "dump_loop kmd di [] e = (du_offset di, e)"
| "dump_loop kmd di (d # ds) e =
     (let di1 = di\<lparr>du_dev_hdl := cd_dev_hdl d\<rparr>;
          (off, e1) =
            (case cd_ops d of None \<Rightarrow> (du_offset di1, e)
             | Some p \<Rightarrow> (case op_dump_req (kmd p) of None \<Rightarrow> (du_offset di1, e)
                | Some f \<Rightarrow> let (rc, off, x) = f di1 (dev_world e) in (off, e\<lparr>dev_world := x\<rparr>)))
      in dump_loop kmd (di1\<lparr>du_offset := off\<rparr>) ds e1)"

text \<open>The status is always 0; the second component is the offset for user space.\<close>

definition cam_req_mgr_dump_request :: "'x kmd \<Rightarrow> u32 \<Rightarrow> cam_req_mgr_dump_info \<Rightarrow> 'x crm \<Rightarrow>
  (int \<times> u64 \<times> 'x crm) option" where
  "cam_req_mgr_dump_request kmd shdl di s = do {
     ko \<leftarrow> checked_session s shdl;
     case ko of None \<Rightarrow> Some (0, du_offset di, s)
     | Some k \<Rightarrow> do {
         c \<leftarrow> ses_heap s k;
         if num_links c \<le> 0 then Some (0, du_offset di, s)
         else do {
           io \<leftarrow> checked_link s (du_link_hdl di);
           case io of None \<Rightarrow> Some (0, du_offset di, s)
           | Some i \<Rightarrow>
               let (off, e) = dump_loop kmd di (link_devs (the_link i s)) (environ s)
               in Some (0, off, s\<lparr>environ := e\<rparr>) } } }"

subsection \<open>The dump after a crash\<close>

record cam_req_mgr_core_link_mini_dump =
  md_workq :: "int \<times> int \<times> int \<times> u32"
  md_apply_data :: "int \<Rightarrow> cam_req_mgr_apply"
  md_prev_apply_data :: "int \<Rightarrow> cam_req_mgr_apply"
  md_in_q :: cam_req_mgr_req_queue
  md_l_tbl :: "cam_req_mgr_req_tbl list"
  md_num_tbl :: int
  md_initial_sync_req :: int
  md_last_flush_id :: u32
  md_is_used :: u32
  md_retry_cnt :: u32
  md_eof_event_cnt :: u32
  md_pd_mask :: u32
  md_num_sync_links :: int
  md_link_hdl :: u32
  md_num_devs :: int
  md_max_delay :: int
  md_state :: cam_req_mgr_link_state
  md_dual_trigger :: bool
  md_is_shutdown :: bool
  md_skip_init_frame :: bool
  md_is_master :: bool
  md_initial_skip :: bool
  md_in_msync_mode :: bool
  md_sync_link_sof_skip :: bool
  md_wq_congestion :: bool

text \<open>Each table is copied with its identifier in the place of its delay.\<close>

definition dump_link :: "cam_req_mgr_core_link \<Rightarrow> cam_req_mgr_core_link_mini_dump option" where
  "dump_link l = do {
     q \<leftarrow> in_q l;
     w \<leftarrow> link_workq l;
     Some \<lparr>md_workq = (wq_scheduled_ts w, wq_pending_cnt w, wq_free_cnt w, wq_num_task w),
        md_apply_data = apply_data l, md_prev_apply_data = prev_apply_data l, md_in_q = q,
        md_l_tbl = map (\<lambda>t. t\<lparr>tb_pd := tb_id t\<rparr>) (l_tbl l), md_num_tbl = num_tbl l,
        md_initial_sync_req = initial_sync_req l, md_last_flush_id = word_of_int (last_flush_id l),
        md_is_used = 1, md_retry_cnt = retry_cnt l, md_eof_event_cnt = word_of_int (eof_event_cnt l),
        md_pd_mask = pd_mask l, md_num_sync_links = num_sync_links l, md_link_hdl = link_hdl l,
        md_num_devs = num_devs l, md_max_delay = max_delay l, md_state = link_state l,
        md_dual_trigger = dual_trigger l, md_is_shutdown = is_shutdown l,
        md_skip_init_frame = skip_init_frame l, md_is_master = is_master l,
        md_initial_skip = initial_skip l, md_in_msync_mode = in_msync_mode l,
        md_sync_link_sof_skip = sync_link_sof_skip l, md_wq_congestion = wq_congestion l\<rparr>
   }"

text \<open>The buffer is the header \<open>md\<close> with the number of links and an array of pointers, followed by the places for the
  links, here numbered from 0; \<open>waddr\<close> is the place to write next. The variable \<open>k\<close> of the source is never
  changed.\<close>

record cam_req_mgr_core_mini_dump =
  mini_link :: "nat \<Rightarrow> nat option"
  num_link :: nat
  dump_place :: "nat \<Rightarrow> cam_req_mgr_core_link_mini_dump option"

fun mini_dump_loop :: "nat \<Rightarrow> nat \<Rightarrow> nat \<Rightarrow> nat \<Rightarrow> nat list \<Rightarrow> links \<Rightarrow> nat \<Rightarrow> nat \<Rightarrow> cam_req_mgr_core_mini_dump \<Rightarrow>
  (nat \<times> cam_req_mgr_core_mini_dump) option" where
  "mini_dump_loop len lsize k waddr [] L dumped remain md = Some (dumped, md)"
| "mini_dump_loop len lsize k waddr (i # is) L dumped remain md =
     (if remain < lsize then Some (dumped, md)
      else if \<not> is_used (L i) then mini_dump_loop len lsize k waddr is L dumped remain md
      else do {
        let waddr' = waddr + k;
        d \<leftarrow> dump_link (L i);
        mini_dump_loop len lsize k waddr' is L (dumped + lsize) (len - (dumped + lsize))
          (md\<lparr>mini_link := (mini_link md)(k \<mapsto> waddr'), dump_place := (dump_place md)(waddr' \<mapsto> d),
              num_link := num_link md + 1\<rparr>) })"

text \<open>\<open>msize\<close> and \<open>lsize\<close> are the sizes of the header and of the dump of a link. The result is the number of bytes.\<close>

definition cam_req_mgr_core_mini_dump_cb :: "nat \<Rightarrow> nat \<Rightarrow> nat \<Rightarrow> links \<Rightarrow>
  (nat \<times> cam_req_mgr_core_mini_dump) option" where
  "cam_req_mgr_core_mini_dump_cb msize lsize len L =
     (let md = \<lparr>mini_link = (\<lambda>_. None), num_link = 0, dump_place = (\<lambda>_. None)\<rparr> in
      if len < msize then Some (0, md)
      else mini_dump_loop len lsize 0 0 [0, 1, 2, 3] L msize (len - msize) md)"

subsection \<open>The device\<close>

text \<open>The state exists from \<open>cam_req_mgr_core_device_init\<close> to \<open>cam_req_mgr_core_device_deinit\<close>. \<open>L\<close> are the links as
  they are before: zero at first, as left by an earlier device later on.\<close>

definition cam_req_mgr_core_device_init :: "bool \<Rightarrow> links \<Rightarrow> hdl_table \<Rightarrow> 'x crm_env \<Rightarrow> 'x crm option \<Rightarrow>
  int \<times> 'x crm option" where
  "cam_req_mgr_core_device_init alloc L t e so =
     (case so of Some s \<Rightarrow> (0, Some s)
      | None \<Rightarrow>
          if \<not> alloc then (- ENOMEM, None)
          else (0, Some \<lparr>g_links = (\<lambda>i. if i < 4 then cam_req_mgr_core_link_reset ((L i)\<lparr>is_used := False\<rparr>)
                                      else L i),
                     ses_heap = (\<lambda>_. None), session_head = [], crm_hdls = t, recovery_on_apply_fail = False,
                     environ = e\<rparr>))"

definition cam_req_mgr_core_device_deinit :: "'x crm option \<Rightarrow> int \<times> 'x crm option" where
  "cam_req_mgr_core_device_deinit so = (case so of None \<Rightarrow> (- EINVAL, None) | Some s \<Rightarrow> (0, None))"

end
