(* ===== verification/Cam_Crm_Ready.thy ===== *)
theory Cam_Crm_Ready
  imports Cam_Crm_Control
begin

section \<open>Which request each device gets\<close>

text \<open>
  The recursion over the tables of a link equals a specification without recursion: seen from the read index, a
  table of delay \<open>p\<close> is asked for the slot \<open>max - p\<close> places back, where \<open>max\<close> is the delay of the first table.
\<close>

subsection \<open>Well-formed lists of tables\<close>

definition pdt_ok :: "cam_req_mgr_req_tbl \<Rightarrow> bool" where
  "pdt_ok t \<longleftrightarrow> 0 \<le> tb_pd t \<and> tb_pd t < CAM_PIPELINE_DELAY_MAX \<and> tb_num_slots t = MAX_REQ_SLOTS"

text \<open>Delays fall strictly, and \<open>pd_delta\<close> is the distance to the next table.\<close>

fun tbls_wf :: "cam_req_mgr_req_tbl list \<Rightarrow> bool" where
  "tbls_wf [] \<longleftrightarrow> True"
| "tbls_wf [t] \<longleftrightarrow> pdt_ok t"
| "tbls_wf (t # u # ts) \<longleftrightarrow> pdt_ok t \<and> tb_pd u < tb_pd t \<and> pd_delta t = tb_pd t - tb_pd u \<and> tbls_wf (u # ts)"

definition pds_mask :: "cam_req_mgr_req_tbl list \<Rightarrow> u32" where
  "pds_mask ts = foldr (\<lambda>t m. m OR push_bit (nat (tb_pd t)) 1) ts 0"

definition slot_of :: "int \<Rightarrow> int \<Rightarrow> cam_req_mgr_req_tbl \<Rightarrow> int" where
  "slot_of i mx t = (i - (mx - tb_pd t)) mod MAX_REQ_SLOTS"

definition top_pd :: "cam_req_mgr_req_tbl list \<Rightarrow> int" where
  "top_pd ts = (case ts of [] \<Rightarrow> 0 | t # _ \<Rightarrow> tb_pd t)"

definition all_pass :: "cam_req_mgr_req_queue \<Rightarrow> cam_req_mgr_req_tbl list \<Rightarrow> int \<Rightarrow> int \<Rightarrow> bool" where
  "all_pass q ts i mx \<longleftrightarrow> (\<forall>t \<in> set ts. slot_passes q t (slot_of i mx t))"

definition less_skip :: "cam_req_mgr_req_tbl \<Rightarrow> cam_req_mgr_req_tbl" where
  "less_skip t = (if 0 < skip_traverse t then t\<lparr>skip_traverse := skip_traverse t - 1\<rparr> else t)"

definition plan :: "cam_req_mgr_req_queue \<Rightarrow> int \<Rightarrow> int \<Rightarrow> cam_req_mgr_req_tbl \<Rightarrow> cam_req_mgr_apply \<Rightarrow> cam_req_mgr_apply" where
  "plan q i mx t a = a\<lparr>ad_idx := slot_of i mx t, ad_pd := tb_pd t,
     ad_req_id := (if 0 < skip_traverse t then - 1 else sl_req_id (q_slot q (slot_of i mx t)))\<rparr>"

definition planned :: "cam_req_mgr_req_queue \<Rightarrow> cam_req_mgr_req_tbl list \<Rightarrow> int \<Rightarrow> int \<Rightarrow> (int \<Rightarrow> cam_req_mgr_apply) \<Rightarrow>
  int \<Rightarrow> cam_req_mgr_apply" where
  "planned q ts i mx ad pd = (case find_pd_tbl ts pd of None \<Rightarrow> ad pd | Some t \<Rightarrow> plan q i mx t (ad pd))"

lemma tbls_wf_tl: "tbls_wf (t # ts) \<Longrightarrow> tbls_wf ts"
  by (cases ts) auto

lemma tbls_wf_hd: "tbls_wf (t # ts) \<Longrightarrow> pdt_ok t"
  by (cases ts) auto

lemma tbls_wf_less: "tbls_wf (t # ts) \<Longrightarrow> u \<in> set ts \<Longrightarrow> tb_pd u < tb_pd t"
proof (induction ts arbitrary: t)
  case (Cons v vs)
  then show ?case by (cases "u = v") (auto intro: order_less_trans)
qed simp

lemma tbls_wf_ok: "tbls_wf ts \<Longrightarrow> t \<in> set ts \<Longrightarrow> pdt_ok t"
  by (induction ts rule: tbls_wf.induct) auto

lemma dec_idx_mod: "0 \<le> i \<Longrightarrow> i < MAX_REQ_SLOTS \<Longrightarrow> 0 \<le> k \<Longrightarrow> k \<le> MAX_REQ_SLOTS \<Longrightarrow>
  dec_idx i k MAX_REQ_SLOTS = (i - k) mod MAX_REQ_SLOTS"
proof -
  assume a: "0 \<le> i" "i < MAX_REQ_SLOTS" "0 \<le> k" "k \<le> MAX_REQ_SLOTS"
  show ?thesis
  proof (cases "i - k < 0")
    case True
    have "(i - k) mod MAX_REQ_SLOTS = (i - k + MAX_REQ_SLOTS) mod MAX_REQ_SLOTS" by simp
    also have "\<dots> = i - k + MAX_REQ_SLOTS" using a True by (intro mod_pos_pos_trivial) auto
    finally show ?thesis using True by (simp add: dec_idx_def)
  next
    case False
    then show ?thesis using a by (simp add: dec_idx_def)
  qed
qed

lemma slot_of_range [simp]: "0 \<le> slot_of i mx t" "slot_of i mx t < 48"
  by (simp_all add: slot_of_def)

lemma slot_of_shift: "slot_of ((i - (mx - p)) mod MAX_REQ_SLOTS) p t = slot_of i mx t"
proof -
  have "((i - (mx - p)) mod MAX_REQ_SLOTS - (p - tb_pd t)) mod MAX_REQ_SLOTS = (i - (mx - p) - (p - tb_pd t)) mod MAX_REQ_SLOTS"
    by (rule mod_diff_left_eq)
  also have "i - (mx - p) - (p - tb_pd t) = i - (mx - tb_pd t)" by simp
  finally show ?thesis by (simp only: slot_of_def)
qed

lemma slot_of_top: "0 \<le> i \<Longrightarrow> i < MAX_REQ_SLOTS \<Longrightarrow> slot_of i (tb_pd t) t = i"
  by (simp add: slot_of_def)

lemma find_pd_tbl_Cons: "find_pd_tbl (t # ts) p = (if tb_pd t = p then Some t else find_pd_tbl ts p)"
  by (simp add: find_pd_tbl_def)

lemma find_pd_tbl_None: "find_pd_tbl ts p = None \<longleftrightarrow> (\<forall>t \<in> set ts. tb_pd t \<noteq> p)"
  by (auto simp: find_pd_tbl_def find_None_iff)

lemma find_pd_tbl_Some: "find_pd_tbl ts p = Some t \<Longrightarrow> t \<in> set ts \<and> tb_pd t = p"
  by (auto simp: find_pd_tbl_def find_Some_iff)

lemma tbls_wf_unique: "tbls_wf ts \<Longrightarrow> t \<in> set ts \<Longrightarrow> find_pd_tbl ts (tb_pd t) = Some t"
proof (induction ts)
  case (Cons u us)
  show ?case
  proof (cases "t = u")
    case False
    with Cons.prems have "t \<in> set us" by simp
    with Cons tbls_wf_less [of u us t] tbls_wf_tl show ?thesis by (auto simp: find_pd_tbl_Cons)
  qed (simp add: find_pd_tbl_Cons)
qed simp

lemma planned_tail:
  assumes "tbls_wf (t # ts)"
  shows "(planned q ts i mx ad)(tb_pd t := plan q i mx t (planned q ts i mx ad (tb_pd t))) = planned q (t # ts) i mx ad"
proof
  fix pd
  have "find_pd_tbl ts (tb_pd t) = None"
    using tbls_wf_less [OF assms] by (force simp: find_pd_tbl_None)
  then show "((planned q ts i mx ad)(tb_pd t := plan q i mx t (planned q ts i mx ad (tb_pd t)))) pd =
      planned q (t # ts) i mx ad pd"
    by (simp add: planned_def find_pd_tbl_Cons)
qed

subsection \<open>The traversal\<close>

lemma traverse_single:
  "traverse q [t] tv ad =
     (if slot_passes q t (tv_idx tv) then
        (0, [if validate_only tv then t else less_skip t],
         tv\<lparr>tv_result := tv_result tv OR push_bit (nat (tb_pd t)) 1\<rparr>,
         if validate_only tv then ad
         else ad(tb_pd t := (ad (tb_pd t))\<lparr>ad_pd := tb_pd t, ad_idx := tv_idx tv,
                ad_req_id := (if 0 < skip_traverse t then - 1 else sl_req_id (q_slot q (tv_idx tv)))\<rparr>))
      else (- CRM_EAGAIN, [t],
         tv\<lparr>tv_req_id := sl_req_id (q_slot q (tv_idx tv)), tv_pd := word_of_int (tb_pd t),
            tv_masked_value := dev_mask t AND req_ready_map (tb_slot t (tv_idx tv)),
            tv_result := tv_result tv AND NOT (push_bit (nat (tb_pd t)) 1)\<rparr>, ad))"
  by (simp add: Let_def less_skip_def)

lemma traverse_step:
  "traverse q (t # u # ts) tv ad =
     (if slot_passes q t (tv_idx tv) then
        (case traverse q (u # ts) (tv\<lparr>tv_idx := dec_idx (tv_idx tv) (pd_delta t) (tb_num_slots t)\<rparr>) ad of
           (rc, ts', tv', ad') \<Rightarrow>
             if rc < 0 then (rc, t # ts', tv', ad')
             else if validate_only tv
             then (0, t # ts', tv'\<lparr>tv_result := tv_result tv' OR push_bit (nat (tb_pd t)) 1\<rparr>, ad')
             else (0, less_skip t # ts', tv'\<lparr>tv_result := tv_result tv' OR push_bit (nat (tb_pd t)) 1\<rparr>,
               ad'(tb_pd t := (ad' (tb_pd t))\<lparr>ad_pd := tb_pd t, ad_idx := tv_idx tv,
                  ad_req_id := (if 0 < skip_traverse t then - 1 else sl_req_id (q_slot q (tv_idx tv)))\<rparr>)))
      else (- CRM_EAGAIN, t # u # ts,
         tv\<lparr>tv_req_id := sl_req_id (q_slot q (tv_idx tv)), tv_pd := word_of_int (tb_pd t),
            tv_masked_value := dev_mask t AND req_ready_map (tb_slot t (tv_idx tv)),
            tv_result := tv_result tv AND NOT (push_bit (nat (tb_pd t)) 1)\<rparr>, ad))"
  unfolding traverse.simps(2) [of q t "u # ts"]
  by (simp add: Let_def less_skip_def split: prod.split)

declare traverse.simps [simp del]

lemma plan_top: "0 \<le> i \<Longrightarrow> i < MAX_REQ_SLOTS \<Longrightarrow> plan q i (tb_pd t) t a =
  a\<lparr>ad_pd := tb_pd t, ad_idx := i, ad_req_id := (if 0 < skip_traverse t then - 1 else sl_req_id (q_slot q i))\<rparr>"
  by (simp add: plan_def slot_of_top)

definition traverse_ok :: "cam_req_mgr_req_queue \<Rightarrow> cam_req_mgr_req_tbl list \<Rightarrow> cam_req_mgr_traverse \<Rightarrow>
  (int \<Rightarrow> cam_req_mgr_apply) \<Rightarrow> bool" where
  "traverse_ok q ts tv ad \<longleftrightarrow>
     (let i = tv_idx tv; mx = top_pd ts; (rc, ts', tv', ad') = traverse q ts tv ad in
      if all_pass q ts i mx then
        rc = 0 \<and> tv_result tv' = pds_mask ts OR tv_result tv \<and>
        ts' = (if validate_only tv then ts else map less_skip ts) \<and>
        ad' = (if validate_only tv then ad else planned q ts i mx ad)
      else rc = - CRM_EAGAIN \<and> ts' = ts \<and> ad' = ad)"

lemma all_pass_Cons:
  assumes "tbls_wf (t # u # ts)" "0 \<le> i" "i < MAX_REQ_SLOTS"
  shows "all_pass q (t # u # ts) i (tb_pd t) \<longleftrightarrow>
    slot_passes q t i \<and> all_pass q (u # ts) (dec_idx i (pd_delta t) (tb_num_slots t)) (tb_pd u)"
proof -
  have d: "dec_idx i (pd_delta t) (tb_num_slots t) = (i - (tb_pd t - tb_pd u)) mod MAX_REQ_SLOTS"
    using assms by (auto simp: pdt_ok_def dec_idx_mod dest: tbls_wf_hd)
  have "slot_of (dec_idx i (pd_delta t) (tb_num_slots t)) (tb_pd u) w = slot_of i (tb_pd t) w" for w
    unfolding d by (rule slot_of_shift)
  then show ?thesis using assms(2,3) by (simp add: all_pass_def slot_of_top)
qed

lemma planned_shift:
  assumes "tbls_wf (t # u # ts)" "0 \<le> i" "i < MAX_REQ_SLOTS"
  shows "planned q (u # ts) (dec_idx i (pd_delta t) (tb_num_slots t)) (tb_pd u) ad = planned q (u # ts) i (tb_pd t) ad"
proof
  fix pd
  have d: "dec_idx i (pd_delta t) (tb_num_slots t) = (i - (tb_pd t - tb_pd u)) mod MAX_REQ_SLOTS"
    using assms by (auto simp: pdt_ok_def dec_idx_mod dest: tbls_wf_hd)
  have "slot_of (dec_idx i (pd_delta t) (tb_num_slots t)) (tb_pd u) w = slot_of i (tb_pd t) w" for w
    unfolding d by (rule slot_of_shift)
  then show "planned q (u # ts) (dec_idx i (pd_delta t) (tb_num_slots t)) (tb_pd u) ad pd = planned q (u # ts) i (tb_pd t) ad pd"
    by (simp add: planned_def plan_def split: option.split)
qed

lemma traverse_spec:
  "ts \<noteq> [] \<Longrightarrow> tbls_wf ts \<Longrightarrow> 0 \<le> tv_idx tv \<Longrightarrow> tv_idx tv < MAX_REQ_SLOTS \<Longrightarrow> traverse_ok q ts tv ad"
proof (induction ts arbitrary: tv ad rule: tbls_wf.induct)
  case (2 t tv ad)
  have "planned q [t] (tv_idx tv) (tb_pd t) ad = ad(tb_pd t := plan q (tv_idx tv) (tb_pd t) t (ad (tb_pd t)))"
    by (auto simp: planned_def find_pd_tbl_def)
  moreover have "all_pass q [t] (tv_idx tv) (tb_pd t) = slot_passes q t (tv_idx tv)"
    using 2 by (simp add: all_pass_def slot_of_top)
  moreover have "plan q (tv_idx tv) (tb_pd t) t (ad (tb_pd t)) = (ad (tb_pd t))\<lparr>ad_pd := tb_pd t, ad_idx := tv_idx tv,
      ad_req_id := (if 0 < skip_traverse t then - 1 else sl_req_id (q_slot q (tv_idx tv)))\<rparr>"
    using 2 by (intro plan_top) auto
  ultimately show ?case
    unfolding traverse_ok_def Let_def
    by (simp add: traverse_single top_pd_def pds_mask_def or.commute del: traverse.simps)
next
  case (3 t u ts tv ad)
  let ?i = "tv_idx tv" and ?j = "dec_idx (tv_idx tv) (pd_delta t) (tb_num_slots t)"
  have j: "0 \<le> ?j" "?j < MAX_REQ_SLOTS"
    using 3 by (auto simp: pdt_ok_def dec_idx_mod dest!: tbls_wf_hd)
  obtain rc ts' tv' ad' where tr: "traverse q (u # ts) (tv\<lparr>tv_idx := ?j\<rparr>) ad = (rc, ts', tv', ad')"
    by (metis prod_cases4)
  from 3 j have IH: "traverse_ok q (u # ts) (tv\<lparr>tv_idx := ?j\<rparr>) ad"
    by (intro 3) auto
  have ap: "all_pass q (t # u # ts) ?i (tb_pd t) \<longleftrightarrow> slot_passes q t ?i \<and> all_pass q (u # ts) ?j (tb_pd u)"
    using 3 by (intro all_pass_Cons) auto
  show ?case
  proof (cases "slot_passes q t ?i")
    case False
    then show ?thesis using ap by (simp add: traverse_ok_def top_pd_def Let_def traverse_step)
  next
    case pass: True
    show ?thesis
    proof (cases "all_pass q (u # ts) ?j (tb_pd u)")
      case False
      with IH tr have "rc = - CRM_EAGAIN" "ts' = u # ts" "ad' = ad"
        by (simp_all add: traverse_ok_def top_pd_def)
      with tr pass False ap show ?thesis by (simp add: traverse_ok_def top_pd_def Let_def traverse_step)
    next
      case True
      with IH tr have r: "rc = 0" "tv_result tv' = pds_mask (u # ts) OR tv_result tv"
          "ts' = (if validate_only tv then u # ts else map less_skip (u # ts))"
          "ad' = (if validate_only tv then ad else planned q (u # ts) ?j (tb_pd u) ad)"
        by (simp_all add: traverse_ok_def top_pd_def)
      have "planned q (u # ts) ?j (tb_pd u) ad = planned q (u # ts) ?i (tb_pd t) ad"
        using 3 by (intro planned_shift) auto
      with planned_tail [OF 3(3), of q ?i "tb_pd t" ad] 3(4,5)
      have pl: "(planned q (u # ts) ?j (tb_pd u) ad)(tb_pd t :=
           (planned q (u # ts) ?j (tb_pd u) ad (tb_pd t))\<lparr>ad_pd := tb_pd t, ad_idx := ?i,
             ad_req_id := (if 0 < skip_traverse t then - 1 else sl_req_id (q_slot q ?i))\<rparr>) =
           planned q (t # u # ts) ?i (tb_pd t) ad"
        by (simp add: plan_top)
      show ?thesis
        using tr pass True ap r pl
        by (simp add: traverse_ok_def top_pd_def Let_def pds_mask_def traverse_step ac_simps)
    qed
  qed
qed simp

end
