(* ===== verification/Cam_Crm_Inv.thy ===== *)
theory Cam_Crm_Inv
  imports Cam_Crm_Ready
begin

section \<open>Well-formed links\<close>

text \<open>
  The invariant of a link: either it has no tables and no devices, or its queue, its tables and its devices fit
  together. This theory defines it and shows that the handlers of the work queue keep it.
\<close>

definition queue_idx :: "cam_req_mgr_req_queue \<Rightarrow> bool" where
  "queue_idx q \<longleftrightarrow> (\<forall>i. 0 \<le> sl_idx (q_slot q i) \<and> sl_idx (q_slot q i) < MAX_REQ_SLOTS)"

definition queue_ok :: "cam_req_mgr_req_queue \<Rightarrow> bool" where
  "queue_ok q \<longleftrightarrow> queue_idx q \<and> q_num_slots q = MAX_REQ_SLOTS \<and> 0 \<le> rd_idx q \<and> rd_idx q < MAX_REQ_SLOTS \<and>
     0 \<le> wr_idx q \<and> wr_idx q < MAX_REQ_SLOTS \<and>
     (\<forall>i. 0 \<le> i \<longrightarrow> i < MAX_REQ_SLOTS \<longrightarrow> sl_idx (q_slot q i) = i)"

text \<open>A slot is ready only when every device of the table has announced the request.\<close>

definition slots_ok :: "cam_req_mgr_req_tbl \<Rightarrow> bool" where
  "slots_ok t \<longleftrightarrow> (\<forall>i. ts_state (tb_slot t i) = CRM_REQ_STATE_READY \<longrightarrow> req_ready_map (tb_slot t i) = dev_mask t)"

definition dev_ok :: "cam_req_mgr_req_tbl list \<Rightarrow> cam_req_mgr_connected_device \<Rightarrow> bool" where
  "dev_ok ts d \<longleftrightarrow> pd_tbl d = Some (p_delay (dev_info d)) \<and>
     (\<exists>t. find_pd_tbl ts (p_delay (dev_info d)) = Some t \<and> bit (dev_mask t) (dev_bit d))"

text \<open>Every device has a bit of its own, and the mask of a table has no other bits.\<close>

definition devs_ok :: "cam_req_mgr_req_tbl list \<Rightarrow> cam_req_mgr_connected_device list \<Rightarrow> bool" where
  "devs_ok ts ds \<longleftrightarrow> (\<forall>d \<in> set ds. dev_ok ts d) \<and> distinct (map (\<lambda>d. (pd_tbl d, dev_bit d)) ds) \<and>
     (\<forall>t \<in> set ts. \<forall>n. bit (dev_mask t) n \<longrightarrow> (\<exists>d \<in> set ds. pd_tbl d = Some (tb_pd t) \<and> dev_bit d = n))"

definition idx_ok :: "(int \<Rightarrow> cam_req_mgr_apply) \<Rightarrow> bool" where
  "idx_ok ad \<longleftrightarrow> (\<forall>pd. 0 \<le> pd \<longrightarrow> pd < CAM_PIPELINE_DELAY_MAX \<longrightarrow> 0 \<le> ad_idx (ad pd) \<and> ad_idx (ad pd) < MAX_REQ_SLOTS)"

definition link_bare :: "cam_req_mgr_core_link \<Rightarrow> bool" where
  "link_bare l \<longleftrightarrow> l_tbl l = [] \<and> num_devs l = 0 \<and> pd_mask l = 0 \<and> (\<forall>q. in_q l = Some q \<longrightarrow> queue_idx q)"

definition link_wf :: "cam_req_mgr_core_link \<Rightarrow> bool" where
  "link_wf l \<longleftrightarrow> l_tbl l \<noteq> [] \<and> tbls_wf (l_tbl l) \<and> pd_mask l = pds_mask (l_tbl l) \<and> max_delay l = top_pd (l_tbl l) \<and>
     (\<forall>t \<in> set (l_tbl l). slots_ok t) \<and>
     num_devs l = int (length (l_dev l)) \<and> devs_ok (l_tbl l) (l_dev l) \<and>
     (\<exists>q. in_q l = Some q \<and> queue_ok q)"

definition link_inv :: "cam_req_mgr_core_link \<Rightarrow> bool" where
  "link_inv l \<longleftrightarrow> idx_ok (apply_data l) \<and> idx_ok (prev_apply_data l) \<and> (link_bare l \<or> link_wf l) \<and>
     (is_used l \<or> link_bare l)"

definition links_inv :: "links \<Rightarrow> bool" where
  "links_inv L \<longleftrightarrow> (\<forall>i. link_inv (L i))"

definition crm_inv :: "'x crm \<Rightarrow> bool" where
  "crm_inv s \<longleftrightarrow> links_inv (g_links s)"

lemmas link_inv_defs = link_inv_def link_bare_def link_wf_def

subsection \<open>Fields that do not matter\<close>

lemma link_inv_fields [simp]:
  "link_inv (l\<lparr>link_state := a1\<rparr>) = link_inv l" "link_inv (l\<lparr>watchdog := a2\<rparr>) = link_inv l"
  "link_inv (l\<lparr>link_workq := a3\<rparr>) = link_inv l" "link_inv (l\<lparr>task_data := a4\<rparr>) = link_inv l"
  "link_inv (l\<lparr>link_parent := a5\<rparr>) = link_inv l" "link_inv (l\<lparr>sync_link := a6\<rparr>) = link_inv l"
  "link_inv (l\<lparr>num_sync_links := a7\<rparr>) = link_inv l" "link_inv (l\<lparr>sync_link_sof_skip := a8\<rparr>) = link_inv l"
  "link_inv (l\<lparr>open_req_cnt := a9\<rparr>) = link_inv l" "link_inv (l\<lparr>last_flush_id := b1\<rparr>) = link_inv l"
  "link_inv (l\<lparr>is_master := b3\<rparr>) = link_inv l"
  "link_inv (l\<lparr>initial_skip := b4\<rparr>) = link_inv l" "link_inv (l\<lparr>in_msync_mode := b5\<rparr>) = link_inv l"
  "link_inv (l\<lparr>initial_sync_req := b6\<rparr>) = link_inv l" "link_inv (l\<lparr>retry_cnt := b7\<rparr>) = link_inv l"
  "link_inv (l\<lparr>is_shutdown := b8\<rparr>) = link_inv l" "link_inv (l\<lparr>sof_timestamp := b9\<rparr>) = link_inv l"
  "link_inv (l\<lparr>prev_sof_timestamp := c1\<rparr>) = link_inv l" "link_inv (l\<lparr>dual_trigger := c2\<rparr>) = link_inv l"
  "link_inv (l\<lparr>trigger_cnt := c3\<rparr>) = link_inv l" "link_inv (l\<lparr>eof_event_cnt := c4\<rparr>) = link_inv l"
  "link_inv (l\<lparr>skip_init_frame := c5\<rparr>) = link_inv l" "link_inv (l\<lparr>last_sof_trigger_jiffies := c6\<rparr>) = link_inv l"
  "link_inv (l\<lparr>wq_congestion := c7\<rparr>) = link_inv l" "link_inv (l\<lparr>try_for_internal_recovery := c8\<rparr>) = link_inv l"
  "link_inv (l\<lparr>properties_mask := c9\<rparr>) = link_inv l" "link_inv (l\<lparr>workq_comp := d1\<rparr>) = link_inv l"
  "link_inv (l\<lparr>link_hdl := d2\<rparr>) = link_inv l" "link_inv (l\<lparr>min_delay := d3\<rparr>) = link_inv l"
  "link_inv (l\<lparr>num_tbl := d4\<rparr>) = link_inv l"
  by (simp_all add: link_inv_defs)

subsection \<open>Changes of the tables\<close>

definition tbl_step :: "cam_req_mgr_req_tbl \<Rightarrow> cam_req_mgr_req_tbl \<Rightarrow> bool" where
  "tbl_step t t' \<longleftrightarrow> tb_pd t' = tb_pd t \<and> pd_delta t' = pd_delta t \<and> tb_num_slots t' = tb_num_slots t \<and>
     dev_mask t' = dev_mask t \<and> (slots_ok t \<longrightarrow> slots_ok t')"

abbreviation tbls_step :: "cam_req_mgr_req_tbl list \<Rightarrow> cam_req_mgr_req_tbl list \<Rightarrow> bool" where
  "tbls_step \<equiv> list_all2 tbl_step"

lemma tbl_step_refl [simp]: "tbl_step t t"
  by (simp add: tbl_step_def)

lemma tbl_step_trans: "tbl_step a b \<Longrightarrow> tbl_step b c \<Longrightarrow> tbl_step a c"
  by (simp add: tbl_step_def)

lemma tbls_step_refl [simp]: "tbls_step ts ts"
  by (simp add: list_all2_refl)

lemma tbls_step_trans: "tbls_step a b \<Longrightarrow> tbls_step b c \<Longrightarrow> tbls_step a c"
  by (rule list_all2_trans [OF tbl_step_trans])

lemma tbls_step_map: "(\<And>t. t \<in> set ts \<Longrightarrow> tbl_step t (g t)) \<Longrightarrow> tbls_step ts (map g ts)"
  by (simp add: list_all2_map2 list_all2_same)

lemma tbls_step_wf: "tbls_step ts ts' \<Longrightarrow> tbls_wf ts' = tbls_wf ts"
proof (induction ts ts' rule: list_all2_induct)
  case (Cons t ts t' ts')
  then show ?case by (cases ts; cases ts') (auto simp: tbl_step_def pdt_ok_def)
qed simp

lemma tbls_step_mask: "tbls_step ts ts' \<Longrightarrow> pds_mask ts' = pds_mask ts"
  by (induction ts ts' rule: list_all2_induct) (auto simp: tbl_step_def pds_mask_def)

lemma tbls_step_nil: "tbls_step ts ts' \<Longrightarrow> (ts' = []) = (ts = [])"
  by (cases ts; cases ts') auto

lemma tbls_step_max: "tbls_step ts ts' \<Longrightarrow> top_pd ts' = top_pd ts"
  by (cases ts; cases ts') (auto simp: tbl_step_def top_pd_def)

lemma tbls_step_find:
  "tbls_step ts ts' \<Longrightarrow> find_pd_tbl ts p = Some t \<Longrightarrow> \<exists>t'. find_pd_tbl ts' p = Some t' \<and> tbl_step t t'"
  by (induction ts ts' rule: list_all2_induct) (auto simp: find_pd_tbl_Cons tbl_step_def split: if_splits)

lemma tbls_step_dev: "tbls_step ts ts' \<Longrightarrow> dev_ok ts d \<Longrightarrow> dev_ok ts' d"
  by (fastforce simp: dev_ok_def tbl_step_def dest: tbls_step_find)

lemma tbls_step_slots: "tbls_step ts ts' \<Longrightarrow> \<forall>t \<in> set ts. slots_ok t \<Longrightarrow> \<forall>t \<in> set ts'. slots_ok t"
  by (induction ts ts' rule: list_all2_induct) (auto simp: tbl_step_def)

lemma tbls_step_mem: "tbls_step ts ts' \<Longrightarrow> u \<in> set ts' \<Longrightarrow> \<exists>t \<in> set ts. tbl_step t u"
  by (induction ts ts' rule: list_all2_induct) auto

lemma tbls_step_devs: "devs_ok ts' ds" if st: "tbls_step ts ts'" and ok: "devs_ok ts ds"
proof -
  have "\<exists>d \<in> set ds. pd_tbl d = Some (tb_pd u) \<and> dev_bit d = n" if "u \<in> set ts'" "bit (dev_mask u) n" for u n
    using tbls_step_mem [OF st that(1)] that(2) ok by (auto simp: devs_ok_def tbl_step_def)
  with ok tbls_step_dev [OF st] show ?thesis by (auto simp: devs_ok_def)
qed

lemma link_inv_tbl: "link_inv l \<Longrightarrow> tbls_step (l_tbl l) ts \<Longrightarrow> link_inv (l\<lparr>l_tbl := ts\<rparr>)"
  using tbls_step_devs [of "l_tbl l" ts "l_dev l"] tbls_step_slots [of "l_tbl l" ts]
  by (auto simp: link_inv_defs tbls_step_wf tbls_step_mask tbls_step_max tbls_step_nil)

lemma upd_tbl_slot_step:
  "(\<And>s. ts_state (f s) = CRM_REQ_STATE_READY \<Longrightarrow>
     ts_state s = CRM_REQ_STATE_READY \<and> req_ready_map (f s) = req_ready_map s) \<Longrightarrow> tbl_step t (upd_tbl_slot i f t)"
  by (auto simp: tbl_step_def upd_tbl_slot_def slots_ok_def)

lemma upd_pd_slot_step:
  "(\<And>s. ts_state (f s) = CRM_REQ_STATE_READY \<Longrightarrow>
     ts_state s = CRM_REQ_STATE_READY \<and> req_ready_map (f s) = req_ready_map s) \<Longrightarrow> tbls_step ts (upd_pd_slot p i f ts)"
  unfolding upd_pd_slot_def by (rule tbls_step_map) (simp add: upd_tbl_slot_step)

lemma inject_delay_step: "tbls_step ts (snd (inject_delay ts cur trigger))"
proof (induction ts arbitrary: cur)
  case (Cons t ts)
  have "tbls_step ts (snd (inject_delay ts (dec_idx cur (pd_delta t) (tb_num_slots t)) trigger))"
    by (rule Cons.IH)
  then show ?case by (auto simp: Let_def case_prod_beta intro: upd_tbl_slot_step)
qed simp

lemma less_skip_step: "tbls_step ts (map less_skip ts)"
  by (rule tbls_step_map) (simp add: less_skip_def tbl_step_def slots_ok_def)

lemma set_all_skip_step: "tbls_step ts (tbl_set_all_skip_cnt ts)"
proof (cases ts)
  case (Cons t us)
  have "tbls_step ts (map (\<lambda>u. u\<lparr>skip_traverse := tb_pd t - tb_pd u\<rparr>) ts)"
    by (rule tbls_step_map) (simp add: tbl_step_def slots_ok_def)
  with Cons show ?thesis by (simp add: tbl_set_all_skip_cnt_def)
qed (simp add: tbl_set_all_skip_cnt_def)

subsection \<open>Changes of the queue\<close>

definition q_step :: "cam_req_mgr_req_queue \<Rightarrow> cam_req_mgr_req_queue \<Rightarrow> bool" where
  "q_step q q' \<longleftrightarrow> (queue_ok q \<longrightarrow> queue_ok q') \<and> (queue_idx q \<longrightarrow> queue_idx q')"

lemma q_step_refl [simp]: "q_step q q"
  by (simp add: q_step_def)

lemma q_step_trans: "q_step a b \<Longrightarrow> q_step b c \<Longrightarrow> q_step a c"
  by (simp add: q_step_def)

lemma queue_idx_fields [simp]: "queue_idx (q\<lparr>rd_idx := r\<rparr>) = queue_idx q" "queue_idx (q\<lparr>wr_idx := r\<rparr>) = queue_idx q"
  "queue_idx (q\<lparr>last_applied_idx := r\<rparr>) = queue_idx q" "queue_idx (q\<lparr>q_num_slots := r\<rparr>) = queue_idx q"
  by (simp_all add: queue_idx_def)

lemma link_inv_q: "link_inv l \<Longrightarrow> in_q l = Some q \<Longrightarrow> q_step q q' \<Longrightarrow> link_inv (l\<lparr>in_q := Some q'\<rparr>)"
  by (auto simp: link_inv_defs q_step_def)

lemma link_inv_map_q: "link_inv l \<Longrightarrow> (\<And>q. q_step q (f q)) \<Longrightarrow> link_inv (l\<lparr>in_q := map_option f (in_q l)\<rparr>)"
proof (cases "in_q l")
  case None
  then have "l\<lparr>in_q := map_option f (in_q l)\<rparr> = l" by simp
  then show "link_inv l \<Longrightarrow> link_inv (l\<lparr>in_q := map_option f (in_q l)\<rparr>)" by simp
qed (auto intro: link_inv_q)

lemma upd_slot_step: "(\<And>s. sl_idx (f s) = sl_idx s) \<Longrightarrow> q_step q (upd_slot i f q)"
  by (auto simp: q_step_def queue_ok_def queue_idx_def upd_slot_def)

lemma queue_ok_rd: "queue_ok q \<Longrightarrow> 0 \<le> rd_idx q \<and> rd_idx q < MAX_REQ_SLOTS"
  by (simp add: queue_ok_def)

lemma inc_idx_range: "0 < n \<Longrightarrow> 0 \<le> inc_idx v k n \<and> inc_idx v k n < n"
  by (simp add: inc_idx_def)

lemma find_slot_loop_range:
  "0 \<le> idx \<Longrightarrow> idx < q_num_slots q \<Longrightarrow>
   find_slot_loop k idx q req = - 1 \<or> 0 \<le> find_slot_loop k idx q req \<and> find_slot_loop k idx q req < q_num_slots q"
proof (induction k arbitrary: idx)
  case (Suc k)
  have "0 \<le> dec_idx idx 1 (q_num_slots q) \<and> dec_idx idx 1 (q_num_slots q) < q_num_slots q"
    using Suc.prems by (simp add: dec_idx_def)
  with Suc show ?case by auto
qed simp

lemma find_slot_range: "queue_ok q \<Longrightarrow>
  find_slot_for_req q req = - 1 \<or> 0 \<le> find_slot_for_req q req \<and> find_slot_for_req q req < MAX_REQ_SLOTS"
  using find_slot_loop_range [of "rd_idx q" q] by (simp add: find_slot_for_req_def queue_ok_def)

subsection \<open>Operations of one link\<close>

lemma set_is_applied_keeps [simp]:
  "ts_state (set_is_applied b s) = ts_state s" "req_ready_map (set_is_applied b s) = req_ready_map s"
  by (simp_all add: set_is_applied_def)

lemma frame_skip_loop_step:
  "frame_skip_loop kmd lhdl ad trigger ds ts e = Some (ts', e') \<Longrightarrow> tbls_step ts ts'"
proof (induction ds arbitrary: ts e)
  case (Cons d ds)
  have "tbls_step ts (upd_pd_slot (pd_tbl d) i (set_is_applied False) ts)" for i
    by (rule upd_pd_slot_step) simp
  with Cons show ?case
    by (auto simp: Let_def bind_eq_Some_conv split: if_split_asm intro: tbls_step_trans)
qed simp

lemma notify_frame_skip_inv: "notify_frame_skip kmd trigger l e = Some (l', e') \<Longrightarrow> link_inv l \<Longrightarrow> link_inv l'"
  by (auto simp: notify_frame_skip_def bind_eq_Some_conv intro: link_inv_tbl frame_skip_loop_step)

lemma send_evt_inv: "link_inv (fst (send_evt kmd r ty err l e)) = link_inv l"
  by (simp add: send_evt_def split: prod.split)

lemma notify_error_inv: "link_inv l \<Longrightarrow> link_inv (fst (snd (notify_error_on_link kmd ses d l e)))"
  by (auto simp: notify_error_on_link_def Let_def case_prod_beta send_evt_inv split: option.split)

lemma idx_ok_reset: "idx_ok (\<lambda>pd. if 0 \<le> pd \<and> pd < 3 then (ad pd)\<lparr>ad_req_id := - 1\<rparr> else ad pd) = idx_ok ad"
  by (simp add: idx_ok_def)

lemma reset_apply_inv: "link_inv (reset_apply_data l) = link_inv l"
  by (simp add: link_inv_defs reset_apply_data_def idx_ok_reset)

lemma clear_trigger_inv [simp]: "link_inv (clear_trigger_cnt l) = link_inv l"
  by (simp add: clear_trigger_cnt_def)

lemma core_link_reset_inv: "link_inv l \<Longrightarrow> link_inv (cam_req_mgr_core_link_reset l)"
  by (simp add: cam_req_mgr_core_link_reset_def reset_apply_inv) (simp add: link_inv_defs)

lemma idx_ok_zero: "idx_ok ad \<Longrightarrow> idx_ok (\<lambda>pd. if 0 \<le> pd \<and> pd < 3 then zero_apply else ad pd)"
  by (simp add: idx_ok_def zero_apply_def)

lemma idx_ok_planned: "idx_ok ad \<Longrightarrow> idx_ok (planned q ts i mx ad)"
  by (auto simp: idx_ok_def planned_def plan_def split: option.split)

lemma check_ready_inv:
  assumes "check_link_is_ready idx vo l = Some (rc, l')" "link_inv l" "0 \<le> idx" "idx < MAX_REQ_SLOTS"
  shows "link_inv l'"
proof -
  let ?ad = "if vo then apply_data l else (\<lambda>pd. if 0 \<le> pd \<and> pd < 3 then zero_apply else apply_data l pd)"
  have ad: "idx_ok ?ad" "idx_ok (prev_apply_data l)"
    using assms(2) idx_ok_zero [of "apply_data l"] by (auto simp: link_inv_def)
  show ?thesis
  proof (cases "l_tbl l = []")
    case True
    with assms ad show ?thesis by (auto simp: check_link_is_ready_def link_inv_defs)
  next
    case False
    with assms(2) have wf: "tbls_wf (l_tbl l)" by (simp add: link_inv_defs)
    from False assms(1) obtain q where q: "in_q l = Some q"
      by (auto simp: check_link_is_ready_def bind_eq_Some_conv Let_def)
    obtain rc' ts tv ad' where tr: "traverse q (l_tbl l) (new_traverse idx vo l) ?ad = (rc', ts, tv, ad')"
      by (rule prod_cases4)
    with False assms(1) q have l': "l' = l\<lparr>initial_skip := False, l_tbl := ts, apply_data := ad'\<rparr>"
      by (simp add: check_link_is_ready_def Let_def)
    have "traverse_ok q (l_tbl l) (new_traverse idx vo l) ?ad"
      using False wf assms by (intro traverse_spec) (auto simp: new_traverse_def)
    with tr have ts: "ts = l_tbl l \<or> ts = map less_skip (l_tbl l)"
      and "ad' = ?ad \<or> ad' = planned q (l_tbl l) idx (top_pd (l_tbl l)) ?ad"
      by (auto simp: traverse_ok_def Let_def new_traverse_def split: if_split_asm)
    with ad have "idx_ok ad'" by (auto intro: idx_ok_planned)
    moreover have "link_inv (l\<lparr>l_tbl := ts\<rparr>)"
      using ts assms(2) by (auto intro: link_inv_tbl less_skip_step)
    ultimately show ?thesis unfolding l' by (simp add: link_inv_defs)
  qed
qed

lemma traverse_validate:
  "validate_only tv \<Longrightarrow> traverse q ts tv ad = (rc, ts', tv', ad') \<Longrightarrow> ts' = ts \<and> ad' = ad"
proof (induction ts arbitrary: tv rc ts' tv' ad')
  case (Cons t us)
  then show ?case
  proof (cases us)
    case Nil
    with Cons.prems show ?thesis by (auto simp: traverse_single split: if_split_asm)
  next
    case (Cons u vs)
    let ?tv = "tv\<lparr>tv_idx := dec_idx (tv_idx tv) (pd_delta t) (tb_num_slots t)\<rparr>"
    obtain r2 ts2 tv2 ad2 where tr: "traverse q us ?tv ad = (r2, ts2, tv2, ad2)"
      by (rule prod_cases4)
    with Cons.IH [of ?tv] Cons.prems(1) have "ts2 = us \<and> ad2 = ad" by simp
    with Cons.prems tr Cons show ?thesis by (auto simp: traverse_step split: if_split_asm)
  qed
qed (simp add: traverse.simps)

lemma validate_ready:
  "check_link_is_ready idx True l = Some (rc, l') \<Longrightarrow> l' = l\<lparr>initial_skip := False\<rparr>"
proof (cases "l_tbl l = []")
  case False
  assume c: "check_link_is_ready idx True l = Some (rc, l')"
  with False obtain q where q: "in_q l = Some q"
    by (auto simp: check_link_is_ready_def bind_eq_Some_conv Let_def)
  obtain rc' ts tv ad' where tr: "traverse q (l_tbl l) (new_traverse idx True l) (apply_data l) = (rc', ts, tv, ad')"
    by (rule prod_cases4)
  with traverse_validate [OF _ tr] have "ts = l_tbl l" "ad' = apply_data l" by (simp_all add: new_traverse_def)
  with False c q tr show ?thesis by (auto simp: check_link_is_ready_def Let_def)
qed (auto simp: check_link_is_ready_def)

lemma reset_tbl_slot_step: "tbls_step ts (map (upd_tbl_slot i reset_tbl_slot) ts)"
  by (rule tbls_step_map, rule upd_tbl_slot_step) (simp add: reset_tbl_slot_def)

lemma reset_req_slot_inv:
  assumes "link_inv l" "in_q l = Some q0" "q_step q0 q"
  shows "link_inv (snd (reset_req_slot idx q l))"
proof -
  have "sl_idx (reset_slot s) = sl_idx s" for s by (simp add: reset_slot_def clear_sync_hdls_def)
  then have "q_step q0 (upd_slot idx reset_slot q)" by (intro q_step_trans [OF assms(3)] upd_slot_step)
  then have "link_inv (l\<lparr>in_q := Some (upd_slot idx reset_slot q)\<rparr>)" using assms by (blast intro: link_inv_q)
  from link_inv_tbl [OF this] have "link_inv (l\<lparr>in_q := Some (upd_slot idx reset_slot q),
      l_tbl := map (upd_tbl_slot idx reset_tbl_slot) (l_tbl l)\<rparr>)" by (simp add: reset_tbl_slot_step)
  then show ?thesis
    using assms by (auto simp: reset_req_slot_def Let_def intro: link_inv_q)
qed

lemma special_loop_step:
  "special_loop kmd trigger l ds ar ts e = Some (out, ar', ts', e') \<Longrightarrow> tbls_step ts ts'"
proof (induction ds arbitrary: ar ts e)
  case (Cons d ds)
  then show ?case
    by (auto simp: Let_def bind_eq_Some_conv split: if_split_asm prod.split_asm intro: upd_pd_slot_step)
qed simp

lemma regular_loop_step:
  "regular_loop kmd trigger l q vis ds rc ar ts mp e = Some (rc', vis', ar', ts', mp', e') \<Longrightarrow> tbls_step ts ts'"
proof (induction ds arbitrary: vis rc ar ts mp e)
  case (Cons d ds)
  have tr: "tbls_step ts (upd_pd_slot (pd_tbl d) i (set_is_applied False) ts)" for i
    by (rule upd_pd_slot_step) simp
  from Cons.prems show ?case
    by (auto simp: Let_def bind_eq_Some_conv split: if_split_asm prod.split_asm
        dest!: Cons.IH intro: tbls_step_trans [OF tr])
qed simp

lemma send_req_cases:
  assumes "send_req kmd rec trigger q l e = Some (rc, dev, l', e')"
  obtains (stopped) ts e1 e2 l1 where
      "tbls_step (l_tbl l) ts" "l1 = l\<lparr>l_tbl := ts\<rparr>" "notify_frame_skip kmd trigger l1 e1 = Some (l', e2)"
    | (returned) ts n where "tbls_step (l_tbl l) ts" "l' = l\<lparr>l_tbl := ts, eof_event_cnt := n\<rparr>"
    | (sent) ts n where "tbls_step (l_tbl l) ts"
        "l' = l\<lparr>l_tbl := ts, prev_apply_data := (\<lambda>pd. if 0 \<le> pd \<and> pd < CAM_PIPELINE_DELAY_MAX
            then apply_data l pd else prev_apply_data l pd), open_req_cnt := n\<rparr>"
proof -
  obtain out ar ts1 e1 where sp: "special_loop kmd trigger l (link_devs l)
      \<lparr>ar_link_hdl = link_hdl l, ar_dev_hdl = 0, ar_request_id = 0, report_if_bubble = 0,
       ar_trigger_point = 0, re_apply = (0 < retry_cnt l \<and> rec)\<rparr> (l_tbl l) e = Some (out, ar, ts1, e1)"
    using assms by (auto simp: send_req_def bind_eq_Some_conv)
  note ts1 = special_loop_step [OF sp]
  show thesis
  proof (cases out)
    case (Send_failed r d)
    with assms sp obtain e2 where "notify_frame_skip kmd trigger (l\<lparr>l_tbl := ts1\<rparr>) e1 = Some (l', e2)"
      by (auto simp: send_req_def bind_eq_Some_conv)
    with ts1 show thesis by (rule stopped [OF _ refl])
  next
    case Send_returned
    with assms sp show thesis by (auto simp: send_req_def Let_def intro: returned [OF ts1])
  next
    case Send_go_on
    with assms sp obtain r vis ar2 ts2 mp e2 where
      rl: "regular_loop kmd trigger l q [] (link_devs l) 0 ar ts1 (- 1) e1 = Some (r, vis, ar2, ts2, mp, e2)"
      by (auto simp: send_req_def bind_eq_Some_conv)
    have ts2: "tbls_step (l_tbl l) ts2"
      using ts1 regular_loop_step [OF rl] by (rule tbls_step_trans)
    show thesis
    proof (cases "r < 0")
      case True
      with assms sp rl Send_go_on obtain e3 e4 where "notify_frame_skip kmd trigger (l\<lparr>l_tbl := ts2\<rparr>) e3 = Some (l', e4)"
        by (auto simp: send_req_def bind_eq_Some_conv Let_def)
      with ts2 show thesis by (rule stopped [OF _ refl])
    next
      case False
      with assms sp rl Send_go_on have "l' = l\<lparr>l_tbl := ts2,
          prev_apply_data := (\<lambda>pd. if 0 \<le> pd \<and> pd < CAM_PIPELINE_DELAY_MAX then apply_data l pd else prev_apply_data l pd),
          open_req_cnt := (if 0 < mp then open_req_cnt l - 1 else open_req_cnt l)\<rparr>"
        by (simp add: send_req_def Let_def cong: if_cong)
      with ts2 show thesis by (rule sent)
    qed
  qed
qed

lemma send_req_inv:
  assumes "send_req kmd rec trigger q l e = Some (rc, dev, l', e')" "link_inv l"
  shows "link_inv l'"
  using assms(1)
proof (cases rule: send_req_cases)
  case (stopped ts e1 e2 l1)
  then show ?thesis using assms(2) by (auto intro: notify_frame_skip_inv link_inv_tbl)
next
  case (returned ts n)
  then show ?thesis using assms(2) by (auto intro: link_inv_tbl)
next
  case (sent ts n)
  have "link_inv (l\<lparr>l_tbl := ts\<rparr>)" using sent(1) assms(2) by (rule link_inv_tbl [rotated])
  then show ?thesis unfolding sent(2) by (simp add: link_inv_defs) (simp add: idx_ok_def)
qed

end
