(* ===== verification/Cam_Crm_Keep.thy ===== *)
theory Cam_Crm_Keep
  imports Cam_Crm_Inv
begin

section \<open>The handlers keep links well-formed\<close>

text \<open>
  The invariant of \<open>Cam_Crm_Inv\<close> lifted to the array of links and to the state of the manager, and its
  preservation by the readiness checks and by every handler of the work queue.
\<close>

subsection \<open>Lifting to the array of links\<close>

lemma links_inv_fun_upd: "links_inv L \<Longrightarrow> link_inv l \<Longrightarrow> links_inv (L(i := l))"
  by (simp add: links_inv_def)

lemma links_inv_upd: "links_inv L \<Longrightarrow> (link_inv (L i) \<Longrightarrow> link_inv (f (L i))) \<Longrightarrow> links_inv (upd_link i f L)"
  by (simp add: links_inv_def upd_link_def)

lemma links_inv_at: "links_inv L \<Longrightarrow> link_inv (L i)"
  by (simp add: links_inv_def)

lemma crm_inv_at: "crm_inv s \<Longrightarrow> link_inv (the_link i s)"
  by (simp add: crm_inv_def links_inv_def the_link_def)

lemma crm_inv_links: "crm_inv s \<Longrightarrow> links_inv (g_links s)"
  by (simp add: crm_inv_def)

lemma crm_inv_map: "crm_inv s \<Longrightarrow> (link_inv (the_link i s) \<Longrightarrow> link_inv (f (the_link i s))) \<Longrightarrow> crm_inv (map_link i f s)"
  by (simp add: crm_inv_def map_link_def links_inv_upd the_link_def)

lemma crm_inv_put: "crm_inv s \<Longrightarrow> link_inv (fst le) \<Longrightarrow> crm_inv (put_link i le s)"
  by (simp add: crm_inv_def put_link_def links_inv_fun_upd)

lemma crm_inv_set: "links_inv L \<Longrightarrow> crm_inv (set_links L s)"
  by (simp add: crm_inv_def set_links_def)

lemma crm_inv_other [simp]: "crm_inv (s\<lparr>environ := e\<rparr>) = crm_inv s" "crm_inv (s\<lparr>crm_hdls := t\<rparr>) = crm_inv s"
  "crm_inv (s\<lparr>ses_heap := h\<rparr>) = crm_inv s" "crm_inv (s\<lparr>session_head := n\<rparr>) = crm_inv s"
  by (simp_all add: crm_inv_def)

lemma set_sof_skip_inv [simp]: "link_inv (set_sof_skip b l) = link_inv l"
  by (simp add: set_sof_skip_def)

lemma status_ok: "q_step q (upd_slot idx (\<lambda>s. s\<lparr>sl_status := st\<rparr>) q)"
  by (rule upd_slot_step) simp

lemma set_status_inv: "crm_inv s \<Longrightarrow> crm_inv (set_status i idx st s)"
  unfolding set_status_def by (rule crm_inv_map) (auto intro: link_inv_map_q status_ok)

lemma frame_skip_inv: "frame_skip kmd trigger i s = Some s' \<Longrightarrow> crm_inv s \<Longrightarrow> crm_inv s'"
proof -
  assume f: "frame_skip kmd trigger i s = Some s'" and inv: "crm_inv s"
  then obtain l e where n: "notify_frame_skip kmd trigger (the_link i s) (environ s) = Some (l, e)"
    and s': "s' = put_link i (l, e) s" by (auto simp: frame_skip_def bind_eq_Some_conv)
  show ?thesis unfolding s' using inv notify_frame_skip_inv [OF n crm_inv_at [OF inv]]
    by (intro crm_inv_put) simp_all
qed

lemma validate_timer_inv: "link_inv l \<Longrightarrow> link_inv (validate_crm_wd_timer now q l)"
  by (simp add: validate_crm_wd_timer_def Let_def split: option.split)

lemma wd_timer_inv: "wd_timer i s = Some s' \<Longrightarrow> crm_inv s \<Longrightarrow> crm_inv s'"
  by (auto simp: wd_timer_def bind_eq_Some_conv intro!: crm_inv_map validate_timer_inv)

subsection \<open>Readiness\<close>

lemma validate_link_inv: "validate_link i idx L = Some (rc, L') \<Longrightarrow> links_inv L \<Longrightarrow> links_inv L'"
  by (auto simp: validate_link_def bind_eq_Some_conv dest!: validate_ready intro!: links_inv_fun_upd intro: links_inv_at)

lemma mslave_peer_inv: "mslave_peer_ready i j req L = Some (rc, L') \<Longrightarrow> links_inv L \<Longrightarrow> links_inv L'"
  by (auto simp: mslave_peer_ready_def Let_def bind_eq_Some_conv split: if_split_asm prod.split_asm
      intro!: links_inv_upd dest: validate_link_inv)

lemma check_mslave_inv: "check_sync_for_mslave i p s L = Some (rc, L') \<Longrightarrow> links_inv L \<Longrightarrow> links_inv L'"
  by (auto simp: check_sync_for_mslave_def Let_def bind_eq_Some_conv split: if_split_asm prod.split_asm option.split_asm
      intro!: links_inv_upd elim!: mslave_peer_inv validate_link_inv)

lemma self_correction_inv: "self_correction i j s q idx trigger L = (rc, L') \<Longrightarrow> links_inv L \<Longrightarrow> links_inv L'"
  by (auto simp: self_correction_def Let_def split: if_split_asm intro!: links_inv_upd)

lemma check_sync_req_inv: "check_sync_req_is_ready i p s trigger L = Some (rc, L') \<Longrightarrow> links_inv L \<Longrightarrow> links_inv L'"
proof -
  assume c: "check_sync_req_is_ready i p s trigger L = Some (rc, L')" and inv: "links_inv L"
  have L0: "links_inv (upd_link i (\<lambda>l. l\<lparr>initial_skip := False\<rparr>) L)"
    using inv by (rule links_inv_upd) simp
  have sk: "links_inv (upd_link k (set_sof_skip b) M)" if "links_inv M" for k b M
    using that by (rule links_inv_upd) simp
  from c inv L0 show ?thesis
    by (auto simp: check_sync_req_is_ready_def Let_def bind_eq_Some_conv split: if_split_asm prod.split_asm option.split_asm
      intro: sk dest!: validate_link_inv dest: self_correction_inv)
qed

lemma multi_sync_loop_inv:
  "multi_sync_loop i js s trigger L = Some (rc, L') \<Longrightarrow> links_inv L \<Longrightarrow> links_inv L'"
proof (induction js arbitrary: L)
  case (Cons jo js)
  show ?case
  proof (cases jo)
    case (Some j)
    have m: "links_inv (upd_link j (\<lambda>l. l\<lparr>is_master := b\<rparr>) (upd_link i (\<lambda>l. l\<lparr>is_master := c\<rparr>) L))" for b c
      using Cons.prems(2) by (intro links_inv_upd) simp_all
    have ms: "links_inv M" if "check_sync_for_mslave i (Some j) s (upd_link j (\<lambda>l. l\<lparr>is_master := b\<rparr>)
        (upd_link i (\<lambda>l. l\<lparr>is_master := c\<rparr>) L)) = Some (r, M)" for b c r M
      using that m by (rule check_mslave_inv)
    from Cons.prems Some show ?thesis
      by (auto simp: Let_def bind_eq_Some_conv split: if_split_asm prod.split_asm
          dest!: Cons.IH dest: validate_link_inv check_sync_req_inv ms)
  qed (use Cons.prems in simp)
qed simp

text \<open>The slot lies in the queue of the link, so its index is one of the ring.\<close>

definition slot_in :: "cam_req_mgr_slot \<Rightarrow> bool" where
  "slot_in s \<longleftrightarrow> 0 \<le> sl_idx s \<and> sl_idx s < MAX_REQ_SLOTS"

lemma inject_tbl_inv: "links_inv L \<Longrightarrow> inject_delay (l_tbl (L i)) idx trigger = (rc, ts) \<Longrightarrow>
  links_inv (upd_link i (\<lambda>l. l\<lparr>l_tbl := ts\<rparr>) L)"
  using inject_delay_step [of "l_tbl (L i)" idx trigger] by (intro links_inv_upd link_inv_tbl) simp_all

lemma apply_ready_inv:
  assumes "check_link_is_ready (sl_idx s) False (L i) = Some (rc, l)" "links_inv L" "slot_in s"
  shows "links_inv (L(i := l))"
  using assms by (intro links_inv_fun_upd check_ready_inv [of "sl_idx s" False "L i" rc l])
    (auto simp: slot_in_def links_inv_def)

lemma check_multi_inv:
  assumes "check_multi_sync_link_ready i js s trigger L = Some (rc, L')" "links_inv L" "slot_in s"
  shows "links_inv L'"
proof (cases "link_state (L i) = CAM_CRM_LINK_STATE_IDLE")
  case True
  with assms show ?thesis by (simp add: check_multi_sync_link_ready_def)
next
  case False
  with assms(1) obtain r1 L1 where m: "multi_sync_loop i js s trigger L = Some (r1, L1)"
    by (auto simp: check_multi_sync_link_ready_def bind_eq_Some_conv)
  have L1: "links_inv L1" using m assms(2) by (rule multi_sync_loop_inv)
  obtain r2 ts where inj: "inject_delay (l_tbl (L1 i)) (sl_idx s) trigger = (r2, ts)" by fastforce
  let ?L2 = "upd_link i (\<lambda>l. l\<lparr>l_tbl := ts\<rparr>) L1"
  have L2: "links_inv ?L2" using L1 inj by (rule inject_tbl_inv)
  show ?thesis
  proof (cases "r1 \<noteq> 0 \<or> r2 < 0")
    case True
    with assms(1) False m inj L1 L2 show ?thesis
      by (auto simp: check_multi_sync_link_ready_def Let_def split: if_split_asm)
  next
    case ok: False
    with assms(1) False m inj obtain r3 l where
      "check_link_is_ready (sl_idx s) False (?L2 i) = Some (r3, l)" "L' = ?L2(i := l)"
      by (auto simp: check_multi_sync_link_ready_def Let_def bind_eq_Some_conv)
    with L2 assms(3) show ?thesis by (auto intro: apply_ready_inv)
  qed
qed

lemma check_own_inv:
  assumes "check_own_ready i s trigger L = Some (rc, L')" "links_inv L" "slot_in s"
  shows "links_inv L'"
proof -
  from assms(1) obtain r1 L1 where v: "validate_link i (sl_idx s) L = Some (r1, L1)"
    by (auto simp: check_own_ready_def bind_eq_Some_conv)
  have L1: "links_inv L1" using v assms(2) by (rule validate_link_inv)
  obtain r2 ts where inj: "inject_delay (l_tbl (L1 i)) (sl_idx s) trigger = (r2, ts)" by fastforce
  let ?L2 = "upd_link i (\<lambda>l. l\<lparr>l_tbl := ts\<rparr>) L1"
  have L2: "links_inv ?L2" using L1 inj by (rule inject_tbl_inv)
  show ?thesis
  proof (cases "r1 \<noteq> 0 \<or> r2 \<noteq> 0")
    case True
    with assms(1) v inj L1 L2 show ?thesis by (auto simp: check_own_ready_def Let_def split: if_split_asm)
  next
    case ok: False
    with assms(1) v inj obtain r3 l where
      "check_link_is_ready (sl_idx s) False (?L2 i) = Some (r3, l)" "L' = ?L2(i := l)"
      by (auto simp: check_own_ready_def Let_def bind_eq_Some_conv)
    with L2 assms(3) show ?thesis by (auto intro: apply_ready_inv)
  qed
qed

lemma leave_msync_inv: "links_inv L \<Longrightarrow> links_inv (leave_msync js L)"
proof (induction js arbitrary: L)
  case (Cons j js)
  have "links_inv (case j of None \<Rightarrow> L | Some k \<Rightarrow>
      upd_link k (\<lambda>l. l\<lparr>initial_sync_req := - 1, in_msync_mode := False\<rparr>) L)"
    using Cons.prems by (auto split: option.split intro!: links_inv_upd)
  from Cons.IH [OF this] show ?case by (simp add: leave_msync_def)
qed (simp add: leave_msync_def)

lemma slot_readiness_inv:
  assumes "slot_readiness i sl trigger s = Some (rc, s')" "crm_inv s" "slot_in sl"
  shows "crm_inv s'"
proof -
  have L: "links_inv (g_links s)" using assms(2) by (rule crm_inv_links)
  show ?thesis
  proof (cases "sl_sync_mode sl = CAM_REQ_MGR_SYNC_MODE_SYNC")
    case True
    with assms(1) obtain js L' where "check_multi_sync_link_ready i js sl trigger (g_links s) = Some (rc, L')"
      "s' = set_links L' s" by (auto simp: slot_readiness_def bind_eq_Some_conv)
    with check_multi_inv [OF _ L assms(3)] show ?thesis by (auto intro: crm_inv_set)
  next
    case False
    with assms(1) obtain L0 L' where L0: "L0 = g_links s \<or> (\<exists>js. L0 = leave_msync js (upd_link i
        (\<lambda>l. l\<lparr>in_msync_mode := False, initial_sync_req := - 1\<rparr>) (g_links s)))"
      and own: "check_own_ready i sl trigger L0 = Some (rc, L')" and s': "s' = set_links L' s"
      by (auto simp: slot_readiness_def Let_def bind_eq_Some_conv split: if_split_asm)
    have "links_inv (upd_link i (\<lambda>l. l\<lparr>in_msync_mode := False, initial_sync_req := - 1\<rparr>) (g_links s))"
      using L by (rule links_inv_upd) simp
    with L0 L have "links_inv L0" by (auto intro: leave_msync_inv)
    from check_own_inv [OF own this assms(3)] show ?thesis unfolding s' by (rule crm_inv_set)
  qed
qed

lemma crm_inv_q: "crm_inv s \<Longrightarrow> (\<And>q. q_step q (f q)) \<Longrightarrow> crm_inv (map_link i (\<lambda>l. l\<lparr>in_q := map_option f (in_q l)\<rparr>) s)"
  by (rule crm_inv_map) (auto intro: link_inv_map_q)

lemma upd_slot_of_inv: "crm_inv s \<Longrightarrow> (\<And>x. sl_idx (f x) = sl_idx x) \<Longrightarrow> crm_inv (upd_slot_of i idx f s)"
  unfolding upd_slot_of_def by (auto intro: crm_inv_q upd_slot_step)

lemma request_not_ready_inv:
  "request_not_ready kmd i idx trigger rc s = Some (r, s') \<Longrightarrow> crm_inv s \<Longrightarrow> crm_inv s'"
  by (auto simp: request_not_ready_def Let_def bind_eq_Some_conv intro!: set_status_inv
      elim!: wd_timer_inv frame_skip_inv)

subsection \<open>After sending\<close>

lemma max_retry_inv: "max_retry_reached kmd i idx d s = Some s' \<Longrightarrow> crm_inv s \<Longrightarrow> crm_inv s'"
proof -
  assume m: "max_retry_reached kmd i idx d s = Some s'" and inv: "crm_inv s"
  define s1 where "s1 = (if recovery_counter (q_slot (the (in_q (the_link i s))) idx) = 0
               then map_link i (\<lambda>l. l\<lparr>try_for_internal_recovery := True\<rparr>) s else s)"
  from m obtain ses where s': "s' = map_link i (\<lambda>l. l\<lparr>retry_cnt := 0\<rparr>)
      (let s2 = put_link i (snd (notify_error_on_link kmd ses d (the_link i s1) (environ s1))) s1 in
       if try_for_internal_recovery (the_link i s2)
       then map_link i (\<lambda>l. l\<lparr>try_for_internal_recovery := False\<rparr>)
              (upd_slot_of i idx (\<lambda>sl. sl\<lparr>recovery_counter := recovery_counter sl + 1\<rparr>) s2) else s2)"
    unfolding max_retry_reached_def s1_def
    by (cases "in_q (the_link i s)") (auto simp: Let_def bind_eq_Some_conv case_prod_beta)
  have s1: "crm_inv s1" using inv by (auto simp: s1_def intro: crm_inv_map)
  have "crm_inv (put_link i (snd (notify_error_on_link kmd ses d (the_link i s1) (environ s1))) s1)"
    using s1 by (intro crm_inv_put notify_error_inv crm_inv_at)
  then show ?thesis unfolding s' Let_def
    by (auto intro!: crm_inv_map upd_slot_of_inv)
qed

lemma apply_failed_inv: "apply_failed kmd i idx dev rc s = Some s' \<Longrightarrow> crm_inv s \<Longrightarrow> crm_inv s'"
proof -
  assume a: "apply_failed kmd i idx dev rc s = Some s'" and "crm_inv s"
  then have s1: "crm_inv (set_status i idx st s)" for st by (intro set_status_inv)
  have s2: "crm_inv (map_link i (\<lambda>l. l\<lparr>retry_cnt := retry_cnt l + 1\<rparr>) (set_status i idx st s))" for st
    using s1 by (rule crm_inv_map) simp
  from a s1 s2 show ?thesis
    by (auto simp: apply_failed_def Let_def split: option.split_asm if_split_asm intro: max_retry_inv)
qed

lemma last_applied_step [simp]: "q_step q (q\<lparr>last_applied_idx := idx\<rparr>)"
  by (simp add: q_step_def queue_ok_def queue_idx_def)

lemma crm_inv_reset_slot:
  assumes "crm_inv s" "in_q (the_link i s) = Some q" "q_step q q'"
  shows "crm_inv (map_link i (\<lambda>l. snd (reset_req_slot back q' l)) s)"
  using assms by (intro crm_inv_map reset_req_slot_inv)

lemma apply_succeeded_inv:
  assumes "apply_succeeded i idx trigger eof s = Some s'" "crm_inv s"
  shows "crm_inv s'"
proof -
  from assms(1) obtain s1 where s1: "wd_timer i (map_link i (\<lambda>l. l\<lparr>retry_cnt := 0\<rparr>) s) = Some s1"
    by (auto simp: apply_succeeded_def bind_eq_Some_conv)
  have "crm_inv s1" using s1 by (rule wd_timer_inv) (use assms(2) in \<open>auto intro: crm_inv_map\<close>)
  let ?s2 = "map_link i (\<lambda>l. l\<lparr>link_state := (if link_state l = CAM_CRM_LINK_STATE_ERR
                 then CAM_CRM_LINK_STATE_READY else link_state l), sync_link_sof_skip := False\<rparr>) s1"
  have s2: "crm_inv ?s2" using \<open>crm_inv s1\<close> by (rule crm_inv_map) simp
  then have s3: "crm_inv (set_status i idx CRM_SLOT_STATUS_REQ_APPLIED ?s2)" by (rule set_status_inv)
  from assms(1) s1 s2 crm_inv_reset_slot [OF s3 _ last_applied_step] show ?thesis
    by (auto simp: apply_succeeded_def Let_def bind_eq_Some_conv split: if_split_asm)
qed

lemma try_send_inv:
  assumes "try_send kmd i idx trigger eof s = Some (rc, s')" "crm_inv s"
  shows "crm_inv s'"
proof -
  from assms(1) obtain q r dev l e where
    send: "send_req kmd (recovery_on_apply_fail s) trigger q (the_link i s) (environ s) = Some (r, dev, l, e)"
    and s': "(if r < 0 then apply_failed kmd i idx dev r (put_link i (l, e) s)
              else apply_succeeded i idx trigger eof (put_link i (l, e) s)) = Some s'"
    by (auto simp: try_send_def bind_eq_Some_conv)
  have "crm_inv (put_link i (l, e) s)"
    using assms(2) send_req_inv [OF send crm_inv_at [OF assms(2)]] by (simp add: crm_inv_put)
  with s' show ?thesis
    by (auto split: if_split_asm intro: apply_failed_inv apply_succeeded_inv)
qed

lemma link_inv_slot_in: "link_inv l \<Longrightarrow> in_q l = Some q \<Longrightarrow> slot_in (q_slot q i)"
  by (auto simp: link_inv_defs queue_ok_def queue_idx_def slot_in_def)

lemma process_slot_inv:
  assumes "process_slot kmd i sl idx trigger eof s = Some (rc, s')" "crm_inv s" "slot_in sl"
  shows "crm_inv s'"
proof (cases "sl_status sl = CRM_SLOT_STATUS_REQ_READY")
  case True
  with assms(1,2) show ?thesis by (auto simp: process_slot_def intro: try_send_inv)
next
  case False
  with assms(1) obtain r s1 where r: "slot_readiness i sl trigger s = Some (r, s1)"
    by (auto simp: process_slot_def bind_eq_Some_conv)
  have s1: "crm_inv s1" using r assms(2,3) by (rule slot_readiness_inv)
  with assms(1) False r show ?thesis
    by (auto simp: process_slot_def Let_def split: if_split_asm
        intro: request_not_ready_inv try_send_inv set_status_inv)
qed

lemma update_timestamps_inv [simp]: "link_inv (update_timestamps e td l) = link_inv l"
  by (simp add: update_timestamps_def Let_def)

lemma process_req_inv:
  assumes "process_req kmd i td s = Some (rc, s')" "crm_inv s"
  shows "crm_inv s'"
proof (cases "in_q (the_link i s)")
  case None
  with assms show ?thesis by (auto simp: process_req_def Let_def split: if_split_asm)
next
  case (Some q)
  have sl: "slot_in (q_slot q (rd_idx q))" using crm_inv_at [OF assms(2)] Some by (rule link_inv_slot_in)
  have "crm_inv (map_link i (update_timestamps (environ s) td) s)" using assms(2) by (rule crm_inv_map) simp
  with assms sl Some show ?thesis
    by (auto simp: process_req_def Let_def bind_eq_Some_conv split: if_split_asm
        intro: process_slot_inv frame_skip_inv)
qed

lemma sof_freeze_handler_inv:
  assumes "process_sof_freeze kmd i s = Some (rc, s')" "crm_inv s"
  shows "crm_inv s'"
proof -
  have "link_inv (fst (send_evt kmd 0 CAM_REQ_MGR_LINK_EVT_SOF_FREEZE CRM_KMD_ERR_FATAL (the_link i s) (environ s)))"
    using assms(2) by (simp add: send_evt_inv crm_inv_at)
  with assms show ?thesis
    by (auto simp: process_sof_freeze_def bind_eq_Some_conv case_prod_beta Let_def split: option.split_asm if_split_asm
        intro!: crm_inv_put)
qed

end
