(* ===== verification/Cam_Crm_Handlers.thy ===== *)
theory Cam_Crm_Handlers
  imports Cam_Crm_Keep
begin

section \<open>The handlers of the work queue keep links well-formed\<close>

text \<open>
  Flushing, scheduling, announcements, recovery, triggers and the callbacks of the devices keep the invariant
  \<open>crm_inv\<close> of \<open>Cam_Crm_Inv\<close>.
\<close>

subsection \<open>Flush\<close>

lemma leave_sync_idx [simp]: "sl_idx (leave_sync h s) = sl_idx s"
  by (simp add: leave_sync_def)

lemma flush_slot_idx [simp]: "sl_idx (flush_slot s) = sl_idx s"
  by (simp add: flush_slot_def clear_sync_hdls_def)

lemma disconnect_loop_inv: "disconnect_loop h req js L = Some L' \<Longrightarrow> links_inv L \<Longrightarrow> links_inv L'"
proof (induction js arbitrary: L)
  case (Cons jo js)
  show ?case
  proof (cases jo)
    case (Some j)
    have "links_inv (upd_link j (\<lambda>l. l\<lparr>in_q := Some (upd_slot idx (leave_sync h) q)\<rparr>) L)" if "in_q (L j) = Some q" for idx q
      using Cons.prems(2) that by (auto intro!: links_inv_upd link_inv_q upd_slot_step)
    with Cons.prems Some show ?thesis
      by (auto simp: Let_def bind_eq_Some_conv split: if_split_asm dest: Cons.IH)
  qed (use Cons in simp)
qed simp

lemma disconnect_inv:
  assumes "disconnect_flushed_req_on_sync_link i sl s = Some s'" "crm_inv s"
  shows "crm_inv s'"
proof (cases "0 < sl_req_id sl \<and> sl_num_sync_links sl \<noteq> 0")
  case True
  with assms(1) obtain js L where "disconnect_loop (link_hdl (the_link i s)) (sl_req_id sl) js (g_links s) = Some L"
    and s': "s' = set_links L s" by (auto simp: disconnect_flushed_req_on_sync_link_def bind_eq_Some_conv)
  with disconnect_loop_inv crm_inv_links [OF assms(2)] show ?thesis unfolding s' by (intro crm_inv_set)
next
  case False
  with assms show ?thesis by (simp add: disconnect_flushed_req_on_sync_link_def split: if_split_asm)
qed

lemma flush_idx_inv: "link_inv l \<Longrightarrow> link_inv (flush_idx idx l)"
proof -
  assume "link_inv l"
  then have q: "link_inv (l\<lparr>in_q := map_option (upd_slot idx flush_slot) (in_q l)\<rparr>)"
    by (rule link_inv_map_q) (simp add: upd_slot_step)
  have "tbls_step (l_tbl l) (map (upd_tbl_slot idx flush_tbl_slot) (l_tbl l))"
    by (rule tbls_step_map, rule upd_tbl_slot_step) (simp add: flush_tbl_slot_def)
  with link_inv_tbl [OF q] show ?thesis by (simp add: flush_idx_def)
qed

lemma flush_loop_inv: "flush_loop k idx i s = Some s' \<Longrightarrow> crm_inv s \<Longrightarrow> crm_inv s'"
  by (induction k arbitrary: idx s) (auto simp: bind_eq_Some_conv dest: disconnect_inv intro!: crm_inv_map flush_idx_inv)

lemma restart_step: "q_step q (q\<lparr>wr_idx := 0, rd_idx := 0\<rparr>)"
  by (simp add: q_step_def queue_ok_def)

lemma flush_req_slot_inv: "flush_req_slot i s = Some s' \<Longrightarrow> crm_inv s \<Longrightarrow> crm_inv s'"
proof -
  have "link_inv (clear_trigger_cnt (l\<lparr>eof_event_cnt := 0, in_q := map_option (\<lambda>q. q\<lparr>wr_idx := 0, rd_idx := 0\<rparr>) (in_q l)\<rparr>))"
    if "link_inv l" for l
    using link_inv_map_q [of "l\<lparr>eof_event_cnt := 0\<rparr>" "\<lambda>q. q\<lparr>wr_idx := 0, rd_idx := 0\<rparr>"] that restart_step by simp
  then show "flush_req_slot i s = Some s' \<Longrightarrow> crm_inv s \<Longrightarrow> crm_inv s'"
    by (auto simp: flush_req_slot_def bind_eq_Some_conv dest: flush_loop_inv intro!: crm_inv_map)
qed

lemma flush_dev_inv [simp]: "crm_inv (flush_dev_with_max_pd kmd fi pd i s) = crm_inv s"
  by (simp add: flush_dev_with_max_pd_def)

lemma skip_idx_step: "q_step q (in_q_skip_idx idx q)"
  unfolding in_q_skip_idx_def by (rule upd_slot_step) simp

lemma cancel_slot_inv: "crm_inv s \<Longrightarrow> crm_inv (cancel_slot kmd fi idx pd i s)"
proof -
  assume "crm_inv s"
  then have "crm_inv (map_link i (\<lambda>l. l\<lparr>in_q := map_option (\<lambda>q. in_q_skip_idx idx
              (upd_slot idx (\<lambda>sl. sl\<lparr>additional_timeout := 0\<rparr>) q)) (in_q l)\<rparr>) s)"
    by (rule crm_inv_q) (auto intro: q_step_trans [OF upd_slot_step skip_idx_step])
  then show ?thesis by (auto simp: cancel_slot_def intro: crm_inv_map)
qed

lemma try_cancel_inv: "try_cancel_req kmd fi i s = Some (rc, s') \<Longrightarrow> crm_inv s \<Longrightarrow> crm_inv s'"
  by (auto simp: try_cancel_req_def Let_def bind_eq_Some_conv split: if_split_asm
      intro: disconnect_inv cancel_slot_inv)

lemma process_flush_inv:
  assumes "cam_req_mgr_process_flush_req kmd fi i s = Some (rc, s')" "crm_inv s"
  shows "crm_inv s'"
proof -
  have s0: "crm_inv (map_link i (\<lambda>l. l\<lparr>last_flush_id := fl_req_id fi\<rparr>) s)" using assms(2) by (rule crm_inv_map) simp
  from assms show ?thesis
    by (auto simp: cam_req_mgr_process_flush_req_def Let_def bind_eq_Some_conv reset_apply_inv split: if_split_asm
        intro!: crm_inv_map intro: try_cancel_inv flush_req_slot_inv [OF _ s0])
qed

subsection \<open>Scheduling and announcements\<close>

lemma crm_inv_map_eq: "crm_inv s \<Longrightarrow> link_inv (f (the_link i s)) \<Longrightarrow> crm_inv (map_link i f s)"
  by (rule crm_inv_map)

lemma process_sched_inv:
  assumes "cam_req_mgr_process_sched_req sr i s = Some (rc, s')" "crm_inv s"
  shows "crm_inv s'"
proof -
  from assms(1) obtain q nh where q: "in_q (the_link i s) = Some q" and
    s': "let q1 = upd_slot (wr_idx q) (sched_slot sr nh) q;
             s1 = map_link i (\<lambda>l. l\<lparr>in_q := Some (q1\<lparr>wr_idx := inc_idx (wr_idx q) 1 (q_num_slots q)\<rparr>),
                                    open_req_cnt := open_req_cnt l + 1\<rparr>) s in
         s' = map_link i (\<lambda>l. if initial_sync_req l = - 1 then l\<lparr>initial_sync_req := sr_req_id sr\<rparr> else l) s1 \<or>
         (\<exists>js. s' = set_links (forget_initial_sync js
              (upd_link i (\<lambda>l. l\<lparr>initial_sync_req := - 1\<rparr>) (g_links s1))) s1)"
    by (auto simp: cam_req_mgr_process_sched_req_def Let_def bind_eq_Some_conv split: if_split_asm)
  let ?q1 = "upd_slot (wr_idx q) (sched_slot sr nh) q"
  let ?q2 = "?q1\<lparr>wr_idx := inc_idx (wr_idx q) 1 (q_num_slots q)\<rparr>"
  have "q_step q ?q1" by (rule upd_slot_step) (simp add: sched_slot_def)
  then have "q_step q ?q2" using inc_idx_range [of MAX_REQ_SLOTS "wr_idx q" 1] by (simp add: q_step_def queue_ok_def)
  then have "link_inv ((the_link i s)\<lparr>in_q := Some ?q2\<rparr>)" using crm_inv_at [OF assms(2)] q by (rule link_inv_q [rotated 2])
  then have s1: "crm_inv (map_link i (\<lambda>l. l\<lparr>in_q := Some ?q2, open_req_cnt := open_req_cnt l + 1\<rparr>) s)" (is "crm_inv ?s1")
    using assms(2) by (intro crm_inv_map) simp_all
  have "links_inv (upd_link i (\<lambda>l. l\<lparr>initial_sync_req := - 1\<rparr>) (g_links ?s1))"
    using crm_inv_links [OF s1] by (rule links_inv_upd) simp
  then have "links_inv (forget_initial_sync js (upd_link i (\<lambda>l. l\<lparr>initial_sync_req := - 1\<rparr>) (g_links ?s1)))" for js
    unfolding forget_initial_sync_def
    by (induction js rule: rev_induct) (auto split: option.split intro!: links_inv_upd)
  with s' s1 show ?thesis by (auto simp: Let_def intro!: crm_inv_set intro: crm_inv_map)
qed

lemma set_sync_info_state [simp]: "ts_state (set_sync_info ty sl h t) = ts_state t"
  "req_ready_map (set_sync_info ty sl h t) = req_ready_map t"
  by (simp_all add: set_sync_info_def Let_def split: cam_req_mgr_sync_type.split)

lemma links_inv_pd_slot:
  "links_inv L \<Longrightarrow> (\<And>t. ts_state (f t) = ts_state t \<and> req_ready_map (f t) = req_ready_map t) \<Longrightarrow>
   links_inv (upd_link k (\<lambda>l. l\<lparr>l_tbl := upd_pd_slot p idx f (l_tbl l)\<rparr>) L)"
  by (auto intro!: links_inv_upd link_inv_tbl upd_pd_slot_step)

lemma sync_info_loop_inv: "sync_info_loop i aq sl ty js tbl L = Some (rc, L') \<Longrightarrow> links_inv L \<Longrightarrow> links_inv L'"
proof (induction js arbitrary: tbl L)
  case (Cons jo js)
  show ?case
  proof (cases jo)
    case (Some j)
    have u: "links_inv (upd_link k (\<lambda>l. l\<lparr>l_tbl := upd_pd_slot p idx (set_sync_info ty sl h) (l_tbl l)\<rparr>) L)" for k p idx h
      using Cons.prems(2) by (rule links_inv_pd_slot) simp
    from Cons.prems Some show ?thesis
      by (auto simp: Let_def bind_eq_Some_conv split: if_split_asm option.split_asm dest!: Cons.IH intro: u)
  qed (use Cons in simp)
qed simp

lemma add_special_inv:
  assumes "add_special c f ty sync i aq d idx L = Some (rc, L')" "links_inv L"
    "\<And>t. ts_state (f t) = ts_state t \<and> req_ready_map (f t) = req_ready_map t"
  shows "links_inv L'"
  using assms(1,2) links_inv_pd_slot [OF assms(2,3), of i "pd_tbl d" idx]
  by (auto simp: add_special_def cam_req_mgr_sync_info_for_sync_mode_def Let_def bind_eq_Some_conv split: if_split_asm
      dest: sync_info_loop_inv)

lemma upd_pd_slot_Cons: "upd_pd_slot p i f (t # ts) = (if p = Some (tb_pd t) then upd_tbl_slot i f t else t) # upd_pd_slot p i f ts"
  by (auto simp: upd_pd_slot_def)

lemma announce_step:
  assumes "tbls_wf ts" "find_pd_tbl ts p = Some t"
  shows "tbls_step ts (upd_pd_slot (Some p) idx (announce b (dev_mask t)) ts)"
  unfolding upd_pd_slot_def
proof (rule tbls_step_map)
  fix u assume u: "u \<in> set ts"
  show "tbl_step u (if Some p = Some (tb_pd u) then upd_tbl_slot idx (announce b (dev_mask t)) u else u)"
  proof (cases "tb_pd u = p")
    case True
    with u assms have "u = t" using tbls_wf_unique by fastforce
    then show ?thesis by (auto simp: tbl_step_def upd_tbl_slot_def slots_ok_def announce_def Let_def)
  qed simp
qed

lemma add_special_invs:
  "add_special c (\<lambda>t. t\<lparr>inject_delay_at_sof := n\<rparr>) ty sync i aq d idx L = Some (rc, L') \<Longrightarrow> links_inv L \<Longrightarrow> links_inv L'"
  "add_special c (\<lambda>t. t\<lparr>inject_delay_at_eof := n\<rparr>) ty sync i aq d idx L = Some (rc, L') \<Longrightarrow> links_inv L \<Longrightarrow> links_inv L'"
  "add_special c (\<lambda>t. t\<lparr>ts_ops := (ts_ops t)\<lparr>apply_at_eof := True, so_dev_hdl := h\<rparr>\<rparr>) ty sync i aq d idx L = Some (rc, L') \<Longrightarrow>
     links_inv L \<Longrightarrow> links_inv L'"
  by (erule add_special_inv, simp_all)+

definition keeps :: "(int \<times> 'x crm) option \<Rightarrow> bool" where
  "keeps m \<longleftrightarrow> (\<forall>rc s'. m = Some (rc, s') \<longrightarrow> crm_inv s')"

lemma keeps_bind: "(\<And>x. m = Some x \<Longrightarrow> keeps (f x)) \<Longrightarrow> keeps (Option.bind m f)"
  by (auto simp: keeps_def bind_eq_Some_conv)

lemma keeps_Some [simp]: "keeps (Some (rc, s)) = crm_inv s"
  by (simp add: keeps_def)

lemma keeps_D: "m = Some (rc, s') \<Longrightarrow> keeps m \<Longrightarrow> crm_inv s'"
  by (simp add: keeps_def)

lemma announce_links_inv:
  assumes "links_inv L" "find_pd_tbl (l_tbl (L i)) p = Some t"
  shows "links_inv (upd_link i (\<lambda>l. l\<lparr>l_tbl := upd_pd_slot (Some p) idx (announce b (dev_mask t)) (l_tbl l)\<rparr>) L)"
proof (rule links_inv_upd [OF assms(1)])
  assume inv: "link_inv (L i)"
  with assms(2) have "tbls_wf (l_tbl (L i))" by (auto simp: link_inv_defs find_pd_tbl_def)
  with inv show "link_inv (L i\<lparr>l_tbl := upd_pd_slot (Some p) idx (announce b (dev_mask t)) (l_tbl (L i))\<rparr>)"
    using assms(2) by (intro link_inv_tbl announce_step)
qed

lemma process_add_keeps:
  assumes "crm_inv s"
  shows "keeps (cam_req_mgr_process_add_req aq i s)"
proof -
  have L0: "links_inv (upd_link i (\<lambda>l. l\<lparr>l_tbl := upd_pd_slot p idx (set_is_applied False) (l_tbl l)\<rparr>) (g_links s))" for p idx
    using crm_inv_links [OF assms] by (rule links_inv_pd_slot) simp
  have s1: "crm_inv (set_links L1 s)" if "links_inv L1" for L1 using that by (rule crm_inv_set)
  show ?thesis unfolding cam_req_mgr_process_add_req_def Let_def
    by (auto intro!: keeps_bind s1 assms announce_links_inv dest!: add_special_invs(1) [OF _ L0]
      split: option.split prod.split) (assumption | erule add_special_invs | rule announce_links_inv)+
qed

subsection \<open>Recovery and triggers\<close>

lemma readd_loop_step: "q_step q (readd_loop k idx n q)"
proof (induction k arbitrary: idx q)
  case (Suc k)
  have "q_step q (if sl_status (q_slot q j) = CRM_SLOT_STATUS_REQ_APPLIED
         then upd_slot j (\<lambda>s. s\<lparr>sl_status := CRM_SLOT_STATUS_REQ_ADDED\<rparr>) q else q)" for j
    by (simp add: upd_slot_step)
  from q_step_trans [OF this Suc.IH] show ?case by (simp add: Let_def)
qed simp

lemma rewind_queue_step:
  assumes "idx = find_slot_for_req q req" "\<not> idx < 0"
  shows "q_step q (rewind_queue n sync idx q)"
proof -
  have "queue_ok q \<longrightarrow> idx < MAX_REQ_SLOTS" using find_slot_range [of q req] assms by auto
  with assms(2) have rd: "q_step q (q\<lparr>rd_idx := idx\<rparr>)" by (auto simp: q_step_def queue_ok_def)
  have u: "q_step a (upd_slot k (\<lambda>s. s\<lparr>sl_sync_mode := m\<rparr>) a)" for a k m by (simp add: upd_slot_step)
  have v: "q_step a (upd_slot k (\<lambda>s. s\<lparr>sl_status := st\<rparr>) a)" for a k st by (simp add: upd_slot_step)
  show ?thesis unfolding rewind_queue_def Let_def
    by (rule q_step_trans [OF _ readd_loop_step]) (auto intro: q_step_trans [OF rd v] q_step_trans [OF q_step_trans [OF
        q_step_trans [OF rd v] u] u])
qed

lemma rewind_link_inv:
  assumes "link_inv l" "in_q l = Some q" "idx = find_slot_for_req q req" "\<not> idx < 0"
  shows "link_inv (rewind_link n q idx l)"
proof -
  have "link_inv (l\<lparr>l_tbl := tbl_set_all_skip_cnt (l_tbl l)\<rparr>)" using assms(1) set_all_skip_step by (rule link_inv_tbl)
  from link_inv_q [OF this _ rewind_queue_step [OF assms(3,4)]] assms(2) show ?thesis by (simp add: rewind_link_def)
qed

lemma process_error_inv:
  assumes "cam_req_mgr_process_error kmd er i s = Some (rc, s')" "crm_inv s"
  shows "crm_inv s'"
proof -
  have rw: "crm_inv (map_link i (rewind_link n q (find_slot_for_req q req)) s)"
    if "in_q (the_link i s) = Some q" "\<not> find_slot_for_req q req < 0" for n q req
    using assms(2) that by (auto intro!: crm_inv_map intro: rewind_link_inv)
  have ev: "crm_inv (put_link i (send_evt kmd r ty err (the_link i s) (environ s)) s)" for r ty err
    using assms(2) by (auto intro!: crm_inv_put simp: send_evt_inv crm_inv_at)
  from assms ev show ?thesis
    by (auto simp: cam_req_mgr_process_error_def apply_on_bubble_def Let_def bind_eq_Some_conv split: if_split_asm
        dest: process_req_inv [OF _ rw])
qed

lemma process_stop_inv: "cam_req_mgr_process_stop i s = Some (rc, s') \<Longrightarrow> crm_inv s \<Longrightarrow> crm_inv s'"
  by (auto simp: cam_req_mgr_process_stop_def bind_eq_Some_conv intro: flush_req_slot_inv)

lemma eof_event_inv [simp]: "crm_inv (cam_req_mgr_notify_eof_event kmd i s) = crm_inv s"
  by (simp add: cam_req_mgr_notify_eof_event_def)

lemma reset_reported_inv: "reset_reported i req s = Some s' \<Longrightarrow> crm_inv s \<Longrightarrow> crm_inv s'"
  by (auto simp: reset_reported_def Let_def bind_eq_Some_conv split: if_split_asm intro: crm_inv_reset_slot)

lemma next_rd_inv: "crm_inv s \<Longrightarrow> crm_inv (next_rd i s)"
  unfolding next_rd_def by (rule crm_inv_q) (auto simp: q_step_def queue_ok_def inc_idx_def)

lemma check_next_inv:
  assumes "check_next_req_slot q l = (rc, q', l')" "link_inv l" "in_q l = Some q"
  shows "link_inv l'"
proof -
  let ?idx = "inc_idx (rd_idx q) 1 (q_num_slots q)"
  let ?q0 = "if last_applied_idx q = ?idx then q\<lparr>last_applied_idx := - 1\<rparr> else q"
  obtain q1 l1 where ql: "(if sl_status (q_slot q ?idx) = CRM_SLOT_STATUS_REQ_APPLIED
      then reset_req_slot ?idx ?q0 l else (q, l)) = (q1, l1)" by fastforce
  have "link_inv (snd (reset_req_slot ?idx ?q0 l))"
    using assms(2,3) by (rule reset_req_slot_inv) simp
  with ql assms have l1: "link_inv l1" "in_q l1 = Some q1"
    by (auto simp: reset_req_slot_def Let_def split: if_split_asm)
  have "q_step q1 (upd_slot ?idx (\<lambda>s. s\<lparr>sl_status := CRM_SLOT_STATUS_REQ_ADDED\<rparr>) (in_q_skip_idx ?idx q1))" (is "q_step q1 ?q2")
    by (rule q_step_trans [OF skip_idx_step upd_slot_step]) simp
  moreover have "q_step q2 (q2\<lparr>wr_idx := inc_idx (wr_idx q2) 1 (q_num_slots q2)\<rparr>)" for q2
    by (auto simp: q_step_def queue_ok_def inc_idx_def)
  ultimately have "q_step q1 ?q2" "q_step q1 (?q2\<lparr>wr_idx := inc_idx (wr_idx ?q2) 1 (q_num_slots ?q2)\<rparr>)"
    by (blast intro: q_step_trans)+
  with assms(1) ql l1 show ?thesis
    by (auto simp: check_next_req_slot_def Let_def split: if_split_asm intro: link_inv_q)
qed

lemma advance_inv:
  assumes "advance_and_process kmd td i s = Some (rc, s')" "crm_inv s"
  shows "crm_inv s'"
proof -
  from assms(1) obtain q where q: "in_q (the_link i s) = Some q" by (auto simp: advance_and_process_def bind_eq_Some_conv)
  obtain r q' l' where ck: "check_next_req_slot q (the_link i s) = (r, q', l')" by (rule prod_cases3)
  have "crm_inv (map_link i (\<lambda>_. l') s)"
    using assms(2) check_next_inv [OF ck crm_inv_at [OF assms(2)] q] by (auto intro: crm_inv_map)
  with assms q ck show ?thesis
    by (auto simp: advance_and_process_def Let_def bind_eq_Some_conv split: if_split_asm
        intro: process_req_inv next_rd_inv frame_skip_inv)
qed

lemma process_trigger_inv:
  assumes "cam_req_mgr_process_trigger kmd td i s = Some (rc, s')" "crm_inv s"
  shows "crm_inv s'"
  using assms by (auto simp: cam_req_mgr_process_trigger_def bind_eq_Some_conv split: if_split_asm
      intro: advance_inv reset_reported_inv)

end
