(* ===== verification/Cam_Crm_Life.thy ===== *)
theory Cam_Crm_Life
  imports Cam_Crm_Handlers
begin

section \<open>A link from its making to its end\<close>

text \<open>
  \<open>__cam_req_mgr_setup_link_info\<close> builds well-formed tables, destroying a link leaves it bare, and the callbacks of
  the devices and the ioctls keep the invariant \<open>crm_inv\<close> of \<open>Cam_Crm_Inv\<close>.
\<close>

subsection \<open>Callbacks and the worker\<close>

lemma queue_task_inv [simp]: "link_inv (snd (queue_task i cb pl l)) = link_inv l"
  by (simp add: queue_task_def Let_def case_prod_beta split: option.split prod.split)

lemma queue_or_busy_inv: "crm_inv s \<Longrightarrow> crm_inv (snd (queue_or_busy i cb pl s))"
  using queue_task_inv [of i cb pl "the_link i s"]
  by (auto simp: queue_or_busy_def case_prod_beta Let_def intro!: crm_inv_map)

lemma keeps_queue: "crm_inv s \<Longrightarrow> keeps (Some (queue_or_busy i cb pl s))"
  by (metis keeps_Some prod.collapse queue_or_busy_inv)

lemma set_eof_cnt_inv: "set_eof_cnt n js L = Some L' \<Longrightarrow> links_inv L \<Longrightarrow> links_inv L'"
proof (induction n js L rule: set_eof_cnt.induct)
  case (3 n j js L)
  have "links_inv (upd_link j (\<lambda>l. l\<lparr>eof_event_cnt := n\<rparr>) L)" using 3(3) by (rule links_inv_upd) simp
  with 3 show ?case by simp
qed simp_all

lemma set_pause_inv [simp]: "link_inv (set_pause b l) = link_inv l"
  by (simp add: set_pause_def)

lemma count_trigger_inv [simp]: "link_inv (snd (count_trigger tid trigger l)) = link_inv l"
  by (simp add: count_trigger_def check_for_dual_trigger_def Let_def)

lemma count_trigger_keep: "count_trigger tid trigger l = (rc, l2) \<Longrightarrow> link_inv l2 = link_inv l"
  by (metis count_trigger_inv snd_conv)

lemma cb_add_keeps: "crm_inv s \<Longrightarrow> keeps (cam_req_mgr_cb_add_req aq s)"
proof -
  assume inv: "crm_inv s"
  have eof: "crm_inv (set_links L s)"
    if "set_eof_cnt n js (upd_link i (\<lambda>l. l\<lparr>eof_event_cnt := m\<rparr>) (g_links s)) = Some L" for n js i m L
    using that by (intro crm_inv_set, elim set_eof_cnt_inv) (use crm_inv_links [OF inv] in \<open>auto intro: links_inv_upd\<close>)
  show ?thesis
    unfolding cam_req_mgr_cb_add_req_def Let_def
    by (auto intro!: keeps_bind keeps_queue inv dest!: eof simp: bind_eq_Some_conv inv split: option.split if_split_asm)
qed

lemma cb_err_keeps: "crm_inv s \<Longrightarrow> keeps (cam_req_mgr_cb_notify_err er s)"
  unfolding cam_req_mgr_cb_notify_err_def Let_def
  by (auto intro!: keeps_bind keeps_queue crm_inv_map split: option.split prod.split)

lemma keeps_if: "(c \<Longrightarrow> keeps a) \<Longrightarrow> (\<not> c \<Longrightarrow> keeps b) \<Longrightarrow> keeps (if c then a else b)"
  by simp

lemma keeps_link: "crm_inv s \<Longrightarrow> link_inv l \<Longrightarrow> keeps (Some (rc, map_link i (\<lambda>_. l) s))"
  by (auto intro: crm_inv_map)

lemma dual_check_inv: "dual_check td l = Some (rc, l2) \<Longrightarrow> link_inv l \<Longrightarrow> link_inv l2"
  by (auto simp: dual_check_def count_trigger_keep split: if_split_asm)

lemma cb_trigger_keeps: "crm_inv s \<Longrightarrow> keeps (cam_req_mgr_cb_notify_trigger td s)"
  unfolding cam_req_mgr_cb_notify_trigger_def Let_def
  by (auto intro!: keeps_bind keeps_if keeps_queue keeps_link crm_inv_map dest!: dual_check_inv
      simp: crm_inv_at split: option.split prod.split)

lemma cb_timer_keeps: "crm_inv s \<Longrightarrow> keeps (cam_req_mgr_cb_notify_timer h on s)"
  unfolding cam_req_mgr_cb_notify_timer_def Let_def
  by (auto intro!: keeps_bind crm_inv_map split: option.split)

lemma cb_stop_keeps: "crm_inv s \<Longrightarrow> keeps (cam_req_mgr_cb_notify_stop h s)"
  unfolding cam_req_mgr_cb_notify_stop_def Let_def
  by (auto intro!: keeps_bind keeps_queue crm_inv_map split: option.split)

lemma run_task_inv: "run_task kmd cb i t s = Some s' \<Longrightarrow> crm_inv s \<Longrightarrow> crm_inv s'"
  by (auto simp: run_task_def split: nat.split_asm crm_task_payload.split_asm
      intro: sof_freeze_handler_inv process_sched_inv process_flush_inv process_trigger_inv process_error_inv
        process_stop_inv keeps_D [OF _ process_add_keeps])

lemma work_one_inv: "work_one kmd i s = Some s' \<Longrightarrow> crm_inv s \<Longrightarrow> crm_inv s'"
  by (auto simp: work_one_def Let_def bind_eq_Some_conv split: option.split_asm list.split_asm
      intro!: crm_inv_map dest!: run_task_inv)

lemma sof_freeze_inv: "crm_inv s \<Longrightarrow> crm_inv (sof_freeze i s)"
  by (auto simp: sof_freeze_def intro: crm_inv_map)

subsection \<open>Bare links\<close>

definition link_core :: "cam_req_mgr_core_link \<Rightarrow> bool" where
  "link_core l \<longleftrightarrow> idx_ok (apply_data l) \<and> idx_ok (prev_apply_data l) \<and> (\<forall>q. in_q l = Some q \<longrightarrow> queue_idx q)"

lemma link_inv_core: "link_inv l \<Longrightarrow> link_core l"
  by (auto simp: link_inv_defs link_core_def queue_ok_def)

lemma zero_slot_idx [simp]: "sl_idx zero_slot = 0"
  by (simp add: zero_slot_def)

lemma destroyed_bare: "link_core l \<Longrightarrow> link_bare (destroy_link_info l) \<and> link_inv (destroy_link_info l)"
  by (auto simp: link_core_def destroy_link_info_def reset_in_q_def link_inv_defs queue_idx_def split: option.split_asm)

lemma reset_core: "link_core l \<Longrightarrow> link_bare (cam_req_mgr_core_link_reset l) \<and> link_inv (cam_req_mgr_core_link_reset l)"
proof
  assume "link_core l"
  then show "link_inv (cam_req_mgr_core_link_reset l)"
    by (simp add: cam_req_mgr_core_link_reset_def reset_apply_inv) (simp add: link_inv_defs link_core_def)
qed (simp add: cam_req_mgr_core_link_reset_def link_bare_def reset_apply_data_def clear_trigger_cnt_def)

end
