(* ===== verification/Cam_Crm_Setup.thy ===== *)
theory Cam_Crm_Setup
  imports Cam_Crm_Life
begin

section \<open>The tables of a new link\<close>

text \<open>
  \<open>__cam_req_mgr_setup_link_info\<close> sorts the devices of a link by their delays: one table for each delay, in falling
  order, with a bit for every device. This theory shows that what it builds is well-formed.
\<close>

subsection \<open>Adding a table\<close>

definition same_tbl :: "cam_req_mgr_req_tbl \<Rightarrow> cam_req_mgr_req_tbl" where
  "same_tbl t = t\<lparr>pd_delta := 0\<rparr>"

lemma same_tbl_set [simp]: "same_tbl (t\<lparr>pd_delta := k\<rparr>) = same_tbl t"
  by (simp add: same_tbl_def)

lemma insert_after_set: "ts \<noteq> [] \<Longrightarrow> same_tbl ` set (insert_after new ts) = insert (same_tbl new) (same_tbl ` set ts)"
  by (induction new ts rule: insert_after.induct) auto

lemma add_tbl_set: "same_tbl ` set (add_tbl_to_link new ts) = insert (same_tbl new) (same_tbl ` set ts)"
  by (cases ts) (simp_all add: add_tbl_to_link_def insert_after_set del: insert_after.simps)

lemma pdt_ok_delta [simp]: "pdt_ok (t\<lparr>pd_delta := k\<rparr>) = pdt_ok t"
  by (simp add: pdt_ok_def)

lemma tbls_wf_Cons: "tbls_wf (t # ts) \<longleftrightarrow> pdt_ok t \<and> tbls_wf ts \<and>
  (case ts of [] \<Rightarrow> True | u # _ \<Rightarrow> tb_pd u < tb_pd t \<and> pd_delta t = tb_pd t - tb_pd u)"
  by (cases ts) auto

lemma insert_after_Nil [simp]: "insert_after new ts \<noteq> []"
  by (induction new ts rule: insert_after.induct) auto

lemma insert_after_hd: "ts \<noteq> [] \<Longrightarrow> tb_pd (hd (insert_after new ts)) = tb_pd (hd ts)"
  by (induction new ts rule: insert_after.induct) auto

lemma insert_after_wf:
  "tbls_wf ts \<Longrightarrow> ts \<noteq> [] \<Longrightarrow> tb_pd new < tb_pd (hd ts) \<Longrightarrow> \<forall>t \<in> set ts. tb_pd t \<noteq> tb_pd new \<Longrightarrow> pdt_ok new \<Longrightarrow>
   tbls_wf (insert_after new ts)"
proof (induction new ts rule: insert_after.induct)
  case (3 new t u ts)
  show ?case
  proof (cases "tb_pd new < tb_pd u")
    case True
    with 3 have "tbls_wf (insert_after new (u # ts))" by simp
    moreover obtain v vs where "insert_after new (u # ts) = v # vs" "tb_pd v = tb_pd u"
      using insert_after_hd [of "u # ts" new] by (cases "insert_after new (u # ts)") (auto simp: True)
    ultimately show ?thesis using 3 True by (auto simp: tbls_wf_Cons)
  next
    case False
    with 3 show ?thesis by (auto simp: tbls_wf_Cons split: list.split)
  qed
qed simp_all

lemma add_tbl_wf:
  assumes "tbls_wf ts" "\<forall>t \<in> set ts. tb_pd t \<noteq> tb_pd new" "pdt_ok new"
  shows "tbls_wf (add_tbl_to_link new ts)"
proof (cases ts)
  case (Cons t us)
  with assms show ?thesis
    using insert_after_wf [of ts new] by (auto simp: add_tbl_to_link_def simp del: insert_after.simps)
qed (use assms in \<open>simp add: add_tbl_to_link_def\<close>)

lemma add_tbl_top: "top_pd (add_tbl_to_link new ts) = (if ts = [] \<or> top_pd ts < tb_pd new then tb_pd new else top_pd ts)"
proof (cases ts)
  case (Cons t us)
  then show ?thesis
    using insert_after_hd [of ts new]
    by (cases "insert_after new ts") (auto simp: add_tbl_to_link_def top_pd_def simp del: insert_after.simps)
qed (simp add: add_tbl_to_link_def top_pd_def)

lemma top_pd_max: "tbls_wf ts \<Longrightarrow> t \<in> set ts \<Longrightarrow> tb_pd t \<le> top_pd ts"
  by (cases ts) (auto simp: top_pd_def dest: tbls_wf_less)

lemma bit_pds_mask: "bit (pds_mask ts) n \<longleftrightarrow> n < 32 \<and> (\<exists>t \<in> set ts. n = nat (tb_pd t))"
  by (induction ts) (auto simp: pds_mask_def bit_simps)

lemma bit_pds: "tbls_wf ts \<Longrightarrow> 0 \<le> pd \<Longrightarrow> pd < CAM_PIPELINE_DELAY_MAX \<Longrightarrow>
  bit (pds_mask ts) (nat pd) \<longleftrightarrow> find_pd_tbl ts pd \<noteq> None"
  by (force simp: bit_pds_mask find_pd_tbl_None pdt_ok_def dest: tbls_wf_ok)

subsection \<open>Connecting a device\<close>

definition fresh_tbl :: "cam_req_mgr_req_tbl \<Rightarrow> bool" where
  "fresh_tbl t \<longleftrightarrow> (\<forall>i. ts_state (tb_slot t i) = CRM_REQ_STATE_EMPTY) \<and> 0 \<le> dev_count t"

definition tbl_conn :: "cam_req_mgr_connected_device list \<Rightarrow> cam_req_mgr_req_tbl \<Rightarrow> bool" where
  "tbl_conn ds t \<longleftrightarrow> fresh_tbl t \<and>
     (\<forall>n. bit (dev_mask t) n \<longrightarrow> (\<exists>d \<in> set ds. pd_tbl d = Some (tb_pd t) \<and> dev_bit d = n))"

definition dev_conn :: "cam_req_mgr_req_tbl list \<Rightarrow> cam_req_mgr_connected_device \<Rightarrow> bool" where
  "dev_conn ts d \<longleftrightarrow> pd_tbl d = Some (p_delay (dev_info d)) \<and>
     (\<exists>t \<in> set ts. tb_pd t = p_delay (dev_info d) \<and> bit (dev_mask t) (dev_bit d) \<and> int (dev_bit d) < dev_count t)"

definition conn :: "cam_req_mgr_connected_device list \<Rightarrow> cam_req_mgr_req_tbl list \<Rightarrow> bool" where
  "conn ds ts \<longleftrightarrow> tbls_wf ts \<and> (\<forall>t \<in> set ts. tbl_conn ds t) \<and> (\<forall>d \<in> set ds. dev_conn ts d) \<and>
     distinct (map (\<lambda>d. (pd_tbl d, dev_bit d)) ds)"

lemma conn_Nil [simp]: "conn [] []"
  by (simp add: conn_def)

lemma conn_devs_ok: "conn ds ts \<Longrightarrow> devs_ok ts ds"
  by (fastforce simp: conn_def devs_ok_def dev_conn_def dev_ok_def tbl_conn_def dest: tbls_wf_unique)

lemma fresh_slots_ok: "fresh_tbl t \<Longrightarrow> slots_ok t"
  by (simp add: fresh_tbl_def slots_ok_def)

lemma tbl_conn_same [simp]: "tbl_conn ds (same_tbl t) = tbl_conn ds t"
  by (simp add: tbl_conn_def fresh_tbl_def same_tbl_def)

lemma new_tbl_conn: "tbl_conn ds (create_pd_tbl\<lparr>tb_pd := pd\<rparr>)"
  by (simp add: tbl_conn_def fresh_tbl_def create_pd_tbl_def)

lemma same_tbl_ex: "(\<exists>t \<in> set ts. P (tb_pd t) (dev_mask t) (dev_count t)) \<longleftrightarrow>
    (\<exists>t \<in> same_tbl ` set ts. P (tb_pd t) (dev_mask t) (dev_count t))"
  by (simp add: same_tbl_def)

lemma add_conn:
  assumes "conn ds ts" "find_pd_tbl ts pd = None" "0 \<le> pd" "pd < CAM_PIPELINE_DELAY_MAX"
  shows "conn ds (add_tbl_to_link (create_pd_tbl\<lparr>tb_pd := pd\<rparr>) ts)" (is "conn ds (add_tbl_to_link ?new ts)")
proof -
  have "tbls_wf (add_tbl_to_link ?new ts)"
    using assms by (intro add_tbl_wf) (auto simp: conn_def find_pd_tbl_None create_pd_tbl_def pdt_ok_def)
  moreover have "tbl_conn ds t" if "t \<in> set (add_tbl_to_link ?new ts)" for t
  proof -
    have "same_tbl t \<in> insert (same_tbl ?new) (same_tbl ` set ts)" using that add_tbl_set by blast
    then obtain u where "same_tbl t = same_tbl u" "tbl_conn ds u" using assms(1) new_tbl_conn by (auto simp: conn_def)
    then show ?thesis using tbl_conn_same by metis
  qed
  moreover have "dev_conn (add_tbl_to_link ?new ts) d" if "dev_conn ts d" for d
    using that unfolding dev_conn_def
    by (subst (asm) same_tbl_ex [where P = "\<lambda>p m c. p = p_delay (dev_info d) \<and> bit m (dev_bit d) \<and> int (dev_bit d) < c"],
        subst same_tbl_ex [where P = "\<lambda>p m c. p = p_delay (dev_info d) \<and> bit m (dev_bit d) \<and> int (dev_bit d) < c"])
      (auto simp: add_tbl_set)
  ultimately show ?thesis using assms(1) by (auto simp: conn_def)
qed

definition bump :: "int \<Rightarrow> cam_req_mgr_req_tbl \<Rightarrow> cam_req_mgr_req_tbl" where
  "bump pd u = (if tb_pd u = pd
     then u\<lparr>dev_count := dev_count u + 1, dev_mask := dev_mask u OR push_bit (nat (dev_count u)) 1\<rparr> else u)"

lemma bump_fields [simp]: "tb_pd (bump pd u) = tb_pd u" "pd_delta (bump pd u) = pd_delta u"
  "tb_num_slots (bump pd u) = tb_num_slots u" "tb_slot (bump pd u) = tb_slot u"
  by (simp_all add: bump_def)

lemma bump_wf: "tbls_wf (map (bump pd) ts) = tbls_wf ts"
  by (induction ts) (auto simp: tbls_wf_Cons pdt_ok_def split: list.split)

lemma bump_mask: "pds_mask (map (bump pd) ts) = pds_mask ts"
  by (induction ts) (simp_all add: pds_mask_def)

lemma bump_top: "top_pd (map (bump pd) ts) = top_pd ts"
  by (cases ts) (simp_all add: top_pd_def)

lemma bit_bump: "bit (dev_mask (bump pd u)) n \<longleftrightarrow>
    bit (dev_mask u) n \<or> tb_pd u = pd \<and> n = nat (dev_count u) \<and> n < 32"
  by (auto simp: bump_def bit_simps)

lemma bump_conn:
  assumes "conn ds ts" "find_pd_tbl ts pd = Some t" "dev_count t < 32" "p_delay (dev_info d) = pd"
  shows "conn (ds @ [d\<lparr>dev_bit := nat (dev_count t), pd_tbl := Some pd\<rparr>]) (map (bump pd) ts)" (is "conn (ds @ [?d]) _")
proof -
  have t: "t \<in> set ts" "tb_pd t = pd" using assms(2) by (auto dest: find_pd_tbl_Some)
  have wf: "tbls_wf ts" using assms(1) by (simp add: conn_def)
  have u: "u = t" if "u \<in> set ts" "tb_pd u = pd" for u
    using tbls_wf_unique [OF wf that(1)] that(2) assms(2) by simp
  have cnt: "0 \<le> dev_count t" using assms(1) t by (auto simp: conn_def tbl_conn_def fresh_tbl_def)
  have "tbl_conn (ds @ [?d]) (bump pd v)" if v: "v \<in> set ts" for v
  proof -
    have "tbl_conn ds v" using assms(1) v by (simp add: conn_def)
    then show ?thesis
    proof (cases "tb_pd v = pd")
      case True
      with u v have "v = t" by simp
      with \<open>tbl_conn ds v\<close> t(2) show ?thesis by (auto simp: tbl_conn_def fresh_tbl_def bump_def bit_simps)
    qed (auto simp: tbl_conn_def bump_def)
  qed
  moreover have "dev_conn (map (bump pd) ts) ?d"
    using t assms(3,4) cnt by (auto simp: dev_conn_def bit_bump intro!: bexI [of _ t]) (auto simp: bump_def)
  moreover have "dev_conn (map (bump pd) ts) c" if "dev_conn ts c" for c
  proof -
    from that obtain v where v: "v \<in> set ts" "tb_pd v = p_delay (dev_info c)" "bit (dev_mask v) (dev_bit c)"
      "int (dev_bit c) < dev_count v" "pd_tbl c = Some (p_delay (dev_info c))" by (auto simp: dev_conn_def)
    then have "bit (dev_mask (bump pd v)) (dev_bit c)" "int (dev_bit c) < dev_count (bump pd v)"
      by (simp add: bit_bump) (use v in \<open>simp add: bump_def\<close>)
    with v show ?thesis unfolding dev_conn_def by (auto intro!: bexI [of _ v])
  qed
  moreover have "(Some pd, nat (dev_count t)) \<noteq> (pd_tbl c, dev_bit c)" if "c \<in> set ds" for c
  proof
    assume e: "(Some pd, nat (dev_count t)) = (pd_tbl c, dev_bit c)"
    from that assms(1) have "dev_conn ts c" by (simp add: conn_def)
    with e obtain v where v: "v \<in> set ts" "tb_pd v = pd" "int (dev_bit c) < dev_count v" by (auto simp: dev_conn_def)
    with u [of v] have "v = t" by simp
    moreover have "dev_bit c = nat (dev_count t)" using e by simp
    ultimately show False using v(3) cnt by simp
  qed
  ultimately show ?thesis using assms(1) by (auto simp: conn_def bump_wf)
qed

lemma add_tbl_ex: "(\<exists>t \<in> set (add_tbl_to_link new ts). P (tb_pd t)) \<longleftrightarrow> P (tb_pd new) \<or> (\<exists>t \<in> set ts. P (tb_pd t))"
proof -
  have "(\<exists>t \<in> set us. P (tb_pd t)) \<longleftrightarrow> (\<exists>t \<in> same_tbl ` set us. P (tb_pd t))" for us by (simp add: same_tbl_def)
  from this [of "add_tbl_to_link new ts"] show ?thesis unfolding add_tbl_set by (simp add: same_tbl_def)
qed

definition conn_link :: "cam_req_mgr_connected_device list \<Rightarrow> cam_req_mgr_core_link \<Rightarrow> bool" where
  "conn_link ds l \<longleftrightarrow> conn ds (l_tbl l) \<and> pd_mask l = pds_mask (l_tbl l) \<and> (l_tbl l = [] \<longleftrightarrow> ds = [])"

abbreviation delay_ok :: "cam_req_mgr_connected_device \<Rightarrow> bool" where
  "delay_ok d \<equiv> 0 \<le> p_delay (dev_info d) \<and> p_delay (dev_info d) < 3"

lemma attach_conn:
  assumes "attach_dev alloc d l = Some (0, d1, l1)" "conn_link ds l" "delay_ok d"
  shows "conn_link (ds @ [d1]) l1" "dev_info d1 = dev_info d"
    "top_pd (l_tbl l1) = (if l_tbl l = [] \<or> top_pd (l_tbl l) < p_delay (dev_info d) then p_delay (dev_info d) else top_pd (l_tbl l))"
proof -
  let ?pd = "p_delay (dev_info d)"
  let ?new = "create_pd_tbl\<lparr>tb_pd := ?pd\<rparr>"
  define ts where "ts = (if bit (pd_mask l) (nat ?pd) then l_tbl l else add_tbl_to_link ?new (l_tbl l))"
  have cn: "conn ds (l_tbl l)" and m: "pd_mask l = pds_mask (l_tbl l)" using assms(2) by (auto simp: conn_link_def)
  then have known: "bit (pd_mask l) (nat ?pd) \<longleftrightarrow> find_pd_tbl (l_tbl l) ?pd \<noteq> None"
    using assms(3) by (simp add: bit_pds conn_def)
  have ts: "conn ds ts" using cn known assms(3) by (auto simp: ts_def intro: add_conn)
  obtain t where t: "find_pd_tbl ts ?pd = Some t" "dev_count t < 32"
    and d1: "d1 = d\<lparr>dev_bit := nat (dev_count t), pd_tbl := Some ?pd\<rparr>"
    and l1: "l_tbl l1 = map (bump ?pd) ts" "pd_mask l1 = (if bit (pd_mask l) (nat ?pd) then pd_mask l else pd_mask l OR push_bit (nat ?pd) 1)"
    using assms(1) by (auto simp: attach_dev_def ts_def Let_def bind_eq_Some_conv bump_def [abs_def] split: if_split_asm)
  have "bit (pds_mask ts) n \<longleftrightarrow> bit (pd_mask l1) n" for n
    using assms(3) by (auto simp: l1 m ts_def bit_pds_mask bit_simps add_tbl_ex [where P = "\<lambda>p. n = nat p"] create_pd_tbl_def)
  then have "pd_mask l1 = pds_mask (l_tbl l1)" by (simp add: l1(1) bump_mask bit_eq_iff)
  moreover have "ts \<noteq> []" using t(1) by (auto simp: find_pd_tbl_def)
  ultimately show "conn_link (ds @ [d1]) l1"
    unfolding conn_link_def using bump_conn [OF ts t refl] by (simp add: d1 l1(1))
  show "dev_info d1 = dev_info d" by (simp add: d1)
  have "top_pd (l_tbl l1) = top_pd ts" by (simp add: l1(1) bump_top)
  then show "top_pd (l_tbl l1) = (if l_tbl l = [] \<or> top_pd (l_tbl l) < ?pd then ?pd else top_pd (l_tbl l))"
  proof (cases "bit (pd_mask l) (nat ?pd)")
    case True
    then obtain u where u: "find_pd_tbl (l_tbl l) ?pd = Some u" using known by auto
    have "?pd \<le> top_pd (l_tbl l)" using top_pd_max [of "l_tbl l" u] find_pd_tbl_Some [OF u] cn by (simp add: conn_def)
    with True u \<open>top_pd (l_tbl l1) = top_pd ts\<close> show ?thesis by (auto simp: ts_def find_pd_tbl_def)
  next
    case False
    have "tb_pd ?new = ?pd" by simp
    with False \<open>top_pd (l_tbl l1) = top_pd ts\<close> show ?thesis by (simp only: ts_def add_tbl_top if_False)
  qed
qed

lemma connect_devs_conn:
  assumes "connect_devs kmd alloc maxd n us ds l e = Some (rc, ds2, l2, e2)" "conn_link ds l"
    "max_delay l = top_pd (l_tbl l)" "\<forall>d \<in> set us. delay_ok d"
  shows "rc = 0 \<Longrightarrow> conn_link ds2 l2 \<and> max_delay l2 = top_pd (l_tbl l2) \<and> length ds2 = length ds + length us"
  using assms
proof (induction us arbitrary: n ds l e)
  case (Cons d us)
  obtain r d1 l1 where a: "attach_dev alloc d l = Some (r, d1, l1)"
    using Cons.prems(2) by (auto simp: bind_eq_Some_conv)
  have r: "r = 0" using Cons.prems(1,2) a by (auto split: if_split_asm)
  let ?l = "l1\<lparr>max_delay := (if max_delay l1 < p_delay (dev_info d) then p_delay (dev_info d) else max_delay l1),
                min_delay := (if p_delay (dev_info d) < min_delay l1 then p_delay (dev_info d) else min_delay l1)\<rparr>"
  from Cons.prems(5) have ok: "delay_ok d" by simp
  note at = attach_conn [OF a [unfolded r] Cons.prems(3) ok]
  have "max_delay l1 = max_delay l" using a by (auto simp: attach_dev_def Let_def bind_eq_Some_conv split: if_split_asm)
  then have mx: "max_delay ?l = top_pd (l_tbl ?l)"
    using at(3) Cons.prems(4) ok by (auto simp: top_pd_def)
  have cl: "conn_link (ds @ [d1]) ?l" using at(1) by (simp add: conn_link_def)
  from Cons.prems(1,2,5) a r obtain n' e' where
    "connect_devs kmd alloc maxd n' us (ds @ [d1]) ?l e' = Some (rc, ds2, l2, e2)" "\<forall>d \<in> set us. delay_ok d"
    by (auto simp: Let_def)
  from Cons.IH [OF Cons.prems(1) this(1) cl mx this(2)] show ?case by simp
qed simp

lemma attach_core: "attach_dev alloc d l = Some (rc, d1, l1) \<Longrightarrow> l1 = l\<lparr>pd_mask := pd_mask l1, l_tbl := l_tbl l1\<rparr>"
  by (auto simp: attach_dev_def Let_def bind_eq_Some_conv split: if_split_asm)

lemma connect_devs_core:
  "connect_devs kmd alloc maxd n us ds l e = Some (rc, ds2, l2, e2) \<Longrightarrow>
   \<exists>m ts mx mn. l2 = l\<lparr>pd_mask := m, l_tbl := ts, max_delay := mx, min_delay := mn\<rparr>"
proof (induction us arbitrary: n ds l e)
  case Nil
  then have "l2 = l\<lparr>pd_mask := pd_mask l, l_tbl := l_tbl l, max_delay := max_delay l, min_delay := min_delay l\<rparr>" by simp
  then show ?case by blast
next
  case (Cons d us)
  obtain r d1 l1 where a: "attach_dev alloc d l = Some (r, d1, l1)"
    using Cons.prems by (auto simp: bind_eq_Some_conv)
  obtain m ts where l1: "l1 = l\<lparr>pd_mask := m, l_tbl := ts\<rparr>" using attach_core [OF a] by metis
  show ?case
  proof (cases "r = 0")
    case True
    with Cons.prems a obtain n' mx mn e' where
      "connect_devs kmd alloc maxd n' us (ds @ [d1]) (l1\<lparr>max_delay := mx, min_delay := mn\<rparr>) e' = Some (rc, ds2, l2, e2)"
      by (auto simp: Let_def)
    from Cons.IH [OF this] show ?thesis by (auto simp: l1)
  next
    case False
    with Cons.prems a have "l2 = l1" by simp
    then have "l2 = l\<lparr>pd_mask := m, l_tbl := ts, max_delay := max_delay l, min_delay := min_delay l\<rparr>" by (simp add: l1)
    then show ?thesis by blast
  qed
qed

lemma query_devs_delays:
  "query_devs kmd t hs ds e = (None, ds2, e2) \<Longrightarrow> \<forall>d \<in> set ds. delay_ok d \<Longrightarrow>
   (\<forall>d \<in> set ds2. delay_ok d) \<and> length ds2 = length ds + length hs"
proof (induction hs arbitrary: ds e)
  case (Cons h hs)
  from Cons.prems(1) obtain ds' e' where q: "query_devs kmd t hs ds' e' = (None, ds2, e2)" "length ds' = length ds + 1"
    "\<forall>d \<in> set ds'. delay_ok d"
    using Cons.prems(2) by (auto simp: Let_def case_prod_beta split: option.split_asm if_split_asm)
  from Cons.IH [OF q(1,3)] q(2) show ?case by simp
qed simp

lemma tbl_set_id_step: "tbls_step ts (fst (tbl_set_id ts n))"
  by (induction ts arbitrary: n) (auto simp: case_prod_beta tbl_step_def slots_ok_def)

lemma conn_wf:
  assumes "conn_link ds l" "max_delay l = top_pd (l_tbl l)" "ds \<noteq> []" "in_q l = Some q" "queue_ok q"
  shows "link_wf (l\<lparr>l_dev := ds, num_devs := int (length ds)\<rparr>)"
  using assms conn_devs_ok [of ds "l_tbl l"]
  by (auto simp: link_wf_def conn_link_def conn_def tbl_conn_def fresh_slots_ok)

lemma setup_in_q_ok: "queue_idx q \<Longrightarrow> setup_in_q (Some q) = (0, Some q') \<Longrightarrow> queue_ok q' \<and> queue_idx q'"
  by (auto simp: setup_in_q_def queue_ok_def queue_idx_def)

definition new_link :: "cam_req_mgr_core_link \<Rightarrow> bool" where
  "new_link l \<longleftrightarrow> link_bare l \<and> link_inv l \<and> max_delay l = 0 \<and> in_q l \<noteq> None \<and> is_used l"

lemma new_link_conn: "new_link l \<Longrightarrow> conn_link [] l \<and> max_delay l = top_pd (l_tbl l)"
  by (simp add: new_link_def link_bare_def conn_link_def conn_def pds_mask_def top_pd_def)

definition link_at :: "nat \<Rightarrow> cam_req_mgr_core_link \<Rightarrow> 'x crm_env \<Rightarrow> 'x crm \<Rightarrow> 'x crm" where
  "link_at i l e s = s\<lparr>g_links := (g_links s)(i := l), environ := e\<rparr>"

lemma link_at_put [simp]: "put_link i le s = link_at i (fst le) (snd le) s"
  "map_link i f s = link_at i (f (the_link i s)) (environ s) s" "link_at i l e (link_at i l' e' s) = link_at i l e s"
  "the_link i (link_at i l e s) = l" "environ (link_at i l e s) = e" "crm_hdls (link_at i l e s) = crm_hdls s"
  by (simp_all add: link_at_def put_link_def map_link_def upd_link_def the_link_def)

lemma wf_core_inv: "link_wf l \<Longrightarrow> is_used l \<Longrightarrow> link_core l \<Longrightarrow> link_inv l"
  by (simp add: link_inv_def link_core_def)

definition setup_done :: "int \<Rightarrow> cam_req_mgr_link_info \<Rightarrow> cam_req_mgr_core_link \<Rightarrow> bool" where
  "setup_done rc li l \<longleftrightarrow> link_inv l \<and> is_used l \<and> (link_bare l \<or> rc = 0 \<and> link_wf l \<and> num_devs l = uint (num_devices li))"

lemma setup_connect:
  assumes "connect_devs kmd alloc maxd 0 ds [] l e = Some (rc, ds2, l2, e2)" "conn_link [] l" "max_delay l = 0"
    "link_core l" "is_used l" "num_devs l = 0" "in_q l = Some q" "queue_ok q" "\<forall>d \<in> set ds. delay_ok d"
    "length ds = unat (num_devices li)"
  shows "if rc \<noteq> 0 then setup_done rc li (destroy_link_info (l2\<lparr>l_dev := ds2\<rparr>))
    else setup_done 0 li (l2\<lparr>l_dev := ds2, num_devs := uint (num_devices li), num_tbl := m,
           l_tbl := tbl_set_all_skip_cnt (fst (tbl_set_id (l_tbl l2) n))\<rparr>)"
proof -
  obtain pm ts mx mn where l2: "l2 = l\<lparr>pd_mask := pm, l_tbl := ts, max_delay := mx, min_delay := mn\<rparr>"
    using connect_devs_core [OF assms(1)] by blast
  have core: "link_core l2" using assms(4) by (simp add: l2 link_core_def)
  show ?thesis
  proof (cases "rc = 0")
    case False
    have "link_core (l2\<lparr>l_dev := ds2\<rparr>)" using core by (simp add: link_core_def)
    with False destroyed_bare [of "l2\<lparr>l_dev := ds2\<rparr>"] assms(5) show ?thesis
      by (simp add: setup_done_def destroy_link_info_def l2)
  next
    case True
    have top: "max_delay l = top_pd (l_tbl l)" using assms(2,3) by (simp add: conn_link_def top_pd_def)
    from connect_devs_conn [OF assms(1,2) top assms(9) True]
    have c: "conn_link ds2 l2" "max_delay l2 = top_pd (l_tbl l2)" "length ds2 = unat (num_devices li)"
      using assms(10) by auto
    let ?ts = "tbl_set_all_skip_cnt (fst (tbl_set_id (l_tbl l2) n))"
    have st: "tbls_step (l_tbl l2) ?ts" by (rule tbls_step_trans [OF tbl_set_id_step set_all_skip_step])
    let ?l = "l2\<lparr>l_dev := ds2, num_devs := uint (num_devices li)\<rparr>"
    show ?thesis
    proof (cases "ds2 = []")
      case ds: True
      with c have "l_tbl l2 = []" "uint (num_devices li) = 0" "pd_mask l2 = 0"
        by (simp_all add: conn_link_def pds_mask_def unat_eq_0)
      with True core assms(5,6,7,8) st show ?thesis
        by (simp add: setup_done_def link_inv_defs link_core_def l2)
    next
      case ds: False
      have "int (length ds2) = uint (num_devices li)" using c(3) by simp
      then have wf: "link_wf ?l" using conn_wf [OF c(1,2) ds] assms(7,8) by (simp add: l2)
      have "link_inv ?l" using wf assms(5) core by (intro wf_core_inv) (simp_all add: l2 link_core_def)
      then have "link_inv (?l\<lparr>num_tbl := m, l_tbl := ?ts\<rparr>)" using link_inv_tbl [of "?l\<lparr>num_tbl := m\<rparr>" ?ts] st by simp
      moreover have "\<not> link_bare (?l\<lparr>num_tbl := m, l_tbl := ?ts\<rparr>)"
        using wf tbls_step_nil [OF st] by (simp add: link_bare_def link_wf_def)
      ultimately show ?thesis using True assms(5) by (simp add: setup_done_def link_inv_def l2)
    qed
  qed
qed

text \<open>The outcomes of \<open>__cam_req_mgr_setup_link_info\<close>: a failure leaves the link bare, or the link is well-formed;
  but a device that reports a bad delay without an error gives a bare link and the status of success.\<close>

lemma setup_result:
  assumes "setup_link_info kmd alloc li i s = Some (rc, s')" "new_link (the_link i s)"
  shows "\<exists>l e. s' = link_at i l e s \<and> setup_done rc li l"
proof -
  from assms(2) obtain q0 where q0: "in_q (the_link i s) = Some q0" "queue_idx q0" by (auto simp: new_link_def link_bare_def)
  obtain q where q: "setup_in_q (Some q0) = (0, Some q)" by (auto simp: setup_in_q_def)
  note qok = setup_in_q_ok [OF q0(2) q]
  let ?l0 = "(the_link i s)\<lparr>num_tbl := 0, in_q := Some q\<rparr>"
  have l0: "link_core ?l0" "is_used ?l0" "num_devs ?l0 = 0" "conn_link [] ?l0" "max_delay ?l0 = 0"
    using assms(2) qok link_inv_core [of "the_link i s"] new_link_conn [of "the_link i s"]
    by (auto simp: new_link_def link_core_def link_bare_def conn_link_def)
  have keep: "setup_done rc li (destroy_link_info (?l0\<lparr>l_dev := ds\<rparr>))" for rc ds
    using destroyed_bare [of "?l0\<lparr>l_dev := ds\<rparr>"] l0(1,2) by (simp add: setup_done_def link_core_def destroy_link_info_def)
  obtain stop ds e1 where qd: "query_devs kmd (crm_hdls s) (map (dev_hdls li) [0..<unat (num_devices li)]) [] (environ s) = (stop, ds, e1)"
    by (rule prod_cases3)
  show ?thesis
  proof (cases "rc = - EPERM \<and> s' = s")
    case True
    then have "s' = link_at i (the_link i s) (environ s) s" by (simp add: link_at_def the_link_def)
    moreover have "setup_done rc li (the_link i s)" using assms(2) by (simp add: setup_done_def new_link_def)
    ultimately show ?thesis by blast
  next
    case notperm: False
    show ?thesis
    proof (cases stop)
      case (Some r)
      with notperm assms(1) q0 q qd have "s' = link_at i (destroy_link_info (?l0\<lparr>l_dev := ds\<rparr>)) e1 s"
        by (auto simp: setup_link_info_def Let_def split: if_split_asm)
      with keep show ?thesis by blast
    next
      case None
      show ?thesis
      proof (cases "CAM_REQ_MGR_MAX_TRIGGERS < int (triggers_of ds)")
        case True
        with None notperm assms(1) q0 q qd have "s' = link_at i (destroy_link_info (?l0\<lparr>l_dev := ds\<rparr>)) e1 s"
          by (auto simp: setup_link_info_def Let_def split: if_split_asm)
        with keep show ?thesis by blast
      next
        case False
        let ?l1 = "?l0\<lparr>l_dev := ds, dual_trigger := (int (triggers_of ds) = CAM_REQ_MGR_MAX_TRIGGERS \<or> dual_trigger ?l0)\<rparr>"
        from False None notperm assms(1) q0 q qd obtain rc2 ds2 l2 e2 where
          cd: "connect_devs kmd alloc (max_p_delay ds) 0 ds [] ?l1 e1 = Some (rc2, ds2, l2, e2)"
          and s': "if rc2 \<noteq> 0 then rc = rc2 \<and> s' = link_at i (destroy_link_info (l2\<lparr>l_dev := ds2\<rparr>)) e2 s
             else rc = 0 \<and> s' = link_at i (l2\<lparr>l_dev := ds2, num_devs := uint (num_devices li),
               num_tbl := snd (tbl_set_id (l_tbl l2) (num_tbl l2)),
               l_tbl := tbl_set_all_skip_cnt (fst (tbl_set_id (l_tbl l2) (num_tbl l2)))\<rparr>) e2 s"
          by (auto simp: setup_link_info_def Let_def bind_eq_Some_conv case_prod_beta split: if_split_asm)
        have dl: "\<forall>d \<in> set ds. delay_ok d" "length ds = unat (num_devices li)"
          using query_devs_delays [OF qd [unfolded None]] by auto
        have l1: "conn_link [] ?l1" "max_delay ?l1 = 0" "link_core ?l1" "is_used ?l1" "num_devs ?l1 = 0" "in_q ?l1 = Some q"
          using l0 by (simp_all add: conn_link_def link_core_def)
        from setup_connect [OF cd l1 conjunct1 [OF qok] dl] s' show ?thesis
          by (auto split: if_split_asm)
      qed
    qed
  qed
qed

end
