(* ===== verification/Cam_Crm_Reach.thy ===== *)
theory Cam_Crm_Reach
  imports Cam_Crm_Setup
begin

section \<open>The states the request manager can reach\<close>

text \<open>
  The steps of the request manager are its ioctls, the callbacks of the devices, the workers of the links and the
  watchdogs, in any order. Every state that steps lead to from the start satisfies \<open>crm_inv\<close>.
\<close>

subsection \<open>Reserving and freeing\<close>

lemma crm_inv_link_at: "crm_inv s \<Longrightarrow> link_inv l \<Longrightarrow> crm_inv (link_at i l e s)"
  by (simp add: link_at_def crm_inv_def links_inv_fun_upd)

lemma the_link_other [simp]: "the_link i (s\<lparr>ses_heap := h\<rparr>) = the_link i s" "the_link i (s\<lparr>crm_hdls := t\<rparr>) = the_link i s"
  "the_link i (s\<lparr>environ := e\<rparr>) = the_link i s"
  by (simp_all add: the_link_def)

lemma free_link_inv: "crm_inv s \<Longrightarrow> crm_inv (free_link i s)"
proof -
  assume inv: "crm_inv s"
  let ?l = "cam_req_mgr_core_link_reset ((the_link i s)\<lparr>in_q := None, link_parent := None\<rparr>)"
  have "link_core ((the_link i s)\<lparr>in_q := None, link_parent := None\<rparr>)"
    using link_inv_core [OF crm_inv_at [OF inv, of i]] by (simp add: link_core_def)
  then have "link_bare ?l" "link_inv ?l" by (simp_all add: reset_core)
  then have "link_inv (?l\<lparr>is_used := False\<rparr>)" by (auto simp: link_inv_defs)
  with inv show ?thesis by (simp add: free_link_def crm_inv_link_at)
qed

lemma new_q_idx [simp]: "queue_idx new_in_q"
  by (simp add: queue_idx_def new_in_q_def)

lemma init_new: "link_bare l \<Longrightarrow> link_inv l \<Longrightarrow> is_used l \<Longrightarrow> new_link (init_link k l)"
  by (simp add: new_link_def init_link_def link_inv_defs)

lemma reserve_inv:
  assumes "reserve_link alloc k c s = (io, s')" "crm_inv s"
  shows "crm_inv s' \<and> (\<forall>i. io = Some i \<longrightarrow> new_link (the_link i s'))"
proof -
  have r: "link_bare (cam_req_mgr_core_link_reset (the_link j s\<lparr>is_used := True\<rparr>)) \<and>
      link_inv (cam_req_mgr_core_link_reset (the_link j s\<lparr>is_used := True\<rparr>)) \<and>
      is_used (cam_req_mgr_core_link_reset (the_link j s\<lparr>is_used := True\<rparr>))" (is "link_bare (?r j) \<and> _") for j
    using reset_core [of "the_link j s\<lparr>is_used := True\<rparr>"] link_inv_core [OF crm_inv_at [OF assms(2), of j]]
    by (simp add: link_core_def cam_req_mgr_core_link_reset_def reset_apply_data_def clear_trigger_cnt_def)
  have n: "new_link (init_link k (?r j))" for j using init_new r by blast
  have b: "link_inv ((init_link k (?r j))\<lparr>in_q := None\<rparr>)" for j
    using n [of j] by (auto simp: new_link_def link_inv_defs)
  show ?thesis
    using assms r n b
    by (auto simp: reserve_link_def Let_def new_link_def split: if_split_asm option.split_asm
        intro!: crm_inv_link_at)
qed

lemma unsync_step_inv: "links_inv L \<Longrightarrow> links_inv (unsync_step i p L)"
  by (auto simp: unsync_step_def split: option.split intro!: links_inv_upd)

lemma unreserve_inv:
  assumes "unreserve_link k i s = Some s'" "crm_inv s"
  shows "crm_inv s'"
proof -
  have "links_inv (fold (\<lambda>m. unsync_step i (f m)) ms L)" if "links_inv L" for f ms L
    using that by (induction ms arbitrary: L) (auto intro: unsync_step_inv)
  from this [OF crm_inv_links [OF assms(2)]]
  have "links_inv (upd_link i (\<lambda>l. l\<lparr>sync_link := (sync_link l)(0 := None, 1 := None, 2 := None)\<rparr>)
      (fold (\<lambda>m. unsync_step i (f m)) [0, 1, 2, 3] (g_links s)))" for f
    by (rule links_inv_upd) simp
  with assms show ?thesis
    by (auto simp: unreserve_link_def Let_def bind_eq_Some_conv crm_inv_def split: if_split_asm
        intro!: free_link_inv [unfolded crm_inv_def])
qed

lemma bare_dev: "link_bare l \<Longrightarrow> link_inv l \<Longrightarrow> link_inv (l\<lparr>l_dev := ds\<rparr>)"
  by (simp add: link_inv_defs)

lemma link_failed_inv:
  assumes "link_failed rc made k i s = Some (r, h, s')" "crm_inv s" "link_bare (the_link i s)"
  shows "crm_inv s'"
proof -
  have "links_inv (upd_link i (\<lambda>l. l\<lparr>l_dev := []\<rparr>) (g_links s))"
    using crm_inv_links [OF assms(2)] bare_dev [OF assms(3) crm_inv_at [OF assms(2)]]
    by (auto simp: the_link_def intro!: links_inv_upd)
  with assms show ?thesis
    by (auto simp: link_failed_def Let_def bind_eq_Some_conv crm_inv_def split: if_split_asm
        dest!: unreserve_inv [unfolded crm_inv_def])
qed

subsection \<open>Making and unmaking a link\<close>

lemma link_bare_fields [simp]: "link_bare (l\<lparr>link_hdl := h\<rparr>) = link_bare l" "link_bare (l\<lparr>last_flush_id := f\<rparr>) = link_bare l"
  "link_bare (l\<lparr>link_workq := w\<rparr>) = link_bare l"
  by (simp_all add: link_bare_def)

lemma start_worker_inv:
  assumes "start_worker al h i s = (rc, s')" "crm_inv s"
  shows "crm_inv s' \<and> (rc < 0 \<longrightarrow> link_bare (the_link i s'))"
proof -
  have c: "link_core ((the_link i s)\<lparr>link_state := st, link_workq := w\<rparr>)" for st w
    using link_inv_core [OF crm_inv_at [OF assms(2), of i]] by (simp add: link_core_def)
  note d = destroyed_bare [OF c]
  have e: "link_inv ((destroy_link_info ((the_link i s)\<lparr>link_state := st\<rparr>))\<lparr>link_workq := None\<rparr>) \<and>
      link_bare ((destroy_link_info ((the_link i s)\<lparr>link_state := st\<rparr>))\<lparr>link_workq := None\<rparr>)" for st
    using destroyed_bare [of "(the_link i s)\<lparr>link_state := st\<rparr>"] link_inv_core [OF crm_inv_at [OF assms(2), of i]]
    by (simp add: link_core_def)
  show ?thesis
    using assms d e crm_inv_at [OF assms(2), of i]
    by (auto simp: start_worker_def Let_def case_prod_beta split: if_split_asm intro!: crm_inv_link_at)
qed

lemma new_link_fields [simp]: "new_link (l\<lparr>link_hdl := h\<rparr>) = new_link l" "new_link (l\<lparr>last_flush_id := f\<rparr>) = new_link l"
  by (simp_all add: new_link_def link_bare_def)

definition keeps3 :: "(int \<times> u32 \<times> 'x crm) option \<Rightarrow> bool" where
  "keeps3 m \<longleftrightarrow> (\<forall>rc h s'. m = Some (rc, h, s') \<longrightarrow> crm_inv s')"

lemma keeps3_failed: "crm_inv s \<Longrightarrow> link_bare (the_link i s) \<Longrightarrow> keeps3 (link_failed rc made k i s)"
  by (auto simp: keeps3_def dest: link_failed_inv)

lemma keeps3_if: "(c \<Longrightarrow> keeps3 a) \<Longrightarrow> (\<not> c \<Longrightarrow> keeps3 b) \<Longrightarrow> keeps3 (if c then a else b)"
  by simp

lemma keeps3_bind: "(\<And>x. m = Some x \<Longrightarrow> keeps3 (f x)) \<Longrightarrow> keeps3 (Option.bind m f)"
  by (auto simp: keeps3_def bind_eq_Some_conv)

lemma keeps3_Some [simp]: "keeps3 (Some (rc, h, s)) = crm_inv s"
  by (simp add: keeps3_def)

lemma new_link_inv: "new_link l \<Longrightarrow> link_inv l \<and> link_bare l"
  by (simp add: new_link_def)

lemma make_link_keeps:
  assumes "crm_inv s" "new_link (the_link i s)"
  shows "keeps3 (make_link kmd al li k i s)"
proof -
  have st: "crm_inv s3 \<and> (rc < 0 \<longrightarrow> link_bare (the_link i s3))"
    if "setup_link_info kmd f li i s2 = Some (rc, s3)" "crm_inv s2" "new_link (the_link i s2)" for f s2 rc s3
    using setup_result [OF that(1,3)] that(2) by (auto simp: setup_done_def intro!: crm_inv_link_at)
  have inv: "crm_inv (link_at i l e (s\<lparr>crm_hdls := t\<rparr>))" if "new_link l" for l e t
    using assms(1) that new_link_inv by (auto intro: crm_inv_link_at)
  show ?thesis unfolding make_link_def Let_def
    using assms(2) new_link_inv [of "the_link i s"]
    by (auto intro!: keeps3_if keeps3_bind keeps3_failed inv split: prod.split
        dest!: st start_worker_inv)
qed

lemma link_common_keeps: "crm_inv s \<Longrightarrow> keeps3 (link_common kmd al limit li s)"
  unfolding link_common_def Let_def
  by (auto intro!: keeps3_if keeps3_bind make_link_keeps split: option.split prod.split dest!: reserve_inv)

lemma link_v1_keeps: "crm_inv s \<Longrightarrow> keeps3 (cam_req_mgr_link kmd al li s)"
  by (simp add: cam_req_mgr_link_def link_common_keeps)

lemma link_v2_keeps: "crm_inv s \<Longrightarrow> keeps3 (cam_req_mgr_link_v2 kmd al li s)"
proof -
  assume "crm_inv s"
  then have "keeps3 (link_common kmd al MAX_HANDLES_V2 (li\<lparr>li_version := 2\<rparr>) s)" by (rule link_common_keeps)
  then have "crm_inv s1" if "link_common kmd al MAX_HANDLES_V2 (li\<lparr>li_version := 2\<rparr>) s = Some (rc, h, s1)" for rc h s1
    using that by (simp add: keeps3_def)
  then show ?thesis unfolding cam_req_mgr_link_v2_def Let_def
    by (intro keeps3_bind) (auto simp: crm_inv_at intro!: crm_inv_link_at split: option.split)
qed

lemma link_at_hdls [simp]: "link_at i l e (s\<lparr>crm_hdls := t\<rparr>) = link_at i l e s\<lparr>crm_hdls := t\<rparr>"
  by (simp add: link_at_def)

lemma disconnect_link_at: "\<exists>ds e. snd (disconnect_link kmd i s) = link_at i ((the_link i s)\<lparr>l_dev := ds\<rparr>) e s"
  by (auto simp: disconnect_link_def Let_def case_prod_beta)

lemma unlink_inv: "crm_inv s \<Longrightarrow> crm_inv (snd (unlink_devices kmd i s))"
proof -
  assume inv: "crm_inv s"
  define s2 where "s2 = (let s1 = map_link i (\<lambda>l. l\<lparr>link_state := CAM_CRM_LINK_STATE_IDLE\<rparr>) s in
    if is_shutdown (the_link i s1) then s1 else snd (disconnect_link kmd i s1))"
  have core: "link_core ((the_link i s)\<lparr>link_state := CAM_CRM_LINK_STATE_IDLE, l_dev := ds\<rparr>)"
    "link_core ((the_link i s)\<lparr>link_state := CAM_CRM_LINK_STATE_IDLE\<rparr>)" for ds
    using link_inv_core [OF crm_inv_at [OF inv, of i]] by (simp_all add: link_core_def)
  obtain ds e where "snd (disconnect_link kmd i (map_link i (\<lambda>l. l\<lparr>link_state := CAM_CRM_LINK_STATE_IDLE\<rparr>) s)) =
      link_at i ((the_link i s)\<lparr>link_state := CAM_CRM_LINK_STATE_IDLE, l_dev := ds\<rparr>) e s"
    using disconnect_link_at [of kmd i "map_link i (\<lambda>l. l\<lparr>link_state := CAM_CRM_LINK_STATE_IDLE\<rparr>) s"] by auto
  then obtain l2 e2 where s2: "s2 = link_at i l2 e2 s" "link_core l2"
    using core by (simp add: s2_def Let_def split: if_split_asm) metis
  let ?l3 = "(destroy_link_info (l2\<lparr>watchdog := crm_timer_exit (watchdog l2),
                 link_workq := fst (cam_req_mgr_workq_destroy (link_workq l2))\<rparr>))"
  have "link_bare ?l3" "link_inv ?l3" using s2(2) by (simp_all add: destroyed_bare link_core_def)
  then have l3: "link_inv (?l3\<lparr>l_dev := []\<rparr>)" by (rule bare_dev)
  have "crm_inv (link_at i (?l3\<lparr>l_dev := []\<rparr>) e2 s)" using inv l3 by (rule crm_inv_link_at)
  then show ?thesis
    unfolding unlink_devices_def Let_def s2_def [unfolded Let_def, symmetric] s2(1)
    using inv l3 by (auto simp: case_prod_beta intro!: crm_inv_link_at)
qed

lemma cam_req_mgr_unlink_keeps: "crm_inv s \<Longrightarrow> keeps (cam_req_mgr_unlink kmd sh lh s)"
  unfolding cam_req_mgr_unlink_def Let_def case_prod_beta
  by (auto intro!: keeps_bind dest!: unreserve_inv [OF _ unlink_inv] split: option.split)

subsection \<open>Sessions\<close>

lemma create_session_inv: "crm_inv s \<Longrightarrow> crm_inv (snd (snd (cam_req_mgr_create_session mem r s)))"
  by (auto simp: cam_req_mgr_create_session_def Let_def case_prod_beta split: option.split)

lemma destroy_session_link_inv: "crm_inv s \<Longrightarrow> crm_inv (destroy_session_link kmd sd lo s)"
  by (auto simp: destroy_session_link_def crm_inv_at split: option.split intro!: free_link_inv unlink_inv crm_inv_link_at)

lemma destroy_session_keeps: "crm_inv s \<Longrightarrow> keeps (cam_req_mgr_destroy_session kmd h sd s)"
  unfolding cam_req_mgr_destroy_session_def Let_def case_prod_beta
  by (auto intro!: keeps_bind destroy_session_link_inv split: option.split)

lemma shutdown_inv: "shutdown_loop kmd ks s = Some s' \<Longrightarrow> crm_inv s \<Longrightarrow> crm_inv s'"
  by (induction ks arbitrary: s) (auto simp: bind_eq_Some_conv dest: keeps_D [OF _ destroy_session_keeps])

subsection \<open>The other ioctls\<close>

lemma schedule_on_keeps:
  assumes "crm_inv s" "\<And>i c s1. crm_inv s1 \<Longrightarrow> keeps (f i c s1)"
  shows "keeps (schedule_on h req f s)"
  unfolding schedule_on_def
  by (auto intro!: keeps_bind assms crm_inv_link_at crm_inv_at split: option.split)

lemma process_sched_keeps: "crm_inv s \<Longrightarrow> keeps (cam_req_mgr_process_sched_req sr i s)"
  by (auto simp: keeps_def dest: process_sched_inv)

lemma schedule_keeps: "crm_inv s \<Longrightarrow> keeps (cam_req_mgr_schedule_request stk sr s)"
  unfolding cam_req_mgr_schedule_request_def by (intro schedule_on_keeps process_sched_keeps)

lemma schedule_v2_keeps: "crm_inv s \<Longrightarrow> keeps (cam_req_mgr_schedule_request_v2 stk sr s)"
  unfolding cam_req_mgr_schedule_request_v2_def Let_def
  by (intro schedule_on_keeps) (auto intro!: keeps_if keeps_bind process_sched_keeps)

lemma sync_lookup_inv: "sync_lookup n hs ls s = Some (r, s') \<Longrightarrow> crm_inv s \<Longrightarrow> crm_inv s'"
proof (induction n hs ls s rule: sync_lookup.induct)
  case (2 n h hs ls s)
  have "crm_inv (map_link i (unsync_link n) s)" for i
    using 2(3) by (auto simp: unsync_link_def crm_inv_at intro: crm_inv_link_at)
  with 2 show ?case
    by (auto simp: bind_eq_Some_conv simp del: link_at_put split: if_split_asm option.split_asm)
qed simp

lemma add_partner_inv: "link_inv (snd (fold add_partner js (k, l))) = link_inv l"
  by (induction js arbitrary: k l) (simp_all add: add_partner_def)

lemma restart_sync_inv [simp]: "link_inv (restart_sync l) = link_inv l"
  by (simp add: restart_sync_def)

lemma fold_links_inv: "(\<And>x L. links_inv L \<Longrightarrow> links_inv (f x L)) \<Longrightarrow> links_inv L \<Longrightarrow> links_inv (fold f xs L)"
  by (induction xs arbitrary: L) auto

lemma sync_config_keeps: "crm_inv s \<Longrightarrow> keeps (cam_req_mgr_sync_config sm s)"
proof -
  assume inv: "crm_inv s"
  have j: "links_inv (join_links ls L)" "links_inv (fold (\<lambda>i. upd_link i restart_sync) ls L)" if "links_inv L" for ls L
    using that by (auto simp: join_links_def add_partner_inv intro!: fold_links_inv links_inv_upd)
  have g: "crm_inv (t\<lparr>g_links := L\<rparr>) = links_inv L" for t :: "'a crm" and L by (simp add: crm_inv_def)
  show ?thesis unfolding cam_req_mgr_sync_config_def Let_def
    by (auto intro!: keeps_bind inv j crm_inv_links simp: g inv split: option.split prod.split dest!: sync_lookup_inv [OF _ inv])
qed

lemma flush_requests_keeps:
  assumes "crm_inv s"
  shows "keeps (cam_req_mgr_flush_requests (\<lambda>x. Some (r, x)) fi s)"
  unfolding cam_req_mgr_flush_requests_def
  by (auto intro!: keeps_bind assms queue_or_busy_inv crm_inv_link_at crm_inv_at split: option.split)

lemma activate_inv: "activate_link kmd al ms i s = Some (rc, s') \<Longrightarrow> crm_inv s \<Longrightarrow> crm_inv s'"
  by (auto simp: activate_link_def Let_def case_prod_beta send_evt_inv crm_inv_at split: option.split_asm
      intro!: crm_inv_link_at)

lemma deactivate_inv: "crm_inv s \<Longrightarrow> crm_inv (deactivate_link kmd i s)"
  by (auto simp: deactivate_link_def send_evt_inv crm_inv_at intro!: crm_inv_link_at)

lemma control_keeps: "crm_inv s \<Longrightarrow> keeps (control_loop kmd al lc ms rc s)"
proof (induction ms arbitrary: rc s)
  case (Cons m ms)
  then show ?case
    by (auto intro!: keeps_bind keeps_if Cons.IH intro: activate_inv deactivate_inv split: option.split)
qed simp

lemma link_control_keeps: "crm_inv s \<Longrightarrow> keeps (cam_req_mgr_link_control kmd al lc s)"
  by (simp add: cam_req_mgr_link_control_def control_keeps)

lemma link_properties_inv: "cam_req_mgr_link_properties kmd h m s = Some (rc, s') \<Longrightarrow> crm_inv s \<Longrightarrow> crm_inv s'"
  by (auto simp: cam_req_mgr_link_properties_def Let_def bind_eq_Some_conv crm_inv_at case_prod_beta
      split: option.split_asm if_split_asm intro!: crm_inv_link_at)

lemma dump_request_inv: "cam_req_mgr_dump_request kmd h di s = Some (rc, off, s') \<Longrightarrow> crm_inv s \<Longrightarrow> crm_inv s'"
  by (auto simp: cam_req_mgr_dump_request_def Let_def bind_eq_Some_conv case_prod_beta
      split: option.split_asm if_split_asm)

subsection \<open>Steps\<close>

text \<open>The array of links is zero before the device exists.\<close>

definition zero_link :: cam_req_mgr_core_link where
  "zero_link = \<lparr>link_hdl = 0, num_devs = 0, max_delay = 0, min_delay = 0, link_workq = None,
     task_data = (\<lambda>_. Task_none), pd_mask = 0, l_dev = [], in_q = None, l_tbl = [], num_tbl = 0,
     apply_data = (\<lambda>_. zero_apply), prev_apply_data = (\<lambda>_. zero_apply), watchdog = None, workq_comp = False,
     link_state = CAM_CRM_LINK_STATE_AVAILABLE, link_parent = None, sync_link = (\<lambda>_. None), num_sync_links = 0,
     sync_link_sof_skip = False, open_req_cnt = 0, last_flush_id = 0, is_used = False, is_master = False,
     initial_skip = False, in_msync_mode = False, initial_sync_req = 0, retry_cnt = 0, is_shutdown = False,
     sof_timestamp = 0, prev_sof_timestamp = 0, dual_trigger = False, trigger_cnt = (\<lambda>_ _. 0), eof_event_cnt = 0,
     skip_init_frame = False, last_sof_trigger_jiffies = 0, wq_congestion = False,
     try_for_internal_recovery = False, properties_mask = 0\<rparr>"

text \<open>One rule for each ioctl, each callback of a device, the worker and the watchdog of a link. A driver
  may change the table of handles and the devices at any time, and the switch for recovery is set from outside. The
  caller of a flush waits while the worker makes steps of its own.\<close>

inductive crm_step :: "'x kmd \<Rightarrow> 'x crm \<Rightarrow> 'x crm \<Rightarrow> bool" for kmd :: "'x kmd" where
  create_session: "cam_req_mgr_create_session mem r s = (rc, h, s') \<Longrightarrow> crm_step kmd s s'"
| destroy_session: "cam_req_mgr_destroy_session kmd h sd s = Some (rc, s') \<Longrightarrow> crm_step kmd s s'"
| core_shutdown: "cam_req_mgr_handle_core_shutdown kmd s = Some s' \<Longrightarrow> crm_step kmd s s'"
| new_link: "cam_req_mgr_link kmd al li s = Some (rc, h, s') \<Longrightarrow> crm_step kmd s s'"
| new_link_v2: "cam_req_mgr_link_v2 kmd al li s = Some (rc, h, s') \<Longrightarrow> crm_step kmd s s'"
| unlink: "cam_req_mgr_unlink kmd sh lh s = Some (rc, s') \<Longrightarrow> crm_step kmd s s'"
| schedule: "cam_req_mgr_schedule_request stk sr s = Some (rc, s') \<Longrightarrow> crm_step kmd s s'"
| schedule_v2: "cam_req_mgr_schedule_request_v2 stk sr2 s = Some (rc, s') \<Longrightarrow> crm_step kmd s s'"
| sync_config: "cam_req_mgr_sync_config sm s = Some (rc, s') \<Longrightarrow> crm_step kmd s s'"
| flush: "cam_req_mgr_flush_requests (\<lambda>x. Some (r, x)) fi s = Some (rc, s') \<Longrightarrow> crm_step kmd s s'"
| link_control: "cam_req_mgr_link_control kmd ok lc s = Some (rc, s') \<Longrightarrow> crm_step kmd s s'"
| link_properties: "cam_req_mgr_link_properties kmd lh m s = Some (rc, s') \<Longrightarrow> crm_step kmd s s'"
| dump_request: "cam_req_mgr_dump_request kmd sh di s = Some (rc, off, s') \<Longrightarrow> crm_step kmd s s'"
| add_req: "cam_req_mgr_cb_add_req aq s = Some (rc, s') \<Longrightarrow> crm_step kmd s s'"
| notify_err: "cam_req_mgr_cb_notify_err er s = Some (rc, s') \<Longrightarrow> crm_step kmd s s'"
| notify_trigger: "cam_req_mgr_cb_notify_trigger td s = Some (rc, s') \<Longrightarrow> crm_step kmd s s'"
| notify_timer: "cam_req_mgr_cb_notify_timer lh on s = Some (rc, s') \<Longrightarrow> crm_step kmd s s'"
| notify_stop: "cam_req_mgr_cb_notify_stop lh s = Some (rc, s') \<Longrightarrow> crm_step kmd s s'"
| worker: "work_one kmd i s = Some s' \<Longrightarrow> crm_step kmd s s'"
| freeze: "crm_step kmd s (sof_freeze i s)"
| outside: "crm_step kmd s (s\<lparr>crm_hdls := t, recovery_on_apply_fail := b, environ := e\<rparr>)"

inductive crm_reachable :: "'x kmd \<Rightarrow> 'x crm \<Rightarrow> bool" for kmd :: "'x kmd" where
  start: "cam_req_mgr_core_device_init True (\<lambda>_. zero_link) t e None = (0, Some s) \<Longrightarrow> crm_reachable kmd s"
| step: "crm_reachable kmd s \<Longrightarrow> crm_step kmd s s' \<Longrightarrow> crm_reachable kmd s'"

lemma zero_core: "link_core (zero_link\<lparr>is_used := b\<rparr>)" "link_inv zero_link"
  by (simp_all add: zero_link_def link_core_def idx_ok_def zero_apply_def link_inv_defs)

lemma start_inv: "cam_req_mgr_core_device_init True (\<lambda>_. zero_link) t e None = (0, Some s) \<Longrightarrow> crm_inv s"
  using zero_core reset_core by (auto simp: cam_req_mgr_core_device_init_def crm_inv_def links_inv_def)

lemma crm_step_inv: "crm_step kmd s s' \<Longrightarrow> crm_inv s \<Longrightarrow> crm_inv s'"
proof (induction rule: crm_step.induct)
  case (create_session mem r s rc h s')
  then show ?case using create_session_inv [of s mem r] by simp
next
  case (outside s t b e)
  then show ?case by (simp add: crm_inv_def)
qed (auto simp: cam_req_mgr_handle_core_shutdown_def intro: shutdown_inv work_one_inv sof_freeze_inv dump_request_inv
    link_properties_inv dest: keeps_D [OF _ destroy_session_keeps] keeps_D [OF _ cam_req_mgr_unlink_keeps]
    keeps_D [OF _ schedule_keeps] keeps_D [OF _ schedule_v2_keeps] keeps_D [OF _ sync_config_keeps]
    keeps_D [OF _ flush_requests_keeps] keeps_D [OF _ link_control_keeps] keeps_D [OF _ cb_add_keeps]
    keeps_D [OF _ cb_err_keeps] keeps_D [OF _ cb_trigger_keeps] keeps_D [OF _ cb_timer_keeps]
    keeps_D [OF _ cb_stop_keeps] link_v1_keeps [unfolded keeps3_def, rule_format]
    link_v2_keeps [unfolded keeps3_def, rule_format])

lemma reachable_inv: "crm_reachable kmd s \<Longrightarrow> crm_inv s"
  by (induction rule: crm_reachable.induct) (auto intro: start_inv crm_step_inv)

end
