(* ===== verification/Cam_Crm_Demo.thy ===== *)
theory Cam_Crm_Demo
  imports Cam_Crm_Reach
begin

section \<open>A run of the request manager\<close>

text \<open>
  A session with a link of two devices, a sensor of delay 2 and a second stage of delay 1. A request is scheduled,
  both devices announce their settings, and the worker of the link takes the announcements. The state after the
  link has been made and the state at the end are the examples of the theories on the request manager.
\<close>

type_synonym calls = "(u32 \<times> u64 \<times> u32) list"

text \<open>A device that applies its settings at the start of a frame and records the calls.\<close>

definition demo_dev :: "int \<Rightarrow> calls cam_req_mgr_kmd_ops" where
  "demo_dev pd = \<lparr>
     op_get_dev_info = Some (\<lambda>h w. (0, \<lparr>di_name = ''dev'', di_dev_id = 0, p_delay = pd, di_trigger = 1, trigger_on = False\<rparr>, w)),
     op_link_setup = Some (\<lambda>r w. (0, w)),
     op_apply_req = Some (\<lambda>r w. (0, w @ [(ar_dev_hdl r, ar_request_id r, ar_trigger_point r)])),
     op_notify_frame_skip = None, op_flush_req = None, op_process_evt = None, op_dump_req = None\<rparr>"

definition demo_kmd :: "calls kmd" where
  "demo_kmd p = demo_dev (int p)"

definition demo_env :: "calls crm_env" where
  "demo_env = \<lparr>dev_world = [], v4l_events = [], jiffies = 0, jiffies_to_msecs = (\<lambda>_. 0), stack_flag = False,
     stale_payload = (\<lambda>_. (0, 0))\<rparr>"

definition add_dev :: "u32 \<Rightarrow> nat \<Rightarrow> hdl_table \<Rightarrow> u32 \<times> hdl_table" where
  "add_dev ses pd t = (let (h, t') = cam_create_device_hdl True 0
     \<lparr>cdh_session_hdl = ses, cdh_dev_id = CAM_CRM, cdh_ops = Some pd, cdh_priv = Some 5\<rparr> t in (word_of_int h, t'))"

definition demo_allocs :: link_allocs where
  "demo_allocs = \<lparr>al_in_q = True, al_subdevs = True, al_tbl = (\<lambda>_. True), al_workq = True, al_workqueue = (\<lambda>_ _ _. True),
     al_pool = True, al_payload = True, al_rand = 0, al_name = (\<lambda>_ _. ''''), al_crm_active = True\<rparr>"

definition demo_start :: "calls crm option" where
  "demo_start = snd (cam_req_mgr_core_device_init True (\<lambda>_. zero_link)
     (snd (cam_req_mgr_util_init True None True None)) demo_env None)"

definition demo_linked :: "(u32 \<times> u32 \<times> u32 \<times> u32 \<times> calls crm) option" where
  "demo_linked = do {
     s0 \<leftarrow> demo_start;
     let (rc, ses, s1) = cam_req_mgr_create_session (Some 0) 0 s0;
     let (d2, t2) = add_dev ses 2 (crm_hdls s1);
     let (d1, t1) = add_dev ses 1 t2;
     (rc, h, s2) \<leftarrow> cam_req_mgr_link demo_kmd demo_allocs
        \<lparr>li_version = 0, li_session_hdl = ses, num_devices = 2, dev_hdls = (\<lambda>k. if k = 0 then d2 else d1)\<rparr> (s1\<lparr>crm_hdls := t1\<rparr>);
     if rc = 0 then Some (ses, h, d2, d1, s2) else None }"

definition demo_sched :: "(u32 \<times> u32 \<times> u32 \<times> u32 \<times> calls crm) option" where
  "demo_sched = do {
     (ses, h, d2, d1, s) \<leftarrow> demo_linked;
     (rc, s) \<leftarrow> cam_req_mgr_schedule_request
       \<lparr>sr_session_hdl = 0, sr_link_hdl = 0, sr_bubble_enable = 0, sr_sync_mode = 0, sr_additional_timeout = 0, sr_req_id = 0,
        sr_num_links = 0, sr_link_hdls = (\<lambda>_. 0)\<rparr>
       \<lparr>sr_session_hdl = ses, sr_link_hdl = h, sr_bubble_enable = 1, sr_sync_mode = 0, sr_additional_timeout = 0, sr_req_id = 1\<rparr> s;
     (rc, s) \<leftarrow> cam_req_mgr_cb_add_req
       \<lparr>aq_link_hdl = h, aq_dev_hdl = d2, aq_req_id = 1, skip_at_sof = 0, skip_at_eof = 0, trigger_eof = False\<rparr> s;
     s \<leftarrow> work_one demo_kmd 0 s;
     (rc, s) \<leftarrow> cam_req_mgr_cb_add_req
       \<lparr>aq_link_hdl = h, aq_dev_hdl = d1, aq_req_id = 1, skip_at_sof = 0, skip_at_eof = 0, trigger_eof = False\<rparr> s;
     s \<leftarrow> work_one demo_kmd 0 s;
     Some (ses, h, d2, d1, s) }"

text \<open>What the examples need to know of a link.\<close>

definition dev_view :: "cam_req_mgr_core_link \<Rightarrow> (u32 \<times> nat \<times> int option) list" where
  "dev_view l = map (\<lambda>d. (cd_dev_hdl d, dev_bit d, pd_tbl d)) (l_dev l)"

definition tbl_view :: "cam_req_mgr_core_link \<Rightarrow> (int \<times> u32 \<times> int \<times> (crm_req_state \<times> u32) list) list" where
  "tbl_view l = map (\<lambda>t. (tb_pd t, dev_mask t, skip_traverse t, map (\<lambda>k. (ts_state (tb_slot t k), req_ready_map (tb_slot t k))) [0, 1])) (l_tbl l)"

definition q_view :: "cam_req_mgr_core_link \<Rightarrow> (int \<times> int \<times> int \<times> (crm_slot_status \<times> int) list) option" where
  "q_view l = map_option (\<lambda>q. (q_num_slots q, rd_idx q, wr_idx q,
     map (\<lambda>k. (sl_status (q_slot q k), sl_req_id (q_slot q k))) [0, 1])) (in_q l)"

definition sync_view :: "nat \<Rightarrow> 'x crm \<Rightarrow> int \<times> nat option \<times> bool \<times> bool option" where
  "sync_view i s = (num_sync_links (the_link i s), link_parent (the_link i s), ses_heap s 0 \<noteq> None,
     map_option (\<lambda>q. list_all (\<lambda>k. sl_sync_mode (q_slot q k) = CAM_REQ_MGR_SYNC_MODE_NO_SYNC) [0..47]) (in_q (the_link i s)))"

definition demo_link_state :: "calls crm" where
  "demo_link_state = (case demo_linked of Some (ses, h, d2, d1, s) \<Rightarrow> s)"

definition demo_state :: "calls crm" where
  "demo_state = (case demo_sched of Some (ses, h, d2, d1, s) \<Rightarrow> s)"

lemma demo_linked_value:
  "map_option (\<lambda>(ses, h, d2, d1, s). (ses, h, d2, d1, dev_view (the_link 0 s), tbl_view (the_link 0 s), q_view (the_link 0 s),
     link_state (the_link 0 s), num_devs (the_link 0 s), checked_link s h)) demo_linked =
   Some (512, 259, 257, 258, [(257, 0, Some 2), (258, 0, Some 1)],
     [(2, 1, 0, [(CRM_REQ_STATE_EMPTY, 0), (CRM_REQ_STATE_EMPTY, 0)]), (1, 1, 1, [(CRM_REQ_STATE_EMPTY, 0), (CRM_REQ_STATE_EMPTY, 0)])],
     Some (48, 0, 0, [(CRM_SLOT_STATUS_NO_REQ, - 1), (CRM_SLOT_STATUS_NO_REQ, - 1)]), CAM_CRM_LINK_STATE_READY, 2, Some (Some 0))"
  by code_simp

lemma demo_sched_value:
  "map_option (\<lambda>(ses, h, d2, d1, s). (ses, h, d2, d1, dev_view (the_link 0 s), tbl_view (the_link 0 s), q_view (the_link 0 s),
     link_state (the_link 0 s), num_devs (the_link 0 s), checked_link s h, sync_view 0 s)) demo_sched =
   Some (512, 259, 257, 258, [(257, 0, Some 2), (258, 0, Some 1)],
     [(2, 1, 0, [(CRM_REQ_STATE_READY, 1), (CRM_REQ_STATE_EMPTY, 0)]), (1, 1, 1, [(CRM_REQ_STATE_READY, 1), (CRM_REQ_STATE_EMPTY, 0)])],
     Some (48, 0, 1, [(CRM_SLOT_STATUS_REQ_ADDED, 1), (CRM_SLOT_STATUS_NO_REQ, - 1)]), CAM_CRM_LINK_STATE_READY, 2, Some (Some 0), 0, Some 0, True, Some True)"
  by code_simp

lemma demo_linked_Some: "demo_linked = Some (512, 259, 257, 258, demo_link_state)"
proof -
  from demo_linked_value obtain s where s: "demo_linked = Some (512, 259, 257, 258, s)" by auto
  show ?thesis unfolding demo_link_state_def s by simp
qed

lemma demo_sched_Some: "demo_sched = Some (512, 259, 257, 258, demo_state)"
proof -
  from demo_sched_value obtain s where s: "demo_sched = Some (512, 259, 257, 258, s)" by auto
  show ?thesis unfolding demo_state_def s by simp
qed

lemma outside_hdls: "crm_reachable kmd s \<Longrightarrow> crm_reachable kmd (s\<lparr>crm_hdls := t\<rparr>)"
  using crm_step.outside [where kmd = kmd and s = s and t = t and b = "recovery_on_apply_fail s" and e = "environ s"]
  by (auto intro: crm_reachable.step)

lemma demo_link_reachable: "crm_reachable demo_kmd demo_link_state"
proof -
  obtain s0 where s0: "demo_start = Some s0" by (auto simp: demo_start_def cam_req_mgr_core_device_init_def)
  then have r0: "crm_reachable demo_kmd s0"
    by (intro crm_reachable.start [of "snd (cam_req_mgr_util_init True None True None)" demo_env])
      (auto simp: demo_start_def cam_req_mgr_core_device_init_def)
  obtain rc ses s1 where s1: "cam_req_mgr_create_session (Some 0) 0 s0 = (rc, ses, s1)" by (rule prod_cases3)
  have r1: "crm_reachable demo_kmd s1" using r0 crm_step.create_session [OF s1] by (rule crm_reachable.step)
  from demo_linked_Some [unfolded demo_linked_def s0] s1 obtain t li where "cam_req_mgr_link demo_kmd demo_allocs li (s1\<lparr>crm_hdls := t\<rparr>) =
      Some (0, 259, demo_link_state)"
    by (auto simp: bind_eq_Some_conv Let_def case_prod_beta split: if_split_asm)
  with crm_step.new_link [OF this] r1 show ?thesis by (blast intro: crm_reachable.step outside_hdls)
qed

lemma demo_state_reachable: "crm_reachable demo_kmd demo_state"
proof -
  from demo_sched_Some [unfolded demo_sched_def demo_linked_Some] obtain stk sr rc1 s1 aq2 rc2 s2 s3 aq1 rc4 s4 where
    st: "cam_req_mgr_schedule_request stk sr demo_link_state = Some (rc1, s1)"
    "cam_req_mgr_cb_add_req aq2 s1 = Some (rc2, s2)" "work_one demo_kmd 0 s2 = Some s3"
    "cam_req_mgr_cb_add_req aq1 s3 = Some (rc4, s4)" "work_one demo_kmd 0 s4 = Some demo_state"
    by (auto simp: bind_eq_Some_conv)
  have "crm_reachable demo_kmd s2"
    using demo_link_reachable crm_step.schedule [OF st(1)] crm_step.add_req [OF st(2)] by (blast intro: crm_reachable.step)
  with crm_step.worker [OF st(3)] crm_step.add_req [OF st(4)] crm_step.worker [OF st(5)]
  show ?thesis by (blast intro: crm_reachable.step)
qed

lemmas demo_link_view = demo_linked_value [unfolded demo_linked_Some, simplified]
lemmas demo_view = demo_sched_value [unfolded demo_sched_Some, simplified]

lemma demo_wf: "link_wf (the_link 0 demo_link_state)" "link_wf (the_link 0 demo_state)"
proof -
  have "link_wf (the_link 0 s)" if "crm_reachable demo_kmd s" "num_devs (the_link 0 s) = 2" for s
    using crm_inv_at [OF reachable_inv [OF that(1)], of 0] that(2) by (auto simp: link_inv_def link_bare_def)
  then show "link_wf (the_link 0 demo_link_state)" "link_wf (the_link 0 demo_state)"
    using demo_link_reachable demo_state_reachable demo_link_view demo_view by auto
qed

end
