(* ===== verification/Cam_Crm_Props.thy ===== *)
theory Cam_Crm_Props
  imports Cam_Crm_Demo
begin

section \<open>Properties of the request manager\<close>

text \<open>
  What holds in every reachable state of the request manager, and what its operations on one link do: readiness of a
  request, scheduling, flushing, triggers from two sources, and the pairing of links.
\<close>

subsection \<open>The invariant and its consequences\<close>



lemma wf_of_devs: "link_inv l \<Longrightarrow> num_devs l \<noteq> 0 \<Longrightarrow> link_wf l"
  by (auto simp: link_inv_def link_bare_def)

lemma link_devs_wf: "link_wf l \<Longrightarrow> link_devs l = l_dev l"
  by (simp add: link_wf_def link_devs_def)

text \<open>In every reachable state, the indices that the handlers use on a link with devices are inside the arrays of
  48 slots: the read and the write index, the result of a search for a request, and the slots planned for each
  device; and every device leads to a table.\<close>

theorem crm_indices_in_range:
  assumes "crm_reachable kmd s" "num_devs (the_link i s) \<noteq> 0" "d \<in> set (link_devs (the_link i s))"
  shows "\<exists>q. in_q (the_link i s) = Some q \<and> rd_idx q \<in> {0..<MAX_REQ_SLOTS} \<and> wr_idx q \<in> {0..<MAX_REQ_SLOTS} \<and>
      find_slot_for_req q req \<in> {- 1..<MAX_REQ_SLOTS} \<and>
      ad_idx (apply_data (the_link i s) (p_delay (dev_info d))) \<in> {0..<MAX_REQ_SLOTS} \<and>
      pd_slot (l_tbl (the_link i s)) d k \<noteq> None"
proof -
  note inv = crm_inv_at [OF reachable_inv [OF assms(1)], of i]
  note wf = wf_of_devs [OF inv assms(2)]
  then obtain q where q: "in_q (the_link i s) = Some q" "queue_ok q" by (auto simp: link_wf_def)
  from wf assms(3) have d: "dev_ok (l_tbl (the_link i s)) d" by (simp add: link_devs_wf link_wf_def devs_ok_def)
  then obtain t where t: "pd_tbl d = Some (p_delay (dev_info d))" "find_pd_tbl (l_tbl (the_link i s)) (p_delay (dev_info d)) = Some t"
    by (auto simp: dev_ok_def)
  have "pdt_ok t" using wf find_pd_tbl_Some [OF t(2)] by (auto simp: link_wf_def intro: tbls_wf_ok)
  then have "ad_idx (apply_data (the_link i s) (p_delay (dev_info d))) \<in> {0..<MAX_REQ_SLOTS}"
    using inv find_pd_tbl_Some [OF t(2)] by (auto simp: link_inv_def idx_ok_def pdt_ok_def)
  with q t find_slot_range [OF q(2), of req] show ?thesis by (auto simp: queue_ok_def pd_slot_def)
qed

lemma demo_devs:
  assumes "dev_view l = [(h1, b1, p1), (h2, b2, p2)]" "link_wf l"
  obtains d e where "link_devs l = [d, e]" "l_dev l = [d, e]" "dev_bit d = b1" "dev_bit e = b2" "pd_tbl d = p1" "pd_tbl e = p2"
proof -
  from assms(1) obtain d e where "l_dev l = [d, e]" "dev_bit d = b1" "dev_bit e = b2" "pd_tbl d = p1" "pd_tbl e = p2"
    by (auto simp: dev_view_def map_eq_Cons_conv)
  with link_devs_wf [OF assms(2)] show thesis by (intro that) simp_all
qed

theorem crm_indices_in_range_witness:
  "\<exists>q. in_q (the_link 0 demo_state) = Some q \<and> rd_idx q \<in> {0..<MAX_REQ_SLOTS} \<and> find_slot_for_req q 1 \<in> {- 1..<MAX_REQ_SLOTS}"
proof -
  from demo_view have v: "dev_view (the_link 0 demo_state) = [(257, 0, Some 2), (258, 0, Some 1)]"
    "num_devs (the_link 0 demo_state) = 2" by simp_all
  then show ?thesis
    using demo_devs [OF v(1) demo_wf(2)] crm_indices_in_range [OF demo_state_reachable, of 0 _ 1] by (metis list.set_intros(1) zero_neq_numeral)
qed

subsection \<open>Which requests are ready\<close>

lemma check_ready_spec:
  assumes "link_wf l" "in_q l = Some q" "0 \<le> idx" "idx < MAX_REQ_SLOTS"
  shows "check_link_is_ready idx vo l = Some
    (let ok = (\<forall>t \<in> set (l_tbl l). slot_passes q t ((idx - (max_delay l - tb_pd t)) mod MAX_REQ_SLOTS));
         ad = (if vo then apply_data l else (\<lambda>pd. if pd \<in> {0, 1, 2} then zero_apply else apply_data l pd))
     in (if ok then 0 else - CRM_EAGAIN,
         l\<lparr>apply_data := (if ok \<and> \<not> vo then planned q (l_tbl l) idx (max_delay l) ad else ad), initial_skip := False,
           l_tbl := (if ok \<and> \<not> vo then map less_skip (l_tbl l) else l_tbl l)\<rparr>))"
proof -
  let ?ad = "if vo then apply_data l else (\<lambda>pd. if 0 \<le> pd \<and> pd < 3 then zero_apply else apply_data l pd)"
  have ad: "?ad = (if vo then apply_data l else (\<lambda>pd. if pd \<in> {0, 1, 2} then zero_apply else apply_data l pd))"
    by (auto simp: fun_eq_iff)
  obtain rc ts tv ad' where tr: "traverse q (l_tbl l) (new_traverse idx vo l) ?ad = (rc, ts, tv, ad')"
    by (rule prod_cases4)
  have c: "check_link_is_ready idx vo l = Some (if rc = 0 \<and> tv_result tv = pd_mask l then 0 else - CRM_EAGAIN,
      l\<lparr>apply_data := ad', initial_skip := False, l_tbl := ts\<rparr>)"
    using tr assms(1,2) by (simp add: check_link_is_ready_def Let_def link_wf_def)
  have ok: "all_pass q (l_tbl l) idx (max_delay l) \<longleftrightarrow>
      (\<forall>t \<in> set (l_tbl l). slot_passes q t ((idx - (max_delay l - tb_pd t)) mod MAX_REQ_SLOTS))"
    by (simp add: all_pass_def slot_of_def)
  have "traverse_ok q (l_tbl l) (new_traverse idx vo l) ?ad"
    using assms by (intro traverse_spec) (auto simp: new_traverse_def link_wf_def)
  with tr assms(1) have r: "if all_pass q (l_tbl l) idx (max_delay l)
      then rc = 0 \<and> tv_result tv = pd_mask l \<and> ts = (if vo then l_tbl l else map less_skip (l_tbl l)) \<and>
        ad' = (if vo then ?ad else planned q (l_tbl l) idx (max_delay l) ?ad)
      else rc = - CRM_EAGAIN \<and> ts = l_tbl l \<and> ad' = ?ad"
    by (simp add: traverse_ok_def Let_def new_traverse_def link_wf_def)
  show ?thesis unfolding c ad [symmetric] ok [symmetric] Let_def
    by (cases "all_pass q (l_tbl l) idx (max_delay l)"; cases vo) (use r in simp_all)
qed

text \<open>C9: The check whether a frame can be served equals a specification without recursion. Seen from index \<open>idx\<close>, a
  table of delay \<open>p\<close> is asked for the slot \<open>max_delay - p\<close> places back in the ring; the answer is yes exactly when
  each of these slots is ready, to be skipped, or of a table whose turn has not come. Only a check that is not a
  mere validation then changes the link: it plans, for each delay, that slot and its request.\<close>

theorem check_link_is_ready_exact:
  assumes "link_wf l" "in_q l = Some q" "0 \<le> idx" "idx < MAX_REQ_SLOTS"
  shows "check_link_is_ready idx vo l = Some
    (let ok = (\<forall>t \<in> set (l_tbl l). slot_passes q t ((idx - (max_delay l - tb_pd t)) mod MAX_REQ_SLOTS));
         ad = (if vo then apply_data l else (\<lambda>pd. if pd \<in> {0, 1, 2} then zero_apply else apply_data l pd))
     in (if ok then 0 else - CRM_EAGAIN,
         l\<lparr>apply_data := (if ok \<and> \<not> vo then planned q (l_tbl l) idx (max_delay l) ad else ad), initial_skip := False,
           l_tbl := (if ok \<and> \<not> vo then map less_skip (l_tbl l) else l_tbl l)\<rparr>))"
  using assms by (rule check_ready_spec)

lemma demo_tbls:
  obtains t u where "l_tbl (the_link 0 demo_state) = [t, u]" "tb_pd t = 2" "tb_pd u = 1" "skip_traverse t = 0" "skip_traverse u = 1"
    "ts_state (tb_slot t 0) = CRM_REQ_STATE_READY" "max_delay (the_link 0 demo_state) = 2" "dev_mask t = 1"
proof -
  from demo_view have "tbl_view (the_link 0 demo_state) =
      [(2, 1, 0, [(CRM_REQ_STATE_READY, 1), (CRM_REQ_STATE_EMPTY, 0)]), (1, 1, 1, [(CRM_REQ_STATE_READY, 1), (CRM_REQ_STATE_EMPTY, 0)])]"
    by simp
  then show thesis using that demo_wf(2) by (auto simp: tbl_view_def map_eq_Cons_conv link_wf_def top_pd_def)
qed

theorem check_link_is_ready_exact_witness: "map_option fst (check_link_is_ready 0 True (the_link 0 demo_state)) = Some 0"
proof -
  from demo_wf(2) obtain q where q: "in_q (the_link 0 demo_state) = Some q" by (auto simp: link_wf_def)
  show ?thesis
    by (rule demo_tbls) (use check_link_is_ready_exact [OF demo_wf(2) q, of 0 True] in \<open>simp add: Let_def slot_passes_def\<close>)
qed

lemma demo_ready: "map_option fst (check_link_is_ready 0 True (the_link 0 demo_state)) = Some 0"
proof -
  from demo_wf(2) obtain q where q: "in_q (the_link 0 demo_state) = Some q" by (auto simp: link_wf_def)
  show ?thesis
    by (rule demo_tbls) (use check_ready_spec [OF demo_wf(2) q, of 0 True] in \<open>simp add: Let_def slot_passes_def\<close>)
qed

text \<open>C13: A frame is only served when the devices are ready for it. When the check succeeds in a reachable state, then for
  every device whose table is not skipped, either the slot asked for is one to be skipped or this very device has
  announced its settings for that slot.\<close>

theorem ready_only_when_announced:
  assumes "crm_reachable kmd s" "in_q (the_link i s) = Some q" "0 \<le> idx" "idx < MAX_REQ_SLOTS"
    "check_link_is_ready idx vo (the_link i s) = Some (0, l')"
    "d \<in> set (link_devs (the_link i s))" "find_pd_tbl (l_tbl (the_link i s)) (p_delay (dev_info d)) = Some t"
    "skip_traverse t \<le> 0" "k = (idx - (max_delay (the_link i s) - tb_pd t)) mod MAX_REQ_SLOTS"
  shows "skip_idx (q_slot q k) = 1 \<or> bit (req_ready_map (tb_slot t k)) (dev_bit d)"
proof -
  note inv = crm_inv_at [OF reachable_inv [OF assms(1)], of i]
  have "num_devs (the_link i s) \<noteq> 0" using assms(6) by (auto simp: link_devs_def)
  note wf = wf_of_devs [OF inv this]
  have t: "t \<in> set (l_tbl (the_link i s))" using find_pd_tbl_Some [OF assms(7)] by simp
  from check_ready_spec [OF wf assms(2-4), of vo] assms(5)
  have "\<forall>t \<in> set (l_tbl (the_link i s)). slot_passes q t ((idx - (max_delay (the_link i s) - tb_pd t)) mod MAX_REQ_SLOTS)"
    by (auto simp: Let_def split: if_split_asm)
  with t assms(9) have "slot_passes q t k" by blast
  moreover have "dev_ok (l_tbl (the_link i s)) d" "slots_ok t"
    using wf assms(6) t by (auto simp: link_devs_wf [OF wf] link_wf_def devs_ok_def)
  ultimately show ?thesis using assms(7,8) by (auto simp: slot_passes_def slots_ok_def dev_ok_def)
qed

theorem ready_only_when_announced_witness:
  "\<exists>q d (t :: cam_req_mgr_req_tbl). in_q (the_link 0 demo_state) = Some q \<and> d \<in> set (link_devs (the_link 0 demo_state)) \<and>
     (skip_idx (q_slot q 0) = 1 \<or> bit (req_ready_map (tb_slot t 0)) (dev_bit d))"
proof -
  from demo_wf(2) obtain q where q: "in_q (the_link 0 demo_state) = Some q" by (auto simp: link_wf_def)
  obtain t u where t: "l_tbl (the_link 0 demo_state) = [t, u]" "tb_pd t = 2" "skip_traverse t = 0" "max_delay (the_link 0 demo_state) = 2"
    by (rule demo_tbls)
  from demo_ready obtain l' where c: "check_link_is_ready 0 True (the_link 0 demo_state) = Some (0, l')"
    by auto
  from demo_view have "dev_view (the_link 0 demo_state) = [(257, 0, Some 2), (258, 0, Some 1)]" by simp
  from demo_devs [OF this demo_wf(2)] obtain d e where d: "link_devs (the_link 0 demo_state) = [d, e]"
    "l_dev (the_link 0 demo_state) = [d, e]" "pd_tbl d = Some 2" by metis
  then have "find_pd_tbl (l_tbl (the_link 0 demo_state)) (p_delay (dev_info d)) = Some t"
    using demo_wf(2) t by (auto simp: link_wf_def devs_ok_def dev_ok_def find_pd_tbl_def)
  from ready_only_when_announced [OF demo_state_reachable q _ _ c _ this, of 0] t d q show ?thesis
    by (intro exI [of _ q] exI [of _ d] exI [of _ t]) auto
qed

end
