(* ===== verification/Cam_Crm_Requests.thy ===== *)
theory Cam_Crm_Requests
  imports Cam_Crm_Demo
begin

section \<open>Requests in the ring\<close>

text \<open>
  Searching, scheduling, flushing and rewinding: what the operations on the queue of a link do to the ring of 48
  slots.
\<close>

subsection \<open>The search\<close>

lemma dec_one: "0 \<le> i \<Longrightarrow> i < MAX_REQ_SLOTS \<Longrightarrow> dec_idx i 1 MAX_REQ_SLOTS = (i - 1) mod MAX_REQ_SLOTS"
  by (rule dec_idx_mod) simp_all

lemma find_slot_loop_spec:
  assumes "q_num_slots q = MAX_REQ_SLOTS" "0 \<le> i" "i < MAX_REQ_SLOTS"
  shows "(\<exists>j < m. find_slot_loop m i q req = (i - int j) mod MAX_REQ_SLOTS \<and>
        sl_req_id (q_slot q ((i - int j) mod MAX_REQ_SLOTS)) = req \<and>
        (\<forall>k < j. sl_req_id (q_slot q ((i - int k) mod MAX_REQ_SLOTS)) \<noteq> req)) \<or>
      find_slot_loop m i q req = - 1 \<and> (\<forall>k < m. sl_req_id (q_slot q ((i - int k) mod MAX_REQ_SLOTS)) \<noteq> req)"
  using assms(2,3)
proof (induction m arbitrary: i)
  case (Suc m)
  let ?i = "(i - 1) mod MAX_REQ_SLOTS"
  have sh: "(?i - int k) mod MAX_REQ_SLOTS = (i - int (Suc k)) mod MAX_REQ_SLOTS" for k
  proof -
    have "(?i - int k) mod MAX_REQ_SLOTS = (i - 1 - int k) mod MAX_REQ_SLOTS" by (rule mod_diff_left_eq)
    also have "i - 1 - int k = i - int (Suc k)" by simp
    finally show ?thesis .
  qed
  have i0: "(i - int 0) mod MAX_REQ_SLOTS = i" using Suc.prems by simp
  show ?case
  proof (cases "sl_req_id (q_slot q i) = req")
    case True
    then show ?thesis using i0 by (intro disjI1 exI [of _ 0]) simp
  next
    case False
    have "find_slot_loop (Suc m) i q req = find_slot_loop m ?i q req"
      using False Suc.prems by (simp add: assms(1) dec_one)
    moreover have all: "(\<forall>k < Suc n. sl_req_id (q_slot q ((i - int k) mod MAX_REQ_SLOTS)) \<noteq> req) \<longleftrightarrow>
        (\<forall>k < n. sl_req_id (q_slot q ((i - int (Suc k)) mod MAX_REQ_SLOTS)) \<noteq> req)" for n
      unfolding All_less_Suc2 using False i0 by simp
    have r: "0 \<le> ?i" "?i < MAX_REQ_SLOTS" by simp_all
    from Suc.IH [OF r, unfolded sh] show ?thesis
    proof (elim disjE exE conjE)
      fix j assume "j < m" "find_slot_loop m ?i q req = (i - int (Suc j)) mod MAX_REQ_SLOTS"
        "sl_req_id (q_slot q ((i - int (Suc j)) mod MAX_REQ_SLOTS)) = req"
        "\<forall>k < j. sl_req_id (q_slot q ((i - int (Suc k)) mod MAX_REQ_SLOTS)) \<noteq> req"
      with calculation all [of j] show ?thesis by (intro disjI1 exI [of _ "Suc j"]) simp
    next
      assume "find_slot_loop m ?i q req = - 1" "\<forall>k < m. sl_req_id (q_slot q ((i - int (Suc k)) mod MAX_REQ_SLOTS)) \<noteq> req"
      with calculation all [of m] show ?thesis by (intro disjI2) simp
    qed
  qed
qed simp

lemma ring_step: "0 \<le> k \<Longrightarrow> k < MAX_REQ_SLOTS \<Longrightarrow> \<exists>j < nat MAX_REQ_SLOTS. (i - int j) mod MAX_REQ_SLOTS = k"
proof -
  assume k: "0 \<le> k" "k < MAX_REQ_SLOTS"
  have "(i - (i - k) mod MAX_REQ_SLOTS) mod MAX_REQ_SLOTS = (i - (i - k)) mod MAX_REQ_SLOTS" by (rule mod_diff_right_eq)
  also have "\<dots> = k" using k by simp
  finally have e: "(i - (i - k) mod MAX_REQ_SLOTS) mod MAX_REQ_SLOTS = k" .
  have "int (nat ((i - k) mod MAX_REQ_SLOTS)) = (i - k) mod MAX_REQ_SLOTS" by simp
  with e show ?thesis by (intro exI [of _ "nat ((i - k) mod MAX_REQ_SLOTS)"]) simp
qed

lemma find_slot_none: "queue_ok q \<Longrightarrow>
  find_slot_for_req q req = - 1 \<longleftrightarrow> (\<forall>k \<in> {0..<MAX_REQ_SLOTS}. sl_req_id (q_slot q k) \<noteq> req)"
proof -
  assume q: "queue_ok q"
  have "\<forall>k \<in> {0..<MAX_REQ_SLOTS}. sl_req_id (q_slot q k) \<noteq> req"
    if "\<forall>j < nat MAX_REQ_SLOTS. sl_req_id (q_slot q ((rd_idx q - int j) mod MAX_REQ_SLOTS)) \<noteq> req"
    using that ring_step [of _ "rd_idx q"] by fastforce
  then show ?thesis
    using find_slot_loop_spec [of q "rd_idx q" "nat MAX_REQ_SLOTS" req] q pos_mod_sign [of MAX_REQ_SLOTS]
    by (fastforce simp: find_slot_for_req_def queue_ok_def)
qed

lemma find_slot_unique:
  assumes "queue_ok q" "k \<in> {0..<MAX_REQ_SLOTS}" "sl_req_id (q_slot q k) = req"
    "\<forall>m \<in> {0..<MAX_REQ_SLOTS}. m \<noteq> k \<longrightarrow> sl_req_id (q_slot q m) \<noteq> req"
  shows "find_slot_for_req q req = k"
proof -
  have "find_slot_for_req q req \<noteq> - 1" using assms by (auto simp: find_slot_none)
  then obtain j where "find_slot_for_req q req = (rd_idx q - int j) mod MAX_REQ_SLOTS"
    "sl_req_id (q_slot q ((rd_idx q - int j) mod MAX_REQ_SLOTS)) = req"
    using find_slot_loop_spec [of q "rd_idx q" "nat MAX_REQ_SLOTS" req] assms(1)
    by (auto simp: find_slot_for_req_def queue_ok_def)
  with assms(4) show ?thesis by (metis atLeastLessThan_iff pos_mod_bound pos_mod_sign zero_less_numeral)
qed

subsection \<open>Scheduling\<close>

lemma sched_result:
  assumes "cam_req_mgr_process_sched_req sr i s = Some (rc, s')" "in_q (the_link i s) = Some q"
  obtains nh where "rc = 0" "in_q (the_link i s') = Some ((upd_slot (wr_idx q) (sched_slot sr nh) q)\<lparr>wr_idx := inc_idx (wr_idx q) 1 (q_num_slots q)\<rparr>)"
    "open_req_cnt (the_link i s') = open_req_cnt (the_link i s) + 1" "l_tbl (the_link i s') = l_tbl (the_link i s)"
proof -
  have fi: "in_q (forget_initial_sync js L k) = in_q (L k)" "open_req_cnt (forget_initial_sync js L k) = open_req_cnt (L k)"
    "l_tbl (forget_initial_sync js L k) = l_tbl (L k)" for js L k
    unfolding forget_initial_sync_def by (induction js arbitrary: L) (simp_all add: upd_link_def split: option.split)
  show thesis
    using assms by (auto simp: cam_req_mgr_process_sched_req_def Let_def bind_eq_Some_conv the_link_def link_at_def
        set_links_def fi upd_link_def split: if_split_asm intro!: that)
qed

text \<open>C14: Scheduling and the search of the devices fit together. A request that is in no slot yet goes to the slot at the
  write index, with its synchronisation and recovery settings; a later search for it, such as every announcement of a
  device starts with, returns that slot; the write index moves on by one around the ring, and no other slot and no
  table changes.\<close>

theorem scheduled_request_found:
  assumes "cam_req_mgr_process_sched_req sr i s = Some (rc, s')" "in_q (the_link i s) = Some q" "queue_ok q"
    "\<forall>k \<in> {0..<MAX_REQ_SLOTS}. sl_req_id (q_slot q k) \<noteq> sr_req_id sr"
  shows "\<exists>q'. in_q (the_link i s') = Some q' \<and> find_slot_for_req q' (sr_req_id sr) = wr_idx q \<and>
      sl_status (q_slot q' (wr_idx q)) = CRM_SLOT_STATUS_REQ_ADDED \<and> skip_idx (q_slot q' (wr_idx q)) = 0 \<and>
      sl_sync_mode (q_slot q' (wr_idx q)) = sr_sync_mode sr \<and> recover (q_slot q' (wr_idx q)) = sr_bubble_enable sr \<and>
      (\<forall>k. k \<noteq> wr_idx q \<longrightarrow> q_slot q' k = q_slot q k) \<and> rd_idx q' = rd_idx q \<and>
      wr_idx q' = (wr_idx q + 1) mod MAX_REQ_SLOTS \<and> l_tbl (the_link i s') = l_tbl (the_link i s) \<and> rc = 0"
proof -
  from assms(1,2) obtain nh where
    r: "rc = 0" "in_q (the_link i s') = Some ((upd_slot (wr_idx q) (sched_slot sr nh) q)\<lparr>wr_idx := inc_idx (wr_idx q) 1 (q_num_slots q)\<rparr>)"
    "l_tbl (the_link i s') = l_tbl (the_link i s)" by (rule sched_result)
  let ?q = "(upd_slot (wr_idx q) (sched_slot sr nh) q)\<lparr>wr_idx := inc_idx (wr_idx q) 1 (q_num_slots q)\<rparr>"
  have "q_step q (upd_slot (wr_idx q) (sched_slot sr nh) q)" by (rule upd_slot_step) (simp add: sched_slot_def)
  then have "queue_ok ?q" using assms(3) by (auto simp: q_step_def queue_ok_def inc_idx_def)
  then have "find_slot_for_req ?q (sr_req_id sr) = wr_idx q"
    using assms(3,4) by (intro find_slot_unique) (auto simp: queue_ok_def upd_slot_def sched_slot_def)
  with r assms(3) show ?thesis by (simp add: upd_slot_def sched_slot_def inc_idx_def queue_ok_def)
qed

definition demo_sr :: cam_req_mgr_sched_request_v2 where
  "demo_sr = \<lparr>sr_session_hdl = 512, sr_link_hdl = 259, sr_bubble_enable = 1, sr_sync_mode = 0, sr_additional_timeout = 0,
     sr_req_id = 7, sr_num_links = 0, sr_link_hdls = (\<lambda>_. 0)\<rparr>"

definition demo_queue :: cam_req_mgr_req_queue where
  "demo_queue = the (snd (setup_in_q (Some new_in_q)))"

definition demo_empty :: "calls crm" where
  "demo_empty = \<lparr>g_links = (\<lambda>_. zero_link\<lparr>in_q := Some demo_queue\<rparr>), ses_heap = (\<lambda>_. None), session_head = [], crm_hdls = None,
     recovery_on_apply_fail = False, environ = demo_env\<rparr>"

lemma demo_queue_ok: "queue_ok demo_queue" "sl_req_id (q_slot demo_queue k) = (if 0 \<le> k \<and> k < 48 then - 1 else 0)"
  "rd_idx demo_queue = 0" "wr_idx demo_queue = 0" "q_num_slots demo_queue = 48"
proof -
  have "setup_in_q (Some new_in_q) = (0, Some demo_queue)" by (simp add: demo_queue_def setup_in_q_def)
  then show "queue_ok demo_queue" using setup_in_q_ok [OF new_q_idx] by blast
qed (simp_all add: demo_queue_def setup_in_q_def new_in_q_def zero_slot_def)

lemma demo_empty_link: "in_q (the_link i demo_empty) = Some demo_queue" "num_sync_links (the_link i demo_empty) = 0"
  by (simp_all add: demo_empty_def the_link_def zero_link_def)

theorem scheduled_request_found_witness:
  "\<exists>s' q'. cam_req_mgr_process_sched_req demo_sr 0 demo_empty = Some (0, s') \<and> in_q (the_link 0 s') = Some q' \<and>
     find_slot_for_req q' 7 = 0 \<and> wr_idx q' = 1"
proof -
  obtain s' where s': "cam_req_mgr_process_sched_req demo_sr 0 demo_empty = Some (0, s')"
    by (simp add: cam_req_mgr_process_sched_req_def demo_empty_link demo_queue_ok demo_sr_def link_sync_list_def Let_def)
  from scheduled_request_found [OF s' demo_empty_link(1) demo_queue_ok(1)] obtain q' where
    "in_q (the_link 0 s') = Some q'" "find_slot_for_req q' 7 = 0" "wr_idx q' = 1"
    by (auto simp: demo_queue_ok demo_sr_def)
  with s' show ?thesis by blast
qed

subsection \<open>Flushing\<close>

definition flushed_slot :: "cam_req_mgr_slot \<Rightarrow> bool" where
  "flushed_slot x \<longleftrightarrow> sl_status x = CRM_SLOT_STATUS_NO_REQ \<and> sl_req_id x = - 1 \<and> skip_idx x = 1"

definition flushed_tbl_slot :: "cam_req_mgr_tbl_slot \<Rightarrow> bool" where
  "flushed_tbl_slot x \<longleftrightarrow> ts_state x = CRM_REQ_STATE_EMPTY \<and> req_ready_map x = 0"

definition flushed_below :: "int \<Rightarrow> cam_req_mgr_core_link \<Rightarrow> bool" where
  "flushed_below n l \<longleftrightarrow> (\<exists>q. in_q l = Some q \<and> queue_ok q \<and> (\<forall>k \<in> {0..<n}. flushed_slot (q_slot q k))) \<and>
     (\<forall>t \<in> set (l_tbl l). \<forall>k \<in> {0..<n}. flushed_tbl_slot (tb_slot t k))"

lemma leave_sync_flushed [simp]: "flushed_slot (leave_sync h x) = flushed_slot x"
  by (simp add: flushed_slot_def leave_sync_def)

lemma flush_slot_flushed [simp]: "flushed_slot (flush_slot x)"
  by (simp add: flushed_slot_def flush_slot_def clear_sync_hdls_def)

lemma flush_tbl_slot_flushed [simp]: "flushed_tbl_slot (flush_tbl_slot x)"
  by (simp add: flushed_tbl_slot_def flush_tbl_slot_def)

lemma disconnect_flushed:
  "disconnect_loop h req js L = Some L' \<Longrightarrow> flushed_below n (L i) \<Longrightarrow> flushed_below n (L' i) \<and> last_flush_id (L' i) = last_flush_id (L i)"
proof (induction js arbitrary: L)
  case (Cons jo js)
  show ?case
  proof (cases jo)
    case (Some j)
    have u: "flushed_below n (upd_link j (\<lambda>l. l\<lparr>in_q := Some (upd_slot idx (leave_sync h) q)\<rparr>) L i) \<and>
        last_flush_id (upd_link j (\<lambda>l. l\<lparr>in_q := Some (upd_slot idx (leave_sync h) q)\<rparr>) L i) = last_flush_id (L i)"
      if "in_q (L j) = Some q" for idx q
    proof (cases "j = i")
      case True
      have "q_step q (upd_slot idx (leave_sync h) q)" by (rule upd_slot_step) simp
      with True that Cons.prems(2) show ?thesis
        by (auto simp: flushed_below_def upd_link_def upd_slot_def q_step_def)
    qed (use Cons.prems(2) in \<open>simp add: upd_link_def\<close>)
    with Cons.prems Some Cons.IH show ?thesis
      by (auto simp: Let_def bind_eq_Some_conv split: if_split_asm)
  qed (use Cons in simp)
qed simp

lemma disconnect_req_flushed:
  "disconnect_flushed_req_on_sync_link i sl s = Some s' \<Longrightarrow> flushed_below n (the_link i s) \<Longrightarrow>
   flushed_below n (the_link i s') \<and> last_flush_id (the_link i s') = last_flush_id (the_link i s)"
  by (auto simp: disconnect_flushed_req_on_sync_link_def bind_eq_Some_conv the_link_def set_links_def split: if_split_asm
      dest: disconnect_flushed)

lemma flush_idx_flushed: "flushed_below n l \<Longrightarrow> 0 \<le> n \<Longrightarrow> flushed_below (n + 1) (flush_idx n l)"
proof -
  assume f: "flushed_below n l" and n: "0 \<le> n"
  have "q_step q (upd_slot n flush_slot q)" for q by (rule upd_slot_step) simp
  with f show ?thesis
    by (auto simp: flushed_below_def flush_idx_def upd_slot_def upd_tbl_slot_def q_step_def)
qed

lemma flush_loop_flushed:
  "flush_loop k n i s = Some s' \<Longrightarrow> flushed_below n (the_link i s) \<Longrightarrow> 0 \<le> n \<Longrightarrow>
   flushed_below (n + int k) (the_link i s') \<and> last_flush_id (the_link i s') = last_flush_id (the_link i s)"
proof (induction k arbitrary: n s)
  case (Suc k)
  from Suc.prems obtain q s1 where "in_q (the_link i s) = Some q"
    and d: "disconnect_flushed_req_on_sync_link i (q_slot q n) s = Some s1"
    and fl: "flush_loop k (n + 1) i (map_link i (flush_idx n) s1) = Some s'"
    by (auto simp: bind_eq_Some_conv simp del: link_at_put)
  have f: "flushed_below (n + 1) (the_link i (map_link i (flush_idx n) s1))"
    using disconnect_req_flushed [OF d Suc.prems(2)] Suc.prems(3) by (simp add: flush_idx_flushed)
  have "last_flush_id (flush_idx n l) = last_flush_id l" for l by (simp add: flush_idx_def)
  with Suc.IH [OF fl f] Suc.prems(3) disconnect_req_flushed [OF d Suc.prems(2)] show ?case
    by (simp add: algebra_simps)
qed simp

lemma flush_req_slot_flushed:
  assumes "flush_req_slot i s = Some s'" "in_q (the_link i s) = Some q" "queue_ok q"
  shows "flushed_below MAX_REQ_SLOTS (the_link i s')" "last_flush_id (the_link i s') = last_flush_id (the_link i s)"
    "\<exists>q'. in_q (the_link i s') = Some q' \<and> rd_idx q' = 0 \<and> wr_idx q' = 0"
proof -
  from assms obtain s1 where fl: "flush_loop 48 0 i s = Some s1"
    and s': "s' = map_link i (\<lambda>l. clear_trigger_cnt (l\<lparr>eof_event_cnt := 0,
        in_q := map_option (\<lambda>q. q\<lparr>wr_idx := 0, rd_idx := 0\<rparr>) (in_q l)\<rparr>)) s1"
    by (auto simp: flush_req_slot_def bind_eq_Some_conv queue_ok_def simp del: link_at_put flush_loop.simps)
  have "flushed_below 0 (the_link i s)" using assms(2,3) by (simp add: flushed_below_def)
  from flush_loop_flushed [OF fl this] have f: "flushed_below 48 (the_link i s1)" "last_flush_id (the_link i s1) = last_flush_id (the_link i s)"
    by simp_all
  then show "flushed_below MAX_REQ_SLOTS (the_link i s')" "last_flush_id (the_link i s') = last_flush_id (the_link i s)"
    "\<exists>q'. in_q (the_link i s') = Some q' \<and> rd_idx q' = 0 \<and> wr_idx q' = 0"
    using restart_step by (auto simp: s' flushed_below_def clear_trigger_cnt_def q_step_def)
qed

lemma the_link_env [simp]: "the_link i (s\<lparr>environ := e\<rparr>) = the_link i s"
  by (simp add: the_link_def)

lemma flush_all_state:
  assumes "cam_req_mgr_process_flush_req kmd fi i s = Some (rc, s')" "flush_type fi = CAM_REQ_MGR_FLUSH_TYPE_ALL"
    "in_q (the_link i s) = Some q" "queue_ok q"
  shows "rc = 0" "flushed_below MAX_REQ_SLOTS (the_link i s')" "last_flush_id (the_link i s') = fl_req_id fi"
    "open_req_cnt (the_link i s') = 0" "\<exists>q'. in_q (the_link i s') = Some q' \<and> rd_idx q' = 0 \<and> wr_idx q' = 0"
proof -
  let ?s0 = "map_link i (\<lambda>l. l\<lparr>last_flush_id := fl_req_id fi\<rparr>) s"
  from assms(1,2) obtain s1 where fl: "flush_req_slot i ?s0 = Some s1" and rc: "rc = 0"
    and s': "s' = map_link i (\<lambda>l. l\<lparr>workq_comp := True\<rparr>) (map_link i (\<lambda>l. l\<lparr>open_req_cnt := 0\<rparr>)
        (flush_dev_with_max_pd kmd fi (max_delay (the_link i (map_link i reset_apply_data s1))) i (map_link i reset_apply_data s1)))"
    by (auto simp: cam_req_mgr_process_flush_req_def bind_eq_Some_conv Let_def simp del: link_at_put)
  have l: "the_link i s' = (reset_apply_data (the_link i s1))\<lparr>open_req_cnt := 0, workq_comp := True\<rparr>"
    by (simp add: s' flush_dev_with_max_pd_def)
  have q: "in_q (the_link i ?s0) = Some q" using assms(3) by simp
  note f = flush_req_slot_flushed [OF fl q assms(4)]
  have "in_q (reset_apply_data m) = in_q m" "l_tbl (reset_apply_data m) = l_tbl m" "last_flush_id (reset_apply_data m) = last_flush_id m" for m
    by (simp_all add: reset_apply_data_def)
  then show "rc = 0" "flushed_below MAX_REQ_SLOTS (the_link i s')" "last_flush_id (the_link i s') = fl_req_id fi"
    "open_req_cnt (the_link i s') = 0" "\<exists>q'. in_q (the_link i s') = Some q' \<and> rd_idx q' = 0 \<and> wr_idx q' = 0"
    using rc l f by (auto simp: flushed_below_def)
qed

text \<open>C16: A flush of all requests leaves nothing behind and keeps late comers out. Every slot of the ring is free and to be
  skipped, every slot of every table is empty with no announcement, the indices and the count of open requests are
  0. A device that then announces any request is told that it is unknown, or, up to the flushed number, that it was
  flushed; and scheduling a request up to that number is refused. In both cases the state does not change.\<close>

theorem flush_all_effect:
  assumes "cam_req_mgr_process_flush_req kmd fi i s = Some (rc, s')" "flush_type fi = CAM_REQ_MGR_FLUSH_TYPE_ALL"
    "in_q (the_link i s) = Some q" "queue_ok q"
  shows "rc = 0 \<and> open_req_cnt (the_link i s') = 0 \<and>
    (\<exists>q'. in_q (the_link i s') = Some q' \<and> rd_idx q' = 0 \<and> wr_idx q' = 0 \<and> (\<forall>k \<in> {0..<MAX_REQ_SLOTS}.
       sl_status (q_slot q' k) = CRM_SLOT_STATUS_NO_REQ \<and> sl_req_id (q_slot q' k) = - 1 \<and> skip_idx (q_slot q' k) = 1)) \<and>
    (\<forall>t \<in> set (l_tbl (the_link i s')). \<forall>k \<in> {0..<MAX_REQ_SLOTS}.
       ts_state (tb_slot t k) = CRM_REQ_STATE_EMPTY \<and> req_ready_map (tb_slot t k) = 0) \<and>
    (link_of_hdl s' (aq_link_hdl aq) = Some (Some i) \<and> sint (aq_req_id aq) \<noteq> - 1 \<longrightarrow>
       cam_req_mgr_cb_add_req aq s' =
         Some (if uint (ucast (aq_req_id aq) :: u32) \<le> fl_req_id fi then - EBADR else - ENOENT, s')) \<and>
    (checked_link s' h = Some (Some i) \<and> link_parent (the_link i s') \<noteq> None \<and> req \<le> fl_req_id fi \<longrightarrow>
       schedule_on h req f s' = Some (- EBADR, s'))"
proof -
  note fl = flush_all_state [OF assms]
  then obtain q' where q': "in_q (the_link i s') = Some q'" "queue_ok q'" "\<forall>k \<in> {0..<MAX_REQ_SLOTS}. flushed_slot (q_slot q' k)"
    by (auto simp: flushed_below_def)
  have "find_slot_for_req q' r = - 1" if "r \<noteq> - 1" for r
    using q'(2,3) that by (auto simp: find_slot_none flushed_slot_def)
  then have "link_of_hdl s' (aq_link_hdl aq) = Some (Some i) \<and> sint (aq_req_id aq) \<noteq> - 1 \<longrightarrow> cam_req_mgr_cb_add_req aq s' =
      Some (if uint (ucast (aq_req_id aq) :: u32) \<le> fl_req_id fi then - EBADR else - ENOENT, s')"
    using q'(1) fl(3) by (simp add: cam_req_mgr_cb_add_req_def Let_def)
  moreover have "checked_link s' h = Some (Some i) \<and> link_parent (the_link i s') \<noteq> None \<and> req \<le> fl_req_id fi \<longrightarrow>
      schedule_on h req f s' = Some (- EBADR, s')"
    using fl(3) by (auto simp: schedule_on_def)
  ultimately show ?thesis
    using fl q' by (simp add: flushed_below_def flushed_slot_def flushed_tbl_slot_def)
qed

definition demo_flush :: cam_req_mgr_flush_info where
  "demo_flush = \<lparr>fl_session_hdl = 512, fl_link_hdl = 259, flush_type = 0, fl_req_id = 5\<rparr>"

text \<open>Without synchronised requests in the ring, a flush always returns.\<close>

lemma flush_loop_returns:
  "in_q (the_link i s) = Some q \<Longrightarrow> \<forall>k. sl_num_sync_links (q_slot q k) = 0 \<Longrightarrow> \<exists>s'. flush_loop m n i s = Some s'"
proof (induction m arbitrary: n s q)
  case (Suc m)
  have "in_q (the_link i (map_link i (flush_idx n) s)) = Some (upd_slot n flush_slot q)"
    using Suc.prems(1) by (simp add: flush_idx_def)
  moreover have "\<forall>k. sl_num_sync_links (q_slot (upd_slot n flush_slot q) k) = 0"
    using Suc.prems(2) by (simp add: upd_slot_def flush_slot_def clear_sync_hdls_def)
  ultimately have "\<exists>s'. flush_loop m (n + 1) i (map_link i (flush_idx n) s) = Some s'" by (rule Suc.IH)
  with Suc.prems show ?case by (simp add: disconnect_flushed_req_on_sync_link_def del: link_at_put)
qed simp

lemma flush_returns:
  assumes "in_q (the_link i s) = Some q" "\<forall>k. sl_num_sync_links (q_slot q k) = 0" "flush_type fi = CAM_REQ_MGR_FLUSH_TYPE_ALL"
  shows "\<exists>rc s'. cam_req_mgr_process_flush_req kmd fi i s = Some (rc, s')"
proof -
  let ?s0 = "map_link i (\<lambda>l. l\<lparr>last_flush_id := fl_req_id fi\<rparr>) s"
  have "in_q (the_link i ?s0) = Some q" using assms(1) by simp
  from flush_loop_returns [OF this assms(2)] obtain s1 where "flush_loop (nat (q_num_slots q)) 0 i ?s0 = Some s1" by blast
  with assms show ?thesis
    by (simp add: cam_req_mgr_process_flush_req_def flush_req_slot_def Let_def del: flush_loop.simps)
qed

lemma demo_queue_sync: "sl_num_sync_links (q_slot demo_queue k) = 0"
  by (simp add: demo_queue_def setup_in_q_def new_in_q_def zero_slot_def)

theorem flush_all_effect_witness:
  "\<exists>s' q'. cam_req_mgr_process_flush_req demo_kmd demo_flush 0 demo_empty = Some (0, s') \<and>
     in_q (the_link 0 s') = Some q' \<and> sl_req_id (q_slot q' 0) = - 1 \<and> skip_idx (q_slot q' 0) = 1"
proof -
  have ty: "flush_type demo_flush = CAM_REQ_MGR_FLUSH_TYPE_ALL" by (simp add: demo_flush_def)
  from flush_returns [where kmd = demo_kmd, OF demo_empty_link(1) [of 0] _ ty] demo_queue_sync obtain rc s' where
    s': "cam_req_mgr_process_flush_req demo_kmd demo_flush 0 demo_empty = Some (rc, s')" by auto
  from flush_all_effect [OF s' ty demo_empty_link(1) demo_queue_ok(1)] s' show ?thesis by fastforce
qed

subsection \<open>Rewinding after a bubble\<close>

definition mark_again :: "cam_req_mgr_slot \<Rightarrow> cam_req_mgr_slot" where
  "mark_again x = (if sl_status x = CRM_SLOT_STATUS_REQ_APPLIED then x\<lparr>sl_status := CRM_SLOT_STATUS_REQ_ADDED\<rparr> else x)"

lemma ring_dist_step: "(k - inc_idx i 1 MAX_REQ_SLOTS) mod MAX_REQ_SLOTS =
  (if (k - i) mod MAX_REQ_SLOTS = 0 then MAX_REQ_SLOTS - 1 else (k - i) mod MAX_REQ_SLOTS - 1)"
proof -
  have "(k - inc_idx i 1 MAX_REQ_SLOTS) mod MAX_REQ_SLOTS = (k - (i + 1)) mod MAX_REQ_SLOTS"
    unfolding inc_idx_def by (rule mod_diff_right_eq)
  also have "\<dots> = ((k - i) mod MAX_REQ_SLOTS - 1) mod MAX_REQ_SLOTS" by (simp add: mod_diff_left_eq diff_diff_eq)
  finally have e: "(k - inc_idx i 1 MAX_REQ_SLOTS) mod MAX_REQ_SLOTS = ((k - i) mod MAX_REQ_SLOTS - 1) mod MAX_REQ_SLOTS" .
  show ?thesis unfolding e using pos_mod_bound [of MAX_REQ_SLOTS "k - i"] pos_mod_sign [of MAX_REQ_SLOTS "k - i"]
    by (auto simp: mod_pos_pos_trivial)
qed

lemma ring_same: "0 \<le> a \<Longrightarrow> a < MAX_REQ_SLOTS \<Longrightarrow> 0 \<le> b \<Longrightarrow> b < MAX_REQ_SLOTS \<Longrightarrow> (a - b) mod MAX_REQ_SLOTS = 0 \<longleftrightarrow> a = b"
  by (metis mod_eq_dvd_iff mod_eq_0_iff_dvd mod_pos_pos_trivial)

lemma readd_loop_fields: "rd_idx (readd_loop m i n q) = rd_idx q" "wr_idx (readd_loop m i n q) = wr_idx q"
  "q_num_slots (readd_loop m i n q) = q_num_slots q"
  by (induction m arbitrary: i q) (simp_all add: Let_def upd_slot_def)

lemma readd_loop_spec:
  "0 \<le> i \<Longrightarrow> i < MAX_REQ_SLOTS \<Longrightarrow> m < nat MAX_REQ_SLOTS \<Longrightarrow> 0 \<le> k \<Longrightarrow> k < MAX_REQ_SLOTS \<Longrightarrow>
   q_slot (readd_loop m i MAX_REQ_SLOTS q) k =
     (if k \<noteq> i \<and> (k - i) mod MAX_REQ_SLOTS \<le> int m then mark_again (q_slot q k) else q_slot q k)"
proof (induction m arbitrary: i q)
  case 0
  have "(k - i) mod MAX_REQ_SLOTS = 0 \<longleftrightarrow> k = i"
    using 0 by (intro ring_same) simp_all
  then show ?case using pos_mod_sign [of MAX_REQ_SLOTS "k - i"] by auto
next
  case (Suc m)
  let ?j = "inc_idx i 1 MAX_REQ_SLOTS"
  let ?q = "if sl_status (q_slot q ?j) = CRM_SLOT_STATUS_REQ_APPLIED
         then upd_slot ?j (\<lambda>s. s\<lparr>sl_status := CRM_SLOT_STATUS_REQ_ADDED\<rparr>) q else q"
  have j: "0 \<le> ?j" "?j < MAX_REQ_SLOTS" by (simp_all add: inc_idx_def)
  have z: "(k - i) mod MAX_REQ_SLOTS = 0 \<longleftrightarrow> k = i" "(k - ?j) mod MAX_REQ_SLOTS = 0 \<longleftrightarrow> k = ?j"
    using Suc.prems j by (simp_all only: ring_same)
  have q: "q_slot ?q k = (if k = ?j then mark_again (q_slot q k) else q_slot q k)"
    by (auto simp: upd_slot_def mark_again_def)
  have "q_slot (readd_loop (Suc m) i MAX_REQ_SLOTS q) k = q_slot (readd_loop m ?j MAX_REQ_SLOTS ?q) k" by (simp add: Let_def)
  also have "\<dots> = (if k \<noteq> ?j \<and> (k - ?j) mod MAX_REQ_SLOTS \<le> int m then mark_again (q_slot ?q k) else q_slot ?q k)"
    using Suc.IH [OF j _ Suc.prems(4,5)] Suc.prems(3) by simp
  finally show ?case unfolding q
    using ring_dist_step [of k i] z pos_mod_sign [of MAX_REQ_SLOTS "k - i"] Suc.prems(3) by (auto split: if_split_asm)
qed

text \<open>How many slots after the one at fault count as sent: those up to the last applied one, or one.\<close>

definition sent_span :: "cam_req_mgr_req_queue \<Rightarrow> int \<Rightarrow> int" where
  "sent_span q idx = (if 0 \<le> last_applied_idx q then (last_applied_idx q - idx) mod MAX_REQ_SLOTS else 1)"

lemma mark_again_sync [simp]: "sl_status (mark_again (x\<lparr>sl_sync_mode := m\<rparr>)) = sl_status (mark_again x)"
  "sl_req_id (mark_again x) = sl_req_id x"
  by (simp_all add: mark_again_def)

lemma rewind_queue_spec:
  assumes "0 \<le> idx" "idx < MAX_REQ_SLOTS" "last_applied_idx q < MAX_REQ_SLOTS" "0 \<le> k" "k < MAX_REQ_SLOTS"
  shows "sl_status (q_slot (rewind_queue MAX_REQ_SLOTS sync idx q) k) =
      (if k = idx then CRM_SLOT_STATUS_REQ_ADDED
       else if (k - idx) mod MAX_REQ_SLOTS \<le> sent_span q idx then sl_status (mark_again (q_slot q k)) else sl_status (q_slot q k))"
    "sl_req_id (q_slot (rewind_queue MAX_REQ_SLOTS sync idx q) k) = sl_req_id (q_slot q k)"
proof -
  define q1 where "q1 = upd_slot idx (\<lambda>s. s\<lparr>sl_status := CRM_SLOT_STATUS_REQ_ADDED\<rparr>) (q\<lparr>rd_idx := idx\<rparr>)"
  define q2 where "q2 = (if sync then upd_slot (inc_idx idx 1 MAX_REQ_SLOTS) (\<lambda>s. s\<lparr>sl_sync_mode := 0\<rparr>)
                               (upd_slot idx (\<lambda>s. s\<lparr>sl_sync_mode := 0\<rparr>) q1) else q1)"
  have sp: "0 \<le> sent_span q idx" "sent_span q idx < MAX_REQ_SLOTS" by (simp_all add: sent_span_def)
  let ?d = "last_applied_idx q - idx"
  have "(if ?d < 0 then ?d + MAX_REQ_SLOTS else ?d) = ?d mod MAX_REQ_SLOTS" if "0 \<le> last_applied_idx q"
  proof (cases "?d < 0")
    case True
    have "?d mod MAX_REQ_SLOTS = (?d + MAX_REQ_SLOTS) mod MAX_REQ_SLOTS" by simp
    also have "\<dots> = ?d + MAX_REQ_SLOTS" using True that assms(1,2) by (intro mod_pos_pos_trivial) auto
    finally show ?thesis using True by simp
  next
    case False
    with assms(1,3) show ?thesis by simp
  qed
  then have "(if 0 \<le> last_applied_idx q then (if ?d < 0 then ?d + MAX_REQ_SLOTS else ?d) else 1) = sent_span q idx"
    by (simp add: sent_span_def)
  then have rw: "rewind_queue MAX_REQ_SLOTS sync idx q = readd_loop (nat (sent_span q idx)) idx MAX_REQ_SLOTS q2"
    by (simp only: rewind_queue_def q1_def q2_def Let_def)
  have f: "sl_status (q_slot q2 k) = (if k = idx then CRM_SLOT_STATUS_REQ_ADDED else sl_status (q_slot q k))"
    "sl_status (mark_again (q_slot q2 k)) = sl_status (mark_again (if k = idx then q_slot q1 k else q_slot q k))"
    "sl_req_id (q_slot q2 k) = sl_req_id (q_slot q k)"
    by (simp_all add: q2_def q1_def upd_slot_def)
  have "q_slot (rewind_queue MAX_REQ_SLOTS sync idx q) k = (if k \<noteq> idx \<and> (k - idx) mod MAX_REQ_SLOTS \<le> sent_span q idx
      then mark_again (q_slot q2 k) else q_slot q2 k)"
    unfolding rw using readd_loop_spec [OF assms(1,2) _ assms(4,5), of "nat (sent_span q idx)" q2] sp by simp
  with f show "sl_status (q_slot (rewind_queue MAX_REQ_SLOTS sync idx q) k) =
      (if k = idx then CRM_SLOT_STATUS_REQ_ADDED
       else if (k - idx) mod MAX_REQ_SLOTS \<le> sent_span q idx then sl_status (mark_again (q_slot q k)) else sl_status (q_slot q k))"
    "sl_req_id (q_slot (rewind_queue MAX_REQ_SLOTS sync idx q) k) = sl_req_id (q_slot q k)"
    by (cases "k = idx"; simp)+
qed

lemma rewind_queue_idx: "rd_idx (rewind_queue n sync idx q) = idx" "wr_idx (rewind_queue n sync idx q) = wr_idx q"
  by (simp_all add: rewind_queue_def Let_def readd_loop_fields upd_slot_def)

text \<open>C15: Recovery from a bubble. When a device reports that a request with recovery enabled was not applied in time and the
  request has been sent or is waiting, the link goes to its error state and back to that request: the read index is
  its slot, which is scheduled again together with all slots after it, up to the last one sent, that count as
  applied; no other slot changes its status, no slot loses its request, and the delays of the tables are waited for
  anew. The trigger that the report carries is then processed from there.\<close>

theorem bubble_rewinds:
  assumes "ne_error er = CRM_KMD_ERR_BUBBLE \<or> ne_error er = CRM_KMD_WARN_INTERNAL_RECOVERY"
    "in_q (the_link i s) = Some q" "link_wf (the_link i s)" "idx = find_slot_for_req q (sint (ne_req_id er))" "0 \<le> idx"
    "recover (q_slot q idx) \<noteq> 0" "sl_status (q_slot q idx) \<in> {CRM_SLOT_STATUS_REQ_PENDING, CRM_SLOT_STATUS_REQ_APPLIED}"
    "last_applied_idx q < MAX_REQ_SLOTS"
  shows "\<exists>td s1 q1. cam_req_mgr_process_error kmd er i s = map_option (\<lambda>(rc, s'). (0, s')) (process_req kmd i td s1) \<and>
      nt_trigger td = ne_trigger er \<and> sof_timestamp_val td = ne_sof_timestamp_val er \<and>
      link_state (the_link i s1) = CAM_CRM_LINK_STATE_ERR \<and> in_q (the_link i s1) = Some q1 \<and> rd_idx q1 = idx \<and>
      wr_idx q1 = wr_idx q \<and>
      (\<forall>k \<in> {0..<MAX_REQ_SLOTS}. sl_req_id (q_slot q1 k) = sl_req_id (q_slot q k) \<and> sl_status (q_slot q1 k) =
        (if k = idx \<or> (k - idx) mod MAX_REQ_SLOTS \<le> sent_span q idx \<and> sl_status (q_slot q k) = CRM_SLOT_STATUS_REQ_APPLIED
         then CRM_SLOT_STATUS_REQ_ADDED else sl_status (q_slot q k))) \<and>
      map skip_traverse (l_tbl (the_link i s1)) = map (\<lambda>t. max_delay (the_link i s) - tb_pd t) (l_tbl (the_link i s))"
proof -
  from assms(3) obtain t ts where t: "l_tbl (the_link i s) = t # ts" "tb_num_slots t = MAX_REQ_SLOTS" "max_delay (the_link i s) = tb_pd t"
    by (cases "l_tbl (the_link i s)") (auto simp: link_wf_def top_pd_def pdt_ok_def dest: tbls_wf_hd)
  from assms(2,3) have "queue_ok q" by (simp add: link_wf_def)
  then have idx: "idx < MAX_REQ_SLOTS" using find_slot_range [of q "sint (ne_req_id er)"] assms(4) by auto
  let ?l = "rewind_link MAX_REQ_SLOTS q idx (the_link i s)"
  let ?td = "\<lparr>nt_link_hdl = ne_link_hdl er, nt_dev_hdl = ne_dev_hdl er,
        nt_frame_id = ne_frame_id er, nt_trigger = ne_trigger er,
        sof_timestamp_val = ne_sof_timestamp_val er, nt_req_id = 0, trigger_id = 0\<rparr>"
  let ?s1 = "map_link i (rewind_link MAX_REQ_SLOTS q idx) s"
  have "cam_req_mgr_process_error kmd er i s = map_option (\<lambda>(rc, s'). (0, s')) (process_req kmd i ?td ?s1)"
    using assms(1,2,4-7) t
    by (auto simp: cam_req_mgr_process_error_def apply_on_bubble_def Let_def simp del: link_at_put
        split: option.split prod.split cong: if_cong) (auto simp: map_option_case split: option.split)?
  moreover have "the_link i ?s1 = ?l" by simp
  moreover have "sl_status (q_slot (rewind_queue MAX_REQ_SLOTS sy idx q) k) =
        (if k = idx \<or> (k - idx) mod MAX_REQ_SLOTS \<le> sent_span q idx \<and> sl_status (q_slot q k) = CRM_SLOT_STATUS_REQ_APPLIED
         then CRM_SLOT_STATUS_REQ_ADDED else sl_status (q_slot q k))"
    "sl_req_id (q_slot (rewind_queue MAX_REQ_SLOTS sy idx q) k) = sl_req_id (q_slot q k)" if "k \<in> {0..<MAX_REQ_SLOTS}" for k sy
    using rewind_queue_spec [OF assms(5) idx assms(8), of k sy] that by (auto simp: mark_again_def)
  moreover have "map skip_traverse (tbl_set_all_skip_cnt (l_tbl (the_link i s))) = map (\<lambda>u. tb_pd t - tb_pd u) (l_tbl (the_link i s))"
    by (simp add: t(1) tbl_set_all_skip_cnt_def)
  ultimately show ?thesis
    by (intro exI [of _ ?td] exI [of _ ?s1] exI [of _ "rewind_queue MAX_REQ_SLOTS (sync_link (the_link i s) 0 \<noteq> None) idx q"])
      (simp add: rewind_link_def rewind_queue_idx t(3) del: link_at_put)
qed

definition demo_err :: cam_req_mgr_error_notify where
  "demo_err = \<lparr>ne_link_hdl = 259, ne_dev_hdl = 257, ne_req_id = 1, ne_frame_id = 0, ne_trigger = 1,
     ne_sof_timestamp_val = 0, ne_error = CRM_KMD_ERR_BUBBLE\<rparr>"

text \<open>The link of the example with its first slot sent.\<close>

definition demo_bubble :: "calls crm" where
  "demo_bubble = upd_slot_of 0 0 (\<lambda>x. x\<lparr>sl_status := CRM_SLOT_STATUS_REQ_APPLIED, sl_req_id := 1, recover := 1\<rparr>)
     (map_link 0 (\<lambda>l. l\<lparr>in_q := Some demo_queue\<rparr>) demo_link_state)"

theorem bubble_rewinds_witness:
  "\<exists>td s1. cam_req_mgr_process_error demo_kmd demo_err 0 demo_bubble = map_option (\<lambda>(rc, s'). (0, s')) (process_req demo_kmd 0 td s1) \<and>
     link_state (the_link 0 s1) = CAM_CRM_LINK_STATE_ERR"
proof -
  let ?q = "upd_slot 0 (\<lambda>x. x\<lparr>sl_status := CRM_SLOT_STATUS_REQ_APPLIED, sl_req_id := 1, recover := 1\<rparr>) demo_queue"
  have q: "in_q (the_link 0 demo_bubble) = Some ?q" by (simp add: demo_bubble_def upd_slot_of_def)
  have "q_step demo_queue ?q" by (rule upd_slot_step) simp
  then have ok: "queue_ok ?q" using demo_queue_ok(1) by (simp add: q_step_def)
  then have wf: "link_wf (the_link 0 demo_bubble)"
    using demo_wf(1) by (simp add: demo_bubble_def upd_slot_of_def link_wf_def)
  have "find_slot_for_req ?q (sint (ne_req_id demo_err)) = 0"
    using ok by (intro find_slot_unique) (auto simp: demo_err_def upd_slot_def demo_queue_ok)
  moreover have "last_applied_idx ?q = 0" by (simp add: upd_slot_def demo_queue_def setup_in_q_def new_in_q_def)
  ultimately show ?thesis
    using bubble_rewinds [OF _ q wf refl, of demo_err demo_kmd] by (fastforce simp: demo_err_def upd_slot_def)
qed

end
