(* ===== verification/Cam_Crm_Frames.thy ===== *)
theory Cam_Crm_Frames
  imports Cam_Crm_Demo
begin

section \<open>Frames: triggers and what is sent\<close>

text \<open>
  Links with two sources of triggers, and the calls that a ready request leads to.
\<close>

subsection \<open>Two sources of triggers\<close>

text \<open>The specification: a trigger waits for one of the other source. It fires when that one is waiting; a second
  trigger of the same source takes the waiting one away.\<close>

fun pair_step :: "int option \<Rightarrow> int \<Rightarrow> bool \<times> int option" where
  "pair_step None tid = (False, Some tid)"
| "pair_step (Some t) tid = (t \<noteq> tid, None)"

fun pair_all :: "int list \<Rightarrow> int option \<Rightarrow> bool list \<times> int option" where
  "pair_all [] p = ([], p)"
| "pair_all (t # ts) p = (let (b, p') = pair_step p t; (bs, p'') = pair_all ts p' in (b # bs, p''))"

fun count_all :: "u32 \<Rightarrow> int list \<Rightarrow> cam_req_mgr_core_link \<Rightarrow> bool list \<times> cam_req_mgr_core_link" where
  "count_all tr [] l = ([], l)"
| "count_all tr (t # ts) l =
     (let (rc, l') = count_trigger t tr l; (bs, l'') = count_all tr ts l' in ((rc = 0) # bs, l''))"

definition waiting :: "u32 \<Rightarrow> int option \<Rightarrow> cam_req_mgr_core_link \<Rightarrow> bool" where
  "waiting tr p l \<longleftrightarrow> (p = None \<or> p = Some 0 \<or> p = Some 1) \<and>
     trigger_cnt l 0 tr = (if p = Some 0 then 1 else 0) \<and> trigger_cnt l 1 tr = (if p = Some 1 then 1 else 0)"

lemma count_trigger_waiting:
  assumes "waiting tr p l" "tid \<in> {0, 1}"
  shows "(fst (count_trigger tid tr l) = 0) = fst (pair_step p tid)"
    "waiting tr (snd (pair_step p tid)) (snd (count_trigger tid tr l))"
    "fst (count_trigger tid tr l) \<in> {0, - CRM_EAGAIN}"
    "tr' \<noteq> tr \<Longrightarrow> trigger_cnt (snd (count_trigger tid tr l)) k tr' = trigger_cnt l k tr'"
  using assms by (auto simp: waiting_def count_trigger_def check_for_dual_trigger_def Let_def)

text \<open>C24: The counters of a link with two sources of triggers implement the pairing: over any sequence of triggers of one
  kind, the calls that let the frame go on are exactly those at which the specification fires, so each
  frame takes one trigger of each source, whichever comes first; and the counters of the other kinds of triggers do
  not change.\<close>

theorem dual_triggers_paired:
  assumes "waiting tr p l" "set tids \<subseteq> {0, 1}" "tr' \<noteq> tr"
  shows "fst (count_all tr tids l) = fst (pair_all tids p) \<and> waiting tr (snd (pair_all tids p)) (snd (count_all tr tids l)) \<and>
    trigger_cnt (snd (count_all tr tids l)) k tr' = trigger_cnt l k tr'"
  using assms(1,2)
proof (induction tids arbitrary: p l)
  case (Cons t ts)
  then have "t \<in> {0, 1}" "set ts \<subseteq> {0, 1}" by auto
  note st = count_trigger_waiting [OF Cons.prems(1) this(1)]
  from Cons.IH [OF st(2) \<open>set ts \<subseteq> {0, 1}\<close>] st(1) st(4) [OF assms(3)] show ?case
    by (simp add: Let_def case_prod_beta)
qed simp

theorem dual_triggers_paired_witness:
  "fst (count_all 1 [0, 1, 0, 0, 1, 0] (clear_trigger_cnt zero_link)) = [False, True, False, False, False, True]"
proof -
  have "waiting 1 None (clear_trigger_cnt zero_link)" by (simp add: waiting_def clear_trigger_cnt_def zero_link_def)
  from dual_triggers_paired [OF this, of "[0, 1, 0, 0, 1, 0]" 2] show ?thesis by simp
qed

subsection \<open>The calls for a frame\<close>

















end
