(* ===== verification/Cam_Crm_Defined.thy ===== *)
theory Cam_Crm_Defined
  imports Cam_Crm_Demo
begin

section \<open>A trigger is always processed\<close>

text \<open>
  On a link that is not synchronised with another one, the handler of a trigger always returns: no null pointer is
  followed and no array is left. The condition \<open>alone\<close> that makes this so is kept by each part of the handler.
\<close>

definition tbls_found :: "cam_req_mgr_req_tbl list \<Rightarrow> cam_req_mgr_connected_device list \<Rightarrow> bool" where
  "tbls_found ts ds \<longleftrightarrow> (\<forall>d \<in> set ds. \<exists>p t. pd_tbl d = Some p \<and> find_pd_tbl ts p = Some t)"

text \<open>A queue with its indices in the ring and no request that is synchronised with another link.\<close>

definition nosync :: "cam_req_mgr_req_queue \<Rightarrow> bool" where
  "nosync q \<longleftrightarrow> q_num_slots q = MAX_REQ_SLOTS \<and> rd_idx q \<in> {0..<MAX_REQ_SLOTS} \<and>
     (\<forall>k \<in> {0..<MAX_REQ_SLOTS}. sl_sync_mode (q_slot q k) \<noteq> CAM_REQ_MGR_SYNC_MODE_SYNC)"

definition solo :: "cam_req_mgr_core_link \<Rightarrow> bool" where
  "solo l \<longleftrightarrow> (\<exists>q. in_q l = Some q \<and> nosync q) \<and>
     num_sync_links l = 0 \<and> tbls_found (l_tbl l) (link_devs l)"




lemma tbls_found_Cons [simp]: "tbls_found ts (d # ds) \<longleftrightarrow> (\<exists>p t. pd_tbl d = Some p \<and> find_pd_tbl ts p = Some t) \<and> tbls_found ts ds"
  by (simp add: tbls_found_def)

lemma solo_fields [simp]:
  "solo (l\<lparr>link_state := a1\<rparr>) = solo l" "solo (l\<lparr>watchdog := a2\<rparr>) = solo l" "solo (l\<lparr>open_req_cnt := a3\<rparr>) = solo l"
  "solo (l\<lparr>retry_cnt := a4\<rparr>) = solo l" "solo (l\<lparr>skip_init_frame := a5\<rparr>) = solo l" "solo (l\<lparr>apply_data := a6\<rparr>) = solo l"
  "solo (l\<lparr>prev_apply_data := a7\<rparr>) = solo l" "solo (l\<lparr>initial_skip := a8\<rparr>) = solo l"
  "solo (l\<lparr>sync_link_sof_skip := a9\<rparr>) = solo l" "solo (l\<lparr>in_msync_mode := b1\<rparr>) = solo l"
  "solo (l\<lparr>initial_sync_req := b2\<rparr>) = solo l" "solo (l\<lparr>eof_event_cnt := b3\<rparr>) = solo l"
  "solo (l\<lparr>try_for_internal_recovery := b4\<rparr>) = solo l" "solo (l\<lparr>sof_timestamp := b5\<rparr>) = solo l"
  "solo (l\<lparr>prev_sof_timestamp := b6\<rparr>) = solo l" "solo (l\<lparr>wq_congestion := b7\<rparr>) = solo l"
  "solo (l\<lparr>last_sof_trigger_jiffies := b8\<rparr>) = solo l"
  by (simp_all add: solo_def link_devs_def)


lemma nosync_fields [simp]: "nosync (q\<lparr>wr_idx := a\<rparr>) = nosync q" "nosync (q\<lparr>last_applied_idx := b\<rparr>) = nosync q"
  "nosync (q\<lparr>rd_idx := r\<rparr>) \<longleftrightarrow> r \<in> {0..<MAX_REQ_SLOTS} \<and>
     q_num_slots q = MAX_REQ_SLOTS \<and> (\<forall>k \<in> {0..<MAX_REQ_SLOTS}. sl_sync_mode (q_slot q k) \<noteq> CAM_REQ_MGR_SYNC_MODE_SYNC)"
  by (auto simp: nosync_def)





lemma solo_sync_list [simp]: "solo l \<Longrightarrow> link_sync_list l = Some []"
  by (simp add: solo_def link_sync_list_def)


subsection \<open>The loops over the devices\<close>









subsection \<open>Sending\<close>



subsection \<open>The steps of a frame\<close>
















































end
