(* ===== verification/Cam_Crm_Sessions.thy ===== *)
theory Cam_Crm_Sessions
  imports Cam_Crm_Demo
begin

section \<open>Sessions and the making of links\<close>

text \<open>
  What the ioctls that make links, pair them and destroy sessions leave behind: the new link has the type that the
  handlers rely on, two links that are synchronised name each other, and a destroyed session frees its links.
\<close>

subsection \<open>Making a link\<close>


lemma destroy_info_keeps [simp]: "link_hdl (destroy_link_info l) = link_hdl l" "link_parent (destroy_link_info l) = link_parent l"
  by (simp_all add: destroy_link_info_def)

lemma the_link_at_other [simp]: "j \<noteq> i \<Longrightarrow> the_link j (link_at i l e s) = the_link j s"
  by (simp add: link_at_def the_link_def)

lemma link_at_heap [simp]: "ses_heap (link_at i l e s) = ses_heap s" "session_head (link_at i l e s) = session_head s"
  by (simp_all add: link_at_def)









subsection \<open>Synchronising two links\<close>

lemma checked_link_map: "(\<And>l. link_hdl (f l) = link_hdl l) \<Longrightarrow> checked_link (map_link i f s) h = checked_link s h"
  by (auto simp: checked_link_def hdl_object_def link_at_def the_link_def split: crm_object.split)

lemma sync_pairs: "sync_partners 0 [i, j] = [j]" "sync_partners (Suc 0) [i, j] = [i]"
  by (simp_all add: sync_partners_def)

lemma sync_lookup_two:
  assumes "checked_link s h0 = Some (Some i)" "checked_link s h1 = Some (Some j)" "h0 \<noteq> 0" "h1 \<noteq> 0"
  shows "sync_lookup 2 [h0, h1] [] s = Some (Some [i, j], map_link j (unsync_link 2) (map_link i (unsync_link 2) s))"
  using assms checked_link_map [of "unsync_link 2" i s h1] by (simp add: unsync_link_def del: link_at_put)

text \<open>A link with \<open>n\<close> partners, of which the first is \<open>j\<close>; all else is as it was, but for the fields that start a
  synchronised run.\<close>

definition synced :: "int \<Rightarrow> nat \<Rightarrow> cam_req_mgr_core_link \<Rightarrow> cam_req_mgr_core_link" where
  "synced n j l = l\<lparr>sync_link_sof_skip := False, is_master := False, in_msync_mode := False, initial_sync_req := - 1,
     initial_skip := True, sof_timestamp := 0, num_sync_links := n, sync_link := (sync_link l)(0 \<mapsto> j)\<rparr>"

lemma synced_list [simp]: "link_sync_list (synced 1 j l) = Some [Some j]"
  "link_sync_list (synced 2 j l) = Some [Some j, sync_link l 1]"
  by (simp_all add: link_sync_list_def synced_def numeral_2_eq_2)

lemma the_link_set: "the_link m (s\<lparr>g_links := L\<rparr>) = L m"
  by (simp add: the_link_def)

lemma drop_first: "(\<lambda>j. if 0 \<le> j \<and> j < (1 :: int) then None else f j) = f(0 := None)"
  by (auto simp: fun_eq_iff)

text \<open>C22: synchronising two links. With valid handles the ioctl succeeds. Two different links become each other's only
  partner and start their synchronised run afresh; the session stores the mode, and no other link changes, so that an
  earlier partner keeps naming the link. The ioctl does not notice that both handles name one link: the link is then
  its own first partner and counts a second one that is not there, so that the list of its partners holds a null
  pointer.\<close>

theorem sync_config_pairs:
  assumes "sm_sync_mode sm = CAM_REQ_MGR_SYNC_MODE_SYNC" and "sm_num_links sm = 2"
    and "sm_link_hdls sm 0 \<noteq> 0" and "sm_link_hdls sm 1 \<noteq> 0"
    and "checked_session s (sm_session_hdl sm) = Some (Some k)" and "ses_heap s k = Some c"
    and "checked_link s (sm_link_hdls sm 0) = Some (Some i)" and "checked_link s (sm_link_hdls sm 1) = Some (Some j)"
  shows "\<exists>s'. cam_req_mgr_sync_config sm s = Some (0, s') \<and>
     ses_heap s' = (ses_heap s)(k \<mapsto> c\<lparr>ses_sync_mode := CAM_REQ_MGR_SYNC_MODE_SYNC\<rparr>) \<and> crm_hdls s' = crm_hdls s \<and>
     (\<forall>m. m \<noteq> i \<and> m \<noteq> j \<longrightarrow> the_link m s' = the_link m s) \<and>
     (if i \<noteq> j then the_link i s' = synced 1 j (the_link i s) \<and> the_link j s' = synced 1 i (the_link j s) \<and>
                   link_sync_list (the_link i s') = Some [Some j] \<and> link_sync_list (the_link j s') = Some [Some i]
      else the_link i s' = synced 2 i (the_link i s) \<and>
           (sync_link (the_link i s) 1 = None \<longrightarrow> link_sync_list (the_link i s') = Some [Some i, None]))"
proof -
  have two: "map (\<lambda>m. sm_link_hdls sm (int m)) [0..<2] = [sm_link_hdls sm 0, sm_link_hdls sm 1]"
    by (simp add: numeral_2_eq_2)
  define s1 where "s1 = map_link j (unsync_link 2) (map_link i (unsync_link 2) s)"
  have "cam_req_mgr_sync_config sm s = Some (0, s1\<lparr>g_links := join_links [i, j] (g_links s1),
      ses_heap := (ses_heap s)(k \<mapsto> c\<lparr>ses_sync_mode := CAM_REQ_MGR_SYNC_MODE_SYNC\<rparr>)\<rparr>)"
    using assms(1-6) sync_lookup_two [OF assms(7,8,3,4)] by (simp add: cam_req_mgr_sync_config_def two s1_def)
  moreover have "crm_hdls s1 = crm_hdls s" by (simp add: s1_def)
  moreover have "join_links [i, j] (g_links s1) m = (if i \<noteq> j then
        if m = i then synced 1 j (the_link i s) else if m = j then synced 1 i (the_link j s) else the_link m s
      else if m = i then synced 2 i (the_link i s) else the_link m s)" for m
    by (simp add: join_links_def sync_pairs add_partner_def restart_sync_def upd_link_def link_at_def the_link_def
        synced_def unsync_link_def drop_first s1_def)
  ultimately show ?thesis
    by (cases "i = j") (simp_all add: the_link_set)
qed

text \<open>A session with two links and the handles of the three.\<close>

definition link_handle :: "nat \<Rightarrow> hdl_table \<Rightarrow> hdl_table" where
  "link_handle i t = snd (cam_create_device_hdl True 0 \<lparr>cdh_session_hdl = 512, cdh_dev_id = CAM_CRM, cdh_ops = None, cdh_priv = Some i\<rparr> t)"

definition demo_pair :: "calls crm" where
  "demo_pair = \<lparr>g_links = (\<lambda>i. zero_link\<lparr>link_hdl := (if i = 0 then 257 else 258), is_used := True\<rparr>),
     ses_heap = [0 \<mapsto> \<lparr>ses_hdl = 512, num_links = 2, ses_links = [0 \<mapsto> 0, 1 \<mapsto> 1], force_err_recovery = 0, ses_sync_mode = 0\<rparr>],
     session_head = [0],
     crm_hdls = link_handle 1 (link_handle 0 (snd (cam_create_session_hdl 0 (Some (ses_ptr 0))
                  (snd (cam_req_mgr_util_init True None True None))))),
     recovery_on_apply_fail = False, environ = demo_env\<rparr>"

lemma demo_pair_view: "checked_session demo_pair 512 = Some (Some 0)" "checked_link demo_pair 257 = Some (Some 0)"
  "checked_link demo_pair 258 = Some (Some 1)"
  by code_simp+

theorem sync_config_pairs_witness:
  "\<exists>s'. cam_req_mgr_sync_config \<lparr>sm_session_hdl = 512, sm_sync_mode = 1, sm_num_links = 2,
       sm_link_hdls = (\<lambda>m. if m = 0 then 257 else 258)\<rparr> demo_pair = Some (0, s') \<and>
     link_sync_list (the_link 0 s') = Some [Some 1] \<and> link_sync_list (the_link 1 s') = Some [Some 0]"
proof -
  let ?sm = "\<lparr>sm_session_hdl = 512, sm_sync_mode = 1, sm_num_links = 2, sm_link_hdls = (\<lambda>m :: int. if m = 0 then 257 else 258 :: u32)\<rparr>"
  have "ses_heap demo_pair 0 \<noteq> None" by (simp add: demo_pair_def)
  then obtain c where "ses_heap demo_pair 0 = Some c" by blast
  from sync_config_pairs [of ?sm demo_pair 0 c 0 1] this demo_pair_view show ?thesis by auto
qed

subsection \<open>Destroying a session\<close>












end
