(* ===== verification/Cam_Req_Dev.thy ===== *)
theory Cam_Req_Dev
  imports Cam_Crm_Reach Cam_Mem_Inv
begin

section \<open>The device node of the request manager\<close>

text \<open>
  Model of \<open>camera-kernel/drivers/cam_req_mgr/cam_req_mgr_dev.c\<close>: the file operations of the node, the ioctl that
  hands the arguments of user space to the core and to the memory manager, events, the list of
  sub-devices, binding and unbinding.

  User memory is the record \<open>rm_user\<close>: one read for every structure that the ioctl copies in, with \<^const>\<open>None\<close> for
  a fault, and the places that can be written. The structure sizes are those of the 64-bit ABI. The outcomes of
  the kernel's allocations, of V4L2 and of the media framework are arguments.
\<close>

unbundle bit_operations_syntax

subsection \<open>The state\<close>

text \<open>A sub-device: its place in the order of closing, whether it has a device node and internal operations, and what
  its driver does when it is told to shut down, which may touch handles, devices and buffers.\<close>

record ('x, 'y) cam_subdev =
  close_seq_prior :: nat
  sd_has_devnode :: bool
  sd_internal_ops :: bool
  sd_shutdown :: "hdl_table \<times> 'x crm_env \<times> 'y cam_mem_table \<Rightarrow> hdl_table \<times> 'x crm_env \<times> 'y cam_mem_table"

record ('x, 'y) req_mgr =
  rm_core :: "'x crm"
  rm_mem :: "'y cam_mem_table"
  rm_open_cnt :: int
  rm_sub_ids :: u32
  rm_eventq :: bool
  rm_shutdown_state :: bool
  rm_state :: bool
  rm_count :: int
  rm_ordered_sd_list :: "('x, 'y) cam_subdev list"

subsection \<open>Opening and closing\<close>

abbreviation (input) EPROBE_DEFER :: int where "EPROBE_DEFER \<equiv> 517"
abbreviation (input) POLLPRI :: int where "POLLPRI \<equiv> 2"

text \<open>\<open>fh_rc\<close> is the status of \<open>v4l2_fh_open\<close>. On the last error path the event queue stays set.\<close>

definition cam_req_mgr_open :: "'y mem_core \<Rightarrow> int \<Rightarrow> ('x, 'y) req_mgr \<Rightarrow> int \<times> ('x, 'y) req_mgr" where
  "cam_req_mgr_open A fh_rc s =
     (if 1 \<le> rm_open_cnt s then (- EALREADY, s)
      else if fh_rc \<noteq> 0 then (fh_rc, s)
      else
        let s1 = s\<lparr>rm_eventq := True, rm_open_cnt := rm_open_cnt s + 1\<rparr>;
            (rc, t) = cam_mem_mgr_init A (rm_mem s1) in
        if rc \<noteq> 0 then (rc, s1\<lparr>rm_mem := t, rm_open_cnt := rm_open_cnt s1 - 1\<rparr>)
        else (rc, s1\<lparr>rm_mem := t\<rparr>))"

definition cam_req_mgr_poll :: "bool \<Rightarrow> bool \<Rightarrow> u32" where
  "cam_req_mgr_poll has_queue pending =
     (if \<not> has_queue then word_of_int (- EINVAL) else if pending then word_of_int POLLPRI else 0)"

definition shutdown_subdev :: "('x, 'y) cam_subdev \<Rightarrow> ('x, 'y) req_mgr \<Rightarrow> ('x, 'y) req_mgr" where
  "shutdown_subdev d s =
     (if \<not> sd_has_devnode d then s
      else if sd_internal_ops d then
        let (h, e, t) = sd_shutdown d (crm_hdls (rm_core s), environ (rm_core s), rm_mem s)
        in s\<lparr>rm_core := (rm_core s)\<lparr>crm_hdls := h, environ := e\<rparr>, rm_mem := t\<rparr>
      else s)"

definition cam_req_mgr_close :: "'x kmd \<Rightarrow> 'y mem_core \<Rightarrow> ('x, 'y) req_mgr \<Rightarrow> (int \<times> ('x, 'y) req_mgr) option" where
  "cam_req_mgr_close kmd A s =
     (if rm_open_cnt s \<le> 0 then Some (- EINVAL, s)
      else do {
        c \<leftarrow> cam_req_mgr_handle_core_shutdown kmd (rm_core s);
        let s1 = s\<lparr>rm_core := c, rm_shutdown_state := True\<rparr>;
        let s2 = fold shutdown_subdev (rm_ordered_sd_list s1) s1;
        let s3 = s2\<lparr>rm_open_cnt := rm_open_cnt s2 - 1, rm_shutdown_state := False, rm_eventq := False,
                   rm_core := (rm_core s2)\<lparr>crm_hdls := snd (cam_req_mgr_util_free_hdls (crm_hdls (rm_core s2)))\<rparr>\<rparr>;
        Some (0, s3\<lparr>rm_mem := cam_mem_mgr_deinit A (rm_mem s3)\<rparr>) })"

definition cam_req_mgr_is_open :: "('x, 'y) req_mgr \<Rightarrow> bool" where
  "cam_req_mgr_is_open s = (rm_open_cnt s \<noteq> 0)"

definition cam_req_mgr_is_shutdown :: "('x, 'y) req_mgr \<Rightarrow> bool" where
  "cam_req_mgr_is_shutdown s = rm_shutdown_state s"

subsection \<open>Events\<close>

text \<open>\<open>ev\<close> is the number of the event and \<open>rc\<close> the answer of V4L2. A shift by 32 or more is not defined.\<close>

definition cam_subscribe_event :: "u32 \<Rightarrow> int \<Rightarrow> ('x, 'y) req_mgr \<Rightarrow> (int \<times> ('x, 'y) req_mgr) option" where
  "cam_subscribe_event ev rc s =
     (if 32 \<le> ev then None else Some (rc, s\<lparr>rm_sub_ids := rm_sub_ids s OR push_bit (unat ev) 1\<rparr>))"

definition cam_unsubscribe_event :: "u32 \<Rightarrow> int \<Rightarrow> ('x, 'y) req_mgr \<Rightarrow> (int \<times> ('x, 'y) req_mgr) option" where
  "cam_unsubscribe_event ev rc s =
     (if 32 \<le> ev then None else Some (rc, s\<lparr>rm_sub_ids := rm_sub_ids s AND NOT (push_bit (unat ev) 1)\<rparr>))"

definition cam_req_mgr_get_id_subscribed :: "('x, 'y) req_mgr \<Rightarrow> u32" where
  "cam_req_mgr_get_id_subscribed s = rm_sub_ids s"

subsection \<open>Sub-devices\<close>

text \<open>\<open>d\<close> is \<^const>\<open>None\<close> for a null pointer and for a sub-device without a name; \<open>rc1\<close> and \<open>rc2\<close> are the answers of
  V4L2. The list is sorted by a stable sort after the new sub-device has been put at its head, and keeps it
  when the registration fails.\<close>

definition cam_register_subdev :: "('x, 'y) cam_subdev option \<Rightarrow> int \<Rightarrow> int \<Rightarrow> ('x, 'y) req_mgr \<Rightarrow>
  int \<times> ('x, 'y) req_mgr" where
  "cam_register_subdev csd rc1 rc2 s =
     (if \<not> rm_state s then (- EPROBE_DEFER, s)
      else case csd of None \<Rightarrow> (- EINVAL, s)
      | Some d \<Rightarrow>
          let s1 = s\<lparr>rm_ordered_sd_list := sort_key close_seq_prior (d # rm_ordered_sd_list s)\<rparr> in
          if rc1 \<noteq> 0 then (rc1, s1)
          else if rc2 \<noteq> 0 then (rc2, s1)
          else (rc2, s1\<lparr>rm_count := rm_count s1 + 1\<rparr>))"

text \<open>The list keeps a sub-device that is unregistered.\<close>

definition cam_unregister_subdev :: "('x, 'y) req_mgr \<Rightarrow> int \<times> ('x, 'y) req_mgr" where
  "cam_unregister_subdev s = (if \<not> rm_state s then (- ENODEV, s) else (0, s\<lparr>rm_count := rm_count s - 1\<rparr>))"

subsection \<open>The ioctl\<close>

record cam_control =
  cc_op_code :: u32
  cc_size :: u32
  cc_handle :: u64

text \<open>The structures of \<open>cam_req_mgr.h\<close> that only the ioctl uses, with the fields that are read.\<close>

record cam_req_mgr_unlink_info =
  ui_session_hdl :: u32
  ui_link_hdl :: u32

record cam_mem_mgr_alloc_cmd =
  av_len :: u64
  av_mmu_hdls :: "int list"
  av_num_hdl :: u32
  av_flags :: u32

record cam_mem_mgr_map_cmd =
  mv_mmu_hdls :: "int list"
  mv_num_hdl :: u32
  mv_flags :: u32
  mv_fd :: int

record cam_mem_cache_ops_cmd =
  co_buf_handle :: u32
  co_mem_cache_ops :: u32

record cam_mem_cpu_access_op =
  ca_buf_handle :: u32
  ca_access :: u32
  ca_access_type :: u32

record cam_dump_req_cmd =
  dr_session_handle :: u32
  dr_info :: cam_req_mgr_dump_info

record cam_req_mgr_link_properties_arg =
  lp_link_hdl :: u32
  lp_properties_mask :: u32

record rm_user =
  ru_session :: "u64 \<Rightarrow> u32 option"
  ru_link :: "u64 \<Rightarrow> cam_req_mgr_link_info option"
  ru_link_v2 :: "u64 \<Rightarrow> cam_req_mgr_link_info option"
  ru_unlink :: "u64 \<Rightarrow> cam_req_mgr_unlink_info option"
  ru_sched :: "u64 \<Rightarrow> cam_req_mgr_sched_request option"
  ru_sched_v2 :: "u64 \<Rightarrow> cam_req_mgr_sched_request_v2 option"
  ru_flush :: "u64 \<Rightarrow> cam_req_mgr_flush_info option"
  ru_sync :: "u64 \<Rightarrow> cam_req_mgr_sync_mode option"
  ru_alloc :: "u64 \<Rightarrow> cam_mem_mgr_alloc_cmd option"
  ru_alloc_v2 :: "u64 \<Rightarrow> cam_mem_mgr_alloc_cmd_v2 option"
  ru_map :: "u64 \<Rightarrow> cam_mem_mgr_map_cmd option"
  ru_map_v2 :: "u64 \<Rightarrow> cam_mem_mgr_map_cmd_v2 option"
  ru_release :: "u64 \<Rightarrow> u32 option"
  ru_cache :: "u64 \<Rightarrow> cam_mem_cache_ops_cmd option"
  ru_cpu :: "u64 \<Rightarrow> cam_mem_cpu_access_op option"
  ru_control :: "u64 \<Rightarrow> cam_req_mgr_link_control_arg option"
  ru_dump :: "u64 \<Rightarrow> cam_dump_req_cmd option"
  ru_properties :: "u64 \<Rightarrow> cam_req_mgr_link_properties_arg option"
  ru_query_cap :: "u64 \<Rightarrow> unit option"
  ru_write_ok :: "u64 \<Rightarrow> bool"

text \<open>What the ioctl copies back.\<close>

datatype rm_out =
    Wr_none
  | Wr_session u32
  | Wr_link u32
  | Wr_alloc "cam_mem_alloc_out_params option"
  | Wr_map "cam_mem_map_out_params option"
  | Wr_offset u64
  | Wr_features u64

text \<open>The rest of the environment: the memory for a session, the random byte, the allocations for a link and for
  the timers, what a structure on the stack held before, and what happens while a flush waits.\<close>

record 'x rm_env =
  re_session :: "nat option"
  re_rand :: u8
  re_link :: link_allocs
  re_stack :: cam_req_mgr_sched_request_v2
  re_timer :: "nat \<Rightarrow> bool"
  re_worker :: "'x crm \<Rightarrow> (u64 \<times> 'x crm) option"

abbreviation (input) OPCODE_MAX :: u32 where "OPCODE_MAX \<equiv> 0x10A"
abbreviation (input) MEM_UBWC_P_HEAP_SUPPORTED :: u64 where "MEM_UBWC_P_HEAP_SUPPORTED \<equiv> 1"

text \<open>The beginning of every case: the size is compared and the structure copied in.\<close>

definition from_user :: "(u64 \<Rightarrow> 'a option) \<Rightarrow> u32 \<Rightarrow> cam_control \<Rightarrow> 's \<Rightarrow> ('a \<Rightarrow> (int \<times> rm_out \<times> 's) option) \<Rightarrow>
  (int \<times> rm_out \<times> 's) option" where
  "from_user rd size_of k s f =
     (if cc_size k \<noteq> size_of then Some (- EINVAL, Wr_none, s)
      else case rd (cc_handle k) of None \<Rightarrow> Some (- EFAULT, Wr_none, s) | Some a \<Rightarrow> f a)"

text \<open>The end of the cases with a result: it is copied out when the call has succeeded.\<close>

definition to_user :: "rm_user \<Rightarrow> cam_control \<Rightarrow> rm_out \<Rightarrow> int \<times> 's \<Rightarrow> int \<times> rm_out \<times> 's" where
  "to_user um k out = (\<lambda>(rc, s).
     if rc = 0 then (if ru_write_ok um (cc_handle k) then (rc, out, s) else (- EFAULT, Wr_none, s))
     else (rc, Wr_none, s))"

definition of_core :: "(int \<times> 'x crm) option \<Rightarrow> ('x, 'y) req_mgr \<Rightarrow> (int \<times> rm_out \<times> ('x, 'y) req_mgr) option" where
  "of_core m s = map_option (\<lambda>(rc, c). (rc, Wr_none, s\<lparr>rm_core := c\<rparr>)) m"

definition of_mem :: "int \<times> 'y cam_mem_table \<Rightarrow> ('x, 'y) req_mgr \<Rightarrow> (int \<times> rm_out \<times> ('x, 'y) req_mgr) option" where
  "of_mem m s = (case m of (rc, t) \<Rightarrow> Some (rc, Wr_none, s\<lparr>rm_mem := t\<rparr>))"

definition invalid_unless_0 :: "(int \<times> rm_out \<times> 's) option \<Rightarrow> (int \<times> rm_out \<times> 's) option" where
  "invalid_unless_0 = map_option (\<lambda>(rc, out, s). (if rc \<noteq> 0 then - EINVAL else rc, out, s))"

text \<open>The query for capabilities, and the opcodes that are not known.\<close>

definition query_ioctl :: "rm_user \<Rightarrow> cam_control \<Rightarrow> ('x, 'y) req_mgr \<Rightarrow> (int \<times> rm_out \<times> ('x, 'y) req_mgr) option" where
  "query_ioctl um k s =
     (if cc_op_code k = OPCODE_MAX + 21 then
        from_user (ru_query_cap um) 48 k s (\<lambda>_.
          Some (to_user um k (Wr_features (if cam_mem_mgr_ubwc_p_heap_supported (rm_mem s)
                                           then MEM_UBWC_P_HEAP_SUPPORTED else 0)) (0, s)))
      else Some (- ENOIOCTLCMD, Wr_none, s))"

text \<open>The cases that hand buffers to the memory manager.\<close>

definition mem_ioctl :: "'y mem_core \<Rightarrow> rm_user \<Rightarrow> cam_control \<Rightarrow> ('x, 'y) req_mgr \<Rightarrow>
  (int \<times> rm_out \<times> ('x, 'y) req_mgr) option" where
  "mem_ioctl A um k s =
     (if cc_op_code k = OPCODE_MAX + 9 then
        from_user (ru_alloc um) 104 k s (\<lambda>cmd.
          let cmd_v2 = \<lparr>ac_num_hdl = av_num_hdl cmd, ac_mmu_hdls = av_mmu_hdls cmd, ac_len = av_len cmd,
                        ac_buf_name = ''UNKNOWN'', ac_flags = av_flags cmd\<rparr>;
              (rc, out, t) = cam_mem_mgr_alloc_and_map A cmd_v2 (rm_mem s)
          in Some (to_user um k (Wr_alloc out) (rc, s\<lparr>rm_mem := t\<rparr>)))
      else if cc_op_code k = OPCODE_MAX + 18 then
        from_user (ru_alloc_v2 um) 272 k s (\<lambda>cmd.
          let (rc, out, t) = cam_mem_mgr_alloc_and_map A cmd (rm_mem s)
          in Some (to_user um k (Wr_alloc out) (rc, s\<lparr>rm_mem := t\<rparr>)))
      else if cc_op_code k = OPCODE_MAX + 10 then
        from_user (ru_map um) 96 k s (\<lambda>cmd.
          let cmd_v2 = \<lparr>pc_fd = mv_fd cmd, pc_mmu_hdls = mv_mmu_hdls cmd, pc_num_hdl = mv_num_hdl cmd,
                        pc_flags = mv_flags cmd, pc_buf_name = ''UNKNOWN''\<rparr>;
              (rc, out, t) = cam_mem_mgr_map A cmd_v2 (rm_mem s)
          in Some (to_user um k (Wr_map out) (rc, s\<lparr>rm_mem := t\<rparr>)))
      else if cc_op_code k = OPCODE_MAX + 19 then
        from_user (ru_map_v2 um) 256 k s (\<lambda>cmd.
          let (rc, out, t) = cam_mem_mgr_map A cmd (rm_mem s)
          in Some (to_user um k (Wr_map out) (rc, s\<lparr>rm_mem := t\<rparr>)))
      else if cc_op_code k = OPCODE_MAX + 11 then
        from_user (ru_release um) 8 k s (\<lambda>h. of_mem (cam_mem_mgr_release A h (rm_mem s)) s)
      else if cc_op_code k = OPCODE_MAX + 12 then
        from_user (ru_cache um) 8 k s (\<lambda>cmd.
          of_mem (cam_mem_mgr_cache_ops A (co_buf_handle cmd) (co_mem_cache_ops cmd) (rm_mem s)) s)
      else if cc_op_code k = OPCODE_MAX + 20 then
        from_user (ru_cpu um) 40 k s (\<lambda>cmd. invalid_unless_0
          (of_mem (cam_mem_mgr_cpu_access_op A (ca_buf_handle cmd) (ca_access cmd) (ca_access_type cmd) (rm_mem s)) s))
      else query_ioctl um k s)"

text \<open>The cases for sessions and links.\<close>

definition link_ioctl :: "'x kmd \<Rightarrow> 'x rm_env \<Rightarrow> rm_user \<Rightarrow> cam_control \<Rightarrow> ('x, 'y) req_mgr \<Rightarrow>
  (int \<times> rm_out \<times> ('x, 'y) req_mgr) option option" where
  "link_ioctl kmd e um k s =
     (if cc_op_code k = OPCODE_MAX + 13 then
        Some (from_user (ru_control um) 32 k s (\<lambda>lc.
          invalid_unless_0 (of_core (cam_req_mgr_link_control kmd (re_timer e) lc (rm_core s)) s)))
      else if cc_op_code k = OPCODE_MAX + 15 then
        Some (from_user (ru_dump um) 40 k s (\<lambda>dr. do {
          (rc, off, c) \<leftarrow> cam_req_mgr_dump_request kmd (dr_session_handle dr) (dr_info dr) (rm_core s);
          Some (to_user um k (Wr_offset off) (rc, s\<lparr>rm_core := c\<rparr>)) }))
      else if cc_op_code k = OPCODE_MAX + 17 then
        Some (from_user (ru_properties um) 48 k s (\<lambda>lp.
          of_core (cam_req_mgr_link_properties kmd (lp_link_hdl lp) (lp_properties_mask lp) (rm_core s)) s))
      else None)"

definition core_ioctl :: "'x kmd \<Rightarrow> 'x rm_env \<Rightarrow> rm_user \<Rightarrow> cam_control \<Rightarrow> ('x, 'y) req_mgr \<Rightarrow>
  (int \<times> rm_out \<times> ('x, 'y) req_mgr) option option" where
  "core_ioctl kmd e um k s =
     (if cc_op_code k = OPCODE_MAX + 2 then
        Some (from_user (ru_session um) 8 k s (\<lambda>_.
          let (rc, h, c) = cam_req_mgr_create_session (re_session e) (re_rand e) (rm_core s)
          in Some (to_user um k (Wr_session h) (rc, s\<lparr>rm_core := c\<rparr>))))
      else if cc_op_code k = OPCODE_MAX + 3 then
        Some (from_user (ru_session um) 8 k s (\<lambda>h. of_core (cam_req_mgr_destroy_session kmd h False (rm_core s)) s))
      else if cc_op_code k = OPCODE_MAX + 4 then
        Some (from_user (ru_link um) 268 k s (\<lambda>li. do {
          (rc, h, c) \<leftarrow> cam_req_mgr_link kmd (re_link e) li (rm_core s);
          Some (to_user um k (Wr_link h) (rc, s\<lparr>rm_core := c\<rparr>)) }))
      else if cc_op_code k = OPCODE_MAX + 14 then
        Some (from_user (ru_link_v2 um) 1036 k s (\<lambda>li. do {
          (rc, h, c) \<leftarrow> cam_req_mgr_link_v2 kmd (re_link e) li (rm_core s);
          Some (to_user um k (Wr_link h) (rc, s\<lparr>rm_core := c\<rparr>)) }))
      else if cc_op_code k = OPCODE_MAX + 5 then
        Some (from_user (ru_unlink um) 8 k s (\<lambda>ui.
          of_core (cam_req_mgr_unlink kmd (ui_session_hdl ui) (ui_link_hdl ui) (rm_core s)) s))
      else if cc_op_code k = OPCODE_MAX + 6 then
        Some (from_user (ru_sched um) 32 k s (\<lambda>sr. of_core (cam_req_mgr_schedule_request (re_stack e) sr (rm_core s)) s))
      else if cc_op_code k = OPCODE_MAX + 16 then
        Some (from_user (ru_sched_v2 um) 72 k s (\<lambda>sr.
          of_core (cam_req_mgr_schedule_request_v2 (re_stack e) sr (rm_core s)) s))
      else if cc_op_code k = OPCODE_MAX + 7 then
        Some (from_user (ru_flush um) 24 k s (\<lambda>fi. of_core (cam_req_mgr_flush_requests (re_worker e) fi (rm_core s)) s))
      else if cc_op_code k = OPCODE_MAX + 8 then
        Some (from_user (ru_sync um) 28 k s (\<lambda>sm. of_core (cam_req_mgr_sync_config sm (rm_core s)) s))
      else link_ioctl kmd e um k s)"

text \<open>\<open>arg\<close> is the argument of the ioctl, \<open>cmd_ok\<close> says whether its command is \<open>VIDIOC_CAM_CONTROL\<close>.\<close>

definition cam_private_ioctl :: "'x kmd \<Rightarrow> 'y mem_core \<Rightarrow> 'x rm_env \<Rightarrow> rm_user \<Rightarrow> bool \<Rightarrow> cam_control option \<Rightarrow>
  ('x, 'y) req_mgr \<Rightarrow> (int \<times> rm_out \<times> ('x, 'y) req_mgr) option" where
  "cam_private_ioctl kmd A e um cmd_ok arg s =
     (case arg of None \<Rightarrow> Some (- EINVAL, Wr_none, s)
      | Some k \<Rightarrow>
          if \<not> cmd_ok then Some (- EINVAL, Wr_none, s)
          else if cc_handle k = 0 then Some (- EINVAL, Wr_none, s)
          else case core_ioctl kmd e um k s of Some r \<Rightarrow> r | None \<Rightarrow> mem_ioctl A um k s)"

subsection \<open>Binding and unbinding\<close>

text \<open>The outcomes on the way: the set-up of the V4L2, media and video devices, the allocations of the handle
  table and the core, the sub-devices that the components register with the answers of V4L2, the status of the
  components and of the creation of the debug file.\<close>

record ('x, 'y) bind_outcomes =
  bo_v4l2 :: int
  bo_media :: int
  bo_video :: int
  bo_tbl :: bool
  bo_bitmap :: bool
  bo_core :: bool
  bo_subdevs :: "(('x, 'y) cam_subdev option \<times> int \<times> int) list"
  bo_components :: int
  bo_sysfs :: int

text \<open>\<open>L\<close> are the links, \<open>t\<close> the handle table, \<open>ids\<close> and \<open>n\<close> the subscriptions and the count of sub-devices, and
  \<open>q\<close> whether an event queue is set, as they are before. Without success there is no device; the second component
  is the handle table that remains.\<close>

definition cam_req_mgr_component_master_bind :: "('x, 'y) bind_outcomes \<Rightarrow> links \<Rightarrow> hdl_table \<Rightarrow> 'x crm_env \<Rightarrow>
  'y cam_mem_table \<Rightarrow> u32 \<Rightarrow> int \<Rightarrow> bool \<Rightarrow> int \<times> hdl_table \<times> ('x, 'y) req_mgr option" where
  "cam_req_mgr_component_master_bind bo L t e m ids n q =
     (if bo_v4l2 bo \<noteq> 0 then (bo_v4l2 bo, t, None)
      else if bo_media bo \<noteq> 0 then (bo_media bo, t, None)
      else if bo_video bo \<noteq> 0 then (bo_video bo, t, None)
      else
        let (rc, t1) = cam_req_mgr_util_init (bo_tbl bo) None (bo_bitmap bo) t in
        if rc \<noteq> 0 then (rc, t1, None)
        else case cam_req_mgr_core_device_init (bo_core bo) L t1 e None of
          (rc, None) \<Rightarrow> (rc, snd (cam_req_mgr_util_deinit t1), None)
        | (rc, Some c) \<Rightarrow>
            if rc \<noteq> 0 then (rc, snd (cam_req_mgr_util_deinit t1), None)
            else
              let s = fold (\<lambda>(d, rc1, rc2) s. snd (cam_register_subdev d rc1 rc2 s)) (bo_subdevs bo)
                        \<lparr>rm_core = c, rm_mem = m, rm_open_cnt = 0, rm_sub_ids = ids, rm_eventq = q,
                         rm_shutdown_state = False, rm_state = True, rm_count = n, rm_ordered_sd_list = []\<rparr> in
              if bo_components bo \<noteq> 0 then (bo_components bo, snd (cam_req_mgr_util_deinit t1), None)
              else if bo_sysfs bo < 0 then (bo_sysfs bo, snd (cam_req_mgr_util_deinit t1), None)
              else (bo_sysfs bo, t1, Some s))"

definition cam_req_mgr_component_master_unbind :: "('x, 'y) req_mgr \<Rightarrow> hdl_table \<times> 'x crm option" where
  "cam_req_mgr_component_master_unbind s =
     (let c = snd (cam_req_mgr_core_device_deinit (Some (rm_core s)))
      in (snd (cam_req_mgr_util_deinit (crm_hdls (rm_core s))), c))"

end
