(* ===== verification/Cam_Req_Dev_Props.thy ===== *)
theory Cam_Req_Dev_Props
  imports Cam_Req_Dev Cam_Crm_Sessions Cam_Mem_Props
begin

section \<open>The request manager as a whole\<close>

text \<open>
  The device node composes the core and the memory manager. An ioctl is at most one step of one of them, so that
  their invariants hold in every state of the device; buffers exist only while the node is open; and closing it
  takes back everything that was made through it.
\<close>

subsection \<open>Memory operations keep the manager up\<close>

lemma quiet_state: "quiet t t' \<Longrightarrow> mt_state t' = mt_state t" "took i t t' \<Longrightarrow> mt_state t' = mt_state t"
  "gave i t t' \<Longrightarrow> mt_state t' = mt_state t"
  by (auto simp: quiet_def took_def gave_def)

lemma alloc_state: "cam_mem_mgr_alloc_and_map A cmd t = (rc, out, t') \<Longrightarrow> mem_wf t \<Longrightarrow> mt_state t' = mt_state t"
  using alloc_cases [of t A cmd rc out t'] uninit_refuses(3) [of t A cmd] by (cases "mt_state t") (auto dest: quiet_state)

lemma map_state: "cam_mem_mgr_map A imp t = (rc, out, t') \<Longrightarrow> mem_wf t \<Longrightarrow> mt_state t' = mt_state t"
  using map_cases [of t A imp rc out t'] uninit_refuses(4) [of t A imp] by (cases "mt_state t") (auto dest: quiet_state)

lemma release_state: "cam_mem_mgr_release A h t = (rc, t') \<Longrightarrow> mem_wf t \<Longrightarrow> mt_state t' = mt_state t"
  using release_cases [of t A h rc t'] uninit_refuses(5) [of t A h] by (cases "mt_state t") (auto dest: quiet_state)

lemma cache_state: "cam_mem_mgr_cache_ops A h c t = (rc, t') \<Longrightarrow> mt_state t' = mt_state t"
  using quiet_state(1) [OF only_core_quiet [OF cache_core [of t A h c]]] by simp

lemma cpu_state: "cam_mem_mgr_cpu_access_op A h a ty t = (rc, t') \<Longrightarrow> mt_state t' = mt_state t"
  using quiet_state(1) [OF only_core_quiet [OF cpu_access_core [of t A h a ty]]] by simp

lemma init_state: "cam_mem_mgr_init A t = (rc, t') \<Longrightarrow> \<not> mt_state t \<Longrightarrow> mt_state t' = (rc = 0)"
  by (auto simp: cam_mem_mgr_init_def Let_def dest: get_heaps_state split: prod.splits if_splits)

subsection \<open>An ioctl is one step of one component\<close>

text \<open>A step of the memory manager that neither starts nor stops it.\<close>

definition mem_op :: "'y mem_core \<Rightarrow> 'y cam_mem_table \<Rightarrow> 'y cam_mem_table \<Rightarrow> bool" where
  "mem_op A t t' \<longleftrightarrow> mem_step A t t' \<and> mt_state t' = mt_state t"

definition component_step :: "'x kmd \<Rightarrow> 'y mem_core \<Rightarrow> ('x, 'y) req_mgr \<Rightarrow> ('x, 'y) req_mgr \<Rightarrow> bool" where
  "component_step kmd A s s' \<longleftrightarrow> s' = s \<or> (\<exists>c. crm_step kmd (rm_core s) c \<and> s' = s\<lparr>rm_core := c\<rparr>) \<or>
     (\<exists>t. mem_op A (rm_mem s) t \<and> s' = s\<lparr>rm_mem := t\<rparr>)"

lemma component_core: "crm_step kmd (rm_core s) c \<Longrightarrow> component_step kmd A s (s\<lparr>rm_core := c\<rparr>)"
  and component_mem: "mem_op A (rm_mem s) t \<Longrightarrow> component_step kmd A s (s\<lparr>rm_mem := t\<rparr>)"
  and component_same [simp]: "component_step kmd A s s"
  by (auto simp: component_step_def)

lemma from_user_cases:
  "from_user rd n k s f = Some (rc, out, s') \<Longrightarrow> (rc = - EINVAL \<or> rc = - EFAULT) \<and> s' = s \<or> (\<exists>a. rd (cc_handle k) = Some a \<and> f a = Some (rc, out, s'))"
  by (auto simp: from_user_def split: if_split_asm option.split_asm)

lemma to_user_state [simp]: "snd (snd (to_user um k out (rc, s))) = s"
  by (simp add: to_user_def)

lemma to_user_eq: "to_user um k out (rc, s) = (rc', out', s') \<Longrightarrow> s' = s"
  by (auto simp: to_user_def split: if_split_asm)

lemma core_ioctl_step:
  assumes "core_ioctl kmd e um k s = Some (Some (rc, out, s'))" "re_worker e = (\<lambda>c. Some (ticks, c))"
  shows "component_step kmd A s s'"
  using assms
  by (auto simp: core_ioctl_def link_ioctl_def of_core_def invalid_unless_0_def bind_eq_Some_conv Let_def
      split: if_split_asm prod.split_asm intro: component_core crm_step.intros
        component_core [OF crm_step.new_link] component_core [OF crm_step.new_link_v2] component_core [OF crm_step.dump_request]
      dest!: from_user_cases to_user_eq)

lemma mem_ops:
  "cam_mem_mgr_alloc_and_map A cmd t = (rc, out, t') \<Longrightarrow> mem_wf t \<Longrightarrow> mem_op A t t'"
  "cam_mem_mgr_map A imp t = (rc, mout, t') \<Longrightarrow> mem_wf t \<Longrightarrow> mem_op A t t'"
  "cam_mem_mgr_release A h t = (rc, t') \<Longrightarrow> mem_wf t \<Longrightarrow> mem_op A t t'"
  "cam_mem_mgr_cache_ops A h c t = (rc, t') \<Longrightarrow> mem_op A t t'"
  "cam_mem_mgr_cpu_access_op A h a ty t = (rc, t') \<Longrightarrow> mem_op A t t'"
  using step_alloc [of A t cmd] step_map [of A t imp] step_release [of A t h] step_cache [of A t h c]
    step_cpu_access [of A t h a ty]
  by (auto simp: mem_op_def alloc_state map_state release_state cache_state cpu_state)

lemma mem_ioctl_step:
  assumes "mem_ioctl A um k s = Some (rc, out, s')" "mem_wf (rm_mem s)"
  shows "component_step kmd A s s'"
  using assms(1)
  by (auto simp: mem_ioctl_def query_ioctl_def of_mem_def invalid_unless_0_def Let_def
      split: if_split_asm prod.split_asm dest!: from_user_cases to_user_eq
      intro!: component_mem intro: mem_ops(1-3) [OF _ assms(2)] mem_ops(4,5))

lemma ioctl_component:
  assumes "cam_private_ioctl kmd A e um cmd_ok arg s = Some (rc, out, s')" "mem_reach A (rm_mem s)"
    "re_worker e = (\<lambda>c. Some (ticks, c))"
  shows "component_step kmd A s s'"
  using assms(1) core_ioctl_step [OF _ assms(3)] mem_ioctl_step [OF _ reach_wf [OF assms(2)]]
  by (auto simp: cam_private_ioctl_def split: option.split_asm if_split_asm)


subsection \<open>The states the device can reach\<close>

text \<open>What the driver of a sub-device may do to the buffers when it is told to shut down: any steps of the memory
  manager, but not its start or end.\<close>

definition driver_ok :: "'y mem_core \<Rightarrow> ('x, 'y) cam_subdev \<Rightarrow> bool" where
  "driver_ok A d \<longleftrightarrow> (\<forall>h e t h' e' t'. mem_reach A t \<longrightarrow> sd_shutdown d (h, e, t) = (h', e', t') \<longrightarrow> (mem_op A)\<^sup>*\<^sup>* t t')"

inductive dev_step :: "'x kmd \<Rightarrow> 'y mem_core \<Rightarrow> ('x, 'y) req_mgr \<Rightarrow> ('x, 'y) req_mgr \<Rightarrow> bool" for kmd A where
  dev_open: "cam_req_mgr_open A fh_rc s = (rc, s') \<Longrightarrow> dev_step kmd A s s'"
| dev_close: "cam_req_mgr_close kmd A s = Some (rc, s') \<Longrightarrow> dev_step kmd A s s'"
| dev_ioctl: "cam_private_ioctl kmd A e um cmd_ok arg s = Some (rc, out, s') \<Longrightarrow> re_worker e = (\<lambda>c. Some (ticks, c)) \<Longrightarrow>
    dev_step kmd A s s'"
| dev_subscribe: "cam_subscribe_event ev rc s = Some (rc', s') \<Longrightarrow> dev_step kmd A s s'"
| dev_unsubscribe: "cam_unsubscribe_event ev rc s = Some (rc', s') \<Longrightarrow> dev_step kmd A s s'"
| dev_register: "cam_register_subdev (Some d) rc1 rc2 s = (rc, s') \<Longrightarrow> driver_ok A d \<Longrightarrow> dev_step kmd A s s'"
| dev_unregister: "cam_unregister_subdev s = (rc, s') \<Longrightarrow> dev_step kmd A s s'"
| dev_core: "crm_step kmd (rm_core s) c \<Longrightarrow> dev_step kmd A s (s\<lparr>rm_core := c\<rparr>)"
| dev_memory: "mem_op A (rm_mem s) t \<Longrightarrow> dev_step kmd A s (s\<lparr>rm_mem := t\<rparr>)"

inductive dev_reach :: "'x kmd \<Rightarrow> 'y mem_core \<Rightarrow> ('x, 'y) req_mgr \<Rightarrow> bool" for kmd A where
  dev_start: "cam_req_mgr_component_master_bind bo (\<lambda>_. zero_link) t e m ids n q = (rc, t', Some s) \<Longrightarrow> \<not> mt_state m \<Longrightarrow>
    \<forall>d rc1 rc2. (Some d, rc1, rc2) \<in> set (bo_subdevs bo) \<longrightarrow> driver_ok A d \<Longrightarrow> dev_reach kmd A s"
| dev_next: "dev_reach kmd A s \<Longrightarrow> dev_step kmd A s s' \<Longrightarrow> dev_reach kmd A s'"

definition dev_inv :: "'x kmd \<Rightarrow> 'y mem_core \<Rightarrow> ('x, 'y) req_mgr \<Rightarrow> bool" where
  "dev_inv kmd A s \<longleftrightarrow> crm_reachable kmd (rm_core s) \<and> mem_reach A (rm_mem s) \<and>
     rm_open_cnt s = (if mt_state (rm_mem s) then 1 else 0) \<and>
     sorted (map close_seq_prior (rm_ordered_sd_list s)) \<and> (\<forall>d \<in> set (rm_ordered_sd_list s). driver_ok A d)"

lemma mem_op_reach: "mem_op A t t' \<Longrightarrow> mem_reach A t \<Longrightarrow> mem_reach A t'"
  by (auto simp: mem_op_def intro: reach_step)

lemma mem_ops_reach: "(mem_op A)\<^sup>*\<^sup>* t t' \<Longrightarrow> (mem_reach A t \<longrightarrow> mem_reach A t') \<and> mt_state t' = mt_state t"
  by (induction rule: rtranclp_induct) (auto simp: mem_op_def intro: reach_step)

lemma shutdown_subdev_frame:
  assumes "driver_ok A d" "mem_reach A (rm_mem s)"
  shows "\<exists>h e t. shutdown_subdev d s = s\<lparr>rm_core := (rm_core s)\<lparr>crm_hdls := h, environ := e\<rparr>, rm_mem := t\<rparr> \<and> (mem_op A)\<^sup>*\<^sup>* (rm_mem s) t"
proof -
  obtain h e t where w: "sd_shutdown d (crm_hdls (rm_core s), environ (rm_core s), rm_mem s) = (h, e, t)" by (rule prod_cases3)
  have "(mem_op A)\<^sup>*\<^sup>* (rm_mem s) t" using assms w unfolding driver_ok_def by blast
  moreover have "\<exists>h e t. s = s\<lparr>rm_core := (rm_core s)\<lparr>crm_hdls := h, environ := e\<rparr>, rm_mem := t\<rparr> \<and> (mem_op A)\<^sup>*\<^sup>* (rm_mem s) t"
    by (intro exI [of _ "crm_hdls (rm_core s)"] exI [of _ "environ (rm_core s)"] exI [of _ "rm_mem s"]) simp
  ultimately show ?thesis unfolding shutdown_subdev_def w by auto
qed

lemma shutdown_subdevs_frame:
  assumes "\<forall>d \<in> set ds. driver_ok A d" "mem_reach A (rm_mem s)"
  shows "\<exists>h e t. fold shutdown_subdev ds s = s\<lparr>rm_core := (rm_core s)\<lparr>crm_hdls := h, environ := e\<rparr>, rm_mem := t\<rparr> \<and>
    (mem_op A)\<^sup>*\<^sup>* (rm_mem s) t"
  using assms
proof (induction ds arbitrary: s)
  case Nil
  show ?case by (intro exI [of _ "crm_hdls (rm_core s)"] exI [of _ "environ (rm_core s)"] exI [of _ "rm_mem s"]) simp
next
  case (Cons d ds)
  obtain h e t where d: "shutdown_subdev d s = s\<lparr>rm_core := (rm_core s)\<lparr>crm_hdls := h, environ := e\<rparr>, rm_mem := t\<rparr>"
    "(mem_op A)\<^sup>*\<^sup>* (rm_mem s) t" using shutdown_subdev_frame [of A d s] Cons.prems by auto
  have "mem_reach A t" using mem_ops_reach [OF d(2)] Cons.prems(2) by simp
  with Cons.IH [of "shutdown_subdev d s"] Cons.prems obtain h' e' t' where
    "fold shutdown_subdev ds (shutdown_subdev d s) = s\<lparr>rm_core := (rm_core s)\<lparr>crm_hdls := h', environ := e'\<rparr>, rm_mem := t'\<rparr>"
    "(mem_op A)\<^sup>*\<^sup>* t t'" by (auto simp: d(1))
  with d(2) show ?case by (auto intro: rtranclp_trans)
qed

lemma open_cases:
  "cam_req_mgr_open A fh_rc s = (rc, s') \<Longrightarrow> s' = s \<or>
     (\<exists>t. mem_step A (rm_mem s) t \<and> rm_open_cnt s \<le> 0 \<and> cam_mem_mgr_init A (rm_mem s) = (rc, t) \<and>
        s' = s\<lparr>rm_eventq := True, rm_mem := t, rm_open_cnt := (if rc = 0 then rm_open_cnt s + 1 else rm_open_cnt s)\<rparr>)"
  using step_init [of A "rm_mem s"] by (auto simp: cam_req_mgr_open_def Let_def split: if_split_asm prod.split_asm)

lemma dev_inv_open:
  assumes "cam_req_mgr_open A fh_rc s = (rc, s')" "dev_inv kmd A s"
  shows "dev_inv kmd A s'"
  using open_cases [OF assms(1)]
proof
  assume "\<exists>t. mem_step A (rm_mem s) t \<and> rm_open_cnt s \<le> 0 \<and> cam_mem_mgr_init A (rm_mem s) = (rc, t) \<and>
    s' = s\<lparr>rm_eventq := True, rm_mem := t, rm_open_cnt := (if rc = 0 then rm_open_cnt s + 1 else rm_open_cnt s)\<rparr>"
  then obtain t where t: "mem_step A (rm_mem s) t" "rm_open_cnt s \<le> 0" "cam_mem_mgr_init A (rm_mem s) = (rc, t)"
    "s' = s\<lparr>rm_eventq := True, rm_mem := t, rm_open_cnt := (if rc = 0 then rm_open_cnt s + 1 else rm_open_cnt s)\<rparr>" by blast
  have "\<not> mt_state (rm_mem s)" using t(2) assms(2) by (auto simp: dev_inv_def split: if_split_asm)
  with init_state [OF t(3)] t assms(2) show ?thesis by (auto simp: dev_inv_def intro: reach_step)
qed (use assms(2) in simp)

lemma shutdown_step: "cam_req_mgr_handle_core_shutdown kmd c = Some c' \<Longrightarrow> crm_reachable kmd c \<Longrightarrow> crm_reachable kmd c'"
  by (blast intro: crm_reachable.step crm_step.core_shutdown)

lemma crm_outside: "crm_reachable kmd c \<Longrightarrow> crm_reachable kmd (c\<lparr>crm_hdls := t, environ := e\<rparr>)"
  using crm_step.outside [where kmd = kmd and s = c and t = t and b = "recovery_on_apply_fail c" and e = e]
  by (auto intro: crm_reachable.step)

lemma dev_inv_close:
  assumes "cam_req_mgr_close kmd A s = Some (rc, s')" "dev_inv kmd A s"
  shows "dev_inv kmd A s'"
proof (cases "rm_open_cnt s \<le> 0")
  case True
  with assms show ?thesis by (simp add: cam_req_mgr_close_def)
next
  case False
  with assms(1) obtain c where c: "cam_req_mgr_handle_core_shutdown kmd (rm_core s) = Some c"
    by (auto simp: cam_req_mgr_close_def bind_eq_Some_conv)
  let ?s1 = "s\<lparr>rm_core := c, rm_shutdown_state := True\<rparr>"
  obtain h e t where f: "fold shutdown_subdev (rm_ordered_sd_list s) ?s1 =
      ?s1\<lparr>rm_core := c\<lparr>crm_hdls := h, environ := e\<rparr>, rm_mem := t\<rparr>" "(mem_op A)\<^sup>*\<^sup>* (rm_mem s) t"
    using shutdown_subdevs_frame [of "rm_ordered_sd_list s" A ?s1] assms(2) by (auto simp: dev_inv_def)
  have s': "s' = s\<lparr>rm_core := c\<lparr>crm_hdls := snd (cam_req_mgr_util_free_hdls h), environ := e\<rparr>,
      rm_shutdown_state := False, rm_open_cnt := rm_open_cnt s - 1, rm_eventq := False, rm_mem := cam_mem_mgr_deinit A t\<rparr>"
    using assms(1) False c f(1) by (auto simp: cam_req_mgr_close_def)
  have "crm_reachable kmd (c\<lparr>crm_hdls := snd (cam_req_mgr_util_free_hdls h), environ := e\<rparr>)"
    using assms(2) c by (auto simp: dev_inv_def intro: crm_outside shutdown_step)
  moreover have "mem_reach A (cam_mem_mgr_deinit A t)" using mem_ops_reach [OF f(2)] assms(2)
    by (auto simp: dev_inv_def intro: reach_step step_deinit)
  ultimately show ?thesis using assms(2) False by (auto simp: dev_inv_def s' deinit_state split: if_split_asm)
qed

lemma dev_inv_component: "component_step kmd A s s' \<Longrightarrow> dev_inv kmd A s \<Longrightarrow> dev_inv kmd A s'"
  by (auto simp: component_step_def dev_inv_def mem_op_def intro: crm_reachable.step reach_step)

lemma register_inv:
  "cam_register_subdev (Some d) rc1 rc2 s = (rc, s') \<Longrightarrow> driver_ok A d \<Longrightarrow> dev_inv kmd A s \<Longrightarrow> dev_inv kmd A s'"
  by (auto simp: cam_register_subdev_def dev_inv_def Let_def sorted_insort_key set_insort_key split: if_split_asm)

lemma register_all_inv:
  "\<forall>d rc1 rc2. (Some d, rc1, rc2) \<in> set ds \<longrightarrow> driver_ok A d \<Longrightarrow> dev_inv kmd A s \<Longrightarrow>
   dev_inv kmd A (fold (\<lambda>(d, rc1, rc2) s. snd (cam_register_subdev d rc1 rc2 s)) ds s)"
proof (induction ds arbitrary: s)
  case (Cons x ds)
  obtain d rc1 rc2 where x: "x = (d, rc1, rc2)" by (rule prod_cases3)
  have ok: "\<forall>d rc1 rc2. (Some d, rc1, rc2) \<in> set ds \<longrightarrow> driver_ok A d" using Cons.prems(1) by simp
  have "dev_inv kmd A (snd (cam_register_subdev d rc1 rc2 s))"
  proof (cases d)
    case None
    with Cons.prems(2) show ?thesis by (simp add: cam_register_subdev_def)
  next
    case (Some d')
    with Cons.prems(1) x have "driver_ok A d'" by auto
    from register_inv [OF prod.collapse [symmetric] this Cons.prems(2)] Some show ?thesis by simp
  qed
  from Cons.IH [OF ok this] show ?case by (simp add: x)
qed simp

lemma master_bind_inv:
  assumes "cam_req_mgr_component_master_bind bo (\<lambda>_. zero_link) t e m ids n q = (rc, t', Some s)" "\<not> mt_state m"
    "\<forall>d rc1 rc2. (Some d, rc1, rc2) \<in> set (bo_subdevs bo) \<longrightarrow> driver_ok A d"
  shows "dev_inv kmd A s"
proof -
  obtain t1 c where c: "cam_req_mgr_core_device_init (bo_core bo) (\<lambda>_. zero_link) t1 e None = (0, Some c)"
    "s = fold (\<lambda>(d, rc1, rc2) s. snd (cam_register_subdev d rc1 rc2 s)) (bo_subdevs bo)
       \<lparr>rm_core = c, rm_mem = m, rm_open_cnt = 0, rm_sub_ids = ids, rm_eventq = q,
        rm_shutdown_state = False, rm_state = True, rm_count = n, rm_ordered_sd_list = []\<rparr>"
    using assms(1) by (auto simp: cam_req_mgr_component_master_bind_def Let_def split: if_split_asm prod.split_asm option.split_asm)
  have "crm_reachable kmd c" using c(1) crm_reachable.start [of t1 e c kmd]
    by (simp add: cam_req_mgr_core_device_init_def split: if_split_asm)
  with assms(2) show ?thesis unfolding c(2)
    by (intro register_all_inv [OF assms(3)]) (simp add: dev_inv_def reach_start)
qed

lemma dev_reach_inv: "dev_reach kmd A s \<Longrightarrow> dev_inv kmd A s"
proof (induction rule: dev_reach.induct)
  case (dev_start bo t e m ids n q rc t' s)
  then show ?case by (intro master_bind_inv)
next
  case (dev_next s s')
  from dev_next.hyps(2) dev_next.IH show ?case
  proof cases
    case (dev_ioctl e um cmd_ok arg rc out ticks)
    then show ?thesis using ioctl_component dev_inv_component dev_next.IH by (fastforce simp: dev_inv_def)
  next
    case (dev_core c)
    with dev_next.IH show ?thesis by (auto intro: dev_inv_component component_core)
  next
    case (dev_memory t)
    with dev_next.IH show ?thesis by (auto intro: dev_inv_component component_mem)
  next
    case dev_open
    then show ?thesis using dev_next.IH by (rule dev_inv_open)
  next
    case dev_close
    then show ?thesis using dev_next.IH by (rule dev_inv_close)
  next
    case dev_register
    then show ?thesis using dev_next.IH by (rule register_inv)
  qed (use dev_next.IH in \<open>auto simp: cam_subscribe_event_def cam_unsubscribe_event_def cam_unregister_subdev_def dev_inv_def
      split: if_split_asm\<close>)
qed

text \<open>C7: the invariants of the components hold together in every state that opening, closing, ioctls, events, device
  drivers and the work of the core and of the memory manager lead to: every link of the core satisfies its
  invariant, the buffer table is well-formed, the node is open at most once and the memory manager is up exactly
  while it is open, and the sub-devices stand in the order in which they are to be closed.\<close>

theorem device_node_invariant:
  assumes "dev_reach kmd A s"
  shows "crm_inv (rm_core s) \<and> mem_wf (rm_mem s) \<and> (rm_open_cnt s = 0 \<or> rm_open_cnt s = 1) \<and>
     (mt_state (rm_mem s) \<longleftrightarrow> cam_req_mgr_is_open s) \<and> sorted (map close_seq_prior (rm_ordered_sd_list s))"
  using dev_reach_inv [OF assms] reachable_inv reach_wf
  by (auto simp: dev_inv_def cam_req_mgr_is_open_def split: if_split_asm)

subsection \<open>A device\<close>

text \<open>A node with one sub-device, whose driver gives a buffer back when it is told to shut down.\<close>

definition demo_subdev :: "(calls, mem_event list) cam_subdev" where
  "demo_subdev = \<lparr>close_seq_prior = 1, sd_has_devnode = True, sd_internal_ops = True,
     sd_shutdown = (\<lambda>(h, e, t). (h, e, snd (cam_mem_mgr_release (log_core 0 0) demo_handle t)))\<rparr>"

definition demo_node :: "calls crm \<Rightarrow> mem_event list cam_mem_table \<Rightarrow> int \<Rightarrow> (calls, mem_event list) req_mgr" where
  "demo_node c t n = \<lparr>rm_core = c, rm_mem = t, rm_open_cnt = n, rm_sub_ids = 0, rm_eventq = (n = 1),
     rm_shutdown_state = False, rm_state = True, rm_count = 1, rm_ordered_sd_list = [demo_subdev]\<rparr>"

lemma demo_driver: "driver_ok (log_core 0 0) demo_subdev"
  unfolding driver_ok_def
proof (intro allI impI)
  fix h :: hdl_table and e :: "calls crm_env" and t h' e' t'
  assume r: "mem_reach (log_core 0 0) t" and d: "sd_shutdown demo_subdev (h, e, t) = (h', e', t')"
  obtain rc where "cam_mem_mgr_release (log_core 0 0) demo_handle t = (rc, t')"
    using d by (cases "cam_mem_mgr_release (log_core 0 0) demo_handle t") (simp add: demo_subdev_def)
  from mem_ops(3) [OF this reach_wf [OF r]] show "(mem_op (log_core 0 0))\<^sup>*\<^sup>* t t'" by blast
qed

lemma demo_bound: "crm_reachable kmd c \<Longrightarrow> dev_reach kmd (log_core 0 0) (demo_node c boot_table 0)"
proof (induction rule: crm_reachable.induct)
  case (start t e c)
  let ?bo = "\<lparr>bo_v4l2 = 0, bo_media = 0, bo_video = 0, bo_tbl = True, bo_bitmap = True, bo_core = True,
    bo_subdevs = [(Some demo_subdev, 0, 0)], bo_components = 0, bo_sysfs = 0\<rparr>"
  obtain c1 t1 where b: "cam_req_mgr_component_master_bind ?bo (\<lambda>_. zero_link) None e boot_table 0 0 False = (0, t1, Some (demo_node c1 boot_table 0))"
    and c: "c = c1\<lparr>crm_hdls := t, recovery_on_apply_fail := False, environ := e\<rparr>"
    using start by (auto simp: cam_req_mgr_component_master_bind_def cam_req_mgr_util_init_def cam_req_mgr_core_device_init_def
        cam_register_subdev_def demo_node_def)
  have "dev_reach kmd (log_core 0 0) (demo_node c1 boot_table 0)"
    by (rule dev_start [OF b]) (auto simp: boot_table_def demo_driver)
  from dev_next [OF this dev_core, of c] show ?case by (simp add: demo_node_def c crm_step.outside)
next
  case (step c c')
  from dev_next [OF step.IH dev_core, of c'] step.hyps(2) show ?case by (simp add: demo_node_def)
qed

lemma demo_open: "crm_reachable kmd c \<Longrightarrow> dev_reach kmd (log_core 0 0) (demo_node c up_table 1)"
proof -
  assume "crm_reachable kmd c"
  note r = demo_bound [OF this]
  have "cam_req_mgr_open (log_core 0 0) 0 (demo_node c boot_table 0) = (0, demo_node c up_table 1)"
    by (simp add: cam_req_mgr_open_def demo_node_def up_table_init)
  with r show ?thesis by (blast intro: dev_next dev_open)
qed

lemma demo_used: "crm_reachable kmd c \<Longrightarrow> dev_reach kmd (log_core 0 0) (demo_node c demo_table 1)"
proof -
  assume "crm_reachable kmd c"
  note r = demo_open [OF this]
  have "mem_op (log_core 0 0) up_table demo_table" by (rule mem_ops(1) [OF demo_alloc reach_wf [OF up_table_reach]])
  with dev_next [OF r dev_memory, of demo_table] show ?thesis by (simp add: demo_node_def)
qed

theorem device_node_invariant_witness:
  "crm_inv (rm_core (demo_node demo_state demo_table 1)) \<and> mem_wf (rm_mem (demo_node demo_state demo_table 1)) \<and>
   mt_state (rm_mem (demo_node demo_state demo_table 1))"
  using device_node_invariant [OF demo_used [OF demo_state_reachable]] by (simp add: cam_req_mgr_is_open_def demo_node_def)




end
