(* ===== verification/Cam_Req_Close.thy ===== *)
theory Cam_Req_Close
  imports Cam_Req_Dev_Props
begin

section \<open>Closing the node\<close>

text \<open>
  The last close of the node of the request manager, which is also what happens when the process of user space dies:
  every session is destroyed with its links, the sub-devices are shut down, all handles are freed and the memory
  manager gives every buffer back.
\<close>

subsection \<open>Handles that stay\<close>






subsection \<open>The shutdown of the core\<close>






subsection \<open>The close\<close>






end
