(* ===== verification/Spec2Isabelle.thy ===== *)
theory Spec2Isabelle
  imports Cam_Sync_Fence Cam_Hdl Cam_Workq Cam_Mem_Maps Cam_Packet_Cmds
    Cam_Crm_Props Cam_Crm_Requests Cam_Crm_Frames Cam_Crm_Defined Cam_Crm_Sessions
    Cam_Req_Close
begin

text \<open>
  Verification library for the camera drivers of this repository: the synchronisation framework of
  the camera kernel driver (\<open>src/camera-kernel/drivers/cam_sync\<close>), with the bridge to the kernel's dma
  fences, the handle table (\<open>cam_req_mgr/cam_req_mgr_util.c\<close>), the work queue
  (\<open>cam_req_mgr/cam_req_mgr_workq.c\<close>), the memory manager (\<open>cam_req_mgr/cam_mem_mgr.c\<close>) and the core
  (\<open>cam_req_mgr/cam_req_mgr_core.c\<close>, with \<open>cam_req_mgr_timer.c\<close>) and the device node
  (\<open>cam_req_mgr/cam_req_mgr_dev.c\<close>) of the request manager, and the parsers of the
  packets that user space hands to the drivers (\<open>cam_utils/cam_packet_util.c\<close>).

  \<^bold>\<open>The program.\<close> A sync object is a completion that drivers and user space share: it is created,
  handed around by number, signalled once with a final state (success, error, cancel) and destroyed.
  Clients wait for it, register kernel callbacks or user payloads on it, or merge several objects into
  a group object that completes when all its children have. A sync object may be tied to a dma fence,
  the kernel's own completion, in both directions: signalling the object signals the fence, and
  signalling the fence signals the object. User space reaches all this through the ioctls of a V4L2
  device node. The request manager names sessions and devices by 32-bit handles and runs deferred work
  on work queues with a fixed pool of tasks. The memory manager hands out buffers by 32-bit handles and maps
  them for the hardware contexts and the kernel. A driver gets its work as a packet in such a buffer; it
  validates the packet, patches device addresses of other buffers into the command buffers it names, and
  reads typed blobs from them.

  The core of the request manager keeps the devices of a camera in step. User space opens a session and
  links devices in it. A link has a ring of 48 requests, and for every pipeline delay among its devices a table
  with a slot for each place of the ring; a device sets its bit in the slot when its settings for a request
  have arrived. At every start of a frame the handler of the link's work queue checks whether all
  tables are ready at the place that belongs to their delay, has the devices apply their settings, and moves on. When
  a device reports an error the request may be repeated (a bubble); user space can flush requests; links may
  be synchronised so that they serve the same request on the same frame; a watchdog reports a link whose frames stop.
  The core calls the device drivers through their operations, and they call it back.

  \<^bold>\<open>The theories\<close>, in the order of the code:

  \<^item> \<open>Cam_Prelude\<close>: errnos, bitmaps with \<open>find_first_zero_bit\<close>, \<open>atomic_dec_and_test\<close>, words, the collections
    of proof rules.
  \<^item> \<open>Cam_Interfaces\<close>: the contracts the components share, as locales: slot tables (sync table, dma fence table,
    handle table and buffer table are interpretations) and one-shot objects (dma fences).
  \<^item> \<open>Cam_Dma_Fence\<close>: \<open>cam_sync_dma_fence.c\<close>. The fence table and all its operations; the Linux fence core is
    the record \<open>dma_fence_core\<close>, a parameter of every operation.
  \<^item> \<open>Cam_Sync_Util\<close>: the data of \<open>cam_sync_private.h\<close> and \<open>cam_sync_util.c\<close>: rows, groups, destruction, dispatch
    of a signal.
  \<^item> \<open>Cam_Sync\<close>: the kernel API of \<open>cam_sync.c\<close> (\<open>cam_sync_create\<close>, \<open>_signal\<close>, \<open>_merge\<close>, \<open>_register_callback\<close>,
    \<open>_wait\<close>, ...) and the two helpers of \<open>cam_utils/cam_common_util.c\<close> it uses.
  \<^item> \<open>Cam_Sync_Ioctl\<close>: the device node of \<open>cam_sync.c\<close>: every ioctl handler, the generic fence batches, open,
    close, poll, event subscription, the synx entry point and the binding of the component. User memory
    is a record of partial functions, one per structure that the handlers copy.
  \<^item> \<open>Cam_Sync_Inv\<close>, \<open>Cam_Sync_Merge\<close>: the invariant of the table and its preservation by each kernel
    operation; the effect of an operation on the table as an equation (\<open>signal_table\<close>, \<open>destroy_table\<close>,
    \<open>merged_table\<close>), from which the properties follow.
  \<^item> \<open>Cam_Sync_Reach\<close>: preservation by the ioctls, the step relation \<open>sync_step\<close> of the whole device and its
    reachable states. \<open>Cam_Sync_Demo\<close>: small devices on which the properties are instantiated.
  \<^item> \<open>Cam_Sync_Props\<close>: invariant, signalling, groups, and the refinement of groups to an abstract counter
    with the first failure. \<open>Cam_Sync_Life\<close>: creation, destruction, merging, callbacks, capacity.
    \<open>Cam_Sync_User\<close>: what user space sees: waiting, closing, ioctls and their error paths. \<open>Cam_Sync_Fence\<close>: the
    bridge between objects and dma fences, in both directions.
  \<^item> \<open>Cam_Hdl\<close>: \<open>cam_req_mgr_util.c\<close>: handle encoding, creation, lookup, destruction, stale handles, capacity.
  \<^item> \<open>Cam_Workq\<close>: \<open>cam_req_mgr_workq.c\<close>: task pool, priorities, the worker loop, flush, destruction.

  \<^item> \<open>Cam_Mem\<close>: \<open>cam_mem_mgr.c\<close> in the configuration with dma-buf heaps: the buffer table, allocation, import,
    mapping, release, cache maintenance, the requests of kernel drivers; the dma-buf framework and the SMMU
    driver are the record \<open>mem_core\<close>, a parameter. \<open>Cam_Mem_Inv\<close>: the effect of each operation on the table and
    the invariant in all reachable states. \<open>Cam_Mem_Props\<close>: fresh handles, protection, release, capacity.
    \<open>Cam_Mem_Maps\<close>: the hardware mappings that an operation leaves behind, and the failures at start-up.
  \<^item> \<open>Cam_Kmem\<close>: the byte memory that the packet parsers read and write, with framing lemmas. \<open>Cam_Packet\<close>:
    \<open>cam_packet_util.c\<close>, with the structures of \<open>cam_defs.h\<close> at their offsets. \<open>Cam_Packet_Props\<close>: validation,
    reads of a validated packet, patches. \<open>Cam_Packet_Cmds\<close>: command space of the kernel, generic command
    buffers, reports, buffer lists.

  \<^item> \<open>Cam_Crm\<close>: the data of \<open>cam_req_mgr_core.h\<close> and \<open>cam_req_mgr_interface.h\<close>, the state \<open>crm\<close>, lookups, timers and
    the functions on the tables. \<open>Cam_Crm_Apply\<close>: when a frame can be served, and the calls to the devices.
    \<open>Cam_Crm_Sync\<close>: the checks between synchronised links. \<open>Cam_Crm_Frame\<close>: the work of one frame.
    \<open>Cam_Crm_Queue\<close>, \<open>Cam_Crm_Tasks\<close>: the other handlers of the work queue (schedule, announce, flush, error, stop,
    trigger). \<open>Cam_Crm_Callbacks\<close>: what device drivers call, and the steps of the worker and the watchdog.
    \<open>Cam_Crm_Links\<close>, \<open>Cam_Crm_Ioctl\<close>, \<open>Cam_Crm_Control\<close>: sessions, links and all ioctls, the dump after a crash, the
    start and end of the device.
  \<^item> \<open>Cam_Crm_Ready\<close>: the recursive check of readiness in closed form. \<open>Cam_Crm_Inv\<close>, \<open>Cam_Crm_Keep\<close>,
    \<open>Cam_Crm_Handlers\<close>, \<open>Cam_Crm_Life\<close>, \<open>Cam_Crm_Setup\<close>: the invariant of a link and its preservation by the operations
    of each of the theories above. \<open>Cam_Crm_Reach\<close>: the step relation \<open>crm_step\<close> of the whole manager and its reachable
    states. \<open>Cam_Crm_Demo\<close>: a run on which the properties are instantiated.
  \<^item> \<open>Cam_Crm_Props\<close>: the invariant, and when a frame is served. \<open>Cam_Crm_Requests\<close>: scheduling, flushing,
    bubbles. \<open>Cam_Crm_Frames\<close>: calls to the devices and pairs of triggers. \<open>Cam_Crm_Defined\<close>: the handler of
    triggers always returns. \<open>Cam_Crm_Sessions\<close>: making links, pairing them, destroying sessions.
  \<^item> \<open>Cam_Req_Dev\<close>: \<open>cam_req_mgr_dev.c\<close>, the device node that joins the core and the memory manager: open, close, the
    ioctl with all its cases, events, sub-devices, binding. \<open>Cam_Req_Dev_Props\<close>: an ioctl is one step of one
    component; the invariants hold together. \<open>Cam_Req_Close\<close>: the close takes everything back.

  \<^bold>\<open>Conventions.\<close> A C function is a HOL function that returns its status (0 or a negated errno, an \<^typ>\<open>int\<close>),
  its results and the new state; each early return is a branch. A struct is a record with its fields, a
  table is a function from the index, a linked list the list of the members, a NULL pointer \<^const>\<open>None\<close>.
  Where the width of an integer matters (reference counts, the count of pending children, sizes and ids
  from user space, handles, timeouts) it is a word of that width. The outcome of an allocation is a
  boolean argument, the behaviour of the kernel (fence core, completions, V4L2, work queues) an
  argument of the operations that use it. Each operation holds the lock of the row it touches, so it is
  one atomic step; the step relations interleave the operations freely. In the work queue, where
  callbacks run without the lock, the worker is a step relation of its own and other clients act
  between and during its rounds. The packet parsers work on a memory of bytes, and \<^const>\<open>None\<close> stands for an
  access outside mapped memory; other processors do not write to a packet during a call. In the
  core of the request manager, \<^const>\<open>None\<close> as a result stands for behaviour that C does not define: a null pointer,
  an index outside an array, or a handle of one kind whose object is used as another (the code compares
  the first word of the object only, and that does not tell a session from a link). The device drivers are a function
  \<open>kmd\<close> from the number of a driver to its record of operations, which act on a state of their own and may
  answer anything; what they do to the table of handles is the step \<open>outside\<close>. The caller of a flush waits while the
  worker takes steps. Values that the code leaves uninitialised or keeps from an earlier use are arguments or are
  read from the old state. Log messages are left out.

  \<^bold>\<open>Loops and fuel.\<close> Loops over tables and lists are structural recursions, so nearly all operations are
  total. Three loops take fuel and return \<^const>\<open>None\<close> when it is used up. The rounds of the worker of a work
  queue depend on the callbacks; for callbacks that leave the queue alone, the number of queued tasks plus
  three rounds are enough, and this is part of the theorem. During a flush no callback runs and the same
  bound ends the loop. The loop over the patches of a packet reads its bound from memory that it may write;
  when it writes outside the packet, one round more than there are patches is enough. The walk over a
  generic command buffer needs one round more than the buffer has words. The theorems on these two loops
  state that the functions return.

  \<^bold>\<open>What is shown.\<close> The invariants of the sync table, the fence table, the handle table, the work queue and the
  buffer table hold in all reachable states and for every behaviour of the fence core, the memory core and
  user space. Signalling, merging, destruction, callbacks, handles and allocation have their functional
  behaviour, with errors; groups refine an abstract counter; the duplicate filter equals its
  specification; tables have their full capacity and never hand out an index twice; handles decode to what
  they were made from. Hardware mapping is all or nothing; protected buffers are never given to the kernel;
  released handles are refused. The validation of packets is exact, the readers of a validated packet stay
  inside it, patching equals the sequence of its patches, and the walk over blobs inverts their encoding.
  For the request manager: every link is bare or well-formed in every state that ioctls, callbacks, workers and the
  watchdog lead to; a new link is well-typed and only its handle leads to it; the check of readiness equals its closed
  form, and a frame is served only when each device that is not skipped has announced the request that its delay
  calls for; a scheduled request is found again by its number; a flush empties the ring; a bubble goes back to the
  request at fault; the devices are called once each, in order; two sources of triggers are paired; triggers on an
  unsynchronised link are always processed; the destruction of a session frees its links. The device node composes the core and the memory
  manager: their invariants hold together, and closing the node leaves no session, link, handle or buffer.
  Some theorems state what the code does where a comment or the neighbouring code says otherwise: early
  events on groups, groups starved by the destruction of a child, callbacks skipped by a close, an import
  that reports success, a fence signal that an unreferenced object misses, tasks lost by a flush, mappings
  left by a failed allocation, kernel buffers released by user space, packets that patch themselves, reads
  behind the end of a buffer, a link that is synchronised with itself.

  \<^bold>\<open>Not modelled.\<close> Within these files: debug printing and debugfs, lock initialisation, V4L2 and media
  registration beyond its status, module boilerplate. Of the request manager: probing, the set-up of the V4L2 and media
  devices beyond its status, debugfs; and the interleaving of a handler with ioctls inside one step, which the
  locks of the link mostly exclude. Of the camera driver: the SMMU driver, CDM, ISP, ICP, sensor and other hardware drivers, which mostly program
  registers. The pre-silicon variants of the memory manager are left out. Of the repository: the audio, display, video, WLAN, data, graphics and other trees, which are
  separate drivers that share no code with the camera driver.
\<close>

end
